(* ===== verification/Prelude.thy ===== *)
theory Prelude imports Main begin

section \<open>The Go fragment the models are written in\<close>

text \<open>
  This theory holds what every component of the model shares: error values, the type of a
  Go computation (a state transformer over an outside world which returns or panics), the
  record of third-party pure functions the code calls, and the rewrite rules that evaluate
  computations.

  A Go function with effects is modelled as a value of type \<open>('w, 'a) go\<close>: given the outside
  world \<open>'w\<close> (Azure, the Kubernetes API server, a client's own fields) it answers
  \<open>Returns x\<close> or \<open>Panics\<close> and the new world.  The operations of packages that are not part
  of the repository (Azure SDK, client-go, controller-runtime) are parameters of the
  definitions that call them.
\<close>

named_theorems go_simps "evaluation of Go computations"
named_theorems go_returns "inversion of a Go computation that returned"

subsection \<open>Error values\<close>

text \<open>
  A Go \<open>error\<close> is \<open>go_error option\<close>: \<open>None\<close> is \<open>nil\<close>.  \<open>ErrorText\<close> is built by
  \<open>errors.New\<close> and \<open>fmt.Errorf\<close>; \<open>SdkError\<close> and \<open>ApiError\<close> stand for the errors the Azure SDK
  and the API server answer, \<open>MultiError\<close> and \<open>WrapError\<close> for what go-multierror and
  pkg/errors make of them, \<open>WaitTimeout\<close> for \<open>wait.ErrWaitTimeout\<close> and \<open>EndOfFile\<close> for \<open>io.EOF\<close>.
\<close>

datatype go_error =
    ErrorText string
  | SdkError nat
  | ApiError nat
  | MultiError "go_error list"
  | WrapError string go_error
  | WaitTimeout
  | EndOfFile

text \<open>
  The part of an \<open>*http.Response\<close> the code reads: \<open>None\<close> is a nil response, \<open>Some c\<close> a
  response with status code \<open>c\<close>.
\<close>

type_synonym http_response = "int option"

definition StatusNotFound :: int where
  "StatusNotFound = 404"

definition StatusConflict :: int where
  "StatusConflict = 409"

lemma status_codes_distinct [simp]: "StatusNotFound \<noteq> StatusConflict" "StatusConflict \<noteq> StatusNotFound"
  by (simp_all add: StatusNotFound_def StatusConflict_def)

subsection \<open>Third-party pure functions\<close>

text \<open>
  The pure functions of third-party packages are the fields of one record, passed to every
  definition that calls one of them.  \<open>lib_ok\<close> collects the documented behaviour the
  theorems rely on; \<open>std_lib\<close> is a concrete instance, used by the witnesses.

  \<^item> \<open>IsHTTPStatus\<close>, \<open>HasHTTPStatus\<close>: go-autorest, \<open>autorest.Response\<close>;
  \<^item> \<open>multierror\<close>: \<open>multierror.Append(e1, e2, ...).ErrorOrNil()\<close> of go-multierror;
  \<^item> \<open>IsNotFound\<close>, \<open>IgnoreNotFound\<close>: apimachinery and controller-runtime;
  \<^item> \<open>errors_Wrap\<close>: pkg/errors on a non-nil error;
  \<^item> \<open>error_text\<close>: the \<open>Error()\<close> method of an error value;
  \<^item> \<open>cmp_Equal_ptr\<close>, \<open>cmp_Equal_string\<close>, \<open>cmp_Equal_strings\<close>: go-cmp at \<open>*string\<close>, \<open>string\<close>
    and \<open>[]string\<close>; a nil and an empty slice are the same list here but differ for go-cmp, so nothing
    is said about two slices without elements.
\<close>

record lib =
  IsHTTPStatus :: "http_response \<Rightarrow> int \<Rightarrow> bool"
  HasHTTPStatus :: "http_response \<Rightarrow> int list \<Rightarrow> bool"
  multierror :: "go_error option list \<Rightarrow> go_error option"
  IsNotFound :: "go_error \<Rightarrow> bool"
  IgnoreNotFound :: "go_error option \<Rightarrow> go_error option"
  errors_Wrap :: "go_error \<Rightarrow> string \<Rightarrow> go_error"
  error_text :: "go_error \<Rightarrow> string"
  cmp_Equal_ptr :: "string option \<Rightarrow> string option \<Rightarrow> bool"
  cmp_Equal_string :: "string \<Rightarrow> string \<Rightarrow> bool"
  cmp_Equal_strings :: "string list \<Rightarrow> string list \<Rightarrow> bool"

definition lib_ok :: "lib \<Rightarrow> bool" where
  "lib_ok L \<longleftrightarrow>
     (\<forall>r c. IsHTTPStatus L r c \<longleftrightarrow> r = Some c) \<and>
     (\<forall>r cs. HasHTTPStatus L r cs \<longleftrightarrow> (\<exists>c. c \<in> set cs \<and> r = Some c)) \<and>
     (\<forall>es. multierror L es = None \<longleftrightarrow> set es \<subseteq> {None}) \<and>
     (\<forall>e. IgnoreNotFound L e = (case e of None \<Rightarrow> None | Some x \<Rightarrow> if IsNotFound L x then None else e)) \<and>
     (\<forall>p q. cmp_Equal_ptr L p q \<longleftrightarrow> p = q) \<and>
     (\<forall>s t. cmp_Equal_string L s t \<longleftrightarrow> s = t) \<and>
     (\<forall>xs ys. xs \<noteq> [] \<or> ys \<noteq> [] \<longrightarrow> (cmp_Equal_strings L xs ys \<longleftrightarrow> xs = ys))"

definition std_lib :: lib where
  "std_lib = \<lparr>
     IsHTTPStatus = (\<lambda>r c. r = Some c),
     HasHTTPStatus = (\<lambda>r cs. case r of None \<Rightarrow> False | Some c \<Rightarrow> List.member cs c),
     multierror = (\<lambda>es. if list_all (\<lambda>e. e = None) es then None
                         else Some (MultiError (map the (filter (\<lambda>e. e \<noteq> None) es)))),
     IsNotFound = (\<lambda>e. e = ApiError 404),
     IgnoreNotFound = (\<lambda>e. case e of None \<Rightarrow> None | Some x \<Rightarrow> if x = ApiError 404 then None else e),
     errors_Wrap = (\<lambda>e msg. WrapError msg e),
     error_text = (\<lambda>e. case e of ErrorText t \<Rightarrow> t | _ \<Rightarrow> ''error''),
     cmp_Equal_ptr = (=),
     cmp_Equal_string = (=),
     cmp_Equal_strings = (=)\<rparr>"

lemma std_lib_simps [simp]:
  "IsHTTPStatus std_lib r c = (r = Some c)"
  "HasHTTPStatus std_lib r cs = (case r of None \<Rightarrow> False | Some c \<Rightarrow> List.member cs c)"
  "IsNotFound std_lib e = (e = ApiError 404)"
  "IgnoreNotFound std_lib err = (case err of None \<Rightarrow> None | Some x \<Rightarrow> if x = ApiError 404 then None else err)"
  "errors_Wrap std_lib e msg = WrapError msg e"
  "cmp_Equal_ptr std_lib p q = (p = q)"
  "cmp_Equal_string std_lib s t = (s = t)"
  "cmp_Equal_strings std_lib xs ys = (xs = ys)"
  "multierror std_lib es =
     (if list_all (\<lambda>e. e = None) es then None
      else Some (MultiError (map the (filter (\<lambda>e. e \<noteq> None) es))))"
  by (simp_all add: std_lib_def)

lemma lib_ok_std_lib [simp]: "lib_ok std_lib"
  unfolding lib_ok_def
  by (auto simp: list_all_iff split: option.splits)

lemma lib_okD:
  assumes "lib_ok L"
  shows "IsHTTPStatus L r c \<longleftrightarrow> r = Some c"
    and "HasHTTPStatus L r cs \<longleftrightarrow> (\<exists>c. c \<in> set cs \<and> r = Some c)"
    and "multierror L es = None \<longleftrightarrow> set es \<subseteq> {None}"
    and "IgnoreNotFound L e = (case e of None \<Rightarrow> None | Some x \<Rightarrow> if IsNotFound L x then None else e)"
    and "cmp_Equal_ptr L p q \<longleftrightarrow> p = q"
    and "cmp_Equal_string L s t \<longleftrightarrow> s = t"
    and "xs \<noteq> [] \<or> ys \<noteq> [] \<Longrightarrow> cmp_Equal_strings L xs ys \<longleftrightarrow> xs = ys"
  using assms unfolding lib_ok_def by simp_all

lemma multierror_pair [simp]:
  "lib_ok L \<Longrightarrow> multierror L [a, b] = None \<longleftrightarrow> a = None \<and> b = None"
  by (auto simp: lib_okD(3))

subsection \<open>Computations\<close>

datatype 'a outcome = Returns 'a | Panics

type_synonym ('w, 'a) go = "'w \<Rightarrow> 'a outcome \<times> 'w"

definition go_ret :: "'a \<Rightarrow> ('w, 'a) go" where
  "go_ret x = (\<lambda>w. (Returns x, w))"

definition go_panic :: "('w, 'a) go" where
  "go_panic = (\<lambda>w. (Panics, w))"

definition go_bind :: "('w, 'a) go \<Rightarrow> ('a \<Rightarrow> ('w, 'b) go) \<Rightarrow> ('w, 'b) go" where
  "go_bind m k = (\<lambda>w. case m w of (Returns x, w') \<Rightarrow> k x w' | (Panics, w') \<Rightarrow> (Panics, w'))"

text \<open>Dereferencing a pointer: a nil pointer panics.\<close>

definition go_deref :: "'a option \<Rightarrow> ('w, 'a) go" where
  "go_deref p = (case p of None \<Rightarrow> go_panic | Some x \<Rightarrow> go_ret x)"

lemma go_ret_apply [go_simps]: "go_ret x w = (Returns x, w)"
  by (simp add: go_ret_def)

lemma go_panic_apply [go_simps]: "go_panic w = (Panics, w)"
  by (simp add: go_panic_def)

lemma go_bind_apply:
  "go_bind m k w = (case m w of (Returns x, w') \<Rightarrow> k x w' | (Panics, w') \<Rightarrow> (Panics, w'))"
  by (simp add: go_bind_def)

lemma go_bind_ret [go_simps]: "go_bind (go_ret x) k = k x"
  by (simp add: go_bind_def go_ret_def)

lemma go_bind_panic [go_simps]: "go_bind go_panic k = go_panic"
  by (simp add: go_bind_def go_panic_def)

lemma go_bind_ret_right [go_simps]: "go_bind m go_ret = m"
  by (auto simp: go_bind_def go_ret_def fun_eq_iff split: prod.splits outcome.splits)

lemma go_bind_assoc: "go_bind (go_bind m f) g = go_bind m (\<lambda>x. go_bind (f x) g)"
  by (auto simp: go_bind_def fun_eq_iff split: prod.splits outcome.splits)

text \<open>A choice in front of a computation is moved outward.\<close>

lemma go_bind_choice:
  "go_bind (case x of None \<Rightarrow> m | Some y \<Rightarrow> f y) k =
     (case x of None \<Rightarrow> go_bind m k | Some y \<Rightarrow> go_bind (f y) k)"
  "go_bind (if b then m else n) k = (if b then go_bind m k else go_bind n k)"
  by (cases x) simp_all

lemma go_deref_simps [go_simps]: "go_deref None = go_panic" "go_deref (Some x) = go_ret x"
  by (simp_all add: go_deref_def)

lemma go_bind_step [go_simps]: "m w = (Returns x, w') \<Longrightarrow> go_bind m k w = k x w'"
  by (simp add: go_bind_def)

lemma go_bind_step_panic [go_simps]: "m w = (Panics, w') \<Longrightarrow> go_bind m k w = (Panics, w')"
  by (simp add: go_bind_def)

text \<open>A computation that returned was built from computations that returned.\<close>

lemma go_ret_Returns [go_returns]: "go_ret x w = (Returns y, w') \<longleftrightarrow> y = x \<and> w' = w"
  by (auto simp: go_ret_def)

lemma go_panic_Returns [go_returns]: "go_panic w = (Returns y, w') \<longleftrightarrow> False"
  by (simp add: go_panic_def)

lemma go_bind_Returns [go_returns]:
  "go_bind m k w = (Returns y, w'') \<longleftrightarrow> (\<exists>x w'. m w = (Returns x, w') \<and> k x w' = (Returns y, w''))"
  by (auto simp: go_bind_def split: prod.splits outcome.splits)

lemma go_deref_Returns [go_returns]: "go_deref p w = (Returns y, w') \<longleftrightarrow> p = Some y \<and> w' = w"
  by (auto simp: go_deref_def go_ret_def go_panic_def split: option.splits)

text \<open>A result that is an early return or a value to go on with.\<close>

lemma early_return_Returns:
  "(case r of Inl a \<Rightarrow> m a | Inr b \<Rightarrow> n b) s = (Returns y, s') \<longleftrightarrow>
     (\<exists>a. r = Inl a \<and> m a s = (Returns y, s')) \<or> (\<exists>b. r = Inr b \<and> n b s = (Returns y, s'))"
  by (cases r) simp_all

subsection \<open>Triples\<close>

text \<open>
  \<open>triple P m Q X\<close>: started in a state satisfying \<open>P\<close>, \<open>m\<close> returns a result and a state
  satisfying \<open>Q\<close>, or panics in a state satisfying \<open>X\<close>.  There is no third outcome: a
  computation is a total function.
\<close>

definition triple :: "('s \<Rightarrow> bool) \<Rightarrow> ('s, 'a) go \<Rightarrow> ('a \<Rightarrow> 's \<Rightarrow> bool) \<Rightarrow> ('s \<Rightarrow> bool) \<Rightarrow> bool" where
  "triple P m Q X \<longleftrightarrow>
     (\<forall>s. P s \<longrightarrow> (case m s of (Returns x, s') \<Rightarrow> Q x s' | (Panics, s') \<Rightarrow> X s'))"

named_theorems triples "rules for triples, one per construct"

lemma tripleI:
  assumes "\<And>s x s'. P s \<Longrightarrow> m s = (Returns x, s') \<Longrightarrow> Q x s'"
    and "\<And>s s'. P s \<Longrightarrow> m s = (Panics, s') \<Longrightarrow> X s'"
  shows "triple P m Q X"
  using assms by (auto simp: triple_def split: prod.splits outcome.splits)

lemma tripleD_Returns: "triple P m Q X \<Longrightarrow> P s \<Longrightarrow> m s = (Returns x, s') \<Longrightarrow> Q x s'"
  by (force simp: triple_def)

lemma tripleD_Panics: "triple P m Q X \<Longrightarrow> P s \<Longrightarrow> m s = (Panics, s') \<Longrightarrow> X s'"
  by (force simp: triple_def)

lemma triple_conseq:
  assumes "triple P' m Q' X'" and "\<And>s. P s \<Longrightarrow> P' s" and "\<And>x s. Q' x s \<Longrightarrow> Q x s"
    and "\<And>s. X' s \<Longrightarrow> X s"
  shows "triple P m Q X"
proof (rule tripleI)
  show "Q x s'" if "P s" "m s = (Returns x, s')" for s x s'
    using tripleD_Returns [OF assms(1) assms(2) [OF that(1)] that(2)] by (rule assms(3))
  show "X s'" if "P s" "m s = (Panics, s')" for s s'
    using tripleD_Panics [OF assms(1) assms(2) [OF that(1)] that(2)] by (rule assms(4))
qed

lemma triple_pre: "triple P' m Q X \<Longrightarrow> (\<And>s. P s \<Longrightarrow> P' s) \<Longrightarrow> triple P m Q X"
  by (simp add: triple_def)

lemma triple_ret [triples]: "(\<And>s. P s \<Longrightarrow> Q x s) \<Longrightarrow> triple P (go_ret x) Q X"
  by (simp add: triple_def go_ret_def)

lemma triple_panic [triples]: "(\<And>s. P s \<Longrightarrow> X s) \<Longrightarrow> triple P go_panic Q X"
  by (simp add: triple_def go_panic_def)

text \<open>The first computation comes first among the premises: \<open>(rule triples)+\<close> works on it first
  and so finds the assertion between the two.\<close>

lemma triple_bind [triples]:
  assumes "triple P m R X" and "\<And>x. triple (R x) (k x) Q X"
  shows "triple P (go_bind m k) Q X"
proof (rule tripleI)
  fix s y s'
  assume P: "P s" and "go_bind m k s = (Returns y, s')"
  then obtain x s1 where m: "m s = (Returns x, s1)" and k: "k x s1 = (Returns y, s')"
    by (auto simp: go_bind_Returns)
  from assms(2) tripleD_Returns [OF assms(1) P m] k show "Q y s'"
    by (rule tripleD_Returns)
next
  fix s s'
  assume P: "P s" and run: "go_bind m k s = (Panics, s')"
  show "X s'"
  proof (cases "m s")
    case (Pair r s1)
    show ?thesis
    proof (cases r)
      case (Returns x)
      with Pair run have k: "k x s1 = (Panics, s')" by (simp add: go_bind_def)
      from Pair Returns have m: "m s = (Returns x, s1)" by simp
      from assms(2) tripleD_Returns [OF assms(1) P m] k show ?thesis
        by (rule tripleD_Panics)
    next
      case Panics
      with Pair run have "m s = (Panics, s')" by (simp add: go_bind_def)
      with assms(1) P show ?thesis by (rule tripleD_Panics)
    qed
  qed
qed

lemma triple_if [triples]:
  "(b \<Longrightarrow> triple P m Q X) \<Longrightarrow> (\<not> b \<Longrightarrow> triple P n Q X) \<Longrightarrow> triple P (if b then m else n) Q X"
  by simp

lemma triple_case_option [triples]:
  "(x = None \<Longrightarrow> triple P m Q X) \<Longrightarrow> (\<And>y. x = Some y \<Longrightarrow> triple P (f y) Q X) \<Longrightarrow>
   triple P (case x of None \<Rightarrow> m | Some y \<Rightarrow> f y) Q X"
  by (cases x) simp_all

lemma triple_case_prod [triples]:
  "(\<And>a b. x = (a, b) \<Longrightarrow> triple P (f a b) Q X) \<Longrightarrow> triple P (case x of (a, b) \<Rightarrow> f a b) Q X"
  by (cases x) simp

lemma triple_let [triples]: "triple P (f x) Q X \<Longrightarrow> triple P (let y = x in f y) Q X"
  by (simp add: Let_def)

text \<open>\<open>keeps P m\<close>: \<open>P\<close> is stable under \<open>m\<close>, whether it returns or panics.\<close>

definition keeps :: "('s \<Rightarrow> bool) \<Rightarrow> ('s, 'a) go \<Rightarrow> bool" where
  "keeps P m \<longleftrightarrow> triple P m (\<lambda>_. P) P"

lemma keepsI: "(\<And>s. P s \<Longrightarrow> P (snd (m s))) \<Longrightarrow> keeps P m"
  unfolding keeps_def by (rule tripleI) (metis snd_conv)+

lemma keepsD: "keeps P m \<Longrightarrow> P s \<Longrightarrow> P (snd (m s))"
  unfolding keeps_def by (cases "m s"; cases "fst (m s)") (auto dest: tripleD_Returns tripleD_Panics)

lemma keeps_triple: "keeps P m \<Longrightarrow> (\<And>x s. P s \<Longrightarrow> Q x s) \<Longrightarrow> (\<And>s. P s \<Longrightarrow> X s) \<Longrightarrow> triple P m Q X"
  unfolding keeps_def by (erule triple_conseq)

lemma keeps_disj: "keeps P m \<Longrightarrow> keeps Q m \<Longrightarrow> keeps (\<lambda>s. P s \<or> Q s) m"
  by (rule keepsI) (auto dest: keepsD)

lemma triple_conj:
  assumes "triple P m Q X" and "triple P' m Q' X'"
  shows "triple (\<lambda>s. P s \<and> P' s) m (\<lambda>x s. Q x s \<and> Q' x s) (\<lambda>s. X s \<and> X' s)"
  by (rule tripleI)
    (use tripleD_Returns [OF assms(1)] tripleD_Returns [OF assms(2)]
         tripleD_Panics [OF assms(1)] tripleD_Panics [OF assms(2)] in blast)+

subsection \<open>Running an operation of a component inside a larger state\<close>

text \<open>
  A client object is a pair of its own fields and the outside world behind it.
  \<open>on_world\<close> runs an operation that only changes the world, \<open>on_self\<close> an update of the
  client's fields.
\<close>

definition on_world :: "('c \<Rightarrow> ('w, 'a) go) \<Rightarrow> ('c \<times> 'w, 'a) go" where
  "on_world m = (\<lambda>s. case m (fst s) (snd s) of (r, w') \<Rightarrow> (r, (fst s, w')))"

definition on_self :: "('c \<Rightarrow> 'c \<times> 'a) \<Rightarrow> ('c \<times> 'w, 'a) go" where
  "on_self f = (\<lambda>s. case f (fst s) of (c', x) \<Rightarrow> (Returns x, (c', snd s)))"

lemma on_world_Returns [go_returns]:
  "on_world m s = (Returns x, s') \<longleftrightarrow>
     (\<exists>w'. m (fst s) (snd s) = (Returns x, w') \<and> s' = (fst s, w'))"
  by (auto simp: on_world_def split: prod.splits)

lemma on_self_Returns [go_returns]:
  "on_self f s = (Returns x, s') \<longleftrightarrow> f (fst s) = (fst s', x) \<and> snd s' = snd s"
  by (cases s') (auto simp: on_self_def split: prod.splits)

subsection \<open>Strings\<close>

text \<open>\<open>strings.EqualFold\<close> of the standard library, on the ASCII letters.\<close>

definition to_lower :: "char \<Rightarrow> char" where
  "to_lower c = (if 65 \<le> (of_char c :: nat) \<and> (of_char c :: nat) \<le> 90
                 then char_of ((of_char c :: nat) + 32) else c)"

definition EqualFold :: "string \<Rightarrow> string \<Rightarrow> bool" where
  "EqualFold s t \<longleftrightarrow> map to_lower s = map to_lower t"

lemma EqualFold_refl [simp]: "EqualFold s s"
  by (simp add: EqualFold_def)

lemma EqualFold_sym: "EqualFold s t \<Longrightarrow> EqualFold t s"
  by (simp add: EqualFold_def)

lemma EqualFold_trans: "EqualFold s t \<Longrightarrow> EqualFold t u \<Longrightarrow> EqualFold s u"
  by (simp add: EqualFold_def)

text \<open>\<open>strings.Split(s, sep)\<close> for a separator of one character.\<close>

fun split_on :: "char \<Rightarrow> string \<Rightarrow> string list" where
  "split_on sep [] = [[]]"
| "split_on sep (c # cs) =
     (if c = sep then [] # split_on sep cs
      else (case split_on sep cs of [] \<Rightarrow> [[c]] | w # ws \<Rightarrow> (c # w) # ws))"

lemma split_on_not_Nil [simp]: "split_on sep s \<noteq> []"
  by (induction s) (auto split: list.splits)

lemma split_on_no_sep: "sep \<notin> set s \<Longrightarrow> split_on sep s = [s]"
  by (induction s) auto

lemma split_on_parts: "p \<in> set (split_on sep s) \<Longrightarrow> sep \<notin> set p"
  by (induction s arbitrary: p) (auto split: if_splits list.splits)

lemma split_on_append:
  "\<exists>ws. ws \<noteq> [] \<and> split_on sep (s @ sep # t) = ws @ split_on sep t"
proof (induction s)
  case Nil
  then show ?case by (intro exI [of _ "[[]]"]) simp
next
  case (Cons c s)
  then obtain w ws where ws: "split_on sep (s @ sep # t) = (w # ws) @ split_on sep t"
    by (metis neq_Nil_conv)
  show ?case
  proof (cases "c = sep")
    case True
    with ws show ?thesis by (intro exI [of _ "[] # w # ws"]) simp
  next
    case False
    with ws show ?thesis by (intro exI [of _ "(c # w) # ws"]) simp
  qed
qed

lemma last_split_on_append:
  assumes "sep \<notin> set t"
  shows "last (split_on sep (s @ sep # t)) = t"
proof -
  obtain ws where "split_on sep (s @ sep # t) = ws @ split_on sep t"
    using split_on_append by blast
  with assms show ?thesis by (simp add: split_on_no_sep)
qed

end
