(* ===== verification/Api_Types.thy ===== *)
theory Api_Types imports Prelude begin

section \<open>The custom resources (api/v1alpha1)\<close>

text \<open>
  One record per Go struct of \<open>api/v1alpha1\<close>, with the source's fields in the source's order
  behind a short prefix.  A pointer field is an option (\<open>None\<close> is nil), a slice a list, an
  \<open>int32\<close> or \<open>int64\<close> an \<open>int\<close> (no code of the repository computes with them, except the
  conversion of the probe ports, which the load balancer theory writes out), a named string type a \<open>string\<close>, and the map of a
  secret bundle the list of its entries in the order a \<open>range\<close> visits them.

  Every resource has the shape \<open>TypeMeta, ObjectMeta, Spec, Status\<close>, the record \<open>crd\<close>;
  \<open>runtime_object\<close> is the Go interface \<open>runtime.Object\<close> with one constructor per dynamic
  type, so that a type assertion is a case distinction.
\<close>

subsection \<open>Metadata\<close>

text \<open>
  The fields of \<open>metav1.ObjectMeta\<close> the code reads.  \<open>om_DeletionTimestamp\<close> is \<open>None\<close> when
  \<open>GetDeletionTimestamp().IsZero()\<close> holds.
\<close>

record object_meta =
  om_Name :: string
  om_Namespace :: string
  om_UID :: string
  om_Finalizers :: "string list"
  om_DeletionTimestamp :: "nat option"

record ('spec, 'status) crd =
  TypeMeta :: string
  ObjectMeta :: object_meta
  Spec :: 'spec
  Status :: 'status

subsection \<open>Specs and statuses\<close>

record ResourceGroupSpec =
  rgs_Name :: string
  rgs_Location :: string
  rgs_SubscriptionID :: string

record ResourceGroupStatus =
  rgst_ProvisioningState :: "string option"
  rgst_ID :: "string option"
  rgst_ObservedGeneration :: int

record VirtualNetworkSpec =
  vns_Name :: string
  vns_Location :: string
  vns_ResourceGroup :: string
  vns_SubscriptionID :: string
  vns_Addresses :: "string list"

record VirtualNetworkStatus =
  vnst_ProvisioningState :: "string option"
  vnst_ID :: "string option"
  vnst_ObservedGeneration :: int

record SubnetSpec =
  sns_Name :: string
  sns_ResourceGroup :: string
  sns_SubscriptionID :: string
  sns_Network :: string
  sns_Subnet :: string

record SubnetStatus =
  snst_ProvisioningState :: "string option"
  snst_ID :: "string option"
  snst_ObservedGeneration :: int

record SecurityRule =
  sr_Name :: string
  sr_Protocol :: string
  sr_SourcePortRange :: "string option"
  sr_DestinationPortRange :: "string option"
  sr_SourceAddressPrefix :: "string option"
  sr_DestinationAddressPrefix :: "string option"
  sr_Access :: string
  sr_Priority :: "int option"
  sr_Direction :: string

record SecurityGroupSpec =
  sgs_Name :: string
  sgs_Location :: string
  sgs_ResourceGroup :: string
  sgs_SubscriptionID :: string
  sgs_Rules :: "SecurityRule list"

record SecurityGroupStatus =
  sgst_ProvisioningState :: "string option"
  sgst_ID :: "string option"
  sgst_ObservedGeneration :: int

record PublicIPSpec =
  pis_Name :: string
  pis_Location :: string
  pis_ResourceGroup :: string
  pis_SubscriptionID :: string
  pis_SKU :: "string option"

record PublicIPStatus =
  pist_ProvisioningState :: "string option"
  pist_ID :: "string option"
  pist_ObservedGeneration :: int

record ResourceReference =
  rr_Name :: string
  rr_ResourceGroup :: string
  rr_SubscriptionID :: string

record BackendPoolReference =
  bpr_Name :: string
  bpr_LoadBalancer :: string
  bpr_ResourceGroup :: string
  bpr_SubscriptionID :: string

record InterfaceIPConfig =
  iic_PublicIP :: "ResourceReference option"
  iic_PrivateIP :: "string option"
  iic_LoadBalancers :: "BackendPoolReference list option"

record NetworkInterfaceSpec =
  nis_Name :: string
  nis_Location :: string
  nis_ResourceGroup :: string
  nis_SubscriptionID :: string
  nis_Network :: string
  nis_Subnet :: string
  nis_IPConfigurations :: "InterfaceIPConfig list option"

record NetworkInterfaceStatus =
  nist_ProvisioningState :: "string option"
  nist_ID :: "string option"
  nist_ObservedGeneration :: "int option"

record RuleSpec =
  rule_Name :: string
  rule_Frontend :: string
  rule_BackendPool :: string
  rule_Probe :: string
  rule_Protocol :: string
  rule_FrontendPort :: int
  rule_BackendPort :: int

record LoadBalancerSpec =
  lbs_Name :: string
  lbs_Location :: string
  lbs_ResourceGroup :: string
  lbs_SubscriptionID :: string
  lbs_SKU :: "string option"
  lbs_Frontends :: "string list"
  lbs_BackendPools :: "string list"
  lbs_Rules :: "RuleSpec list option"
  lbs_Probes :: "int list option"

record LoadBalancerStatus =
  lbst_ProvisioningState :: "string option"
  lbst_ID :: "string option"
  lbst_ObservedGeneration :: int

record VMSpec =
  vms_Name :: string
  vms_Location :: string
  vms_Zone :: "string option"
  vms_ResourceGroup :: string
  vms_SubscriptionID :: string
  vms_SKU :: string
  vms_CustomData :: "string option"
  vms_SSHPublicKey :: string
  vms_PrimaryNIC :: string
  vms_SecondaryNICs :: "string list option"
  vms_DiskSize :: int

record VMStatus =
  vmst_ProvisioningState :: "string option"
  vmst_ID :: "string option"
  vmst_Zone :: "string option"

record VMScaleSetSpec =
  vsss_Name :: string
  vsss_Location :: string
  vsss_SubscriptionID :: string

record VMScaleSetStatus =
  vssst_ProvisioningState :: "string option"
  vssst_ID :: "string option"

record IdentitySpec =
  ids_Name :: string
  ids_Location :: string
  ids_ResourceGroup :: string
  ids_SubscriptionID :: string

record IdentityStatus =
  idst_ProvisioningState :: "string option"
  idst_ID :: "string option"
  idst_ObservedGeneration :: int

record KeyvaultSpec =
  kvs_Name :: string
  kvs_Location :: string
  kvs_ResourceGroup :: string
  kvs_SubscriptionID :: string
  kvs_TenantID :: string

record KeyvaultStatus =
  kvst_ID :: "string option"

record SecretIdentifier =
  si_Name :: string
  si_Vault :: string
  si_Kind :: "string option"
  si_Reverse :: bool

record SecretSpec =
  secs_SecretIdentifier :: SecretIdentifier
  secs_FriendlyName :: "string option"
  secs_Location :: "string option"
  secs_ResourceGroup :: "string option"
  secs_SubscriptionID :: "string option"

record SecretStatus =
  secst_State :: "string option"

record SecretBundleSpec =
  sbs_Name :: string
  sbs_Secrets :: "(string \<times> SecretIdentifier) list"

record SecretBundleStatus =
  sbst_Secrets :: "string \<rightharpoonup> string"
  sbst_State :: "string option"

record TLSSecretSpec =
  tlss_Name :: string
  tlss_Vault :: string
  tlss_Reverse :: bool

record TLSSecretStatus =
  tlsst_State :: "string option"

record DockerConfigSpec =
  dcs_Username :: string
  dcs_Password :: string
  dcs_Vault :: string
  dcs_Email :: string
  dcs_Server :: string

record RedisSku =
  rsku_Name :: string
  rsku_Family :: string
  rsku_Capacity :: int

record RedisSpec =
  rds_Name :: string
  rds_Location :: string
  rds_ResourceGroup :: string
  rds_SubscriptionID :: string
  rds_SKU :: RedisSku
  rds_EnableNonSslPort :: bool
  rds_TargetSecret :: "string option"
  rds_PrimaryKey :: "string option"
  rds_SecondaryKey :: "string option"

record RedisStatus =
  rdst_ProvisioningState :: string
  rdst_ID :: "string option"
  rdst_ObservedGeneration :: int

record RedisKeySpec =
  rks_Name :: string
  rks_ResourceGroup :: string
  rks_SubscriptionID :: string
  rks_TargetSecret :: string
  rks_PrimaryKey :: "string option"
  rks_SecondaryKey :: "string option"

record RedisKeyStatus =
  rkst_ProvisioningState :: "string option"

record ServiceBusNamespaceSku =
  sbsku_Name :: string
  sbsku_Tier :: string
  sbsku_Capacity :: int

record ServiceBusNamespaceSpec =
  sbns_Name :: string
  sbns_Location :: string
  sbns_ResourceGroup :: string
  sbns_SubscriptionID :: string
  sbns_SKU :: ServiceBusNamespaceSku
  sbns_TargetSecret :: "string option"
  sbns_PrimaryKey :: "string option"
  sbns_SecondaryKey :: "string option"
  sbns_PrimaryConnectionString :: "string option"
  sbns_SecondaryConnectionString :: "string option"

record ServiceBusNamespaceStatus =
  sbnst_ProvisioningState :: "string option"
  sbnst_ID :: "string option"
  sbnst_ObservedGeneration :: int

record ServiceBusKeySpec =
  sbks_Name :: string
  sbks_ResourceGroup :: string
  sbks_SubscriptionID :: string
  sbks_TargetSecret :: string
  sbks_PrimaryKey :: "string option"
  sbks_SecondaryKey :: "string option"
  sbks_PrimaryConnectionString :: "string option"
  sbks_SecondaryConnectionString :: "string option"

record ServiceBusKeyStatus =
  sbkst_ProvisioningState :: "string option"

record StorageAccountSpec =
  sas_Name :: string
  sas_Location :: string
  sas_ResourceGroup :: string
  sas_SubscriptionID :: string
  sas_TargetSecret :: "string option"
  sas_PrimaryKey :: "string option"

record StorageAccountStatus =
  sast_ProvisioningState :: "string option"
  sast_ID :: "string option"

record StorageKeySpec =
  sks_Name :: string
  sks_ResourceGroup :: string
  sks_SubscriptionID :: string
  sks_TargetSecret :: "string option"
  sks_PrimaryKey :: "string option"
  sks_PrimaryConnectionString :: "string option"

record StorageKeyStatus =
  skst_ProvisioningState :: "string option"
  skst_ID :: "string option"

record SQLServerSpec =
  sqls_Name :: string
  sqls_Location :: string
  sqls_ResourceGroup :: string
  sqls_SubscriptionID :: string
  sqls_AllowAzureServiceAccess :: "bool option"

record SQLServerStatus =
  sqlst_State :: "string option"
  sqlst_ID :: "string option"

record SQLFirewallRuleSpec =
  fws_Name :: string
  fws_Server :: string
  fws_ResourceGroup :: string
  fws_SubscriptionID :: string
  fws_Start :: string
  fws_End :: string

record SQLFirewallRuleStatus =
  fwst_State :: "string option"
  fwst_ID :: "string option"

record MonitorConfigCustomHeadersItem =
  mch_Name :: "string option"
  mch_Value :: "string option"

record MonitorConfigExpectedStatusCodeRangesItem =
  mcr_Min :: "int option"
  mcr_Max :: "int option"

record MonitorConfig =
  mc_Protocol :: string
  mc_Port :: "int option"
  mc_Path :: "string option"
  mc_IntervalInSeconds :: "int option"
  mc_TimeoutInSeconds :: "int option"
  mc_ToleratedNumberOfFailures :: "int option"
  mc_CustomHeaders :: "MonitorConfigCustomHeadersItem list option"
  mc_ExpectedStatusCodeRanges :: "MonitorConfigExpectedStatusCodeRangesItem list option"

record DNSConfig =
  dns_RelativeName :: "string option"
  dns_TTL :: "int option"

record EndpointProperties =
  ep_Target :: "string option"
  ep_Weight :: "int option"
  ep_Priority :: int
  ep_EndpointLocation :: string
  ep_CustomHeaders :: "MonitorConfigCustomHeadersItem list option"

record EndpointSpec =
  eps_Name :: string
  eps_Properties :: EndpointProperties

record EndpointStatus =
  epst_MonitorStatus :: string

record TrafficManagerSpec =
  tms_Name :: string
  tms_SubscriptionID :: string
  tms_ResourceGroup :: string
  tms_ProfileStatus :: string
  tms_TrafficRoutingMethod :: string
  tms_Endpoints :: "EndpointSpec list option"
  tms_DNSConfig :: DNSConfig
  tms_MonitorConfig :: MonitorConfig

record TrafficManagerStatus =
  tmst_ID :: "string option"
  tmst_FQDN :: "string option"
  tmst_ProfileStatus :: string
  tmst_ProfileMonitorStatus :: string
  tmst_EndpointStatus :: "EndpointStatus list option"

type_synonym DockerConfigStatus = unit

subsection \<open>The resources\<close>

type_synonym ResourceGroup = "(ResourceGroupSpec, ResourceGroupStatus) crd"
type_synonym VirtualNetwork = "(VirtualNetworkSpec, VirtualNetworkStatus) crd"
type_synonym Subnet = "(SubnetSpec, SubnetStatus) crd"
type_synonym SecurityGroup = "(SecurityGroupSpec, SecurityGroupStatus) crd"
type_synonym PublicIP = "(PublicIPSpec, PublicIPStatus) crd"
type_synonym NetworkInterface = "(NetworkInterfaceSpec, NetworkInterfaceStatus) crd"
type_synonym LoadBalancer = "(LoadBalancerSpec, LoadBalancerStatus) crd"
type_synonym VM = "(VMSpec, VMStatus) crd"
type_synonym VMScaleSet = "(VMScaleSetSpec, VMScaleSetStatus) crd"
type_synonym Identity = "(IdentitySpec, IdentityStatus) crd"
type_synonym Keyvault = "(KeyvaultSpec, KeyvaultStatus) crd"
type_synonym Secret = "(SecretSpec, SecretStatus) crd"
type_synonym SecretBundle = "(SecretBundleSpec, SecretBundleStatus) crd"
type_synonym TLSSecret = "(TLSSecretSpec, TLSSecretStatus) crd"
type_synonym DockerConfig = "(DockerConfigSpec, DockerConfigStatus) crd"
type_synonym Redis = "(RedisSpec, RedisStatus) crd"
type_synonym RedisKey = "(RedisKeySpec, RedisKeyStatus) crd"
type_synonym ServiceBusNamespace = "(ServiceBusNamespaceSpec, ServiceBusNamespaceStatus) crd"
type_synonym ServiceBusKey = "(ServiceBusKeySpec, ServiceBusKeyStatus) crd"
type_synonym StorageAccount = "(StorageAccountSpec, StorageAccountStatus) crd"
type_synonym StorageKey = "(StorageKeySpec, StorageKeyStatus) crd"
type_synonym SQLServer = "(SQLServerSpec, SQLServerStatus) crd"
type_synonym SQLFirewallRule = "(SQLFirewallRuleSpec, SQLFirewallRuleStatus) crd"
type_synonym TrafficManager = "(TrafficManagerSpec, TrafficManagerStatus) crd"

datatype runtime_object =
    ObjResourceGroup ResourceGroup
  | ObjVirtualNetwork VirtualNetwork
  | ObjSubnet Subnet
  | ObjSecurityGroup SecurityGroup
  | ObjPublicIP PublicIP
  | ObjNetworkInterface NetworkInterface
  | ObjLoadBalancer LoadBalancer
  | ObjVM VM
  | ObjVMScaleSet VMScaleSet
  | ObjIdentity Identity
  | ObjKeyvault Keyvault
  | ObjSecret Secret
  | ObjSecretBundle SecretBundle
  | ObjTLSSecret TLSSecret
  | ObjDockerConfig DockerConfig
  | ObjRedis Redis
  | ObjRedisKey RedisKey
  | ObjServiceBusNamespace ServiceBusNamespace
  | ObjServiceBusKey ServiceBusKey
  | ObjStorageAccount StorageAccount
  | ObjStorageKey StorageKey
  | ObjSQLServer SQLServer
  | ObjSQLFirewallRule SQLFirewallRule
  | ObjTrafficManager TrafficManager
  | ObjDeployment string object_meta
  | ObjOther string object_meta

datatype kind =
    KResourceGroup
  | KVirtualNetwork
  | KSubnet
  | KSecurityGroup
  | KPublicIP
  | KNetworkInterface
  | KLoadBalancer
  | KVM
  | KVMScaleSet
  | KIdentity
  | KKeyvault
  | KSecret
  | KSecretBundle
  | KTLSSecret
  | KDockerConfig
  | KRedis
  | KRedisKey
  | KServiceBusNamespace
  | KServiceBusKey
  | KStorageAccount
  | KStorageKey
  | KSQLServer
  | KSQLFirewallRule
  | KTrafficManager
  | KDeployment
  | KOther string

fun kind_of :: "runtime_object \<Rightarrow> kind" where
  "kind_of (ObjResourceGroup x) = KResourceGroup"
| "kind_of (ObjVirtualNetwork x) = KVirtualNetwork"
| "kind_of (ObjSubnet x) = KSubnet"
| "kind_of (ObjSecurityGroup x) = KSecurityGroup"
| "kind_of (ObjPublicIP x) = KPublicIP"
| "kind_of (ObjNetworkInterface x) = KNetworkInterface"
| "kind_of (ObjLoadBalancer x) = KLoadBalancer"
| "kind_of (ObjVM x) = KVM"
| "kind_of (ObjVMScaleSet x) = KVMScaleSet"
| "kind_of (ObjIdentity x) = KIdentity"
| "kind_of (ObjKeyvault x) = KKeyvault"
| "kind_of (ObjSecret x) = KSecret"
| "kind_of (ObjSecretBundle x) = KSecretBundle"
| "kind_of (ObjTLSSecret x) = KTLSSecret"
| "kind_of (ObjDockerConfig x) = KDockerConfig"
| "kind_of (ObjRedis x) = KRedis"
| "kind_of (ObjRedisKey x) = KRedisKey"
| "kind_of (ObjServiceBusNamespace x) = KServiceBusNamespace"
| "kind_of (ObjServiceBusKey x) = KServiceBusKey"
| "kind_of (ObjStorageAccount x) = KStorageAccount"
| "kind_of (ObjStorageKey x) = KStorageKey"
| "kind_of (ObjSQLServer x) = KSQLServer"
| "kind_of (ObjSQLFirewallRule x) = KSQLFirewallRule"
| "kind_of (ObjTrafficManager x) = KTrafficManager"
| "kind_of (ObjDeployment t m) = KDeployment"
| "kind_of (ObjOther t m) = KOther t"

fun obj_gvk :: "runtime_object \<Rightarrow> string" where
  "obj_gvk (ObjResourceGroup x) = TypeMeta x"
| "obj_gvk (ObjVirtualNetwork x) = TypeMeta x"
| "obj_gvk (ObjSubnet x) = TypeMeta x"
| "obj_gvk (ObjSecurityGroup x) = TypeMeta x"
| "obj_gvk (ObjPublicIP x) = TypeMeta x"
| "obj_gvk (ObjNetworkInterface x) = TypeMeta x"
| "obj_gvk (ObjLoadBalancer x) = TypeMeta x"
| "obj_gvk (ObjVM x) = TypeMeta x"
| "obj_gvk (ObjVMScaleSet x) = TypeMeta x"
| "obj_gvk (ObjIdentity x) = TypeMeta x"
| "obj_gvk (ObjKeyvault x) = TypeMeta x"
| "obj_gvk (ObjSecret x) = TypeMeta x"
| "obj_gvk (ObjSecretBundle x) = TypeMeta x"
| "obj_gvk (ObjTLSSecret x) = TypeMeta x"
| "obj_gvk (ObjDockerConfig x) = TypeMeta x"
| "obj_gvk (ObjRedis x) = TypeMeta x"
| "obj_gvk (ObjRedisKey x) = TypeMeta x"
| "obj_gvk (ObjServiceBusNamespace x) = TypeMeta x"
| "obj_gvk (ObjServiceBusKey x) = TypeMeta x"
| "obj_gvk (ObjStorageAccount x) = TypeMeta x"
| "obj_gvk (ObjStorageKey x) = TypeMeta x"
| "obj_gvk (ObjSQLServer x) = TypeMeta x"
| "obj_gvk (ObjSQLFirewallRule x) = TypeMeta x"
| "obj_gvk (ObjTrafficManager x) = TypeMeta x"
| "obj_gvk (ObjDeployment t m) = t"
| "obj_gvk (ObjOther t m) = t"

fun obj_meta :: "runtime_object \<Rightarrow> object_meta" where
  "obj_meta (ObjResourceGroup x) = ObjectMeta x"
| "obj_meta (ObjVirtualNetwork x) = ObjectMeta x"
| "obj_meta (ObjSubnet x) = ObjectMeta x"
| "obj_meta (ObjSecurityGroup x) = ObjectMeta x"
| "obj_meta (ObjPublicIP x) = ObjectMeta x"
| "obj_meta (ObjNetworkInterface x) = ObjectMeta x"
| "obj_meta (ObjLoadBalancer x) = ObjectMeta x"
| "obj_meta (ObjVM x) = ObjectMeta x"
| "obj_meta (ObjVMScaleSet x) = ObjectMeta x"
| "obj_meta (ObjIdentity x) = ObjectMeta x"
| "obj_meta (ObjKeyvault x) = ObjectMeta x"
| "obj_meta (ObjSecret x) = ObjectMeta x"
| "obj_meta (ObjSecretBundle x) = ObjectMeta x"
| "obj_meta (ObjTLSSecret x) = ObjectMeta x"
| "obj_meta (ObjDockerConfig x) = ObjectMeta x"
| "obj_meta (ObjRedis x) = ObjectMeta x"
| "obj_meta (ObjRedisKey x) = ObjectMeta x"
| "obj_meta (ObjServiceBusNamespace x) = ObjectMeta x"
| "obj_meta (ObjServiceBusKey x) = ObjectMeta x"
| "obj_meta (ObjStorageAccount x) = ObjectMeta x"
| "obj_meta (ObjStorageKey x) = ObjectMeta x"
| "obj_meta (ObjSQLServer x) = ObjectMeta x"
| "obj_meta (ObjSQLFirewallRule x) = ObjectMeta x"
| "obj_meta (ObjTrafficManager x) = ObjectMeta x"
| "obj_meta (ObjDeployment t m) = m"
| "obj_meta (ObjOther t m) = m"

text \<open>Writing the metadata through the accessor \<open>meta.Accessor\<close> hands out.\<close>

fun map_meta :: "(object_meta \<Rightarrow> object_meta) \<Rightarrow> runtime_object \<Rightarrow> runtime_object" where
  "map_meta f (ObjResourceGroup x) = ObjResourceGroup (x\<lparr>ObjectMeta := f (ObjectMeta x)\<rparr>)"
| "map_meta f (ObjVirtualNetwork x) = ObjVirtualNetwork (x\<lparr>ObjectMeta := f (ObjectMeta x)\<rparr>)"
| "map_meta f (ObjSubnet x) = ObjSubnet (x\<lparr>ObjectMeta := f (ObjectMeta x)\<rparr>)"
| "map_meta f (ObjSecurityGroup x) = ObjSecurityGroup (x\<lparr>ObjectMeta := f (ObjectMeta x)\<rparr>)"
| "map_meta f (ObjPublicIP x) = ObjPublicIP (x\<lparr>ObjectMeta := f (ObjectMeta x)\<rparr>)"
| "map_meta f (ObjNetworkInterface x) = ObjNetworkInterface (x\<lparr>ObjectMeta := f (ObjectMeta x)\<rparr>)"
| "map_meta f (ObjLoadBalancer x) = ObjLoadBalancer (x\<lparr>ObjectMeta := f (ObjectMeta x)\<rparr>)"
| "map_meta f (ObjVM x) = ObjVM (x\<lparr>ObjectMeta := f (ObjectMeta x)\<rparr>)"
| "map_meta f (ObjVMScaleSet x) = ObjVMScaleSet (x\<lparr>ObjectMeta := f (ObjectMeta x)\<rparr>)"
| "map_meta f (ObjIdentity x) = ObjIdentity (x\<lparr>ObjectMeta := f (ObjectMeta x)\<rparr>)"
| "map_meta f (ObjKeyvault x) = ObjKeyvault (x\<lparr>ObjectMeta := f (ObjectMeta x)\<rparr>)"
| "map_meta f (ObjSecret x) = ObjSecret (x\<lparr>ObjectMeta := f (ObjectMeta x)\<rparr>)"
| "map_meta f (ObjSecretBundle x) = ObjSecretBundle (x\<lparr>ObjectMeta := f (ObjectMeta x)\<rparr>)"
| "map_meta f (ObjTLSSecret x) = ObjTLSSecret (x\<lparr>ObjectMeta := f (ObjectMeta x)\<rparr>)"
| "map_meta f (ObjDockerConfig x) = ObjDockerConfig (x\<lparr>ObjectMeta := f (ObjectMeta x)\<rparr>)"
| "map_meta f (ObjRedis x) = ObjRedis (x\<lparr>ObjectMeta := f (ObjectMeta x)\<rparr>)"
| "map_meta f (ObjRedisKey x) = ObjRedisKey (x\<lparr>ObjectMeta := f (ObjectMeta x)\<rparr>)"
| "map_meta f (ObjServiceBusNamespace x) = ObjServiceBusNamespace (x\<lparr>ObjectMeta := f (ObjectMeta x)\<rparr>)"
| "map_meta f (ObjServiceBusKey x) = ObjServiceBusKey (x\<lparr>ObjectMeta := f (ObjectMeta x)\<rparr>)"
| "map_meta f (ObjStorageAccount x) = ObjStorageAccount (x\<lparr>ObjectMeta := f (ObjectMeta x)\<rparr>)"
| "map_meta f (ObjStorageKey x) = ObjStorageKey (x\<lparr>ObjectMeta := f (ObjectMeta x)\<rparr>)"
| "map_meta f (ObjSQLServer x) = ObjSQLServer (x\<lparr>ObjectMeta := f (ObjectMeta x)\<rparr>)"
| "map_meta f (ObjSQLFirewallRule x) = ObjSQLFirewallRule (x\<lparr>ObjectMeta := f (ObjectMeta x)\<rparr>)"
| "map_meta f (ObjTrafficManager x) = ObjTrafficManager (x\<lparr>ObjectMeta := f (ObjectMeta x)\<rparr>)"
| "map_meta f (ObjDeployment t m) = ObjDeployment t (f m)"
| "map_meta f (ObjOther t m) = ObjOther t (f m)"

text \<open>
  The zero value of each status, and the object with its status set to it: what the object says
  is desired.  Two objects with the same \<open>clear_status\<close> have the same kind, metadata and spec.
\<close>

definition zero_ResourceGroupStatus :: ResourceGroupStatus where
  "zero_ResourceGroupStatus = \<lparr>rgst_ProvisioningState = None, rgst_ID = None, rgst_ObservedGeneration = 0\<rparr>"

definition zero_VirtualNetworkStatus :: VirtualNetworkStatus where
  "zero_VirtualNetworkStatus = \<lparr>vnst_ProvisioningState = None, vnst_ID = None, vnst_ObservedGeneration = 0\<rparr>"

definition zero_SubnetStatus :: SubnetStatus where
  "zero_SubnetStatus = \<lparr>snst_ProvisioningState = None, snst_ID = None, snst_ObservedGeneration = 0\<rparr>"

definition zero_SecurityGroupStatus :: SecurityGroupStatus where
  "zero_SecurityGroupStatus = \<lparr>sgst_ProvisioningState = None, sgst_ID = None, sgst_ObservedGeneration = 0\<rparr>"

definition zero_PublicIPStatus :: PublicIPStatus where
  "zero_PublicIPStatus = \<lparr>pist_ProvisioningState = None, pist_ID = None, pist_ObservedGeneration = 0\<rparr>"

definition zero_NetworkInterfaceStatus :: NetworkInterfaceStatus where
  "zero_NetworkInterfaceStatus = \<lparr>nist_ProvisioningState = None, nist_ID = None, nist_ObservedGeneration = None\<rparr>"

definition zero_LoadBalancerStatus :: LoadBalancerStatus where
  "zero_LoadBalancerStatus = \<lparr>lbst_ProvisioningState = None, lbst_ID = None, lbst_ObservedGeneration = 0\<rparr>"

definition zero_VMStatus :: VMStatus where
  "zero_VMStatus = \<lparr>vmst_ProvisioningState = None, vmst_ID = None, vmst_Zone = None\<rparr>"

definition zero_VMScaleSetStatus :: VMScaleSetStatus where
  "zero_VMScaleSetStatus = \<lparr>vssst_ProvisioningState = None, vssst_ID = None\<rparr>"

definition zero_IdentityStatus :: IdentityStatus where
  "zero_IdentityStatus = \<lparr>idst_ProvisioningState = None, idst_ID = None, idst_ObservedGeneration = 0\<rparr>"

definition zero_KeyvaultStatus :: KeyvaultStatus where
  "zero_KeyvaultStatus = \<lparr>kvst_ID = None\<rparr>"

definition zero_SecretStatus :: SecretStatus where
  "zero_SecretStatus = \<lparr>secst_State = None\<rparr>"

definition zero_SecretBundleStatus :: SecretBundleStatus where
  "zero_SecretBundleStatus = \<lparr>sbst_Secrets = Map.empty, sbst_State = None\<rparr>"

definition zero_TLSSecretStatus :: TLSSecretStatus where
  "zero_TLSSecretStatus = \<lparr>tlsst_State = None\<rparr>"

definition zero_RedisStatus :: RedisStatus where
  "zero_RedisStatus = \<lparr>rdst_ProvisioningState = '''', rdst_ID = None, rdst_ObservedGeneration = 0\<rparr>"

definition zero_RedisKeyStatus :: RedisKeyStatus where
  "zero_RedisKeyStatus = \<lparr>rkst_ProvisioningState = None\<rparr>"

definition zero_ServiceBusNamespaceStatus :: ServiceBusNamespaceStatus where
  "zero_ServiceBusNamespaceStatus = \<lparr>sbnst_ProvisioningState = None, sbnst_ID = None, sbnst_ObservedGeneration = 0\<rparr>"

definition zero_ServiceBusKeyStatus :: ServiceBusKeyStatus where
  "zero_ServiceBusKeyStatus = \<lparr>sbkst_ProvisioningState = None\<rparr>"

definition zero_StorageAccountStatus :: StorageAccountStatus where
  "zero_StorageAccountStatus = \<lparr>sast_ProvisioningState = None, sast_ID = None\<rparr>"

definition zero_StorageKeyStatus :: StorageKeyStatus where
  "zero_StorageKeyStatus = \<lparr>skst_ProvisioningState = None, skst_ID = None\<rparr>"

definition zero_SQLServerStatus :: SQLServerStatus where
  "zero_SQLServerStatus = \<lparr>sqlst_State = None, sqlst_ID = None\<rparr>"

definition zero_SQLFirewallRuleStatus :: SQLFirewallRuleStatus where
  "zero_SQLFirewallRuleStatus = \<lparr>fwst_State = None, fwst_ID = None\<rparr>"

definition zero_TrafficManagerStatus :: TrafficManagerStatus where
  "zero_TrafficManagerStatus = \<lparr>tmst_ID = None, tmst_FQDN = None, tmst_ProfileStatus = '''', tmst_ProfileMonitorStatus = '''', tmst_EndpointStatus = None\<rparr>"

fun clear_status :: "runtime_object \<Rightarrow> runtime_object" where
  "clear_status (ObjResourceGroup x) = ObjResourceGroup (x\<lparr>Status := zero_ResourceGroupStatus\<rparr>)"
| "clear_status (ObjVirtualNetwork x) = ObjVirtualNetwork (x\<lparr>Status := zero_VirtualNetworkStatus\<rparr>)"
| "clear_status (ObjSubnet x) = ObjSubnet (x\<lparr>Status := zero_SubnetStatus\<rparr>)"
| "clear_status (ObjSecurityGroup x) = ObjSecurityGroup (x\<lparr>Status := zero_SecurityGroupStatus\<rparr>)"
| "clear_status (ObjPublicIP x) = ObjPublicIP (x\<lparr>Status := zero_PublicIPStatus\<rparr>)"
| "clear_status (ObjNetworkInterface x) = ObjNetworkInterface (x\<lparr>Status := zero_NetworkInterfaceStatus\<rparr>)"
| "clear_status (ObjLoadBalancer x) = ObjLoadBalancer (x\<lparr>Status := zero_LoadBalancerStatus\<rparr>)"
| "clear_status (ObjVM x) = ObjVM (x\<lparr>Status := zero_VMStatus\<rparr>)"
| "clear_status (ObjVMScaleSet x) = ObjVMScaleSet (x\<lparr>Status := zero_VMScaleSetStatus\<rparr>)"
| "clear_status (ObjIdentity x) = ObjIdentity (x\<lparr>Status := zero_IdentityStatus\<rparr>)"
| "clear_status (ObjKeyvault x) = ObjKeyvault (x\<lparr>Status := zero_KeyvaultStatus\<rparr>)"
| "clear_status (ObjSecret x) = ObjSecret (x\<lparr>Status := zero_SecretStatus\<rparr>)"
| "clear_status (ObjSecretBundle x) = ObjSecretBundle (x\<lparr>Status := zero_SecretBundleStatus\<rparr>)"
| "clear_status (ObjTLSSecret x) = ObjTLSSecret (x\<lparr>Status := zero_TLSSecretStatus\<rparr>)"
| "clear_status (ObjDockerConfig x) = ObjDockerConfig (x\<lparr>Status := ()\<rparr>)"
| "clear_status (ObjRedis x) = ObjRedis (x\<lparr>Status := zero_RedisStatus\<rparr>)"
| "clear_status (ObjRedisKey x) = ObjRedisKey (x\<lparr>Status := zero_RedisKeyStatus\<rparr>)"
| "clear_status (ObjServiceBusNamespace x) = ObjServiceBusNamespace (x\<lparr>Status := zero_ServiceBusNamespaceStatus\<rparr>)"
| "clear_status (ObjServiceBusKey x) = ObjServiceBusKey (x\<lparr>Status := zero_ServiceBusKeyStatus\<rparr>)"
| "clear_status (ObjStorageAccount x) = ObjStorageAccount (x\<lparr>Status := zero_StorageAccountStatus\<rparr>)"
| "clear_status (ObjStorageKey x) = ObjStorageKey (x\<lparr>Status := zero_StorageKeyStatus\<rparr>)"
| "clear_status (ObjSQLServer x) = ObjSQLServer (x\<lparr>Status := zero_SQLServerStatus\<rparr>)"
| "clear_status (ObjSQLFirewallRule x) = ObjSQLFirewallRule (x\<lparr>Status := zero_SQLFirewallRuleStatus\<rparr>)"
| "clear_status (ObjTrafficManager x) = ObjTrafficManager (x\<lparr>Status := zero_TrafficManagerStatus\<rparr>)"
| "clear_status (ObjDeployment t m) = ObjDeployment t m"
| "clear_status (ObjOther t m) = ObjOther t m"

subsection \<open>Laws of the accessors\<close>

lemma obj_meta_map_meta [simp]: "obj_meta (map_meta f o') = f (obj_meta o')"
  by (cases o') simp_all

lemma kind_of_map_meta [simp]: "kind_of (map_meta f o') = kind_of o'"
  by (cases o') simp_all

lemma map_meta_map_meta [simp]: "map_meta f (map_meta g o') = map_meta (\<lambda>m. f (g m)) o'"
  by (cases o') simp_all

lemma clear_status_map_meta: "clear_status (map_meta f o') = map_meta f (clear_status o')"
  by (cases o') simp_all

lemma obj_meta_clear_status [simp]: "obj_meta (clear_status o') = obj_meta o'"
  by (cases o') simp_all

lemma kind_of_clear_status [simp]: "kind_of (clear_status o') = kind_of o'"
  by (cases o') simp_all

lemma clear_status_eqD:
  assumes "clear_status a = clear_status b"
  shows "obj_meta a = obj_meta b" and "kind_of a = kind_of b"
  using assms by (metis obj_meta_clear_status, metis kind_of_clear_status)

lemma crd_update_Status [simp]:
  "ObjectMeta (x\<lparr>Status := s\<rparr>) = ObjectMeta x" "Spec (x\<lparr>Status := s\<rparr>) = Spec x"
  "TypeMeta (x\<lparr>Status := s\<rparr>) = TypeMeta x"
  by simp_all

end
