(* ===== verification/Config.thy ===== *)
theory Config imports Api_Types begin

section \<open>Configuration and authorization (pkg/config)\<close>

text \<open>
  \<open>pkg/config/config.go\<close>: the credentials of the process, the functional options that set
  them, and the operations that put an authorizer into an SDK client.  The go-autorest and
  azure/auth functions it calls are the fields of \<open>auth_lib\<close>.

  The last part is the field layout the management clients share: a factory, the SDK client it
  last made, and the configuration (\<open>mgmt_client\<close>).  Each package of \<open>pkg/clients\<close> has its own
  \<open>ForSubscription\<close>; what they have in common after the type assertion is \<open>authorize_for\<close>.
\<close>

record azure_environment =
  ResourceManagerEndpoint :: string
  ActiveDirectoryEndpoint :: string
  KeyVaultEndpoint :: string

record config =
  cfg_userAgent :: string
  cfg_env :: azure_environment
  cfg_app :: string
  cfg_key :: string
  cfg_tenant :: string

text \<open>An \<open>autorest.Authorizer\<close> is opaque to the code; the number only tells two apart.\<close>

datatype authorizer = Authorizer nat

record autorest_client =
  ac_Authorizer :: "authorizer option"
  ac_UserAgent :: string

record client_credentials =
  cc_ClientID :: string
  cc_ClientSecret :: string
  cc_TenantID :: string
  cc_Resource :: string
  cc_AADEndpoint :: string

record auth_lib =
  GetSettingsFromEnvironment :: "go_error + azure_environment"
  NewAuthorizerFromEnvironmentWithResource :: "string \<Rightarrow> go_error + authorizer"
  NewAuthorizerFromEnvironment :: "go_error + authorizer"
  NewAuthorizerFromFile :: "string \<Rightarrow> go_error + authorizer"
  NewAuthorizerFromFileWithResource :: "string \<Rightarrow> go_error + authorizer"
  CredentialsAuthorizer :: "client_credentials \<Rightarrow> go_error + authorizer"
  AddToUserAgent :: "autorest_client \<Rightarrow> string \<Rightarrow> autorest_client \<times> go_error option"

text \<open>Documented behaviour of \<open>AddToUserAgent\<close>: it only changes the user agent.\<close>

definition auth_lib_ok :: "auth_lib \<Rightarrow> bool" where
  "auth_lib_ok A \<longleftrightarrow>
     (\<forall>cl ua. ac_Authorizer (fst (AddToUserAgent A cl ua)) = ac_Authorizer cl)"

subsection \<open>Options\<close>

type_synonym Option = "config \<Rightarrow> config"

definition UserAgent :: "string \<Rightarrow> Option" where
  "UserAgent userAgent c = c\<lparr>cfg_userAgent := userAgent\<rparr>"

definition App :: "string \<Rightarrow> Option" where
  "App app c = c\<lparr>cfg_app := app\<rparr>"

definition Key :: "string \<Rightarrow> Option" where
  "Key key c = c\<lparr>cfg_key := key\<rparr>"

definition Tenant :: "string \<Rightarrow> Option" where
  "Tenant tenant c = c\<lparr>cfg_tenant := tenant\<rparr>"

fun apply_options :: "Option list \<Rightarrow> config \<Rightarrow> config" where
  "apply_options [] c = c"
| "apply_options (opt # opts) c = apply_options opts (opt c)"

definition config_New :: "auth_lib \<Rightarrow> Option list \<Rightarrow> go_error + config" where
  "config_New A opts =
     (case GetSettingsFromEnvironment A of
        Inl err \<Rightarrow> Inl err
      | Inr env \<Rightarrow>
          Inr (apply_options opts
                 \<lparr>cfg_userAgent = ''azauth'', cfg_env = env, cfg_app = '''', cfg_key = '''',
                  cfg_tenant = ''''\<rparr>))"

subsection \<open>Authorizers\<close>

definition validateArgs :: "config \<Rightarrow> go_error option" where
  "validateArgs c =
     (if cfg_app c = '''' \<or> cfg_tenant c = '''' \<or> cfg_key c = ''''
      then Some (ErrorText ''app, tenant, and key must all be provided as options for authenticating with args'')
      else None)"

definition GetAuthorizerFromArgs :: "auth_lib \<Rightarrow> config \<Rightarrow> go_error + authorizer" where
  "GetAuthorizerFromArgs A c =
     (case validateArgs c of
        Some err \<Rightarrow> Inl err
      | None \<Rightarrow> CredentialsAuthorizer A
          \<lparr>cc_ClientID = cfg_app c, cc_ClientSecret = cfg_key c, cc_TenantID = cfg_tenant c,
           cc_Resource = ResourceManagerEndpoint (cfg_env c),
           cc_AADEndpoint = ActiveDirectoryEndpoint (cfg_env c)\<rparr>)"

definition GetAuthorizerFromArgsForResource :: "auth_lib \<Rightarrow> config \<Rightarrow> string \<Rightarrow> go_error + authorizer" where
  "GetAuthorizerFromArgsForResource A c resource =
     (case validateArgs c of
        Some err \<Rightarrow> Inl err
      | None \<Rightarrow> CredentialsAuthorizer A
          \<lparr>cc_ClientID = cfg_app c, cc_ClientSecret = cfg_key c, cc_TenantID = cfg_tenant c,
           cc_Resource = resource,
           cc_AADEndpoint = ActiveDirectoryEndpoint (cfg_env c)\<rparr>)"

text \<open>\<open>strings.TrimSuffix(s, suffix)\<close> of the standard library.\<close>

definition TrimSuffix :: "string \<Rightarrow> string \<Rightarrow> string" where
  "TrimSuffix s suffix =
     (let n = length s - length suffix in
      if length suffix \<le> length s \<and> drop n s = suffix then take n s else s)"

definition GetKeyvaultAuthorizer :: "auth_lib \<Rightarrow> config \<Rightarrow> go_error + authorizer" where
  "GetKeyvaultAuthorizer A c =
     GetAuthorizerFromArgsForResource A c (TrimSuffix (KeyVaultEndpoint (cfg_env c)) ''/'')"

subsection \<open>Authorizing a client\<close>

text \<open>
  The five functions below share one shape: \<open>if authorizer, err := get(); err == nil { ... }
  return\<close>.  The \<open>err\<close> of the \<open>if\<close> shadows the named result, so the final bare \<open>return\<close> returns
  the named result's zero value: when \<open>get\<close> fails the client is left as it was and \<open>nil\<close> is
  returned.
\<close>

definition AuthorizeClientForResource ::
  "auth_lib \<Rightarrow> config \<Rightarrow> autorest_client \<Rightarrow> string \<Rightarrow> autorest_client \<times> go_error option" where
  "AuthorizeClientForResource A c client resource =
     (case NewAuthorizerFromEnvironmentWithResource A resource of
        Inr authorizer \<Rightarrow> AddToUserAgent A (client\<lparr>ac_Authorizer := Some authorizer\<rparr>) (cfg_userAgent c)
      | Inl err \<Rightarrow> (client, None))"

definition AuthorizeClient ::
  "auth_lib \<Rightarrow> config \<Rightarrow> autorest_client \<Rightarrow> autorest_client \<times> go_error option" where
  "AuthorizeClient A c client =
     (case NewAuthorizerFromEnvironment A of
        Inr authorizer \<Rightarrow> AddToUserAgent A (client\<lparr>ac_Authorizer := Some authorizer\<rparr>) (cfg_userAgent c)
      | Inl err \<Rightarrow> (client, None))"

definition AuthorizeClientFromFile ::
  "auth_lib \<Rightarrow> config \<Rightarrow> autorest_client \<Rightarrow> autorest_client \<times> go_error option" where
  "AuthorizeClientFromFile A c client =
     (case NewAuthorizerFromFile A (ResourceManagerEndpoint (cfg_env c)) of
        Inr authorizer \<Rightarrow> AddToUserAgent A (client\<lparr>ac_Authorizer := Some authorizer\<rparr>) (cfg_userAgent c)
      | Inl err \<Rightarrow> (client, None))"

definition AuthorizeClientFromFileForResource ::
  "auth_lib \<Rightarrow> config \<Rightarrow> autorest_client \<Rightarrow> string \<Rightarrow> autorest_client \<times> go_error option" where
  "AuthorizeClientFromFileForResource A c client resource =
     (case NewAuthorizerFromFileWithResource A resource of
        Inr authorizer \<Rightarrow> AddToUserAgent A (client\<lparr>ac_Authorizer := Some authorizer\<rparr>) (cfg_userAgent c)
      | Inl err \<Rightarrow> (client, None))"

text \<open>As in the source, \<open>resource\<close> is not used: the authorizer is for the management endpoint.\<close>

definition AuthorizeClientFromArgsForResource ::
  "auth_lib \<Rightarrow> config \<Rightarrow> autorest_client \<Rightarrow> string \<Rightarrow> autorest_client \<times> go_error option" where
  "AuthorizeClientFromArgsForResource A c client resource =
     (case GetAuthorizerFromArgs A c of
        Inr authorizer \<Rightarrow> AddToUserAgent A (client\<lparr>ac_Authorizer := Some authorizer\<rparr>) (cfg_userAgent c)
      | Inl err \<Rightarrow> (client, None))"

definition AuthorizeClientFromArgs ::
  "auth_lib \<Rightarrow> config \<Rightarrow> autorest_client \<Rightarrow> autorest_client \<times> go_error option" where
  "AuthorizeClientFromArgs A c client =
     AuthorizeClientFromArgsForResource A c client (ResourceManagerEndpoint (cfg_env c))"

subsection \<open>The fields of a management client\<close>

text \<open>
  An SDK client as the factories make it: the subscription it is bound to (\<open>None\<close> for the zero
  value of the Go struct, which no factory made) and the embedded \<open>autorest.Client\<close>.
\<close>

record sdk_client =
  sdk_Subscription :: "string option"
  sdk_Client :: autorest_client

definition zero_sdk_client :: sdk_client where
  "zero_sdk_client = \<lparr>sdk_Subscription = None, sdk_Client = \<lparr>ac_Authorizer = None, ac_UserAgent = ''''\<rparr>\<rparr>"

record mgmt_client =
  mc_factory :: "string \<Rightarrow> sdk_client"
  mc_internal :: sdk_client
  mc_config :: config

definition new_mgmt_client :: "config \<Rightarrow> (string \<Rightarrow> sdk_client) \<Rightarrow> mgmt_client" where
  "new_mgmt_client configuration factory =
     \<lparr>mc_factory = factory, mc_internal = zero_sdk_client, mc_config = configuration\<rparr>"

text \<open>
  \<open>c.internal = c.factory(sub); return c.config.AuthorizeClientFromArgs(&c.internal.Client)\<close>.
\<close>

definition authorize_for :: "auth_lib \<Rightarrow> mgmt_client \<Rightarrow> string \<Rightarrow> mgmt_client \<times> go_error option" where
  "authorize_for A c sub =
     (let internal = mc_factory c sub;
          (client, err) = AuthorizeClientFromArgs A (mc_config c) (sdk_Client internal)
      in (c\<lparr>mc_internal := internal\<lparr>sdk_Client := client\<rparr>\<rparr>, err))"

lemma authorize_for_keeps [simp]:
  "mc_factory (fst (authorize_for A c sub)) = mc_factory c"
  "mc_config (fst (authorize_for A c sub)) = mc_config c"
  by (simp_all add: authorize_for_def Let_def split: prod.splits)

lemma authorize_for_subscription:
  "sdk_Subscription (mc_internal (fst (authorize_for A c sub))) = sdk_Subscription (mc_factory c sub)"
  by (simp add: authorize_for_def Let_def split: prod.splits)

subsection \<open>What the options do\<close>

lemma apply_options_append: "apply_options (xs @ ys) c = apply_options ys (apply_options xs c)"
  by (induction xs arbitrary: c) simp_all

lemma options_commute:
  "App a (Key k c) = Key k (App a c)"
  "App a (Tenant t c) = Tenant t (App a c)"
  "Key k (Tenant t c) = Tenant t (Key k c)"
  by (simp_all add: App_def Key_def Tenant_def)

lemmas option_defs = UserAgent_def App_def Key_def Tenant_def

lemma config_New_credentials:
  "config_New A [App a, Key k, Tenant t] = Inr c \<Longrightarrow>
     cfg_app c = a \<and> cfg_key c = k \<and> cfg_tenant c = t \<and> cfg_userAgent c = ''azauth''"
  by (auto simp: config_New_def option_defs split: sum.splits)

lemma validateArgs_None: "validateArgs c = None \<longleftrightarrow> cfg_app c \<noteq> '''' \<and> cfg_key c \<noteq> '''' \<and> cfg_tenant c \<noteq> ''''"
  by (auto simp: validateArgs_def)

lemma TrimSuffix_append [simp]: "TrimSuffix (s @ suffix) suffix = s"
  by (simp add: TrimSuffix_def)

lemma GetAuthorizerFromArgs_error:
  "validateArgs c = Some err \<Longrightarrow> GetAuthorizerFromArgs A c = Inl err"
  by (simp add: GetAuthorizerFromArgs_def)

lemma AuthorizeClientFromArgs_fails_silently:
  "GetAuthorizerFromArgs A c = Inl err \<Longrightarrow> AuthorizeClientFromArgs A c client = (client, None)"
  by (simp add: AuthorizeClientFromArgs_def AuthorizeClientFromArgsForResource_def)

lemma AuthorizeClientFromArgs_sets:
  assumes "auth_lib_ok A" and "GetAuthorizerFromArgs A c = Inr a"
  shows "ac_Authorizer (fst (AuthorizeClientFromArgs A c client)) = Some a"
  using assms
  by (simp add: AuthorizeClientFromArgs_def AuthorizeClientFromArgsForResource_def auth_lib_ok_def)

text \<open>
  Whatever the configuration, a client that never went through a successful
  authorization has no authorizer: \<open>authorize_for\<close> with unusable credentials leaves the SDK
  client as its factory made it and reports no error.
\<close>

lemma authorize_for_silent:
  assumes "GetAuthorizerFromArgs A (mc_config c) = Inl err"
  shows "authorize_for A c sub = (c\<lparr>mc_internal := mc_factory c sub\<rparr>, None)"
  using assms by (simp add: authorize_for_def AuthorizeClientFromArgs_fails_silently)

lemma authorize_for_authorizes:
  assumes "auth_lib_ok A" and "GetAuthorizerFromArgs A (mc_config c) = Inr a"
  shows "ac_Authorizer (sdk_Client (mc_internal (fst (authorize_for A c sub)))) = Some a"
  using AuthorizeClientFromArgs_sets [OF assms]
  by (simp add: authorize_for_def Let_def split: prod.splits)
    (metis fst_conv)

end
