(* ===== verification/Clientutil.thy ===== *)
theory Clientutil imports Prelude begin

section \<open>Helpers of the clients (pkg/clients/clientutil)\<close>

text \<open>
  \<open>pkg/clients/clientutil/clientutil.go\<close>.  The arguments of \<open>Any\<close> and \<open>Initialize\<close> are
  closures that read and write the object they close over and may panic, so they are Go
  computations over that object's state.
\<close>

fun Any :: "('s, bool) go list \<Rightarrow> ('s, bool) go" where
  "Any [] = go_ret False"
| "Any (f # fs) = go_bind f (\<lambda>b. if b then go_ret True else Any fs)"

text \<open>\<open>remediators[idx]\<close> with \<open>idx\<close> out of range panics.\<close>

fun Initialize :: "('s, bool) go list \<Rightarrow> ('s, unit) go list \<Rightarrow> ('s, unit) go" where
  "Initialize [] remediators = go_ret ()"
| "Initialize (f # detectors) remediators =
     go_bind f (\<lambda>b.
       if b then (case remediators of
                    [] \<Rightarrow> go_panic
                  | r # rest \<Rightarrow> go_bind r (\<lambda>_. Initialize detectors rest))
       else Initialize detectors (tl remediators))"

text \<open>A detector that only reads the state, a remediator that only writes it.\<close>

definition detect :: "('s \<Rightarrow> bool) \<Rightarrow> ('s, bool) go" where
  "detect p = (\<lambda>s. (Returns (p s), s))"

definition remedy :: "('s \<Rightarrow> 's) \<Rightarrow> ('s, unit) go" where
  "remedy f = (\<lambda>s. (Returns (), f s))"

lemma detect_apply [go_simps]: "detect p s = (Returns (p s), s)"
  by (simp add: detect_def)

lemma remedy_apply [go_simps]: "remedy f s = (Returns (), f s)"
  by (simp add: remedy_def)

text \<open>Detectors and remediators that follow pointers: \<open>None\<close> is a nil dereference.\<close>

definition detect_at :: "('s \<Rightarrow> bool option) \<Rightarrow> ('s, bool) go" where
  "detect_at p = (\<lambda>s. case p s of None \<Rightarrow> (Panics, s) | Some b \<Rightarrow> (Returns b, s))"

definition remedy_at :: "('s \<Rightarrow> 's option) \<Rightarrow> ('s, unit) go" where
  "remedy_at f = (\<lambda>s. case f s of None \<Rightarrow> (Panics, s) | Some s' \<Rightarrow> (Returns (), s'))"

lemma detect_at_apply [go_simps]:
  "p s = Some b \<Longrightarrow> detect_at p s = (Returns b, s)" "p s = None \<Longrightarrow> detect_at p s = (Panics, s)"
  by (simp_all add: detect_at_def)

lemma remedy_at_apply [go_simps]:
  "f s = Some s' \<Longrightarrow> remedy_at f s = (Returns (), s')" "f s = None \<Longrightarrow> remedy_at f s = (Panics, s)"
  by (simp_all add: remedy_at_def)

lemma go_bind_primitive [go_simps]:
  "go_bind (detect p) k s = k (p s) s"
  "go_bind (remedy f) k' s = k' () (f s)"
  "go_bind (detect_at q) k s = (case q s of None \<Rightarrow> (Panics, s) | Some b \<Rightarrow> k b s)"
  "go_bind (remedy_at g) k' s = (case g s of None \<Rightarrow> (Panics, s) | Some s' \<Rightarrow> k' () s')"
  by (simp_all add: go_bind_def detect_def remedy_def detect_at_def remedy_at_def split: option.split)

lemma detect_at_state: "detect_at p s = (r, s') \<Longrightarrow> s' = s"
  by (auto simp: detect_at_def split: option.splits)

lemma Any_detect: "Any (map detect ps) s = (Returns (\<exists>p\<in>set ps. p s), s)"
  by (induction ps) (auto simp: go_simps)

lemma Any_true_stops:
  assumes "f s = (Returns True, s')"
  shows "Any (f # fs) s = (Returns True, s')"
  using assms by (simp add: go_simps)

lemma Initialize_equal_length:
  "length ds = length rs \<Longrightarrow>
   Initialize (map detect ds) (map remedy rs) s =
     (Returns (), fold (\<lambda>(d, r) s. if d s then r s else s) (zip ds rs) s)"
  by (induction ds rs arbitrary: s rule: list_induct2) (auto simp: go_simps)

text \<open>The same for the literal lists of length one to three the code writes.\<close>

lemma Initialize_1 [go_simps]:
  "Initialize [detect d] [remedy r] s = (Returns (), if d s then r s else s)"
  by (simp add: go_simps)

lemma Initialize_2 [go_simps]:
  "Initialize [detect d, detect e] [remedy r, remedy t] s =
     (Returns (), let s1 = if d s then r s else s in if e s1 then t s1 else s1)"
  by (auto simp: go_simps Let_def)

lemma Initialize_3 [go_simps]:
  "Initialize [detect d, detect e, detect f] [remedy r, remedy t, remedy u] s =
     (Returns (), let s1 = if d s then r s else s; s2 = if e s1 then t s1 else s1
                  in if f s2 then u s2 else s2)"
  by (auto simp: go_simps Let_def)

text \<open>\<open>spec.Set(opts...)\<close> of the spec builders: the options run in order on one spec.\<close>

fun set_opts :: "('s, unit) go list \<Rightarrow> ('s, unit) go" where
  "set_opts [] = go_ret ()"
| "set_opts (opt # opts) = go_bind opt (\<lambda>_. set_opts opts)"

lemma set_opts_remedy: "set_opts (map remedy fs) s = (Returns (), fold (\<lambda>f. f) fs s)"
  by (induction fs arbitrary: s) (auto simp: go_simps)

text \<open>
  A client builds the spec in a local variable while the world stays as it is:
  \<open>with_spec m spec k\<close> runs \<open>m\<close> on the local spec and goes on with its result and the new spec.
\<close>

definition with_spec :: "('t, 'a) go \<Rightarrow> 't \<Rightarrow> ('a \<Rightarrow> 't \<Rightarrow> ('w, 'b) go) \<Rightarrow> ('w, 'b) go" where
  "with_spec m spec k = (case m spec of (Returns x, spec') \<Rightarrow> k x spec' | (Panics, spec') \<Rightarrow> go_panic)"

lemma with_spec_step [go_simps]: "m spec = (Returns x, spec') \<Longrightarrow> with_spec m spec k = k x spec'"
  by (simp add: with_spec_def)

lemma with_spec_panic [go_simps]: "m spec = (Panics, spec') \<Longrightarrow> with_spec m spec k = go_panic"
  by (simp add: with_spec_def)

lemma with_spec_Returns [go_returns]:
  "with_spec m spec k w = (Returns y, w') \<longleftrightarrow>
     (\<exists>x spec'. m spec = (Returns x, spec') \<and> k x spec' w = (Returns y, w'))"
  by (auto simp: with_spec_def go_panic_def split: prod.splits outcome.splits)

subsection \<open>Random strings\<close>

definition safeBytes :: string where
  "safeBytes = ''abcdefghijklmnopqrstuvwxyzABCDEFGHIJKLMNOPQRSTUVWXYZ0123456789''"

text \<open>
  \<open>mrand.Intn\<close> is the parameter \<open>intn\<close>; \<open>Intn(n)\<close> answers a number below \<open>n\<close>, so indexing is in
  range (\<open>intn_ok\<close>); an index out of range panics.
\<close>

fun GenerateSafeRandomString :: "(nat \<Rightarrow> ('w, nat) go) \<Rightarrow> nat \<Rightarrow> ('w, string) go" where
  "GenerateSafeRandomString intn 0 = go_ret []"
| "GenerateSafeRandomString intn (Suc n) =
     go_bind (intn (length safeBytes)) (\<lambda>i.
       if i < length safeBytes
       then go_bind (GenerateSafeRandomString intn n) (\<lambda>rest. go_ret (safeBytes ! i # rest))
       else go_panic)"

definition intn_ok :: "(nat \<Rightarrow> ('w, nat) go) \<Rightarrow> bool" where
  "intn_ok intn \<longleftrightarrow> (\<forall>n w. 0 < n \<longrightarrow> (\<exists>i w'. intn n w = (Returns i, w') \<and> i < n))"

lemma GenerateSafeRandomString_returns:
  assumes "intn_ok intn"
  shows "\<exists>s w'. GenerateSafeRandomString intn n w = (Returns s, w') \<and> length s = n \<and> set s \<subseteq> set safeBytes"
proof (induction n arbitrary: w)
  case 0
  then show ?case by (simp add: go_simps)
next
  case (Suc n)
  have "0 < length safeBytes" by (simp add: safeBytes_def)
  then obtain i w1 where i: "intn (length safeBytes) w = (Returns i, w1)" "i < length safeBytes"
    using assms unfolding intn_ok_def by blast
  obtain s w2 where s: "GenerateSafeRandomString intn n w1 = (Returns s, w2)" "length s = n"
    "set s \<subseteq> set safeBytes"
    using Suc.IH by blast
  from i s show ?case by (simp add: go_simps)
qed

end
