(* ===== verification/Helpers.thy ===== *)
theory Helpers imports Api_Types begin

section \<open>Finalizers and the API server (controllers/helpers.go)\<close>

text \<open>
  \<open>controllers/helpers.go\<close>: the string-slice helpers, the finalizer operations built on them,
  and the operations that also talk to the API server.  The API server is a parameter: the
  record \<open>kube\<close> holds the operations of the controller-runtime client, the event recorder, and
  the two apimachinery functions the controllers call.
\<close>

type_synonym namespaced_name = "string \<times> string"

text \<open>
  \<^item> \<open>kb_GVKForObject\<close>: \<open>apiutil.GVKForObject\<close>, of which only the error is used;
  \<^item> \<open>kb_Accessor\<close>: the error of \<open>meta.Accessor\<close>; the accessor itself is \<open>obj_meta\<close>/\<open>map_meta\<close>;
  \<^item> \<open>kb_Get\<close>: fills an object of the given kind;
  \<^item> \<open>kb_Update\<close>, \<open>kb_StatusUpdate\<close>: \<open>client.Update\<close>, \<open>client.Status().Update\<close>, which also store
    the server's answer in the object;
  \<^item> \<open>kb_Delete\<close>: \<open>client.Delete\<close>;
  \<^item> \<open>kb_Event\<close>: \<open>Recorder.Event(obj, type, reason, message)\<close>.
\<close>

record 's kube =
  kb_GVKForObject :: "kind \<Rightarrow> go_error option"
  kb_Accessor :: "runtime_object \<Rightarrow> go_error option"
  kb_Get :: "namespaced_name \<Rightarrow> kind \<Rightarrow> ('s, runtime_object \<times> go_error option) go"
  kb_Update :: "runtime_object \<Rightarrow> ('s, runtime_object \<times> go_error option) go"
  kb_StatusUpdate :: "runtime_object \<Rightarrow> ('s, runtime_object \<times> go_error option) go"
  kb_Delete :: "runtime_object \<Rightarrow> ('s, go_error option) go"
  kb_Event :: "runtime_object \<Rightarrow> string \<Rightarrow> string \<Rightarrow> string \<Rightarrow> ('s, unit) go"

subsection \<open>String slices\<close>

fun hasString :: "string list \<Rightarrow> string \<Rightarrow> bool" where
  "hasString [] s = False"
| "hasString (item # slice) s = (if item = s then True else hasString slice s)"

text \<open>The loop looks for \<open>s\<close>; the \<open>append\<close> runs when it ends without finding it.\<close>

definition addString :: "string list \<Rightarrow> string \<Rightarrow> string list" where
  "addString slice s = (if hasString slice s then slice else slice @ [s])"

fun removeString :: "string list \<Rightarrow> string \<Rightarrow> string list" where
  "removeString [] s = []"
| "removeString (item # slice) s =
     (if item = s then removeString slice s else item # removeString slice s)"

lemma hasString_iff [simp]: "hasString slice s \<longleftrightarrow> s \<in> set slice"
  by (induction slice) auto

lemma removeString_eq [simp]: "removeString slice s = filter (\<lambda>x. x \<noteq> s) slice"
  by (induction slice) auto

lemma set_addString [simp]: "set (addString slice s) = insert s (set slice)"
  by (auto simp: addString_def)

lemma addString_idem [simp]: "addString (addString slice s) s = addString slice s"
  by (simp add: addString_def)

lemma addString_keeps_order: "\<exists>added. addString slice s = slice @ added \<and> set added \<subseteq> {s}"
  by (simp add: addString_def)

lemma distinct_addString: "distinct slice \<Longrightarrow> distinct (addString slice s)"
  by (simp add: addString_def)

lemma removeString_addString: "s \<notin> set slice \<Longrightarrow> removeString (addString slice s) s = slice"
  by (auto simp: addString_def filter_id_conv)

subsection \<open>Finalizers\<close>

definition finalizerName :: string where
  "finalizerName = ''azure.alexeldeib.xyz/finalizer''"

definition AddFinalizer :: "object_meta \<Rightarrow> string \<Rightarrow> object_meta" where
  "AddFinalizer o' finalizer = o'\<lparr>om_Finalizers := addString (om_Finalizers o') finalizer\<rparr>"

definition RemoveFinalizer :: "object_meta \<Rightarrow> string \<Rightarrow> object_meta" where
  "RemoveFinalizer o' finalizer = o'\<lparr>om_Finalizers := removeString (om_Finalizers o') finalizer\<rparr>"

fun HasFinalizer_loop :: "string list \<Rightarrow> string \<Rightarrow> bool" where
  "HasFinalizer_loop [] finalizer = False"
| "HasFinalizer_loop (e # f) finalizer = (if e = finalizer then True else HasFinalizer_loop f finalizer)"

definition HasFinalizer :: "object_meta \<Rightarrow> string \<Rightarrow> bool" where
  "HasFinalizer o' finalizer = HasFinalizer_loop (om_Finalizers o') finalizer"

lemma HasFinalizer_iff [simp]: "HasFinalizer m f \<longleftrightarrow> f \<in> set (om_Finalizers m)"
proof -
  have "HasFinalizer_loop fs f \<longleftrightarrow> f \<in> set fs" for fs
    by (induction fs) auto
  then show ?thesis by (simp add: HasFinalizer_def)
qed

lemma AddFinalizer_simps [simp]:
  "set (om_Finalizers (AddFinalizer m f)) = insert f (set (om_Finalizers m))"
  "om_DeletionTimestamp (AddFinalizer m f) = om_DeletionTimestamp m"
  "om_Name (AddFinalizer m f) = om_Name m" "om_Namespace (AddFinalizer m f) = om_Namespace m"
  by (simp_all add: AddFinalizer_def)

lemma RemoveFinalizer_simps [simp]:
  "set (om_Finalizers (RemoveFinalizer m f)) = set (om_Finalizers m) - {f}"
  "om_DeletionTimestamp (RemoveFinalizer m f) = om_DeletionTimestamp m"
  "om_Name (RemoveFinalizer m f) = om_Name m" "om_Namespace (RemoveFinalizer m f) = om_Namespace m"
  by (auto simp: RemoveFinalizer_def)

lemma AddFinalizer_idem: "AddFinalizer (AddFinalizer m f) f = AddFinalizer m f"
  by (simp add: AddFinalizer_def)

lemma RemoveFinalizer_AddFinalizer:
  "\<not> HasFinalizer m f \<Longrightarrow> RemoveFinalizer (AddFinalizer m f) f = m"
  by (simp add: RemoveFinalizer_def AddFinalizer_def removeString_addString del: removeString_eq)

lemma AddFinalizer_other: "f \<noteq> g \<Longrightarrow> HasFinalizer (RemoveFinalizer m g) f = HasFinalizer m f"
  by simp

subsection \<open>Operations that talk to the API server\<close>

definition Fetch :: "lib \<Rightarrow> 's kube \<Rightarrow> namespaced_name \<Rightarrow> kind \<Rightarrow> ('s, runtime_object \<times> go_error option) go" where
  "Fetch L kb name k =
     go_bind (kb_Get kb name k) (\<lambda>(obj, err).
       case err of
         Some e \<Rightarrow> if IsNotFound L e then go_ret (obj, None) else go_ret (obj, Some e)
       | None \<Rightarrow> go_ret (obj, None))"

definition AddFinalizerAndUpdate :: "'s kube \<Rightarrow> string \<Rightarrow> runtime_object \<Rightarrow> ('s, runtime_object \<times> go_error option) go" where
  "AddFinalizerAndUpdate kb finalizer o' =
     (case kb_Accessor kb o' of
        Some err \<Rightarrow> go_ret (o', Some err)
      | None \<Rightarrow>
          if hasString (om_Finalizers (obj_meta o')) finalizer then go_ret (o', None)
          else go_bind (kb_Update kb (map_meta (\<lambda>m. AddFinalizer m finalizer) o')) (\<lambda>(o2, err).
                 case err of Some e \<Rightarrow> go_ret (o2, Some e) | None \<Rightarrow> go_ret (o2, None)))"

definition RemoveFinalizerAndUpdate :: "'s kube \<Rightarrow> string \<Rightarrow> runtime_object \<Rightarrow> ('s, runtime_object \<times> go_error option) go" where
  "RemoveFinalizerAndUpdate kb finalizer o' =
     (case kb_Accessor kb o' of
        Some err \<Rightarrow> go_ret (o', Some err)
      | None \<Rightarrow>
          if \<not> hasString (om_Finalizers (obj_meta o')) finalizer then go_ret (o', None)
          else go_bind (kb_Update kb (map_meta (\<lambda>m. RemoveFinalizer m finalizer) o')) (\<lambda>(o2, err).
                 case err of Some e \<Rightarrow> go_ret (o2, Some e) | None \<Rightarrow> go_ret (o2, None)))"

definition AddFinalizerIfPossible :: "'s kube \<Rightarrow> runtime_object \<Rightarrow> string \<Rightarrow> runtime_object \<times> go_error option" where
  "AddFinalizerIfPossible kb o' finalizer =
     (case kb_Accessor kb o' of
        Some err \<Rightarrow> (o', Some err)
      | None \<Rightarrow> (map_meta (\<lambda>m. AddFinalizer m finalizer) o', None))"

definition RemoveFinalizerIfPossible :: "'s kube \<Rightarrow> runtime_object \<Rightarrow> string \<Rightarrow> runtime_object \<times> go_error option" where
  "RemoveFinalizerIfPossible kb o' finalizer =
     (case kb_Accessor kb o' of
        Some err \<Rightarrow> (o', Some err)
      | None \<Rightarrow> (map_meta (\<lambda>m. RemoveFinalizer m finalizer) o', None))"

definition DeleteIfFound :: "lib \<Rightarrow> 's kube \<Rightarrow> runtime_object \<Rightarrow> ('s, go_error option) go" where
  "DeleteIfFound L kb obj =
     go_bind (kb_Delete kb obj) (\<lambda>err.
       case err of
         Some e \<Rightarrow> if \<not> IsNotFound L e then go_ret (Some e) else go_ret None
       | None \<Rightarrow> go_ret None)"

lemma DeleteIfFound_is_IgnoreNotFound:
  "lib_ok L \<Longrightarrow> DeleteIfFound L kb obj = go_bind (kb_Delete kb obj) (\<lambda>err. go_ret (IgnoreNotFound L err))"
  by (auto simp: DeleteIfFound_def lib_okD fun_eq_iff go_bind_def split: outcome.splits prod.splits option.splits)

text \<open>
  The two \<open>...AndUpdate\<close> operations write at most once, and not at all when the object is
  already as wanted.
\<close>

lemma AddFinalizerAndUpdate_noop:
  assumes "kb_Accessor kb o' = None" and "HasFinalizer (obj_meta o') f"
  shows "AddFinalizerAndUpdate kb f o' = go_ret (o', None)"
  using assms by (simp add: AddFinalizerAndUpdate_def)

lemma RemoveFinalizerAndUpdate_noop:
  assumes "kb_Accessor kb o' = None" and "\<not> HasFinalizer (obj_meta o') f"
  shows "RemoveFinalizerAndUpdate kb f o' = go_ret (o', None)"
  using assms by (simp add: RemoveFinalizerAndUpdate_def)

lemma AddFinalizerAndUpdate_writes:
  assumes "kb_Accessor kb o' = None" and "\<not> HasFinalizer (obj_meta o') f"
  shows "AddFinalizerAndUpdate kb f o' = kb_Update kb (map_meta (\<lambda>m. AddFinalizer m f) o')"
  using assms
  by (auto simp: AddFinalizerAndUpdate_def fun_eq_iff go_bind_def go_ret_def split: outcome.splits prod.splits option.splits)

lemma RemoveFinalizerAndUpdate_writes:
  assumes "kb_Accessor kb o' = None" and "HasFinalizer (obj_meta o') f"
  shows "RemoveFinalizerAndUpdate kb f o' = kb_Update kb (map_meta (\<lambda>m. RemoveFinalizer m f) o')"
  using assms
  by (auto simp: RemoveFinalizerAndUpdate_def fun_eq_iff go_bind_def go_ret_def split: outcome.splits prod.splits option.splits)

end
