(* ===== verification/Reconcilers.thy ===== *)
theory Reconcilers imports Helpers begin

section \<open>The generic reconcilers (controllers)\<close>

text \<open>
  \<open>controllers/async_controller.go\<close> and \<open>controllers/sync_controller.go\<close>: the interfaces
  \<open>AsyncClient\<close> and \<open>SyncClient\<close> (records of operations over a state \<open>'s\<close> that holds the API
  server, Azure and the client's own fields) and the two \<open>Reconcile\<close> functions.  The three arms
  of each \<open>Reconcile\<close> (add the finalizer, delete, ensure) are definitions of their own.

  The contracts of the interfaces are the locales of the theory \<open>Client_Contracts\<close>; the
  controller of the traffic managers, which has a \<open>Reconcile\<close> of its own, is in \<open>TrafficManagers\<close>.
\<close>

record 's AsyncClient =
  async_ForSubscription :: "runtime_object \<Rightarrow> ('s, go_error option) go"
  async_Ensure :: "runtime_object \<Rightarrow> ('s, runtime_object \<times> bool \<times> go_error option) go"
  async_Delete :: "runtime_object \<Rightarrow> ('s, runtime_object \<times> bool \<times> go_error option) go"

record 's SyncClient =
  sync_ForSubscription :: "runtime_object \<Rightarrow> ('s, go_error option) go"
  sync_Ensure :: "runtime_object \<Rightarrow> ('s, runtime_object \<times> go_error option) go"
  sync_Delete :: "runtime_object \<Rightarrow> ('s, runtime_object \<times> go_error option) go"

text \<open>\<open>ctrl.Result\<close>, of which the code sets \<open>Requeue\<close> only.\<close>

record ctrl_result =
  Requeue :: bool

definition no_requeue :: ctrl_result where
  "no_requeue = \<lparr>Requeue = False\<rparr>"

lemma Requeue_no_requeue [simp]: "Requeue no_requeue = False"
  by (simp add: no_requeue_def)

subsection \<open>The asynchronous reconciler\<close>

definition add_finalizer_step :: "'s kube \<Rightarrow> runtime_object \<Rightarrow> ('s, ctrl_result \<times> go_error option) go" where
  "add_finalizer_step kb local =
     (let local' = map_meta (\<lambda>m. AddFinalizer m finalizerName) local in
      go_bind (kb_Event kb local' ''Normal'' ''Added'' ''Object finalizer is added'') (\<lambda>_.
      go_bind (kb_Update kb local') (\<lambda>(local'', err). go_ret (no_requeue, err))))"

definition remove_finalizer_step :: "'s kube \<Rightarrow> runtime_object \<Rightarrow> ('s, ctrl_result \<times> go_error option) go" where
  "remove_finalizer_step kb local =
     go_bind (kb_Event kb local ''Normal'' ''Deleted'' ''Successfully deleted'') (\<lambda>_.
     go_bind (kb_Update kb (map_meta (\<lambda>m. RemoveFinalizer m finalizerName) local)) (\<lambda>(local', err).
     go_ret (no_requeue, err)))"

definition failed_delete_step ::
  "lib \<Rightarrow> 's kube \<Rightarrow> runtime_object \<Rightarrow> go_error \<Rightarrow> ('s, ctrl_result \<times> go_error option) go" where
  "failed_delete_step L kb local err =
     go_bind (kb_Event kb local ''Warning'' ''FailedDelete''
                (''Failed to delete resource: '' @ error_text L err)) (\<lambda>_.
     go_ret (no_requeue, Some err))"

definition async_delete_step ::
  "lib \<Rightarrow> 's kube \<Rightarrow> 's AsyncClient \<Rightarrow> runtime_object \<Rightarrow> ('s, ctrl_result \<times> go_error option) go" where
  "async_delete_step L kb az local =
     go_bind (async_Delete az local) (\<lambda>(local1, found, deleteErr).
     go_bind (kb_StatusUpdate kb local1) (\<lambda>(local2, updateErr).
       case multierror L [deleteErr, updateErr] of
         Some err \<Rightarrow> failed_delete_step L kb local2 err
       | None \<Rightarrow>
           if \<not> found then remove_finalizer_step kb local2
           else go_ret (no_requeue, Some (ErrorText ''requeuing, deletion unfinished''))))"

definition async_ensure_step ::
  "lib \<Rightarrow> 's kube \<Rightarrow> 's AsyncClient \<Rightarrow> runtime_object \<Rightarrow> ('s, ctrl_result \<times> go_error option) go" where
  "async_ensure_step L kb az local =
     go_bind (async_Ensure az local) (\<lambda>(local1, done, ensureErr).
     go_bind (kb_StatusUpdate kb local1) (\<lambda>(local2, updateErr).
       let err = multierror L [ensureErr, updateErr] in
       go_bind
         (case err of
            Some e \<Rightarrow> kb_Event kb local2 ''Warning'' ''FailedReconcile''
                        (''Failed to reconcile resource: '' @ error_text L e)
          | None \<Rightarrow>
              if done then kb_Event kb local2 ''Normal'' ''Reconciled'' ''Successfully reconciled''
              else go_ret ())
         (\<lambda>_. go_ret (\<lparr>Requeue = \<not> done\<rparr>, err))))"

definition async_Reconcile ::
  "lib \<Rightarrow> 's kube \<Rightarrow> 's AsyncClient \<Rightarrow> namespaced_name \<Rightarrow> kind \<Rightarrow> ('s, ctrl_result \<times> go_error option) go" where
  "async_Reconcile L kb az req k =
     (case kb_GVKForObject kb k of
        Some err \<Rightarrow> go_ret (no_requeue, Some err)
      | None \<Rightarrow>
     go_bind (kb_Get kb req k) (\<lambda>(local, err). case err of
        Some e \<Rightarrow> go_ret (no_requeue, IgnoreNotFound L (Some e))
      | None \<Rightarrow>
     go_bind (async_ForSubscription az local) (\<lambda>err. case err of
        Some e \<Rightarrow> go_ret (no_requeue, Some e)
      | None \<Rightarrow>
     (case kb_Accessor kb local of
        Some convertErr \<Rightarrow> go_ret (no_requeue, Some convertErr)
      | None \<Rightarrow>
          if om_DeletionTimestamp (obj_meta local) = None then
            if \<not> HasFinalizer (obj_meta local) finalizerName then add_finalizer_step kb local
            else async_ensure_step L kb az local
          else
            if HasFinalizer (obj_meta local) finalizerName then async_delete_step L kb az local
            else go_ret (no_requeue, None)))))"

subsection \<open>The synchronous reconciler\<close>

text \<open>
  \<open>multierror.Append(r.Az.Delete(ctx, local), r.Status().Update(ctx, local))\<close> evaluates its
  arguments from left to right.
\<close>

definition sync_delete_step ::
  "lib \<Rightarrow> 's kube \<Rightarrow> 's SyncClient \<Rightarrow> runtime_object \<Rightarrow> ('s, ctrl_result \<times> go_error option) go" where
  "sync_delete_step L kb az local =
     go_bind (sync_Delete az local) (\<lambda>(local1, deleteErr).
     go_bind (kb_StatusUpdate kb local1) (\<lambda>(local2, updateErr).
       case multierror L [deleteErr, updateErr] of
         Some err \<Rightarrow> failed_delete_step L kb local2 err
       | None \<Rightarrow> remove_finalizer_step kb local2))"

definition sync_ensure_step ::
  "lib \<Rightarrow> 's kube \<Rightarrow> 's SyncClient \<Rightarrow> runtime_object \<Rightarrow> ('s, ctrl_result \<times> go_error option) go" where
  "sync_ensure_step L kb az local =
     go_bind (sync_Ensure az local) (\<lambda>(local1, ensureErr).
     go_bind (kb_StatusUpdate kb local1) (\<lambda>(local2, updateErr).
       let err = multierror L [ensureErr, updateErr] in
       go_bind
         (case err of
            Some e \<Rightarrow> kb_Event kb local2 ''Warning'' ''FailedReconcile''
                        (''Failed to reconcile resource: '' @ error_text L e)
          | None \<Rightarrow> go_ret ())
         (\<lambda>_. go_bind (kb_Event kb local2 ''Normal'' ''Reconciled'' ''Successfully reconciled'')
         (\<lambda>_. go_ret (no_requeue, err)))))"

definition sync_Reconcile ::
  "lib \<Rightarrow> 's kube \<Rightarrow> 's SyncClient \<Rightarrow> namespaced_name \<Rightarrow> kind \<Rightarrow> ('s, ctrl_result \<times> go_error option) go" where
  "sync_Reconcile L kb az req k =
     (case kb_GVKForObject kb k of
        Some err \<Rightarrow> go_ret (no_requeue, Some err)
      | None \<Rightarrow>
     go_bind (kb_Get kb req k) (\<lambda>(local, err). case err of
        Some e \<Rightarrow> go_ret (no_requeue, IgnoreNotFound L (Some e))
      | None \<Rightarrow>
     go_bind (sync_ForSubscription az local) (\<lambda>err. case err of
        Some e \<Rightarrow> go_ret (no_requeue, Some e)
      | None \<Rightarrow>
     (case kb_Accessor kb local of
        Some convertErr \<Rightarrow> go_ret (no_requeue, Some convertErr)
      | None \<Rightarrow>
          if om_DeletionTimestamp (obj_meta local) = None then
            if \<not> HasFinalizer (obj_meta local) finalizerName then add_finalizer_step kb local
            else sync_ensure_step L kb az local
          else
            if HasFinalizer (obj_meta local) finalizerName then sync_delete_step L kb az local
            else go_ret (no_requeue, None)))))"

end
