(* ===== verification/Reconcile_Safety.thy ===== *)
theory Reconcile_Safety imports Reconcilers begin

section \<open>What a reconcile may do to the object and to Azure\<close>

text \<open>
  The calls of a reconcile are recorded by wrappers around the API server and the client
  (\<open>traced_kube\<close>, \<open>traced_async\<close>, \<open>traced_sync\<close>) which run the original operations and keep the
  trace beside the state; erasing the trace gives the original run (\<open>erases\<close>).  The safety
  conditions are on the trace, hold for every API server and every client, and hold at every
  prefix of a run that panics.
\<close>

datatype rcall =
    GotObject runtime_object
  | Ensures runtime_object
  | Deletes runtime_object
  | EnsureReturned runtime_object bool "go_error option"
  | DeleteReturned runtime_object bool "go_error option"
  | Updates runtime_object
  | StatusUpdates runtime_object
  | Events string string

text \<open>The name of a call, to show a trace.\<close>

fun rcall_name :: "rcall \<Rightarrow> string" where
  "rcall_name (GotObject obj) = ''Get''"
| "rcall_name (Ensures obj) = ''Ensure''"
| "rcall_name (Deletes obj) = ''Delete''"
| "rcall_name (EnsureReturned obj done err) = ''Ensure returned''"
| "rcall_name (DeleteReturned obj found err) = ''Delete returned''"
| "rcall_name (Updates obj) = ''Update''"
| "rcall_name (StatusUpdates obj) = ''Status().Update''"
| "rcall_name (Events ty reason) = ''Event ''  @ reason"

text \<open>\<open>traced pre post m\<close> adds \<open>pre\<close> when the call is made and \<open>post x\<close> when it returns \<open>x\<close>;
  the newest call is the head of the trace.\<close>

definition traced :: "rcall list \<Rightarrow> ('a \<Rightarrow> rcall list) \<Rightarrow> ('s, 'a) go \<Rightarrow> ('s \<times> rcall list, 'a) go" where
  "traced pre post m = (\<lambda>(s, t). case m s of
       (Returns x, s') \<Rightarrow> (Returns x, (s', post x @ pre @ t))
     | (Panics, s') \<Rightarrow> (Panics, (s', pre @ t)))"

definition traced_kube :: "'s kube \<Rightarrow> ('s \<times> rcall list) kube" where
  "traced_kube kb = \<lparr>
     kb_GVKForObject = kb_GVKForObject kb,
     kb_Accessor = kb_Accessor kb,
     kb_Get = (\<lambda>n k. traced [] (\<lambda>(obj, err). if err = None then [GotObject obj] else []) (kb_Get kb n k)),
     kb_Update = (\<lambda>obj. traced [Updates obj] (\<lambda>_. []) (kb_Update kb obj)),
     kb_StatusUpdate = (\<lambda>obj. traced [StatusUpdates obj] (\<lambda>_. []) (kb_StatusUpdate kb obj)),
     kb_Delete = (\<lambda>obj. traced [] (\<lambda>_. []) (kb_Delete kb obj)),
     kb_Event = (\<lambda>obj ty reason msg. traced [Events ty reason] (\<lambda>_. []) (kb_Event kb obj ty reason msg))\<rparr>"

definition traced_async :: "'s AsyncClient \<Rightarrow> ('s \<times> rcall list) AsyncClient" where
  "traced_async az = \<lparr>
     async_ForSubscription = (\<lambda>obj. traced [] (\<lambda>_. []) (async_ForSubscription az obj)),
     async_Ensure = (\<lambda>obj. traced [Ensures obj] (\<lambda>(obj', done, err). [EnsureReturned obj' done err]) (async_Ensure az obj)),
     async_Delete = (\<lambda>obj. traced [Deletes obj] (\<lambda>(obj', found, err). [DeleteReturned obj' found err]) (async_Delete az obj))\<rparr>"

definition traced_sync :: "'s SyncClient \<Rightarrow> ('s \<times> rcall list) SyncClient" where
  "traced_sync az = \<lparr>
     sync_ForSubscription = (\<lambda>obj. traced [] (\<lambda>_. []) (sync_ForSubscription az obj)),
     sync_Ensure = (\<lambda>obj. traced [Ensures obj] (\<lambda>(obj', err). [EnsureReturned obj' True err]) (sync_Ensure az obj)),
     sync_Delete = (\<lambda>obj. traced [Deletes obj] (\<lambda>(obj', err). [DeleteReturned obj' False err]) (sync_Delete az obj))\<rparr>"

subsection \<open>Erasing the trace\<close>

definition erases :: "('s \<times> rcall list, 'a) go \<Rightarrow> ('s, 'a) go \<Rightarrow> bool" where
  "erases m' m \<longleftrightarrow> (\<forall>s t. fst (m' (s, t)) = fst (m s) \<and> fst (snd (m' (s, t))) = snd (m s))"

named_theorems erasing "rules for erasing traces, one per construct"

lemma erases_traced [erasing]: "erases (traced pre post m) m"
  by (auto simp: erases_def traced_def split: prod.splits outcome.splits)

lemma erases_ret [erasing]: "erases (go_ret x) (go_ret x)"
  by (simp add: erases_def go_ret_def)

lemma erases_bind [erasing]:
  assumes "erases m' m" and "\<And>x. erases (k' x) (k x)"
  shows "erases (go_bind m' k') (go_bind m k)"
  unfolding erases_def
proof (intro allI)
  fix s t
  show "fst (go_bind m' k' (s, t)) = fst (go_bind m k s) \<and>
        fst (snd (go_bind m' k' (s, t))) = snd (go_bind m k s)"
    using assms(1) [unfolded erases_def, rule_format, of s t] assms(2) [unfolded erases_def, rule_format]
    by (cases "m' (s, t)"; cases "m s"; cases "fst (m s)") (auto simp: go_bind_def)
qed

lemma erases_if [erasing]:
  "erases m' m \<Longrightarrow> erases n' n \<Longrightarrow> erases (if b then m' else n') (if b then m else n)"
  by simp

lemma erases_case_option [erasing]:
  "erases m' m \<Longrightarrow> (\<And>y. erases (f' y) (f y)) \<Longrightarrow>
   erases (case x of None \<Rightarrow> m' | Some y \<Rightarrow> f' y) (case x of None \<Rightarrow> m | Some y \<Rightarrow> f y)"
  by (cases x) simp_all

lemma erases_case_prod [erasing]:
  "(\<And>a b. erases (f' a b) (f a b)) \<Longrightarrow>
   erases (case x of (a, b) \<Rightarrow> f' a b) (case x of (a, b) \<Rightarrow> f a b)"
  by (cases x) simp

lemmas traced_ops = traced_kube_def traced_async_def traced_sync_def

lemmas step_defs = add_finalizer_step_def remove_finalizer_step_def failed_delete_step_def
  async_delete_step_def async_ensure_step_def sync_delete_step_def sync_ensure_step_def

lemma erases_async_Reconcile:
  "erases (async_Reconcile L (traced_kube kb) (traced_async az) req k) (async_Reconcile L kb az req k)"
  unfolding async_Reconcile_def step_defs traced_ops kube.simps AsyncClient.simps Let_def
  by (intro erasing)

lemma erases_sync_Reconcile:
  "erases (sync_Reconcile L (traced_kube kb) (traced_sync az) req k) (sync_Reconcile L kb az req k)"
  unfolding sync_Reconcile_def step_defs traced_ops kube.simps SyncClient.simps Let_def
  by (intro erasing)

subsection \<open>The safety conditions\<close>

abbreviation has_finalizer :: "runtime_object \<Rightarrow> bool" where
  "has_finalizer obj \<equiv> HasFinalizer (obj_meta obj) finalizerName"

abbreviation deleting :: "runtime_object \<Rightarrow> bool" where
  "deleting obj \<equiv> om_DeletionTimestamp (obj_meta obj) \<noteq> None"

text \<open>
  What must have happened before each call:
  \<^item> an update that writes the object without its finalizer comes after a \<open>Delete\<close> of the
    Azure resource that answered \<open>(false, nil)\<close>;
  \<^item> \<open>Ensure\<close> is called on the fetched object, which is not being deleted and already has the
    finalizer in the API server;
  \<^item> \<open>Delete\<close> is called on the fetched object, which is being deleted and has the finalizer;
  \<^item> a status update writes the object \<open>Ensure\<close> or \<open>Delete\<close> left.
\<close>

fun justified :: "rcall \<Rightarrow> rcall list \<Rightarrow> bool" where
  "justified (Updates obj) t \<longleftrightarrow>
     has_finalizer obj \<or> (\<exists>obj'. DeleteReturned obj' False None \<in> set t)"
| "justified (Ensures obj) t \<longleftrightarrow> GotObject obj \<in> set t \<and> has_finalizer obj \<and> \<not> deleting obj"
| "justified (Deletes obj) t \<longleftrightarrow> GotObject obj \<in> set t \<and> has_finalizer obj \<and> deleting obj"
| "justified (StatusUpdates obj) t \<longleftrightarrow>
     (\<exists>b err. EnsureReturned obj b err \<in> set t \<or> DeleteReturned obj b err \<in> set t)"
| "justified c t \<longleftrightarrow> True"

fun all_justified :: "rcall list \<Rightarrow> bool" where
  "all_justified [] = True"
| "all_justified (c # t) = (justified c t \<and> all_justified t)"

text \<open>At most one object update, at most one call that changes Azure.\<close>

fun writes_object :: "rcall \<Rightarrow> bool" where
  "writes_object (Updates obj) = True"
| "writes_object c = False"

fun changes_azure :: "rcall \<Rightarrow> bool" where
  "changes_azure (Ensures obj) = True"
| "changes_azure (Deletes obj) = True"
| "changes_azure c = False"

definition few :: "rcall list \<Rightarrow> bool" where
  "few t \<longleftrightarrow> length (filter writes_object t) \<le> 1 \<and> length (filter changes_azure t) \<le> 1"

definition safe_trace :: "rcall list \<Rightarrow> bool" where
  "safe_trace t \<longleftrightarrow> all_justified t \<and> few t"

text \<open>A traced call extends the trace.\<close>

lemma triple_traced [triples]:
  "X (pre @ T) \<Longrightarrow>
   triple (\<lambda>s. snd s = T) (traced pre post m) (\<lambda>x s. snd s = post x @ pre @ T) (\<lambda>s. X (snd s))"
  by (auto simp: triple_def traced_def split: prod.splits outcome.splits)

lemmas safe_trace_defs = safe_trace_def few_def

text \<open>An assertion that holds of the final state however the run ended.\<close>

lemma triple_result: "triple P m (\<lambda>_. Q) Q \<Longrightarrow> P s \<Longrightarrow> Q (snd (m s))"
  by (cases "m s"; cases "fst (m s)") (auto dest: tripleD_Returns tripleD_Panics)

lemmas traced_vc = step_defs traced_ops kube.simps AsyncClient.simps SyncClient.simps Let_def
  go_bind_choice go_bind_ret

lemma async_Reconcile_triple:
  assumes "lib_ok L"
  shows "triple (\<lambda>s. snd s = []) (async_Reconcile L (traced_kube kb) (traced_async az) req k)
     (\<lambda>_ s. safe_trace (snd s)) (\<lambda>s. safe_trace (snd s))"
  unfolding async_Reconcile_def traced_vc
  by ((rule triples | (use assms in \<open>auto simp: safe_trace_defs split: if_splits\<close>; fail))+)

lemma sync_Reconcile_triple:
  assumes "lib_ok L"
  shows "triple (\<lambda>s. snd s = []) (sync_Reconcile L (traced_kube kb) (traced_sync az) req k)
     (\<lambda>_ s. safe_trace (snd s)) (\<lambda>s. safe_trace (snd s))"
  unfolding sync_Reconcile_def traced_vc
  by ((rule triples | (use assms in \<open>auto simp: safe_trace_defs split: if_splits\<close>; fail))+)

end
