(* ===== verification/Finalizer_Protocol.thy ===== *)
theory Finalizer_Protocol imports Reconcile_Safety begin

section \<open>The finalizer protocol protects Azure resources\<close>

text \<open>
  The purpose of the finalizer is that an Azure resource never outlives the object that
  declares it.  The section states it for the reconcilers over an abstract state \<open>'s\<close> with two
  predicates: \<open>fin s\<close>, the API server holds the object with the finalizer, and \<open>res s\<close>, the
  Azure resource may exist.  A resource is orphaned when \<open>res\<close> holds without \<open>fin\<close>.

  \<open>api_server_ok\<close> and \<open>azure_ok\<close> are the contracts of the API server and of the client; each
  operation may run together with interference by users and by Azure, as long as these do not
  take the finalizer away and do not create the resource.
\<close>

definition api_server_ok ::
  "(runtime_object \<Rightarrow> bool) \<Rightarrow> 's kube \<Rightarrow> ('s \<Rightarrow> bool) \<Rightarrow> ('s \<Rightarrow> bool) \<Rightarrow> bool" where
  "api_server_ok mine kb fin res \<longleftrightarrow>
     (\<forall>n k. keeps fin (kb_Get kb n k) \<and> keeps (\<lambda>s. \<not> res s) (kb_Get kb n k) \<and>
        triple (\<lambda>_. True) (kb_Get kb n k)
          (\<lambda>(obj, err) s. err = None \<longrightarrow> mine obj \<and> (has_finalizer obj \<longrightarrow> fin s)) (\<lambda>_. True)) \<and>
     (\<forall>obj. has_finalizer obj \<longrightarrow> keeps fin (kb_Update kb obj)) \<and>
     (\<forall>obj. keeps (\<lambda>s. \<not> res s) (kb_Update kb obj)) \<and>
     (\<forall>obj. keeps fin (kb_StatusUpdate kb obj) \<and> keeps (\<lambda>s. \<not> res s) (kb_StatusUpdate kb obj)) \<and>
     (\<forall>obj ty reason msg. keeps fin (kb_Event kb obj ty reason msg) \<and>
        keeps (\<lambda>s. \<not> res s) (kb_Event kb obj ty reason msg))"

definition azure_ok ::
  "(runtime_object \<Rightarrow> bool) \<Rightarrow> (runtime_object \<Rightarrow> 's \<Rightarrow> bool) \<Rightarrow> 's AsyncClient \<Rightarrow>
   ('s \<Rightarrow> bool) \<Rightarrow> ('s \<Rightarrow> bool) \<Rightarrow> bool" where
  "azure_ok mine ready az fin res \<longleftrightarrow>
     (\<forall>obj. mine obj \<longrightarrow>
        keeps fin (async_ForSubscription az obj) \<and> keeps (\<lambda>s. \<not> res s) (async_ForSubscription az obj) \<and>
        triple (\<lambda>_. True) (async_ForSubscription az obj) (\<lambda>err s. err = None \<longrightarrow> ready obj s) (\<lambda>_. True)) \<and>
     (\<forall>obj. mine obj \<longrightarrow> keeps fin (async_Ensure az obj)) \<and>
     (\<forall>obj. mine obj \<longrightarrow> keeps fin (async_Delete az obj) \<and>
        triple (ready obj) (async_Delete az obj) (\<lambda>(obj', found, err) s. \<not> found \<and> err = None \<longrightarrow> \<not> res s) (\<lambda>_. True))"

definition sync_azure_ok ::
  "(runtime_object \<Rightarrow> bool) \<Rightarrow> (runtime_object \<Rightarrow> 's \<Rightarrow> bool) \<Rightarrow> 's SyncClient \<Rightarrow>
   ('s \<Rightarrow> bool) \<Rightarrow> ('s \<Rightarrow> bool) \<Rightarrow> bool" where
  "sync_azure_ok mine ready az fin res \<longleftrightarrow>
     (\<forall>obj. mine obj \<longrightarrow>
        keeps fin (sync_ForSubscription az obj) \<and> keeps (\<lambda>s. \<not> res s) (sync_ForSubscription az obj) \<and>
        triple (\<lambda>_. True) (sync_ForSubscription az obj) (\<lambda>err s. err = None \<longrightarrow> ready obj s) (\<lambda>_. True)) \<and>
     (\<forall>obj. mine obj \<longrightarrow> keeps fin (sync_Ensure az obj)) \<and>
     (\<forall>obj. mine obj \<longrightarrow> keeps fin (sync_Delete az obj) \<and>
        triple (ready obj) (sync_Delete az obj) (\<lambda>(obj', err) s. err = None \<longrightarrow> \<not> res s) (\<lambda>_. True))"

definition no_orphan :: "('s \<Rightarrow> bool) \<Rightarrow> ('s \<Rightarrow> bool) \<Rightarrow> 's \<Rightarrow> bool" where
  "no_orphan fin res s \<longleftrightarrow> (res s \<longrightarrow> fin s)"

subsection \<open>The calls\<close>

lemma keeps_conj: "keeps P m \<Longrightarrow> keeps Q m \<Longrightarrow> keeps (\<lambda>s. P s \<and> Q s) m"
  unfolding keeps_def by (drule (1) triple_conj) simp

lemma keeps_imp: "keeps P m \<Longrightarrow> keeps (\<lambda>s. b \<longrightarrow> P s) m"
  by (cases b) (auto intro: keepsI)

lemma api_server_okD:
  assumes "api_server_ok mine kb fin res"
  shows "keeps fin (kb_Get kb n k)" and "keeps (\<lambda>s. \<not> res s) (kb_Get kb n k)"
    and "triple (\<lambda>_. True) (kb_Get kb n k)
          (\<lambda>(obj, err) s. err = None \<longrightarrow> mine obj \<and> (has_finalizer obj \<longrightarrow> fin s)) (\<lambda>_. True)"
    and "has_finalizer obj \<Longrightarrow> keeps fin (kb_Update kb obj)"
    and "keeps (\<lambda>s. \<not> res s) (kb_Update kb obj)"
    and "keeps fin (kb_StatusUpdate kb obj)" and "keeps (\<lambda>s. \<not> res s) (kb_StatusUpdate kb obj)"
    and "keeps fin (kb_Event kb obj ty reason msg)"
    and "keeps (\<lambda>s. \<not> res s) (kb_Event kb obj ty reason msg)"
  using assms unfolding api_server_ok_def by blast+

lemma azure_okD:
  assumes "azure_ok mine ready az fin res" and "mine obj"
  shows "keeps fin (async_ForSubscription az obj)" and "keeps (\<lambda>s. \<not> res s) (async_ForSubscription az obj)"
    and "triple (\<lambda>_. True) (async_ForSubscription az obj) (\<lambda>err s. err = None \<longrightarrow> ready obj s) (\<lambda>_. True)"
    and "keeps fin (async_Ensure az obj)" and "keeps fin (async_Delete az obj)"
    and "triple (ready obj) (async_Delete az obj) (\<lambda>(obj', found, err) s. \<not> found \<and> err = None \<longrightarrow> \<not> res s) (\<lambda>_. True)"
  using assms unfolding azure_ok_def by blast+

lemma sync_azure_okD:
  assumes "sync_azure_ok mine ready az fin res" and "mine obj"
  shows "keeps fin (sync_ForSubscription az obj)" and "keeps (\<lambda>s. \<not> res s) (sync_ForSubscription az obj)"
    and "triple (\<lambda>_. True) (sync_ForSubscription az obj) (\<lambda>err s. err = None \<longrightarrow> ready obj s) (\<lambda>_. True)"
    and "keeps fin (sync_Ensure az obj)" and "keeps fin (sync_Delete az obj)"
    and "triple (ready obj) (sync_Delete az obj) (\<lambda>(obj', err) s. err = None \<longrightarrow> \<not> res s) (\<lambda>_. True)"
  using assms unfolding sync_azure_ok_def by blast+

text \<open>An operation under which both predicates are stable changes nothing that matters here.\<close>

definition harmless :: "('s \<Rightarrow> bool) \<Rightarrow> ('s \<Rightarrow> bool) \<Rightarrow> ('s, 'a) go \<Rightarrow> bool" where
  "harmless fin res m \<longleftrightarrow> keeps fin m \<and> keeps (\<lambda>s. \<not> res s) m"

lemma harmless_fin: "harmless fin res m \<Longrightarrow> keeps fin m"
  and harmless_res: "harmless fin res m \<Longrightarrow> keeps (\<lambda>s. \<not> res s) m"
  by (simp_all add: harmless_def)

lemma harmless_no_orphan: "harmless fin res m \<Longrightarrow> keeps (no_orphan fin res) m"
  unfolding harmless_def no_orphan_def imp_conv_disj by (rule keeps_disj) simp_all

lemma harmless_calls:
  assumes "api_server_ok mine kb fin res"
  shows "harmless fin res (kb_Get kb n k)" and "harmless fin res (kb_StatusUpdate kb obj)"
    and "harmless fin res (kb_Event kb obj ty reason msg)"
    and "has_finalizer obj \<Longrightarrow> harmless fin res (kb_Update kb obj)"
  using api_server_okD [OF assms] by (simp_all add: harmless_def)

lemma fin_no_orphan: "fin s \<Longrightarrow> no_orphan fin res s"
  and gone_no_orphan: "\<not> res s \<Longrightarrow> no_orphan fin res s"
  by (simp_all add: no_orphan_def)

subsection \<open>The arms of a reconcile\<close>

lemma stable:
  "keeps P m \<Longrightarrow> (\<And>s. P s \<Longrightarrow> X s) \<Longrightarrow> triple P m (\<lambda>_. P) X"
  by (rule keeps_triple)

lemma add_finalizer_step_no_orphan:
  assumes api: "api_server_ok mine kb fin res"
  shows "triple (no_orphan fin res) (add_finalizer_step kb local) (\<lambda>_. no_orphan fin res) (no_orphan fin res)"
  unfolding add_finalizer_step_def Let_def
proof (rule triple_bind)
  show "triple (no_orphan fin res)
     (kb_Event kb (map_meta (\<lambda>m. AddFinalizer m finalizerName) local) ''Normal'' ''Added'' ''Object finalizer is added'')
     (\<lambda>_. no_orphan fin res) (no_orphan fin res)"
    by (rule stable [OF harmless_no_orphan [OF harmless_calls(3) [OF api]]])
next
  have "triple (no_orphan fin res) (kb_Update kb (map_meta (\<lambda>m. AddFinalizer m finalizerName) local))
     (\<lambda>_. no_orphan fin res) (no_orphan fin res)"
    by (rule stable [OF harmless_no_orphan [OF harmless_calls(4) [OF api]]]) simp_all
  then show "triple (no_orphan fin res)
      (go_bind (kb_Update kb (map_meta (\<lambda>m. AddFinalizer m finalizerName) local))
         (\<lambda>(local'', err). go_ret (no_requeue, err)))
      (\<lambda>_. no_orphan fin res) (no_orphan fin res)"
    by (rule triple_bind) (auto intro!: triples)
qed

lemma remove_finalizer_step_no_orphan:
  assumes api: "api_server_ok mine kb fin res"
  shows "triple (\<lambda>s. \<not> res s) (remove_finalizer_step kb local) (\<lambda>_. no_orphan fin res) (no_orphan fin res)"
  unfolding remove_finalizer_step_def
proof (rule triple_bind)
  show "triple (\<lambda>s. \<not> res s) (kb_Event kb local ''Normal'' ''Deleted'' ''Successfully deleted'')
     (\<lambda>_ s. \<not> res s) (no_orphan fin res)"
    by (rule stable [OF api_server_okD(9) [OF api]]) (rule gone_no_orphan)
next
  have "triple (\<lambda>s. \<not> res s) (kb_Update kb (map_meta (\<lambda>m. RemoveFinalizer m finalizerName) local))
     (\<lambda>_ s. \<not> res s) (no_orphan fin res)"
    by (rule stable [OF api_server_okD(5) [OF api]]) (rule gone_no_orphan)
  then show "triple (\<lambda>s. \<not> res s)
      (go_bind (kb_Update kb (map_meta (\<lambda>m. RemoveFinalizer m finalizerName) local))
         (\<lambda>(local', err). go_ret (no_requeue, err)))
      (\<lambda>_. no_orphan fin res) (no_orphan fin res)"
    by (rule triple_bind) (auto intro!: triples gone_no_orphan)
qed

lemma failed_delete_step_no_orphan:
  assumes api: "api_server_ok mine kb fin res"
  shows "triple fin (failed_delete_step L kb local err) (\<lambda>_. no_orphan fin res) (no_orphan fin res)"
  unfolding failed_delete_step_def
proof (rule triple_bind)
  show "triple fin (kb_Event kb local ''Warning'' ''FailedDelete''
      (''Failed to delete resource: '' @ error_text L err)) (\<lambda>_. fin) (no_orphan fin res)"
    by (rule stable [OF api_server_okD(8) [OF api]]) (rule fin_no_orphan)
qed (auto intro!: triples fin_no_orphan)

text \<open>After a deletion the object is still protected, and \<open>gone\<close> tells whether the resource is
  known to be gone; a status update keeps both.\<close>

definition after_delete :: "('s \<Rightarrow> bool) \<Rightarrow> ('s \<Rightarrow> bool) \<Rightarrow> bool \<Rightarrow> 's \<Rightarrow> bool" where
  "after_delete fin res gone s \<longleftrightarrow> fin s \<and> (gone \<longrightarrow> \<not> res s)"

lemma StatusUpdate_after_delete:
  assumes api: "api_server_ok mine kb fin res"
  shows "triple (after_delete fin res gone) (kb_StatusUpdate kb obj)
     (\<lambda>_. after_delete fin res gone) (no_orphan fin res)"
proof (rule stable)
  show "keeps (after_delete fin res gone) (kb_StatusUpdate kb obj)"
    unfolding after_delete_def
    by (intro keeps_conj keeps_imp api_server_okD(6,7) [OF api])
qed (simp add: after_delete_def fin_no_orphan)

lemma remove_after_delete:
  assumes api: "api_server_ok mine kb fin res"
  shows "triple (after_delete fin res True) (remove_finalizer_step kb obj)
     (\<lambda>_. no_orphan fin res) (no_orphan fin res)"
  using remove_finalizer_step_no_orphan [OF api] by (rule triple_pre) (simp add: after_delete_def)

lemma failed_after_delete:
  assumes api: "api_server_ok mine kb fin res"
  shows "triple (after_delete fin res gone) (failed_delete_step L kb obj err)
     (\<lambda>_. no_orphan fin res) (no_orphan fin res)"
  using failed_delete_step_no_orphan [OF api] by (rule triple_pre) (simp add: after_delete_def)

lemma async_delete_step_no_orphan:
  assumes L: "lib_ok L" and api: "api_server_ok mine kb fin res" and az: "azure_ok mine ready az fin res"
  and mine: "mine local"
  shows "triple (\<lambda>s. fin s \<and> ready local s) (async_delete_step L kb az local) (\<lambda>_. no_orphan fin res) (no_orphan fin res)"
  unfolding async_delete_step_def
proof (rule triple_bind)
  show "triple (\<lambda>s. fin s \<and> ready local s) (async_Delete az local)
      (\<lambda>(obj', found, err). after_delete fin res (\<not> found \<and> err = None)) (no_orphan fin res)"
    using triple_conj [OF azure_okD(5) [OF az mine, unfolded keeps_def] azure_okD(6) [OF az mine]]
    by (rule triple_conseq) (auto intro: fin_no_orphan simp: after_delete_def)
qed (use L in \<open>auto intro!: triple_bind [OF StatusUpdate_after_delete [OF api]] triple_case_prod
    triple_case_option triple_if triple_ret failed_after_delete [OF api] remove_after_delete [OF api]
    simp: after_delete_def fin_no_orphan\<close>)

lemma async_ensure_step_no_orphan:
  assumes api: "api_server_ok mine kb fin res" and az: "azure_ok mine ready az fin res"
  and mine: "mine local"
  shows "triple fin (async_ensure_step L kb az local) (\<lambda>_. no_orphan fin res) (no_orphan fin res)"
  unfolding async_ensure_step_def Let_def
  by (auto intro!: triple_bind [OF stable [OF azure_okD(4) [OF az mine] fin_no_orphan]]
      triple_bind [OF stable [OF api_server_okD(6) [OF api] fin_no_orphan]]
      triple_bind [OF stable [OF api_server_okD(8) [OF api] fin_no_orphan]]
      triple_case_prod triple_case_option triple_if triple_ret fin_no_orphan
      simp: go_bind_choice go_bind_ret)

lemma sync_delete_step_no_orphan:
  assumes L: "lib_ok L" and api: "api_server_ok mine kb fin res" and az: "sync_azure_ok mine ready az fin res"
  and mine: "mine local"
  shows "triple (\<lambda>s. fin s \<and> ready local s) (sync_delete_step L kb az local) (\<lambda>_. no_orphan fin res) (no_orphan fin res)"
  unfolding sync_delete_step_def
proof (rule triple_bind)
  show "triple (\<lambda>s. fin s \<and> ready local s) (sync_Delete az local)
      (\<lambda>(obj', err). after_delete fin res (err = None)) (no_orphan fin res)"
    using triple_conj [OF sync_azure_okD(5) [OF az mine, unfolded keeps_def] sync_azure_okD(6) [OF az mine]]
    by (rule triple_conseq) (auto intro: fin_no_orphan simp: after_delete_def)
qed (use L in \<open>auto intro!: triple_bind [OF StatusUpdate_after_delete [OF api]] triple_case_prod
    triple_case_option failed_after_delete [OF api] remove_after_delete [OF api]\<close>)

lemma sync_ensure_step_no_orphan:
  assumes api: "api_server_ok mine kb fin res" and az: "sync_azure_ok mine ready az fin res"
  and mine: "mine local"
  shows "triple fin (sync_ensure_step L kb az local) (\<lambda>_. no_orphan fin res) (no_orphan fin res)"
  unfolding sync_ensure_step_def Let_def
  by (auto intro!: triple_bind [OF stable [OF sync_azure_okD(4) [OF az mine] fin_no_orphan]]
      triple_bind [OF stable [OF api_server_okD(6) [OF api] fin_no_orphan]]
      triple_bind [OF stable [OF api_server_okD(8) [OF api] fin_no_orphan]]
      triple_case_prod triple_case_option triple_if triple_ret fin_no_orphan
      simp: go_bind_choice go_bind_ret)

subsection \<open>Whole reconciles\<close>

definition fetched :: "('s \<Rightarrow> bool) \<Rightarrow> ('s \<Rightarrow> bool) \<Rightarrow> bool \<Rightarrow> 's \<Rightarrow> bool" where
  "fetched fin res b s \<longleftrightarrow> no_orphan fin res s \<and> (b \<longrightarrow> fin s)"

lemma Get_fetched:
  assumes api: "api_server_ok mine kb fin res"
  shows "triple (no_orphan fin res) (kb_Get kb n k)
     (\<lambda>(obj, err) s. (err = None \<longrightarrow> mine obj) \<and> fetched fin res (err = None \<and> has_finalizer obj) s)
     (no_orphan fin res)"
  using triple_conj [OF harmless_no_orphan [OF harmless_calls(1) [OF api], unfolded keeps_def]
      api_server_okD(3) [OF api]]
  by (rule triple_conseq) (auto simp: fetched_def)

definition subscribed ::
  "(runtime_object \<Rightarrow> 's \<Rightarrow> bool) \<Rightarrow> runtime_object \<Rightarrow> ('s \<Rightarrow> bool) \<Rightarrow> ('s \<Rightarrow> bool) \<Rightarrow> bool \<Rightarrow> bool \<Rightarrow> 's \<Rightarrow> bool" where
  "subscribed ready obj fin res b c s \<longleftrightarrow> no_orphan fin res s \<and> (b \<longrightarrow> fin s) \<and> (c \<longrightarrow> ready obj s)"

lemma ForSubscription_subscribed:
  assumes "keeps fin m" "keeps (\<lambda>s. \<not> res s) m"
    and "triple (\<lambda>_. True) m (\<lambda>err s. err = None \<longrightarrow> ready obj s) (\<lambda>_. True)"
  shows "triple (fetched fin res b) m (\<lambda>err. subscribed ready obj fin res b (err = None)) (no_orphan fin res)"
proof -
  have "harmless fin res m" using assms(1,2) by (simp add: harmless_def)
  then have "keeps (fetched fin res b) m"
    unfolding fetched_def by (intro keeps_conj keeps_imp harmless_no_orphan harmless_fin)
  from triple_conj [OF this [unfolded keeps_def] assms(3)] show ?thesis
    by (rule triple_conseq) (auto simp: fetched_def subscribed_def)
qed

lemma subscribed_any:
  "triple (no_orphan fin res) m Q X \<Longrightarrow> triple (subscribed ready obj fin res b c) m Q X"
  by (erule triple_pre) (simp add: subscribed_def)

lemma subscribed_live:
  "triple (\<lambda>s. fin s \<and> ready obj s) m Q X \<Longrightarrow> triple (subscribed ready obj fin res True True) m Q X"
  by (erule triple_pre) (simp add: subscribed_def)

lemma triple_fact: "(b \<Longrightarrow> triple P m Q X) \<Longrightarrow> triple (\<lambda>s. b \<and> P s) m Q X"
  by (auto simp: triple_def)

lemma async_Reconcile_no_orphan:
  assumes L: "lib_ok L" and api: "api_server_ok mine kb fin res" and az: "azure_ok mine ready az fin res"
  shows "triple (no_orphan fin res) (async_Reconcile L kb az req k) (\<lambda>_. no_orphan fin res) (no_orphan fin res)"
proof -
  have forsub: "triple (fetched fin res b) (async_ForSubscription az obj)
      (\<lambda>err. subscribed ready obj fin res b (err = None)) (no_orphan fin res)" if "mine obj" for b obj
    using azure_okD(1-3) [OF az that] by (rule ForSubscription_subscribed)
  show ?thesis
    unfolding async_Reconcile_def
    by (auto intro!: triple_bind [OF Get_fetched [OF api]] triple_fact triple_bind [OF forsub]
        triple_case_prod triple_case_option triple_if triple_ret
        subscribed_any [OF add_finalizer_step_no_orphan [OF api]]
        subscribed_live [OF triple_pre [OF async_ensure_step_no_orphan [OF api az]]]
        subscribed_live [OF async_delete_step_no_orphan [OF L api az]] simp: subscribed_def fetched_def)
qed

lemma sync_Reconcile_no_orphan:
  assumes L: "lib_ok L" and api: "api_server_ok mine kb fin res" and az: "sync_azure_ok mine ready az fin res"
  shows "triple (no_orphan fin res) (sync_Reconcile L kb az req k) (\<lambda>_. no_orphan fin res) (no_orphan fin res)"
proof -
  have forsub: "triple (fetched fin res b) (sync_ForSubscription az obj)
      (\<lambda>err. subscribed ready obj fin res b (err = None)) (no_orphan fin res)" if "mine obj" for b obj
    using sync_azure_okD(1-3) [OF az that] by (rule ForSubscription_subscribed)
  show ?thesis
    unfolding sync_Reconcile_def
    by (auto intro!: triple_bind [OF Get_fetched [OF api]] triple_fact triple_bind [OF forsub]
        triple_case_prod triple_case_option triple_if triple_ret
        subscribed_any [OF add_finalizer_step_no_orphan [OF api]]
        subscribed_live [OF triple_pre [OF sync_ensure_step_no_orphan [OF api az]]]
        subscribed_live [OF sync_delete_step_no_orphan [OF L api az]] simp: subscribed_def fetched_def)
qed

subsection \<open>The running system\<close>

text \<open>
  One object and its resource, reconciled any number of times while users and Azure take steps
  of their own.  A step of the environment (\<open>env\<close>) keeps the two predicates stable: nobody else
  removes the finalizer, nobody else creates the resource.  A reconcile that panics leaves the
  state where the panic found it.
\<close>

inductive system_reaches ::
  "lib \<Rightarrow> 's kube \<Rightarrow> 's AsyncClient \<Rightarrow> ('s \<Rightarrow> 's \<Rightarrow> bool) \<Rightarrow> 's \<Rightarrow> 's \<Rightarrow> bool"
  for L kb az env s where
  start: "system_reaches L kb az env s s"
| reconcile: "system_reaches L kb az env s s' \<Longrightarrow>
    system_reaches L kb az env s (snd (async_Reconcile L kb az req k s'))"
| environment: "system_reaches L kb az env s s' \<Longrightarrow> env s' s'' \<Longrightarrow> system_reaches L kb az env s s''"

lemma system_no_orphan:
  assumes "system_reaches L kb az env s s'"
    and "lib_ok L" "api_server_ok mine kb fin res" "azure_ok mine ready az fin res"
    and env: "\<And>s s'. env s s' \<Longrightarrow> (fin s \<longrightarrow> fin s') \<and> (res s' \<longrightarrow> res s)"
    and "no_orphan fin res s"
  shows "no_orphan fin res s'"
  using assms(1)
proof induction
  case start
  show ?case by (rule assms(6))
next
  case (reconcile s' req k)
  then show ?case
    using keepsD [OF async_Reconcile_no_orphan [OF assms(2-4), folded keeps_def]] by blast
next
  case (environment s' s'')
  then show ?case using env by (auto simp: no_orphan_def)
qed

subsection \<open>Composing an API server with a client\<close>

text \<open>
  The API server and the client have states of their own; a reconcile runs on the pair.
\<close>

definition on_fst :: "('k, 'a) go \<Rightarrow> ('k \<times> 'c, 'a) go" where
  "on_fst m = (\<lambda>s. case m (fst s) of (r, k') \<Rightarrow> (r, (k', snd s)))"

definition on_snd :: "('c, 'a) go \<Rightarrow> ('k \<times> 'c, 'a) go" where
  "on_snd m = (\<lambda>s. case m (snd s) of (r, c') \<Rightarrow> (r, (fst s, c')))"

definition kube_beside :: "'k kube \<Rightarrow> ('k \<times> 'c) kube" where
  "kube_beside kb = \<lparr>
     kb_GVKForObject = kb_GVKForObject kb,
     kb_Accessor = kb_Accessor kb,
     kb_Get = (\<lambda>n k. on_fst (kb_Get kb n k)),
     kb_Update = (\<lambda>obj. on_fst (kb_Update kb obj)),
     kb_StatusUpdate = (\<lambda>obj. on_fst (kb_StatusUpdate kb obj)),
     kb_Delete = (\<lambda>obj. on_fst (kb_Delete kb obj)),
     kb_Event = (\<lambda>obj ty reason msg. on_fst (kb_Event kb obj ty reason msg))\<rparr>"

definition async_beside :: "'c AsyncClient \<Rightarrow> ('k \<times> 'c) AsyncClient" where
  "async_beside az = \<lparr>
     async_ForSubscription = (\<lambda>obj. on_snd (async_ForSubscription az obj)),
     async_Ensure = (\<lambda>obj. on_snd (async_Ensure az obj)),
     async_Delete = (\<lambda>obj. on_snd (async_Delete az obj))\<rparr>"

definition sync_beside :: "'c SyncClient \<Rightarrow> ('k \<times> 'c) SyncClient" where
  "sync_beside az = \<lparr>
     sync_ForSubscription = (\<lambda>obj. on_snd (sync_ForSubscription az obj)),
     sync_Ensure = (\<lambda>obj. on_snd (sync_Ensure az obj)),
     sync_Delete = (\<lambda>obj. on_snd (sync_Delete az obj))\<rparr>"

lemma keeps_on_fst [simp]: "keeps P m \<Longrightarrow> keeps (\<lambda>s. P (fst s)) (on_fst m)"
  by (rule keepsI) (auto simp: on_fst_def split: prod.split dest!: keepsD [of P m])

lemma keeps_snd_on_fst: "keeps (\<lambda>s. P (snd s)) (on_fst m)"
  by (rule keepsI) (auto simp: on_fst_def split: prod.split)

lemma keeps_on_snd [simp]: "keeps P m \<Longrightarrow> keeps (\<lambda>s. P (snd s)) (on_snd m)"
  by (rule keepsI) (auto simp: on_snd_def split: prod.split dest!: keepsD [of P m])

lemma keeps_fst_on_snd: "keeps (\<lambda>s. P (fst s)) (on_snd m)"
  by (rule keepsI) (auto simp: on_snd_def split: prod.split)

lemma triple_on_fst:
  "triple P m Q X \<Longrightarrow> triple (\<lambda>s. P (fst s)) (on_fst m) (\<lambda>x s. Q x (fst s)) (\<lambda>s. X (fst s))"
  by (auto simp: triple_def on_fst_def split: prod.splits outcome.splits)

lemma triple_on_snd:
  "triple P m Q X \<Longrightarrow> triple (\<lambda>s. P (snd s)) (on_snd m) (\<lambda>x s. Q x (snd s)) (\<lambda>s. X (snd s))"
  by (auto simp: triple_def on_snd_def split: prod.splits outcome.splits)

lemma api_server_ok_beside:
  fixes kb :: "'k kube" and res :: "'c \<Rightarrow> bool"
  assumes "api_server_ok mine kb fin (\<lambda>_. False)"
  shows "api_server_ok mine (kube_beside kb) (\<lambda>s. fin (fst s)) (\<lambda>s. res (snd s))"
proof -
  have "triple (\<lambda>_ :: 'k \<times> 'c. True) (on_fst (kb_Get kb n k))
      (\<lambda>(obj, err) s. err = None \<longrightarrow> mine obj \<and> (has_finalizer obj \<longrightarrow> fin (fst s))) (\<lambda>_. True)" for n k
    using triple_on_fst [OF api_server_okD(3) [OF assms]] by (rule triple_conseq) auto
  then show ?thesis
    using api_server_okD(1,4,6,8) [OF assms]
    unfolding api_server_ok_def kube_beside_def
    by (simp add: keeps_snd_on_fst [where P = "\<lambda>c. \<not> res c"])
qed

lemma azure_ok_beside:
  fixes az :: "'c AsyncClient" and fin :: "'k \<Rightarrow> bool"
  assumes "azure_ok mine ready az (\<lambda>_. True) res"
  shows "azure_ok mine (\<lambda>obj s. ready obj (snd s)) (async_beside az) (\<lambda>s. fin (fst s)) (\<lambda>s. res (snd s))"
proof -
  have "triple (\<lambda>s :: 'k \<times> 'c. ready obj (snd s)) (on_snd (async_Delete az obj))
      (\<lambda>(obj', found, err) s. \<not> found \<and> err = None \<longrightarrow> \<not> res (snd s)) (\<lambda>_. True)" if "mine obj" for obj
    using triple_on_snd [OF azure_okD(6) [OF assms that]] by (rule triple_conseq) auto
  moreover have "triple (\<lambda>_ :: 'k \<times> 'c. True) (on_snd (async_ForSubscription az obj))
      (\<lambda>err s. err = None \<longrightarrow> ready obj (snd s)) (\<lambda>_. True)" if "mine obj" for obj
    using triple_on_snd [OF azure_okD(3) [OF assms that]] by simp
  moreover have "keeps (\<lambda>s :: 'k \<times> 'c. \<not> res (snd s)) (on_snd (async_ForSubscription az obj))" if "mine obj" for obj
    using azure_okD(2) [OF assms that] by (rule keeps_on_snd)
  ultimately show ?thesis
    unfolding azure_ok_def async_beside_def by (simp add: keeps_fst_on_snd [where P = fin])
qed

lemma sync_azure_ok_beside:
  fixes az :: "'c SyncClient" and fin :: "'k \<Rightarrow> bool"
  assumes "sync_azure_ok mine ready az (\<lambda>_. True) res"
  shows "sync_azure_ok mine (\<lambda>obj s. ready obj (snd s)) (sync_beside az) (\<lambda>s. fin (fst s)) (\<lambda>s. res (snd s))"
proof -
  have "triple (\<lambda>s :: 'k \<times> 'c. ready obj (snd s)) (on_snd (sync_Delete az obj))
      (\<lambda>(obj', err) s. err = None \<longrightarrow> \<not> res (snd s)) (\<lambda>_. True)" if "mine obj" for obj
    using triple_on_snd [OF sync_azure_okD(6) [OF assms that]] by (rule triple_conseq) auto
  moreover have "triple (\<lambda>_ :: 'k \<times> 'c. True) (on_snd (sync_ForSubscription az obj))
      (\<lambda>err s. err = None \<longrightarrow> ready obj (snd s)) (\<lambda>_. True)" if "mine obj" for obj
    using triple_on_snd [OF sync_azure_okD(3) [OF assms that]] by simp
  moreover have "keeps (\<lambda>s :: 'k \<times> 'c. \<not> res (snd s)) (on_snd (sync_ForSubscription az obj))" if "mine obj" for obj
    using sync_azure_okD(2) [OF assms that] by (rule keeps_on_snd)
  ultimately show ?thesis
    unfolding sync_azure_ok_def sync_beside_def by (simp add: keeps_fst_on_snd [where P = fin])
qed

subsection \<open>An API server with one object\<close>

text \<open>
  A concrete API server that satisfies the contract, for the witnesses: its state is the one
  object it stores; an update of an object that is being deleted and has no finalizer left
  removes it.
\<close>

definition one_object_kube :: "(runtime_object \<Rightarrow> bool) \<Rightarrow> (runtime_object option) kube" where
  "one_object_kube mine = \<lparr>
     kb_GVKForObject = (\<lambda>k. None),
     kb_Accessor = (\<lambda>obj. None),
     kb_Get = (\<lambda>n k s. (case s of
         Some obj \<Rightarrow> if mine obj then (Returns (obj, None), s) else (Returns (obj, Some (ApiError 404)), s)
       | None \<Rightarrow> (Returns (ObjOther [] \<lparr>om_Name = [], om_Namespace = [], om_UID = [],
                   om_Finalizers = [], om_DeletionTimestamp = None\<rparr>, Some (ApiError 404)), s))),
     kb_Update = (\<lambda>obj s. (case s of
         None \<Rightarrow> (Returns (obj, Some (ApiError 404)), s)
       | Some _ \<Rightarrow> if deleting obj \<and> om_Finalizers (obj_meta obj) = [] then (Returns (obj, None), None)
                 else (Returns (obj, None), Some obj))),
     kb_StatusUpdate = (\<lambda>obj s. (case s of
         None \<Rightarrow> (Returns (obj, Some (ApiError 404)), s)
       | Some old \<Rightarrow> if obj_meta old = obj_meta obj then (Returns (obj, None), Some obj)
                   else (Returns (obj, Some (ApiError 409)), s))),
     kb_Delete = (\<lambda>obj s. (Returns None, s)),
     kb_Event = (\<lambda>obj ty reason msg s. (Returns (), s))\<rparr>"

fun stored_finalizer :: "runtime_object option \<Rightarrow> bool" where
  "stored_finalizer None = False"
| "stored_finalizer (Some obj) = has_finalizer obj"

lemma one_object_kube_ok: "api_server_ok mine (one_object_kube mine) stored_finalizer (\<lambda>_. False)"
  unfolding api_server_ok_def one_object_kube_def
  by (auto intro!: keepsI tripleI elim!: stored_finalizer.elims(2) split: option.splits if_splits)

end
