(* ===== verification/Client_Contracts.thy ===== *)
theory Client_Contracts imports Finalizer_Protocol begin

section \<open>The contracts of the client interfaces\<close>

text \<open>
  What the reconcilers rely on beyond the types of \<open>AsyncClient\<close> and \<open>SyncClient\<close>: an operation
  changes no part of the object but its status, an object of another kind is refused, and, for
  \<open>strict_async_client\<close>, \<open>Ensure\<close> never answers \<open>(true, err)\<close>.  The lemmas about reconciles that
  follow from a contract are proved in its locale, for the traced run.
\<close>

locale async_client =
  fixes az :: "'s AsyncClient" and handles :: "runtime_object \<Rightarrow> bool"
  assumes ensure_keeps:
      "async_Ensure az obj s = (Returns (obj', done, err), s') \<Longrightarrow> clear_status obj' = clear_status obj"
    and delete_keeps:
      "async_Delete az obj s = (Returns (obj', found, err), s') \<Longrightarrow> clear_status obj' = clear_status obj"
    and foreign_subscription:
      "\<not> handles obj \<Longrightarrow> \<exists>err. async_ForSubscription az obj = go_ret (Some err)"

locale strict_async_client = async_client az handles
  for az :: "'s AsyncClient" and handles :: "runtime_object \<Rightarrow> bool" +
  assumes ensure_done:
    "async_Ensure az obj s = (Returns (obj', True, err), s') \<Longrightarrow> err = None"

locale sync_client =
  fixes az :: "'s SyncClient"
  assumes ensure_keeps:
      "sync_Ensure az obj s = (Returns (obj', err), s') \<Longrightarrow> clear_status obj' = clear_status obj"
    and delete_keeps:
      "sync_Delete az obj s = (Returns (obj', err), s') \<Longrightarrow> clear_status obj' = clear_status obj"

subsection \<open>Traces with facts about results\<close>

lemma triple_traced_fact:
  assumes "\<And>s x s'. m s = (Returns x, s') \<Longrightarrow> F x" and "X (pre @ T)"
  shows "triple (\<lambda>s. snd s = T) (traced pre post m) (\<lambda>x s. F x \<and> snd s = post x @ pre @ T)
     (\<lambda>s. X (snd s))"
  using assms by (auto simp: triple_def traced_def split: prod.splits outcome.splits)

text \<open>
  \<open>status_only t\<close>: every object written to the status subresource is the fetched object with
  another status.
\<close>

definition status_only :: "rcall list \<Rightarrow> bool" where
  "status_only t \<longleftrightarrow>
     (\<forall>obj'. StatusUpdates obj' \<in> set t \<longrightarrow>
        (\<exists>obj. GotObject obj \<in> set t \<and> clear_status obj' = clear_status obj))"

text \<open>\<open>settled_live t\<close>: if the object is live and had the finalizer, \<open>Ensure\<close> reported that
  the resource is as wanted.\<close>

definition settled_live :: "rcall list \<Rightarrow> bool" where
  "settled_live t \<longleftrightarrow>
     (\<forall>obj. GotObject obj \<in> set t \<and> has_finalizer obj \<and> \<not> deleting obj \<longrightarrow>
        (\<exists>obj'. EnsureReturned obj' True None \<in> set t))"

definition settled_deleting :: "rcall list \<Rightarrow> bool" where
  "settled_deleting t \<longleftrightarrow>
     (\<forall>obj. GotObject obj \<in> set t \<and> has_finalizer obj \<and> deleting obj \<longrightarrow>
        (\<exists>obj'. DeleteReturned obj' False None \<in> set t) \<and>
        (\<exists>obj'. Updates obj' \<in> set t \<and> \<not> has_finalizer obj'))"

definition settled :: "rcall list \<Rightarrow> bool" where
  "settled t \<longleftrightarrow> settled_live t \<and> settled_deleting t"

lemmas settled_defs = settled_def settled_live_def settled_deleting_def

text \<open>
  A reconcile that answers neither an error nor a requeue has nothing left to do: for every
  client and every API server.
\<close>

lemma async_Reconcile_settled:
  assumes "lib_ok L"
  shows "triple (\<lambda>s. snd s = []) (async_Reconcile L (traced_kube kb) (traced_async az) req k)
     (\<lambda>(res, err) s. \<not> Requeue res \<and> err = None \<longrightarrow> settled (snd s)) (\<lambda>_. True)"
  unfolding async_Reconcile_def traced_vc
  by ((rule triples | (use assms in \<open>auto simp: settled_defs split: if_splits\<close>; fail))+)

lemma sync_Reconcile_settled:
  assumes "lib_ok L"
  shows "triple (\<lambda>s. snd s = []) (sync_Reconcile L (traced_kube kb) (traced_sync az) req k)
     (\<lambda>(res, err) s. err = None \<longrightarrow> settled (snd s)) (\<lambda>_. True)"
  unfolding sync_Reconcile_def traced_vc
  by ((rule triples | (use assms in \<open>auto simp: settled_defs split: if_splits\<close>; fail))+)

text \<open>In every run the status of the fetched object is all a reconcile writes through the status
  subresource.\<close>

definition async_status_only :: "lib \<Rightarrow> 's kube \<Rightarrow> 's AsyncClient \<Rightarrow> bool" where
  "async_status_only L kb az \<longleftrightarrow>
     (\<forall>req k s. status_only (snd (snd (async_Reconcile L (traced_kube kb) (traced_async az) req k (s, [])))))"

definition sync_status_only :: "lib \<Rightarrow> 's kube \<Rightarrow> 's SyncClient \<Rightarrow> bool" where
  "sync_status_only L kb az \<longleftrightarrow>
     (\<forall>req k s. status_only (snd (snd (sync_Reconcile L (traced_kube kb) (traced_sync az) req k (s, [])))))"

subsection \<open>Consequences of the contracts\<close>

context async_client
begin

lemma ensure_call:
  "X (pre @ T) \<Longrightarrow> triple (\<lambda>s. snd s = T) (traced pre post (async_Ensure az obj))
     (\<lambda>x s. clear_status (fst x) = clear_status obj \<and> snd s = post x @ pre @ T) (\<lambda>s. X (snd s))"
  by (rule triple_traced_fact) (auto dest: ensure_keeps)

lemma delete_call:
  "X (pre @ T) \<Longrightarrow> triple (\<lambda>s. snd s = T) (traced pre post (async_Delete az obj))
     (\<lambda>x s. clear_status (fst x) = clear_status obj \<and> snd s = post x @ pre @ T) (\<lambda>s. X (snd s))"
  by (rule triple_traced_fact) (auto dest: delete_keeps)

lemma writes_status_only:
  "triple (\<lambda>s. snd s = []) (async_Reconcile L (traced_kube kb) (traced_async az) req k)
     (\<lambda>_ s. status_only (snd s)) (\<lambda>s. status_only (snd s))"
  unfolding async_Reconcile_def traced_vc
  by ((rule triple_bind [OF ensure_call] triple_bind [OF delete_call]
      triple_fact triples
      | (auto simp: status_only_def split: if_splits; fail))+)

lemma runs_status_only: "async_status_only L kb az"
  unfolding async_status_only_def using triple_result [OF writes_status_only] by simp

text \<open>An object of a kind the client does not handle is never touched, nor is Azure.\<close>

lemma foreign_object:
  assumes foreign: "\<And>n k s obj err s'. kb_Get kb n k s = (Returns (obj, err), s') \<Longrightarrow> err = None \<Longrightarrow> \<not> handles obj"
  shows "triple (\<lambda>s. snd s = []) (async_Reconcile L (traced_kube kb) (traced_async az) req k)
     (\<lambda>(res, err) s. set (snd s) \<subseteq> range GotObject \<and> (snd s \<noteq> [] \<longrightarrow> err \<noteq> None)) (\<lambda>s. snd s = [])"
proof -
  have get: "triple (\<lambda>s. snd s = []) (traced [] post (kb_Get kb req k))
      (\<lambda>x s. (snd x = None \<longrightarrow> \<not> handles (fst x)) \<and> snd s = post x @ [] @ []) (\<lambda>s. snd s = [])" for post
    by (rule triple_traced_fact) (auto dest: foreign)
  have sub: "triple (\<lambda>s. snd s = T) (traced [] (\<lambda>_. []) (async_ForSubscription az obj))
      (\<lambda>x s. x \<noteq> None \<and> snd s = [] @ [] @ T) X" if "\<not> handles obj" for obj T X
    using foreign_subscription [OF that] by (auto simp: triple_def traced_def go_ret_def)
  show ?thesis
    unfolding async_Reconcile_def traced_vc
    by (rule triples triple_bind [OF get] triple_fact triple_bind [OF sub]
        | (auto split: if_splits; fail))+
qed

end

context sync_client
begin

lemma ensure_call:
  "X (pre @ T) \<Longrightarrow> triple (\<lambda>s. snd s = T) (traced pre post (sync_Ensure az obj))
     (\<lambda>x s. clear_status (fst x) = clear_status obj \<and> snd s = post x @ pre @ T) (\<lambda>s. X (snd s))"
  by (rule triple_traced_fact) (auto dest: ensure_keeps)

lemma delete_call:
  "X (pre @ T) \<Longrightarrow> triple (\<lambda>s. snd s = T) (traced pre post (sync_Delete az obj))
     (\<lambda>x s. clear_status (fst x) = clear_status obj \<and> snd s = post x @ pre @ T) (\<lambda>s. X (snd s))"
  by (rule triple_traced_fact) (auto dest: delete_keeps)

lemma writes_status_only:
  "triple (\<lambda>s. snd s = []) (sync_Reconcile L (traced_kube kb) (traced_sync az) req k)
     (\<lambda>_ s. status_only (snd s)) (\<lambda>s. status_only (snd s))"
  unfolding sync_Reconcile_def traced_vc
  by ((rule triple_bind [OF ensure_call] triple_bind [OF delete_call] triple_fact triples
      | (auto simp: status_only_def split: if_splits; fail))+)

lemma runs_status_only: "sync_status_only L kb az"
  unfolding sync_status_only_def using triple_result [OF writes_status_only] by simp

end

end
