(* ===== verification/Mgmt_Clients.thy ===== *)
theory Mgmt_Clients imports Config Clientutil Client_Contracts begin

section \<open>What the management clients share\<close>

text \<open>
  Every client of \<open>pkg/clients\<close> that talks to Azure Resource Manager has the three fields of
  \<open>mgmt_client\<close>, converts the object it is given by a type assertion, and in \<open>ForSubscription\<close>
  makes and authorizes an SDK client for the subscription of the object.  This theory holds the
  error of the type assertion and the part of the finalizer protocol that does not depend on
  the service.
\<close>

definition kind_error :: "runtime_object \<Rightarrow> go_error" where
  "kind_error obj = ErrorText (''failed type assertion on kind: '' @ obj_gvk obj)"

text \<open>\<open>if err != nil { return err }; return nil\<close>.\<close>

lemma go_ret_err [simp]:
  "(if \<exists>y. err = Some y then go_ret (x, err) else go_ret (x, None)) = go_ret (x, err)"
  by (cases err) simp_all

lemma authorize_for_result:
  assumes "authorize_for A c sub = (c', err)"
  shows "mc_factory c' = mc_factory c" and "mc_config c' = mc_config c"
    and "sdk_Subscription (mc_internal c') = sdk_Subscription (mc_factory c sub)"
  using authorize_for_keeps [of A c sub] authorize_for_subscription [of A c sub] assms by simp_all

text \<open>
  \<open>ex sub key w\<close>: the resource exists in the world.  The state is a client and the world; the
  subscription is the one the client's factory binds to \<open>sub\<close>.
\<close>

definition subscribed_to :: "string \<Rightarrow> runtime_object \<Rightarrow> mgmt_client \<times> 'w \<Rightarrow> bool" where
  "subscribed_to sub obj s \<longleftrightarrow>
     sdk_Subscription (mc_internal (fst s)) = sdk_Subscription (mc_factory (fst s) sub)"

definition exists_for ::
  "(string option \<Rightarrow> 'k \<Rightarrow> 'w \<Rightarrow> bool) \<Rightarrow> string \<Rightarrow> 'k \<Rightarrow> mgmt_client \<times> 'w \<Rightarrow> bool" where
  "exists_for ex sub key s \<longleftrightarrow> ex (sdk_Subscription (mc_factory (fst s) sub)) key (snd s)"

lemma on_self_eq: "on_self f s = (Returns (snd (f (fst s))), (fst (f (fst s)), snd s))"
  by (simp add: on_self_def split: prod.split)

lemma ForSubscription_calls:
  "keeps (\<lambda>s. \<not> exists_for ex sub key s) (on_self (\<lambda>c. authorize_for A c sub'))"
  "triple (\<lambda>_. True) (on_self (\<lambda>c. authorize_for A c sub)) (\<lambda>err s. err = None \<longrightarrow> subscribed_to sub obj s) (\<lambda>_. True)"
  by (auto intro!: keepsI simp: triple_def on_self_eq exists_for_def subscribed_to_def
      authorize_for_subscription)

lemma mgmt_azure_ok:
  assumes sub: "\<And>obj. mine obj \<Longrightarrow> async_ForSubscription az obj = on_self (\<lambda>c. authorize_for A c sub)"
    and del: "\<And>obj c w obj' c' w'. mine obj \<Longrightarrow>
      async_Delete az obj (c, w) = (Returns (obj', False, None), (c', w')) \<Longrightarrow>
      c' = c \<and> \<not> ex (sdk_Subscription (mc_internal c)) key w'"
  shows "azure_ok mine (subscribed_to sub) az (\<lambda>_. True) (exists_for ex sub key)"
proof -
  have "triple (subscribed_to sub obj) (async_Delete az obj)
      (\<lambda>(obj', found, err) s. \<not> found \<and> err = None \<longrightarrow> \<not> exists_for ex sub key s) (\<lambda>_. True)"
    if "mine obj" for obj
    using del [OF that]
    by (intro tripleI) (fastforce simp: subscribed_to_def exists_for_def dest: del [OF that])+
  then show ?thesis
    unfolding azure_ok_def using ForSubscription_calls by (auto simp: sub intro: keepsI)
qed

lemma mgmt_sync_azure_ok:
  assumes sub: "\<And>obj. mine obj \<Longrightarrow> sync_ForSubscription az obj = on_self (\<lambda>c. authorize_for A c sub)"
    and del: "\<And>obj c w obj' c' w'. mine obj \<Longrightarrow>
      sync_Delete az obj (c, w) = (Returns (obj', None), (c', w')) \<Longrightarrow>
      c' = c \<and> \<not> ex (sdk_Subscription (mc_internal c)) key w'"
  shows "sync_azure_ok mine (subscribed_to sub) az (\<lambda>_. True) (exists_for ex sub key)"
proof -
  have "triple (subscribed_to sub obj) (sync_Delete az obj)
      (\<lambda>(obj', err) s. err = None \<longrightarrow> \<not> exists_for ex sub key s) (\<lambda>_. True)"
    if "mine obj" for obj
    using del [OF that]
    by (intro tripleI) (fastforce simp: subscribed_to_def exists_for_def dest: del [OF that])+
  then show ?thesis
    unfolding sync_azure_ok_def using ForSubscription_calls by (auto simp: sub intro: keepsI)
qed

end
