(* ===== verification/ResourceGroups.thy ===== *)
theory ResourceGroups imports Mgmt_Clients begin

section \<open>Resource groups (pkg/clients/resourcegroups)\<close>

text \<open>
  The spec builder (\<open>spec.go\<close>) and the client (\<open>resourcegroups.go\<close>).  The SDK client is the
  record \<open>rg_sdk\<close>; its operations take the SDK client object they are called on, which holds
  the subscription and the authorizer.
\<close>

subsection \<open>The SDK\<close>

record Group =
  grp_Response :: http_response
  grp_ID :: "string option"
  grp_Name :: "string option"
  grp_Location :: "string option"
  grp_Properties :: "string option option"

text \<open>\<open>grp_Properties\<close>: nil, or a \<open>GroupProperties\<close> with its \<open>ProvisioningState\<close>.\<close>

definition zero_Group :: Group where
  "zero_Group = \<lparr>grp_Response = None, grp_ID = None, grp_Name = None, grp_Location = None,
     grp_Properties = None\<rparr>"

record 'w rg_sdk =
  rg_Get :: "sdk_client \<Rightarrow> string \<Rightarrow> ('w, Group \<times> go_error option) go"
  rg_CreateOrUpdate :: "sdk_client \<Rightarrow> string \<Rightarrow> Group \<Rightarrow> ('w, Group \<times> go_error option) go"
  rg_Delete :: "sdk_client \<Rightarrow> string \<Rightarrow> ('w, http_response \<times> go_error option) go"

subsection \<open>The spec builder\<close>

type_synonym rg_spec = Group

definition rg_NewSpec :: rg_spec where
  "rg_NewSpec = zero_Group"

definition rg_NewSpecWithRemote :: "Group \<Rightarrow> rg_spec" where
  "rg_NewSpecWithRemote remote = remote"

definition rg_set_Name :: "string \<Rightarrow> (rg_spec, unit) go" where
  "rg_set_Name name = remedy (\<lambda>s. s\<lparr>grp_Name := Some name\<rparr>)"

definition rg_set_Location :: "string \<Rightarrow> (rg_spec, unit) go" where
  "rg_set_Location location = remedy (\<lambda>s. s\<lparr>grp_Location := Some location\<rparr>)"

definition rg_State :: "rg_spec \<Rightarrow> string option" where
  "rg_State s = (case grp_Properties s of None \<Rightarrow> None | Some p \<Rightarrow> p)"

definition rg_Name :: "rg_spec \<Rightarrow> string option" where
  [simp]: "rg_Name s = grp_Name s"

definition rg_Location :: "rg_spec \<Rightarrow> string option" where
  [simp]: "rg_Location s = grp_Location s"

definition rg_ID :: "rg_spec \<Rightarrow> string option" where
  [simp]: "rg_ID s = grp_ID s"

definition rg_Build :: "rg_spec \<Rightarrow> rg_spec" where
  [simp]: "rg_Build s = s"

definition rg_spec_NeedsUpdate :: "lib \<Rightarrow> ResourceGroup \<Rightarrow> (rg_spec, bool) go" where
  "rg_spec_NeedsUpdate L local = Any [
     detect (\<lambda>s. \<not> cmp_Equal_ptr L (rg_Name s) (Some (rgs_Name (Spec local)))),
     detect (\<lambda>s. \<not> cmp_Equal_ptr L (rg_Location s) (Some (rgs_Location (Spec local))))]"

subsection \<open>The client\<close>

definition rg_NewWithFactory :: "config \<Rightarrow> (string \<Rightarrow> sdk_client) \<Rightarrow> mgmt_client" where
  "rg_NewWithFactory configuration factory = new_mgmt_client configuration factory"

definition rg_convert :: "runtime_object \<Rightarrow> go_error + ResourceGroup" where
  "rg_convert obj = (case obj of
       ObjResourceGroup local \<Rightarrow> Inr local
     | _ \<Rightarrow> Inl (kind_error obj))"

definition rg_ForSubscription :: "auth_lib \<Rightarrow> mgmt_client \<Rightarrow> runtime_object \<Rightarrow> mgmt_client \<times> go_error option" where
  "rg_ForSubscription A c obj =
     (case rg_convert obj of
        Inl err \<Rightarrow> (c, Some err)
      | Inr local \<Rightarrow> authorize_for A c (rgs_SubscriptionID (Spec local)))"

definition rg_SetStatus :: "ResourceGroup \<Rightarrow> Group \<Rightarrow> ResourceGroup" where
  "rg_SetStatus local remote =
     (let st = (Status local)\<lparr>rgst_ID := grp_ID remote\<rparr>;
          st = (case grp_Properties remote of
                  None \<Rightarrow> st
                | Some p \<Rightarrow> st\<lparr>rgst_ProvisioningState := p\<rparr>)
      in local\<lparr>Status := st\<rparr>)"

definition rg_Done :: "ResourceGroup \<Rightarrow> bool" where
  "rg_Done local \<longleftrightarrow> rgst_ProvisioningState (Status local) = Some ''Succeeded''"

definition rg_NeedsUpdate :: "ResourceGroup \<Rightarrow> Group \<Rightarrow> bool" where
  "rg_NeedsUpdate local remote =
     (if (case grp_Name remote of None \<Rightarrow> False | Some n \<Rightarrow> rgs_Name (Spec local) \<noteq> n) then True
      else if (case grp_Location remote of None \<Rightarrow> False | Some l \<Rightarrow> rgs_Location (Spec local) \<noteq> l) then True
      else False)"

text \<open>The options \<open>Ensure\<close> sets, on the spec it starts from.\<close>

definition rg_desired :: "ResourceGroup \<Rightarrow> (rg_spec, unit) go" where
  "rg_desired local = set_opts [rg_set_Name (rgs_Name (Spec local)), rg_set_Location (rgs_Location (Spec local))]"

definition rg_apply ::
  "'w rg_sdk \<Rightarrow> mgmt_client \<Rightarrow> ResourceGroup \<Rightarrow> rg_spec \<Rightarrow> ('w, runtime_object \<times> bool \<times> go_error option) go" where
  "rg_apply S c local spec =
     with_spec (rg_desired local) spec (\<lambda>_ spec.
       go_bind (rg_CreateOrUpdate S (mc_internal c) (rgs_Name (Spec local)) (rg_Build spec)) (\<lambda>(_, err).
       go_ret (ObjResourceGroup local, False, err)))"

definition rg_Ensure ::
  "lib \<Rightarrow> 'w rg_sdk \<Rightarrow> mgmt_client \<Rightarrow> runtime_object \<Rightarrow> ('w, runtime_object \<times> bool \<times> go_error option) go" where
  "rg_Ensure L S c obj =
     (case rg_convert obj of
        Inl err \<Rightarrow> go_ret (obj, False, Some err)
      | Inr local \<Rightarrow>
     go_bind (rg_Get S (mc_internal c) (rgs_Name (Spec local))) (\<lambda>(remote, err).
       let found = (\<not> IsHTTPStatus L (grp_Response remote) StatusNotFound);
           local = rg_SetStatus local remote
       in
       if err \<noteq> None \<and> found then go_ret (ObjResourceGroup local, False, err)
       else if found then
         (let spec = rg_NewSpecWithRemote remote in
          if rg_Done local then
            with_spec (rg_spec_NeedsUpdate L local) spec (\<lambda>needs spec.
              if \<not> needs then go_ret (ObjResourceGroup local, True, None)
              else rg_apply S c local spec)
          else go_ret (ObjResourceGroup local, False, None))
       else rg_apply S c local rg_NewSpec))"

definition rg_DeleteOp ::
  "lib \<Rightarrow> 'w rg_sdk \<Rightarrow> mgmt_client \<Rightarrow> runtime_object \<Rightarrow> ('w, runtime_object \<times> bool \<times> go_error option) go" where
  "rg_DeleteOp L S c obj =
     (case rg_convert obj of
        Inl err \<Rightarrow> go_ret (obj, False, Some err)
      | Inr local \<Rightarrow>
     go_bind (rg_Delete S (mc_internal c) (rgs_Name (Spec local))) (\<lambda>(resp, err).
       if err \<noteq> None \<and> resp \<noteq> None \<and> resp \<noteq> Some StatusNotFound \<and> resp \<noteq> Some StatusConflict
       then go_ret (obj, False, err)
       else
     go_bind (rg_Get S (mc_internal c) (rgs_Name (Spec local))) (\<lambda>(remote, err).
       let found = (\<not> IsHTTPStatus L (grp_Response remote) StatusNotFound);
           local = rg_SetStatus local remote
       in
       if err \<noteq> None \<and> IsHTTPStatus L (grp_Response remote) StatusNotFound
       then go_ret (ObjResourceGroup local, False, None)
       else go_ret (ObjResourceGroup local, found, err))))"

definition rg_client :: "lib \<Rightarrow> auth_lib \<Rightarrow> 'w rg_sdk \<Rightarrow> (mgmt_client \<times> 'w) AsyncClient" where
  "rg_client L A S = \<lparr>
     async_ForSubscription = (\<lambda>obj. on_self (\<lambda>c. rg_ForSubscription A c obj)),
     async_Ensure = (\<lambda>obj. on_world (\<lambda>c. rg_Ensure L S c obj)),
     async_Delete = (\<lambda>obj. on_world (\<lambda>c. rg_DeleteOp L S c obj))\<rparr>"

subsection \<open>Lemmas\<close>

lemma rg_convert_Inr [simp]: "rg_convert obj = Inr local \<longleftrightarrow> obj = ObjResourceGroup local"
  by (cases obj) (simp_all add: rg_convert_def)

lemma rg_convert_Inl [simp]:
  "rg_convert obj = Inl err \<longleftrightarrow>
     kind_of obj \<noteq> KResourceGroup \<and> err = kind_error obj"
  by (cases obj) (auto simp: rg_convert_def)

lemma rg_SetStatus_keeps [simp]:
  "(rg_SetStatus local remote)\<lparr>Status := st\<rparr> = local\<lparr>Status := st\<rparr>"
  "Spec (rg_SetStatus local remote) = Spec local" "ObjectMeta (rg_SetStatus local remote) = ObjectMeta local"
  by (simp_all add: rg_SetStatus_def Let_def)

lemma rg_desired_eq:
  "rg_desired local spec = (Returns (), spec\<lparr>grp_Name := Some (rgs_Name (Spec local)),
                                             grp_Location := Some (rgs_Location (Spec local))\<rparr>)"
  by (simp add: rg_desired_def rg_set_Name_def rg_set_Location_def go_simps)

lemma rg_spec_NeedsUpdate_eq:
  "lib_ok L \<Longrightarrow> rg_spec_NeedsUpdate L local spec =
     (Returns (\<not> (grp_Name spec = Some (rgs_Name (Spec local)) \<and>
                   grp_Location spec = Some (rgs_Location (Spec local)))), spec)"
  by (simp add: rg_spec_NeedsUpdate_def go_simps lib_okD(5))

lemmas rg_defs = rg_Ensure_def rg_apply_def rg_DeleteOp_def Let_def

lemma rg_Ensure_Returns:
  assumes "rg_Ensure L S c obj w = (Returns (obj', done, err), w')"
  shows "clear_status obj' = clear_status obj" and "done \<Longrightarrow> err = None"
  using assms
  by (auto simp: rg_defs go_returns split: sum.splits prod.splits if_splits)

lemma rg_Delete_Returns:
  assumes "rg_DeleteOp L S c obj w = (Returns (obj', found, err), w')"
  shows "clear_status obj' = clear_status obj"
  using assms
  by (auto simp: rg_defs go_returns split: sum.splits prod.splits if_splits)

interpretation rg: strict_async_client "rg_client L A S" "\<lambda>obj. kind_of obj = KResourceGroup"
  for L :: lib and A :: auth_lib and S :: "'w rg_sdk"
proof unfold_locales
  show "\<exists>err. async_ForSubscription (rg_client L A S) obj = go_ret (Some err)"
    if "kind_of obj \<noteq> KResourceGroup" for obj
    using that
    by (auto simp: rg_client_def on_self_def rg_ForSubscription_def go_ret_def fun_eq_iff split: sum.splits)
qed (auto simp: rg_client_def go_returns dest: rg_Ensure_Returns rg_Delete_Returns)

subsection \<open>What Ensure does on each answer of Azure\<close>

lemma rg_Ensure_not_found:
  assumes "lib_ok L" "rg_Get S (mc_internal c) (rgs_Name (Spec x)) w = (Returns (remote, err), w')"
    and "grp_Response remote = Some StatusNotFound"
  shows "rg_Ensure L S c (ObjResourceGroup x) w =
     go_bind (rg_CreateOrUpdate S (mc_internal c) (rgs_Name (Spec x))
        (zero_Group\<lparr>grp_Name := Some (rgs_Name (Spec x)), grp_Location := Some (rgs_Location (Spec x))\<rparr>))
       (\<lambda>(_, err). go_ret (ObjResourceGroup (rg_SetStatus x remote), False, err)) w'"
  using assms by (simp add: rg_defs rg_convert_def go_simps lib_okD(1) rg_desired_eq rg_NewSpec_def)

lemma rg_Ensure_found:
  assumes "lib_ok L" "rg_Get S (mc_internal c) (rgs_Name (Spec x)) w = (Returns (remote, err), w')"
    and "grp_Response remote \<noteq> Some StatusNotFound"
  shows "rg_Ensure L S c (ObjResourceGroup x) w =
     (let x' = rg_SetStatus x remote in
      if err \<noteq> None then (Returns (ObjResourceGroup x', False, err), w')
      else if \<not> rg_Done x' then (Returns (ObjResourceGroup x', False, None), w')
      else if grp_Name remote = Some (rgs_Name (Spec x)) \<and> grp_Location remote = Some (rgs_Location (Spec x))
      then (Returns (ObjResourceGroup x', True, None), w')
      else go_bind (rg_CreateOrUpdate S (mc_internal c) (rgs_Name (Spec x))
             (remote\<lparr>grp_Name := Some (rgs_Name (Spec x)), grp_Location := Some (rgs_Location (Spec x))\<rparr>))
             (\<lambda>(_, err). go_ret (ObjResourceGroup x', False, err)) w')"
  using assms
  by (auto simp: rg_defs rg_convert_def go_simps lib_okD(1) rg_desired_eq rg_spec_NeedsUpdate_eq
      rg_NewSpecWithRemote_def)

text \<open>What \<open>Ensure\<close> writes, \<open>NeedsUpdate\<close> accepts; the two \<open>NeedsUpdate\<close> of the package agree on
  a group that has a name and a location.\<close>

lemma rg_written_needs_no_update:
  assumes "lib_ok L"
  shows "go_bind (rg_desired x) (\<lambda>_. rg_spec_NeedsUpdate L x) spec =
     (Returns False, snd (rg_desired x spec))"
  using assms by (simp add: go_bind_apply rg_desired_eq rg_spec_NeedsUpdate_eq)

lemma rg_NeedsUpdate_agree:
  assumes "lib_ok L" "grp_Name g = Some n" "grp_Location g = Some l"
  shows "rg_spec_NeedsUpdate L x g = (Returns (rg_NeedsUpdate x g), g)"
  using assms by (auto simp: rg_spec_NeedsUpdate_eq rg_NeedsUpdate_def)

subsection \<open>Deletion and the finalizer protocol\<close>

text \<open>
  \<open>ex sub name w\<close>: the group exists in the world.  The SDK contract: an answer 404 means it
  does not.
\<close>

definition rg_sdk_ok :: "'w rg_sdk \<Rightarrow> (string option \<Rightarrow> string \<Rightarrow> 'w \<Rightarrow> bool) \<Rightarrow> bool" where
  "rg_sdk_ok S ex \<longleftrightarrow>
     (\<forall>cl n. triple (\<lambda>_. True) (rg_Get S cl n)
        (\<lambda>(g, err) w. grp_Response g = Some StatusNotFound \<longrightarrow> \<not> ex (sdk_Subscription cl) n w) (\<lambda>_. True))"

definition is_group :: "string \<Rightarrow> string \<Rightarrow> runtime_object \<Rightarrow> bool" where
  "is_group sub name obj \<longleftrightarrow> (case obj of
       ObjResourceGroup x \<Rightarrow> rgs_SubscriptionID (Spec x) = sub \<and> rgs_Name (Spec x) = name
     | _ \<Rightarrow> False)"

lemma is_groupE:
  assumes "is_group sub name obj"
  obtains x where "obj = ObjResourceGroup x" "rgs_SubscriptionID (Spec x) = sub" "rgs_Name (Spec x) = name"
  using assms by (cases obj) (auto simp: is_group_def)

lemma rg_Delete_gone:
  assumes "lib_ok L" "rg_sdk_ok S ex"
    and "rg_DeleteOp L S c (ObjResourceGroup x) w = (Returns (obj', False, None), w')"
  shows "\<not> ex (sdk_Subscription (mc_internal c)) (rgs_Name (Spec x)) w'"
proof -
  from assms(1,3) obtain w1 g err where
    get: "rg_Get S (mc_internal c) (rgs_Name (Spec x)) w1 = (Returns (g, err), w')"
    and nf: "grp_Response g = Some StatusNotFound"
    by (auto simp: rg_defs rg_convert_def go_returns lib_okD(1) split: if_splits prod.splits)
  from assms(2) have "triple (\<lambda>_. True) (rg_Get S (mc_internal c) (rgs_Name (Spec x)))
     (\<lambda>(g, err) w. grp_Response g = Some StatusNotFound \<longrightarrow>
        \<not> ex (sdk_Subscription (mc_internal c)) (rgs_Name (Spec x)) w) (\<lambda>_. True)"
    unfolding rg_sdk_ok_def by blast
  from tripleD_Returns [OF this _ get] nf show ?thesis by simp
qed

lemma rg_azure_ok:
  assumes L: "lib_ok L" and S: "rg_sdk_ok S ex"
  shows "azure_ok (is_group sub name) (subscribed_to sub) (rg_client L A S) (\<lambda>_. True) (exists_for ex sub name)"
  by (rule mgmt_azure_ok)
    (auto elim!: is_groupE simp: rg_client_def rg_ForSubscription_def rg_convert_def on_self_def go_returns
      dest: rg_Delete_gone [OF L S])

subsection \<open>A small Azure\<close>

text \<open>
  A concrete SDK for the witnesses: the world is the one resource group that may exist;
  creation succeeds at once, deletion too.
\<close>

definition one_group_sdk :: "(Group option) rg_sdk" where
  "one_group_sdk = \<lparr>
     rg_Get = (\<lambda>cl n w. (case w of
         None \<Rightarrow> (Returns (zero_Group\<lparr>grp_Response := Some 404\<rparr>, Some (SdkError 404)), w)
       | Some g \<Rightarrow> (Returns (g\<lparr>grp_Response := Some 200\<rparr>, None), w))),
     rg_CreateOrUpdate = (\<lambda>cl n g w.
       (Returns (g, None), Some (g\<lparr>grp_ID := Some n, grp_Properties := Some (Some ''Succeeded'')\<rparr>))),
     rg_Delete = (\<lambda>cl n w. (Returns (Some 202, None), None))\<rparr>"

lemma one_group_sdk_ok: "rg_sdk_ok one_group_sdk (\<lambda>sub n w. w \<noteq> None)"
  unfolding rg_sdk_ok_def one_group_sdk_def
  by (auto intro!: tripleI simp: StatusNotFound_def split: option.splits)

definition demo_group :: "string list \<Rightarrow> nat option \<Rightarrow> runtime_object" where
  "demo_group finalizers deletion = ObjResourceGroup \<lparr>
     TypeMeta = ''ResourceGroup'',
     ObjectMeta = \<lparr>om_Name = ''rg'', om_Namespace = ''ns'', om_UID = ''1'',
       om_Finalizers = finalizers, om_DeletionTimestamp = deletion\<rparr>,
     Spec = \<lparr>rgs_Name = ''rg'', rgs_Location = ''westus2'', rgs_SubscriptionID = ''sub''\<rparr>,
     Status = zero_ResourceGroupStatus\<rparr>"

definition demo_factory :: "string \<Rightarrow> sdk_client" where
  "demo_factory sub = zero_sdk_client\<lparr>sdk_Subscription := Some sub\<rparr>"

definition demo_config :: config where
  "demo_config = \<lparr>cfg_userAgent = ''ua'', cfg_env = \<lparr>ResourceManagerEndpoint = ''arm'',
     ActiveDirectoryEndpoint = ''aad'', KeyVaultEndpoint = ''kv''\<rparr>,
     cfg_app = ''app'', cfg_key = ''key'', cfg_tenant = ''tenant''\<rparr>"

definition demo_auth :: auth_lib where
  "demo_auth = \<lparr>
     GetSettingsFromEnvironment = Inr (cfg_env demo_config),
     NewAuthorizerFromEnvironmentWithResource = (\<lambda>r. Inr (Authorizer 1)),
     NewAuthorizerFromEnvironment = Inr (Authorizer 2),
     NewAuthorizerFromFile = (\<lambda>r. Inr (Authorizer 3)),
     NewAuthorizerFromFileWithResource = (\<lambda>r. Inr (Authorizer 4)),
     CredentialsAuthorizer = (\<lambda>cc. Inr (Authorizer 5)),
     AddToUserAgent = (\<lambda>cl ua. (cl\<lparr>ac_UserAgent := ua\<rparr>, None))\<rparr>"

definition demo_client :: mgmt_client where
  "demo_client = rg_NewWithFactory demo_config demo_factory"

text \<open>The API server and the client side by side, and a user who deletes the object.\<close>

definition demo_kube :: "(runtime_object option \<times> 'c) kube" where
  "demo_kube = kube_beside (one_object_kube (is_group ''sub'' ''rg''))"

definition demo_async :: "('k \<times> mgmt_client \<times> Group option) AsyncClient" where
  "demo_async = async_beside (rg_client std_lib demo_auth one_group_sdk)"

definition demo_state ::
  "string list \<Rightarrow> nat option \<Rightarrow> Group option \<Rightarrow> runtime_object option \<times> mgmt_client \<times> Group option" where
  "demo_state finalizers deletion w = (Some (demo_group finalizers deletion), demo_client, w)"

definition user_deletes :: "runtime_object option \<times> 'c \<Rightarrow> runtime_object option \<times> 'c \<Rightarrow> bool" where
  "user_deletes s s' \<longleftrightarrow>
     s' = (map_option (map_meta (\<lambda>m. m\<lparr>om_DeletionTimestamp := Some 5\<rparr>)) (fst s), snd s)"

lemma user_deletes_stable:
  assumes "user_deletes s s'"
  shows "(stored_finalizer (fst s) \<longrightarrow> stored_finalizer (fst s')) \<and> (ex (snd s') \<longrightarrow> ex (snd s))"
  using assms by (cases "fst s") (auto simp: user_deletes_def)

end
