(* ===== verification/VirtualNetworks.thy ===== *)
theory VirtualNetworks imports Mgmt_Clients begin

section \<open>Virtual networks (pkg/clients/virtualnetworks)\<close>

text \<open>
  The spec builder (\<open>spec.go\<close>), with its options as computations over the spec that may follow
  nil pointers, and the client (\<open>virtualnetworks.go\<close>).
\<close>

subsection \<open>The SDK\<close>

text \<open>A subnet as the network lists it: name, and the properties pointer with its
  \<open>AddressPrefix\<close>.\<close>

record vnet_subnet =
  vsn_Name :: "string option"
  vsn_Properties :: "string option option"

record vnet_properties =
  vnp_AddressSpace :: "string list option option"
  vnp_Subnets :: "vnet_subnet list option"
  vnp_ProvisioningState :: "string option"

record vnet =
  vnet_Response :: http_response
  vnet_ID :: "string option"
  vnet_Name :: "string option"
  vnet_Location :: "string option"
  vnet_Properties :: "vnet_properties option"

definition zero_vnet_properties :: vnet_properties where
  "zero_vnet_properties = \<lparr>vnp_AddressSpace = None, vnp_Subnets = None, vnp_ProvisioningState = None\<rparr>"

definition zero_vnet :: vnet where
  "zero_vnet = \<lparr>vnet_Response = None, vnet_ID = None, vnet_Name = None, vnet_Location = None,
     vnet_Properties = None\<rparr>"

record 'w vnet_sdk =
  vn_sdk_Get :: "sdk_client \<Rightarrow> string \<Rightarrow> string \<Rightarrow> string \<Rightarrow> ('w, vnet \<times> go_error option) go"
  vn_sdk_CreateOrUpdate :: "sdk_client \<Rightarrow> string \<Rightarrow> string \<Rightarrow> vnet \<Rightarrow> ('w, go_error option) go"
  vn_sdk_Delete :: "sdk_client \<Rightarrow> string \<Rightarrow> string \<Rightarrow> ('w, http_response \<times> go_error option) go"

subsection \<open>The spec builder\<close>

definition vn_NewSpec :: vnet where
  "vn_NewSpec = zero_vnet"

definition vn_NewSpecWithRemote :: "vnet \<Rightarrow> vnet" where
  "vn_NewSpecWithRemote remote = remote"

definition vn_set_Name :: "string option \<Rightarrow> (vnet, unit) go" where
  "vn_set_Name name = remedy (\<lambda>s. s\<lparr>vnet_Name := name\<rparr>)"

definition vn_set_Location :: "string option \<Rightarrow> (vnet, unit) go" where
  "vn_set_Location location = remedy (\<lambda>s. s\<lparr>vnet_Location := location\<rparr>)"

text \<open>The pointers an option follows, and writing behind them.\<close>

definition vn_prefixes :: "vnet \<Rightarrow> string list option option option" where
  "vn_prefixes s = map_option vnp_AddressSpace (vnet_Properties s)"

definition vn_put_space :: "string list option \<Rightarrow> vnet \<Rightarrow> vnet" where
  "vn_put_space a s = s\<lparr>vnet_Properties := map_option (\<lambda>p. p\<lparr>vnp_AddressSpace := Some a\<rparr>) (vnet_Properties s)\<rparr>"

definition vn_init_prefixes :: "(vnet, unit) go" where
  "vn_init_prefixes = Initialize
     [detect (\<lambda>s. vnet_Properties s = None),
      detect_at (\<lambda>s. map_option (\<lambda>p. vnp_AddressSpace p = None) (vnet_Properties s)),
      detect_at (\<lambda>s. Option.bind (vnet_Properties s) (\<lambda>p. map_option (\<lambda>a. a = None) (vnp_AddressSpace p)))]
     [remedy (\<lambda>s. s\<lparr>vnet_Properties := Some zero_vnet_properties\<rparr>),
      remedy_at (\<lambda>s. map_option (\<lambda>p. vn_put_space None s) (vnet_Properties s)),
      remedy_at (\<lambda>s. Option.bind (vnet_Properties s) (\<lambda>p. map_option (\<lambda>a. vn_put_space (Some []) s) (vnp_AddressSpace p)))]"

text \<open>\<open>for _, prefix := range prefixes { if prefix == cidr { found = true } }\<close>.\<close>

fun vn_found :: "string list \<Rightarrow> string \<Rightarrow> bool \<Rightarrow> bool" where
  "vn_found [] cidr found = found"
| "vn_found (prefix # prefixes) cidr found = vn_found prefixes cidr (if prefix = cidr then True else found)"

fun vn_add_all :: "string list \<Rightarrow> string list \<Rightarrow> string list" where
  "vn_add_all [] prefixes = prefixes"
| "vn_add_all (cidr # cidrs) prefixes =
     vn_add_all cidrs (if \<not> vn_found prefixes cidr False then prefixes @ [cidr] else prefixes)"

definition vn_with_prefixes :: "(string list \<Rightarrow> string list) \<Rightarrow> (vnet, unit) go" where
  "vn_with_prefixes f = remedy_at (\<lambda>s. Option.bind (vnet_Properties s) (\<lambda>p.
     Option.bind (vnp_AddressSpace p) (\<lambda>a. map_option (\<lambda>xs. vn_put_space (Some (f xs)) s) a)))"

definition vn_AddressSpaces :: "string list \<Rightarrow> (vnet, unit) go" where
  "vn_AddressSpaces cidrs =
     go_bind vn_init_prefixes (\<lambda>_. vn_with_prefixes (vn_add_all cidrs))"

definition vn_AddressSpace :: "string \<Rightarrow> (vnet, unit) go" where
  "vn_AddressSpace cidr =
     go_bind vn_init_prefixes (\<lambda>_. vn_with_prefixes (\<lambda>prefixes.
       if \<not> vn_found prefixes cidr False then prefixes @ [cidr] else prefixes))"

text \<open>
  \<open>RemoveAddressSpace\<close> assigns \<open>append(x[:i], x[:i+1]...)\<close> to the slice it ranges over.  The
  \<open>range\<close> keeps the slice it started with, a window on the backing array \<open>arr\<close> (of length the
  capacity); the current slice is a prefix of the same array (\<open>Inl len\<close>) as long as the appends
  fit into the capacity, and a fresh one (\<open>Inr xs\<close>) afterwards.  A slice expression may reach past
  the length, up to the capacity, so in the first case \<open>x[:i]\<close> is a prefix of the array.  A fresh
  slice is longer than the old capacity and never sliced past its length (\<open>vn_remove_fresh\<close>).
\<close>

fun vn_current :: "string list \<Rightarrow> nat + string list \<Rightarrow> string list" where
  "vn_current arr (Inl len) = take len arr"
| "vn_current arr (Inr xs) = xs"

fun vn_remove_step :: "nat \<Rightarrow> string list \<times> (nat + string list) \<Rightarrow> string list \<times> (nat + string list)" where
  "vn_remove_step i (arr, cur) =
     (case cur of
        Inl len \<Rightarrow>
          (let ys = take i arr @ take (i + 1) arr in
           if length ys \<le> length arr then (ys @ drop (length ys) arr, Inl (length ys))
           else (arr, Inr ys))
      | Inr xs \<Rightarrow> (arr, Inr (take i xs @ take (i + 1) xs)))"

fun vn_remove_loop :: "string \<Rightarrow> nat \<Rightarrow> nat \<Rightarrow> string list \<times> (nat + string list) \<Rightarrow> string list \<times> (nat + string list)" where
  "vn_remove_loop cidr 0 i st = st"
| "vn_remove_loop cidr (Suc n) i st =
     vn_remove_loop cidr n (i + 1) (if fst st ! i = cidr then vn_remove_step i st else st)"

text \<open>The slice \<open>xs\<close> with spare capacity \<open>spare\<close>.\<close>

definition vn_remove :: "string list \<Rightarrow> string \<Rightarrow> string list \<Rightarrow> string list" where
  "vn_remove spare cidr xs =
     (case vn_remove_loop cidr (length xs) 0 (xs @ spare, Inl (length xs)) of
        (arr, cur) \<Rightarrow> vn_current arr cur)"

definition vn_RemoveAddressSpace :: "string list \<Rightarrow> string \<Rightarrow> (vnet, unit) go" where
  "vn_RemoveAddressSpace spare cidr =
     go_bind vn_init_prefixes (\<lambda>_. vn_with_prefixes (vn_remove spare cidr))"

text \<open>
  The option \<open>Subnet\<close>: in the loop \<open>subnet\<close> is a copy, but \<open>subnet.AddressPrefix\<close> lives behind the
  properties pointer of the original.
\<close>

fun vn_set_subnets :: "string \<Rightarrow> string \<Rightarrow> vnet_subnet list \<Rightarrow> (vnet_subnet list \<times> bool) option" where
  "vn_set_subnets name cidr [] = Some ([], False)"
| "vn_set_subnets name cidr (subnet # subnets) =
     Option.bind (vsn_Name subnet) (\<lambda>n.
     Option.bind
       (if n = name
        then map_option (\<lambda>_. (subnet\<lparr>vsn_Properties := Some (Some cidr)\<rparr>, True)) (vsn_Properties subnet)
        else Some (subnet, False)) (\<lambda>(subnet', hit).
     map_option (\<lambda>(rest, found). (subnet' # rest, hit \<or> found)) (vn_set_subnets name cidr subnets)))"

definition vn_Subnet :: "string \<Rightarrow> string \<Rightarrow> (vnet, unit) go" where
  "vn_Subnet name cidr =
     go_bind (Initialize
       [detect (\<lambda>s. vnet_Properties s = None),
        detect_at (\<lambda>s. map_option (\<lambda>p. vnp_Subnets p = None) (vnet_Properties s))]
       [remedy (\<lambda>s. s\<lparr>vnet_Properties := Some zero_vnet_properties\<rparr>),
        remedy_at (\<lambda>s. map_option (\<lambda>p. s\<lparr>vnet_Properties := Some (p\<lparr>vnp_Subnets := Some []\<rparr>)\<rparr>) (vnet_Properties s))])
     (\<lambda>_. remedy_at (\<lambda>s.
        Option.bind (vnet_Properties s) (\<lambda>p.
        Option.bind (vnp_Subnets p) (\<lambda>subnets.
        map_option (\<lambda>(subnets', found).
          s\<lparr>vnet_Properties := Some (p\<lparr>vnp_Subnets := Some
             (if \<not> found then subnets' @ [\<lparr>vsn_Name = Some name, vsn_Properties = Some (Some cidr)\<rparr>]
              else subnets')\<rparr>)\<rparr>)
          (vn_set_subnets name cidr subnets)))))"

definition vn_Addresses :: "vnet \<Rightarrow> string list option" where
  "vn_Addresses s = (case vnet_Properties s of
       None \<Rightarrow> None
     | Some p \<Rightarrow> (case vnp_AddressSpace p of None \<Rightarrow> None | Some a \<Rightarrow> a))"

definition vn_State :: "vnet \<Rightarrow> string option" where
  "vn_State s = (case vnet_Properties s of None \<Rightarrow> None | Some p \<Rightarrow> vnp_ProvisioningState p)"

text \<open>The prefixes of the subnets; a subnet without one panics.\<close>

fun vn_subnet_prefixes :: "vnet_subnet list \<Rightarrow> ('w, string list) go" where
  "vn_subnet_prefixes [] = go_ret []"
| "vn_subnet_prefixes (subnet # subnets) =
     go_bind (go_deref (vsn_Properties subnet)) (\<lambda>p.
     go_bind (go_deref p) (\<lambda>prefix.
     go_bind (vn_subnet_prefixes subnets) (\<lambda>prefixes. go_ret (prefix # prefixes))))"

definition vn_Subnets :: "vnet \<Rightarrow> ('w, string list option) go" where
  "vn_Subnets s =
     (case vnet_Properties s of
        None \<Rightarrow> go_ret None
      | Some p \<Rightarrow>
          (case vnp_Subnets p of
             None \<Rightarrow> go_ret None
           | Some subnets \<Rightarrow> go_bind (vn_subnet_prefixes subnets) (\<lambda>prefixes. go_ret (Some prefixes))))"

definition vn_Name :: "vnet \<Rightarrow> string option" where
  [simp]: "vn_Name s = vnet_Name s"

definition vn_Location :: "vnet \<Rightarrow> string option" where
  [simp]: "vn_Location s = vnet_Location s"

definition vn_ID :: "vnet \<Rightarrow> string option" where
  [simp]: "vn_ID s = vnet_ID s"

definition vn_Build :: "vnet \<Rightarrow> vnet" where
  [simp]: "vn_Build s = s"

definition vn_Set :: "(vnet, unit) go list \<Rightarrow> (vnet, unit) go" where
  [simp]: "vn_Set opts = set_opts opts"

definition vn_spec_NeedsUpdate :: "lib \<Rightarrow> VirtualNetwork \<Rightarrow> (vnet, bool) go" where
  "vn_spec_NeedsUpdate L local = Any [
     detect (\<lambda>s. case vn_Name s of None \<Rightarrow> True | Some n \<Rightarrow> vns_Name (Spec local) \<noteq> n),
     detect (\<lambda>s. case vn_Location s of None \<Rightarrow> True | Some l \<Rightarrow> vns_Location (Spec local) \<noteq> l),
     detect (\<lambda>s. case vn_Addresses s of None \<Rightarrow> True
                 | Some a \<Rightarrow> \<not> cmp_Equal_strings L (vns_Addresses (Spec local)) a)]"

subsection \<open>The client\<close>

definition vn_NewWithFactory :: "config \<Rightarrow> (string \<Rightarrow> sdk_client) \<Rightarrow> mgmt_client" where
  "vn_NewWithFactory configuration factory = new_mgmt_client configuration factory"

definition vn_convert :: "runtime_object \<Rightarrow> go_error + VirtualNetwork" where
  "vn_convert obj = (case obj of
       ObjVirtualNetwork local \<Rightarrow> Inr local
     | _ \<Rightarrow> Inl (kind_error obj))"

definition vn_ForSubscription :: "auth_lib \<Rightarrow> mgmt_client \<Rightarrow> runtime_object \<Rightarrow> mgmt_client \<times> go_error option" where
  "vn_ForSubscription A c obj =
     (case vn_convert obj of
        Inl err \<Rightarrow> (c, Some err)
      | Inr local \<Rightarrow> authorize_for A c (vns_SubscriptionID (Spec local)))"

definition vn_SetStatus :: "VirtualNetwork \<Rightarrow> vnet \<Rightarrow> VirtualNetwork" where
  "vn_SetStatus local remote =
     (let st = (Status local)\<lparr>vnst_ID := vnet_ID remote\<rparr>;
          st = (case vnet_Properties remote of
                  None \<Rightarrow> st
                | Some p \<Rightarrow> st\<lparr>vnst_ProvisioningState := vnp_ProvisioningState p\<rparr>)
      in local\<lparr>Status := st\<rparr>)"

definition vn_Done :: "VirtualNetwork \<Rightarrow> bool" where
  "vn_Done local \<longleftrightarrow> \<not> (vnst_ProvisioningState (Status local) = None \<or>
     vnst_ProvisioningState (Status local) \<noteq> Some ''Succeeded'')"

definition vn_desired :: "VirtualNetwork \<Rightarrow> (vnet, unit) go" where
  "vn_desired local = vn_Set [
     vn_set_Name (Some (vns_Name (Spec local))),
     vn_set_Location (Some (vns_Location (Spec local))),
     vn_AddressSpaces (vns_Addresses (Spec local))]"

definition vn_apply ::
  "'w vnet_sdk \<Rightarrow> mgmt_client \<Rightarrow> VirtualNetwork \<Rightarrow> vnet \<Rightarrow> ('w, runtime_object \<times> bool \<times> go_error option) go" where
  "vn_apply S c local spec =
     with_spec (vn_desired local) spec (\<lambda>_ spec.
       go_bind (vn_sdk_CreateOrUpdate S (mc_internal c) (vns_ResourceGroup (Spec local)) (vns_Name (Spec local)) (vn_Build spec))
         (\<lambda>err. go_ret (ObjVirtualNetwork local, False, err)))"

definition vn_Ensure ::
  "lib \<Rightarrow> 'w vnet_sdk \<Rightarrow> mgmt_client \<Rightarrow> runtime_object \<Rightarrow> ('w, runtime_object \<times> bool \<times> go_error option) go" where
  "vn_Ensure L S c obj =
     (case vn_convert obj of
        Inl err \<Rightarrow> go_ret (obj, False, Some err)
      | Inr local \<Rightarrow>
     go_bind (vn_sdk_Get S (mc_internal c) (vns_ResourceGroup (Spec local)) (vns_Name (Spec local)) '''') (\<lambda>(remote, err).
       let found = (\<not> IsHTTPStatus L (vnet_Response remote) StatusNotFound);
           local = vn_SetStatus local remote
       in
       if err \<noteq> None \<and> found then go_ret (ObjVirtualNetwork local, False, err)
       else if found then
         (let spec = vn_NewSpecWithRemote remote in
          if vn_Done local then
            with_spec (vn_spec_NeedsUpdate L local) spec (\<lambda>needs spec.
              if \<not> needs then go_ret (ObjVirtualNetwork local, True, None)
              else vn_apply S c local spec)
          else go_ret (ObjVirtualNetwork local, False, None))
       else vn_apply S c local vn_NewSpec))"

definition vn_Get :: "'w vnet_sdk \<Rightarrow> mgmt_client \<Rightarrow> runtime_object \<Rightarrow> ('w, vnet \<times> go_error option) go" where
  "vn_Get S c obj =
     (case vn_convert obj of
        Inl err \<Rightarrow> go_ret (zero_vnet, Some err)
      | Inr local \<Rightarrow> vn_sdk_Get S (mc_internal c) (vns_ResourceGroup (Spec local)) (vns_Name (Spec local)) '''')"

definition vn_Delete ::
  "lib \<Rightarrow> 'w vnet_sdk \<Rightarrow> mgmt_client \<Rightarrow> runtime_object \<Rightarrow> ('w, runtime_object \<times> bool \<times> go_error option) go" where
  "vn_Delete L S c obj =
     (case vn_convert obj of
        Inl err \<Rightarrow> go_ret (obj, False, Some err)
      | Inr local \<Rightarrow>
     go_bind (vn_sdk_Delete S (mc_internal c) (vns_ResourceGroup (Spec local)) (vns_Name (Spec local))) (\<lambda>(resp, err).
       if err \<noteq> None \<and> resp \<noteq> None \<and> resp \<noteq> Some StatusNotFound \<and> resp \<noteq> Some StatusConflict
       then go_ret (obj, False, err)
       else
     go_bind (vn_sdk_Get S (mc_internal c) (vns_ResourceGroup (Spec local)) (vns_Name (Spec local)) '''') (\<lambda>(remote, err).
       let found = (\<not> IsHTTPStatus L (vnet_Response remote) StatusNotFound);
           local = vn_SetStatus local remote
       in
       if err \<noteq> None \<and> IsHTTPStatus L (vnet_Response remote) StatusNotFound
       then go_ret (ObjVirtualNetwork local, False, None)
       else go_ret (ObjVirtualNetwork local, found, err))))"

definition vn_client :: "lib \<Rightarrow> auth_lib \<Rightarrow> 'w vnet_sdk \<Rightarrow> (mgmt_client \<times> 'w) AsyncClient" where
  "vn_client L A S = \<lparr>
     async_ForSubscription = (\<lambda>obj. on_self (\<lambda>c. vn_ForSubscription A c obj)),
     async_Ensure = (\<lambda>obj. on_world (\<lambda>c. vn_Ensure L S c obj)),
     async_Delete = (\<lambda>obj. on_world (\<lambda>c. vn_Delete L S c obj))\<rparr>"

subsection \<open>The builder\<close>

lemma vn_found_iff [simp]: "vn_found xs cidr b \<longleftrightarrow> b \<or> cidr \<in> set xs"
  by (induction xs arbitrary: b) auto

lemma vn_add_all_eq:
  "\<exists>added. vn_add_all cidrs xs = xs @ added \<and> set added = set cidrs - set xs \<and> distinct added"
proof (induction cidrs arbitrary: xs)
  case (Cons cidr cidrs)
  show ?case
  proof (cases "cidr \<in> set xs")
    case True
    with Cons.IH [of xs] show ?thesis by auto
  next
    case False
    from Cons.IH [of "xs @ [cidr]"] obtain added where
      "vn_add_all cidrs (xs @ [cidr]) = (xs @ [cidr]) @ added"
      "set added = set cidrs - set (xs @ [cidr])" "distinct added" by blast
    with False show ?thesis by (intro exI [of _ "cidr # added"]) auto
  qed
qed simp

lemma set_vn_add_all [simp]: "set (vn_add_all cidrs xs) = set xs \<union> set cidrs"
  using vn_add_all_eq [of cidrs xs] by (metis Un_Diff_cancel set_append)

lemma vn_add_all_id [simp]: "set cidrs \<subseteq> set xs \<Longrightarrow> vn_add_all cidrs xs = xs"
  by (induction cidrs) simp_all

lemma vn_add_all_fresh: "distinct (xs @ cidrs) \<Longrightarrow> vn_add_all cidrs xs = xs @ cidrs"
proof (induction cidrs arbitrary: xs)
  case (Cons cidr cidrs)
  from Cons.prems have "cidr \<notin> set xs" "distinct ((xs @ [cidr]) @ cidrs)" by auto
  with Cons.IH [of "xs @ [cidr]"] show ?case by simp
qed simp

text \<open>The initializers cannot panic, and leave the prefixes that were there.\<close>

definition vn_initialized :: "vnet \<Rightarrow> string list \<Rightarrow> vnet" where
  "vn_initialized s xs = s\<lparr>vnet_Properties := Some
     ((case vnet_Properties s of None \<Rightarrow> zero_vnet_properties | Some p \<Rightarrow> p)\<lparr>vnp_AddressSpace := Some (Some xs)\<rparr>)\<rparr>"

lemma vn_add_all_append: "vn_add_all (as @ bs) xs = vn_add_all bs (vn_add_all as xs)"
  by (induction as arbitrary: xs) simp_all

text \<open>Adding the wanted prefixes gives exactly these when those that are there come first, in order, and
  the rest are distinct and new.\<close>

lemma vn_add_all_new: "distinct cidrs \<Longrightarrow> set xs \<inter> set cidrs = {} \<Longrightarrow> vn_add_all cidrs xs = xs @ cidrs"
  by (induction cidrs arbitrary: xs) auto

lemma vn_add_all_fixed_iff:
  "vn_add_all cidrs xs = cidrs \<longleftrightarrow> xs = take (length xs) cidrs \<and>
     distinct (drop (length xs) cidrs) \<and> set xs \<inter> set (drop (length xs) cidrs) = {}"
proof
  assume eq: "vn_add_all cidrs xs = cidrs"
  from vn_add_all_eq [of cidrs xs] obtain added
    where "cidrs = xs @ added" "set added = set cidrs - set xs" "distinct added" by (auto simp: eq)
  then show "xs = take (length xs) cidrs \<and>
      distinct (drop (length xs) cidrs) \<and> set xs \<inter> set (drop (length xs) cidrs) = {}" by auto
next
  assume fit: "xs = take (length xs) cidrs \<and>
      distinct (drop (length xs) cidrs) \<and> set xs \<inter> set (drop (length xs) cidrs) = {}"
  then obtain ys where ys: "cidrs = xs @ ys" "distinct ys" "set xs \<inter> set ys = {}"
    by (metis append_take_drop_id)
  with vn_add_all_new [of ys xs] show "vn_add_all cidrs xs = cidrs"
    by (simp add: vn_add_all_append)
qed

lemma vn_add_all_prefix_iff:
  assumes "distinct cidrs"
  shows "vn_add_all cidrs xs = cidrs \<longleftrightarrow> xs = take (length xs) cidrs"
proof -
  have "set (take n cidrs) \<inter> set (drop n cidrs) = {}" for n
    using assms by (rule set_take_disj_set_drop_if_distinct) simp
  with assms show ?thesis by (metis distinct_drop vn_add_all_fixed_iff)
qed

lemma vn_init_prefixes_eq:
  "vn_init_prefixes s = (Returns (), vn_initialized s (case vn_Addresses s of None \<Rightarrow> [] | Some xs \<Rightarrow> xs))"
proof (cases "vnet_Properties s")
  case None
  then show ?thesis
    by (simp add: vn_init_prefixes_def go_simps vn_put_space_def vn_initialized_def vn_Addresses_def
        zero_vnet_properties_def)
next
  case (Some p)
  show ?thesis
  proof (cases "vnp_AddressSpace p")
    case None
    with Some show ?thesis
      by (simp add: vn_init_prefixes_def go_simps vn_put_space_def vn_initialized_def vn_Addresses_def)
  next
    case (Some a)
    with \<open>vnet_Properties s = Some p\<close> show ?thesis
      by (cases a) (auto simp: vn_init_prefixes_def go_simps vn_put_space_def vn_initialized_def vn_Addresses_def
          intro!: vnet.equality vnet_properties.equality)
  qed
qed

lemma vn_with_prefixes_initialized:
  "vn_with_prefixes f (vn_initialized s xs) = (Returns (), vn_initialized s (f xs))"
  by (simp add: vn_with_prefixes_def go_simps vn_initialized_def vn_put_space_def)

lemma vn_AddressSpaces_eq:
  "vn_AddressSpaces cidrs s =
     (Returns (), vn_initialized s (vn_add_all cidrs (case vn_Addresses s of None \<Rightarrow> [] | Some xs \<Rightarrow> xs)))"
  by (simp add: vn_AddressSpaces_def go_simps vn_init_prefixes_eq vn_with_prefixes_initialized)

lemma vn_initialized_simps [simp]:
  "vn_Addresses (vn_initialized s xs) = Some xs" "vnet_Name (vn_initialized s xs) = vnet_Name s"
  "vnet_Location (vn_initialized s xs) = vnet_Location s"
  "vn_initialized (s\<lparr>vnet_Name := n\<rparr>) xs = (vn_initialized s xs)\<lparr>vnet_Name := n\<rparr>"
  "vn_initialized (s\<lparr>vnet_Location := l\<rparr>) xs = (vn_initialized s xs)\<lparr>vnet_Location := l\<rparr>"
  by (simp_all add: vn_initialized_def vn_Addresses_def)

lemma vn_Addresses_simps [simp]:
  "vn_Addresses (s\<lparr>vnet_Name := n\<rparr>) = vn_Addresses s"
  "vn_Addresses (s\<lparr>vnet_Location := l\<rparr>) = vn_Addresses s"
  by (simp_all add: vn_Addresses_def)

text \<open>What \<open>Ensure\<close> sends: the remote's prefixes first, then the missing ones.\<close>

lemma vn_desired_result:
  obtains spec' where "vn_desired x s = (Returns (), spec')"
    and "vnet_Name spec' = Some (vns_Name (Spec x))" "vnet_Location spec' = Some (vns_Location (Spec x))"
    and "vn_Addresses spec' =
      Some (vn_add_all (vns_Addresses (Spec x)) (case vn_Addresses s of None \<Rightarrow> [] | Some xs \<Rightarrow> xs))"
  by (rule that [of "snd (vn_desired x s)"])
    (simp_all add: vn_desired_def vn_set_Name_def vn_set_Location_def go_simps vn_AddressSpaces_eq)

lemma vn_spec_NeedsUpdate_eq:
  "lib_ok L \<Longrightarrow> vns_Addresses (Spec x) \<noteq> [] \<Longrightarrow> vn_spec_NeedsUpdate L x s =
     (Returns (\<not> (vnet_Name s = Some (vns_Name (Spec x)) \<and> vnet_Location s = Some (vns_Location (Spec x)) \<and>
                   vn_Addresses s = Some (vns_Addresses (Spec x)))), s)"
  by (auto simp: vn_spec_NeedsUpdate_def go_simps lib_okD(7) split: option.splits)

text \<open>After writing, the spec needs no further update exactly when nothing but the wanted prefixes
  was there, in that order.\<close>

lemma vn_written_needs_update:
  assumes "lib_ok L" "vns_Addresses (Spec x) \<noteq> []"
  shows "fst (go_bind (vn_desired x) (\<lambda>_. vn_spec_NeedsUpdate L x) s) =
     Returns (vn_add_all (vns_Addresses (Spec x)) (case vn_Addresses s of None \<Rightarrow> [] | Some xs \<Rightarrow> xs)
                \<noteq> vns_Addresses (Spec x))"
proof -
  obtain spec' where "vn_desired x s = (Returns (), spec')"
    and "vnet_Name spec' = Some (vns_Name (Spec x))" "vnet_Location spec' = Some (vns_Location (Spec x))"
    and "vn_Addresses spec' =
      Some (vn_add_all (vns_Addresses (Spec x)) (case vn_Addresses s of None \<Rightarrow> [] | Some xs \<Rightarrow> xs))"
    by (rule vn_desired_result)
  with assms show ?thesis by (simp add: go_bind_apply vn_spec_NeedsUpdate_eq)
qed

lemma vn_written_settles_iff:
  assumes "lib_ok L" "vns_Addresses (Spec x) \<noteq> []" and "vn_Addresses s = Some xs" and "distinct (vns_Addresses (Spec x))"
  shows "fst (go_bind (vn_desired x) (\<lambda>_. vn_spec_NeedsUpdate L x) s) = Returns False \<longleftrightarrow>
    xs = take (length xs) (vns_Addresses (Spec x))"
  using assms vn_add_all_prefix_iff [OF assms(4)] by (simp add: vn_written_needs_update)

lemma vn_stale_prefix_stays:
  assumes "a \<in> set xs" "a \<notin> set cidrs"
  shows "vn_add_all cidrs xs \<noteq> cidrs"
  using assms set_vn_add_all [of cidrs xs] by (metis UnCI)

text \<open>\<open>RemoveAddressSpace\<close> does not remove: with no spare capacity, removing the last of two prefixes
  leaves both and repeats the first.\<close>

lemma vn_remove_keeps: "vn_remove [] ''b'' [''a'', ''b''] = [''a'', ''a'', ''b'']"
  by code_simp

text \<open>Removing a prefix that occurs twice drops everything at first, and then brings it all back.\<close>

lemma vn_remove_twice: "vn_remove [] ''a'' [''a'', ''b'', ''a''] = [''a'', ''b'', ''a'', ''b'', ''a'']"
  by code_simp

text \<open>
  After any number of rounds the array still has its length, a fresh slice is longer than the
  array, and the current slice is not empty.
\<close>

lemma vn_remove_fresh:
  assumes "vn_remove_loop cidr n i (arr, cur) = (arr', cur')" "i + n \<le> length arr"
    and "case cur of Inl len \<Rightarrow> 0 < len | Inr xs \<Rightarrow> length arr < min (length xs) (2 * i)"
  shows "length arr' = length arr \<and>
    (case cur' of Inl len \<Rightarrow> 0 < len | Inr xs \<Rightarrow> length arr < min (length xs) (2 * (i + n)))"
  using assms
proof (induction n arbitrary: i arr cur)
  case (Suc n)
  obtain arr1 cur1 where step: "(if arr ! i = cidr then vn_remove_step i (arr, cur) else (arr, cur)) = (arr1, cur1)"
    by fastforce
  have "length arr1 = length arr \<and>
      (case cur1 of Inl len \<Rightarrow> 0 < len | Inr xs \<Rightarrow> length arr < min (length xs) (2 * (i + 1)))"
    using step Suc.prems(2,3) by (cases cur) (auto simp: Let_def split: if_splits)
  then show ?case
    using Suc.IH [of "i + 1" arr1 cur1] Suc.prems(1,2) step by (auto split: sum.splits)
qed (auto split: sum.splits)

lemma vn_remove_not_empty: "xs \<noteq> [] \<Longrightarrow> vn_remove spare cidr xs \<noteq> []"
  using vn_remove_fresh [of cidr "length xs" 0 "xs @ spare" "Inl (length xs)"]
  by (cases "vn_remove_loop cidr (length xs) 0 (xs @ spare, Inl (length xs))")
    (auto simp: vn_remove_def split: sum.splits)

subsection \<open>Contract\<close>

lemma vn_convert_Inr [simp]: "vn_convert obj = Inr local \<longleftrightarrow> obj = ObjVirtualNetwork local"
  by (cases obj) (simp_all add: vn_convert_def)

lemma vn_convert_Inl [simp]:
  "vn_convert obj = Inl err \<longleftrightarrow> kind_of obj \<noteq> KVirtualNetwork \<and> err = kind_error obj"
  by (cases obj) (auto simp: vn_convert_def)

lemma vn_SetStatus_keeps [simp]:
  "(vn_SetStatus local remote)\<lparr>Status := st\<rparr> = local\<lparr>Status := st\<rparr>"
  "Spec (vn_SetStatus local remote) = Spec local" "ObjectMeta (vn_SetStatus local remote) = ObjectMeta local"
  by (simp_all add: vn_SetStatus_def Let_def)

lemmas vn_defs = vn_Ensure_def vn_apply_def vn_Delete_def Let_def

lemma vn_Ensure_Returns:
  assumes "vn_Ensure L S c obj w = (Returns (obj', done, err), w')"
  shows "clear_status obj' = clear_status obj" and "done \<Longrightarrow> err = None"
  using assms
  by (auto simp: vn_defs go_returns split: sum.splits prod.splits if_splits)

lemma vn_Delete_Returns:
  assumes "vn_Delete L S c obj w = (Returns (obj', found, err), w')"
  shows "clear_status obj' = clear_status obj"
  using assms
  by (auto simp: vn_defs go_returns split: sum.splits prod.splits if_splits)

interpretation vn: strict_async_client "vn_client L A S" "\<lambda>obj. kind_of obj = KVirtualNetwork"
  for L :: lib and A :: auth_lib and S :: "'w vnet_sdk"
proof unfold_locales
  show "\<exists>err. async_ForSubscription (vn_client L A S) obj = go_ret (Some err)"
    if "kind_of obj \<noteq> KVirtualNetwork" for obj
    using that
    by (auto simp: vn_client_def on_self_def vn_ForSubscription_def go_ret_def fun_eq_iff split: sum.splits)
qed (auto simp: vn_client_def go_returns dest: vn_Ensure_Returns vn_Delete_Returns)

text \<open>Azure not knowing the network (404) is the only way to a finished deletion.\<close>

definition vn_sdk_ok :: "'w vnet_sdk \<Rightarrow> (string option \<Rightarrow> string \<times> string \<Rightarrow> 'w \<Rightarrow> bool) \<Rightarrow> bool" where
  "vn_sdk_ok S ex \<longleftrightarrow>
     (\<forall>cl rg n. triple (\<lambda>_. True) (vn_sdk_Get S cl rg n '''')
        (\<lambda>(v, err) w. vnet_Response v = Some StatusNotFound \<longrightarrow> \<not> ex (sdk_Subscription cl) (rg, n) w) (\<lambda>_. True))"

definition is_vnet :: "string \<Rightarrow> string \<times> string \<Rightarrow> runtime_object \<Rightarrow> bool" where
  "is_vnet sub key obj \<longleftrightarrow> (case obj of
       ObjVirtualNetwork x \<Rightarrow> vns_SubscriptionID (Spec x) = sub \<and> (vns_ResourceGroup (Spec x), vns_Name (Spec x)) = key
     | _ \<Rightarrow> False)"

lemma is_vnetE:
  assumes "is_vnet sub key obj"
  obtains x where "obj = ObjVirtualNetwork x" "vns_SubscriptionID (Spec x) = sub"
    "key = (vns_ResourceGroup (Spec x), vns_Name (Spec x))"
  using assms by (cases obj) (auto simp: is_vnet_def)

lemma vn_Delete_gone:
  assumes "lib_ok L" "vn_sdk_ok S ex"
    and "vn_Delete L S c (ObjVirtualNetwork x) w = (Returns (obj', False, None), w')"
  shows "\<not> ex (sdk_Subscription (mc_internal c)) (vns_ResourceGroup (Spec x), vns_Name (Spec x)) w'"
proof -
  from assms(1,3) obtain w1 v err where
    get: "vn_sdk_Get S (mc_internal c) (vns_ResourceGroup (Spec x)) (vns_Name (Spec x)) '''' w1 = (Returns (v, err), w')"
    and nf: "vnet_Response v = Some StatusNotFound"
    by (auto simp: vn_defs vn_convert_def go_returns lib_okD(1) split: if_splits prod.splits)
  from assms(2) have "triple (\<lambda>_. True) (vn_sdk_Get S (mc_internal c) (vns_ResourceGroup (Spec x)) (vns_Name (Spec x)) '''')
     (\<lambda>(v, err) w. vnet_Response v = Some StatusNotFound \<longrightarrow>
        \<not> ex (sdk_Subscription (mc_internal c)) (vns_ResourceGroup (Spec x), vns_Name (Spec x)) w) (\<lambda>_. True)"
    unfolding vn_sdk_ok_def by blast
  from tripleD_Returns [OF this _ get] nf show ?thesis by simp
qed

lemma vn_azure_ok:
  assumes L: "lib_ok L" and S: "vn_sdk_ok S ex"
  shows "azure_ok (is_vnet sub key) (subscribed_to sub) (vn_client L A S) (\<lambda>_. True) (exists_for ex sub key)"
  by (rule mgmt_azure_ok)
    (auto elim!: is_vnetE simp: vn_client_def vn_ForSubscription_def vn_convert_def on_self_def go_returns
      dest: vn_Delete_gone [OF L S])

end
