(* ===== verification/Subnets.thy ===== *)
theory Subnets imports VirtualNetworks begin

section \<open>Subnets (pkg/clients/subnets)\<close>

text \<open>
  The spec builder and the client of \<open>pkg/clients/subnets\<close>.  \<open>Ensure\<close> answers \<open>(found, err)\<close>, that is
  \<open>(true, err)\<close>, when the first \<open>Get\<close> fails, so the client satisfies \<open>async_client\<close> but not
  \<open>strict_async_client\<close>.
\<close>

record subnet_properties =
  snp_AddressPrefix :: "string option"
  snp_ProvisioningState :: "string option"

record subnet =
  sn_Response :: http_response
  sn_ID :: "string option"
  sn_Name :: "string option"
  sn_Properties :: "subnet_properties option"

definition zero_subnet :: subnet where
  "zero_subnet = \<lparr>sn_Response = None, sn_ID = None, sn_Name = None, sn_Properties = None\<rparr>"

record 'w subnet_sdk =
  sn_sdk_Get :: "sdk_client \<Rightarrow> string \<Rightarrow> string \<Rightarrow> string \<Rightarrow> string \<Rightarrow> ('w, subnet \<times> go_error option) go"
  sn_sdk_CreateOrUpdate ::
    "sdk_client \<Rightarrow> string \<Rightarrow> string \<Rightarrow> string \<Rightarrow> subnet \<Rightarrow> ('w, go_error option) go"
  sn_sdk_Delete :: "sdk_client \<Rightarrow> string \<Rightarrow> string \<Rightarrow> string \<Rightarrow> ('w, http_response \<times> go_error option) go"

subsection \<open>The spec builder\<close>

definition sn_NewSpec :: subnet where
  "sn_NewSpec = zero_subnet"

definition sn_NewSpecWithRemote :: "subnet \<Rightarrow> subnet" where
  "sn_NewSpecWithRemote remote = remote"

definition sn_set_Name :: "string \<Rightarrow> (subnet, unit) go" where
  "sn_set_Name name = remedy (\<lambda>s. s\<lparr>sn_Name := Some name\<rparr>)"

text \<open>The package has its own copies of \<open>Initialize\<close> and \<open>Any\<close>.\<close>

fun sn_initialize :: "('s, bool) go list \<Rightarrow> ('s, unit) go list \<Rightarrow> ('s, unit) go" where
  "sn_initialize [] remediators = go_ret ()"
| "sn_initialize (f # detectors) remediators =
     go_bind f (\<lambda>b.
       if b then (case remediators of
                    [] \<Rightarrow> go_panic
                  | r # rest \<Rightarrow> go_bind r (\<lambda>_. sn_initialize detectors rest))
       else sn_initialize detectors (tl remediators))"

fun sn_any :: "('s, bool) go list \<Rightarrow> ('s, bool) go" where
  "sn_any [] = go_ret False"
| "sn_any (f # funcs) = go_bind f (\<lambda>b. if b then go_ret True else sn_any funcs)"

lemma sn_initialize_eq: "sn_initialize ds rs = Initialize ds rs"
  by (induction ds rs rule: sn_initialize.induct) (simp_all split: list.split cong: if_cong)

lemma sn_any_eq: "sn_any fs = Any fs"
  by (induction fs) (simp_all cong: if_cong)

definition sn_set_Address :: "string \<Rightarrow> (subnet, unit) go" where
  "sn_set_Address cidr =
     go_bind (sn_initialize
       [detect (\<lambda>s. sn_Properties s = None)]
       [remedy (\<lambda>s. s\<lparr>sn_Properties := Some \<lparr>snp_AddressPrefix = None, snp_ProvisioningState = None\<rparr>\<rparr>)])
     (\<lambda>_. remedy_at (\<lambda>s. map_option (\<lambda>p. s\<lparr>sn_Properties := Some (p\<lparr>snp_AddressPrefix := Some cidr\<rparr>)\<rparr>) (sn_Properties s)))"

definition sn_Address :: "subnet \<Rightarrow> string option" where
  "sn_Address s = (case sn_Properties s of None \<Rightarrow> None | Some p \<Rightarrow> snp_AddressPrefix p)"

definition sn_State :: "subnet \<Rightarrow> string option" where
  "sn_State s = (case sn_Properties s of None \<Rightarrow> None | Some p \<Rightarrow> snp_ProvisioningState p)"

definition sn_Build :: "subnet \<Rightarrow> subnet" where
  [simp]: "sn_Build s = s"

definition sn_NeedsUpdate :: "lib \<Rightarrow> Subnet \<Rightarrow> (subnet, bool) go" where
  "sn_NeedsUpdate L local = sn_any [
     detect (\<lambda>s. case sn_Name s of None \<Rightarrow> True | Some n \<Rightarrow> sns_Name (Spec local) \<noteq> n),
     detect (\<lambda>s. case sn_Address s of None \<Rightarrow> True
                 | Some a \<Rightarrow> \<not> cmp_Equal_string L (sns_Subnet (Spec local)) a)]"

subsection \<open>The client\<close>

definition sn_NewWithFactory :: "config \<Rightarrow> (string \<Rightarrow> sdk_client) \<Rightarrow> mgmt_client" where
  "sn_NewWithFactory configuration factory = new_mgmt_client configuration factory"

definition sn_convert :: "runtime_object \<Rightarrow> go_error + Subnet" where
  "sn_convert obj = (case obj of ObjSubnet local \<Rightarrow> Inr local | _ \<Rightarrow> Inl (kind_error obj))"

definition sn_ForSubscription :: "auth_lib \<Rightarrow> mgmt_client \<Rightarrow> runtime_object \<Rightarrow> mgmt_client \<times> go_error option" where
  "sn_ForSubscription A c obj =
     (case sn_convert obj of
        Inl err \<Rightarrow> (c, Some err)
      | Inr local \<Rightarrow> authorize_for A c (sns_SubscriptionID (Spec local)))"

definition sn_SetStatus :: "Subnet \<Rightarrow> subnet \<Rightarrow> Subnet" where
  "sn_SetStatus local remote =
     (let st = (Status local)\<lparr>snst_ID := sn_ID remote\<rparr>;
          st = (case sn_Properties remote of
                  None \<Rightarrow> st
                | Some p \<Rightarrow> st\<lparr>snst_ProvisioningState := snp_ProvisioningState p\<rparr>)
      in local\<lparr>Status := st\<rparr>)"

definition sn_Done :: "Subnet \<Rightarrow> bool" where
  "sn_Done local \<longleftrightarrow> \<not> (snst_ProvisioningState (Status local) = None \<or>
     snst_ProvisioningState (Status local) \<noteq> Some ''Succeeded'')"

definition sn_apply ::
  "'w subnet_sdk \<Rightarrow> mgmt_client \<Rightarrow> Subnet \<Rightarrow> subnet \<Rightarrow> ('w, runtime_object \<times> bool \<times> go_error option) go" where
  "sn_apply S c local spec =
     with_spec (go_bind (sn_set_Name (sns_Name (Spec local))) (\<lambda>_. sn_set_Address (sns_Subnet (Spec local)))) spec (\<lambda>_ spec.
       go_bind (sn_sdk_CreateOrUpdate S (mc_internal c) (sns_ResourceGroup (Spec local)) (sns_Network (Spec local))
                  (sns_Name (Spec local)) (sn_Build spec))
         (\<lambda>err. if err \<noteq> None then go_ret (ObjSubnet local, False, err) else go_ret (ObjSubnet local, False, None)))"

definition sn_Ensure ::
  "lib \<Rightarrow> 'w subnet_sdk \<Rightarrow> mgmt_client \<Rightarrow> runtime_object \<Rightarrow> ('w, runtime_object \<times> bool \<times> go_error option) go" where
  "sn_Ensure L S c obj =
     (case sn_convert obj of
        Inl err \<Rightarrow> go_ret (obj, False, Some err)
      | Inr local \<Rightarrow>
     go_bind (sn_sdk_Get S (mc_internal c) (sns_ResourceGroup (Spec local)) (sns_Network (Spec local))
                (sns_Name (Spec local)) '''') (\<lambda>(remote, err).
       let local = sn_SetStatus local remote;
           found = (\<not> IsHTTPStatus L (sn_Response remote) StatusNotFound)
       in
       if err \<noteq> None \<and> found then go_ret (ObjSubnet local, found, err)
       else if found then
         (let spec = sn_NewSpecWithRemote remote in
          if sn_Done local then
            with_spec (sn_NeedsUpdate L local) spec (\<lambda>needs spec.
              if \<not> needs then go_ret (ObjSubnet local, True, None)
              else sn_apply S c local spec)
          else go_ret (ObjSubnet local, False, None))
       else sn_apply S c local sn_NewSpec))"

definition sn_Get :: "'w subnet_sdk \<Rightarrow> mgmt_client \<Rightarrow> runtime_object \<Rightarrow> ('w, subnet \<times> go_error option) go" where
  "sn_Get S c obj =
     (case sn_convert obj of
        Inl err \<Rightarrow> go_ret (zero_subnet, Some err)
      | Inr local \<Rightarrow> sn_sdk_Get S (mc_internal c) (sns_ResourceGroup (Spec local)) (sns_Network (Spec local))
                      (sns_Name (Spec local)) '''')"

definition sn_Delete ::
  "lib \<Rightarrow> 'w subnet_sdk \<Rightarrow> mgmt_client \<Rightarrow> runtime_object \<Rightarrow> ('w, runtime_object \<times> bool \<times> go_error option) go" where
  "sn_Delete L S c obj =
     (case sn_convert obj of
        Inl err \<Rightarrow> go_ret (obj, False, Some err)
      | Inr local \<Rightarrow>
     go_bind (sn_sdk_Delete S (mc_internal c) (sns_ResourceGroup (Spec local)) (sns_Network (Spec local))
                (sns_Name (Spec local))) (\<lambda>(resp, err).
       if err \<noteq> None \<and> resp \<noteq> None \<and> resp \<noteq> Some StatusNotFound then go_ret (obj, False, err)
       else
     go_bind (sn_sdk_Get S (mc_internal c) (sns_ResourceGroup (Spec local)) (sns_Network (Spec local))
                (sns_Name (Spec local)) '''') (\<lambda>(remote, err).
       let found = (\<not> IsHTTPStatus L (sn_Response remote) StatusNotFound);
           local = sn_SetStatus local remote
       in
       if err \<noteq> None \<and> IsHTTPStatus L (sn_Response remote) StatusNotFound
       then go_ret (ObjSubnet local, False, None)
       else go_ret (ObjSubnet local, found, err))))"

definition sn_client :: "lib \<Rightarrow> auth_lib \<Rightarrow> 'w subnet_sdk \<Rightarrow> (mgmt_client \<times> 'w) AsyncClient" where
  "sn_client L A S = \<lparr>
     async_ForSubscription = (\<lambda>obj. on_self (\<lambda>c. sn_ForSubscription A c obj)),
     async_Ensure = (\<lambda>obj. on_world (\<lambda>c. sn_Ensure L S c obj)),
     async_Delete = (\<lambda>obj. on_world (\<lambda>c. sn_Delete L S c obj))\<rparr>"

subsection \<open>Lemmas\<close>

lemma sn_convert_Inr [simp]: "sn_convert obj = Inr local \<longleftrightarrow> obj = ObjSubnet local"
  by (cases obj) (simp_all add: sn_convert_def)

lemma sn_convert_Inl [simp]: "sn_convert obj = Inl err \<longleftrightarrow> kind_of obj \<noteq> KSubnet \<and> err = kind_error obj"
  by (cases obj) (auto simp: sn_convert_def)

lemma sn_SetStatus_keeps [simp]:
  "(sn_SetStatus local remote)\<lparr>Status := st\<rparr> = local\<lparr>Status := st\<rparr>"
  "Spec (sn_SetStatus local remote) = Spec local" "ObjectMeta (sn_SetStatus local remote) = ObjectMeta local"
  by (simp_all add: sn_SetStatus_def Let_def)

lemma sn_set_Address_eq:
  "\<exists>spec'. sn_set_Address a s = (Returns (), spec') \<and> sn_Address spec' = Some a \<and> sn_Name spec' = sn_Name s \<and>
     sn_State spec' = sn_State s"
  by (cases "sn_Properties s")
    (simp_all add: sn_set_Address_def sn_initialize_eq go_simps sn_Address_def sn_State_def)

lemma sn_NeedsUpdate_eq:
  "lib_ok L \<Longrightarrow> sn_NeedsUpdate L x s =
     (Returns (\<not> (sn_Name s = Some (sns_Name (Spec x)) \<and> sn_Address s = Some (sns_Subnet (Spec x)))), s)"
  by (auto simp: sn_NeedsUpdate_def sn_any_eq go_simps lib_okD(6) split: option.splits)

lemmas sn_defs = sn_Ensure_def sn_apply_def sn_Delete_def Let_def

lemma sn_Ensure_Returns:
  assumes "sn_Ensure L S c obj w = (Returns (obj', done, err), w')"
  shows "clear_status obj' = clear_status obj"
  using assms
  by (auto simp: sn_defs go_returns split: sum.splits prod.splits if_splits)

lemma sn_Delete_Returns:
  assumes "sn_Delete L S c obj w = (Returns (obj', found, err), w')"
  shows "clear_status obj' = clear_status obj"
  using assms
  by (auto simp: sn_defs go_returns split: sum.splits prod.splits if_splits)

interpretation sn: async_client "sn_client L A S" "\<lambda>obj. kind_of obj = KSubnet"
  for L :: lib and A :: auth_lib and S :: "'w subnet_sdk"
proof unfold_locales
  show "\<exists>err. async_ForSubscription (sn_client L A S) obj = go_ret (Some err)"
    if "kind_of obj \<noteq> KSubnet" for obj
    using that
    by (auto simp: sn_client_def on_self_def sn_ForSubscription_def go_ret_def fun_eq_iff split: sum.splits)
qed (auto simp: sn_client_def go_returns dest: sn_Ensure_Returns sn_Delete_Returns)

text \<open>A \<open>Get\<close> that fails for any reason but 404 makes \<open>Ensure\<close> answer \<open>(true, err)\<close>.\<close>

lemma sn_Ensure_done_with_error:
  assumes "lib_ok L"
    and "sn_sdk_Get S (mc_internal c) (sns_ResourceGroup (Spec x)) (sns_Network (Spec x)) (sns_Name (Spec x)) '''' w =
           (Returns (remote, Some err), w')"
    and "sn_Response remote \<noteq> Some StatusNotFound"
  shows "sn_Ensure L S c (ObjSubnet x) w = (Returns (ObjSubnet (sn_SetStatus x remote), True, Some err), w')"
  using assms by (simp add: sn_defs sn_convert_def go_simps lib_okD(1))

end
