(* ===== verification/Identities.thy ===== *)
theory Identities imports Mgmt_Clients begin

section \<open>Managed identities (pkg/clients/identities)\<close>

text \<open>
  A synchronous client: the spec builder, \<open>Ensure\<close>, \<open>Get\<close> and \<open>Delete\<close>.  An existing identity is
  never updated.
\<close>

text \<open>\<open>id_PrincipalID\<close>: the principal behind the properties pointer, already as text.\<close>

record identity_resource =
  idr_Response :: http_response
  idr_ID :: "string option"
  idr_Name :: "string option"
  idr_Location :: "string option"
  idr_Properties :: "string option option"

definition zero_identity :: identity_resource where
  "zero_identity = \<lparr>idr_Response = None, idr_ID = None, idr_Name = None, idr_Location = None,
     idr_Properties = None\<rparr>"

record 'w identity_sdk =
  id_sdk_Get :: "sdk_client \<Rightarrow> string \<Rightarrow> string \<Rightarrow> ('w, identity_resource \<times> go_error option) go"
  id_sdk_CreateOrUpdate ::
    "sdk_client \<Rightarrow> string \<Rightarrow> string \<Rightarrow> identity_resource \<Rightarrow> ('w, identity_resource \<times> go_error option) go"
  id_sdk_Delete :: "sdk_client \<Rightarrow> string \<Rightarrow> string \<Rightarrow> ('w, http_response \<times> go_error option) go"

definition id_NewSpec :: identity_resource where
  "id_NewSpec = zero_identity"

definition id_NewSpecWithRemote :: "identity_resource \<Rightarrow> identity_resource" where
  "id_NewSpecWithRemote remote = remote"

definition id_set_Location :: "string option \<Rightarrow> (identity_resource, unit) go" where
  "id_set_Location location = remedy (\<lambda>s. s\<lparr>idr_Location := location\<rparr>)"

definition id_Name :: "identity_resource \<Rightarrow> string option" where
  [simp]: "id_Name s = idr_Name s"

definition id_Location :: "identity_resource \<Rightarrow> string option" where
  [simp]: "id_Location s = idr_Location s"

definition id_ID :: "identity_resource \<Rightarrow> string option" where
  [simp]: "id_ID s = idr_ID s"

definition id_Build :: "identity_resource \<Rightarrow> identity_resource" where
  [simp]: "id_Build s = s"

definition id_Set :: "(identity_resource, unit) go list \<Rightarrow> (identity_resource, unit) go" where
  [simp]: "id_Set opts = set_opts opts"

definition id_NeedsUpdate :: "identity_resource \<Rightarrow> VirtualNetwork \<Rightarrow> bool" where
  "id_NeedsUpdate s local = False"

text \<open>The receiver may be nil, and so may the embedded pointers.\<close>

definition id_PrincipalID :: "identity_resource option \<Rightarrow> string option" where
  "id_PrincipalID s =
     (case s of None \<Rightarrow> None
      | Some s \<Rightarrow> (case idr_Properties s of None \<Rightarrow> None | Some p \<Rightarrow> p))"

definition id_NewWithFactory :: "config \<Rightarrow> (string \<Rightarrow> sdk_client) \<Rightarrow> mgmt_client" where
  "id_NewWithFactory configuration factory = new_mgmt_client configuration factory"

definition id_convert :: "runtime_object \<Rightarrow> go_error + Identity" where
  "id_convert obj = (case obj of ObjIdentity local \<Rightarrow> Inr local | _ \<Rightarrow> Inl (kind_error obj))"

definition id_ForSubscription :: "auth_lib \<Rightarrow> mgmt_client \<Rightarrow> runtime_object \<Rightarrow> mgmt_client \<times> go_error option" where
  "id_ForSubscription A c obj =
     (case id_convert obj of
        Inl err \<Rightarrow> (c, Some err)
      | Inr local \<Rightarrow> authorize_for A c (ids_SubscriptionID (Spec local)))"

definition id_SetStatus :: "Identity \<Rightarrow> identity_resource \<Rightarrow> Identity" where
  "id_SetStatus local remote = local\<lparr>Status := (Status local)\<lparr>idst_ID := idr_ID remote\<rparr>\<rparr>"

definition id_Ensure ::
  "lib \<Rightarrow> 'w identity_sdk \<Rightarrow> mgmt_client \<Rightarrow> runtime_object \<Rightarrow> ('w, runtime_object \<times> go_error option) go" where
  "id_Ensure L S c obj =
     (case id_convert obj of
        Inl err \<Rightarrow> go_ret (obj, Some err)
      | Inr local \<Rightarrow>
     go_bind (id_sdk_Get S (mc_internal c) (ids_ResourceGroup (Spec local)) (ids_Name (Spec local))) (\<lambda>(remote, err).
       let found = (\<not> IsHTTPStatus L (idr_Response remote) StatusNotFound);
           local = id_SetStatus local remote
       in
       if err \<noteq> None \<and> found then go_ret (ObjIdentity local, err)
       else if found then go_ret (ObjIdentity local, None)
       else with_spec (id_Set [id_set_Location (Some (ids_Location (Spec local)))]) id_NewSpec (\<lambda>_ spec.
       go_bind (id_sdk_CreateOrUpdate S (mc_internal c) (ids_ResourceGroup (Spec local)) (ids_Name (Spec local)) (id_Build spec))
         (\<lambda>(_, err). if err \<noteq> None then go_ret (ObjIdentity local, err) else go_ret (ObjIdentity local, None)))))"

definition id_Get :: "'w identity_sdk \<Rightarrow> mgmt_client \<Rightarrow> runtime_object \<Rightarrow> ('w, identity_resource \<times> go_error option) go" where
  "id_Get S c obj =
     (case id_convert obj of
        Inl err \<Rightarrow> go_ret (zero_identity, Some err)
      | Inr local \<Rightarrow> id_sdk_Get S (mc_internal c) (ids_ResourceGroup (Spec local)) (ids_Name (Spec local)))"

definition id_Delete ::
  "lib \<Rightarrow> 'w identity_sdk \<Rightarrow> mgmt_client \<Rightarrow> runtime_object \<Rightarrow> ('w, runtime_object \<times> go_error option) go" where
  "id_Delete L S c obj =
     (case id_convert obj of
        Inl err \<Rightarrow> go_ret (obj, Some err)
      | Inr local \<Rightarrow>
     go_bind (id_sdk_Delete S (mc_internal c) (ids_ResourceGroup (Spec local)) (ids_Name (Spec local))) (\<lambda>(response, err).
       if err \<noteq> None \<and> \<not> IsHTTPStatus L response StatusNotFound then go_ret (obj, err)
       else go_ret (obj, None)))"

definition id_client :: "lib \<Rightarrow> auth_lib \<Rightarrow> 'w identity_sdk \<Rightarrow> (mgmt_client \<times> 'w) SyncClient" where
  "id_client L A S = \<lparr>
     sync_ForSubscription = (\<lambda>obj. on_self (\<lambda>c. id_ForSubscription A c obj)),
     sync_Ensure = (\<lambda>obj. on_world (\<lambda>c. id_Ensure L S c obj)),
     sync_Delete = (\<lambda>obj. on_world (\<lambda>c. id_Delete L S c obj))\<rparr>"

subsection \<open>Lemmas\<close>

lemma id_convert_Inr [simp]: "id_convert obj = Inr local \<longleftrightarrow> obj = ObjIdentity local"
  by (cases obj) (simp_all add: id_convert_def)

lemma id_convert_Inl [simp]: "id_convert obj = Inl err \<longleftrightarrow> kind_of obj \<noteq> KIdentity \<and> err = kind_error obj"
  by (cases obj) (auto simp: id_convert_def)

lemma id_SetStatus_keeps [simp]:
  "(id_SetStatus local remote)\<lparr>Status := st\<rparr> = local\<lparr>Status := st\<rparr>"
  "Spec (id_SetStatus local remote) = Spec local" "ObjectMeta (id_SetStatus local remote) = ObjectMeta local"
  by (simp_all add: id_SetStatus_def)

lemmas id_defs = id_Ensure_def id_Delete_def Let_def

interpretation id: sync_client "id_client L A S"
  for L :: lib and A :: auth_lib and S :: "'w identity_sdk"
  by unfold_locales
    (auto simp: id_client_def id_defs go_returns split: sum.splits prod.splits if_splits)

text \<open>An existing identity is left alone, whatever its location; a missing one is created.\<close>

lemma id_Ensure_eq:
  assumes "lib_ok L"
    and "id_sdk_Get S (mc_internal c) (ids_ResourceGroup (Spec x)) (ids_Name (Spec x)) w = (Returns (remote, err), w')"
  shows "id_Ensure L S c (ObjIdentity x) w =
     (let obj' = ObjIdentity (id_SetStatus x remote) in
      if idr_Response remote \<noteq> Some StatusNotFound then (Returns (obj', err), w')
      else go_bind (id_sdk_CreateOrUpdate S (mc_internal c) (ids_ResourceGroup (Spec x)) (ids_Name (Spec x))
             (zero_identity\<lparr>idr_Location := Some (ids_Location (Spec x))\<rparr>)) (\<lambda>(_, err). go_ret (obj', err)) w')"
  using assms
  by (auto simp: id_Ensure_def id_convert_def go_simps lib_okD(1) id_set_Location_def id_NewSpec_def Let_def)

subsection \<open>Deletion\<close>

text \<open>The contract of the SDK: a deletion that succeeds or answers 404 leaves no identity.\<close>

definition id_sdk_ok :: "'w identity_sdk \<Rightarrow> (string option \<Rightarrow> string \<times> string \<Rightarrow> 'w \<Rightarrow> bool) \<Rightarrow> bool" where
  "id_sdk_ok S ex \<longleftrightarrow>
     (\<forall>cl rg n. triple (\<lambda>_. True) (id_sdk_Delete S cl rg n)
        (\<lambda>(r, err) w. err = None \<or> r = Some StatusNotFound \<longrightarrow> \<not> ex (sdk_Subscription cl) (rg, n) w) (\<lambda>_. True))"

definition is_identity :: "string \<Rightarrow> string \<times> string \<Rightarrow> runtime_object \<Rightarrow> bool" where
  "is_identity sub key obj \<longleftrightarrow> (case obj of
       ObjIdentity x \<Rightarrow> ids_SubscriptionID (Spec x) = sub \<and> (ids_ResourceGroup (Spec x), ids_Name (Spec x)) = key
     | _ \<Rightarrow> False)"

lemma is_identityE:
  assumes "is_identity sub key obj"
  obtains x where "obj = ObjIdentity x" "ids_SubscriptionID (Spec x) = sub"
    "key = (ids_ResourceGroup (Spec x), ids_Name (Spec x))"
  using assms by (cases obj) (auto simp: is_identity_def)

lemma id_Delete_gone:
  assumes "lib_ok L" "id_sdk_ok S ex"
    and "id_Delete L S c (ObjIdentity x) w = (Returns (obj', None), w')"
  shows "\<not> ex (sdk_Subscription (mc_internal c)) (ids_ResourceGroup (Spec x), ids_Name (Spec x)) w'"
proof -
  from assms(1,3) obtain r err where
    del: "id_sdk_Delete S (mc_internal c) (ids_ResourceGroup (Spec x)) (ids_Name (Spec x)) w = (Returns (r, err), w')"
    and ok: "err = None \<or> r = Some StatusNotFound"
    by (auto simp: id_defs id_convert_def go_returns lib_okD(1) split: if_splits prod.splits)
  from assms(2) have "triple (\<lambda>_. True) (id_sdk_Delete S (mc_internal c) (ids_ResourceGroup (Spec x)) (ids_Name (Spec x)))
     (\<lambda>(r, err) w. err = None \<or> r = Some StatusNotFound \<longrightarrow>
        \<not> ex (sdk_Subscription (mc_internal c)) (ids_ResourceGroup (Spec x), ids_Name (Spec x)) w) (\<lambda>_. True)"
    unfolding id_sdk_ok_def by blast
  from tripleD_Returns [OF this _ del] ok show ?thesis by auto
qed

lemma id_azure_ok:
  assumes L: "lib_ok L" and S: "id_sdk_ok S ex"
  shows "sync_azure_ok (is_identity sub key) (subscribed_to sub) (id_client L A S) (\<lambda>_. True) (exists_for ex sub key)"
  by (rule mgmt_sync_azure_ok)
    (auto elim!: is_identityE simp: id_client_def id_ForSubscription_def id_convert_def on_self_def go_returns
      dest: id_Delete_gone [OF L S])

end
