(* ===== verification/Keyvaults.thy ===== *)
theory Keyvaults imports Mgmt_Clients begin

section \<open>Key vaults (pkg/clients/keyvaults)\<close>

text \<open>
  A synchronous client that creates or updates on every \<open>Ensure\<close>, and the spec builder of the
  package, which the client does not use.  \<open>uuid.FromString\<close> is a parameter.
\<close>

record vault =
  vlt_ID :: "string option"
  vlt_Name :: "string option"
  vlt_Location :: "string option"

definition zero_vault :: vault where
  "zero_vault = \<lparr>vlt_ID = None, vlt_Name = None, vlt_Location = None\<rparr>"

text \<open>\<open>keyvault.VaultCreateOrUpdateParameters\<close>, flattened: tenant, access policies, SKU family and
  name, location.\<close>

record vault_params =
  vp_TenantID :: string
  vp_AccessPolicies :: "unit list"
  vp_SkuFamily :: string
  vp_SkuName :: string
  vp_Location :: string

record 'w vault_sdk =
  kv_sdk_Get :: "sdk_client \<Rightarrow> string \<Rightarrow> string \<Rightarrow> ('w, vault \<times> go_error option) go"
  kv_sdk_CreateOrUpdate :: "sdk_client \<Rightarrow> string \<Rightarrow> string \<Rightarrow> vault_params \<Rightarrow> ('w, go_error option) go"
  kv_sdk_Delete :: "sdk_client \<Rightarrow> string \<Rightarrow> string \<Rightarrow> ('w, http_response \<times> go_error option) go"

subsection \<open>The spec builder\<close>

definition kv_NewSpec :: vault where
  "kv_NewSpec = zero_vault"

definition kv_NewSpecWithRemote :: "vault \<Rightarrow> vault" where
  "kv_NewSpecWithRemote remote = remote"

definition kv_set_Name :: "string \<Rightarrow> (vault, unit) go" where
  "kv_set_Name name = remedy (\<lambda>s. s\<lparr>vlt_Name := Some name\<rparr>)"

definition kv_set_Location :: "string \<Rightarrow> (vault, unit) go" where
  "kv_set_Location location = remedy (\<lambda>s. s\<lparr>vlt_Location := Some location\<rparr>)"

definition kv_Name :: "vault \<Rightarrow> string option" where
  [simp]: "kv_Name s = vlt_Name s"

definition kv_Location :: "vault \<Rightarrow> string option" where
  [simp]: "kv_Location s = vlt_Location s"

definition kv_ID :: "vault \<Rightarrow> string option" where
  [simp]: "kv_ID s = vlt_ID s"

definition kv_Build :: "vault \<Rightarrow> vault" where
  [simp]: "kv_Build s = s"

definition kv_Set :: "(vault, unit) go list \<Rightarrow> (vault, unit) go" where
  [simp]: "kv_Set opts = set_opts opts"

definition kv_NeedsUpdate :: "lib \<Rightarrow> ResourceGroup \<Rightarrow> (vault, bool) go" where
  "kv_NeedsUpdate L local = Any [
     detect (\<lambda>s. \<not> cmp_Equal_ptr L (kv_Name s) (Some (rgs_Name (Spec local)))),
     detect (\<lambda>s. \<not> cmp_Equal_ptr L (kv_Location s) (Some (rgs_Location (Spec local))))]"

subsection \<open>The client\<close>

definition kv_NewWithFactory :: "config \<Rightarrow> (string \<Rightarrow> sdk_client) \<Rightarrow> mgmt_client" where
  "kv_NewWithFactory configuration factory = new_mgmt_client configuration factory"

definition kv_convert :: "runtime_object \<Rightarrow> go_error + Keyvault" where
  "kv_convert obj = (case obj of ObjKeyvault local \<Rightarrow> Inr local | _ \<Rightarrow> Inl (kind_error obj))"

definition kv_ForSubscription :: "auth_lib \<Rightarrow> mgmt_client \<Rightarrow> runtime_object \<Rightarrow> mgmt_client \<times> go_error option" where
  "kv_ForSubscription A c obj =
     (case kv_convert obj of
        Inl err \<Rightarrow> (c, Some err)
      | Inr local \<Rightarrow> authorize_for A c (kvs_SubscriptionID (Spec local)))"

definition kv_SetStatus :: "'w vault_sdk \<Rightarrow> mgmt_client \<Rightarrow> Keyvault \<Rightarrow> ('w, Keyvault \<times> go_error option) go" where
  "kv_SetStatus S c local =
     go_bind (kv_sdk_Get S (mc_internal c) (kvs_ResourceGroup (Spec local)) (kvs_Name (Spec local))) (\<lambda>(remote, err).
     go_ret (local\<lparr>Status := (Status local)\<lparr>kvst_ID := vlt_ID remote\<rparr>\<rparr>, err))"

definition kv_Ensure ::
  "(string \<Rightarrow> go_error + string) \<Rightarrow> 'w vault_sdk \<Rightarrow> mgmt_client \<Rightarrow> runtime_object \<Rightarrow>
   ('w, runtime_object \<times> go_error option) go" where
  "kv_Ensure uuid_FromString S c obj =
     (case kv_convert obj of
        Inl err \<Rightarrow> go_ret (obj, Some err)
      | Inr vault \<Rightarrow>
     (case uuid_FromString (kvs_TenantID (Spec vault)) of
        Inl err \<Rightarrow> go_ret (obj, Some err)
      | Inr tenantId \<Rightarrow>
     go_bind (kv_sdk_CreateOrUpdate S (mc_internal c) (kvs_ResourceGroup (Spec vault)) (kvs_Name (Spec vault))
        \<lparr>vp_TenantID = tenantId, vp_AccessPolicies = [], vp_SkuFamily = ''A'', vp_SkuName = ''standard'',
         vp_Location = kvs_Location (Spec vault)\<rparr>) (\<lambda>err.
       if err \<noteq> None then go_ret (obj, err)
       else
     go_bind (kv_SetStatus S c vault) (\<lambda>(vault, err).
       if err \<noteq> None then go_ret (ObjKeyvault vault, err) else go_ret (ObjKeyvault vault, None)))))"

definition kv_Get :: "'w vault_sdk \<Rightarrow> mgmt_client \<Rightarrow> runtime_object \<Rightarrow> ('w, vault \<times> go_error option) go" where
  "kv_Get S c obj =
     (case kv_convert obj of
        Inl err \<Rightarrow> go_ret (zero_vault, Some err)
      | Inr local \<Rightarrow> kv_sdk_Get S (mc_internal c) (kvs_ResourceGroup (Spec local)) (kvs_Name (Spec local)))"

definition kv_Delete ::
  "lib \<Rightarrow> 'w vault_sdk \<Rightarrow> mgmt_client \<Rightarrow> runtime_object \<Rightarrow> ('w, runtime_object \<times> go_error option) go" where
  "kv_Delete L S c obj =
     (case kv_convert obj of
        Inl err \<Rightarrow> go_ret (obj, Some err)
      | Inr local \<Rightarrow>
     go_bind (kv_sdk_Delete S (mc_internal c) (kvs_ResourceGroup (Spec local)) (kvs_Name (Spec local))) (\<lambda>(response, err).
       if err \<noteq> None \<and> \<not> IsHTTPStatus L response StatusNotFound then go_ret (obj, err)
       else go_ret (obj, None)))"

definition kv_client ::
  "lib \<Rightarrow> auth_lib \<Rightarrow> (string \<Rightarrow> go_error + string) \<Rightarrow> 'w vault_sdk \<Rightarrow> (mgmt_client \<times> 'w) SyncClient" where
  "kv_client L A uuid_FromString S = \<lparr>
     sync_ForSubscription = (\<lambda>obj. on_self (\<lambda>c. kv_ForSubscription A c obj)),
     sync_Ensure = (\<lambda>obj. on_world (\<lambda>c. kv_Ensure uuid_FromString S c obj)),
     sync_Delete = (\<lambda>obj. on_world (\<lambda>c. kv_Delete L S c obj))\<rparr>"

subsection \<open>Lemmas\<close>

lemma kv_convert_Inr [simp]: "kv_convert obj = Inr local \<longleftrightarrow> obj = ObjKeyvault local"
  by (cases obj) (simp_all add: kv_convert_def)

lemma kv_convert_Inl [simp]: "kv_convert obj = Inl err \<longleftrightarrow> kind_of obj \<noteq> KKeyvault \<and> err = kind_error obj"
  by (cases obj) (auto simp: kv_convert_def)

lemmas kv_defs = kv_Ensure_def kv_Delete_def kv_SetStatus_def Let_def

interpretation kv: sync_client "kv_client L A U S"
  for L :: lib and A :: auth_lib and U :: "string \<Rightarrow> go_error + string" and S :: "'w vault_sdk"
  by unfold_locales
    (auto simp: kv_client_def kv_defs go_returns split: sum.splits prod.splits if_splits)

text \<open>A tenant that is not a UUID is refused before Azure is called.\<close>

lemma kv_Ensure_bad_tenant:
  "U (kvs_TenantID (Spec x)) = Inl err \<Longrightarrow> kv_Ensure U S c (ObjKeyvault x) = go_ret (ObjKeyvault x, Some err)"
  by (simp add: kv_Ensure_def kv_convert_def)

end
