(* ===== verification/PublicIPs.thy ===== *)
theory PublicIPs imports Mgmt_Clients begin

section \<open>Public addresses (pkg/clients/publicips)\<close>

text \<open>
  An asynchronous client that writes the address on every \<open>Ensure\<close> and reads its state
  afterwards, and the spec builder of the package, which the client does not use.
\<close>

record publicip_properties =
  pipp_PublicIPAllocationMethod :: string
  pipp_ProvisioningState :: "string option"

record publicip_resource =
  pipr_Response :: http_response
  pipr_ID :: "string option"
  pipr_Name :: "string option"
  pipr_Location :: "string option"
  pipr_Sku :: "string option"
  pipr_Properties :: "publicip_properties option"

definition zero_publicip :: publicip_resource where
  "zero_publicip = \<lparr>pipr_Response = None, pipr_ID = None, pipr_Name = None, pipr_Location = None,
     pipr_Sku = None, pipr_Properties = None\<rparr>"

text \<open>The first component of the answers of \<open>CreateOrUpdate\<close> and \<open>Delete\<close> is \<open>future.Response()\<close>.\<close>

record 'w publicip_sdk =
  pip_sdk_Get :: "sdk_client \<Rightarrow> string \<Rightarrow> string \<Rightarrow> string \<Rightarrow> ('w, publicip_resource \<times> go_error option) go"
  pip_sdk_CreateOrUpdate ::
    "sdk_client \<Rightarrow> string \<Rightarrow> string \<Rightarrow> publicip_resource \<Rightarrow> ('w, http_response \<times> go_error option) go"
  pip_sdk_Delete :: "sdk_client \<Rightarrow> string \<Rightarrow> string \<Rightarrow> ('w, http_response \<times> go_error option) go"

subsection \<open>The spec builder\<close>

definition pip_NewSpec :: publicip_resource where
  "pip_NewSpec = zero_publicip"

definition pip_set_Name :: "string option \<Rightarrow> (publicip_resource, unit) go" where
  "pip_set_Name name = remedy (\<lambda>s. s\<lparr>pipr_Name := name\<rparr>)"

definition pip_set_Location :: "string option \<Rightarrow> (publicip_resource, unit) go" where
  "pip_set_Location location = remedy (\<lambda>s. s\<lparr>pipr_Location := location\<rparr>)"

definition pip_State :: "publicip_resource \<Rightarrow> string option" where
  "pip_State s = (case pipr_Properties s of None \<Rightarrow> None | Some p \<Rightarrow> pipp_ProvisioningState p)"

definition pip_AllocationMethod :: "publicip_resource \<Rightarrow> string option" where
  "pip_AllocationMethod s = map_option pipp_PublicIPAllocationMethod (pipr_Properties s)"

text \<open>\<open>pipr_Sku\<close> is the name behind the SKU pointer, so \<open>SKU()\<close> is \<open>pipr_Sku\<close>.\<close>

definition pip_Name :: "publicip_resource \<Rightarrow> string option" where
  [simp]: "pip_Name s = pipr_Name s"

definition pip_Location :: "publicip_resource \<Rightarrow> string option" where
  [simp]: "pip_Location s = pipr_Location s"

definition pip_ID :: "publicip_resource \<Rightarrow> string option" where
  [simp]: "pip_ID s = pipr_ID s"

definition pip_SKU :: "publicip_resource \<Rightarrow> string option" where
  [simp]: "pip_SKU s = pipr_Sku s"

definition pip_Build :: "publicip_resource \<Rightarrow> publicip_resource" where
  [simp]: "pip_Build s = s"

definition pip_Set :: "(publicip_resource, unit) go list \<Rightarrow> (publicip_resource, unit) go" where
  [simp]: "pip_Set opts = set_opts opts"

definition pip_NewSpecWithRemote :: "publicip_resource \<Rightarrow> publicip_resource" where
  [simp]: "pip_NewSpecWithRemote remote = remote"

definition pip_NeedsUpdate :: "lib \<Rightarrow> PublicIP \<Rightarrow> (publicip_resource, bool) go" where
  "pip_NeedsUpdate L local =
     Any [detect (\<lambda>s. \<not> cmp_Equal_ptr L (pip_Name s) (Some (pis_Name (Spec local)))),
          detect (\<lambda>s. \<not> cmp_Equal_ptr L (pip_Location s) (Some (pis_Location (Spec local)))),
          detect (\<lambda>s. \<not> cmp_Equal_ptr L (pip_SKU s) (pis_SKU (Spec local)))]"

subsection \<open>The client\<close>

definition pip_expand :: string where
  "pip_expand = ''''"

definition pip_NewWithFactory :: "config \<Rightarrow> (string \<Rightarrow> sdk_client) \<Rightarrow> mgmt_client" where
  "pip_NewWithFactory configuration factory = new_mgmt_client configuration factory"

text \<open>\<open>New\<close> passes the function of the SDK that makes a client for a subscription.\<close>

definition pip_New :: "(string \<Rightarrow> sdk_client) \<Rightarrow> config \<Rightarrow> mgmt_client" where
  [simp]: "pip_New NewPublicIPAddressesClient configuration = pip_NewWithFactory configuration NewPublicIPAddressesClient"

definition pip_convert :: "runtime_object \<Rightarrow> go_error + PublicIP" where
  "pip_convert obj = (case obj of ObjPublicIP local \<Rightarrow> Inr local | _ \<Rightarrow> Inl (kind_error obj))"

definition pip_ForSubscription :: "auth_lib \<Rightarrow> mgmt_client \<Rightarrow> runtime_object \<Rightarrow> mgmt_client \<times> go_error option" where
  "pip_ForSubscription A c obj =
     (case pip_convert obj of
        Inl err \<Rightarrow> (c, Some err)
      | Inr local \<Rightarrow> authorize_for A c (pis_SubscriptionID (Spec local)))"

definition pip_SetStatus ::
  "lib \<Rightarrow> 'w publicip_sdk \<Rightarrow> mgmt_client \<Rightarrow> PublicIP \<Rightarrow> ('w, PublicIP \<times> bool \<times> go_error option) go" where
  "pip_SetStatus L S c local =
     go_bind (pip_sdk_Get S (mc_internal c) (pis_ResourceGroup (Spec local)) (pis_Name (Spec local)) pip_expand) (\<lambda>(remote, err).
       let found = (\<not> IsHTTPStatus L (pipr_Response remote) StatusNotFound) in
       if err \<noteq> None \<and> found then
         (if IsHTTPStatus L (pipr_Response remote) StatusConflict then go_ret (local, found, None)
          else go_ret (local, found, err))
       else
         let st = (Status local)\<lparr>pist_ID := pipr_ID remote\<rparr>;
             st = (case pipr_Properties remote of
                     None \<Rightarrow> st | Some p \<Rightarrow> st\<lparr>pist_ProvisioningState := pipp_ProvisioningState p\<rparr>)
         in go_ret (local\<lparr>Status := st\<rparr>, found, None))"

definition pip_Done :: "PublicIP \<Rightarrow> bool" where
  "pip_Done local \<longleftrightarrow>
     (if pist_ProvisioningState (Status local) = None \<or> pist_ProvisioningState (Status local) \<noteq> Some ''Succeeded''
      then False else True)"

definition pip_wanted :: "PublicIP \<Rightarrow> publicip_resource" where
  "pip_wanted local =
     (let spec = zero_publicip\<lparr>pipr_Location := Some (pis_Location (Spec local)),
            pipr_Sku := Some ''Standard'',
            pipr_Properties := Some \<lparr>pipp_PublicIPAllocationMethod = ''Static'', pipp_ProvisioningState = None\<rparr>\<rparr>
      in case pis_SKU (Spec local) of None \<Rightarrow> spec | Some sku \<Rightarrow> spec\<lparr>pipr_Sku := Some sku\<rparr>)"

definition pip_Ensure ::
  "lib \<Rightarrow> 'w publicip_sdk \<Rightarrow> mgmt_client \<Rightarrow> runtime_object \<Rightarrow> ('w, runtime_object \<times> bool \<times> go_error option) go" where
  "pip_Ensure L S c obj =
     (case pip_convert obj of
        Inl err \<Rightarrow> go_ret (obj, False, Some err)
      | Inr local \<Rightarrow>
     go_bind (pip_sdk_CreateOrUpdate S (mc_internal c) (pis_ResourceGroup (Spec local)) (pis_Name (Spec local)) (pip_wanted local))
     (\<lambda>(resp, err).
       if err \<noteq> None then
         (if resp \<noteq> None \<and> resp \<noteq> Some StatusConflict then go_ret (obj, False, err)
          else go_ret (obj, False, None))
       else
     go_bind (pip_SetStatus L S c local) (\<lambda>(local, found, err).
       if err \<noteq> None then go_ret (ObjPublicIP local, False, err)
       else go_ret (ObjPublicIP local, pip_Done local, None))))"

definition pip_Get ::
  "'w publicip_sdk \<Rightarrow> mgmt_client \<Rightarrow> runtime_object \<Rightarrow> ('w, publicip_resource \<times> go_error option) go" where
  "pip_Get S c obj =
     (case pip_convert obj of
        Inl err \<Rightarrow> go_ret (zero_publicip, Some err)
      | Inr local \<Rightarrow> pip_sdk_Get S (mc_internal c) (pis_ResourceGroup (Spec local)) (pis_Name (Spec local)) pip_expand)"

definition pip_Delete ::
  "lib \<Rightarrow> 'w publicip_sdk \<Rightarrow> mgmt_client \<Rightarrow> runtime_object \<Rightarrow> ('w, runtime_object \<times> bool \<times> go_error option) go" where
  "pip_Delete L S c obj =
     (case pip_convert obj of
        Inl err \<Rightarrow> go_ret (obj, False, Some err)
      | Inr local \<Rightarrow>
     go_bind (pip_sdk_Delete S (mc_internal c) (pis_ResourceGroup (Spec local)) (pis_Name (Spec local))) (\<lambda>(resp, err).
       if err \<noteq> None \<and> resp \<noteq> None \<and> resp \<noteq> Some StatusNotFound then go_ret (obj, False, err)
       else
     go_bind (pip_SetStatus L S c local) (\<lambda>(local, found, err).
     go_ret (ObjPublicIP local, found, err))))"

definition pip_client :: "lib \<Rightarrow> auth_lib \<Rightarrow> 'w publicip_sdk \<Rightarrow> (mgmt_client \<times> 'w) AsyncClient" where
  "pip_client L A S = \<lparr>
     async_ForSubscription = (\<lambda>obj. on_self (\<lambda>c. pip_ForSubscription A c obj)),
     async_Ensure = (\<lambda>obj. on_world (\<lambda>c. pip_Ensure L S c obj)),
     async_Delete = (\<lambda>obj. on_world (\<lambda>c. pip_Delete L S c obj))\<rparr>"

subsection \<open>Lemmas\<close>

lemma pip_convert_Inr [simp]: "pip_convert obj = Inr local \<longleftrightarrow> obj = ObjPublicIP local"
  by (cases obj) (simp_all add: pip_convert_def)

lemma pip_convert_Inl [simp]: "pip_convert obj = Inl err \<longleftrightarrow> kind_of obj \<noteq> KPublicIP \<and> err = kind_error obj"
  by (cases obj) (auto simp: pip_convert_def)

lemma pip_SetStatus_Returns:
  assumes "pip_SetStatus L S c local w = (Returns (local', found, err), w')"
  shows "local'\<lparr>Status := st\<rparr> = local\<lparr>Status := st\<rparr>" and "Spec local' = Spec local"
    and "lib_ok L \<Longrightarrow> \<exists>remote err'. pip_sdk_Get S (mc_internal c) (pis_ResourceGroup (Spec local)) (pis_Name (Spec local)) '''' w =
      (Returns (remote, err'), w') \<and> (found \<longleftrightarrow> pipr_Response remote \<noteq> Some StatusNotFound)"
  using assms
  by (auto simp: pip_SetStatus_def pip_expand_def Let_def go_returns lib_okD(1) split: prod.splits if_splits option.splits)

lemmas pip_defs = pip_Ensure_def pip_Delete_def Let_def

lemma pip_Ensure_Returns:
  assumes "pip_Ensure L S c obj w = (Returns (obj', done, err), w')"
  shows "clear_status obj' = clear_status obj" and "done \<Longrightarrow> err = None"
  using assms
  by (auto simp: pip_defs go_returns dest: pip_SetStatus_Returns(1) split: sum.splits prod.splits if_splits)

lemma pip_Delete_Returns:
  assumes "pip_Delete L S c obj w = (Returns (obj', found, err), w')"
  shows "clear_status obj' = clear_status obj"
  using assms
  by (auto simp: pip_defs go_returns dest: pip_SetStatus_Returns(1) split: sum.splits prod.splits if_splits)

interpretation pip: strict_async_client "pip_client L A S" "\<lambda>obj. kind_of obj = KPublicIP"
  for L :: lib and A :: auth_lib and S :: "'w publicip_sdk"
proof unfold_locales
  show "\<exists>err. async_ForSubscription (pip_client L A S) obj = go_ret (Some err)"
    if "kind_of obj \<noteq> KPublicIP" for obj
    using that
    by (auto simp: pip_client_def on_self_def pip_ForSubscription_def go_ret_def fun_eq_iff split: sum.splits)
qed (auto simp: pip_client_def go_returns dest: pip_Ensure_Returns pip_Delete_Returns)

text \<open>A failed write without a response, such as a broken connection, is no error of \<open>Ensure\<close>.\<close>

lemma pip_Ensure_lost_error:
  assumes "pip_sdk_CreateOrUpdate S (mc_internal c) (pis_ResourceGroup (Spec x)) (pis_Name (Spec x)) (pip_wanted x) w =
    (Returns (None, Some err), w')"
  shows "pip_Ensure L S c (ObjPublicIP x) w = (Returns (ObjPublicIP x, False, None), w')"
  using assms by (simp add: pip_Ensure_def pip_convert_def go_simps)

text \<open>\<open>Ensure\<close> reports done exactly when Azure took the write and reports the state \<open>Succeeded\<close>.\<close>

lemma pip_Ensure_done:
  assumes "lib_ok L"
    and "pip_sdk_CreateOrUpdate S (mc_internal c) (pis_ResourceGroup (Spec x)) (pis_Name (Spec x)) (pip_wanted x) w =
      (Returns (resp, None), w1)"
    and "pip_sdk_Get S (mc_internal c) (pis_ResourceGroup (Spec x)) (pis_Name (Spec x)) '''' w1 = (Returns (remote, None), w2)"
    and "pipr_Properties remote = Some p"
  shows "\<exists>x'. pip_Ensure L S c (ObjPublicIP x) w =
    (Returns (ObjPublicIP x', pipp_ProvisioningState p = Some ''Succeeded'', None), w2) \<and>
    pist_ProvisioningState (Status x') = pipp_ProvisioningState p \<and> pist_ID (Status x') = pipr_ID remote"
  using assms
  by (auto simp: pip_Ensure_def pip_convert_def pip_SetStatus_def pip_expand_def Let_def go_simps pip_Done_def)

definition pip_sdk_ok :: "'w publicip_sdk \<Rightarrow> (string option \<Rightarrow> string \<times> string \<Rightarrow> 'w \<Rightarrow> bool) \<Rightarrow> bool" where
  "pip_sdk_ok S ex \<longleftrightarrow>
     (\<forall>cl rg name expand. triple (\<lambda>_. True) (pip_sdk_Get S cl rg name expand)
        (\<lambda>(v, err) w. pipr_Response v = Some StatusNotFound \<longrightarrow> \<not> ex (sdk_Subscription cl) (rg, name) w) (\<lambda>_. True))"

definition is_publicip :: "string \<Rightarrow> string \<times> string \<Rightarrow> runtime_object \<Rightarrow> bool" where
  "is_publicip sub key obj =
     (case obj of ObjPublicIP x \<Rightarrow>
        pis_SubscriptionID (Spec x) = sub \<and> (pis_ResourceGroup (Spec x), pis_Name (Spec x)) = key | _ \<Rightarrow> False)"

lemma pip_Delete_gone:
  assumes "lib_ok L" "pip_sdk_ok S ex"
    and "pip_Delete L S c (ObjPublicIP x) w = (Returns (obj', False, None), w')"
  shows "\<not> ex (sdk_Subscription (mc_internal c)) (pis_ResourceGroup (Spec x), pis_Name (Spec x)) w'"
proof -
  from assms(3) obtain w1 local' where "pip_SetStatus L S c x w1 = (Returns (local', False, None), w')"
    by (auto simp: pip_defs pip_convert_def go_returns split: if_splits)
  from pip_SetStatus_Returns(3) [OF this assms(1)] obtain v err where
    get: "pip_sdk_Get S (mc_internal c) (pis_ResourceGroup (Spec x)) (pis_Name (Spec x)) '''' w1 = (Returns (v, err), w')"
    and nf: "pipr_Response v = Some StatusNotFound" by auto
  from assms(2) have "triple (\<lambda>_. True) (pip_sdk_Get S (mc_internal c) (pis_ResourceGroup (Spec x)) (pis_Name (Spec x)) '''')
     (\<lambda>(v, err) w. pipr_Response v = Some StatusNotFound \<longrightarrow>
        \<not> ex (sdk_Subscription (mc_internal c)) (pis_ResourceGroup (Spec x), pis_Name (Spec x)) w) (\<lambda>_. True)"
    unfolding pip_sdk_ok_def by blast
  from tripleD_Returns [OF this _ get] nf show ?thesis by simp
qed

lemma pip_azure_ok:
  assumes L: "lib_ok L" and S: "pip_sdk_ok S ex"
  shows "azure_ok (is_publicip sub key) (subscribed_to sub) (pip_client L A S) (\<lambda>_. True) (exists_for ex sub key)"
  by (rule mgmt_azure_ok)
    (auto simp: is_publicip_def pip_client_def pip_ForSubscription_def pip_convert_def on_self_def go_returns
      split: runtime_object.splits dest: pip_Delete_gone [OF L S])

end
