(* ===== verification/Loop_Variables.thy ===== *)
theory Loop_Variables imports Main begin

section \<open>Loops whose bodies keep addresses of the loop variable\<close>

text \<open>
  The module declares \<open>go 1.12\<close>, where a \<open>range\<close> loop has one variable for all its rounds.  Some
  loops of the clients store the address of this variable, or of one of its fields, in what they
  build (\<open>pkg/clients/securitygroups\<close>, \<open>pkg/clients/loadbalancers\<close>).  The model of these loops has
  an explicit store of the string variables whose addresses are taken.
\<close>

type_synonym address = nat

type_synonym string_store = "address \<Rightarrow> string"

text \<open>
  \<open>assign v st\<close>: the store after \<open>v\<close> was assigned to the loop variable; \<open>build v\<close>: the element the
  body appends, whose pointers are addresses.
\<close>

fun range_loop ::
  "('v \<Rightarrow> string_store \<Rightarrow> string_store) \<Rightarrow> ('v \<Rightarrow> 'b) \<Rightarrow> 'v list \<Rightarrow> string_store \<times> 'b list \<Rightarrow> string_store \<times> 'b list" where
  "range_loop assign build [] state = state"
| "range_loop assign build (v # vs) state =
     range_loop assign build vs (assign v (fst state), snd state @ [build v])"

text \<open>The elements as they are sent after the loop: the addresses are followed in the final store.\<close>

definition range_send ::
  "('v \<Rightarrow> string_store \<Rightarrow> string_store) \<Rightarrow> ('v \<Rightarrow> 'b) \<Rightarrow> (string_store \<Rightarrow> 'b \<Rightarrow> 's) \<Rightarrow> 'v list \<Rightarrow> 's list" where
  "range_send assign build send vs =
     (case range_loop assign build vs (\<lambda>_. '''', []) of (st, built) \<Rightarrow> map (send st) built)"

lemma range_loop_eq:
  "range_loop assign build vs (st, acc) = (fold assign vs st, acc @ map build vs)"
  by (induction vs arbitrary: st acc) auto

lemma fold_overwrite:
  assumes "\<And>u v st. f v (f u st) = f v st"
  shows "fold f vs st = (if vs = [] then st else f (last vs) st)"
  by (induction vs arbitrary: st) (auto simp: assms)

text \<open>If an assignment overwrites the one before, every element is sent with the last value.\<close>

lemma range_send_last:
  assumes "\<And>u v st. assign v (assign u st) = assign v st"
  shows "range_send assign build send vs =
    map (\<lambda>v. send (assign (last vs) (\<lambda>_. '''')) (build v)) vs"
  by (auto simp: range_send_def range_loop_eq fold_overwrite [OF assms])

end
