(* ===== verification/SecurityGroups.thy ===== *)
theory SecurityGroups imports Mgmt_Clients Loop_Variables begin

section \<open>Security groups (pkg/clients/securitygroups)\<close>

text \<open>
  An asynchronous client that writes the group on every \<open>Ensure\<close>.  The loop that builds the
  rules stores the address of a field of its loop variable.
\<close>

subsection \<open>Rules\<close>

text \<open>\<open>network.SecurityRule\<close> as built: \<open>Name\<close> is a pointer.\<close>

record built_rule =
  br_Name :: address
  br_Protocol :: string
  br_SourceAddressPrefix :: "string option"
  br_SourcePortRange :: "string option"
  br_DestinationAddressPrefix :: "string option"
  br_DestinationPortRange :: "string option"
  br_Access :: string
  br_Direction :: string
  br_Priority :: "int option"

text \<open>The same when it is sent: the pointer is followed.\<close>

record sent_rule =
  snr_Name :: string
  snr_Protocol :: string
  snr_SourceAddressPrefix :: "string option"
  snr_SourcePortRange :: "string option"
  snr_DestinationAddressPrefix :: "string option"
  snr_DestinationPortRange :: "string option"
  snr_Access :: string
  snr_Direction :: string
  snr_Priority :: "int option"

record security_group =
  sgr_Response :: http_response
  sgr_ID :: "string option"
  sgr_Location :: "string option"
  sgr_Properties :: "(string option \<times> sent_rule list) option"

abbreviation sgr_State :: "string option \<times> sent_rule list \<Rightarrow> string option" where
  "sgr_State \<equiv> fst"

abbreviation sgr_Rules :: "string option \<times> sent_rule list \<Rightarrow> sent_rule list" where
  "sgr_Rules \<equiv> snd"

definition zero_security_group :: security_group where
  "zero_security_group = \<lparr>sgr_Response = None, sgr_ID = None, sgr_Location = None, sgr_Properties = None\<rparr>"

record 'w sg_sdk =
  sg_sdk_Get :: "sdk_client \<Rightarrow> string \<Rightarrow> string \<Rightarrow> string \<Rightarrow> ('w, security_group \<times> go_error option) go"
  sg_sdk_CreateOrUpdate ::
    "sdk_client \<Rightarrow> string \<Rightarrow> string \<Rightarrow> security_group \<Rightarrow> ('w, http_response \<times> go_error option) go"
  sg_sdk_Delete :: "sdk_client \<Rightarrow> string \<Rightarrow> string \<Rightarrow> ('w, http_response \<times> go_error option) go"

text \<open>The field \<open>Name\<close> of the loop variable lives at \<open>a\<close>.\<close>

definition sg_assign :: "address \<Rightarrow> SecurityRule \<Rightarrow> string_store \<Rightarrow> string_store" where
  "sg_assign a rule st = st(a := sr_Name rule)"

definition sg_build :: "address \<Rightarrow> SecurityRule \<Rightarrow> built_rule" where
  "sg_build a rule = \<lparr>
     br_Name = a,
     br_Protocol = sr_Protocol rule,
     br_SourceAddressPrefix = sr_SourceAddressPrefix rule,
     br_SourcePortRange = sr_SourcePortRange rule,
     br_DestinationAddressPrefix = sr_DestinationAddressPrefix rule,
     br_DestinationPortRange = sr_DestinationPortRange rule,
     br_Access = sr_Access rule,
     br_Direction = sr_Direction rule,
     br_Priority = sr_Priority rule\<rparr>"

definition sg_send_rule :: "string_store \<Rightarrow> built_rule \<Rightarrow> sent_rule" where
  "sg_send_rule st r = \<lparr>
     snr_Name = st (br_Name r),
     snr_Protocol = br_Protocol r,
     snr_SourceAddressPrefix = br_SourceAddressPrefix r,
     snr_SourcePortRange = br_SourcePortRange r,
     snr_DestinationAddressPrefix = br_DestinationAddressPrefix r,
     snr_DestinationPortRange = br_DestinationPortRange r,
     snr_Access = br_Access r,
     snr_Direction = br_Direction r,
     snr_Priority = br_Priority r\<rparr>"

definition sg_rules :: "SecurityRule list \<Rightarrow> sent_rule list" where
  "sg_rules rules = range_send (sg_assign 0) (sg_build 0) sg_send_rule rules"

subsection \<open>The client\<close>

definition sg_NewWithFactory :: "config \<Rightarrow> (string \<Rightarrow> sdk_client) \<Rightarrow> mgmt_client" where
  "sg_NewWithFactory configuration factory = new_mgmt_client configuration factory"

text \<open>\<open>New\<close> passes the function of the SDK that makes a client for a subscription.\<close>

definition sg_New :: "(string \<Rightarrow> sdk_client) \<Rightarrow> config \<Rightarrow> mgmt_client" where
  [simp]: "sg_New NewSecurityGroupsClient configuration = sg_NewWithFactory configuration NewSecurityGroupsClient"

definition sg_convert :: "runtime_object \<Rightarrow> go_error + SecurityGroup" where
  "sg_convert obj = (case obj of ObjSecurityGroup local \<Rightarrow> Inr local | _ \<Rightarrow> Inl (kind_error obj))"

definition sg_ForSubscription :: "auth_lib \<Rightarrow> mgmt_client \<Rightarrow> runtime_object \<Rightarrow> mgmt_client \<times> go_error option" where
  "sg_ForSubscription A c obj =
     (case sg_convert obj of
        Inl err \<Rightarrow> (c, Some err)
      | Inr local \<Rightarrow> authorize_for A c (sgs_SubscriptionID (Spec local)))"

definition sg_SetStatus ::
  "lib \<Rightarrow> 'w sg_sdk \<Rightarrow> mgmt_client \<Rightarrow> SecurityGroup \<Rightarrow> ('w, SecurityGroup \<times> bool \<times> go_error option) go" where
  "sg_SetStatus L S c local =
     go_bind (sg_sdk_Get S (mc_internal c) (sgs_ResourceGroup (Spec local)) (sgs_Name (Spec local)) '''') (\<lambda>(remote, err).
       let found = (\<not> IsHTTPStatus L (sgr_Response remote) StatusNotFound) in
       if err \<noteq> None \<and> found then
         (if IsHTTPStatus L (sgr_Response remote) StatusConflict then go_ret (local, found, None)
          else go_ret (local, found, err))
       else
         let st = (Status local)\<lparr>sgst_ID := sgr_ID remote\<rparr>;
             st = (case sgr_Properties remote of
                     None \<Rightarrow> st | Some p \<Rightarrow> st\<lparr>sgst_ProvisioningState := sgr_State p\<rparr>)
         in go_ret (local\<lparr>Status := st\<rparr>, found, None))"

definition sg_Done :: "SecurityGroup \<Rightarrow> bool" where
  "sg_Done local \<longleftrightarrow>
     (if sgst_ProvisioningState (Status local) = None \<or> sgst_ProvisioningState (Status local) \<noteq> Some ''Succeeded''
      then False else True)"

definition sg_wanted :: "SecurityGroup \<Rightarrow> security_group" where
  "sg_wanted local =
     zero_security_group\<lparr>sgr_Location := Some (sgs_Location (Spec local)),
       sgr_Properties := Some (None, sg_rules (sgs_Rules (Spec local)))\<rparr>"

definition sg_Ensure ::
  "lib \<Rightarrow> 'w sg_sdk \<Rightarrow> mgmt_client \<Rightarrow> runtime_object \<Rightarrow> ('w, runtime_object \<times> bool \<times> go_error option) go" where
  "sg_Ensure L S c obj =
     (case sg_convert obj of
        Inl err \<Rightarrow> go_ret (obj, False, Some err)
      | Inr local \<Rightarrow>
     go_bind (sg_sdk_CreateOrUpdate S (mc_internal c) (sgs_ResourceGroup (Spec local)) (sgs_Name (Spec local)) (sg_wanted local))
     (\<lambda>(resp, err).
       if err \<noteq> None then
         (if resp \<noteq> None \<and> resp \<noteq> Some StatusConflict then go_ret (obj, False, err)
          else go_ret (obj, False, None))
       else
     go_bind (sg_SetStatus L S c local) (\<lambda>(local, found, err).
       if err \<noteq> None then go_ret (ObjSecurityGroup local, False, err)
       else go_ret (ObjSecurityGroup local, sg_Done local, None))))"

definition sg_Get ::
  "'w sg_sdk \<Rightarrow> mgmt_client \<Rightarrow> runtime_object \<Rightarrow> ('w, security_group \<times> go_error option) go" where
  "sg_Get S c obj =
     (case sg_convert obj of
        Inl err \<Rightarrow> go_ret (zero_security_group, Some err)
      | Inr local \<Rightarrow> sg_sdk_Get S (mc_internal c) (sgs_ResourceGroup (Spec local)) (sgs_Name (Spec local)) '''')"

definition sg_Delete ::
  "lib \<Rightarrow> 'w sg_sdk \<Rightarrow> mgmt_client \<Rightarrow> runtime_object \<Rightarrow> ('w, runtime_object \<times> bool \<times> go_error option) go" where
  "sg_Delete L S c obj =
     (case sg_convert obj of
        Inl err \<Rightarrow> go_ret (obj, False, Some err)
      | Inr local \<Rightarrow>
     go_bind (sg_sdk_Delete S (mc_internal c) (sgs_ResourceGroup (Spec local)) (sgs_Name (Spec local))) (\<lambda>(resp, err).
       if err \<noteq> None \<and> resp \<noteq> None \<and> resp \<noteq> Some StatusNotFound then go_ret (obj, False, err)
       else
     go_bind (sg_SetStatus L S c local) (\<lambda>(local, found, err).
     go_ret (ObjSecurityGroup local, found, err))))"

definition sg_client :: "lib \<Rightarrow> auth_lib \<Rightarrow> 'w sg_sdk \<Rightarrow> (mgmt_client \<times> 'w) AsyncClient" where
  "sg_client L A S = \<lparr>
     async_ForSubscription = (\<lambda>obj. on_self (\<lambda>c. sg_ForSubscription A c obj)),
     async_Ensure = (\<lambda>obj. on_world (\<lambda>c. sg_Ensure L S c obj)),
     async_Delete = (\<lambda>obj. on_world (\<lambda>c. sg_Delete L S c obj))\<rparr>"

subsection \<open>Lemmas\<close>

lemma sg_convert_Inr [simp]: "sg_convert obj = Inr local \<longleftrightarrow> obj = ObjSecurityGroup local"
  by (cases obj) (simp_all add: sg_convert_def)

lemma sg_convert_Inl [simp]: "sg_convert obj = Inl err \<longleftrightarrow> kind_of obj \<noteq> KSecurityGroup \<and> err = kind_error obj"
  by (cases obj) (auto simp: sg_convert_def)

lemma sg_SetStatus_Returns:
  assumes "sg_SetStatus L S c local w = (Returns (local', found, err), w')"
  shows "local'\<lparr>Status := st\<rparr> = local\<lparr>Status := st\<rparr>" and "Spec local' = Spec local"
    and "lib_ok L \<Longrightarrow> \<exists>remote err'. sg_sdk_Get S (mc_internal c) (sgs_ResourceGroup (Spec local)) (sgs_Name (Spec local)) '''' w =
      (Returns (remote, err'), w') \<and> (found \<longleftrightarrow> sgr_Response remote \<noteq> Some StatusNotFound)"
  using assms
  by (auto simp: sg_SetStatus_def Let_def go_returns lib_okD(1) split: prod.splits if_splits option.splits)

lemmas sg_defs = sg_Ensure_def sg_Delete_def Let_def

lemma sg_Ensure_Returns:
  assumes "sg_Ensure L S c obj w = (Returns (obj', done, err), w')"
  shows "clear_status obj' = clear_status obj" and "done \<Longrightarrow> err = None"
  using assms
  by (auto simp: sg_defs go_returns dest: sg_SetStatus_Returns(1) split: sum.splits prod.splits if_splits)

lemma sg_Delete_Returns:
  assumes "sg_Delete L S c obj w = (Returns (obj', found, err), w')"
  shows "clear_status obj' = clear_status obj"
  using assms
  by (auto simp: sg_defs go_returns dest: sg_SetStatus_Returns(1) split: sum.splits prod.splits if_splits)

interpretation sg: strict_async_client "sg_client L A S" "\<lambda>obj. kind_of obj = KSecurityGroup"
  for L :: lib and A :: auth_lib and S :: "'w sg_sdk"
proof unfold_locales
  show "\<exists>err. async_ForSubscription (sg_client L A S) obj = go_ret (Some err)"
    if "kind_of obj \<noteq> KSecurityGroup" for obj
    using that
    by (auto simp: sg_client_def on_self_def sg_ForSubscription_def go_ret_def fun_eq_iff split: sum.splits)
qed (auto simp: sg_client_def go_returns dest: sg_Ensure_Returns sg_Delete_Returns)

text \<open>What the loop builds: every rule points to the loop variable, whose last content is the last
  rule's name.\<close>

lemma sg_rules_eq:
  "sg_rules rules = map (\<lambda>r. sg_send_rule (sg_assign 0 (last rules) (\<lambda>_. '''')) (sg_build 0 r)) rules"
  unfolding sg_rules_def by (rule range_send_last) (simp add: sg_assign_def fun_eq_iff)

lemma sg_rules_all_named_last:
  "snr_Name r = sr_Name (last rules)" if "r \<in> set (sg_rules rules)"
  using that by (auto simp: sg_rules_eq sg_send_rule_def sg_build_def sg_assign_def)

lemma sg_rules_rest:
  "map (\<lambda>r. (snr_Protocol r, snr_SourceAddressPrefix r, snr_SourcePortRange r, snr_DestinationAddressPrefix r,
       snr_DestinationPortRange r, snr_Access r, snr_Direction r, snr_Priority r)) (sg_rules rules) =
   map (\<lambda>r. (sr_Protocol r, sr_SourceAddressPrefix r, sr_SourcePortRange r, sr_DestinationAddressPrefix r,
       sr_DestinationPortRange r, sr_Access r, sr_Direction r, sr_Priority r)) rules"
  by (simp add: sg_rules_eq sg_send_rule_def sg_build_def sg_assign_def)

text \<open>So the names arrive as wanted only if all rules have the same name.\<close>

lemma sg_names_wanted_iff:
  "map snr_Name (sg_rules rules) = map sr_Name rules \<longleftrightarrow> (\<forall>r\<in>set rules. sr_Name r = sr_Name (last rules))"
  by (auto simp: sg_rules_eq sg_send_rule_def sg_build_def sg_assign_def)

definition sg_sdk_ok :: "'w sg_sdk \<Rightarrow> (string option \<Rightarrow> string \<times> string \<Rightarrow> 'w \<Rightarrow> bool) \<Rightarrow> bool" where
  "sg_sdk_ok S ex \<longleftrightarrow>
     (\<forall>cl rg name expand. triple (\<lambda>_. True) (sg_sdk_Get S cl rg name expand)
        (\<lambda>(v, err) w. sgr_Response v = Some StatusNotFound \<longrightarrow> \<not> ex (sdk_Subscription cl) (rg, name) w) (\<lambda>_. True))"

definition is_security_group :: "string \<Rightarrow> string \<times> string \<Rightarrow> runtime_object \<Rightarrow> bool" where
  "is_security_group sub key obj =
     (case obj of ObjSecurityGroup x \<Rightarrow>
        sgs_SubscriptionID (Spec x) = sub \<and> (sgs_ResourceGroup (Spec x), sgs_Name (Spec x)) = key | _ \<Rightarrow> False)"

lemma sg_Delete_gone:
  assumes "lib_ok L" "sg_sdk_ok S ex"
    and "sg_Delete L S c (ObjSecurityGroup x) w = (Returns (obj', False, None), w')"
  shows "\<not> ex (sdk_Subscription (mc_internal c)) (sgs_ResourceGroup (Spec x), sgs_Name (Spec x)) w'"
proof -
  from assms(3) obtain w1 local' where "sg_SetStatus L S c x w1 = (Returns (local', False, None), w')"
    by (auto simp: sg_defs sg_convert_def go_returns split: if_splits)
  from sg_SetStatus_Returns(3) [OF this assms(1)] obtain v err where
    get: "sg_sdk_Get S (mc_internal c) (sgs_ResourceGroup (Spec x)) (sgs_Name (Spec x)) '''' w1 = (Returns (v, err), w')"
    and nf: "sgr_Response v = Some StatusNotFound" by auto
  from assms(2) have "triple (\<lambda>_. True) (sg_sdk_Get S (mc_internal c) (sgs_ResourceGroup (Spec x)) (sgs_Name (Spec x)) '''')
     (\<lambda>(v, err) w. sgr_Response v = Some StatusNotFound \<longrightarrow>
        \<not> ex (sdk_Subscription (mc_internal c)) (sgs_ResourceGroup (Spec x), sgs_Name (Spec x)) w) (\<lambda>_. True)"
    unfolding sg_sdk_ok_def by blast
  from tripleD_Returns [OF this _ get] nf show ?thesis by simp
qed

lemma sg_azure_ok:
  assumes L: "lib_ok L" and S: "sg_sdk_ok S ex"
  shows "azure_ok (is_security_group sub key) (subscribed_to sub) (sg_client L A S) (\<lambda>_. True) (exists_for ex sub key)"
  by (rule mgmt_azure_ok)
    (auto simp: is_security_group_def sg_client_def sg_ForSubscription_def sg_convert_def on_self_def go_returns
      split: runtime_object.splits dest: sg_Delete_gone [OF L S])

end
