(* ===== verification/Decimals.thy ===== *)
theory Decimals imports Main begin

section \<open>Numbers in decimal\<close>

text \<open>
  The verb \<open>%d\<close> of \<open>fmt.Sprintf\<close> and \<open>strconv.Itoa\<close>, used in the names of probes
  (\<open>pkg/clients/loadbalancers\<close>) and of address configurations (\<open>pkg/clients/nics\<close>).
\<close>

text \<open>The decimal digits, with a sign if negative.\<close>

fun nat_digits :: "nat \<Rightarrow> string" where
  "nat_digits n = (if n < 10 then [char_of (48 + n)] else nat_digits (n div 10) @ [char_of (48 + n mod 10)])"

declare nat_digits.simps [simp del]

definition decimal :: "int \<Rightarrow> string" where
  "decimal n = (if n < 0 then ''-'' @ nat_digits (nat (- n)) else nat_digits (nat n))"

text \<open>Reading the digits back: different numbers have different texts.\<close>

definition digits_value :: "string \<Rightarrow> nat" where
  "digits_value = foldl (\<lambda>a c. a * 10 + (of_char c - 48)) 0"

lemma nat_digits_char: "k < 10 \<Longrightarrow> (of_char (char_of (48 + k :: nat)) :: nat) = 48 + k"
  by simp

lemma digits_value_nat_digits: "digits_value (nat_digits n) = n"
proof (induction n rule: nat_digits.induct)
  case (1 n)
  then show ?case
    by (subst nat_digits.simps) (simp add: digits_value_def)
qed

lemma nat_digits_no_sign: "CHR ''-'' \<notin> set (nat_digits n)"
proof (induction n rule: nat_digits.induct)
  case (1 n)
  have sign: "char_of (48 + k :: nat) \<noteq> CHR ''-''" if "k < 10" for k
  proof
    assume "char_of (48 + k :: nat) = CHR ''-''"
    then have "(of_char (char_of (48 + k :: nat)) :: nat) = of_char (CHR ''-'')" by simp
    with that show False by simp
  qed
  with 1 show ?case
    by (subst nat_digits.simps) (auto simp: sign [symmetric])
qed

lemma decimal_inj: "decimal m = decimal n \<Longrightarrow> m = n"
proof -
  have head: "nat_digits k \<noteq> ''-'' @ r" for k r
    using nat_digits_no_sign [of k] by (metis append_Cons list.set_intros(1))
  assume "decimal m = decimal n"
  then show "m = n"
    using digits_value_nat_digits head
    by (auto simp: decimal_def split: if_splits) (metis digits_value_nat_digits eq_nat_nat_iff neg_0_less_iff_less neg_equal_iff_equal less_le not_less)+
qed

end
