(* ===== verification/LoadBalancers.thy ===== *)
theory LoadBalancers imports Mgmt_Clients Loop_Variables Decimals "HOL-Library.Word" begin

section \<open>Load balancers (pkg/clients/loadbalancers)\<close>

text \<open>
  An asynchronous client whose spec builder takes addresses of loop variables
  (\<open>Loop_Variables\<close>) and whose state test and comparison dereference nil pointers.
\<close>

subsection \<open>The SDK\<close>

text \<open>A frontend: its name and the identifier of its public address.\<close>

record lb_frontend =
  lbf_Name :: "string option"
  lbf_PublicIP_ID :: "string option"

record lb_probe =
  lbp_Name :: "string option"
  lbp_Protocol :: string
  lbp_Port :: "int option"
  lbp_IntervalInSeconds :: "int option"
  lbp_NumberOfProbes :: "int option"
  lbp_RequestPath :: "string option"

text \<open>A \<open>SubResource\<close> is a pointer to a struct with an \<open>ID\<close> pointer.\<close>

record lb_rule_properties =
  lrp_Protocol :: string
  lrp_FrontendPort :: "int option"
  lrp_BackendPort :: "int option"
  lrp_IdleTimeoutInMinutes :: "int option"
  lrp_EnableFloatingIP :: "bool option"
  lrp_EnableTCPReset :: "bool option"
  lrp_LoadDistribution :: string
  lrp_FrontendIPConfiguration :: "string option option"
  lrp_BackendAddressPool :: "string option option"
  lrp_Probe :: "string option option"

record lb_rule =
  lr_Name :: "string option"
  lr_Properties :: "lb_rule_properties option"

record lb_properties =
  lbp_ProvisioningState :: "string option"
  lbp_FrontendIPConfigurations :: "lb_frontend list option"
  lbp_BackendAddressPools :: "string option list option"
  lbp_Probes :: "lb_probe list option"
  lbp_LoadBalancingRules :: "lb_rule list option"

record load_balancer =
  lb_Response :: http_response
  lb_ID :: "string option"
  lb_Name :: "string option"
  lb_Location :: "string option"
  lb_Sku :: "string option"
  lb_Properties :: "lb_properties option"

definition zero_load_balancer :: load_balancer where
  "zero_load_balancer = \<lparr>lb_Response = None, lb_ID = None, lb_Name = None, lb_Location = None,
     lb_Sku = None, lb_Properties = None\<rparr>"

definition zero_lb_properties :: lb_properties where
  "zero_lb_properties = \<lparr>lbp_ProvisioningState = None, lbp_FrontendIPConfigurations = None,
     lbp_BackendAddressPools = None, lbp_Probes = None, lbp_LoadBalancingRules = None\<rparr>"

text \<open>\<open>lb_cmp_Equal\<close> is \<open>cmp.Equal\<close> at slices of rules.\<close>

record 'w lb_sdk =
  lb_sdk_Get :: "sdk_client \<Rightarrow> string \<Rightarrow> string \<Rightarrow> string \<Rightarrow> ('w, load_balancer \<times> go_error option) go"
  lb_sdk_CreateOrUpdate :: "sdk_client \<Rightarrow> string \<Rightarrow> string \<Rightarrow> load_balancer \<Rightarrow> ('w, go_error option) go"
  lb_sdk_Delete :: "sdk_client \<Rightarrow> string \<Rightarrow> string \<Rightarrow> ('w, http_response \<times> go_error option) go"
  lb_cmp_Equal :: "RuleSpec list \<Rightarrow> RuleSpec list \<Rightarrow> bool"

subsection \<open>The spec builder\<close>

definition lb_NewSpec :: load_balancer where
  "lb_NewSpec = zero_load_balancer\<lparr>lb_Sku := Some ''Standard'', lb_Properties := Some zero_lb_properties\<rparr>"

definition lb_set_Name :: "string \<Rightarrow> (load_balancer, unit) go" where
  "lb_set_Name name = remedy (\<lambda>s. s\<lparr>lb_Name := Some name\<rparr>)"

definition lb_set_Location :: "string \<Rightarrow> (load_balancer, unit) go" where
  "lb_set_Location location = remedy (\<lambda>s. s\<lparr>lb_Location := Some location\<rparr>)"

text \<open>A write through the embedded properties pointer.\<close>

definition lb_set_property :: "(lb_properties \<Rightarrow> lb_properties) \<Rightarrow> (load_balancer, unit) go" where
  "lb_set_property f = remedy_at (\<lambda>s. map_option (\<lambda>p. s\<lparr>lb_Properties := Some (f p)\<rparr>) (lb_Properties s))"

text \<open>
  \<open>Frontends\<close>: the resource name is a variable of the loop body, one per round; the identifier is
  the address of the loop variable.
\<close>

definition lb_last_part :: "string \<Rightarrow> string" where
  "lb_last_part frontend = last (split_on CHR ''/'' frontend)"

definition lb_frontends :: "string list \<Rightarrow> lb_frontend list" where
  "lb_frontends frontends =
     range_send (\<lambda>frontend st. st(0 := frontend))
       (\<lambda>frontend. (lb_last_part frontend, 0 :: address))
       (\<lambda>st (resourceName, a). \<lparr>lbf_Name = Some resourceName, lbf_PublicIP_ID = Some (st a)\<rparr>) frontends"

definition lb_set_Frontends :: "string list \<Rightarrow> (load_balancer, unit) go" where
  "lb_set_Frontends frontends =
     lb_set_property (\<lambda>p. p\<lparr>lbp_FrontendIPConfigurations := Some (lb_frontends frontends)\<rparr>)"

definition lb_backends :: "string list \<Rightarrow> string option list" where
  "lb_backends backends =
     range_send (\<lambda>backend st. st(0 := backend)) (\<lambda>_. 0 :: address) (\<lambda>st a. Some (st a)) backends"

definition lb_set_Backends :: "string list \<Rightarrow> (load_balancer, unit) go" where
  "lb_set_Backends backends =
     lb_set_property (\<lambda>p. p\<lparr>lbp_BackendAddressPools := Some (lb_backends backends)\<rparr>)"

text \<open>The conversion \<open>int32(port)\<close> of an \<open>int\<close> keeps the low 32 bits.\<close>

definition int32_of :: "int \<Rightarrow> int" where
  "int32_of n = (n + 2 ^ 31) mod 2 ^ 32 - 2 ^ 31"

definition lb_probe_of :: "int \<Rightarrow> lb_probe" where
  "lb_probe_of port = \<lparr>
     lbp_Name = Some (''probe_'' @ decimal port),
     lbp_Protocol = ''Https'',
     lbp_Port = Some (int32_of port),
     lbp_IntervalInSeconds = Some 5,
     lbp_NumberOfProbes = Some 2,
     lbp_RequestPath = Some ''/healthz''\<rparr>"

definition lb_set_Probes :: "int list option \<Rightarrow> (load_balancer, unit) go" where
  "lb_set_Probes ports =
     lb_set_property (\<lambda>p. p\<lparr>lbp_Probes :=
       Some (case ports of None \<Rightarrow> [] | Some ports \<Rightarrow> map lb_probe_of ports)\<rparr>)"

text \<open>
  \<open>Rules\<close>: the fields \<open>Name\<close>, \<open>Frontend\<close>, \<open>BackendPool\<close> and \<open>Probe\<close> of the loop variable live at
  the addresses 0 to 3; the ports and the protocol are copied.
\<close>

definition lb_rule_assign :: "RuleSpec \<Rightarrow> string_store \<Rightarrow> string_store" where
  "lb_rule_assign rule st =
     st(0 := rule_Name rule, 1 := rule_Frontend rule, 2 := rule_BackendPool rule, 3 := rule_Probe rule)"

record lb_built_rule =
  lbb_Name :: address
  lbb_Protocol :: string
  lbb_FrontendPort :: int
  lbb_BackendPort :: int
  lbb_Frontend :: address
  lbb_BackendPool :: address
  lbb_Probe :: address

definition lb_rule_build :: "RuleSpec \<Rightarrow> lb_built_rule" where
  "lb_rule_build rule = \<lparr>
     lbb_Name = 0,
     lbb_Protocol = rule_Protocol rule,
     lbb_FrontendPort = rule_FrontendPort rule,
     lbb_BackendPort = rule_BackendPort rule,
     lbb_Frontend = 1,
     lbb_BackendPool = 2,
     lbb_Probe = 3\<rparr>"

definition lb_rule_send :: "string_store \<Rightarrow> lb_built_rule \<Rightarrow> lb_rule" where
  "lb_rule_send st r = \<lparr>
     lr_Name = Some (st (lbb_Name r)),
     lr_Properties = Some \<lparr>
       lrp_Protocol = lbb_Protocol r,
       lrp_FrontendPort = Some (lbb_FrontendPort r),
       lrp_BackendPort = Some (lbb_BackendPort r),
       lrp_IdleTimeoutInMinutes = Some 4,
       lrp_EnableFloatingIP = Some False,
       lrp_EnableTCPReset = Some True,
       lrp_LoadDistribution = ''Default'',
       lrp_FrontendIPConfiguration = Some (Some (st (lbb_Frontend r))),
       lrp_BackendAddressPool = Some (Some (st (lbb_BackendPool r))),
       lrp_Probe = Some (Some (st (lbb_Probe r)))\<rparr>\<rparr>"

definition lb_rules :: "RuleSpec list \<Rightarrow> lb_rule list" where
  "lb_rules rules = range_send lb_rule_assign lb_rule_build lb_rule_send rules"

definition lb_set_Rules :: "RuleSpec list option \<Rightarrow> (load_balancer, unit) go" where
  "lb_set_Rules rules =
     lb_set_property (\<lambda>p. p\<lparr>lbp_LoadBalancingRules :=
       Some (case rules of None \<Rightarrow> [] | Some rules \<Rightarrow> lb_rules rules)\<rparr>)"

text \<open>\<open>Rules()\<close> follows every pointer of every Azure rule.\<close>

definition lb_rule_spec :: "lb_rule \<Rightarrow> ('w, RuleSpec) go" where
  "lb_rule_spec r =
     go_bind (go_deref (lr_Name r)) (\<lambda>name.
     go_bind (go_deref (lr_Properties r)) (\<lambda>p.
     go_bind (go_deref (lrp_FrontendIPConfiguration p)) (\<lambda>f. go_bind (go_deref f) (\<lambda>frontend.
     go_bind (go_deref (lrp_BackendAddressPool p)) (\<lambda>b. go_bind (go_deref b) (\<lambda>backend.
     go_bind (go_deref (lrp_Probe p)) (\<lambda>q. go_bind (go_deref q) (\<lambda>probe.
     go_bind (go_deref (lrp_FrontendPort p)) (\<lambda>frontendPort.
     go_bind (go_deref (lrp_BackendPort p)) (\<lambda>backendPort.
     go_ret \<lparr>rule_Name = name, rule_Frontend = frontend, rule_BackendPool = backend, rule_Probe = probe,
             rule_Protocol = lrp_Protocol p, rule_FrontendPort = frontendPort, rule_BackendPort = backendPort\<rparr>))))))))))"

fun lb_rule_specs :: "lb_rule list \<Rightarrow> ('w, RuleSpec list) go" where
  "lb_rule_specs [] = go_ret []"
| "lb_rule_specs (r # rs) = go_bind (lb_rule_spec r) (\<lambda>x. go_bind (lb_rule_specs rs) (\<lambda>xs. go_ret (x # xs)))"

definition lb_Rules :: "load_balancer \<Rightarrow> ('w, RuleSpec list option) go" where
  "lb_Rules s =
     (case lb_Properties s of
        None \<Rightarrow> go_ret None
      | Some p \<Rightarrow> (case lbp_LoadBalancingRules p of
            None \<Rightarrow> go_ret None
          | Some rules \<Rightarrow> go_bind (lb_rule_specs rules) (\<lambda>xs. go_ret (Some xs))))"

text \<open>
  The third test of \<open>NeedsUpdate\<close> prints \<open>*local.Spec.Rules\<close> and \<open>*s.Rules()\<close>, which panics when
  either is nil.
\<close>

definition lb_rules_differ :: "'w lb_sdk \<Rightarrow> LoadBalancer \<Rightarrow> load_balancer \<Rightarrow> ('w, bool) go" where
  "lb_rules_differ S local s =
     (case lbs_Rules (Spec local) of
        None \<Rightarrow> go_panic
      | Some want \<Rightarrow> go_bind (lb_Rules s) (\<lambda>have.
          case have of None \<Rightarrow> go_panic | Some rules \<Rightarrow> go_ret (\<not> lb_cmp_Equal S want rules)))"

definition lb_Build :: "load_balancer \<Rightarrow> load_balancer" where
  [simp]: "lb_Build s = s"

definition lb_Set :: "(load_balancer, unit) go list \<Rightarrow> (load_balancer, unit) go" where
  [simp]: "lb_Set opts = set_opts opts"

definition lb_NewSpecWithRemote :: "load_balancer \<Rightarrow> load_balancer" where
  [simp]: "lb_NewSpecWithRemote remote = remote"

definition lb_NeedsUpdate :: "'w lb_sdk \<Rightarrow> LoadBalancer \<Rightarrow> load_balancer \<Rightarrow> ('w, bool) go" where
  "lb_NeedsUpdate S local s =
     Any [go_ret (lb_Name s = None \<or> Some (lbs_Name (Spec local)) \<noteq> lb_Name s),
          go_ret (lb_Location s = None \<or> Some (lbs_Location (Spec local)) \<noteq> lb_Location s),
          lb_rules_differ S local s]"

subsection \<open>The client\<close>

definition lb_NewWithFactory :: "config \<Rightarrow> (string \<Rightarrow> sdk_client) \<Rightarrow> mgmt_client" where
  "lb_NewWithFactory configuration factory = new_mgmt_client configuration factory"

definition lb_convert :: "runtime_object \<Rightarrow> go_error + LoadBalancer" where
  "lb_convert obj = (case obj of ObjLoadBalancer local \<Rightarrow> Inr local | _ \<Rightarrow> Inl (kind_error obj))"

definition lb_ForSubscription :: "auth_lib \<Rightarrow> mgmt_client \<Rightarrow> runtime_object \<Rightarrow> mgmt_client \<times> go_error option" where
  "lb_ForSubscription A c obj =
     (case lb_convert obj of
        Inl err \<Rightarrow> (c, Some err)
      | Inr local \<Rightarrow> authorize_for A c (lbs_SubscriptionID (Spec local)))"

definition lb_SetStatus :: "LoadBalancer \<Rightarrow> load_balancer \<Rightarrow> LoadBalancer" where
  "lb_SetStatus local remote =
     (let st = (Status local)\<lparr>lbst_ID := lb_ID remote\<rparr>;
          st = (case lb_Properties remote of
                  None \<Rightarrow> st | Some p \<Rightarrow> st\<lparr>lbst_ProvisioningState := lbp_ProvisioningState p\<rparr>)
      in local\<lparr>Status := st\<rparr>)"

text \<open>\<open>state != nil || *state == "Succeeded"\<close>: true for every state, a panic for none.\<close>

definition lb_Done :: "LoadBalancer \<Rightarrow> ('w, bool) go" where
  "lb_Done local =
     (if lbst_ProvisioningState (Status local) \<noteq> None then go_ret True
      else go_bind (go_deref (lbst_ProvisioningState (Status local))) (\<lambda>s. go_ret (s = ''Succeeded'')))"

definition lb_apply ::
  "'w lb_sdk \<Rightarrow> mgmt_client \<Rightarrow> LoadBalancer \<Rightarrow> load_balancer \<Rightarrow> ('w, runtime_object \<times> bool \<times> go_error option) go" where
  "lb_apply S c local spec =
     with_spec (lb_Set
       [lb_set_Name (lbs_Name (Spec local)),
        lb_set_Location (lbs_Location (Spec local)),
        lb_set_Frontends (lbs_Frontends (Spec local)),
        lb_set_Backends (lbs_BackendPools (Spec local)),
        lb_set_Probes (lbs_Probes (Spec local)),
        lb_set_Rules (lbs_Rules (Spec local))]) spec (\<lambda>_ spec.
     go_bind (lb_sdk_CreateOrUpdate S (mc_internal c) (lbs_ResourceGroup (Spec local)) (lbs_Name (Spec local)) spec) (\<lambda>err.
     go_ret (ObjLoadBalancer local, False, err)))"

definition lb_Ensure ::
  "lib \<Rightarrow> 'w lb_sdk \<Rightarrow> mgmt_client \<Rightarrow> runtime_object \<Rightarrow> ('w, runtime_object \<times> bool \<times> go_error option) go" where
  "lb_Ensure L S c obj =
     (case lb_convert obj of
        Inl err \<Rightarrow> go_ret (obj, False, Some err)
      | Inr local \<Rightarrow>
     go_bind (lb_sdk_Get S (mc_internal c) (lbs_ResourceGroup (Spec local)) (lbs_Name (Spec local)) '''') (\<lambda>(remote, err).
       let found = (\<not> HasHTTPStatus L (lb_Response remote) [StatusNotFound, StatusConflict]);
           local = lb_SetStatus local remote
       in
       if err \<noteq> None \<and> found then go_ret (ObjLoadBalancer local, False, err)
       else if found then
         go_bind (lb_Done local) (\<lambda>done.
           if done then
             go_bind (lb_NeedsUpdate S local remote) (\<lambda>needs.
               if \<not> needs then go_ret (ObjLoadBalancer local, True, None) else lb_apply S c local remote)
           else go_ret (ObjLoadBalancer local, False, None))
       else lb_apply S c local lb_NewSpec))"

definition lb_Get ::
  "'w lb_sdk \<Rightarrow> mgmt_client \<Rightarrow> runtime_object \<Rightarrow> ('w, load_balancer \<times> go_error option) go" where
  "lb_Get S c obj =
     (case lb_convert obj of
        Inl err \<Rightarrow> go_ret (zero_load_balancer, Some err)
      | Inr local \<Rightarrow> lb_sdk_Get S (mc_internal c) (lbs_ResourceGroup (Spec local)) (lbs_Name (Spec local)) '''')"

definition lb_Delete ::
  "lib \<Rightarrow> 'w lb_sdk \<Rightarrow> mgmt_client \<Rightarrow> runtime_object \<Rightarrow> ('w, runtime_object \<times> bool \<times> go_error option) go" where
  "lb_Delete L S c obj =
     (case lb_convert obj of
        Inl err \<Rightarrow> go_ret (obj, False, Some err)
      | Inr local \<Rightarrow>
     go_bind (lb_sdk_Delete S (mc_internal c) (lbs_ResourceGroup (Spec local)) (lbs_Name (Spec local))) (\<lambda>(resp, err).
       if err \<noteq> None \<and> resp \<noteq> None \<and> resp \<noteq> Some StatusNotFound then go_ret (obj, False, err)
       else
     go_bind (lb_sdk_Get S (mc_internal c) (lbs_ResourceGroup (Spec local)) (lbs_Name (Spec local)) '''') (\<lambda>(remote, err).
       let found = (\<not> IsHTTPStatus L (lb_Response remote) StatusNotFound);
           local = lb_SetStatus local remote
       in
       if err \<noteq> None \<and> IsHTTPStatus L (lb_Response remote) StatusNotFound
       then go_ret (ObjLoadBalancer local, False, None)
       else go_ret (ObjLoadBalancer local, found, err))))"

definition lb_client :: "lib \<Rightarrow> auth_lib \<Rightarrow> 'w lb_sdk \<Rightarrow> (mgmt_client \<times> 'w) AsyncClient" where
  "lb_client L A S = \<lparr>
     async_ForSubscription = (\<lambda>obj. on_self (\<lambda>c. lb_ForSubscription A c obj)),
     async_Ensure = (\<lambda>obj. on_world (\<lambda>c. lb_Ensure L S c obj)),
     async_Delete = (\<lambda>obj. on_world (\<lambda>c. lb_Delete L S c obj))\<rparr>"

subsection \<open>Lemmas\<close>

lemma lb_convert_Inr [simp]: "lb_convert obj = Inr local \<longleftrightarrow> obj = ObjLoadBalancer local"
  by (cases obj) (simp_all add: lb_convert_def)

lemma lb_convert_Inl [simp]: "lb_convert obj = Inl err \<longleftrightarrow> kind_of obj \<noteq> KLoadBalancer \<and> err = kind_error obj"
  by (cases obj) (auto simp: lb_convert_def)

lemma lb_SetStatus_keeps [simp]:
  "(lb_SetStatus local remote)\<lparr>Status := st\<rparr> = local\<lparr>Status := st\<rparr>"
  "Spec (lb_SetStatus local remote) = Spec local" "ObjectMeta (lb_SetStatus local remote) = ObjectMeta local"
  by (simp_all add: lb_SetStatus_def Let_def split: option.split)

lemmas lb_defs = lb_Ensure_def lb_apply_def lb_Delete_def Let_def

lemma lb_Ensure_Returns:
  assumes "lb_Ensure L S c obj w = (Returns (obj', done, err), w')"
  shows "clear_status obj' = clear_status obj" and "done \<Longrightarrow> err = None"
  using assms
  by (auto simp: lb_defs go_returns simp del: set_opts.simps split: sum.splits prod.splits if_splits)

lemma lb_Delete_Returns:
  assumes "lb_Delete L S c obj w = (Returns (obj', found, err), w')"
  shows "clear_status obj' = clear_status obj"
  using assms
  by (auto simp: lb_defs go_returns split: sum.splits prod.splits if_splits)

interpretation lb: strict_async_client "lb_client L A S" "\<lambda>obj. kind_of obj = KLoadBalancer"
  for L :: lib and A :: auth_lib and S :: "'w lb_sdk"
proof unfold_locales
  show "\<exists>err. async_ForSubscription (lb_client L A S) obj = go_ret (Some err)"
    if "kind_of obj \<noteq> KLoadBalancer" for obj
    using that
    by (auto simp: lb_client_def on_self_def lb_ForSubscription_def go_ret_def fun_eq_iff split: sum.splits)
qed (auto simp: lb_client_def go_returns dest: lb_Ensure_Returns lb_Delete_Returns)

text \<open>What the loops send: values from the round, addresses with the last round's content.\<close>

lemma lb_frontends_eq:
  "lb_frontends fs = map (\<lambda>f. \<lparr>lbf_Name = Some (lb_last_part f), lbf_PublicIP_ID = Some (last fs)\<rparr>) fs"
  unfolding lb_frontends_def by (subst range_send_last) (simp_all add: fun_eq_iff)

lemma lb_backends_eq: "lb_backends bs = map (\<lambda>_. Some (last bs)) bs"
  unfolding lb_backends_def by (subst range_send_last) (simp_all add: fun_eq_iff)

lemma lb_rules_eq:
  "lb_rules rules = map (\<lambda>r. lb_rule_send (lb_rule_assign (last rules) (\<lambda>_. '''')) (lb_rule_build r)) rules"
  unfolding lb_rules_def by (rule range_send_last) (simp add: lb_rule_assign_def fun_eq_iff)

text \<open>Read back, the rules have the ports they should have, and everything else from the last rule.\<close>

definition lb_collapsed :: "RuleSpec list \<Rightarrow> RuleSpec list" where
  "lb_collapsed rules =
     map (\<lambda>r. \<lparr>rule_Name = rule_Name (last rules), rule_Frontend = rule_Frontend (last rules),
                rule_BackendPool = rule_BackendPool (last rules), rule_Probe = rule_Probe (last rules),
                rule_Protocol = rule_Protocol r, rule_FrontendPort = rule_FrontendPort r,
                rule_BackendPort = rule_BackendPort r\<rparr>) rules"

lemma lb_rule_specs_map:
  "(\<And>x. x \<in> set xs \<Longrightarrow> (lb_rule_spec (f x) :: ('w, RuleSpec) go) = go_ret (g x)) \<Longrightarrow>
   (lb_rule_specs (map f xs) :: ('w, RuleSpec list) go) = go_ret (map g xs)"
  by (induction xs) (simp_all add: go_bind_ret)

lemma lb_rules_read_back: "lb_rule_specs (lb_rules rules) = go_ret (lb_collapsed rules)"
  unfolding lb_rules_eq lb_collapsed_def
  by (rule lb_rule_specs_map)
    (simp add: lb_rule_spec_def lb_rule_send_def lb_rule_build_def lb_rule_assign_def go_deref_simps go_bind_ret)

lemma map_fixed_iff: "map f xs = xs \<longleftrightarrow> (\<forall>x\<in>set xs. f x = x)"
  by (induction xs) auto

lemma lb_collapsed_wanted_iff:
  "lb_collapsed rules = rules \<longleftrightarrow>
     (\<forall>r\<in>set rules. rule_Name r = rule_Name (last rules) \<and> rule_Frontend r = rule_Frontend (last rules) \<and>
        rule_BackendPool r = rule_BackendPool (last rules) \<and> rule_Probe r = rule_Probe (last rules))"
  unfolding lb_collapsed_def map_fixed_iff
proof (rule ball_cong [OF refl])
  show "\<lparr>rule_Name = n, rule_Frontend = f, rule_BackendPool = b, rule_Probe = p, rule_Protocol = rule_Protocol r,
        rule_FrontendPort = rule_FrontendPort r, rule_BackendPort = rule_BackendPort r\<rparr> = r \<longleftrightarrow>
      rule_Name r = n \<and> rule_Frontend r = f \<and> rule_BackendPool r = b \<and> rule_Probe r = p" for r :: RuleSpec and n f b p
    by (cases r) auto
qed

text \<open>The options on a spec with properties.\<close>

definition lb_written :: "LoadBalancer \<Rightarrow> load_balancer \<Rightarrow> lb_properties \<Rightarrow> load_balancer" where
  "lb_written x s p = s\<lparr>
     lb_Name := Some (lbs_Name (Spec x)),
     lb_Location := Some (lbs_Location (Spec x)),
     lb_Properties := Some (p\<lparr>
       lbp_FrontendIPConfigurations := Some (lb_frontends (lbs_Frontends (Spec x))),
       lbp_BackendAddressPools := Some (lb_backends (lbs_BackendPools (Spec x))),
       lbp_Probes := Some (case lbs_Probes (Spec x) of None \<Rightarrow> [] | Some ports \<Rightarrow> map lb_probe_of ports),
       lbp_LoadBalancingRules := Some (case lbs_Rules (Spec x) of None \<Rightarrow> [] | Some rules \<Rightarrow> lb_rules rules)\<rparr>)\<rparr>"

lemma lb_options:
  assumes "lb_Properties s = Some p"
  shows "set_opts
      [lb_set_Name (lbs_Name (Spec x)), lb_set_Location (lbs_Location (Spec x)),
       lb_set_Frontends (lbs_Frontends (Spec x)), lb_set_Backends (lbs_BackendPools (Spec x)),
       lb_set_Probes (lbs_Probes (Spec x)), lb_set_Rules (lbs_Rules (Spec x))] s = (Returns (), lb_written x s p)"
  using assms
  by (cases s; cases p)
    (simp add: lb_set_Name_def lb_set_Location_def lb_set_Frontends_def lb_set_Backends_def lb_set_Probes_def
      lb_set_Rules_def lb_set_property_def go_simps lb_written_def)

text \<open>
  A balancer as \<open>Ensure\<close> wrote it needs no update only if its rules agree in everything but
  protocol and ports: otherwise it is written again and again.
\<close>

lemma lb_written_needs_update:
  assumes "lbs_Rules (Spec x) = Some rules" and "\<And>a b. lb_cmp_Equal S a b \<longleftrightarrow> a = b"
  shows "lb_NeedsUpdate S x (lb_written x s p) = go_ret (lb_collapsed rules \<noteq> rules)"
  using assms
  by (auto simp: lb_NeedsUpdate_def lb_rules_differ_def lb_Rules_def lb_written_def go_bind_ret lb_rules_read_back)

lemma lb_NeedsUpdate_no_rules_panics:
  assumes "lb_Name s = Some (lbs_Name (Spec x))" "lb_Location s = Some (lbs_Location (Spec x))" "lbs_Rules (Spec x) = None"
  shows "lb_NeedsUpdate S x s = go_panic"
  using assms by (simp add: lb_NeedsUpdate_def lb_rules_differ_def go_bind_ret go_bind_panic)

text \<open>\<open>Done\<close>: any state counts, and none panics.\<close>

lemma lb_Done_eq:
  "lb_Done x = (if lbst_ProvisioningState (Status x) = None then go_panic else go_ret True)"
  by (simp add: lb_Done_def go_deref_simps go_bind_panic)

lemma lb_Ensure_no_state_panics:
  assumes "lib_ok L"
    and "lb_sdk_Get S (mc_internal c) (lbs_ResourceGroup (Spec x)) (lbs_Name (Spec x)) '''' w = (Returns (remote, None), w1)"
    and "lb_Response remote \<noteq> Some StatusNotFound" "lb_Response remote \<noteq> Some StatusConflict"
    and "lb_Properties remote = None" "lbst_ProvisioningState (Status x) = None"
  shows "lb_Ensure L S c (ObjLoadBalancer x) w = (Panics, w1)"
  using assms
  by (auto simp: lb_Ensure_def lb_convert_def lib_okD Let_def lb_Done_eq lb_SetStatus_def go_bind_apply go_panic_apply)

text \<open>The ports of the probes: kept in the range of \<open>int32\<close>, wrapped outside of it.\<close>

lemma int32_of_range: "- (2 ^ 31) \<le> int32_of n \<and> int32_of n < 2 ^ 31"
proof -
  have "0 \<le> (n + 2 ^ 31) mod 2 ^ 32" "(n + 2 ^ 31) mod 2 ^ 32 < 2 ^ 32" by simp_all
  then show ?thesis unfolding int32_of_def by simp
qed

lemma int32_of_id: "- (2 ^ 31) \<le> n \<Longrightarrow> n < 2 ^ 31 \<Longrightarrow> int32_of n = n"
  unfolding int32_of_def by (subst mod_pos_pos_trivial) auto

lemma int32_of_word: "int32_of n = sint (word_of_int n :: 32 word)"
  by (simp add: int32_of_def signed_of_int signed_take_bit_eq_take_bit_shift take_bit_eq_mod)

lemma int32_of_mod: "int32_of n mod 2 ^ 32 = n mod 2 ^ 32"
  unfolding int32_of_def by (simp add: mod_diff_left_eq)

text \<open>Different ports give probes with different names.\<close>

lemma lb_probe_names_distinct: "lbp_Name (lb_probe_of p) = lbp_Name (lb_probe_of q) \<Longrightarrow> p = q"
  by (simp add: lb_probe_of_def decimal_inj)

definition lb_sdk_ok :: "'w lb_sdk \<Rightarrow> (string option \<Rightarrow> string \<times> string \<Rightarrow> 'w \<Rightarrow> bool) \<Rightarrow> bool" where
  "lb_sdk_ok S ex \<longleftrightarrow>
     (\<forall>cl rg name expand. triple (\<lambda>_. True) (lb_sdk_Get S cl rg name expand)
        (\<lambda>(v, err) w. lb_Response v = Some StatusNotFound \<longrightarrow> \<not> ex (sdk_Subscription cl) (rg, name) w) (\<lambda>_. True))"

definition is_load_balancer :: "string \<Rightarrow> string \<times> string \<Rightarrow> runtime_object \<Rightarrow> bool" where
  "is_load_balancer sub key obj =
     (case obj of ObjLoadBalancer x \<Rightarrow>
        lbs_SubscriptionID (Spec x) = sub \<and> (lbs_ResourceGroup (Spec x), lbs_Name (Spec x)) = key | _ \<Rightarrow> False)"

lemma lb_Delete_gone:
  assumes "lib_ok L" "lb_sdk_ok S ex"
    and "lb_Delete L S c (ObjLoadBalancer x) w = (Returns (obj', False, None), w')"
  shows "\<not> ex (sdk_Subscription (mc_internal c)) (lbs_ResourceGroup (Spec x), lbs_Name (Spec x)) w'"
proof -
  from assms(1,3) obtain w1 v err where
    get: "lb_sdk_Get S (mc_internal c) (lbs_ResourceGroup (Spec x)) (lbs_Name (Spec x)) '''' w1 = (Returns (v, err), w')"
    and nf: "lb_Response v = Some StatusNotFound"
    by (auto simp: lb_defs lb_convert_def go_returns lib_okD(1) split: if_splits prod.splits)
  from assms(2) have "triple (\<lambda>_. True) (lb_sdk_Get S (mc_internal c) (lbs_ResourceGroup (Spec x)) (lbs_Name (Spec x)) '''')
     (\<lambda>(v, err) w. lb_Response v = Some StatusNotFound \<longrightarrow>
        \<not> ex (sdk_Subscription (mc_internal c)) (lbs_ResourceGroup (Spec x), lbs_Name (Spec x)) w) (\<lambda>_. True)"
    unfolding lb_sdk_ok_def by blast
  from tripleD_Returns [OF this _ get] nf show ?thesis by simp
qed

lemma lb_azure_ok:
  assumes L: "lib_ok L" and S: "lb_sdk_ok S ex"
  shows "azure_ok (is_load_balancer sub key) (subscribed_to sub) (lb_client L A S) (\<lambda>_. True) (exists_for ex sub key)"
  by (rule mgmt_azure_ok)
    (auto simp: is_load_balancer_def lb_client_def lb_ForSubscription_def lb_convert_def on_self_def go_returns
      split: runtime_object.splits dest: lb_Delete_gone [OF L S])

end
