(* ===== verification/Kube_Secrets.thy ===== *)
theory Kube_Secrets imports Mgmt_Clients begin

section \<open>Kubernetes secrets\<close>

text \<open>
  Several clients write Kubernetes secrets through controller-runtime.  A secret has its name,
  the data map (\<open>None\<close> is the nil map, writing to which panics), its type and its controller
  owner; the operations of the API server and of \<open>controllerutil\<close> are the record \<open>secret_ops\<close>.

  The mutate function of \<open>controllerutil.CreateOrUpdate\<close> is a computation over the secret.
\<close>

record k8s_secret =
  ks_Name :: string
  ks_Namespace :: string
  ks_Data :: "(string \<rightharpoonup> string) option"
  ks_Type :: string
  ks_Owner :: "string option"

type_synonym secret_mutation = "(k8s_secret, go_error option) go"

text \<open>
  \<open>so_SetControllerReference owner\<close> is the effect of \<open>controllerutil.SetControllerReference\<close> on
  the secret: it may fail, for instance when another controller owns it.
\<close>

record 'w secret_ops =
  so_Get :: "namespaced_name \<Rightarrow> k8s_secret \<Rightarrow> ('w, k8s_secret \<times> go_error option) go"
  so_Create :: "k8s_secret \<Rightarrow> ('w, k8s_secret \<times> go_error option) go"
  so_CreateOrUpdate :: "k8s_secret \<Rightarrow> secret_mutation \<Rightarrow> ('w, k8s_secret \<times> go_error option) go"
  so_Delete :: "k8s_secret \<Rightarrow> ('w, go_error option) go"
  so_SetControllerReference :: "object_meta \<Rightarrow> secret_mutation"

definition new_secret :: "string \<Rightarrow> string \<Rightarrow> k8s_secret" where
  "new_secret name namespace =
     \<lparr>ks_Name = name, ks_Namespace = namespace, ks_Data = None, ks_Type = '''', ks_Owner = None\<rparr>"

definition secret_key :: "k8s_secret \<Rightarrow> namespaced_name" where
  "secret_key s = (ks_Namespace s, ks_Name s)"

lemma secret_key_new [simp]: "secret_key (new_secret name namespace) = (namespace, name)"
  by (simp add: secret_key_def new_secret_def)

subsection \<open>Pieces of the mutate functions\<close>

text \<open>\<open>if owner.UID != "" { if err := SetControllerReference(...); err != nil { return err } }\<close>.\<close>

definition own_secret :: "'w secret_ops \<Rightarrow> object_meta \<Rightarrow> secret_mutation \<Rightarrow> secret_mutation" where
  "own_secret K owner rest =
     (if om_UID owner \<noteq> '''' then
        go_bind (so_SetControllerReference K owner) (\<lambda>err. if err \<noteq> None then go_ret err else rest)
      else rest)"

text \<open>\<open>if local.Data == nil { local.Data = map[string][]byte{} }\<close>.\<close>

definition init_data :: "(k8s_secret, unit) go" where
  "init_data = remedy (\<lambda>s. if ks_Data s = None then s\<lparr>ks_Data := Some Map.empty\<rparr> else s)"

text \<open>\<open>local.Data[key] = value\<close>.\<close>

definition put_data :: "string \<Rightarrow> string \<Rightarrow> (k8s_secret, unit) go" where
  "put_data key val = remedy_at (\<lambda>s. map_option (\<lambda>d. s\<lparr>ks_Data := Some (d(key \<mapsto> val))\<rparr>) (ks_Data s))"

fun put_all :: "(string \<times> string) list \<Rightarrow> (k8s_secret, unit) go" where
  "put_all [] = go_ret ()"
| "put_all ((key, val) # entries) = go_bind (put_data key val) (\<lambda>_. put_all entries)"

definition secret_data :: "k8s_secret \<Rightarrow> string \<rightharpoonup> string" where
  "secret_data s = (case ks_Data s of None \<Rightarrow> Map.empty | Some d \<Rightarrow> d)"

lemma init_data_eq:
  "init_data s = (Returns (), s\<lparr>ks_Data := Some (secret_data s)\<rparr>)"
  by (cases "ks_Data s") (simp_all add: init_data_def go_simps secret_data_def)

lemma put_data_eq: "ks_Data s = Some d \<Longrightarrow> put_data key val s = (Returns (), s\<lparr>ks_Data := Some (d(key \<mapsto> val))\<rparr>)"
  by (simp add: put_data_def go_simps)

text \<open>Writing entries in order: a later entry wins.\<close>

fun upd_all :: "(string \<times> string) list \<Rightarrow> (string \<rightharpoonup> string) \<Rightarrow> string \<rightharpoonup> string" where
  "upd_all [] d = d"
| "upd_all ((key, val) # entries) d = upd_all entries (d(key \<mapsto> val))"

lemma upd_all_apply:
  "upd_all entries d x = (case map_of (rev entries) x of None \<Rightarrow> d x | Some v \<Rightarrow> Some v)"
proof (induction entries arbitrary: d)
  case (Cons e entries)
  then show ?case by (cases e) (simp add: map_add_def split: option.split)
qed simp

lemma put_all_eq:
  "ks_Data s = Some d \<Longrightarrow> put_all entries s = (Returns (), s\<lparr>ks_Data := Some (upd_all entries d)\<rparr>)"
proof (induction entries arbitrary: s d)
  case (Cons e entries)
  then show ?case by (cases e) (simp add: go_bind_apply put_data_eq del: fun_upd_apply)
qed (simp add: go_simps)

subsection \<open>The contract\<close>

text \<open>
  \<open>st w key\<close>: the stored secret.  The documented behaviour of \<open>CreateOrUpdate\<close>: when it answers no
  error, the mutate function ran without error on the given object (the secret did not exist) or
  on the stored one, and what it left is stored.  When it fails or the mutate function panics,
  only the secret itself may have changed.  \<open>Delete\<close> without error or with NotFound leaves no
  secret under the key.  \<open>SetControllerReference\<close> touches only the owner.
\<close>

definition secret_ops_ok :: "lib \<Rightarrow> 'w secret_ops \<Rightarrow> ('w \<Rightarrow> namespaced_name \<Rightarrow> k8s_secret option) \<Rightarrow> bool" where
  "secret_ops_ok L K st \<longleftrightarrow>
     (\<forall>s f w s' w'. so_CreateOrUpdate K s f w = (Returns (s', None), w') \<longrightarrow>
        (\<exists>base. (st w (secret_key s) = None \<and> base = s \<or> st w (secret_key s) = Some base) \<and>
                f base = (Returns None, s') \<and> st w' (secret_key s) = Some s')) \<and>
     (\<forall>s f w r w' k. so_CreateOrUpdate K s f w = (r, w') \<longrightarrow> k \<noteq> secret_key s \<longrightarrow> st w' k = st w k) \<and>
     (\<forall>s w err w'. so_Delete K s w = (Returns err, w') \<longrightarrow>
        (IgnoreNotFound L err = None \<longrightarrow> st w' (secret_key s) = None)) \<and>
     (\<forall>s w r w' k. so_Delete K s w = (r, w') \<longrightarrow> k \<noteq> secret_key s \<longrightarrow> st w' k = st w k) \<and>
     (\<forall>owner s r s'. so_SetControllerReference K owner s = (r, s') \<longrightarrow> (\<exists>o'. s' = s\<lparr>ks_Owner := o'\<rparr>))"

lemmas secret_stored =
  secret_ops_ok_def [THEN iffD1, THEN conjunct1, rule_format]
lemmas secret_others_kept =
  secret_ops_ok_def [THEN iffD1, THEN conjunct2, THEN conjunct1, rule_format]
lemmas secret_deleted =
  secret_ops_ok_def [THEN iffD1, THEN conjunct2, THEN conjunct2, THEN conjunct1, rule_format]
lemmas secret_delete_others_kept =
  secret_ops_ok_def [THEN iffD1, THEN conjunct2, THEN conjunct2, THEN conjunct2, THEN conjunct1, rule_format]
lemmas secret_owner_only =
  secret_ops_ok_def [THEN iffD1, THEN conjunct2, THEN conjunct2, THEN conjunct2, THEN conjunct2, rule_format]

text \<open>An owning mutation does what the rest does, on the secret with another owner.\<close>

lemma own_secret_Returns:
  assumes "secret_ops_ok L K st" "own_secret K owner rest s = (Returns None, s')"
  shows "\<exists>o'. rest (s\<lparr>ks_Owner := o'\<rparr>) = (Returns None, s')"
proof (cases "om_UID owner = ''''")
  case True
  with assms(2) show ?thesis by (intro exI [of _ "ks_Owner s"]) (simp add: own_secret_def)
next
  case False
  with assms(2) obtain err s1 where
    "so_SetControllerReference K owner s = (Returns err, s1)" "rest s1 = (Returns None, s')"
    by (auto simp: own_secret_def go_returns split: if_splits)
  with secret_owner_only [OF assms(1)] show ?thesis by blast
qed

subsection \<open>An API server that stores secrets\<close>

text \<open>A concrete instance for the witnesses: the world is the map of the stored secrets.\<close>

definition map_secret_ops :: "(namespaced_name \<rightharpoonup> k8s_secret) secret_ops" where
  "map_secret_ops = \<lparr>
     so_Get = (\<lambda>k s w. (case w k of
         None \<Rightarrow> (Returns (s, Some (ApiError 404)), w)
       | Some s' \<Rightarrow> (Returns (s', None), w))),
     so_Create = (\<lambda>s w. (case w (secret_key s) of
         None \<Rightarrow> (Returns (s, None), w(secret_key s \<mapsto> s))
       | Some _ \<Rightarrow> (Returns (s, Some (ApiError 409)), w))),
     so_CreateOrUpdate = (\<lambda>s f w.
       (case f (case w (secret_key s) of None \<Rightarrow> s | Some s' \<Rightarrow> s') of
          (Panics, _) \<Rightarrow> (Panics, w)
        | (Returns (Some err), s') \<Rightarrow> (Returns (s', Some err), w)
        | (Returns None, s') \<Rightarrow> (Returns (s', None), w(secret_key s \<mapsto> s')))),
     so_Delete = (\<lambda>s w. (case w (secret_key s) of
         None \<Rightarrow> (Returns (Some (ApiError 404)), w)
       | Some _ \<Rightarrow> (Returns None, w(secret_key s := None)))),
     so_SetControllerReference = (\<lambda>owner s. (Returns None, s\<lparr>ks_Owner := Some (om_UID owner)\<rparr>))\<rparr>"

lemma map_secret_ops_ok: "secret_ops_ok std_lib map_secret_ops (\<lambda>w. w)"
  unfolding secret_ops_ok_def map_secret_ops_def
  by (auto split: option.splits prod.splits outcome.splits)

end
