(* ===== verification/Key_Copies.thy ===== *)
theory Key_Copies imports Kube_Secrets begin

section \<open>Copying access keys into a Kubernetes secret\<close>

text \<open>
  The mutate functions of \<open>pkg/clients/redis\<close>, \<open>rediskeys\<close>, \<open>servicebus\<close> and \<open>servicebuskey\<close> repeat one
  step per key: if the object names a data key for it, store the key Azure listed, or append an
  error when Azure listed none.
\<close>

text \<open>
  \<open>if want != nil { if have != nil { data[*want] = *have } else { final = multierror.Append(...) } }\<close>;
  the result is the list of errors appended.
\<close>

definition put_wanted :: "string option \<Rightarrow> string option \<Rightarrow> (k8s_secret, go_error option list) go" where
  "put_wanted want have =
     (case want of
        None \<Rightarrow> go_ret []
      | Some key \<Rightarrow>
          (case have of
             Some val \<Rightarrow> go_bind (put_data key val) (\<lambda>_. go_ret [])
           | None \<Rightarrow> go_ret [Some (ErrorText ''expected primary key but found nil'')]))"

fun put_all_wanted :: "(string option \<times> string option) list \<Rightarrow> (k8s_secret, go_error option list) go" where
  "put_all_wanted [] = go_ret []"
| "put_all_wanted ((want, have) # rest) =
     go_bind (put_wanted want have) (\<lambda>errs. go_bind (put_all_wanted rest) (\<lambda>errs'. go_ret (errs @ errs')))"

definition keys_mutate :: "lib \<Rightarrow> (string option \<times> string option) list \<Rightarrow> secret_mutation" where
  "keys_mutate L keys = go_bind init_data (\<lambda>_. go_bind (put_all_wanted keys) (\<lambda>errs. go_ret (multierror L errs)))"

text \<open>The entries a set of keys asks for, in order.\<close>

fun wanted_entries :: "(string option \<times> string option) list \<Rightarrow> (string \<times> string) list" where
  "wanted_entries [] = []"
| "wanted_entries ((Some key, Some val) # rest) = (key, val) # wanted_entries rest"
| "wanted_entries (p # rest) = wanted_entries rest"

definition wanted_missing :: "(string option \<times> string option) list \<Rightarrow> bool" where
  "wanted_missing keys \<longleftrightarrow> (\<exists>key. (Some key, None) \<in> set keys)"

lemma wanted_missing_Cons:
  "wanted_missing ((want, have') # keys) \<longleftrightarrow> want \<noteq> None \<and> have' = None \<or> wanted_missing keys"
  by (auto simp: wanted_missing_def)

lemma wanted_missing_Nil: "\<not> wanted_missing []"
  by (simp add: wanted_missing_def)

lemma put_all_wanted_eq:
  "ks_Data s = Some d \<Longrightarrow>
   \<exists>errs. put_all_wanted keys s = (Returns errs, s\<lparr>ks_Data := Some (upd_all (wanted_entries keys) d)\<rparr>) \<and>
     (set errs \<subseteq> {None} \<longleftrightarrow> \<not> wanted_missing keys)"
proof (induction keys arbitrary: s d)
  case Nil
  then show ?case by (simp add: go_simps wanted_missing_def)
next
  case (Cons k keys)
  obtain want have' where k: "k = (want, have')" by (cases k)
  show ?case
  proof (cases want)
    case None
    with Cons.IH [OF Cons.prems] show ?thesis
      by (auto simp: k put_wanted_def go_simps go_bind_apply wanted_missing_def)
  next
    case (Some key)
    show ?thesis
    proof (cases have')
      case None
      with Some Cons.IH [OF Cons.prems] show ?thesis
        by (auto simp: k put_wanted_def go_simps go_bind_apply wanted_missing_def)
    next
      case (Some val)
      let ?s = "s\<lparr>ks_Data := Some (d(key \<mapsto> val))\<rparr>"
      from Cons.IH [of ?s "d(key \<mapsto> val)"] obtain errs where
        "put_all_wanted keys ?s = (Returns errs, ?s\<lparr>ks_Data := Some (upd_all (wanted_entries keys) (d(key \<mapsto> val)))\<rparr>)"
        "set errs \<subseteq> {None} \<longleftrightarrow> \<not> wanted_missing keys" by (auto simp del: fun_upd_apply)
      with Some \<open>want = Some key\<close> show ?thesis
        by (simp add: k put_wanted_def go_bind_apply go_simps put_data_eq [OF Cons.prems] wanted_missing_def
            del: fun_upd_apply)
    qed
  qed
qed

lemma keys_mutate_Returns:
  assumes "lib_ok L" "keys_mutate L keys s = (Returns None, s')"
  shows "s' = s\<lparr>ks_Data := Some (upd_all (wanted_entries keys) (secret_data s))\<rparr> \<and> \<not> wanted_missing keys"
proof -
  let ?s = "s\<lparr>ks_Data := Some (secret_data s)\<rparr>"
  obtain errs where errs:
    "put_all_wanted keys ?s = (Returns errs, ?s\<lparr>ks_Data := Some (upd_all (wanted_entries keys) (secret_data s))\<rparr>)"
    "set errs \<subseteq> {None} \<longleftrightarrow> \<not> wanted_missing keys"
    using put_all_wanted_eq [of ?s "secret_data s" keys] by auto
  with assms(2) have "multierror L errs = None"
    and s': "s' = s\<lparr>ks_Data := Some (upd_all (wanted_entries keys) (secret_data s))\<rparr>"
    by (auto simp: keys_mutate_def go_bind_apply init_data_eq go_ret_Returns)
  with assms(1) errs(2) have "\<not> wanted_missing keys" by (simp add: lib_okD(3))
  with s' show ?thesis by simp
qed

text \<open>A successful \<open>CreateOrUpdate\<close> with \<open>keys_mutate\<close>: the wanted keys are in the stored secret.\<close>

lemma keys_stored:
  assumes "lib_ok L" "secret_ops_ok L K st"
    and "so_CreateOrUpdate K (new_secret name namespace) (keys_mutate L keys) w = (Returns (s', None), w')"
  shows "\<exists>s. st w' (namespace, name) = Some s \<and>
     ks_Data s = Some (upd_all (wanted_entries keys)
       (case st w (namespace, name) of None \<Rightarrow> Map.empty | Some old \<Rightarrow> secret_data old)) \<and>
     \<not> wanted_missing keys"
proof -
  from secret_stored [OF assms(2,3), unfolded secret_key_new] obtain base where
    base: "st w (namespace, name) = None \<and> base = new_secret name namespace \<or> st w (namespace, name) = Some base"
    and "keys_mutate L keys base = (Returns None, s')" "st w' (namespace, name) = Some s'" by blast
  with keys_mutate_Returns [OF assms(1) this(2)] show ?thesis
    by (auto simp: new_secret_def secret_data_def)
qed

end
