(* ===== verification/Redis.thy ===== *)
theory Redis imports Key_Copies begin

section \<open>Redis caches and their keys (pkg/clients/redis, pkg/clients/rediskeys)\<close>

text \<open>
  The asynchronous client of the caches, which also copies the access keys into a Kubernetes
  secret, and the synchronous client that only copies them.
\<close>

subsection \<open>The SDK\<close>

record redis_sku =
  rdsku_Name :: string
  rdsku_Family :: string
  rdsku_Capacity :: "int option"

record redis_properties =
  rdp_ProvisioningState :: string
  rdp_Sku :: "redis_sku option"
  rdp_EnableNonSslPort :: "bool option"

record redis_resource =
  rdr_Response :: http_response
  rdr_ID :: "string option"
  rdr_Location :: "string option"
  rdr_Properties :: "redis_properties option"

record redis_params =
  rdcp_Location :: string
  rdcp_EnableNonSslPort :: bool
  rdcp_Sku :: redis_sku

record redis_keys =
  rdk_PrimaryKey :: "string option"
  rdk_SecondaryKey :: "string option"

record 'w redis_sdk =
  rd_sdk_Get :: "sdk_client \<Rightarrow> string \<Rightarrow> string \<Rightarrow> ('w, redis_resource \<times> go_error option) go"
  rd_sdk_Create :: "sdk_client \<Rightarrow> string \<Rightarrow> string \<Rightarrow> redis_params \<Rightarrow> ('w, go_error option) go"
  rd_sdk_ListKeys :: "sdk_client \<Rightarrow> string \<Rightarrow> string \<Rightarrow> ('w, redis_keys \<times> go_error option) go"
  rd_sdk_Delete :: "sdk_client \<Rightarrow> string \<Rightarrow> string \<Rightarrow> ('w, http_response \<times> go_error option) go"

subsection \<open>The client of the caches\<close>

definition redis_NewWithFactory :: "config \<Rightarrow> (string \<Rightarrow> sdk_client) \<Rightarrow> mgmt_client" where
  "redis_NewWithFactory configuration factory = new_mgmt_client configuration factory"

definition redis_convert :: "runtime_object \<Rightarrow> go_error + Redis" where
  "redis_convert obj = (case obj of ObjRedis local \<Rightarrow> Inr local | _ \<Rightarrow> Inl (kind_error obj))"

definition redis_ForSubscription :: "auth_lib \<Rightarrow> mgmt_client \<Rightarrow> runtime_object \<Rightarrow> mgmt_client \<times> go_error option" where
  "redis_ForSubscription A c obj =
     (case redis_convert obj of
        Inl err \<Rightarrow> (c, Some err)
      | Inr local \<Rightarrow> authorize_for A c (rds_SubscriptionID (Spec local)))"

definition redis_SetStatus :: "Redis \<Rightarrow> redis_resource \<Rightarrow> Redis" where
  "redis_SetStatus local remote =
     (let st = (Status local)\<lparr>rdst_ID := rdr_ID remote, rdst_ProvisioningState := ''''\<rparr>;
          st = (case rdr_Properties remote of
                  None \<Rightarrow> st
                | Some p \<Rightarrow> st\<lparr>rdst_ProvisioningState := rdp_ProvisioningState p\<rparr>)
      in local\<lparr>Status := st\<rparr>)"

definition redis_Done :: "Redis \<Rightarrow> bool" where
  "redis_Done local \<longleftrightarrow> rdst_ProvisioningState (Status local) = ''Succeeded''"

text \<open>
  \<open>remote.Sku\<close> and \<open>remote.EnableNonSslPort\<close> live behind the embedded \<open>Properties\<close> pointer, so a
  remote without properties panics; so does a remote SKU without capacity, which the third
  comparison dereferences.
\<close>

definition redis_sku_differs :: "RedisSku \<Rightarrow> redis_sku \<Rightarrow> ('w, bool) go" where
  "redis_sku_differs want sku =
     (if \<not> EqualFold (rsku_Name want) (rdsku_Name sku) then go_ret True
      else if \<not> EqualFold (rsku_Family want) (rdsku_Family sku) then go_ret True
      else if rdsku_Capacity sku = None
           then go_bind (go_deref (rdsku_Capacity sku)) (\<lambda>cap. go_ret (rsku_Capacity want \<noteq> cap))
           else go_ret False)"

definition redis_NeedsUpdate :: "Redis \<Rightarrow> redis_resource \<Rightarrow> ('w, bool) go" where
  "redis_NeedsUpdate local remote =
     go_bind (go_deref (rdr_Properties remote)) (\<lambda>p.
     go_bind (case rdp_Sku p of None \<Rightarrow> go_ret False | Some sku \<Rightarrow> redis_sku_differs (rds_SKU (Spec local)) sku) (\<lambda>differs.
       if differs then go_ret True
       else if rdp_EnableNonSslPort p \<noteq> None \<and> rdp_EnableNonSslPort p \<noteq> Some (rds_EnableNonSslPort (Spec local))
       then go_ret True
       else if (case rdr_Location remote of None \<Rightarrow> False | Some l \<Rightarrow> EqualFold l (rds_Location (Spec local)))
       then go_ret True
       else go_ret False))"

definition redis_SyncSecrets ::
  "lib \<Rightarrow> 'w secret_ops \<Rightarrow> 'w redis_sdk \<Rightarrow> mgmt_client \<Rightarrow> Redis \<Rightarrow> ('w, go_error option) go" where
  "redis_SyncSecrets L K S c local =
     (if rds_PrimaryKey (Spec local) = None \<and> rds_SecondaryKey (Spec local) = None then go_ret None
      else
     go_bind (rd_sdk_ListKeys S (mc_internal c) (rds_ResourceGroup (Spec local)) (rds_Name (Spec local))) (\<lambda>(keys, err).
       if err \<noteq> None then go_ret err
       else
     go_bind (go_deref (rds_TargetSecret (Spec local))) (\<lambda>target.
     go_bind (so_CreateOrUpdate K (new_secret target (om_Namespace (ObjectMeta local)))
        (keys_mutate L [(rds_PrimaryKey (Spec local), rdk_PrimaryKey keys),
                        (rds_SecondaryKey (Spec local), rdk_SecondaryKey keys)])) (\<lambda>(_, err).
     go_ret err))))"

definition redis_create ::
  "'w redis_sdk \<Rightarrow> mgmt_client \<Rightarrow> Redis \<Rightarrow> ('w, runtime_object \<times> bool \<times> go_error option) go" where
  "redis_create S c local =
     (let spec = \<lparr>rdcp_Location = rds_Location (Spec local),
                   rdcp_EnableNonSslPort = rds_EnableNonSslPort (Spec local),
                   rdcp_Sku = \<lparr>rdsku_Name = rsku_Name (rds_SKU (Spec local)),
                               rdsku_Family = rsku_Family (rds_SKU (Spec local)),
                               rdsku_Capacity = Some (rsku_Capacity (rds_SKU (Spec local)))\<rparr>\<rparr> in
      go_bind (rd_sdk_Create S (mc_internal c) (rds_ResourceGroup (Spec local)) (rds_Name (Spec local)) spec) (\<lambda>err.
        if err \<noteq> None then go_ret (ObjRedis local, False, err) else go_ret (ObjRedis local, False, None)))"

text \<open>\<open>kubeclient\<close> is \<open>None\<close> when the client has no Kubernetes client (the command line tool).\<close>

definition redis_Ensure ::
  "lib \<Rightarrow> 'w secret_ops option \<Rightarrow> 'w redis_sdk \<Rightarrow> mgmt_client \<Rightarrow> runtime_object \<Rightarrow>
   ('w, runtime_object \<times> bool \<times> go_error option) go" where
  "redis_Ensure L kubeclient S c obj =
     (case redis_convert obj of
        Inl err \<Rightarrow> go_ret (obj, False, Some err)
      | Inr local \<Rightarrow>
     go_bind (rd_sdk_Get S (mc_internal c) (rds_ResourceGroup (Spec local)) (rds_Name (Spec local))) (\<lambda>(remote, err).
       let found = (\<not> IsHTTPStatus L (rdr_Response remote) StatusNotFound);
           local = redis_SetStatus local remote
       in
       if err \<noteq> None \<and> found then go_ret (ObjRedis local, False, err)
       else if found then
         (if redis_Done local then
            go_bind (case kubeclient of None \<Rightarrow> go_ret None | Some K \<Rightarrow> redis_SyncSecrets L K S c local) (\<lambda>err.
              if err \<noteq> None then go_ret (ObjRedis local, False, err)
              else go_bind (redis_NeedsUpdate local remote) (\<lambda>needs.
                if \<not> needs then go_ret (ObjRedis local, True, None) else redis_create S c local))
          else go_ret (ObjRedis local, False, None))
       else redis_create S c local))"

definition redis_Delete ::
  "lib \<Rightarrow> 'w redis_sdk \<Rightarrow> mgmt_client \<Rightarrow> runtime_object \<Rightarrow> ('w, runtime_object \<times> bool \<times> go_error option) go" where
  "redis_Delete L S c obj =
     (case redis_convert obj of
        Inl err \<Rightarrow> go_ret (obj, False, Some err)
      | Inr local \<Rightarrow>
     go_bind (rd_sdk_Delete S (mc_internal c) (rds_ResourceGroup (Spec local)) (rds_Name (Spec local))) (\<lambda>(resp, err).
       if err \<noteq> None \<and> resp \<noteq> None \<and> resp \<noteq> Some StatusNotFound \<and> resp \<noteq> Some StatusConflict
       then go_ret (obj, False, err)
       else
     go_bind (rd_sdk_Get S (mc_internal c) (rds_ResourceGroup (Spec local)) (rds_Name (Spec local))) (\<lambda>(remote, err).
       let found = (\<not> IsHTTPStatus L (rdr_Response remote) StatusNotFound);
           local = redis_SetStatus local remote
       in
       if err \<noteq> None \<and> IsHTTPStatus L (rdr_Response remote) StatusNotFound
       then go_ret (ObjRedis local, False, None)
       else go_ret (ObjRedis local, found, err))))"

definition redis_client ::
  "lib \<Rightarrow> auth_lib \<Rightarrow> 'w secret_ops option \<Rightarrow> 'w redis_sdk \<Rightarrow> (mgmt_client \<times> 'w) AsyncClient" where
  "redis_client L A K S = \<lparr>
     async_ForSubscription = (\<lambda>obj. on_self (\<lambda>c. redis_ForSubscription A c obj)),
     async_Ensure = (\<lambda>obj. on_world (\<lambda>c. redis_Ensure L K S c obj)),
     async_Delete = (\<lambda>obj. on_world (\<lambda>c. redis_Delete L S c obj))\<rparr>"

subsection \<open>The client of the keys\<close>

definition rediskey_NewWithFactory :: "config \<Rightarrow> (string \<Rightarrow> sdk_client) \<Rightarrow> mgmt_client" where
  "rediskey_NewWithFactory configuration factory = new_mgmt_client configuration factory"

definition rediskey_convert :: "runtime_object \<Rightarrow> go_error + RedisKey" where
  "rediskey_convert obj = (case obj of ObjRedisKey local \<Rightarrow> Inr local | _ \<Rightarrow> Inl (kind_error obj))"

definition rediskey_ForSubscription :: "auth_lib \<Rightarrow> mgmt_client \<Rightarrow> runtime_object \<Rightarrow> mgmt_client \<times> go_error option" where
  "rediskey_ForSubscription A c obj =
     (case rediskey_convert obj of
        Inl err \<Rightarrow> (c, Some err)
      | Inr local \<Rightarrow> authorize_for A c (rks_SubscriptionID (Spec local)))"

definition rediskey_Ensure ::
  "lib \<Rightarrow> 'w secret_ops \<Rightarrow> 'w redis_sdk \<Rightarrow> mgmt_client \<Rightarrow> runtime_object \<Rightarrow> ('w, runtime_object \<times> go_error option) go" where
  "rediskey_Ensure L K S c obj =
     (case rediskey_convert obj of
        Inl err \<Rightarrow> go_ret (obj, Some err)
      | Inr local \<Rightarrow>
     (if rks_PrimaryKey (Spec local) = None \<and> rks_SecondaryKey (Spec local) = None then go_ret (obj, None)
      else
     go_bind (rd_sdk_ListKeys S (mc_internal c) (rks_ResourceGroup (Spec local)) (rks_Name (Spec local))) (\<lambda>(keys, err).
       if err \<noteq> None then go_ret (obj, err)
       else
     go_bind (so_CreateOrUpdate K (new_secret (rks_TargetSecret (Spec local)) (om_Namespace (ObjectMeta local)))
        (keys_mutate L [(rks_PrimaryKey (Spec local), rdk_PrimaryKey keys),
                        (rks_SecondaryKey (Spec local), rdk_SecondaryKey keys)])) (\<lambda>(_, err).
     go_ret (obj, err)))))"

definition rediskey_Delete ::
  "lib \<Rightarrow> 'w secret_ops \<Rightarrow> runtime_object \<Rightarrow> ('w, runtime_object \<times> go_error option) go" where
  "rediskey_Delete L K obj =
     (case rediskey_convert obj of
        Inl err \<Rightarrow> go_ret (obj, Some err)
      | Inr local \<Rightarrow>
     go_bind (so_Delete K (new_secret (rks_TargetSecret (Spec local)) (om_Namespace (ObjectMeta local)))) (\<lambda>err.
     go_ret (obj, IgnoreNotFound L err)))"

definition rediskey_client ::
  "lib \<Rightarrow> auth_lib \<Rightarrow> 'w secret_ops \<Rightarrow> 'w redis_sdk \<Rightarrow> (mgmt_client \<times> 'w) SyncClient" where
  "rediskey_client L A K S = \<lparr>
     sync_ForSubscription = (\<lambda>obj. on_self (\<lambda>c. rediskey_ForSubscription A c obj)),
     sync_Ensure = (\<lambda>obj. on_world (\<lambda>c. rediskey_Ensure L K S c obj)),
     sync_Delete = (\<lambda>obj. on_world (\<lambda>c. rediskey_Delete L K obj))\<rparr>"

subsection \<open>Lemmas\<close>

lemma redis_convert_Inr [simp]: "redis_convert obj = Inr local \<longleftrightarrow> obj = ObjRedis local"
  by (cases obj) (simp_all add: redis_convert_def)

lemma redis_convert_Inl [simp]: "redis_convert obj = Inl err \<longleftrightarrow> kind_of obj \<noteq> KRedis \<and> err = kind_error obj"
  by (cases obj) (auto simp: redis_convert_def)

lemma rediskey_convert_Inr [simp]: "rediskey_convert obj = Inr local \<longleftrightarrow> obj = ObjRedisKey local"
  by (cases obj) (simp_all add: rediskey_convert_def)

lemma redis_SetStatus_keeps [simp]:
  "(redis_SetStatus local remote)\<lparr>Status := st\<rparr> = local\<lparr>Status := st\<rparr>"
  "Spec (redis_SetStatus local remote) = Spec local" "ObjectMeta (redis_SetStatus local remote) = ObjectMeta local"
  by (simp_all add: redis_SetStatus_def Let_def)

lemmas redis_defs = redis_Ensure_def redis_create_def redis_Delete_def Let_def

lemma redis_Ensure_Returns:
  assumes "redis_Ensure L K S c obj w = (Returns (obj', done, err), w')"
  shows "clear_status obj' = clear_status obj" and "done \<Longrightarrow> err = None"
  using assms
  by (auto simp: redis_defs go_returns split: sum.splits prod.splits if_splits)

lemma redis_Delete_Returns:
  assumes "redis_Delete L S c obj w = (Returns (obj', found, err), w')"
  shows "clear_status obj' = clear_status obj"
  using assms
  by (auto simp: redis_defs go_returns split: sum.splits prod.splits if_splits)

interpretation redis: strict_async_client "redis_client L A K S" "\<lambda>obj. kind_of obj = KRedis"
  for L :: lib and A :: auth_lib and K :: "'w secret_ops option" and S :: "'w redis_sdk"
proof unfold_locales
  show "\<exists>err. async_ForSubscription (redis_client L A K S) obj = go_ret (Some err)"
    if "kind_of obj \<noteq> KRedis" for obj
    using that
    by (auto simp: redis_client_def on_self_def redis_ForSubscription_def go_ret_def fun_eq_iff split: sum.splits)
qed (auto simp: redis_client_def go_returns dest: redis_Ensure_Returns redis_Delete_Returns)

interpretation rediskey: sync_client "rediskey_client L A K S"
  for L :: lib and A :: auth_lib and K :: "'w secret_ops" and S :: "'w redis_sdk"
  by unfold_locales
    (auto simp: rediskey_client_def rediskey_Ensure_def rediskey_Delete_def go_returns
      split: sum.splits prod.splits if_splits)

text \<open>When it decides, \<open>NeedsUpdate\<close> compares the location the wrong way round, and it never sees a
  change of the capacity.\<close>

lemma redis_NeedsUpdate_eq:
  assumes "rdr_Properties remote = Some p" "\<And>sku. rdp_Sku p = Some sku \<Longrightarrow> rdsku_Capacity sku \<noteq> None"
  shows "redis_NeedsUpdate x remote = go_ret
    ((\<exists>sku. rdp_Sku p = Some sku \<and> \<not> (EqualFold (rsku_Name (rds_SKU (Spec x))) (rdsku_Name sku) \<and>
        EqualFold (rsku_Family (rds_SKU (Spec x))) (rdsku_Family sku))) \<or>
     (\<exists>b. rdp_EnableNonSslPort p = Some b \<and> b \<noteq> rds_EnableNonSslPort (Spec x)) \<or>
     (\<exists>l. rdr_Location remote = Some l \<and> EqualFold l (rds_Location (Spec x))))"
  using assms by (auto simp: redis_NeedsUpdate_def redis_sku_differs_def go_simps go_bind_choice split: option.split)

lemma redis_same_location_needs_update:
  assumes "rdr_Properties remote = Some p" "\<And>sku. rdp_Sku p = Some sku \<Longrightarrow> rdsku_Capacity sku \<noteq> None"
    and "rdr_Location remote = Some l" "EqualFold l (rds_Location (Spec x))"
  shows "redis_NeedsUpdate x remote = go_ret True"
  using assms by (auto simp: redis_NeedsUpdate_def redis_sku_differs_def go_simps go_bind_choice split: option.split)

lemma redis_nil_capacity_panics:
  assumes "rdr_Properties remote = Some p" "rdp_Sku p = Some sku" "rdsku_Capacity sku = None"
    and "EqualFold (rsku_Name (rds_SKU (Spec x))) (rdsku_Name sku)" "EqualFold (rsku_Family (rds_SKU (Spec x))) (rdsku_Family sku)"
  shows "redis_NeedsUpdate x remote = go_panic"
  using assms by (simp add: redis_NeedsUpdate_def redis_sku_differs_def go_deref_simps go_bind_ret go_bind_panic)

text \<open>Hence \<open>Ensure\<close> never reports a cache as done that Azure reports at the wanted location.\<close>

lemma redis_Ensure_never_done:
  assumes "lib_ok L"
    and get: "rd_sdk_Get S (mc_internal c) (rds_ResourceGroup (Spec x)) (rds_Name (Spec x)) w = (Returns (remote, None), w1)"
    and props: "rdr_Properties remote = Some p" "\<And>sku. rdp_Sku p = Some sku \<Longrightarrow> rdsku_Capacity sku \<noteq> None"
    and loc: "rdr_Location remote = Some l" "EqualFold l (rds_Location (Spec x))"
    and run: "redis_Ensure L K S c (ObjRedis x) w = (Returns (obj', done, err), w')"
  shows "\<not> done"
proof -
  have nu: "redis_NeedsUpdate (redis_SetStatus x remote) remote = go_ret True"
    using redis_same_location_needs_update [OF props loc(1), of "redis_SetStatus x remote"] loc(2) by simp
  from run get show ?thesis
    by (auto simp: redis_defs redis_convert_def go_returns go_bind_apply nu split: if_splits prod.splits option.splits
        outcome.splits)
qed

text \<open>And each \<open>Ensure\<close> of such a cache that is provisioned writes it again, once its keys are copied.\<close>

lemma redis_SyncSecrets_status: "redis_SyncSecrets L K S c (redis_SetStatus x remote) = redis_SyncSecrets L K S c x"
  unfolding redis_SyncSecrets_def redis_SetStatus_keeps ..

lemma redis_Ensure_writes_again:
  assumes L: "lib_ok L"
    and get: "rd_sdk_Get S (mc_internal c) (rds_ResourceGroup (Spec x)) (rds_Name (Spec x)) w = (Returns (remote, None), w1)"
    and found: "rdr_Response remote \<noteq> Some StatusNotFound" "rdp_ProvisioningState p = ''Succeeded''"
    and props: "rdr_Properties remote = Some p" "\<And>sku. rdp_Sku p = Some sku \<Longrightarrow> rdsku_Capacity sku \<noteq> None"
    and loc: "rdr_Location remote = Some l" "EqualFold l (rds_Location (Spec x))"
    and copied: "(case K of None \<Rightarrow> go_ret None | Some K' \<Rightarrow> redis_SyncSecrets L K' S c x) w1 = (Returns None, w2)"
  shows "redis_Ensure L K S c (ObjRedis x) w =
    go_bind (rd_sdk_Create S (mc_internal c) (rds_ResourceGroup (Spec x)) (rds_Name (Spec x))
        \<lparr>rdcp_Location = rds_Location (Spec x), rdcp_EnableNonSslPort = rds_EnableNonSslPort (Spec x),
         rdcp_Sku = \<lparr>rdsku_Name = rsku_Name (rds_SKU (Spec x)), rdsku_Family = rsku_Family (rds_SKU (Spec x)),
           rdsku_Capacity = Some (rsku_Capacity (rds_SKU (Spec x)))\<rparr>\<rparr>)
      (\<lambda>err. go_ret (ObjRedis (redis_SetStatus x remote), False, err)) w2"
proof -
  let ?x = "redis_SetStatus x remote"
  have copied': "(case K of None \<Rightarrow> go_ret None | Some K' \<Rightarrow> redis_SyncSecrets L K' S c ?x) w1 = (Returns None, w2)"
    using copied unfolding redis_SyncSecrets_status .
  have nu: "redis_NeedsUpdate ?x remote = go_ret True"
    using redis_same_location_needs_update [OF props loc(1), of ?x] loc(2) by simp
  have "redis_Done ?x" using found(2) props(1) by (simp add: redis_Done_def redis_SetStatus_def Let_def)
  with get found(1) copied' have "redis_Ensure L K S c (ObjRedis x) w = redis_create S c ?x w2"
    by (simp add: redis_Ensure_def redis_convert_def go_bind_step lib_okD(1) [OF L] Let_def nu go_bind_ret)
  also have "redis_create S c ?x = go_bind (rd_sdk_Create S (mc_internal c) (rds_ResourceGroup (Spec x)) (rds_Name (Spec x))
        \<lparr>rdcp_Location = rds_Location (Spec x), rdcp_EnableNonSslPort = rds_EnableNonSslPort (Spec x),
         rdcp_Sku = \<lparr>rdsku_Name = rsku_Name (rds_SKU (Spec x)), rdsku_Family = rsku_Family (rds_SKU (Spec x)),
           rdsku_Capacity = Some (rsku_Capacity (rds_SKU (Spec x)))\<rparr>\<rparr>)
      (\<lambda>err. go_ret (ObjRedis ?x, False, err))"
    by (auto simp: redis_create_def Let_def intro!: arg_cong2 [where f = go_bind])
  finally show ?thesis .
qed

text \<open>A key copy that succeeds stored every wanted key; a wanted key that Azure does not have is an
  error.\<close>

lemma rediskey_Ensure_stores:
  assumes "lib_ok L" "secret_ops_ok L K st"
    and "rks_PrimaryKey (Spec x) \<noteq> None \<or> rks_SecondaryKey (Spec x) \<noteq> None"
    and "rd_sdk_ListKeys S (mc_internal c) (rks_ResourceGroup (Spec x)) (rks_Name (Spec x)) w = (Returns (keys, None), w1)"
    and "rediskey_Ensure L K S c (ObjRedisKey x) w = (Returns (obj', None), w')"
  shows "\<exists>s. st w' (om_Namespace (ObjectMeta x), rks_TargetSecret (Spec x)) = Some s \<and>
     ks_Data s = Some (upd_all
       (wanted_entries [(rks_PrimaryKey (Spec x), rdk_PrimaryKey keys), (rks_SecondaryKey (Spec x), rdk_SecondaryKey keys)])
       (case st w1 (om_Namespace (ObjectMeta x), rks_TargetSecret (Spec x)) of
          None \<Rightarrow> Map.empty | Some old \<Rightarrow> secret_data old)) \<and>
     (rks_PrimaryKey (Spec x) \<noteq> None \<longrightarrow> rdk_PrimaryKey keys \<noteq> None) \<and>
     (rks_SecondaryKey (Spec x) \<noteq> None \<longrightarrow> rdk_SecondaryKey keys \<noteq> None)"
proof -
  from assms(3-5) obtain s' where
    "so_CreateOrUpdate K (new_secret (rks_TargetSecret (Spec x)) (om_Namespace (ObjectMeta x)))
       (keys_mutate L [(rks_PrimaryKey (Spec x), rdk_PrimaryKey keys),
                       (rks_SecondaryKey (Spec x), rdk_SecondaryKey keys)]) w1 = (Returns (s', None), w')"
    by (auto simp: rediskey_Ensure_def rediskey_convert_def go_returns go_bind_apply go_ret_def
        split: prod.splits outcome.splits if_splits)
  from keys_stored [OF assms(1,2) this] show ?thesis
    by (auto simp: wanted_missing_Cons)
qed

end
