(* ===== verification/ServiceBus.thy ===== *)
theory ServiceBus imports Key_Copies begin

section \<open>Service bus namespaces and their keys (pkg/clients/servicebus, pkg/clients/servicebuskey)\<close>

text \<open>
  The asynchronous client of the namespaces, which also copies the access keys into a Kubernetes
  secret, and the synchronous client that only copies them.
\<close>

subsection \<open>The SDK\<close>

record sb_sku =
  sbk_Name :: string
  sbk_Tier :: string
  sbk_Capacity :: "int option"

text \<open>\<open>sbr_Properties\<close>: the embedded properties pointer with its \<open>ProvisioningState\<close>.\<close>

record sb_namespace =
  sbr_Response :: http_response
  sbr_ID :: "string option"
  sbr_Location :: "string option"
  sbr_Sku :: "sb_sku option"
  sbr_Properties :: "string option option"

definition zero_sb_namespace :: sb_namespace where
  "zero_sb_namespace = \<lparr>sbr_Response = None, sbr_ID = None, sbr_Location = None, sbr_Sku = None,
     sbr_Properties = None\<rparr>"

record sb_keys =
  sbk_PrimaryKey :: "string option"
  sbk_SecondaryKey :: "string option"
  sbk_PrimaryConnectionString :: "string option"
  sbk_SecondaryConnectionString :: "string option"

record 'w sb_sdk =
  sb_sdk_Get :: "sdk_client \<Rightarrow> string \<Rightarrow> string \<Rightarrow> ('w, sb_namespace \<times> go_error option) go"
  sb_sdk_CreateOrUpdate :: "sdk_client \<Rightarrow> string \<Rightarrow> string \<Rightarrow> sb_namespace \<Rightarrow> ('w, go_error option) go"
  sb_sdk_ListKeys :: "sdk_client \<Rightarrow> string \<Rightarrow> string \<Rightarrow> string \<Rightarrow> ('w, sb_keys \<times> go_error option) go"
  sb_sdk_Delete :: "sdk_client \<Rightarrow> string \<Rightarrow> string \<Rightarrow> ('w, http_response \<times> go_error option) go"

subsection \<open>The client of the namespaces\<close>

definition sb_NewWithFactory :: "config \<Rightarrow> (string \<Rightarrow> sdk_client) \<Rightarrow> mgmt_client" where
  "sb_NewWithFactory configuration factory = new_mgmt_client configuration factory"

definition sb_convert :: "runtime_object \<Rightarrow> go_error + ServiceBusNamespace" where
  "sb_convert obj = (case obj of ObjServiceBusNamespace local \<Rightarrow> Inr local | _ \<Rightarrow> Inl (kind_error obj))"

definition sb_ForSubscription :: "auth_lib \<Rightarrow> mgmt_client \<Rightarrow> runtime_object \<Rightarrow> mgmt_client \<times> go_error option" where
  "sb_ForSubscription A c obj =
     (case sb_convert obj of
        Inl err \<Rightarrow> (c, Some err)
      | Inr local \<Rightarrow> authorize_for A c (sbns_SubscriptionID (Spec local)))"

definition sb_SetStatus :: "ServiceBusNamespace \<Rightarrow> sb_namespace \<Rightarrow> ServiceBusNamespace" where
  "sb_SetStatus local remote =
     (let st = (Status local)\<lparr>sbnst_ID := sbr_ID remote, sbnst_ProvisioningState := None\<rparr>;
          st = (case sbr_Properties remote of
                  None \<Rightarrow> st
                | Some p \<Rightarrow> st\<lparr>sbnst_ProvisioningState := p\<rparr>)
      in local\<lparr>Status := st\<rparr>)"

definition sb_Done :: "ServiceBusNamespace \<Rightarrow> bool" where
  "sb_Done local \<longleftrightarrow> sbnst_ProvisioningState (Status local) = Some ''Succeeded''"

definition sb_sku_differs :: "ServiceBusNamespaceSku \<Rightarrow> sb_sku \<Rightarrow> bool" where
  "sb_sku_differs want sku =
     (if \<not> EqualFold (sbsku_Name want) (sbk_Name sku) then True
      else if \<not> EqualFold (sbsku_Tier want) (sbk_Tier sku) then True
      else (case sbk_Capacity sku of None \<Rightarrow> False | Some cap \<Rightarrow> sbsku_Capacity want \<noteq> cap))"

definition sb_NeedsUpdate :: "ServiceBusNamespace \<Rightarrow> sb_namespace \<Rightarrow> bool" where
  "sb_NeedsUpdate local remote =
     (if (case sbr_Sku remote of None \<Rightarrow> False | Some sku \<Rightarrow> sb_sku_differs (sbns_SKU (Spec local)) sku) then True
      else if (case sbr_Location remote of None \<Rightarrow> False | Some l \<Rightarrow> EqualFold l (sbns_Location (Spec local)))
      then True
      else False)"

text \<open>A key Azure lists but the object does not name is a nil dereference.\<close>

definition sb_list_entry :: "string option \<Rightarrow> string option \<Rightarrow> (string \<times> string) list option" where
  "sb_list_entry have want =
     (case have of None \<Rightarrow> Some [] | Some val \<Rightarrow> map_option (\<lambda>key. [(key, val)]) want)"

definition sb_listed ::
  "sb_keys \<Rightarrow> string option \<Rightarrow> string option \<Rightarrow> string option \<Rightarrow> string option \<Rightarrow> (string \<times> string) list option" where
  "sb_listed keys pk sk pc sc =
     Option.bind (sb_list_entry (sbk_PrimaryKey keys) pk) (\<lambda>e1.
     Option.bind (sb_list_entry (sbk_SecondaryKey keys) sk) (\<lambda>e2.
     Option.bind (sb_list_entry (sbk_PrimaryConnectionString keys) pc) (\<lambda>e3.
     map_option (\<lambda>e4. e1 @ e2 @ e3 @ e4) (sb_list_entry (sbk_SecondaryConnectionString keys) sc))))"

text \<open>The result map as the list of its assignments, in order; a later one wins.\<close>

definition sb_ListKeys ::
  "'w sb_sdk \<Rightarrow> mgmt_client \<Rightarrow> ServiceBusNamespace \<Rightarrow> ('w, (string \<times> string) list option \<times> go_error option) go" where
  "sb_ListKeys S c local =
     go_bind (sb_sdk_ListKeys S (mc_internal c) (sbns_ResourceGroup (Spec local)) (sbns_Name (Spec local))
                ''RootManageSharedAccessKey'') (\<lambda>(keys, err).
       if err \<noteq> None then go_ret (None, err)
       else go_bind (go_deref (sb_listed keys (sbns_PrimaryKey (Spec local)) (sbns_SecondaryKey (Spec local))
              (sbns_PrimaryConnectionString (Spec local)) (sbns_SecondaryConnectionString (Spec local))))
            (\<lambda>result. go_ret (Some result, None)))"

definition sb_wanted :: "ServiceBusNamespaceSpec \<Rightarrow> sb_keys \<Rightarrow> (string option \<times> string option) list" where
  "sb_wanted sp keys =
     [(sbns_PrimaryKey sp, sbk_PrimaryKey keys), (sbns_SecondaryKey sp, sbk_SecondaryKey keys),
      (sbns_PrimaryConnectionString sp, sbk_PrimaryConnectionString keys),
      (sbns_SecondaryConnectionString sp, sbk_SecondaryConnectionString keys)]"

definition sb_SyncSecrets ::
  "lib \<Rightarrow> 'w secret_ops \<Rightarrow> 'w sb_sdk \<Rightarrow> mgmt_client \<Rightarrow> ServiceBusNamespace \<Rightarrow> ('w, go_error option) go" where
  "sb_SyncSecrets L K S c local =
     (case sbns_TargetSecret (Spec local) of
        None \<Rightarrow> go_ret None
      | Some target \<Rightarrow>
     go_bind (sb_sdk_ListKeys S (mc_internal c) (sbns_ResourceGroup (Spec local)) (sbns_Name (Spec local))
                ''RootManageSharedAccessKey'') (\<lambda>(keys, err).
       if err \<noteq> None then go_ret err
       else
     go_bind (so_CreateOrUpdate K (new_secret target (om_Namespace (ObjectMeta local)))
        (keys_mutate L (sb_wanted (Spec local) keys))) (\<lambda>(_, err).
     go_ret err)))"

definition sb_create ::
  "'w sb_sdk \<Rightarrow> mgmt_client \<Rightarrow> ServiceBusNamespace \<Rightarrow> ('w, runtime_object \<times> bool \<times> go_error option) go" where
  "sb_create S c local =
     (let spec = zero_sb_namespace\<lparr>sbr_Location := Some (sbns_Location (Spec local)),
                   sbr_Sku := Some \<lparr>sbk_Name = sbsku_Name (sbns_SKU (Spec local)),
                                    sbk_Tier = sbsku_Tier (sbns_SKU (Spec local)),
                                    sbk_Capacity = Some (sbsku_Capacity (sbns_SKU (Spec local)))\<rparr>\<rparr> in
      go_bind (sb_sdk_CreateOrUpdate S (mc_internal c) (sbns_ResourceGroup (Spec local)) (sbns_Name (Spec local)) spec) (\<lambda>err.
        if err \<noteq> None then go_ret (ObjServiceBusNamespace local, False, err)
        else go_ret (ObjServiceBusNamespace local, False, None)))"

definition sb_Ensure ::
  "lib \<Rightarrow> 'w secret_ops option \<Rightarrow> 'w sb_sdk \<Rightarrow> mgmt_client \<Rightarrow> runtime_object \<Rightarrow>
   ('w, runtime_object \<times> bool \<times> go_error option) go" where
  "sb_Ensure L kubeclient S c obj =
     (case sb_convert obj of
        Inl err \<Rightarrow> go_ret (obj, False, Some err)
      | Inr local \<Rightarrow>
     go_bind (sb_sdk_Get S (mc_internal c) (sbns_ResourceGroup (Spec local)) (sbns_Name (Spec local))) (\<lambda>(remote, err).
       let found = (\<not> IsHTTPStatus L (sbr_Response remote) StatusNotFound);
           local = sb_SetStatus local remote
       in
       if err \<noteq> None \<and> found then go_ret (ObjServiceBusNamespace local, False, err)
       else if found then
         (if sb_Done local then
            go_bind (case kubeclient of None \<Rightarrow> go_ret None | Some K \<Rightarrow> sb_SyncSecrets L K S c local) (\<lambda>err.
              if err \<noteq> None then go_ret (ObjServiceBusNamespace local, False, err)
              else if \<not> sb_NeedsUpdate local remote then go_ret (ObjServiceBusNamespace local, True, None)
              else sb_create S c local)
          else go_ret (ObjServiceBusNamespace local, False, None))
       else sb_create S c local))"

definition sb_Get :: "'w sb_sdk \<Rightarrow> mgmt_client \<Rightarrow> runtime_object \<Rightarrow> ('w, sb_namespace \<times> go_error option) go" where
  "sb_Get S c obj =
     (case sb_convert obj of
        Inl err \<Rightarrow> go_ret (zero_sb_namespace, Some err)
      | Inr local \<Rightarrow> sb_sdk_Get S (mc_internal c) (sbns_ResourceGroup (Spec local)) (sbns_Name (Spec local)))"

definition sb_Delete ::
  "lib \<Rightarrow> 'w sb_sdk \<Rightarrow> mgmt_client \<Rightarrow> runtime_object \<Rightarrow> ('w, runtime_object \<times> bool \<times> go_error option) go" where
  "sb_Delete L S c obj =
     (case sb_convert obj of
        Inl err \<Rightarrow> go_ret (obj, False, Some err)
      | Inr local \<Rightarrow>
     go_bind (sb_sdk_Delete S (mc_internal c) (sbns_ResourceGroup (Spec local)) (sbns_Name (Spec local))) (\<lambda>(resp, err).
       if err \<noteq> None \<and> resp \<noteq> None \<and> resp \<noteq> Some StatusNotFound then go_ret (obj, False, err)
       else
     go_bind (sb_sdk_Get S (mc_internal c) (sbns_ResourceGroup (Spec local)) (sbns_Name (Spec local))) (\<lambda>(remote, err).
       let found = (\<not> IsHTTPStatus L (sbr_Response remote) StatusNotFound);
           local = sb_SetStatus local remote
       in
       if err \<noteq> None \<and> IsHTTPStatus L (sbr_Response remote) StatusNotFound
       then go_ret (ObjServiceBusNamespace local, False, None)
       else go_ret (ObjServiceBusNamespace local, found, err))))"

definition sb_client ::
  "lib \<Rightarrow> auth_lib \<Rightarrow> 'w secret_ops option \<Rightarrow> 'w sb_sdk \<Rightarrow> (mgmt_client \<times> 'w) AsyncClient" where
  "sb_client L A K S = \<lparr>
     async_ForSubscription = (\<lambda>obj. on_self (\<lambda>c. sb_ForSubscription A c obj)),
     async_Ensure = (\<lambda>obj. on_world (\<lambda>c. sb_Ensure L K S c obj)),
     async_Delete = (\<lambda>obj. on_world (\<lambda>c. sb_Delete L S c obj))\<rparr>"

subsection \<open>The client of the keys\<close>

definition sbkey_NewWithFactory :: "config \<Rightarrow> (string \<Rightarrow> sdk_client) \<Rightarrow> mgmt_client" where
  "sbkey_NewWithFactory configuration factory = new_mgmt_client configuration factory"

definition sbkey_convert :: "runtime_object \<Rightarrow> go_error + ServiceBusKey" where
  "sbkey_convert obj = (case obj of ObjServiceBusKey local \<Rightarrow> Inr local | _ \<Rightarrow> Inl (kind_error obj))"

definition sbkey_ForSubscription :: "auth_lib \<Rightarrow> mgmt_client \<Rightarrow> runtime_object \<Rightarrow> mgmt_client \<times> go_error option" where
  "sbkey_ForSubscription A c obj =
     (case sbkey_convert obj of
        Inl err \<Rightarrow> (c, Some err)
      | Inr local \<Rightarrow> authorize_for A c (sbks_SubscriptionID (Spec local)))"

definition sbkey_ListKeys ::
  "'w sb_sdk \<Rightarrow> mgmt_client \<Rightarrow> ServiceBusKey \<Rightarrow> ('w, (string \<times> string) list option \<times> go_error option) go" where
  "sbkey_ListKeys S c local =
     go_bind (sb_sdk_ListKeys S (mc_internal c) (sbks_ResourceGroup (Spec local)) (sbks_Name (Spec local))
                ''RootManageSharedAccessKey'') (\<lambda>(keys, err).
       if err \<noteq> None then go_ret (None, err)
       else go_bind (go_deref (sb_listed keys (sbks_PrimaryKey (Spec local)) (sbks_SecondaryKey (Spec local))
              (sbks_PrimaryConnectionString (Spec local)) (sbks_SecondaryConnectionString (Spec local))))
            (\<lambda>result. go_ret (Some result, None)))"

definition sbkey_wanted :: "ServiceBusKeySpec \<Rightarrow> sb_keys \<Rightarrow> (string option \<times> string option) list" where
  "sbkey_wanted sp keys =
     [(sbks_PrimaryKey sp, sbk_PrimaryKey keys), (sbks_SecondaryKey sp, sbk_SecondaryKey keys),
      (sbks_PrimaryConnectionString sp, sbk_PrimaryConnectionString keys),
      (sbks_SecondaryConnectionString sp, sbk_SecondaryConnectionString keys)]"

definition sbkey_Ensure ::
  "lib \<Rightarrow> 'w secret_ops \<Rightarrow> 'w sb_sdk \<Rightarrow> mgmt_client \<Rightarrow> runtime_object \<Rightarrow> ('w, runtime_object \<times> go_error option) go" where
  "sbkey_Ensure L K S c obj =
     (case sbkey_convert obj of
        Inl err \<Rightarrow> go_ret (obj, Some err)
      | Inr local \<Rightarrow>
     go_bind (sb_sdk_ListKeys S (mc_internal c) (sbks_ResourceGroup (Spec local)) (sbks_Name (Spec local))
                ''RootManageSharedAccessKey'') (\<lambda>(keys, err).
       if err \<noteq> None then go_ret (obj, err)
       else
     go_bind (so_CreateOrUpdate K (new_secret (sbks_TargetSecret (Spec local)) (om_Namespace (ObjectMeta local)))
        (keys_mutate L (sbkey_wanted (Spec local) keys))) (\<lambda>(_, err).
     go_ret (obj, err))))"

definition sbkey_Delete :: "lib \<Rightarrow> 'w secret_ops \<Rightarrow> runtime_object \<Rightarrow> ('w, runtime_object \<times> go_error option) go" where
  "sbkey_Delete L K obj =
     (case sbkey_convert obj of
        Inl err \<Rightarrow> go_ret (obj, Some err)
      | Inr local \<Rightarrow>
     go_bind (so_Delete K (new_secret (sbks_TargetSecret (Spec local)) (om_Namespace (ObjectMeta local)))) (\<lambda>err.
     go_ret (obj, IgnoreNotFound L err)))"

definition sbkey_client ::
  "lib \<Rightarrow> auth_lib \<Rightarrow> 'w secret_ops \<Rightarrow> 'w sb_sdk \<Rightarrow> (mgmt_client \<times> 'w) SyncClient" where
  "sbkey_client L A K S = \<lparr>
     sync_ForSubscription = (\<lambda>obj. on_self (\<lambda>c. sbkey_ForSubscription A c obj)),
     sync_Ensure = (\<lambda>obj. on_world (\<lambda>c. sbkey_Ensure L K S c obj)),
     sync_Delete = (\<lambda>obj. on_world (\<lambda>c. sbkey_Delete L K obj))\<rparr>"

subsection \<open>Lemmas\<close>

lemma sb_convert_Inr [simp]: "sb_convert obj = Inr local \<longleftrightarrow> obj = ObjServiceBusNamespace local"
  by (cases obj) (simp_all add: sb_convert_def)

lemma sb_convert_Inl [simp]:
  "sb_convert obj = Inl err \<longleftrightarrow> kind_of obj \<noteq> KServiceBusNamespace \<and> err = kind_error obj"
  by (cases obj) (auto simp: sb_convert_def)

lemma sb_SetStatus_keeps [simp]:
  "(sb_SetStatus local remote)\<lparr>Status := st\<rparr> = local\<lparr>Status := st\<rparr>"
  "Spec (sb_SetStatus local remote) = Spec local" "ObjectMeta (sb_SetStatus local remote) = ObjectMeta local"
  by (simp_all add: sb_SetStatus_def Let_def)

lemmas sb_defs = sb_Ensure_def sb_create_def sb_Delete_def Let_def

lemma sb_Ensure_Returns:
  assumes "sb_Ensure L K S c obj w = (Returns (obj', done, err), w')"
  shows "clear_status obj' = clear_status obj" and "done \<Longrightarrow> err = None"
  using assms
  by (auto simp: sb_defs go_returns split: sum.splits prod.splits if_splits)

lemma sb_Delete_Returns:
  assumes "sb_Delete L S c obj w = (Returns (obj', found, err), w')"
  shows "clear_status obj' = clear_status obj"
  using assms
  by (auto simp: sb_defs go_returns split: sum.splits prod.splits if_splits)

interpretation sb: strict_async_client "sb_client L A K S" "\<lambda>obj. kind_of obj = KServiceBusNamespace"
  for L :: lib and A :: auth_lib and K :: "'w secret_ops option" and S :: "'w sb_sdk"
proof unfold_locales
  show "\<exists>err. async_ForSubscription (sb_client L A K S) obj = go_ret (Some err)"
    if "kind_of obj \<noteq> KServiceBusNamespace" for obj
    using that
    by (auto simp: sb_client_def on_self_def sb_ForSubscription_def go_ret_def fun_eq_iff split: sum.splits)
qed (auto simp: sb_client_def go_returns dest: sb_Ensure_Returns sb_Delete_Returns)

interpretation sbkey: sync_client "sbkey_client L A K S"
  for L :: lib and A :: auth_lib and K :: "'w secret_ops" and S :: "'w sb_sdk"
  by unfold_locales
    (auto simp: sbkey_client_def sbkey_Ensure_def sbkey_Delete_def go_returns
      split: sum.splits prod.splits if_splits)

text \<open>The comparison of the locations is the wrong way round here too: an update that changes the
  location is not seen, and a namespace at the wanted location is updated forever.\<close>

lemma sb_same_location_needs_update:
  "sbr_Location remote = Some l \<Longrightarrow> EqualFold l (sbns_Location (Spec x)) \<Longrightarrow> sb_NeedsUpdate x remote"
  by (simp add: sb_NeedsUpdate_def)

lemma sb_Ensure_never_done:
  assumes "lib_ok L"
    and get: "sb_sdk_Get S (mc_internal c) (sbns_ResourceGroup (Spec x)) (sbns_Name (Spec x)) w = (Returns (remote, None), w1)"
    and loc: "sbr_Location remote = Some l" "EqualFold l (sbns_Location (Spec x))"
    and run: "sb_Ensure L K S c (ObjServiceBusNamespace x) w = (Returns (obj', done, err), w')"
  shows "\<not> done"
proof -
  have nu: "sb_NeedsUpdate (sb_SetStatus x remote) remote"
    using loc by (simp add: sb_NeedsUpdate_def)
  from run get show ?thesis
    by (auto simp: sb_defs sb_convert_def go_returns go_bind_apply nu split: if_splits prod.splits option.splits
        outcome.splits)
qed

lemma sbkey_Ensure_stores:
  assumes "lib_ok L" "secret_ops_ok L K st"
    and "sb_sdk_ListKeys S (mc_internal c) (sbks_ResourceGroup (Spec x)) (sbks_Name (Spec x))
           ''RootManageSharedAccessKey'' w = (Returns (keys, None), w1)"
    and "sbkey_Ensure L K S c (ObjServiceBusKey x) w = (Returns (obj', None), w')"
  shows "\<exists>s. st w' (om_Namespace (ObjectMeta x), sbks_TargetSecret (Spec x)) = Some s \<and>
     ks_Data s = Some (upd_all (wanted_entries (sbkey_wanted (Spec x) keys))
       (case st w1 (om_Namespace (ObjectMeta x), sbks_TargetSecret (Spec x)) of
          None \<Rightarrow> Map.empty | Some old \<Rightarrow> secret_data old)) \<and>
     \<not> wanted_missing (sbkey_wanted (Spec x) keys)"
proof -
  from assms(3,4) obtain s' where
    "so_CreateOrUpdate K (new_secret (sbks_TargetSecret (Spec x)) (om_Namespace (ObjectMeta x)))
       (keys_mutate L (sbkey_wanted (Spec x) keys)) w1 = (Returns (s', None), w')"
    by (auto simp: sbkey_Ensure_def sbkey_convert_def go_returns go_bind_apply go_ret_def
        split: prod.splits outcome.splits if_splits)
  from keys_stored [OF assms(1,2) this] show ?thesis .
qed

end
