(* ===== verification/Storage.thy ===== *)
theory Storage imports Kube_Secrets begin

section \<open>Storage accounts and their keys (pkg/clients/storageaccounts, pkg/clients/storagekeys)\<close>

text \<open>
  The client of the accounts and the synchronous client that copies an account's key into a
  Kubernetes secret.  The accounts' \<open>ForSubscription\<close> has no context parameter, so this client
  implements neither interface of the reconcilers and no controller uses it.
\<close>

subsection \<open>The SDK\<close>

record storage_sku =
  stsku_Name :: string
  stsku_Kind :: string

record storage_properties =
  stp_ProvisioningState :: string

record storage_account =
  sta_Response :: http_response
  sta_ID :: "string option"
  sta_Location :: "string option"
  sta_Sku :: "storage_sku option"
  sta_Properties :: "storage_properties option"

record storage_create_params =
  stcp_Sku :: "storage_sku option"
  stcp_Location :: "string option"

record storage_update_params =
  stup_Sku :: "storage_sku option"

text \<open>\<open>ListKeys\<close> answers the \<open>Keys\<close> pointer; an element is the \<open>Value\<close> pointer of a key.\<close>

record 'w storage_sdk =
  st_sdk_GetProperties :: "sdk_client \<Rightarrow> string \<Rightarrow> string \<Rightarrow> ('w, storage_account \<times> go_error option) go"
  st_sdk_Create :: "sdk_client \<Rightarrow> string \<Rightarrow> string \<Rightarrow> storage_create_params \<Rightarrow> ('w, go_error option) go"
  st_sdk_Update :: "sdk_client \<Rightarrow> string \<Rightarrow> string \<Rightarrow> storage_update_params \<Rightarrow> ('w, go_error option) go"
  st_sdk_ListKeys :: "sdk_client \<Rightarrow> string \<Rightarrow> string \<Rightarrow> ('w, string option list option \<times> go_error option) go"
  st_sdk_Delete :: "sdk_client \<Rightarrow> string \<Rightarrow> string \<Rightarrow> ('w, go_error option) go"

subsection \<open>The spec builder\<close>

text \<open>\<open>Spec\<close> holds a pointer to an account, which \<open>Location\<close> writes; the pointer is never nil.\<close>

definition sta_NewSpec :: storage_account where
  "sta_NewSpec = \<lparr>sta_Response = None, sta_ID = None, sta_Location = None, sta_Sku = None, sta_Properties = None\<rparr>"

definition sta_Set_Location :: "string option \<Rightarrow> (storage_account, unit) go" where
  "sta_Set_Location location = remedy (\<lambda>s. s\<lparr>sta_Location := location\<rparr>)"

definition default_storage_sku :: storage_sku where
  "default_storage_sku = \<lparr>stsku_Name = '''', stsku_Kind = ''Storage''\<rparr>"

definition sta_ForCreate :: "storage_account \<Rightarrow> storage_create_params" where
  "sta_ForCreate s =
     (let result = \<lparr>stcp_Sku = Some default_storage_sku, stcp_Location = None\<rparr>;
          result = (if sta_Sku s \<noteq> None then result\<lparr>stcp_Sku := sta_Sku s\<rparr> else result)
      in result\<lparr>stcp_Location := sta_Location s\<rparr>)"

definition sta_ForUpdate :: "storage_account \<Rightarrow> storage_update_params" where
  "sta_ForUpdate s =
     (let result = \<lparr>stup_Sku = Some default_storage_sku\<rparr>
      in if sta_Sku s \<noteq> None then result\<lparr>stup_Sku := sta_Sku s\<rparr> else result)"

definition sta_Set :: "(storage_account, unit) go list \<Rightarrow> (storage_account, unit) go" where
  [simp]: "sta_Set opts = set_opts opts"

definition sta_NewSpecWithRemote :: "storage_account \<Rightarrow> storage_account" where
  [simp]: "sta_NewSpecWithRemote remote = remote"

definition sta_NeedsUpdate :: "lib \<Rightarrow> storage_account \<Rightarrow> PublicIP \<Rightarrow> ('w, bool) go" where
  "sta_NeedsUpdate L s local = Any [go_ret (\<not> cmp_Equal_ptr L (sta_Location s) (Some (pis_Location (Spec local))))]"

definition sta_State :: "storage_account \<Rightarrow> string option" where
  "sta_State s = map_option stp_ProvisioningState (sta_Properties s)"

subsection \<open>The client of the accounts\<close>

definition storage_NewWithFactory :: "config \<Rightarrow> (string \<Rightarrow> sdk_client) \<Rightarrow> mgmt_client" where
  "storage_NewWithFactory configuration factory = new_mgmt_client configuration factory"

text \<open>\<open>New\<close> passes the function of the SDK that makes a client for a subscription.\<close>

definition storage_New :: "(string \<Rightarrow> sdk_client) \<Rightarrow> config \<Rightarrow> mgmt_client" where
  [simp]: "storage_New NewAccountsClient configuration = storage_NewWithFactory configuration NewAccountsClient"

definition storage_convert :: "runtime_object \<Rightarrow> go_error + StorageAccount" where
  "storage_convert obj = (case obj of ObjStorageAccount local \<Rightarrow> Inr local | _ \<Rightarrow> Inl (kind_error obj))"

definition storage_ForSubscription :: "auth_lib \<Rightarrow> mgmt_client \<Rightarrow> runtime_object \<Rightarrow> mgmt_client \<times> go_error option" where
  "storage_ForSubscription A c obj =
     (case storage_convert obj of
        Inl err \<Rightarrow> (c, Some err)
      | Inr local \<Rightarrow> authorize_for A c (sas_SubscriptionID (Spec local)))"

definition storage_SetStatus :: "StorageAccount \<Rightarrow> storage_account \<Rightarrow> StorageAccount" where
  "storage_SetStatus local remote =
     (let st = (Status local)\<lparr>sast_ID := sta_ID remote, sast_ProvisioningState := None\<rparr>;
          st = (case sta_Properties remote of
                  None \<Rightarrow> st
                | Some p \<Rightarrow> st\<lparr>sast_ProvisioningState := Some (stp_ProvisioningState p)\<rparr>)
      in local\<lparr>Status := st\<rparr>)"

definition storage_Done :: "StorageAccount \<Rightarrow> bool" where
  "storage_Done local \<longleftrightarrow> sast_ProvisioningState (Status local) = Some ''Succeeded''"

text \<open>\<open>*(*keys.Keys)[0].Value\<close>: panics on nil keys, on no key and on a nil value.\<close>

definition first_key :: "string option list option \<Rightarrow> ('w, string) go" where
  "first_key keys = go_bind (go_deref keys) (\<lambda>ks. case ks of [] \<Rightarrow> go_panic | k # _ \<Rightarrow> go_deref k)"

text \<open>The map \<open>ListKeys\<close> builds is the list of its assignments; \<open>upd_all\<close> is its meaning.\<close>

definition storage_ListKeys ::
  "'w storage_sdk \<Rightarrow> mgmt_client \<Rightarrow> StorageAccount \<Rightarrow> ('w, (string \<times> string) list \<times> go_error option) go" where
  "storage_ListKeys S c local =
     go_bind (st_sdk_ListKeys S (mc_internal c) (sas_ResourceGroup (Spec local)) (sas_Name (Spec local))) (\<lambda>(keys, err).
       if err \<noteq> None then go_ret ([], err)
       else
     go_bind (go_deref (sas_PrimaryKey (Spec local))) (\<lambda>name.
     go_bind (first_key keys) (\<lambda>val. go_ret ([(name, val)], None))))"

text \<open>The mutate function of both packages: data first, then the owner.\<close>

definition storage_mutate :: "'w secret_ops \<Rightarrow> object_meta \<Rightarrow> (string \<times> string) list \<Rightarrow> secret_mutation" where
  "storage_mutate K owner keys =
     go_bind init_data (\<lambda>_. go_bind (put_all keys) (\<lambda>_. own_secret K owner (go_ret None)))"

definition storage_SyncSecret ::
  "'w secret_ops \<Rightarrow> 'w storage_sdk \<Rightarrow> mgmt_client \<Rightarrow> StorageAccount \<Rightarrow> ('w, go_error option) go" where
  "storage_SyncSecret K S c local =
     (case sas_TargetSecret (Spec local) of
        None \<Rightarrow> go_ret None
      | Some target \<Rightarrow>
     go_bind (storage_ListKeys S c local) (\<lambda>(keys, err).
       if err \<noteq> None then go_ret err
       else
     go_bind (so_CreateOrUpdate K (new_secret target (om_Namespace (ObjectMeta local)))
               (storage_mutate K (ObjectMeta local) keys)) (\<lambda>(_, err).
     go_ret err)))"

definition storage_Ensure ::
  "lib \<Rightarrow> 'w secret_ops \<Rightarrow> 'w storage_sdk \<Rightarrow> mgmt_client \<Rightarrow> runtime_object \<Rightarrow>
   ('w, runtime_object \<times> go_error option) go" where
  "storage_Ensure L K S c obj =
     (case storage_convert obj of
        Inl err \<Rightarrow> go_ret (obj, Some err)
      | Inr local \<Rightarrow>
     go_bind (st_sdk_GetProperties S (mc_internal c) (sas_ResourceGroup (Spec local)) (sas_Name (Spec local))) (\<lambda>(remote, err).
       let found = (\<not> IsHTTPStatus L (sta_Response remote) StatusNotFound);
           local = storage_SetStatus local remote
       in
       if err \<noteq> None \<and> found then go_ret (ObjStorageAccount local, err)
       else
     go_bind (if found then storage_SyncSecret K S c local else go_ret None) (\<lambda>err.
       if err \<noteq> None then go_ret (ObjStorageAccount local, err)
       else
     with_spec (sta_Set [sta_Set_Location (Some (sas_Location (Spec local)))])
       (if found then remote else sta_NewSpec) (\<lambda>_ spec.
       if \<not> found then
         go_bind (st_sdk_Create S (mc_internal c) (sas_ResourceGroup (Spec local)) (sas_Name (Spec local))
                    (sta_ForCreate spec)) (\<lambda>err.
           if err \<noteq> None then go_ret (ObjStorageAccount local, err) else go_ret (ObjStorageAccount local, None))
       else
         go_bind (st_sdk_Update S (mc_internal c) (sas_ResourceGroup (Spec local)) (sas_Name (Spec local))
                    (sta_ForUpdate spec)) (\<lambda>err. go_ret (ObjStorageAccount local, err))))))"

definition storage_Delete ::
  "lib \<Rightarrow> 'w secret_ops \<Rightarrow> 'w storage_sdk \<Rightarrow> mgmt_client \<Rightarrow> runtime_object \<Rightarrow>
   ('w, runtime_object \<times> go_error option) go" where
  "storage_Delete L K S c obj =
     (case storage_convert obj of
        Inl err \<Rightarrow> go_ret (obj, Some err)
      | Inr local \<Rightarrow>
     go_bind (so_Delete K (new_secret (sas_Name (Spec local)) (om_Namespace (ObjectMeta local)))) (\<lambda>err.
       if IgnoreNotFound L err \<noteq> None then go_ret (obj, err)
       else
     go_bind (st_sdk_Delete S (mc_internal c) (sas_ResourceGroup (Spec local)) (sas_Name (Spec local))) (\<lambda>err.
     go_ret (obj, err))))"

subsection \<open>The client of the keys\<close>

definition storagekey_NewWithFactory :: "config \<Rightarrow> (string \<Rightarrow> sdk_client) \<Rightarrow> mgmt_client" where
  "storagekey_NewWithFactory configuration factory = new_mgmt_client configuration factory"

definition storagekey_convert :: "runtime_object \<Rightarrow> go_error + StorageKey" where
  "storagekey_convert obj = (case obj of ObjStorageKey local \<Rightarrow> Inr local | _ \<Rightarrow> Inl (kind_error obj))"

definition storagekey_ForSubscription :: "auth_lib \<Rightarrow> mgmt_client \<Rightarrow> runtime_object \<Rightarrow> mgmt_client \<times> go_error option" where
  "storagekey_ForSubscription A c obj =
     (case storagekey_convert obj of
        Inl err \<Rightarrow> (c, Some err)
      | Inr local \<Rightarrow> authorize_for A c (sks_SubscriptionID (Spec local)))"

definition storage_connection_string :: "string \<Rightarrow> string \<Rightarrow> string" where
  "storage_connection_string name key =
     ''DefaultEndpointsProtocol=https;AccountName='' @ name @ '';AccountKey='' @ key @
     '';EndpointSuffix=core.windows.net''"

definition storagekey_ListKeys ::
  "'w storage_sdk \<Rightarrow> mgmt_client \<Rightarrow> StorageKey \<Rightarrow> ('w, (string \<times> string) list \<times> go_error option) go" where
  "storagekey_ListKeys S c local =
     go_bind (st_sdk_ListKeys S (mc_internal c) (sks_ResourceGroup (Spec local)) (sks_Name (Spec local))) (\<lambda>(keys, err).
       if err \<noteq> None then go_ret ([], err)
       else
     go_bind (case sks_PrimaryKey (Spec local) of
                None \<Rightarrow> go_ret []
              | Some name \<Rightarrow> go_bind (first_key keys) (\<lambda>val. go_ret [(name, val)])) (\<lambda>result.
     go_bind (case sks_PrimaryConnectionString (Spec local) of
                None \<Rightarrow> go_ret []
              | Some name \<Rightarrow> go_bind (first_key keys) (\<lambda>val.
                  go_ret [(name, storage_connection_string (sks_Name (Spec local)) val)])) (\<lambda>result'.
     go_ret (result @ result', None))))"

definition storagekey_Ensure ::
  "'w secret_ops \<Rightarrow> 'w storage_sdk \<Rightarrow> mgmt_client \<Rightarrow> runtime_object \<Rightarrow> ('w, runtime_object \<times> go_error option) go" where
  "storagekey_Ensure K S c obj =
     (case storagekey_convert obj of
        Inl err \<Rightarrow> go_ret (obj, Some err)
      | Inr local \<Rightarrow>
     (case sks_TargetSecret (Spec local) of
        None \<Rightarrow> go_ret (obj, None)
      | Some target \<Rightarrow>
     go_bind (storagekey_ListKeys S c local) (\<lambda>(keys, err).
       if err \<noteq> None then go_ret (obj, err)
       else
     go_bind (so_CreateOrUpdate K (new_secret target (om_Namespace (ObjectMeta local)))
               (storage_mutate K (ObjectMeta local) keys)) (\<lambda>(_, err).
     go_ret (obj, err)))))"

definition storagekey_Delete ::
  "lib \<Rightarrow> 'w secret_ops \<Rightarrow> runtime_object \<Rightarrow> ('w, runtime_object \<times> go_error option) go" where
  "storagekey_Delete L K obj =
     (case storagekey_convert obj of
        Inl err \<Rightarrow> go_ret (obj, Some err)
      | Inr local \<Rightarrow>
     go_bind (so_Delete K (new_secret (sks_Name (Spec local)) (om_Namespace (ObjectMeta local)))) (\<lambda>err.
     go_ret (obj, IgnoreNotFound L err)))"

definition storagekey_client ::
  "lib \<Rightarrow> auth_lib \<Rightarrow> 'w secret_ops \<Rightarrow> 'w storage_sdk \<Rightarrow> (mgmt_client \<times> 'w) SyncClient" where
  "storagekey_client L A K S = \<lparr>
     sync_ForSubscription = (\<lambda>obj. on_self (\<lambda>c. storagekey_ForSubscription A c obj)),
     sync_Ensure = (\<lambda>obj. on_world (\<lambda>c. storagekey_Ensure K S c obj)),
     sync_Delete = (\<lambda>obj. on_world (\<lambda>c. storagekey_Delete L K obj))\<rparr>"

subsection \<open>Lemmas\<close>

lemma storage_convert_Inr [simp]: "storage_convert obj = Inr local \<longleftrightarrow> obj = ObjStorageAccount local"
  by (cases obj) (simp_all add: storage_convert_def)

lemma storagekey_convert_Inr [simp]: "storagekey_convert obj = Inr local \<longleftrightarrow> obj = ObjStorageKey local"
  by (cases obj) (simp_all add: storagekey_convert_def)

lemma storage_SetStatus_keeps [simp]:
  "(storage_SetStatus local remote)\<lparr>Status := st\<rparr> = local\<lparr>Status := st\<rparr>"
  "Spec (storage_SetStatus local remote) = Spec local" "ObjectMeta (storage_SetStatus local remote) = ObjectMeta local"
  by (simp_all add: storage_SetStatus_def Let_def)

interpretation storagekey: sync_client "storagekey_client L A K S"
  for L :: lib and A :: auth_lib and K :: "'w secret_ops" and S :: "'w storage_sdk"
  by unfold_locales
    (auto simp: storagekey_client_def storagekey_Ensure_def storagekey_Delete_def go_returns
      split: sum.splits prod.splits if_splits option.splits)

lemma first_key_Returns [go_returns]:
  "first_key keys w = (Returns v, w') \<longleftrightarrow> (\<exists>ks. keys = Some (Some v # ks)) \<and> w' = w"
  by (cases keys; cases "the keys") (auto simp: first_key_def go_returns)

lemma storage_mutate_Returns:
  assumes "secret_ops_ok L K st" "storage_mutate K owner keys s = (Returns None, s')"
  shows "ks_Data s' = Some (upd_all keys (secret_data s))"
proof -
  let ?s = "s\<lparr>ks_Data := Some (upd_all keys (secret_data s))\<rparr>"
  from assms(2) have "own_secret K owner (go_ret None) ?s = (Returns None, s')"
    by (auto simp: storage_mutate_def go_bind_apply init_data_eq put_all_eq)
  from own_secret_Returns [OF assms(1) this] obtain o' where "s' = ?s\<lparr>ks_Owner := o'\<rparr>"
    by (auto simp: go_returns)
  then show ?thesis by simp
qed

text \<open>
  A successful copy stored, under the wanted names, the first key Azure lists and the
  connection string made of it.
\<close>

lemma storagekey_Ensure_stores:
  assumes K: "secret_ops_ok L K st"
    and target: "sks_TargetSecret (Spec x) = Some t"
    and list: "st_sdk_ListKeys S (mc_internal c) (sks_ResourceGroup (Spec x)) (sks_Name (Spec x)) w =
      (Returns (Some (Some key # rest), None), w1)"
    and ens: "storagekey_Ensure K S c (ObjStorageKey x) w = (Returns (obj', None), w')"
  shows "\<exists>s d. st w' (om_Namespace (ObjectMeta x), t) = Some s \<and> ks_Data s = Some d \<and>
     (\<forall>n. sks_PrimaryConnectionString (Spec x) = Some n \<longrightarrow> d n = Some (storage_connection_string (sks_Name (Spec x)) key)) \<and>
     (\<forall>n. sks_PrimaryKey (Spec x) = Some n \<and> sks_PrimaryConnectionString (Spec x) \<noteq> Some n \<longrightarrow> d n = Some key)"
proof -
  let ?keys = "(case sks_PrimaryKey (Spec x) of None \<Rightarrow> [] | Some n \<Rightarrow> [(n, key)]) @
    (case sks_PrimaryConnectionString (Spec x) of None \<Rightarrow> []
     | Some n \<Rightarrow> [(n, storage_connection_string (sks_Name (Spec x)) key)])"
  let ?new = "new_secret t (om_Namespace (ObjectMeta x))"
  have "storagekey_ListKeys S c x w = (Returns (?keys, None), w1)"
    using list by (auto simp: storagekey_ListKeys_def go_bind_apply go_simps first_key_def split: option.splits)
  with ens target obtain s' where
    cu: "so_CreateOrUpdate K ?new (storage_mutate K (ObjectMeta x) ?keys) w1 = (Returns (s', None), w')"
    by (auto simp: storagekey_Ensure_def storagekey_convert_def go_bind_apply go_simps
        split: prod.splits outcome.splits)
  from secret_stored [OF K cu] storage_mutate_Returns [OF K] obtain base where
    "st w' (om_Namespace (ObjectMeta x), t) = Some s'" "ks_Data s' = Some (upd_all ?keys (secret_data base))"
    by force
  then show ?thesis by (auto simp: upd_all_apply split: option.splits)
qed

text \<open>\<open>Delete\<close> of a key object does not remove the secret the object's \<open>Ensure\<close> wrote.\<close>

lemma storagekey_Delete_leaves:
  assumes K: "secret_ops_ok L K st"
    and names: "sks_TargetSecret (Spec x) = Some t" "t \<noteq> sks_Name (Spec x)"
    and del: "storagekey_Delete L K (ObjStorageKey x) w = (r, w')"
  shows "st w' (om_Namespace (ObjectMeta x), t) = st w (om_Namespace (ObjectMeta x), t)"
proof -
  from del obtain r' where
    "so_Delete K (new_secret (sks_Name (Spec x)) (om_Namespace (ObjectMeta x))) w = (r', w')"
    by (cases "so_Delete K (new_secret (sks_Name (Spec x)) (om_Namespace (ObjectMeta x))) w")
      (auto simp: storagekey_Delete_def storagekey_convert_def go_bind_apply go_simps split: outcome.splits)
  from secret_delete_others_kept [OF K this] names show ?thesis by simp
qed

text \<open>
  The account's \<open>Ensure\<close> keeps the object but for the status, and writes back the SKU it read.
\<close>

lemma storage_Ensure_keeps:
  assumes "storage_Ensure L K S c obj w = (Returns (obj', err), w')"
  shows "clear_status obj' = clear_status obj"
  using assms
  by (auto simp: storage_Ensure_def Let_def go_returns split: sum.splits prod.splits if_splits)

lemma storage_Ensure_existing:
  assumes "lib_ok L" "sas_TargetSecret (Spec x) = None" "sta_Response remote \<noteq> Some StatusNotFound"
    and "st_sdk_GetProperties S (mc_internal c) (sas_ResourceGroup (Spec x)) (sas_Name (Spec x)) w = (Returns (remote, None), w1)"
  shows "storage_Ensure L K S c (ObjStorageAccount x) w =
    go_bind (st_sdk_Update S (mc_internal c) (sas_ResourceGroup (Spec x)) (sas_Name (Spec x))
       \<lparr>stup_Sku = Some (case sta_Sku remote of None \<Rightarrow> default_storage_sku | Some sku \<Rightarrow> sku)\<rparr>)
      (\<lambda>err. go_ret (ObjStorageAccount (storage_SetStatus x remote), err)) w1"
  using assms
  by (auto simp: storage_Ensure_def storage_convert_def lib_okD go_bind_apply go_simps storage_SyncSecret_def
      sta_Set_Location_def sta_ForUpdate_def Let_def with_spec_def split: option.splits)

end
