(* ===== verification/Encodings.thy ===== *)
theory Encodings imports Prelude begin

section \<open>Encodings of the standard library\<close>

text \<open>
  What the secret clients use of Go's standard library: \<open>base64.StdEncoding\<close> (with padding),
  \<open>base64.RawURLEncoding\<close> (without), \<open>hex.Encode\<close> and \<open>strings.ToUpper\<close>.  Bytes are numbers below
  256; a Go string is the list of its bytes.
\<close>

definition bytes_of :: "string \<Rightarrow> nat list" where
  "bytes_of s = map of_char s"

definition string_of :: "nat list \<Rightarrow> string" where
  "string_of bs = map char_of bs"

lemma string_of_bytes_of [simp]: "string_of (bytes_of s) = s"
  by (simp add: string_of_def bytes_of_def o_def)

lemma bytes_of_string_of [simp]: "(\<forall>b\<in>set bs. b < 256) \<Longrightarrow> bytes_of (string_of bs) = bs"
  by (auto simp: string_of_def bytes_of_def map_idI)

lemma bytes_of_less: "b \<in> set (bytes_of s) \<Longrightarrow> b < 256"
  by (auto simp: bytes_of_def)

subsection \<open>Base64\<close>

definition base64_std :: string where
  "base64_std = ''ABCDEFGHIJKLMNOPQRSTUVWXYZabcdefghijklmnopqrstuvwxyz0123456789+/''"

definition base64_url :: string where
  "base64_url = ''ABCDEFGHIJKLMNOPQRSTUVWXYZabcdefghijklmnopqrstuvwxyz0123456789-_''"

fun position :: "'a \<Rightarrow> 'a list \<Rightarrow> nat option" where
  "position x [] = None"
| "position x (y # ys) = (if x = y then Some 0 else map_option Suc (position x ys))"

lemma position_nth: "distinct xs \<Longrightarrow> n < length xs \<Longrightarrow> position (xs ! n) xs = Some n"
  by (induction xs arbitrary: n) (auto simp: nth_Cons split: nat.splits)

lemma position_less: "position x xs = Some n \<Longrightarrow> n < length xs \<and> xs ! n = x"
  by (induction xs arbitrary: n) (auto split: if_splits)

text \<open>
  \<open>EncodeToString\<close>: three bytes are four groups of six bits, each a letter of the alphabet; the
  remaining one or two bytes are filled with zero bits, and, if the encoding pads, with \<open>=\<close>.
\<close>

fun sextets :: "nat list \<Rightarrow> nat list" where
  "sextets [] = []"
| "sextets [a] = [a div 4, a mod 4 * 16]"
| "sextets [a, b] = [a div 4, a mod 4 * 16 + b div 16, b mod 16 * 4]"
| "sextets (a # b # c # rest) =
     [a div 4, a mod 4 * 16 + b div 16, b mod 16 * 4 + c div 64, c mod 64] @ sextets rest"

fun base64_padding :: "nat list \<Rightarrow> string" where
  "base64_padding [] = []"
| "base64_padding [a] = ''==''"
| "base64_padding [a, b] = ''=''"
| "base64_padding (a # b # c # rest) = base64_padding rest"

definition base64_encode :: "string \<Rightarrow> bool \<Rightarrow> nat list \<Rightarrow> string" where
  "base64_encode al pad bs = map ((!) al) (sextets bs) @ (if pad then base64_padding bs else [])"

definition base64_pair :: "string \<Rightarrow> char \<Rightarrow> char \<Rightarrow> nat list option" where
  "base64_pair al p q =
     Option.bind (position p al) (\<lambda>i. map_option (\<lambda>j. [(i * 4 + j div 16) mod 256]) (position q al))"

definition base64_triple :: "string \<Rightarrow> char \<Rightarrow> char \<Rightarrow> char \<Rightarrow> nat list option" where
  "base64_triple al p q r =
     Option.bind (position p al) (\<lambda>i. Option.bind (position q al) (\<lambda>j.
     map_option (\<lambda>k. [(i * 4 + j div 16) mod 256, (j mod 16 * 16 + k div 4) mod 256]) (position r al)))"

definition base64_quad :: "string \<Rightarrow> char \<Rightarrow> char \<Rightarrow> char \<Rightarrow> char \<Rightarrow> nat list option" where
  "base64_quad al p q r s =
     Option.bind (position p al) (\<lambda>i. Option.bind (position q al) (\<lambda>j. Option.bind (position r al) (\<lambda>k.
     map_option (\<lambda>l. [(i * 4 + j div 16) mod 256, (j mod 16 * 16 + k div 4) mod 256, (k mod 4 * 64 + l) mod 256])
       (position s al))))"

text \<open>\<open>DecodeString\<close> ignores line breaks; \<open>None\<close> is a \<open>CorruptInputError\<close>.\<close>

fun base64_quanta :: "string \<Rightarrow> bool \<Rightarrow> string \<Rightarrow> nat list option" where
  "base64_quanta al pad [] = Some []"
| "base64_quanta al pad [p] = None"
| "base64_quanta al pad [p, q] = (if pad then None else base64_pair al p q)"
| "base64_quanta al pad [p, q, r] = (if pad then None else base64_triple al p q r)"
| "base64_quanta al pad (p # q # r # s # rest) =
     (if pad \<and> s = CHR ''='' then
        (if rest \<noteq> [] then None
         else if r = CHR ''='' then base64_pair al p q
         else base64_triple al p q r)
      else Option.bind (base64_quad al p q r s) (\<lambda>bs.
             map_option (\<lambda>bs'. bs @ bs') (base64_quanta al pad rest)))"

definition base64_decode :: "string \<Rightarrow> bool \<Rightarrow> string \<Rightarrow> nat list option" where
  "base64_decode al pad s = base64_quanta al pad (filter (\<lambda>c. c \<noteq> CHR 0x0A \<and> c \<noteq> CHR 0x0D) s)"

definition base64_alphabet_ok :: "string \<Rightarrow> bool" where
  "base64_alphabet_ok al \<longleftrightarrow> length al = 64 \<and> distinct al \<and> CHR ''='' \<notin> set al \<and>
     CHR 0x0A \<notin> set al \<and> CHR 0x0D \<notin> set al"

lemma base64_alphabets_ok: "base64_alphabet_ok base64_std" "base64_alphabet_ok base64_url"
  by code_simp+

lemma base64_position:
  "base64_alphabet_ok al \<Longrightarrow> n < 64 \<Longrightarrow> position (al ! n) al = Some n"
  by (rule position_nth) (simp_all add: base64_alphabet_ok_def)

lemma base64_letter:
  assumes "base64_alphabet_ok al" "n < 64"
  shows "al ! n \<noteq> CHR ''=''" "al ! n \<noteq> CHR 0x0A" "al ! n \<noteq> CHR 0x0D"
  using assms unfolding base64_alphabet_ok_def by (metis nth_mem)+

lemma sextet_bounds:
  fixes a b c :: nat
  assumes "a < 256" "b < 256" "c < 256"
  shows "a div 4 < 64" "a mod 4 * 16 < 64" "a mod 4 * 16 + b div 16 < 64" "b mod 16 * 4 < 64"
    "b mod 16 * 4 + c div 64 < 64" "c mod 64 < 64"
proof -
  have "b div 16 < 16" "c div 64 < 4" "a div 4 < 64"
    using assms by (simp_all add: div_less_iff_less_mult)
  moreover have "a mod 4 < 4" "b mod 16 < 16" "c mod 64 < 64" by simp_all
  ultimately show "a div 4 < 64" "a mod 4 * 16 < 64" "a mod 4 * 16 + b div 16 < 64" "b mod 16 * 4 < 64"
    "b mod 16 * 4 + c div 64 < 64" "c mod 64 < 64"
    by linarith+
qed

lemma sextets_less: "(\<forall>b\<in>set bs. b < 256) \<Longrightarrow> n \<in> set (sextets bs) \<Longrightarrow> n < 64"
  by (induction bs rule: sextets.induct) (auto simp: sextet_bounds)

lemma base64_padding_chars: "c \<in> set (base64_padding bs) \<Longrightarrow> c = CHR ''=''"
  by (induction bs rule: base64_padding.induct) auto

lemma base64_no_breaks:
  assumes "base64_alphabet_ok al" "\<forall>b\<in>set bs. b < 256" "c \<in> set (base64_encode al pad bs)"
  shows "c \<noteq> CHR 0x0A \<and> c \<noteq> CHR 0x0D"
proof -
  from assms(3) consider n where "n \<in> set (sextets bs)" "c = al ! n" | "c = CHR ''=''"
    by (auto simp: base64_encode_def split: if_splits dest: base64_padding_chars)
  then show ?thesis
    using base64_letter [OF assms(1) sextets_less [OF assms(2)]] by cases simp_all
qed

lemma digits:
  fixes x y n :: nat
  assumes "y < n"
  shows "(x * n + y) div n = x" "(x * n + y) mod n = y"
  using assms by simp_all

lemma byte_of_sextets:
  fixes a b c :: nat
  assumes "a < 256" "b < 256" "c < 256"
  shows "a div 4 * 4 + (a mod 4 * 16 + b div 16) div 16 = a"
    "a div 4 * 4 + (a mod 4 * 16) div 16 = a"
    "(a mod 4 * 16 + b div 16) mod 16 * 16 + (b mod 16 * 4 + c div 64) div 4 = b"
    "(a mod 4 * 16 + b div 16) mod 16 * 16 + (b mod 16 * 4) div 4 = b"
    "(b mod 16 * 4 + c div 64) mod 4 * 64 + c mod 64 = c"
proof -
  have "b div 16 < 16" "c div 64 < 4" using assms by (simp_all add: div_less_iff_less_mult)
  then show "a div 4 * 4 + (a mod 4 * 16 + b div 16) div 16 = a"
    "a div 4 * 4 + (a mod 4 * 16) div 16 = a"
    "(a mod 4 * 16 + b div 16) mod 16 * 16 + (b mod 16 * 4 + c div 64) div 4 = b"
    "(a mod 4 * 16 + b div 16) mod 16 * 16 + (b mod 16 * 4) div 4 = b"
    "(b mod 16 * 4 + c div 64) mod 4 * 64 + c mod 64 = c"
    by (simp_all add: digits)
qed

lemma base64_quanta_encode:
  assumes al: "base64_alphabet_ok al"
  shows "\<forall>b\<in>set bs. b < 256 \<Longrightarrow> base64_quanta al pad (base64_encode al pad bs) = Some bs"
proof (induction bs rule: sextets.induct)
  case (2 a)
  then show ?case
    using sextet_bounds [of a 0 0] byte_of_sextets [of a 0 0]
    by (simp add: base64_encode_def base64_pair_def base64_position [OF al] base64_letter [OF al])
next
  case (3 a b)
  then show ?case
    using sextet_bounds [of a b 0] byte_of_sextets [of a b 0]
    by (simp add: base64_encode_def base64_triple_def base64_position [OF al] base64_letter [OF al])
next
  case (4 a b c rest)
  then show ?case
    using sextet_bounds [of a b c] byte_of_sextets [of a b c]
    by (cases pad) (simp_all add: base64_encode_def base64_quad_def base64_position [OF al] base64_letter [OF al])
qed (simp add: base64_encode_def)

lemma base64_decode_encode:
  assumes "base64_alphabet_ok al" "\<forall>b\<in>set bs. b < 256"
  shows "base64_decode al pad (base64_encode al pad bs) = Some bs"
proof -
  have "filter (\<lambda>c. c \<noteq> CHR 0x0A \<and> c \<noteq> CHR 0x0D) (base64_encode al pad bs) = base64_encode al pad bs"
    using base64_no_breaks [OF assms] by (simp add: filter_id_conv)
  with base64_quanta_encode [OF assms] show ?thesis by (simp add: base64_decode_def)
qed

subsection \<open>Hexadecimal\<close>

definition hex_digits :: string where
  "hex_digits = ''0123456789abcdef''"

fun hex_encode :: "nat list \<Rightarrow> string" where
  "hex_encode [] = []"
| "hex_encode (b # bs) = hex_digits ! (b div 16) # hex_digits ! (b mod 16) # hex_encode bs"

definition to_upper :: "char \<Rightarrow> char" where
  "to_upper c = (if 97 \<le> (of_char c :: nat) \<and> (of_char c :: nat) \<le> 122
                 then char_of ((of_char c :: nat) - 32) else c)"

definition ToUpper :: "string \<Rightarrow> string" where
  "ToUpper s = map to_upper s"

lemma length_hex_encode [simp]: "length (hex_encode bs) = 2 * length bs"
  by (induction bs) simp_all

lemma hex_encode_inj:
  assumes "\<forall>b\<in>set bs. b < 256" "\<forall>b\<in>set cs. b < 256" "ToUpper (hex_encode bs) = ToUpper (hex_encode cs)"
  shows "bs = cs"
proof -
  have digit: "to_upper (hex_digits ! i) = to_upper (hex_digits ! j) \<longleftrightarrow> i = j" if "i < 16" "j < 16" for i j
  proof -
    have "\<forall>i\<in>set [0..<16]. \<forall>j\<in>set [0..<16]. to_upper (hex_digits ! i) = to_upper (hex_digits ! j) \<longrightarrow> i = j"
      by code_simp
    with that show ?thesis by auto
  qed
  show ?thesis
    using assms
  proof (induction bs arbitrary: cs)
    case Nil
    then show ?case by (cases cs) (simp_all add: ToUpper_def)
  next
    case (Cons b bs)
    then obtain c cs' where cs: "cs = c # cs'" by (cases cs) (auto simp: ToUpper_def)
    have "b div 16 < 16" "c div 16 < 16" using Cons.prems cs by (simp_all add: div_less_iff_less_mult)
    with Cons.prems cs have "b div 16 = c div 16" "b mod 16 = c mod 16" "bs = cs'"
      using Cons.IH [of cs'] by (auto simp: ToUpper_def digit)
    with cs show ?case by (metis div_mult_mod_eq)
  qed
qed

end
