(* ===== verification/Random_Strings.thy ===== *)
theory Random_Strings imports Clientutil Encodings begin

section \<open>Random strings from the system's source (pkg/clients/clientutil)\<close>

text \<open>
  \<open>GenerateRandomString\<close> of \<open>pkg/clients/clientutil/clientutil.go\<close>.  \<open>rand_Read\<close> is
  \<open>crypto/rand.Read\<close> on a buffer of the given length: it answers the buffer's new content and an
  error.  The function prints the error and encodes the buffer all the same.
\<close>

definition GenerateRandomString :: "(nat \<Rightarrow> ('w, nat list \<times> go_error option) go) \<Rightarrow> nat \<Rightarrow> ('w, string) go" where
  "GenerateRandomString rand_Read n =
     go_bind (rand_Read n) (\<lambda>(b, err). go_ret (base64_encode base64_std True b))"

definition rand_ok :: "(nat \<Rightarrow> ('w, nat list \<times> go_error option) go) \<Rightarrow> bool" where
  "rand_ok rand_Read \<longleftrightarrow>
     (\<forall>n w. \<exists>b err w'. rand_Read n w = (Returns (b, err), w') \<and> length b = n \<and> (\<forall>x\<in>set b. x < 256))"

lemma length_base64_encode: "length (base64_encode al True bs) = 4 * ((length bs + 2) div 3)"
proof -
  have "length (sextets bs) + length (base64_padding bs) = 4 * ((length bs + 2) div 3)"
  proof (induction bs rule: sextets.induct)
    case (4 a b c rest)
    have "(length (a # b # c # rest) + 2) div 3 = Suc ((length rest + 2) div 3)" by simp
    with 4 show ?case by simp
  qed simp_all
  then show ?thesis by (simp add: base64_encode_def)
qed

text \<open>\<open>GenerateRandomString(n)\<close> encodes the \<open>n\<close> bytes it read, also when the read failed: the string is
  longer than \<open>n\<close>, unless that is 0.\<close>

lemma GenerateRandomString_encodes:
  assumes "rand_Read n w = (Returns (b, err), w')" "length b = n" "\<forall>x\<in>set b. x < 256"
  shows "\<exists>s. GenerateRandomString rand_Read n w = (Returns s, w') \<and> base64_decode base64_std True s = Some b \<and>
    length s = 4 * ((n + 2) div 3) \<and> (n < length s \<longleftrightarrow> 0 < n)"
proof -
  have "n < 4 * ((n + 2) div 3) \<longleftrightarrow> 0 < n" by (cases n) auto
  with assms base64_decode_encode [OF base64_alphabets_ok(1) assms(3)] show ?thesis
    by (simp add: GenerateRandomString_def go_simps length_base64_encode)
qed

lemma GenerateRandomString_length:
  assumes "rand_ok rand_Read"
  shows "\<exists>s b w'. GenerateRandomString rand_Read n w = (Returns s, w') \<and> length s = 4 * ((n + 2) div 3) \<and>
    length b = n \<and> base64_decode base64_std True s = Some b"
proof -
  from assms obtain b err w' where "rand_Read n w = (Returns (b, err), w')" "length b = n" "\<forall>x\<in>set b. x < 256"
    unfolding rand_ok_def by blast
  with GenerateRandomString_encodes [where rand_Read = rand_Read, OF this] show ?thesis by blast
qed

end
