(* ===== verification/SqlServers.thy ===== *)
theory SqlServers imports Kube_Secrets Random_Strings begin

section \<open>SQL servers and firewall rules (pkg/clients/sqlservers, pkg/clients/sqlfirewallrules)\<close>

text \<open>
  Two synchronous clients.  The client of the servers keeps the administrator's credentials in a
  Kubernetes secret and owns a client of the firewall rules, which it calls to allow or block the
  access of Azure services.
\<close>

subsection \<open>The SDK\<close>

record firewall_properties =
  fwp_StartIPAddress :: "string option"
  fwp_EndIPAddress :: "string option"

record firewall_rule =
  fwr_Response :: http_response
  fwr_ID :: "string option"
  fwr_Name :: "string option"
  fwr_Properties :: "firewall_properties option"

record 'w firewall_sdk =
  fw_sdk_Get :: "sdk_client \<Rightarrow> string \<Rightarrow> string \<Rightarrow> string \<Rightarrow> ('w, firewall_rule \<times> go_error option) go"
  fw_sdk_CreateOrUpdate :: "sdk_client \<Rightarrow> string \<Rightarrow> string \<Rightarrow> string \<Rightarrow> firewall_rule \<Rightarrow> ('w, go_error option) go"
  fw_sdk_Delete :: "sdk_client \<Rightarrow> string \<Rightarrow> string \<Rightarrow> string \<Rightarrow> ('w, go_error option) go"

record sql_properties =
  sqlp_AdministratorLogin :: "string option"
  sqlp_AdministratorLoginPassword :: "string option"
  sqlp_State :: "string option"

record sql_server =
  sqlr_Response :: http_response
  sqlr_ID :: "string option"
  sqlr_Name :: "string option"
  sqlr_Location :: "string option"
  sqlr_Properties :: "sql_properties option"

text \<open>A future is opaque; \<open>sql_sdk_Wait\<close> is its \<open>WaitForCompletionRef\<close>.\<close>

datatype sql_future = SqlFuture nat

record 'w sql_sdk =
  sql_sdk_Get :: "sdk_client \<Rightarrow> string \<Rightarrow> string \<Rightarrow> ('w, sql_server \<times> go_error option) go"
  sql_sdk_Update :: "sdk_client \<Rightarrow> string \<Rightarrow> string \<Rightarrow> sql_properties option \<Rightarrow> ('w, sql_future \<times> go_error option) go"
  sql_sdk_CreateOrUpdate :: "sdk_client \<Rightarrow> string \<Rightarrow> string \<Rightarrow> sql_server \<Rightarrow> ('w, sql_future \<times> go_error option) go"
  sql_sdk_Delete :: "sdk_client \<Rightarrow> string \<Rightarrow> string \<Rightarrow> ('w, sql_future \<times> go_error option) go"
  sql_sdk_Wait :: "sql_future \<Rightarrow> sdk_client \<Rightarrow> ('w, go_error option) go"
  sql_rand_Read :: "nat \<Rightarrow> ('w, nat list \<times> go_error option) go"
  sql_own_rule :: "object_meta \<Rightarrow> SQLFirewallRule \<Rightarrow> SQLFirewallRule \<times> go_error option"

subsection \<open>The spec of a firewall rule\<close>

definition fw_NewSpec :: firewall_rule where
  "fw_NewSpec = \<lparr>fwr_Response = None, fwr_ID = None, fwr_Name = None, fwr_Properties = None\<rparr>"

definition fw_checkProperties :: "firewall_rule \<Rightarrow> bool" where
  "fw_checkProperties s \<longleftrightarrow> fwr_Properties s = None"

definition fw_initProperties :: "firewall_rule \<Rightarrow> firewall_rule" where
  "fw_initProperties s = s\<lparr>fwr_Properties := Some \<lparr>fwp_StartIPAddress = None, fwp_EndIPAddress = None\<rparr>\<rparr>"

definition fw_Set_Start :: "string option \<Rightarrow> (firewall_rule, unit) go" where
  "fw_Set_Start start =
     go_bind (Initialize [detect fw_checkProperties] [remedy fw_initProperties]) (\<lambda>_.
     remedy_at (\<lambda>s. map_option (\<lambda>p. s\<lparr>fwr_Properties := Some (p\<lparr>fwp_StartIPAddress := start\<rparr>)\<rparr>) (fwr_Properties s)))"

definition fw_Set_End :: "string option \<Rightarrow> (firewall_rule, unit) go" where
  "fw_Set_End end' =
     go_bind (Initialize [detect fw_checkProperties] [remedy fw_initProperties]) (\<lambda>_.
     remedy_at (\<lambda>s. map_option (\<lambda>p. s\<lparr>fwr_Properties := Some (p\<lparr>fwp_EndIPAddress := end'\<rparr>)\<rparr>) (fwr_Properties s)))"

definition fw_Start :: "firewall_rule \<Rightarrow> string option" where
  "fw_Start s = (case fwr_Properties s of None \<Rightarrow> None | Some p \<Rightarrow> fwp_StartIPAddress p)"

definition fw_End :: "firewall_rule \<Rightarrow> string option" where
  "fw_End s = (case fwr_Properties s of None \<Rightarrow> None | Some p \<Rightarrow> fwp_EndIPAddress p)"

definition fw_Name :: "firewall_rule \<Rightarrow> string option" where
  [simp]: "fw_Name s = fwr_Name s"

definition fw_ID :: "firewall_rule \<Rightarrow> string option" where
  [simp]: "fw_ID s = fwr_ID s"

definition fw_Build :: "firewall_rule \<Rightarrow> firewall_rule" where
  [simp]: "fw_Build s = s"

definition fw_Set :: "(firewall_rule, unit) go list \<Rightarrow> (firewall_rule, unit) go" where
  [simp]: "fw_Set opts = set_opts opts"

definition fw_NewSpecWithRemote :: "firewall_rule \<Rightarrow> firewall_rule" where
  [simp]: "fw_NewSpecWithRemote remote = remote"

definition fw_NeedsUpdate :: "lib \<Rightarrow> SQLFirewallRule \<Rightarrow> (firewall_rule, bool) go" where
  "fw_NeedsUpdate L local =
     Any [detect (\<lambda>s. \<not> cmp_Equal_ptr L (fw_Start s) (Some (fws_Start (Spec local)))),
          detect (\<lambda>s. \<not> cmp_Equal_ptr L (fw_End s) (Some (fws_End (Spec local))))]"

subsection \<open>The client of the firewall rules\<close>

definition fw_NewWithFactory :: "config \<Rightarrow> (string \<Rightarrow> sdk_client) \<Rightarrow> mgmt_client" where
  "fw_NewWithFactory configuration factory = new_mgmt_client configuration factory"

text \<open>\<open>New\<close> passes the function of the SDK that makes a client for a subscription.\<close>

definition fw_New :: "(string \<Rightarrow> sdk_client) \<Rightarrow> config \<Rightarrow> mgmt_client" where
  [simp]: "fw_New NewFirewallRulesClient configuration = fw_NewWithFactory configuration NewFirewallRulesClient"

definition fw_convert :: "runtime_object \<Rightarrow> go_error + SQLFirewallRule" where
  "fw_convert obj = (case obj of ObjSQLFirewallRule local \<Rightarrow> Inr local | _ \<Rightarrow> Inl (kind_error obj))"

definition fw_ForSubscription :: "auth_lib \<Rightarrow> mgmt_client \<Rightarrow> runtime_object \<Rightarrow> mgmt_client \<times> go_error option" where
  "fw_ForSubscription A c obj =
     (case fw_convert obj of
        Inl err \<Rightarrow> (c, Some err)
      | Inr local \<Rightarrow> authorize_for A c (fws_SubscriptionID (Spec local)))"

definition fw_SetStatus :: "SQLFirewallRule \<Rightarrow> firewall_rule \<Rightarrow> SQLFirewallRule" where
  "fw_SetStatus local remote = local\<lparr>Status := (Status local)\<lparr>fwst_ID := fwr_ID remote\<rparr>\<rparr>"

definition fw_Ensure ::
  "lib \<Rightarrow> 'w firewall_sdk \<Rightarrow> mgmt_client \<Rightarrow> runtime_object \<Rightarrow> ('w, runtime_object \<times> go_error option) go" where
  "fw_Ensure L S c obj =
     (case fw_convert obj of
        Inl err \<Rightarrow> go_ret (obj, Some err)
      | Inr local \<Rightarrow>
     go_bind (fw_sdk_Get S (mc_internal c) (fws_ResourceGroup (Spec local)) (fws_Server (Spec local)) (fws_Name (Spec local)))
     (\<lambda>(remote, err).
       let found = (\<not> IsHTTPStatus L (fwr_Response remote) StatusNotFound);
           local = fw_SetStatus local remote
       in
       if err \<noteq> None \<and> found then go_ret (ObjSQLFirewallRule local, err)
       else
     with_spec (fw_Set [fw_Set_Start (Some (fws_Start (Spec local))), fw_Set_End (Some (fws_End (Spec local)))])
       (if found then remote else fw_NewSpec) (\<lambda>_ spec.
     go_bind (fw_sdk_CreateOrUpdate S (mc_internal c) (fws_ResourceGroup (Spec local)) (fws_Server (Spec local))
                (fws_Name (Spec local)) (fw_Build spec)) (\<lambda>err.
     go_ret (ObjSQLFirewallRule local, err)))))"

definition fw_Get ::
  "'w firewall_sdk \<Rightarrow> mgmt_client \<Rightarrow> runtime_object \<Rightarrow> ('w, firewall_rule \<times> go_error option) go" where
  "fw_Get S c obj =
     (case fw_convert obj of
        Inl err \<Rightarrow> go_ret (fw_NewSpec, Some err)
      | Inr local \<Rightarrow>
          fw_sdk_Get S (mc_internal c) (fws_ResourceGroup (Spec local)) (fws_Server (Spec local)) (fws_Name (Spec local)))"

definition fw_Delete ::
  "'w firewall_sdk \<Rightarrow> mgmt_client \<Rightarrow> runtime_object \<Rightarrow> ('w, runtime_object \<times> go_error option) go" where
  "fw_Delete S c obj =
     (case fw_convert obj of
        Inl err \<Rightarrow> go_ret (obj, Some err)
      | Inr local \<Rightarrow>
     go_bind (fw_sdk_Delete S (mc_internal c) (fws_ResourceGroup (Spec local)) (fws_Server (Spec local)) (fws_Name (Spec local)))
     (\<lambda>err. go_ret (obj, None)))"

definition fw_client :: "lib \<Rightarrow> auth_lib \<Rightarrow> 'w firewall_sdk \<Rightarrow> (mgmt_client \<times> 'w) SyncClient" where
  "fw_client L A S = \<lparr>
     sync_ForSubscription = (\<lambda>obj. on_self (\<lambda>c. fw_ForSubscription A c obj)),
     sync_Ensure = (\<lambda>obj. on_world (\<lambda>c. fw_Ensure L S c obj)),
     sync_Delete = (\<lambda>obj. on_world (\<lambda>c. fw_Delete S c obj))\<rparr>"

subsection \<open>The spec of a server\<close>

definition sql_NewSpec :: sql_server where
  "sql_NewSpec = \<lparr>sqlr_Response = None, sqlr_ID = None, sqlr_Name = None, sqlr_Location = None, sqlr_Properties = None\<rparr>"

definition sql_checkServerProperties :: "sql_server \<Rightarrow> bool" where
  "sql_checkServerProperties s \<longleftrightarrow> sqlr_Properties s = None"

definition sql_initServerProperties :: "sql_server \<Rightarrow> sql_server" where
  "sql_initServerProperties s = s\<lparr>sqlr_Properties :=
     Some \<lparr>sqlp_AdministratorLogin = None, sqlp_AdministratorLoginPassword = None, sqlp_State = None\<rparr>\<rparr>"

definition sql_Set_Name :: "string option \<Rightarrow> (sql_server, unit) go" where
  "sql_Set_Name name = remedy (\<lambda>s. s\<lparr>sqlr_Name := name\<rparr>)"

definition sql_Set_Location :: "string option \<Rightarrow> (sql_server, unit) go" where
  "sql_Set_Location location = remedy (\<lambda>s. s\<lparr>sqlr_Location := location\<rparr>)"

definition sql_Set_AdminLogin :: "string option \<Rightarrow> (sql_server, unit) go" where
  "sql_Set_AdminLogin login =
     go_bind (Initialize [detect sql_checkServerProperties] [remedy sql_initServerProperties]) (\<lambda>_.
     remedy_at (\<lambda>s. map_option (\<lambda>p. s\<lparr>sqlr_Properties := Some (p\<lparr>sqlp_AdministratorLogin := login\<rparr>)\<rparr>) (sqlr_Properties s)))"

definition sql_Set_AdminPassword :: "string option \<Rightarrow> (sql_server, unit) go" where
  "sql_Set_AdminPassword password =
     go_bind (Initialize [detect sql_checkServerProperties] [remedy sql_initServerProperties]) (\<lambda>_.
     remedy_at (\<lambda>s. map_option (\<lambda>p. s\<lparr>sqlr_Properties := Some (p\<lparr>sqlp_AdministratorLoginPassword := password\<rparr>)\<rparr>) (sqlr_Properties s)))"

definition sql_State :: "sql_server \<Rightarrow> string option" where
  "sql_State s = (case sqlr_Properties s of None \<Rightarrow> None | Some p \<Rightarrow> sqlp_State p)"

definition sql_AdminLogin :: "sql_server \<Rightarrow> string option" where
  "sql_AdminLogin s = (case sqlr_Properties s of None \<Rightarrow> None | Some p \<Rightarrow> sqlp_AdministratorLogin p)"

definition sql_AdminPassword :: "sql_server \<Rightarrow> string option" where
  "sql_AdminPassword s = (case sqlr_Properties s of None \<Rightarrow> None | Some p \<Rightarrow> sqlp_AdministratorLoginPassword p)"

definition sql_Name :: "sql_server \<Rightarrow> string option" where
  [simp]: "sql_Name s = sqlr_Name s"

definition sql_Location :: "sql_server \<Rightarrow> string option" where
  [simp]: "sql_Location s = sqlr_Location s"

definition sql_ID :: "sql_server \<Rightarrow> string option" where
  [simp]: "sql_ID s = sqlr_ID s"

definition sql_Build :: "sql_server \<Rightarrow> sql_server" where
  [simp]: "sql_Build s = s"

definition sql_Set :: "(sql_server, unit) go list \<Rightarrow> (sql_server, unit) go" where
  [simp]: "sql_Set opts = set_opts opts"

definition sql_NewSpecWithRemote :: "sql_server \<Rightarrow> sql_server" where
  [simp]: "sql_NewSpecWithRemote remote = remote"

definition sql_NeedsUpdate :: "lib \<Rightarrow> SQLServer \<Rightarrow> (sql_server, bool) go" where
  "sql_NeedsUpdate L local =
     Any [detect (\<lambda>s. \<not> cmp_Equal_ptr L (sql_Name s) (Some (sqls_Name (Spec local)))),
          detect (\<lambda>s. \<not> cmp_Equal_ptr L (sql_Location s) (Some (sqls_Location (Spec local))))]"

subsection \<open>The client of the servers\<close>

text \<open>The fields \<open>factory\<close>, \<open>internal\<close> and \<open>config\<close> are \<open>sqc_mgmt\<close>.\<close>

record sql_client =
  sqc_mgmt :: mgmt_client
  sqc_firewalls :: mgmt_client

text \<open>A call of the firewall client from the server client.\<close>

definition on_firewalls :: "(mgmt_client \<times> 'w, 'a) go \<Rightarrow> (sql_client \<times> 'w, 'a) go" where
  "on_firewalls m = (\<lambda>(c, w). case m (sqc_firewalls c, w) of (r, (f, w')) \<Rightarrow> (r, (c\<lparr>sqc_firewalls := f\<rparr>, w')))"

definition sql_NewWithFactory ::
  "config \<Rightarrow> (string \<Rightarrow> sdk_client) \<Rightarrow> (string \<Rightarrow> sdk_client) \<Rightarrow> sql_client" where
  "sql_NewWithFactory configuration factory firewall_factory =
     \<lparr>sqc_mgmt = new_mgmt_client configuration factory,
      sqc_firewalls = fw_New firewall_factory configuration\<rparr>"

definition sql_convert :: "runtime_object \<Rightarrow> go_error + SQLServer" where
  "sql_convert obj = (case obj of ObjSQLServer local \<Rightarrow> Inr local | _ \<Rightarrow> Inl (kind_error obj))"

definition sql_ForSubscription :: "auth_lib \<Rightarrow> sql_client \<Rightarrow> runtime_object \<Rightarrow> sql_client \<times> go_error option" where
  "sql_ForSubscription A c obj =
     (case sql_convert obj of
        Inl err \<Rightarrow> (c, Some err)
      | Inr local \<Rightarrow>
          (case authorize_for A (sqc_mgmt c) (sqls_SubscriptionID (Spec local)) of
             (m, err) \<Rightarrow> (c\<lparr>sqc_mgmt := m\<rparr>, err)))"

definition sql_SetStatus :: "SQLServer \<Rightarrow> sql_server \<Rightarrow> SQLServer" where
  "sql_SetStatus local remote =
     (let st = (Status local)\<lparr>sqlst_ID := sqlr_ID remote, sqlst_State := None\<rparr>;
          st = (case sqlr_Properties remote of None \<Rightarrow> st | Some p \<Rightarrow> st\<lparr>sqlst_State := sqlp_State p\<rparr>)
      in local\<lparr>Status := st\<rparr>)"

definition sql_ensureSecret ::
  "lib \<Rightarrow> 'w secret_ops \<Rightarrow> 'w sql_sdk \<Rightarrow> SQLServer \<Rightarrow> ('w, k8s_secret option \<times> go_error option) go" where
  "sql_ensureSecret L K S local =
     (let targetName = (om_Namespace (ObjectMeta local), sqls_Name (Spec local)) in
     go_bind (so_Get K targetName (new_secret (sqls_Name (Spec local)) (om_Namespace (ObjectMeta local))))
     (\<lambda>(targetSecret, getErr).
       if IgnoreNotFound L getErr \<noteq> None then go_ret (None, getErr)
       else if (case getErr of None \<Rightarrow> False | Some e \<Rightarrow> IsNotFound L e) then
         go_bind (GenerateRandomString (sql_rand_Read S) 8) (\<lambda>username.
         go_bind (GenerateRandomString (sql_rand_Read S) 16) (\<lambda>password.
         let targetSecret = targetSecret\<lparr>ks_Data := Some
               [''username'' \<mapsto> username,
                ''password'' \<mapsto> password,
                ''sqlservernamespace'' \<mapsto> om_Namespace (ObjectMeta local),
                ''sqlservername'' \<mapsto> om_Name (ObjectMeta local)]\<rparr> in
         with_spec (own_secret K (ObjectMeta local) (go_ret None)) targetSecret (\<lambda>ownerErr targetSecret.
           if ownerErr \<noteq> None then go_ret (None, ownerErr)
           else
         go_bind (so_Create K targetSecret) (\<lambda>(targetSecret, err).
           if err \<noteq> None then go_ret (None, err) else go_ret (Some targetSecret, None)))))
       else go_ret (Some targetSecret, None)))"

text \<open>\<open>string(targetSecret.Data[key])\<close>: a missing key, or a nil map, reads as the empty string.\<close>

definition secret_string :: "k8s_secret \<Rightarrow> string \<Rightarrow> string" where
  "secret_string s key = (case secret_data s key of None \<Rightarrow> '''' | Some v \<Rightarrow> v)"

definition sql_rule :: "SQLServer \<Rightarrow> SQLFirewallRule" where
  "sql_rule local = \<lparr>
     TypeMeta = '''',
     ObjectMeta = \<lparr>om_Name = sqls_Name (Spec local), om_Namespace = om_Namespace (ObjectMeta local), om_UID = '''',
                  om_Finalizers = [], om_DeletionTimestamp = None\<rparr>,
     Spec = \<lparr>fws_Name = ''AllowAzureAccess'',
            fws_Server = sqls_Name (Spec local),
            fws_ResourceGroup = sqls_ResourceGroup (Spec local),
            fws_SubscriptionID = sqls_SubscriptionID (Spec local),
            fws_Start = ''0.0.0.0'',
            fws_End = ''0.0.0.0''\<rparr>,
     Status = zero_SQLFirewallRuleStatus\<rparr>"

definition sql_ensureRule ::
  "(mgmt_client \<times> 'w) SyncClient \<Rightarrow> 'w sql_sdk \<Rightarrow> SQLServer \<Rightarrow> (sql_client \<times> 'w, go_error option) go" where
  "sql_ensureRule firewalls S local =
     (let rule = sql_rule local in
     go_bind (on_firewalls (sync_ForSubscription firewalls (ObjSQLFirewallRule rule))) (\<lambda>err.
       if err \<noteq> None then go_ret err
       else if sqls_AllowAzureServiceAccess (Spec local) = Some True then
         (let (rule, err) = (if om_UID (ObjectMeta local) \<noteq> '''' then sql_own_rule S (ObjectMeta local) rule
                             else (rule, None)) in
          if err \<noteq> None then go_ret err
          else go_bind (on_firewalls (sync_Ensure firewalls (ObjSQLFirewallRule rule))) (\<lambda>(_, err).
            if err \<noteq> None then go_ret err else go_ret None))
       else go_bind (on_firewalls (sync_Delete firewalls (ObjSQLFirewallRule rule))) (\<lambda>(_, err).
              if err \<noteq> None then go_ret err else go_ret None)))"

text \<open>The Azure part of \<open>Ensure\<close>: what remains once the spec is built.  An error of
  \<open>CreateOrUpdate\<close> ends \<open>Ensure\<close> with \<open>return nil\<close>: the result is \<open>Inl\<close> the value \<open>Ensure\<close> returns,
  or \<open>Inr ()\<close> to go on.\<close>

definition sql_apply ::
  "'w sql_sdk \<Rightarrow> sdk_client \<Rightarrow> SQLServer \<Rightarrow> bool \<Rightarrow> sql_server \<Rightarrow> ('w, go_error option + unit) go" where
  "sql_apply S cl local found spec =
     (if found then
        go_bind (sql_sdk_Update S cl (sqls_ResourceGroup (Spec local)) (sqls_Name (Spec local)) (sqlr_Properties spec))
        (\<lambda>(future, err).
          if err \<noteq> None then go_ret (Inl err)
          else go_bind (sql_sdk_Wait S future cl) (\<lambda>err. if err \<noteq> None then go_ret (Inl err) else go_ret (Inr ())))
      else
        go_bind (sql_sdk_CreateOrUpdate S cl (sqls_ResourceGroup (Spec local)) (sqls_Name (Spec local)) (sql_Build spec))
        (\<lambda>(future, err).
          if err \<noteq> None then go_ret (Inl None)
          else go_bind (sql_sdk_Wait S future cl) (\<lambda>err. if err \<noteq> None then go_ret (Inl err) else go_ret (Inr ()))))"

definition sql_Ensure ::
  "lib \<Rightarrow> 'w secret_ops \<Rightarrow> (mgmt_client \<times> 'w) SyncClient \<Rightarrow> 'w sql_sdk \<Rightarrow> runtime_object \<Rightarrow>
   (sql_client \<times> 'w, runtime_object \<times> go_error option) go" where
  "sql_Ensure L K firewalls S obj =
     (case sql_convert obj of
        Inl err \<Rightarrow> go_ret (obj, Some err)
      | Inr local \<Rightarrow>
     go_bind (on_world (\<lambda>c. sql_sdk_Get S (mc_internal (sqc_mgmt c)) (sqls_ResourceGroup (Spec local)) (sqls_Name (Spec local))))
     (\<lambda>(remote, err).
       let found = (\<not> IsHTTPStatus L (sqlr_Response remote) StatusNotFound);
           local = sql_SetStatus local remote
       in
       if err \<noteq> None \<and> found then go_ret (ObjSQLServer local, err)
       else
     go_bind (on_world (\<lambda>_. sql_ensureSecret L K S local)) (\<lambda>(targetSecret, err).
       if err \<noteq> None then go_ret (ObjSQLServer local, err)
       else
     go_bind (go_deref targetSecret) (\<lambda>targetSecret.
     with_spec (sql_Set [sql_Set_Name (Some (sqls_Name (Spec local))),
                          sql_Set_Location (Some (sqls_Location (Spec local))),
                          sql_Set_AdminLogin (Some (secret_string targetSecret ''username'')),
                          sql_Set_AdminPassword (Some (secret_string targetSecret ''password''))])
       (if found then remote else sql_NewSpec) (\<lambda>_ spec.
     go_bind (on_world (\<lambda>c. sql_apply S (mc_internal (sqc_mgmt c)) local found spec)) (\<lambda>r.
     case r of
       Inl err \<Rightarrow> go_ret (ObjSQLServer local, err)
     | Inr _ \<Rightarrow>
     go_bind (sql_ensureRule firewalls S local) (\<lambda>err.
       if err \<noteq> None then go_ret (ObjSQLServer local, err) else go_ret (ObjSQLServer local, None))))))))"

definition sql_Get ::
  "'w sql_sdk \<Rightarrow> sql_client \<Rightarrow> runtime_object \<Rightarrow> ('w, sql_server \<times> go_error option) go" where
  "sql_Get S c obj =
     (case sql_convert obj of
        Inl err \<Rightarrow> go_ret (sql_NewSpec, Some err)
      | Inr local \<Rightarrow>
          sql_sdk_Get S (mc_internal (sqc_mgmt c)) (sqls_ResourceGroup (Spec local)) (sqls_Name (Spec local)))"

definition sql_Delete ::
  "lib \<Rightarrow> 'w secret_ops \<Rightarrow> 'w sql_sdk \<Rightarrow> sql_client \<Rightarrow> runtime_object \<Rightarrow> ('w, runtime_object \<times> go_error option) go" where
  "sql_Delete L K S c obj =
     (case sql_convert obj of
        Inl err \<Rightarrow> go_ret (obj, Some err)
      | Inr local \<Rightarrow>
     go_bind (so_Delete K (new_secret (sqls_Name (Spec local)) (om_Namespace (ObjectMeta local)))) (\<lambda>err.
       if IgnoreNotFound L err \<noteq> None then go_ret (obj, err)
       else
     go_bind (sql_sdk_Delete S (mc_internal (sqc_mgmt c)) (sqls_ResourceGroup (Spec local)) (sqls_Name (Spec local)))
     (\<lambda>(future, err).
       if err \<noteq> None then go_ret (obj, err)
       else
     go_bind (sql_sdk_Wait S future (mc_internal (sqc_mgmt c))) (\<lambda>err.
       if err \<noteq> None then go_ret (obj, err) else go_ret (obj, None)))))"

definition sql_client ::
  "lib \<Rightarrow> auth_lib \<Rightarrow> 'w secret_ops \<Rightarrow> 'w firewall_sdk \<Rightarrow> 'w sql_sdk \<Rightarrow> (sql_client \<times> 'w) SyncClient" where
  "sql_client L A K F S = \<lparr>
     sync_ForSubscription = (\<lambda>obj. on_self (\<lambda>c. sql_ForSubscription A c obj)),
     sync_Ensure = (\<lambda>obj. sql_Ensure L K (fw_client L A F) S obj),
     sync_Delete = (\<lambda>obj. on_world (\<lambda>c. sql_Delete L K S c obj))\<rparr>"

subsection \<open>Lemmas\<close>

lemma fw_convert_Inr [simp]: "fw_convert obj = Inr local \<longleftrightarrow> obj = ObjSQLFirewallRule local"
  by (cases obj) (simp_all add: fw_convert_def)

lemma sql_convert_Inr [simp]: "sql_convert obj = Inr local \<longleftrightarrow> obj = ObjSQLServer local"
  by (cases obj) (simp_all add: sql_convert_def)

lemma fw_SetStatus_keeps [simp]:
  "(fw_SetStatus local remote)\<lparr>Status := st\<rparr> = local\<lparr>Status := st\<rparr>"
  "Spec (fw_SetStatus local remote) = Spec local" "ObjectMeta (fw_SetStatus local remote) = ObjectMeta local"
  by (simp_all add: fw_SetStatus_def)

lemma sql_SetStatus_keeps [simp]:
  "(sql_SetStatus local remote)\<lparr>Status := st\<rparr> = local\<lparr>Status := st\<rparr>"
  "Spec (sql_SetStatus local remote) = Spec local" "ObjectMeta (sql_SetStatus local remote) = ObjectMeta local"
  by (simp_all add: sql_SetStatus_def Let_def)

interpretation fw: sync_client "fw_client L A S"
  for L :: lib and A :: auth_lib and S :: "'w firewall_sdk"
  by unfold_locales
    (auto simp: fw_client_def fw_Ensure_def fw_Delete_def Let_def go_returns
      split: sum.splits prod.splits if_splits)

lemma sql_Ensure_keeps:
  assumes "sql_Ensure L K firewalls S obj s = (Returns (obj', err), s')"
  shows "clear_status obj' = clear_status obj"
  using assms
  by (auto simp: sql_Ensure_def Let_def go_returns early_return_Returns split: prod.splits if_splits)

lemma sql_Delete_keeps:
  assumes "sql_Delete L K S c obj w = (Returns (obj', err), w')"
  shows "obj' = obj"
  using assms
  by (auto simp: sql_Delete_def go_returns split: sum.splits prod.splits if_splits)

interpretation sql: sync_client "sql_client L A K F S"
  for L :: lib and A :: auth_lib and K :: "'w secret_ops" and F :: "'w firewall_sdk" and S :: "'w sql_sdk"
  by unfold_locales (auto simp: sql_client_def go_returns dest: sql_Ensure_keeps sql_Delete_keeps)

text \<open>The options of a rule: the properties are made if there are none, then both ends are set.\<close>

lemma fw_options:
  "set_opts [fw_Set_Start a, fw_Set_End b] s =
     (Returns (), s\<lparr>fwr_Properties := Some \<lparr>fwp_StartIPAddress = a, fwp_EndIPAddress = b\<rparr>\<rparr>)"
  by (cases s; cases "fwr_Properties s")
    (simp_all add: fw_Set_Start_def fw_Set_End_def go_bind_assoc go_simps fw_checkProperties_def fw_initProperties_def)

lemma fw_Ensure_eq:
  assumes "lib_ok L"
    and "fw_sdk_Get S (mc_internal c) (fws_ResourceGroup (Spec x)) (fws_Server (Spec x)) (fws_Name (Spec x)) w =
      (Returns (remote, err), w1)"
    and "err = None \<or> fwr_Response remote = Some StatusNotFound"
  shows "fw_Ensure L S c (ObjSQLFirewallRule x) w =
    go_bind (fw_sdk_CreateOrUpdate S (mc_internal c) (fws_ResourceGroup (Spec x)) (fws_Server (Spec x)) (fws_Name (Spec x))
       ((if fwr_Response remote = Some StatusNotFound then fw_NewSpec else remote)
        \<lparr>fwr_Properties := Some \<lparr>fwp_StartIPAddress = Some (fws_Start (Spec x)), fwp_EndIPAddress = Some (fws_End (Spec x))\<rparr>\<rparr>))
      (\<lambda>err. go_ret (ObjSQLFirewallRule (fw_SetStatus x remote), err)) w1"
  using assms
  by (auto simp: fw_Ensure_def fw_convert_def lib_okD Let_def go_bind_apply with_spec_def fw_options
      simp del: set_opts.simps)

text \<open>A rule as the options leave it needs no update.\<close>

lemma fw_written_needs_no_update:
  assumes "lib_ok L"
    and "set_opts [fw_Set_Start (Some (fws_Start (Spec x))), fw_Set_End (Some (fws_End (Spec x)))] s = (Returns (), s')"
  shows "fw_NeedsUpdate L x s' = (Returns False, s')"
  using assms by (auto simp: fw_options fw_NeedsUpdate_def go_simps lib_okD fw_Start_def fw_End_def simp del: set_opts.simps)

text \<open>\<open>Delete\<close> of a rule drops Azure's error.\<close>

lemma fw_Delete_no_error:
  assumes "fw_Delete S c (ObjSQLFirewallRule x) w = (Returns (obj', err), w')"
  shows "err = None"
  using assms by (auto simp: fw_Delete_def fw_convert_def go_returns)

text \<open>The options of a server.\<close>

lemma sql_options:
  "set_opts [sql_Set_Name n, sql_Set_Location l, sql_Set_AdminLogin a, sql_Set_AdminPassword p] s =
     (Returns (), s\<lparr>sqlr_Name := n, sqlr_Location := l,
        sqlr_Properties := Some \<lparr>sqlp_AdministratorLogin = a, sqlp_AdministratorLoginPassword = p, sqlp_State = sql_State s\<rparr>\<rparr>)"
  by (cases s; cases "sqlr_Properties s")
    (simp_all add: sql_Set_Name_def sql_Set_Location_def sql_Set_AdminLogin_def sql_Set_AdminPassword_def sql_State_def
      go_bind_assoc go_simps sql_checkServerProperties_def sql_initServerProperties_def)

text \<open>The credentials sent to Azure are those of the Kubernetes secret.\<close>

definition sql_wanted :: "SQLServer \<Rightarrow> k8s_secret \<Rightarrow> sql_server \<Rightarrow> sql_server" where
  "sql_wanted x secret base = base\<lparr>
     sqlr_Name := Some (sqls_Name (Spec x)), sqlr_Location := Some (sqls_Location (Spec x)),
     sqlr_Properties := Some \<lparr>sqlp_AdministratorLogin = Some (secret_string secret ''username''),
       sqlp_AdministratorLoginPassword = Some (secret_string secret ''password''), sqlp_State = sql_State base\<rparr>\<rparr>"

lemma sql_Ensure_eq:
  assumes "lib_ok L"
    and "sql_sdk_Get S (mc_internal (sqc_mgmt c)) (sqls_ResourceGroup (Spec x)) (sqls_Name (Spec x)) w = (Returns (remote, err), w1)"
    and "err = None \<or> sqlr_Response remote = Some StatusNotFound"
    and "sql_ensureSecret L K S (sql_SetStatus x remote) w1 = (Returns (Some secret, None), w2)"
  defines "found \<equiv> sqlr_Response remote \<noteq> Some StatusNotFound" and "x' \<equiv> sql_SetStatus x remote"
  shows "sql_Ensure L K fw S (ObjSQLServer x) (c, w) =
    go_bind (on_world (\<lambda>c. sql_apply S (mc_internal (sqc_mgmt c)) x' found
               (sql_wanted x secret (if found then remote else sql_NewSpec))))
      (\<lambda>r. case r of Inl err \<Rightarrow> go_ret (ObjSQLServer x', err)
         | Inr _ \<Rightarrow> go_bind (sql_ensureRule fw S x') (\<lambda>err. go_ret (ObjSQLServer x', err))) (c, w2)"
  using assms(1-4)
  by (auto simp: sql_Ensure_def sql_convert_def lib_okD Let_def go_bind_apply with_spec_def sql_options sql_wanted_def
      on_world_def go_deref_def go_ret_def found_def x'_def simp del: set_opts.simps cong: sum.case_cong)

text \<open>
  Azure refuses to create the server: \<open>Ensure\<close> answers no error, the firewall rule is not touched.
\<close>

lemma sql_Ensure_create_error:
  assumes "lib_ok L"
    and "sql_sdk_Get S (mc_internal (sqc_mgmt c)) (sqls_ResourceGroup (Spec x)) (sqls_Name (Spec x)) w = (Returns (remote, err), w1)"
    and "sqlr_Response remote = Some StatusNotFound"
    and "sql_ensureSecret L K S (sql_SetStatus x remote) w1 = (Returns (Some secret, None), w2)"
    and "sql_sdk_CreateOrUpdate S (mc_internal (sqc_mgmt c)) (sqls_ResourceGroup (Spec x)) (sqls_Name (Spec x))
      (sql_wanted x secret sql_NewSpec) w2 = (Returns (future, Some refused), w3)"
  shows "sql_Ensure L K fw S (ObjSQLServer x) (c, w) = (Returns (ObjSQLServer (sql_SetStatus x remote), None), (c, w3))"
  using sql_Ensure_eq [OF assms(1,2) _ assms(4)] assms(3,5)
  by (simp add: go_bind_apply on_world_def sql_apply_def go_simps)

text \<open>The secret: an existing one is used as it is, a missing one is created with fresh credentials.\<close>

lemma sql_ensureSecret_existing:
  assumes "lib_ok L"
    and "so_Get K (om_Namespace (ObjectMeta x), sqls_Name (Spec x)) (new_secret (sqls_Name (Spec x)) (om_Namespace (ObjectMeta x))) w =
      (Returns (s, None), w1)"
  shows "sql_ensureSecret L K S x w = (Returns (Some s, None), w1)"
  using assms by (simp add: sql_ensureSecret_def lib_okD go_bind_apply go_simps Let_def)

lemma sql_ensureSecret_new:
  assumes L: "lib_ok L" and nf: "IsNotFound L e"
    and get: "so_Get K (om_Namespace (ObjectMeta x), sqls_Name (Spec x)) (new_secret (sqls_Name (Spec x)) (om_Namespace (ObjectMeta x))) w =
      (Returns (s, Some e), w1)"
    and own: "om_UID (ObjectMeta x) = ''''"
    and user: "GenerateRandomString (sql_rand_Read S) 8 w1 = (Returns u, w2)" and pass: "GenerateRandomString (sql_rand_Read S) 16 w2 = (Returns p, w3)"
    and create: "so_Create K (s\<lparr>ks_Data := Some
       [''username'' \<mapsto> u, ''password'' \<mapsto> p, ''sqlservernamespace'' \<mapsto> om_Namespace (ObjectMeta x),
        ''sqlservername'' \<mapsto> om_Name (ObjectMeta x)]\<rparr>) w3 = (Returns (s', None), w4)"
  shows "sql_ensureSecret L K S x w = (Returns (Some s', None), w4)"
  using assms
  by (simp add: sql_ensureSecret_def lib_okD go_bind_apply go_simps Let_def own_secret_def with_spec_def
      del: fun_upd_apply)

text \<open>
  Blocking Azure's access: once the client is authorized, \<open>ensureRule\<close> reports success whatever Azure
  answers to the deletion of the rule.
\<close>

lemma sql_ensureRule_block_no_error:
  assumes "sqls_AllowAzureServiceAccess (Spec x) \<noteq> Some True"
    and "snd (fw_ForSubscription A (sqc_firewalls c) (ObjSQLFirewallRule (sql_rule x))) = None"
    and "sql_ensureRule (fw_client L A F) S x (c, w) = (Returns err, s')"
  shows "err = None"
  using assms
  by (auto simp: sql_ensureRule_def fw_client_def Let_def on_firewalls_def on_self_def on_world_def go_bind_Returns
      go_ret_Returns split: prod.splits if_splits dest: fw_Delete_no_error)

text \<open>Granting it: the rule sent to Azure covers exactly the address Azure uses for its services.\<close>

lemma sql_ensureRule_allow:
  assumes "sqls_AllowAzureServiceAccess (Spec x) = Some True" "om_UID (ObjectMeta x) = ''''"
    and "fw_ForSubscription A (sqc_firewalls c) (ObjSQLFirewallRule (sql_rule x)) = (f, None)"
    and "fw_Ensure L F f (ObjSQLFirewallRule (sql_rule x)) w = (Returns (obj', err), w')"
  shows "sql_ensureRule (fw_client L A F) S x (c, w) = (Returns err, (c\<lparr>sqc_firewalls := f\<rparr>, w'))"
  using assms
  by (cases err) (simp_all add: sql_ensureRule_def fw_client_def Let_def on_firewalls_def on_self_def on_world_def go_bind_apply
      go_ret_def)

text \<open>A deletion that reports no error removed the credentials and waited for Azure.\<close>

lemma sql_Delete_done:
  assumes "lib_ok L" "secret_ops_ok L K st"
    and "sql_Delete L K S c (ObjSQLServer x) w = (Returns (obj', None), w')"
  shows "\<exists>w1 w2 err future. so_Delete K (new_secret (sqls_Name (Spec x)) (om_Namespace (ObjectMeta x))) w = (Returns err, w1) \<and>
     st w1 (om_Namespace (ObjectMeta x), sqls_Name (Spec x)) = None \<and>
     sql_sdk_Delete S (mc_internal (sqc_mgmt c)) (sqls_ResourceGroup (Spec x)) (sqls_Name (Spec x)) w1 = (Returns (future, None), w2) \<and>
     sql_sdk_Wait S future (mc_internal (sqc_mgmt c)) w2 = (Returns None, w')"
proof -
  have "IgnoreNotFound L None = None" using assms(1) by (simp add: lib_okD)
  with assms(3) obtain err w1 future w2 where
    "so_Delete K (new_secret (sqls_Name (Spec x)) (om_Namespace (ObjectMeta x))) w = (Returns err, w1)"
    "IgnoreNotFound L err = None"
    "sql_sdk_Delete S (mc_internal (sqc_mgmt c)) (sqls_ResourceGroup (Spec x)) (sqls_Name (Spec x)) w1 = (Returns (future, None), w2)"
    "sql_sdk_Wait S future (mc_internal (sqc_mgmt c)) w2 = (Returns None, w')"
    by (auto simp: sql_Delete_def sql_convert_def go_returns split: if_splits)
  with secret_deleted [OF assms(2) this(1)] show ?thesis by auto
qed

end
