(* ===== verification/Secrets.thy ===== *)
theory Secrets imports Kube_Secrets begin

section \<open>Key vault secrets (pkg/clients/secrets)\<close>

text \<open>
  \<open>pkg/clients/secrets/secrets.go\<close>, and what the four clients of key vault secrets share: the
  client's fields, the SDK, the address of a vault.  A client is a pointer: \<open>None\<close> is the nil
  client, which \<open>New\<close> returns without an error when there is no authorizer; reading one of its
  fields panics.
\<close>

record vault_client =
  vc_Authorizer :: "authorizer option"

text \<open>
  \<open>vs_GetSecret\<close> answers the \<open>Value\<close> pointer of the bundle, \<open>vs_GetCertificate\<close> the
  \<open>X509Thumbprint\<close> pointer of the certificate; \<open>vs_DNSSuffix\<close> is
  \<open>azure.PublicCloud.KeyVaultDNSSuffix\<close>.
\<close>

record 'w vault_ops =
  vs_GetSecret :: "vault_client \<Rightarrow> string \<Rightarrow> string \<Rightarrow> string \<Rightarrow> ('w, string option \<times> go_error option) go"
  vs_GetCertificate :: "vault_client \<Rightarrow> string \<Rightarrow> string \<Rightarrow> string \<Rightarrow> ('w, string option \<times> go_error option) go"
  vs_DNSSuffix :: string

definition vault_url :: "'w vault_ops \<Rightarrow> string \<Rightarrow> string" where
  "vault_url V vault = ''https://'' @ vault @ ''.'' @ vs_DNSSuffix V"

definition secrets_New :: "auth_lib \<Rightarrow> config \<Rightarrow> bool \<Rightarrow> vault_client option \<times> go_error option" where
  "secrets_New A configuration kubeclient_nil =
     (if kubeclient_nil
      then (None, Some (ErrorText ''nil kubeclient passed to secrets client is effectively noop''))
      else case GetKeyvaultAuthorizer A configuration of
             Inl err \<Rightarrow> (None, None)
           | Inr authorizer \<Rightarrow> (Some \<lparr>vc_Authorizer = Some authorizer\<rparr>, None))"

definition secret_convert :: "runtime_object \<Rightarrow> go_error + Secret" where
  "secret_convert obj = (case obj of ObjSecret local \<Rightarrow> Inr local | _ \<Rightarrow> Inl (kind_error obj))"

definition secret_ForSubscription :: "vault_client option \<Rightarrow> runtime_object \<Rightarrow> go_error option" where
  "secret_ForSubscription c obj = None"

abbreviation secret_Vault :: "Secret \<Rightarrow> string" where
  "secret_Vault x \<equiv> si_Vault (secs_SecretIdentifier (Spec x))"

abbreviation secret_Name :: "Secret \<Rightarrow> string" where
  "secret_Name x \<equiv> si_Name (secs_SecretIdentifier (Spec x))"

definition secret_Get ::
  "'w vault_ops \<Rightarrow> vault_client option \<Rightarrow> runtime_object \<Rightarrow> ('w, string option \<times> go_error option) go" where
  "secret_Get V c obj =
     (case secret_convert obj of
        Inl err \<Rightarrow> go_ret (None, Some err)
      | Inr secret \<Rightarrow> go_bind (go_deref c) (\<lambda>c. vs_GetSecret V c (vault_url V (secret_Vault secret)) (secret_Name secret) ''''))"

text \<open>The function given to \<open>CreateOrUpdate\<close>: \<open>*bundle.Value\<close> panics when the value is nil.\<close>

definition secret_mutate :: "'w secret_ops \<Rightarrow> Secret \<Rightarrow> string option \<Rightarrow> secret_mutation" where
  "secret_mutate K secret val =
     own_secret K (ObjectMeta secret)
       (go_bind init_data (\<lambda>_.
        case secs_FriendlyName (Spec secret) of
          Some friendly \<Rightarrow> go_bind (go_deref val) (\<lambda>v. go_bind (put_data friendly v) (\<lambda>_. go_ret None))
        | None \<Rightarrow> go_bind (go_deref val) (\<lambda>v. go_bind (put_data (secret_Name secret) v) (\<lambda>_. go_ret None))))"

definition secret_set_state :: "Secret \<Rightarrow> go_error option \<Rightarrow> Secret" where
  "secret_set_state secret err =
     (let secret = secret\<lparr>Status := (Status secret)\<lparr>secst_State := None\<rparr>\<rparr> in
      if err = None then secret\<lparr>Status := (Status secret)\<lparr>secst_State := Some ''Succeeded''\<rparr>\<rparr> else secret)"

definition secret_Ensure ::
  "'w secret_ops \<Rightarrow> 'w vault_ops \<Rightarrow> vault_client option \<Rightarrow> runtime_object \<Rightarrow>
   ('w, runtime_object \<times> go_error option) go" where
  "secret_Ensure K V c obj =
     (case secret_convert obj of
        Inl err \<Rightarrow> go_ret (obj, Some err)
      | Inr secret \<Rightarrow>
     go_bind (go_deref c) (\<lambda>c.
     go_bind (vs_GetSecret V c (vault_url V (secret_Vault secret)) (secret_Name secret) '''') (\<lambda>(bundle, err).
       if err \<noteq> None then go_ret (obj, err)
       else
     go_bind (so_CreateOrUpdate K
                (new_secret (om_Name (ObjectMeta secret)) (om_Namespace (ObjectMeta secret)))
                (secret_mutate K secret bundle)) (\<lambda>(_, err).
     go_ret (ObjSecret (secret_set_state secret err), err)))))"

definition secret_Delete ::
  "lib \<Rightarrow> 'w secret_ops \<Rightarrow> vault_client option \<Rightarrow> runtime_object \<Rightarrow> ('w, runtime_object \<times> go_error option) go" where
  "secret_Delete L K c obj =
     (case secret_convert obj of
        Inl err \<Rightarrow> go_ret (obj, Some err)
      | Inr local \<Rightarrow>
     go_bind (go_deref c) (\<lambda>c.
     go_bind (so_Delete K (new_secret (secret_Name local) (om_Namespace (ObjectMeta local)))) (\<lambda>err.
     go_ret (obj, IgnoreNotFound L err))))"

definition secret_client ::
  "lib \<Rightarrow> 'w secret_ops \<Rightarrow> 'w vault_ops \<Rightarrow> (vault_client option \<times> 'w) SyncClient" where
  "secret_client L K V = \<lparr>
     sync_ForSubscription = (\<lambda>obj. on_self (\<lambda>c. (c, secret_ForSubscription c obj))),
     sync_Ensure = (\<lambda>obj. on_world (\<lambda>c. secret_Ensure K V c obj)),
     sync_Delete = (\<lambda>obj. on_world (\<lambda>c. secret_Delete L K c obj))\<rparr>"

subsection \<open>Lemmas\<close>

lemma secret_convert_Inr [simp]: "secret_convert obj = Inr local \<longleftrightarrow> obj = ObjSecret local"
  by (cases obj) (simp_all add: secret_convert_def)

lemma secret_convert_Inl [simp]: "secret_convert obj = Inl err \<longleftrightarrow> kind_of obj \<noteq> KSecret \<and> err = kind_error obj"
  by (cases obj) (auto simp: secret_convert_def)

lemma secret_set_state_keeps [simp]:
  "(secret_set_state x err)\<lparr>Status := st\<rparr> = x\<lparr>Status := st\<rparr>"
  by (simp add: secret_set_state_def Let_def)

interpretation secret: sync_client "secret_client L K V"
  for L :: lib and K :: "'w secret_ops" and V :: "'w vault_ops"
  by unfold_locales
    (auto simp: secret_client_def secret_Ensure_def secret_Delete_def go_returns
      split: sum.splits prod.splits if_splits)

text \<open>The nil client: every \<open>Ensure\<close> and \<open>Delete\<close> of a secret panics.\<close>

lemma secret_nil_client:
  "secret_Ensure K V None (ObjSecret x) w = (Panics, w)" "secret_Delete L K None (ObjSecret x) w = (Panics, w)"
  by (simp_all add: secret_Ensure_def secret_Delete_def secret_convert_def go_simps)

lemma secrets_New_nil: "GetKeyvaultAuthorizer A cfg = Inl err \<Longrightarrow> secrets_New A cfg False = (None, None)"
  by (simp add: secrets_New_def)

text \<open>The key under which the value is stored.\<close>

definition secret_data_key :: "Secret \<Rightarrow> string" where
  "secret_data_key x = (case secs_FriendlyName (Spec x) of Some f \<Rightarrow> f | None \<Rightarrow> secret_Name x)"

lemma secret_mutate_Returns:
  assumes "secret_ops_ok L K st" "secret_mutate K x val s = (Returns None, s')"
  shows "\<exists>v. val = Some v \<and> ks_Data s' = Some ((secret_data s)(secret_data_key x \<mapsto> v)) \<and>
     ks_Name s' = ks_Name s \<and> ks_Namespace s' = ks_Namespace s \<and> ks_Type s' = ks_Type s"
proof -
  from own_secret_Returns [OF assms(1) assms(2) [unfolded secret_mutate_def]] obtain o' v where
    "val = Some v" and "put_data (secret_data_key x) v (s\<lparr>ks_Owner := o', ks_Data := Some (secret_data s)\<rparr>) = (Returns (), s')"
    by (auto simp: go_returns init_data_eq secret_data_def secret_data_key_def split: option.splits)
  then show ?thesis by (auto simp: put_data_eq simp del: fun_upd_apply)
qed

text \<open>
  A successful \<open>Ensure\<close>: the Kubernetes secret of the object's own name holds the vault's value
  under the expected key, keeps its other entries, no other secret changed, and the status says
  \<open>Succeeded\<close>.
\<close>

lemma secret_Ensure_stores:
  assumes K: "secret_ops_ok L K st"
    and get: "vs_GetSecret V c (vault_url V (secret_Vault x)) (secret_Name x) '''' w = (Returns (Some v, None), w1)"
    and ens: "secret_Ensure K V (Some c) (ObjSecret x) w = (Returns (obj', None), w')"
  defines "key \<equiv> (om_Namespace (ObjectMeta x), om_Name (ObjectMeta x))"
  shows "\<exists>s. st w' key = Some s \<and>
       ks_Data s = Some ((case st w1 key of None \<Rightarrow> Map.empty | Some old \<Rightarrow> secret_data old)(secret_data_key x \<mapsto> v))"
    and "\<forall>k. k \<noteq> key \<longrightarrow> st w' k = st w1 k"
    and "obj' = ObjSecret (x\<lparr>Status := (Status x)\<lparr>secst_State := Some ''Succeeded''\<rparr>\<rparr>)"
proof -
  let ?new = "new_secret (om_Name (ObjectMeta x)) (om_Namespace (ObjectMeta x))"
  from ens get obtain s where
    cu: "so_CreateOrUpdate K ?new (secret_mutate K x (Some v)) w1 = (Returns (s, None), w')"
    and obj: "obj' = ObjSecret (secret_set_state x None)"
    by (auto simp: secret_Ensure_def secret_convert_def go_returns go_simps go_bind_apply
        split: prod.splits outcome.splits)
  have key: "secret_key ?new = key" by (simp add: key_def)
  from secret_stored [OF K cu, unfolded key] obtain base where
    base: "st w1 key = None \<and> base = ?new \<or> st w1 key = Some base"
    and run: "secret_mutate K x (Some v) base = (Returns None, s)" and stored: "st w' key = Some s"
    by blast
  from secret_mutate_Returns [OF K run] base stored
  show "\<exists>s. st w' key = Some s \<and>
       ks_Data s = Some ((case st w1 key of None \<Rightarrow> Map.empty | Some old \<Rightarrow> secret_data old)(secret_data_key x \<mapsto> v))"
    by (auto simp: new_secret_def secret_data_def)
  show "\<forall>k. k \<noteq> key \<longrightarrow> st w' k = st w1 k"
    using secret_others_kept [OF K cu, unfolded key] by blast
  show "obj' = ObjSecret (x\<lparr>Status := (Status x)\<lparr>secst_State := Some ''Succeeded''\<rparr>\<rparr>)"
    by (simp add: obj secret_set_state_def)
qed

text \<open>
  \<open>Delete\<close> removes the secret called \<open>Spec.Name\<close>; the secret \<open>Ensure\<close> wrote, named after the
  object, stays when the names differ.
\<close>

lemma secret_Delete_leaves:
  assumes K: "secret_ops_ok L K st" and names: "secret_Name x \<noteq> om_Name (ObjectMeta x)"
    and del: "secret_Delete L K c (ObjSecret x) w = (r, w')"
  shows "st w' (om_Namespace (ObjectMeta x), om_Name (ObjectMeta x)) =
         st w (om_Namespace (ObjectMeta x), om_Name (ObjectMeta x))"
proof (cases c)
  case None
  with del show ?thesis by (simp add: secret_Delete_def secret_convert_def go_simps)
next
  case (Some c')
  from del obtain r' where
    "so_Delete K (new_secret (secret_Name x) (om_Namespace (ObjectMeta x))) w = (r', w')"
    by (cases "so_Delete K (new_secret (secret_Name x) (om_Namespace (ObjectMeta x))) w"; cases "fst (so_Delete K (new_secret (secret_Name x) (om_Namespace (ObjectMeta x))) w)")
      (auto simp: Some secret_Delete_def secret_convert_def go_simps go_bind_apply)
  from secret_delete_others_kept [OF K this] names show ?thesis by simp
qed

end
