(* ===== verification/TLSSecrets.thy ===== *)
theory TLSSecrets imports Secrets Encodings begin

section \<open>TLS secrets (pkg/clients/tlssecrets)\<close>

text \<open>
  \<open>pkg/clients/tlssecrets/tlssecrets.go\<close>: a PKCS#12 bundle of the key vault becomes a Kubernetes
  secret of type TLS.  The parsers and printers of third-party and standard packages that are not
  text manipulation (\<open>pkcs12.DecodeChain\<close>, \<open>x509.Marshal...\<close>, \<open>pem.Encode\<close>) are parameters.
\<close>

subsection \<open>Certificates\<close>

text \<open>
  A field of \<open>pkix.Name\<close> is a slice: \<open>None\<close> is nil; indexing an empty slice that is not nil panics.
\<close>

record pkix_name =
  pn_Country :: "string list option"
  pn_Province :: "string list option"
  pn_Locality :: "string list option"
  pn_Organization :: "string list option"
  pn_OrganizationalUnit :: "string list option"
  pn_CommonName :: string

record x509_certificate =
  cert_Raw :: "nat list"
  cert_Subject :: pkix_name
  cert_Issuer :: pkix_name

text \<open>The dynamic type of a private key: \<open>*rsa.PrivateKey\<close> or another; the number is the key.\<close>

datatype private_key = RsaKey nat | OtherKey nat

record tls_lib =
  pkcs12_DecodeChain :: "nat list \<Rightarrow> go_error + (private_key \<times> x509_certificate \<times> x509_certificate list)"
  MarshalPKCS1PrivateKey :: "nat \<Rightarrow> nat list"
  MarshalPKCS8PrivateKey :: "private_key \<Rightarrow> go_error + nat list"
  pem_Encode :: "string \<Rightarrow> nat list \<Rightarrow> string"

text \<open>\<open>base64.StdEncoding.DecodeString\<close> with the error of a corrupt input.\<close>

definition decode_base64 :: "string \<Rightarrow> bool \<Rightarrow> string \<Rightarrow> go_error + nat list" where
  "decode_base64 al pad s =
     (case base64_decode al pad s of None \<Rightarrow> Inl (ErrorText ''illegal base64 data'') | Some bs \<Rightarrow> Inr bs)"

definition name_part :: "string \<Rightarrow> string list option \<Rightarrow> string \<Rightarrow> string option" where
  "name_part label field s =
     (case field of None \<Rightarrow> Some s | Some [] \<Rightarrow> None | Some (v # _) \<Rightarrow> Some (s @ label @ v))"

definition name_line :: "string \<Rightarrow> pkix_name \<Rightarrow> string option" where
  "name_line start n =
     Option.bind (name_part ''/C='' (pn_Country n) start) (\<lambda>s.
     Option.bind (name_part ''/ST='' (pn_Province n) s) (\<lambda>s.
     Option.bind (name_part ''/L='' (pn_Locality n) s) (\<lambda>s.
     Option.bind (name_part ''/O='' (pn_Organization n) s) (\<lambda>s.
     Option.bind (name_part ''/OU='' (pn_OrganizationalUnit n) s) (\<lambda>s.
     Some (s @ ''/CN='' @ pn_CommonName n))))))"

definition GenerateSubject :: "x509_certificate \<Rightarrow> string option" where
  "GenerateSubject cert = name_line ''subject='' (cert_Subject cert)"

definition GenerateIssuer :: "x509_certificate \<Rightarrow> string option" where
  "GenerateIssuer cert = name_line ''issuer='' (cert_Issuer cert)"

text \<open>
  \<open>reverse\<close> swaps the ends of the slice moving inward, with the two indexes as arguments; an index
  is in range because \<open>i < j < len\<close>.
\<close>

function reverse_from :: "nat \<Rightarrow> int \<Rightarrow> 'a list \<Rightarrow> 'a list" where
  "reverse_from i j s =
     (if int i < j then reverse_from (Suc i) (j - 1) (s[i := s ! nat j, nat j := s ! i]) else s)"
  by auto
termination by (relation "measure (\<lambda>(i, j, s). nat (j - int i))") auto

declare reverse_from.simps [simp del]

definition reverse_certs :: "'a list \<Rightarrow> 'a list" where
  "reverse_certs s = reverse_from 0 (int (length s) - 1) s"

text \<open>
  \<open>pfxCert, caCerts[len(caCerts)-1] = caCerts[len(caCerts)-1], pfxCert\<close>: with no CA certificate the
  index is \<open>-1\<close>, which panics (\<open>None\<close>).
\<close>

definition swap_leaf ::
  "x509_certificate \<Rightarrow> x509_certificate list \<Rightarrow> (x509_certificate \<times> x509_certificate list) option" where
  "swap_leaf leaf cas = (if cas = [] then None else Some (last cas, butlast cas @ [leaf]))"

text \<open>\<open>newline\<close> is the \<open>\n\<close> of the format strings.\<close>

abbreviation newline :: string where
  "newline \<equiv> [CHR 0x0A]"

definition cert_block :: "tls_lib \<Rightarrow> x509_certificate \<Rightarrow> string option" where
  "cert_block T cert =
     Option.bind (GenerateSubject cert) (\<lambda>subject.
     Option.bind (GenerateIssuer cert) (\<lambda>issuer.
     Some (subject @ newline @ issuer @ newline @ pem_Encode T ''CERTIFICATE'' (cert_Raw cert))))"

fun ca_blocks :: "tls_lib \<Rightarrow> x509_certificate list \<Rightarrow> string \<Rightarrow> string option" where
  "ca_blocks T [] acc = Some acc"
| "ca_blocks T (cert # certs) acc =
     Option.bind (cert_block T cert) (\<lambda>b. ca_blocks T certs (acc @ b))"

subsection \<open>The client\<close>

definition tls_New :: "auth_lib \<Rightarrow> config \<Rightarrow> bool \<Rightarrow> vault_client option \<times> go_error option" where
  "tls_New A configuration kubeclient_nil =
     (if kubeclient_nil
      then (None, Some (ErrorText ''nil kubeclient passed to secrets client is effectively noop''))
      else case GetKeyvaultAuthorizer A configuration of
             Inl err \<Rightarrow> (None, None)
           | Inr authorizer \<Rightarrow> (Some \<lparr>vc_Authorizer = Some authorizer\<rparr>, None))"

definition tls_convert :: "runtime_object \<Rightarrow> go_error + TLSSecret" where
  "tls_convert obj = (case obj of ObjTLSSecret local \<Rightarrow> Inr local | _ \<Rightarrow> Inl (kind_error obj))"

definition tls_ForSubscription :: "vault_client option \<Rightarrow> runtime_object \<Rightarrow> go_error option" where
  "tls_ForSubscription c obj = None"

definition tls_Get ::
  "'w vault_ops \<Rightarrow> vault_client option \<Rightarrow> runtime_object \<Rightarrow> ('w, string option \<times> go_error option) go" where
  "tls_Get V c obj =
     (case tls_convert obj of
        Inl err \<Rightarrow> go_ret (None, Some err)
      | Inr secret \<Rightarrow> go_bind (go_deref c) (\<lambda>c.
          vs_GetSecret V c (vault_url V (tlss_Vault (Spec secret))) (tlss_Name (Spec secret)) ''''))"

text \<open>
  The text part of \<open>Ensure\<close>: from the bundle's value to the certificate chain and the key.
  \<open>None\<close> is a panic, \<open>Some (Inl err)\<close> an error that \<open>Ensure\<close> returns.
\<close>

definition tls_render ::
  "lib \<Rightarrow> tls_lib \<Rightarrow> bool \<Rightarrow> string \<Rightarrow> (go_error + string \<times> string) option" where
  "tls_render L T reverse' val =
     (case decode_base64 base64_std True val of
        Inl err \<Rightarrow> Some (Inl (errors_Wrap L err ''err decoding base64 to p12''))
      | Inr p12 \<Rightarrow>
     (case pkcs12_DecodeChain T p12 of
        Inl err \<Rightarrow> Some (Inl err)
      | Inr (pfxKey, pfxCert, caCerts) \<Rightarrow>
     Option.bind (if reverse' then swap_leaf pfxCert caCerts else Some (pfxCert, caCerts)) (\<lambda>(pfxCert, caCerts).
     Option.bind (cert_block T pfxCert) (\<lambda>out.
     Option.bind (ca_blocks T caCerts '''') (\<lambda>caCertString.
     case pfxKey of
       OtherKey _ \<Rightarrow> None
     | RsaKey k \<Rightarrow>
         Some (Inr (out @ newline @ caCertString,
                    pem_Encode T ''RSA PRIVATE KEY'' (MarshalPKCS1PrivateKey T k))))))))"

definition tls_mutate :: "'w secret_ops \<Rightarrow> TLSSecret \<Rightarrow> string \<Rightarrow> string \<Rightarrow> secret_mutation" where
  "tls_mutate K secret crt key =
     own_secret K (ObjectMeta secret)
       (go_bind init_data (\<lambda>_.
        go_bind (put_data ''tls.crt'' crt) (\<lambda>_.
        go_bind (put_data ''tls.key'' key) (\<lambda>_.
        go_bind (remedy (\<lambda>s. s\<lparr>ks_Type := ''kubernetes.io/tls''\<rparr>)) (\<lambda>_. go_ret None)))))"

definition tls_set_state :: "TLSSecret \<Rightarrow> go_error option \<Rightarrow> TLSSecret" where
  "tls_set_state secret err =
     (let secret = secret\<lparr>Status := (Status secret)\<lparr>tlsst_State := None\<rparr>\<rparr> in
      if err = None then secret\<lparr>Status := (Status secret)\<lparr>tlsst_State := Some ''Succeeded''\<rparr>\<rparr> else secret)"

definition tls_Ensure ::
  "lib \<Rightarrow> tls_lib \<Rightarrow> 'w secret_ops \<Rightarrow> 'w vault_ops \<Rightarrow> vault_client option \<Rightarrow> runtime_object \<Rightarrow>
   ('w, runtime_object \<times> go_error option) go" where
  "tls_Ensure L T K V c obj =
     (case tls_convert obj of
        Inl err \<Rightarrow> go_ret (obj, Some err)
      | Inr secret \<Rightarrow>
     go_bind (go_deref c) (\<lambda>c.
     go_bind (vs_GetSecret V c (vault_url V (tlss_Vault (Spec secret))) (tlss_Name (Spec secret)) '''') (\<lambda>(bundle, err).
       if err \<noteq> None then go_ret (obj, err)
       else
     go_bind (go_deref bundle) (\<lambda>val.
     go_bind (go_deref (tls_render L T (tlss_Reverse (Spec secret)) val)) (\<lambda>r.
     case r of
       Inl err \<Rightarrow> go_ret (obj, Some err)
     | Inr (out, key) \<Rightarrow>
     go_bind (so_CreateOrUpdate K
                (new_secret (om_Name (ObjectMeta secret)) (om_Namespace (ObjectMeta secret)))
                (tls_mutate K secret out key)) (\<lambda>(_, err).
     go_ret (ObjTLSSecret (tls_set_state secret err), err)))))))"

definition tls_Delete ::
  "lib \<Rightarrow> 'w secret_ops \<Rightarrow> vault_client option \<Rightarrow> runtime_object \<Rightarrow> ('w, runtime_object \<times> go_error option) go" where
  "tls_Delete L K c obj =
     (case tls_convert obj of
        Inl err \<Rightarrow> go_ret (obj, Some err)
      | Inr secret \<Rightarrow>
     go_bind (go_deref c) (\<lambda>c.
     go_bind (so_Delete K (new_secret (tlss_Name (Spec secret)) (om_Namespace (ObjectMeta secret)))) (\<lambda>err.
     go_ret (obj, IgnoreNotFound L err))))"

definition tls_client ::
  "lib \<Rightarrow> tls_lib \<Rightarrow> 'w secret_ops \<Rightarrow> 'w vault_ops \<Rightarrow> (vault_client option \<times> 'w) SyncClient" where
  "tls_client L T K V = \<lparr>
     sync_ForSubscription = (\<lambda>obj. on_self (\<lambda>c. (c, tls_ForSubscription c obj))),
     sync_Ensure = (\<lambda>obj. on_world (\<lambda>c. tls_Ensure L T K V c obj)),
     sync_Delete = (\<lambda>obj. on_world (\<lambda>c. tls_Delete L K c obj))\<rparr>"

subsection \<open>Lemmas\<close>

lemma tls_convert_Inr [simp]: "tls_convert obj = Inr local \<longleftrightarrow> obj = ObjTLSSecret local"
  by (cases obj) (simp_all add: tls_convert_def)

lemma tls_set_state_keeps [simp]: "(tls_set_state x err)\<lparr>Status := st\<rparr> = x\<lparr>Status := st\<rparr>"
  by (simp add: tls_set_state_def Let_def)

interpretation tls: sync_client "tls_client L T K V"
  for L :: lib and T :: tls_lib and K :: "'w secret_ops" and V :: "'w vault_ops"
  by unfold_locales
    (auto simp: tls_client_def tls_Ensure_def tls_Delete_def go_returns early_return_Returns
      split: prod.splits if_splits)

text \<open>\<open>reverse\<close> reverses.\<close>

lemma reverse_from_rev:
  "length s = length pre + length mid + length post \<Longrightarrow> s = pre @ mid @ post \<Longrightarrow>
   reverse_from (length pre) (int (length pre + length mid) - 1) s = pre @ rev mid @ post"
proof (induction "length mid" arbitrary: pre mid post s rule: less_induct)
  case less
  show ?case
  proof (cases "2 \<le> length mid")
    case False
    then have "rev mid = mid" by (cases mid; cases "tl mid") auto
    with False less.prems(2) show ?thesis by (simp add: reverse_from.simps)
  next
    case True
    then obtain x m y where mid: "mid = x # m @ [y]"
      by (cases mid; cases "tl mid" rule: rev_cases) auto
    let ?s = "s[length pre := s ! nat (int (length pre + length mid) - 1),
      nat (int (length pre + length mid) - 1) := s ! length pre]"
    have n: "nat (int (length pre + length mid) - 1) = length pre + Suc (length m)" using mid by simp
    have s: "?s = (pre @ [y]) @ m @ (x # post)"
      unfolding n using less.prems(2) mid by (simp add: nth_append list_update_append)
    have "reverse_from (length (pre @ [y])) (int (length (pre @ [y]) + length m) - 1) ?s = (pre @ [y]) @ rev m @ (x # post)"
      by (rule less.hyps) (use mid s in auto)
    with mid show ?thesis by (subst reverse_from.simps) simp
  qed
qed

lemma reverse_certs_rev: "reverse_certs s = rev s"
  using reverse_from_rev [of s "[]" s "[]"] by (simp add: reverse_certs_def)

text \<open>The swap of \<open>Reverse\<close> is not the reversal: it exchanges the leaf and the last CA certificate.\<close>

lemma swap_leaf_twice:
  "cas \<noteq> [] \<Longrightarrow> Option.bind (swap_leaf leaf cas) (\<lambda>(l, c). swap_leaf l c) = Some (leaf, cas)"
  by (simp add: swap_leaf_def)

lemma tls_render_no_chain_panics:
  assumes "decode_base64 base64_std True val = Inr p12" "pkcs12_DecodeChain T p12 = Inr (k, cert, [])"
  shows "tls_render L T True val = None"
  using assms by (simp add: tls_render_def swap_leaf_def)

lemma tls_mutate_Returns:
  assumes "secret_ops_ok L K st" "tls_mutate K x crt key s = (Returns None, s')"
  shows "ks_Data s' = Some ((secret_data s)(''tls.crt'' \<mapsto> crt, ''tls.key'' \<mapsto> key)) \<and> ks_Type s' = ''kubernetes.io/tls''"
proof -
  from own_secret_Returns [OF assms(1) assms(2) [unfolded tls_mutate_def]] obtain o' where
    "s' = s\<lparr>ks_Owner := o', ks_Data := Some ((secret_data s)(''tls.crt'' \<mapsto> crt, ''tls.key'' \<mapsto> key)),
       ks_Type := ''kubernetes.io/tls''\<rparr>"
    by (auto simp: go_bind_apply init_data_eq put_data_eq go_simps secret_data_def simp del: fun_upd_apply)
  then show ?thesis by simp
qed

text \<open>A successful \<open>Ensure\<close> stored the rendered chain and key, typed as TLS.\<close>

lemma tls_Ensure_stores:
  assumes K: "secret_ops_ok L K st"
    and get: "vs_GetSecret V c (vault_url V (tlss_Vault (Spec x))) (tlss_Name (Spec x)) '''' w = (Returns (Some val, None), w1)"
    and ens: "tls_Ensure L T K V (Some c) (ObjTLSSecret x) w = (Returns (obj', None), w')"
  shows "\<exists>out key s d. tls_render L T (tlss_Reverse (Spec x)) val = Some (Inr (out, key)) \<and>
     st w' (om_Namespace (ObjectMeta x), om_Name (ObjectMeta x)) = Some s \<and> ks_Data s = Some d \<and>
     d ''tls.crt'' = Some out \<and> d ''tls.key'' = Some key \<and> ks_Type s = ''kubernetes.io/tls''"
proof -
  from ens get obtain out key s where r: "tls_render L T (tlss_Reverse (Spec x)) val = Some (Inr (out, key))"
    and cu: "so_CreateOrUpdate K (new_secret (om_Name (ObjectMeta x)) (om_Namespace (ObjectMeta x)))
      (tls_mutate K x out key) w1 = (Returns (s, None), w')"
    by (auto simp: tls_Ensure_def tls_convert_def go_returns go_bind_apply go_deref_def go_simps go_ret_def go_panic_def
        split: prod.splits outcome.splits option.splits sum.splits)
  from secret_stored [OF K cu] obtain base where
    "tls_mutate K x out key base = (Returns None, s)" and
    st: "st w' (om_Namespace (ObjectMeta x), om_Name (ObjectMeta x)) = Some s" by auto
  from tls_mutate_Returns [OF K this(1)] st r show ?thesis by auto
qed

end
