(* ===== verification/SecretBundles.thy ===== *)
theory SecretBundles imports TLSSecrets begin

section \<open>Secret bundles (pkg/clients/secretbundles)\<close>

text \<open>
  \<open>pkg/clients/secretbundles/secretbundles.go\<close>: several items of key vaults, each in a format of
  its own, become one Kubernetes secret.  The client's fields \<open>redisClient\<close> and
  \<open>servicebusClient\<close> are never used.
\<close>

definition bundle_New :: "auth_lib \<Rightarrow> config \<Rightarrow> bool \<Rightarrow> vault_client option \<times> go_error option" where
  "bundle_New A configuration kubeclient_nil =
     (if kubeclient_nil
      then (None, Some (ErrorText ''nil kubeclient passed to secrets client is effectively noop''))
      else case GetKeyvaultAuthorizer A configuration of
             Inl err \<Rightarrow> (None, None)
           | Inr authorizer \<Rightarrow> (Some \<lparr>vc_Authorizer = Some authorizer\<rparr>, None))"

definition bundle_convert :: "runtime_object \<Rightarrow> go_error + SecretBundle" where
  "bundle_convert obj = (case obj of ObjSecretBundle local \<Rightarrow> Inr local | _ \<Rightarrow> Inl (kind_error obj))"

definition bundle_ForSubscription :: "vault_client option \<Rightarrow> runtime_object \<Rightarrow> go_error option" where
  "bundle_ForSubscription c obj = None"

subsection \<open>Formats\<close>

text \<open>A format is an error or bytes; \<open>None\<close> is a panic.\<close>

type_synonym formatted = "(go_error + string) option"

definition parsePKCS12 ::
  "lib \<Rightarrow> tls_lib \<Rightarrow> string \<Rightarrow> go_error + (private_key \<times> x509_certificate \<times> x509_certificate list)" where
  "parsePKCS12 L T secret =
     (case decode_base64 base64_std True secret of
        Inl err \<Rightarrow> Inl (errors_Wrap L err ''err decoding base64 to p12'')
      | Inr p12 \<Rightarrow> pkcs12_DecodeChain T p12)"

definition formatPFX :: "string \<Rightarrow> formatted" where
  "formatPFX secret = Some (Inr secret)"

definition formatSHA :: "string \<Rightarrow> go_error + string" where
  "formatSHA thumbprint =
     (case decode_base64 base64_url False thumbprint of
        Inl err \<Rightarrow> Inl err
      | Inr src \<Rightarrow> Inr (ToUpper (hex_encode src)))"

definition formatPKCS8 :: "lib \<Rightarrow> tls_lib \<Rightarrow> string \<Rightarrow> formatted" where
  "formatPKCS8 L T secret =
     (case parsePKCS12 L T secret of
        Inl err \<Rightarrow> Some (Inl err)
      | Inr (pfxKey, _, _) \<Rightarrow>
     (case MarshalPKCS8PrivateKey T pfxKey of
        Inl err \<Rightarrow> Some (Inl err)
      | Inr keyX509 \<Rightarrow> Some (Inr (pem_Encode T ''PRIVATE KEY'' keyX509))))"

definition formatRSA :: "lib \<Rightarrow> tls_lib \<Rightarrow> string \<Rightarrow> formatted" where
  "formatRSA L T secret =
     (case parsePKCS12 L T secret of
        Inl err \<Rightarrow> Some (Inl err)
      | Inr (pfxKey, _, _) \<Rightarrow>
     (case pfxKey of
        OtherKey _ \<Rightarrow> None
      | RsaKey k \<Rightarrow> Some (Inr (pem_Encode T ''RSA PRIVATE KEY'' (MarshalPKCS1PrivateKey T k)))))"

fun chain_blocks :: "tls_lib \<Rightarrow> x509_certificate list \<Rightarrow> string \<Rightarrow> string option" where
  "chain_blocks T [] acc = Some acc"
| "chain_blocks T (cert # certs) acc =
     Option.bind (cert_block T cert) (\<lambda>b. chain_blocks T certs (acc @ newline @ b))"

definition formatX509 :: "lib \<Rightarrow> tls_lib \<Rightarrow> string \<Rightarrow> bool \<Rightarrow> formatted" where
  "formatX509 L T secret reverse' =
     (case parsePKCS12 L T secret of
        Inl err \<Rightarrow> Some (Inl err)
      | Inr (_, pfxCert, caCerts) \<Rightarrow>
     Option.bind (if reverse' then swap_leaf pfxCert caCerts else Some (pfxCert, caCerts)) (\<lambda>(pfxCert, caCerts).
     Option.bind (cert_block T pfxCert) (\<lambda>out.
     Option.bind (chain_blocks T caCerts '''') (\<lambda>caCertString.
     Some (Inr (out @ newline @ caCertString))))))"

definition format_secret :: "lib \<Rightarrow> tls_lib \<Rightarrow> string \<Rightarrow> string \<Rightarrow> bool \<Rightarrow> formatted" where
  "format_secret L T format secret reverse' =
     (if format = ''pkcs8'' then formatPKCS8 L T secret
      else if format = ''rsa'' then formatRSA L T secret
      else if format = ''x509'' then formatX509 L T secret reverse'
      else if format = ''pfx'' then formatPFX secret
      else Some (Inl (ErrorText ''failed to find secret format'')))"

subsection \<open>Ensure and Delete\<close>

text \<open>One round of the loop over \<open>Spec.Secrets\<close>: an error that \<open>Ensure\<close> returns, or the bytes.\<close>

definition bundle_item ::
  "lib \<Rightarrow> tls_lib \<Rightarrow> 'w vault_ops \<Rightarrow> vault_client \<Rightarrow> SecretIdentifier \<Rightarrow> ('w, go_error + string) go" where
  "bundle_item L T V c item =
     (let vault = vault_url V (si_Vault item) in
      case si_Kind item of
        None \<Rightarrow>
          go_bind (vs_GetSecret V c vault (si_Name item) '''') (\<lambda>(bundle, err).
            case err of Some e \<Rightarrow> go_ret (Inl e)
            | None \<Rightarrow> go_bind (go_deref bundle) (\<lambda>val. go_ret (Inr val)))
      | Some k \<Rightarrow>
          if k = ''sha'' then
            go_bind (vs_GetCertificate V c vault (si_Name item) '''') (\<lambda>(thumbprint, err).
              case err of Some e \<Rightarrow> go_ret (Inl e)
              | None \<Rightarrow> go_bind (go_deref thumbprint) (\<lambda>t. go_ret (formatSHA t)))
          else
            go_bind (vs_GetSecret V c vault (si_Name item) '''') (\<lambda>(bundle, err).
              case err of Some e \<Rightarrow> go_ret (Inl e)
              | None \<Rightarrow> go_bind (go_deref bundle) (\<lambda>val. go_deref (format_secret L T k val (si_Reverse item)))))"

fun bundle_items ::
  "lib \<Rightarrow> tls_lib \<Rightarrow> 'w vault_ops \<Rightarrow> vault_client \<Rightarrow> (string \<times> SecretIdentifier) list \<Rightarrow>
   ('w, go_error + (string \<times> string) list) go" where
  "bundle_items L T V c [] = go_ret (Inr [])"
| "bundle_items L T V c ((name, item) # rest) =
     go_bind (bundle_item L T V c item) (\<lambda>r.
     case r of
       Inl err \<Rightarrow> go_ret (Inl err)
     | Inr val \<Rightarrow> go_bind (bundle_items L T V c rest) (\<lambda>r'.
         case r' of Inl err \<Rightarrow> go_ret (Inl err) | Inr vals \<Rightarrow> go_ret (Inr ((name, val) # vals))))"

definition bundle_mutate :: "'w secret_ops \<Rightarrow> SecretBundle \<Rightarrow> (string \<times> string) list \<Rightarrow> secret_mutation" where
  "bundle_mutate K secret secrets =
     own_secret K (ObjectMeta secret)
       (go_bind init_data (\<lambda>_. go_bind (put_all secrets) (\<lambda>_. go_ret None)))"

definition bundle_SetStatus :: "SecretBundle \<Rightarrow> k8s_secret \<Rightarrow> SecretBundle" where
  "bundle_SetStatus secret local =
     (case ks_Data local of
        None \<Rightarrow> secret
      | Some d \<Rightarrow> secret\<lparr>Status := (Status secret)
          \<lparr>sbst_Secrets := (\<lambda>key. if d key = None then None else Some ''Succeeded''),
           sbst_State := Some ''Succeeded''\<rparr>\<rparr>)"

definition bundle_Ensure ::
  "lib \<Rightarrow> tls_lib \<Rightarrow> 'w secret_ops \<Rightarrow> 'w vault_ops \<Rightarrow> vault_client option \<Rightarrow> runtime_object \<Rightarrow>
   ('w, runtime_object \<times> go_error option) go" where
  "bundle_Ensure L T K V c obj =
     (case bundle_convert obj of
        Inl err \<Rightarrow> go_ret (obj, Some err)
      | Inr secret \<Rightarrow>
     go_bind (go_deref c) (\<lambda>c.
     go_bind (bundle_items L T V c (sbs_Secrets (Spec secret))) (\<lambda>r.
     case r of
       Inl err \<Rightarrow> go_ret (obj, Some err)
     | Inr secrets \<Rightarrow>
     go_bind (so_CreateOrUpdate K
                (new_secret (om_Name (ObjectMeta secret)) (om_Namespace (ObjectMeta secret)))
                (bundle_mutate K secret secrets)) (\<lambda>(local, err).
     go_ret (ObjSecretBundle (bundle_SetStatus secret local), err)))))"

definition bundle_Delete ::
  "lib \<Rightarrow> 'w secret_ops \<Rightarrow> vault_client option \<Rightarrow> runtime_object \<Rightarrow> ('w, runtime_object \<times> go_error option) go" where
  "bundle_Delete L K c obj =
     (case bundle_convert obj of
        Inl err \<Rightarrow> go_ret (obj, Some err)
      | Inr secret \<Rightarrow>
     go_bind (go_deref c) (\<lambda>c.
     go_bind (so_Delete K (new_secret (sbs_Name (Spec secret)) (om_Namespace (ObjectMeta secret)))) (\<lambda>err.
     go_ret (obj, IgnoreNotFound L err))))"

definition bundle_client ::
  "lib \<Rightarrow> tls_lib \<Rightarrow> 'w secret_ops \<Rightarrow> 'w vault_ops \<Rightarrow> (vault_client option \<times> 'w) SyncClient" where
  "bundle_client L T K V = \<lparr>
     sync_ForSubscription = (\<lambda>obj. on_self (\<lambda>c. (c, bundle_ForSubscription c obj))),
     sync_Ensure = (\<lambda>obj. on_world (\<lambda>c. bundle_Ensure L T K V c obj)),
     sync_Delete = (\<lambda>obj. on_world (\<lambda>c. bundle_Delete L K c obj))\<rparr>"

subsection \<open>Lemmas\<close>

lemma bundle_convert_Inr [simp]: "bundle_convert obj = Inr local \<longleftrightarrow> obj = ObjSecretBundle local"
  by (cases obj) (simp_all add: bundle_convert_def)

lemma bundle_SetStatus_keeps [simp]: "(bundle_SetStatus x s)\<lparr>Status := st\<rparr> = x\<lparr>Status := st\<rparr>"
  by (simp add: bundle_SetStatus_def split: option.split)

interpretation secretbundle: sync_client "bundle_client L T K V"
  for L :: lib and T :: tls_lib and K :: "'w secret_ops" and V :: "'w vault_ops"
  by unfold_locales
    (auto simp: bundle_client_def bundle_Ensure_def bundle_Delete_def go_returns early_return_Returns
      split: prod.splits if_splits)

text \<open>The fingerprint of a certificate: the thumbprint's bytes in upper-case hexadecimal, and two
  different thumbprints never give the same fingerprint.\<close>

lemma formatSHA_encoded:
  assumes "\<forall>b\<in>set bs. b < 256"
  shows "formatSHA (base64_encode base64_url False bs) = Inr (ToUpper (hex_encode bs))"
  using base64_decode_encode [OF base64_alphabets_ok(2) assms] by (simp add: formatSHA_def decode_base64_def)

lemma formatSHA_inj:
  assumes "\<forall>b\<in>set bs. b < 256" "\<forall>b\<in>set cs. b < 256"
    and "formatSHA (base64_encode base64_url False bs) = formatSHA (base64_encode base64_url False cs)"
  shows "bs = cs"
  using assms hex_encode_inj by (auto simp: formatSHA_encoded)

text \<open>The items of a bundle keep their names and their order.\<close>

lemma bundle_items_names:
  "bundle_items L T V c items w = (Returns (Inr vals), w') \<Longrightarrow> map fst vals = map fst items"
proof (induction items arbitrary: w vals w')
  case (Cons i items)
  obtain name item where i: "i = (name, item)" by (cases i)
  from Cons.prems obtain val w1 vals' w2 where "bundle_items L T V c items w1 = (Returns (Inr vals'), w2)"
    "vals = (name, val) # vals'"
    by (auto simp: i go_returns early_return_Returns)
  with Cons.IH show ?case by (auto simp: i)
qed (simp add: go_returns)

text \<open>The first item that fails ends the loop with its error: no secret is written.\<close>

lemma bundle_item_error_stops:
  assumes "bundle_items L T V c good w = (Returns (Inr vals), w1)"
    and "bundle_item L T V c item w1 = (Returns (Inl e), w2)"
  shows "bundle_items L T V c (good @ (name, item) # rest) w = (Returns (Inl e), w2)"
  using assms
proof (induction good arbitrary: w vals)
  case Nil
  then show ?case by (simp add: go_simps)
next
  case (Cons i good)
  obtain n it where i: "i = (n, it)" by (cases i)
  from Cons.prems(1) obtain val wa vals' where "bundle_item L T V c it w = (Returns (Inr val), wa)"
    "bundle_items L T V c good wa = (Returns (Inr vals'), w1)"
    by (auto simp: i go_returns early_return_Returns)
  with Cons.IH [OF this(2) Cons.prems(2)] show ?case by (simp add: i go_simps)
qed

lemma bundle_mutate_Returns:
  assumes "secret_ops_ok L K st" "bundle_mutate K x secrets s = (Returns None, s')"
  shows "ks_Data s' = Some (upd_all secrets (secret_data s))"
proof -
  from own_secret_Returns [OF assms(1) assms(2) [unfolded bundle_mutate_def]] obtain o' where
    "s' = s\<lparr>ks_Owner := o', ks_Data := Some (upd_all secrets (secret_data s))\<rparr>"
    by (auto simp: go_bind_apply init_data_eq put_all_eq go_simps secret_data_def)
  then show ?thesis by simp
qed

text \<open>
  A successful \<open>Ensure\<close>: the secret named after the object holds every item under its name, and
  the status lists it.
\<close>

lemma bundle_Ensure_stores:
  assumes K: "secret_ops_ok L K st" and names: "distinct (map fst (sbs_Secrets (Spec x)))"
    and items: "bundle_items L T V c (sbs_Secrets (Spec x)) w = (Returns (Inr vals), w1)"
    and ens: "bundle_Ensure L T K V (Some c) (ObjSecretBundle x) w = (Returns (obj', None), w')"
  shows "\<exists>s d x'. st w' (om_Namespace (ObjectMeta x), om_Name (ObjectMeta x)) = Some s \<and> ks_Data s = Some d \<and>
     obj' = ObjSecretBundle x' \<and> sbst_State (Status x') = Some ''Succeeded'' \<and>
     (\<forall>(name, val)\<in>set vals. d name = Some val \<and> sbst_Secrets (Status x') name = Some ''Succeeded'')"
proof -
  from ens items obtain s where
    cu: "so_CreateOrUpdate K (new_secret (om_Name (ObjectMeta x)) (om_Namespace (ObjectMeta x)))
      (bundle_mutate K x vals) w1 = (Returns (s, None), w')" and obj': "obj' = ObjSecretBundle (bundle_SetStatus x s)"
    by (auto simp: bundle_Ensure_def bundle_convert_def go_bind_apply go_simps split: prod.splits outcome.splits)
  from secret_stored [OF K cu] bundle_mutate_Returns [OF K] obtain base where
    s: "st w' (om_Namespace (ObjectMeta x), om_Name (ObjectMeta x)) = Some s"
       "ks_Data s = Some (upd_all vals (secret_data base))" by force
  have "distinct (map fst (rev vals))" 
    using names bundle_items_names [OF items] by (simp flip: rev_map)
  then have "upd_all vals d name = Some val" if "(name, val) \<in> set vals" for name val d
    using that by (simp add: upd_all_apply)
  with s obj' show ?thesis by (auto simp: bundle_SetStatus_def)
qed

text \<open>
  The status says \<open>Succeeded\<close> whenever the secret has data, also when \<open>CreateOrUpdate\<close> failed.
\<close>

lemma bundle_Ensure_status_on_error:
  assumes "bundle_items L T V c (sbs_Secrets (Spec x)) w = (Returns (Inr vals), w1)"
    and "so_CreateOrUpdate K (new_secret (om_Name (ObjectMeta x)) (om_Namespace (ObjectMeta x)))
      (bundle_mutate K x vals) w1 = (Returns (s, Some err), w')"
    and "ks_Data s = Some d"
  shows "\<exists>x'. bundle_Ensure L T K V (Some c) (ObjSecretBundle x) w = (Returns (ObjSecretBundle x', Some err), w') \<and>
     sbst_State (Status x') = Some ''Succeeded''"
  using assms by (simp add: bundle_Ensure_def bundle_convert_def go_simps bundle_SetStatus_def)

lemma bundle_nil_client:
  "bundle_Ensure L T K V None (ObjSecretBundle x) w = (Panics, w)" "bundle_Delete L K None (ObjSecretBundle x) w = (Panics, w)"
  by (simp_all add: bundle_Ensure_def bundle_Delete_def bundle_convert_def go_simps)

end
