(* ===== verification/DockerConfigs.thy ===== *)
theory DockerConfigs imports Secrets Encodings begin

section \<open>Docker configuration secrets (pkg/clients/dockercfg)\<close>

text \<open>
  \<open>pkg/clients/dockercfg/dockercfg.go\<close>: a password of the key vault becomes a Kubernetes secret
  with a docker configuration file.  \<open>json.Marshal\<close> is a parameter.
\<close>

record DockerConfigEntry =
  dce_Username :: string
  dce_Password :: string
  dce_Email :: string
  dce_Auth :: string

text \<open>\<open>Auths\<close>: the entries of the map; \<open>HttpHeaders\<close> is never set.\<close>

record DockerConfigJSON =
  dcj_Auths :: "(string \<times> DockerConfigEntry) list"

type_synonym json_marshal = "DockerConfigJSON \<Rightarrow> go_error + string"

definition encodeDockerConfigFieldAuth :: "string \<Rightarrow> string \<Rightarrow> string" where
  "encodeDockerConfigFieldAuth username password =
     (let fieldValue = username @ '':'' @ password
      in base64_encode base64_std True (bytes_of fieldValue))"

definition handleDockerCfgJSONContent ::
  "json_marshal \<Rightarrow> string \<Rightarrow> string \<Rightarrow> string \<Rightarrow> string \<Rightarrow> go_error + string" where
  "handleDockerCfgJSONContent marshal username password email server =
     (let dockercfgAuth = \<lparr>dce_Username = username, dce_Password = password, dce_Email = email,
                            dce_Auth = encodeDockerConfigFieldAuth username password\<rparr>;
          dockerCfgJSON = \<lparr>dcj_Auths = [(server, dockercfgAuth)]\<rparr>
      in marshal dockerCfgJSON)"

definition docker_New :: "auth_lib \<Rightarrow> config \<Rightarrow> bool \<Rightarrow> vault_client option \<times> go_error option" where
  "docker_New A configuration kubeclient_nil =
     (if kubeclient_nil
      then (None, Some (ErrorText ''nil kubeclient passed to secrets client is effectively noop''))
      else case GetKeyvaultAuthorizer A configuration of
             Inl err \<Rightarrow> (None, Some err)
           | Inr authorizer \<Rightarrow> (Some \<lparr>vc_Authorizer = Some authorizer\<rparr>, None))"

definition docker_convert :: "runtime_object \<Rightarrow> go_error + DockerConfig" where
  "docker_convert obj = (case obj of ObjDockerConfig local \<Rightarrow> Inr local | _ \<Rightarrow> Inl (kind_error obj))"

definition docker_ForSubscription :: "vault_client option \<Rightarrow> runtime_object \<Rightarrow> go_error option" where
  "docker_ForSubscription c obj = None"

definition docker_Get ::
  "json_marshal \<Rightarrow> 'w vault_ops \<Rightarrow> vault_client option \<Rightarrow> runtime_object \<Rightarrow>
   ('w, string option \<times> go_error option) go" where
  "docker_Get marshal V c obj =
     (case docker_convert obj of
        Inl err \<Rightarrow> go_ret (None, Some err)
      | Inr secret \<Rightarrow>
     go_bind (go_deref c) (\<lambda>c.
     go_bind (vs_GetSecret V c (vault_url V (dcs_Vault (Spec secret))) (dcs_Password (Spec secret)) '''')
     (\<lambda>(passwordBundle, err).
       if err \<noteq> None then go_ret (None, err)
       else
     go_bind (go_deref passwordBundle) (\<lambda>password.
     case handleDockerCfgJSONContent marshal (dcs_Username (Spec secret)) password (dcs_Email (Spec secret)) (dcs_Server (Spec secret)) of
       Inl err \<Rightarrow> go_ret (None, Some err)
     | Inr content \<Rightarrow> go_ret (Some content, None)))))"

definition new_docker_secret :: "object_meta \<Rightarrow> k8s_secret" where
  "new_docker_secret m = (new_secret (om_Name m) (om_Namespace m))\<lparr>ks_Type := ''kubernetes.io/dockerconfigjson''\<rparr>"

definition docker_mutate :: "'w secret_ops \<Rightarrow> DockerConfig \<Rightarrow> string \<Rightarrow> secret_mutation" where
  "docker_mutate K secret content =
     own_secret K (ObjectMeta secret)
       (go_bind (remedy (\<lambda>s. s\<lparr>ks_Data := Some [''.dockerconfigjson'' \<mapsto> content]\<rparr>)) (\<lambda>_. go_ret None))"

definition docker_Ensure ::
  "json_marshal \<Rightarrow> 'w secret_ops \<Rightarrow> 'w vault_ops \<Rightarrow> vault_client option \<Rightarrow> runtime_object \<Rightarrow>
   ('w, runtime_object \<times> go_error option) go" where
  "docker_Ensure marshal K V c obj =
     (case docker_convert obj of
        Inl err \<Rightarrow> go_ret (obj, Some err)
      | Inr secret \<Rightarrow>
     go_bind (go_deref c) (\<lambda>c.
     go_bind (vs_GetSecret V c (vault_url V (dcs_Vault (Spec secret))) (dcs_Password (Spec secret)) '''')
     (\<lambda>(passwordBundle, err).
       if err \<noteq> None then go_ret (obj, err)
       else
     go_bind (go_deref passwordBundle) (\<lambda>password.
     case handleDockerCfgJSONContent marshal (dcs_Username (Spec secret)) password (dcs_Email (Spec secret)) (dcs_Server (Spec secret)) of
       Inl err \<Rightarrow> go_ret (obj, Some err)
     | Inr content \<Rightarrow>
     go_bind (so_CreateOrUpdate K (new_docker_secret (ObjectMeta secret)) (docker_mutate K secret content)) (\<lambda>(_, err).
     go_ret (obj, err))))))"

definition docker_Delete ::
  "lib \<Rightarrow> 'w secret_ops \<Rightarrow> vault_client option \<Rightarrow> runtime_object \<Rightarrow> ('w, runtime_object \<times> go_error option) go" where
  "docker_Delete L K c obj =
     (case docker_convert obj of
        Inl err \<Rightarrow> go_ret (obj, Some err)
      | Inr local \<Rightarrow>
     go_bind (go_deref c) (\<lambda>c.
     go_bind (so_Delete K (new_secret (om_Name (ObjectMeta local)) (om_Namespace (ObjectMeta local)))) (\<lambda>err.
     go_ret (obj, IgnoreNotFound L err))))"

definition docker_client ::
  "lib \<Rightarrow> json_marshal \<Rightarrow> 'w secret_ops \<Rightarrow> 'w vault_ops \<Rightarrow> (vault_client option \<times> 'w) SyncClient" where
  "docker_client L marshal K V = \<lparr>
     sync_ForSubscription = (\<lambda>obj. on_self (\<lambda>c. (c, docker_ForSubscription c obj))),
     sync_Ensure = (\<lambda>obj. on_world (\<lambda>c. docker_Ensure marshal K V c obj)),
     sync_Delete = (\<lambda>obj. on_world (\<lambda>c. docker_Delete L K c obj))\<rparr>"

subsection \<open>Lemmas\<close>

lemma docker_convert_Inr [simp]: "docker_convert obj = Inr local \<longleftrightarrow> obj = ObjDockerConfig local"
  by (cases obj) (simp_all add: docker_convert_def)

interpretation docker: sync_client "docker_client L marshal K V"
  for L :: lib and marshal :: json_marshal and K :: "'w secret_ops" and V :: "'w vault_ops"
  by unfold_locales
    (auto simp: docker_client_def docker_Ensure_def docker_Delete_def go_returns early_return_Returns
      split: prod.splits if_splits)

text \<open>The \<open>auth\<close> field decodes to the user name, a colon and the password.\<close>

lemma docker_auth_decodes:
  "map_option string_of (base64_decode base64_std True (encodeDockerConfigFieldAuth username password)) =
     Some (username @ '':'' @ password)"
  using base64_decode_encode [OF base64_alphabets_ok(1), of "bytes_of (username @ '':'' @ password)" True]
  by (simp add: encodeDockerConfigFieldAuth_def Let_def bytes_of_less)

lemma docker_auth_user:
  assumes "CHR '':'' \<notin> set username" "CHR '':'' \<notin> set username'"
    and "encodeDockerConfigFieldAuth username password = encodeDockerConfigFieldAuth username' password'"
  shows "username = username' \<and> password = password'"
proof -
  have eq: "username @ '':'' @ password = username' @ '':'' @ password'"
    using docker_auth_decodes [of username password] docker_auth_decodes [of username' password'] assms(3) by simp
  have "takeWhile (\<lambda>c. c \<noteq> CHR '':'') (u @ '':'' @ p) = u" if "CHR '':'' \<notin> set u" for u p
    using that by (induction u) auto
  with assms(1,2) eq have "username = username'" by metis
  with eq show ?thesis by simp
qed

text \<open>
  A successful \<open>Ensure\<close>: the secret holds exactly the configuration file; \<open>Delete\<close> of the same
  object removes this secret.
\<close>

lemma docker_Ensure_stores:
  assumes K: "secret_ops_ok L K st"
    and get: "vs_GetSecret V c (vault_url V (dcs_Vault (Spec x))) (dcs_Password (Spec x)) '''' w = (Returns (Some pw, None), w1)"
    and ens: "docker_Ensure marshal K V (Some c) (ObjDockerConfig x) w = (Returns (obj', None), w')"
  shows "\<exists>s content. handleDockerCfgJSONContent marshal (dcs_Username (Spec x)) pw (dcs_Email (Spec x)) (dcs_Server (Spec x)) = Inr content \<and>
     st w' (om_Namespace (ObjectMeta x), om_Name (ObjectMeta x)) = Some s \<and>
     ks_Data s = Some [''.dockerconfigjson'' \<mapsto> content]"
proof -
  from ens get obtain content s where
    content: "handleDockerCfgJSONContent marshal (dcs_Username (Spec x)) pw (dcs_Email (Spec x)) (dcs_Server (Spec x)) = Inr content"
    and cu: "so_CreateOrUpdate K (new_docker_secret (ObjectMeta x)) (docker_mutate K x content) w1 = (Returns (s, None), w')"
    by (auto simp: docker_Ensure_def docker_convert_def go_bind_apply go_simps split: prod.splits outcome.splits sum.splits)
  have key: "secret_key (new_docker_secret (ObjectMeta x)) = (om_Namespace (ObjectMeta x), om_Name (ObjectMeta x))"
    by (simp add: new_docker_secret_def new_secret_def secret_key_def)
  from secret_stored [OF K cu] obtain base where run: "docker_mutate K x content base = (Returns None, s)"
    and st: "st w' (om_Namespace (ObjectMeta x), om_Name (ObjectMeta x)) = Some s" unfolding key by blast
  from own_secret_Returns [OF K run [unfolded docker_mutate_def]]
  have "ks_Data s = Some [''.dockerconfigjson'' \<mapsto> content]" by (auto simp: go_simps)
  with st content show ?thesis by blast
qed

lemma docker_Delete_removes:
  assumes "secret_ops_ok L K st" "docker_Delete L K (Some c) (ObjDockerConfig x) w = (Returns (obj', None), w')"
  shows "st w' (om_Namespace (ObjectMeta x), om_Name (ObjectMeta x)) = None"
proof -
  from assms(2) obtain err where
    "so_Delete K (new_secret (om_Name (ObjectMeta x)) (om_Namespace (ObjectMeta x))) w = (Returns err, w')"
    "IgnoreNotFound L err = None"
    by (auto simp: docker_Delete_def docker_convert_def go_returns go_simps)
  with secret_deleted [OF assms(1) this(1)] show ?thesis by simp
qed

end
