(* ===== verification/Controllers.thy ===== *)
theory Controllers
imports Reconcilers
begin

section \<open>The controllers of the kinds (controllers)\<close>

text \<open>
  Every kind has a controller with the kind it watches (\<open>SetupWithManager\<close>) and a \<open>Reconcile\<close>
  that passes an empty object, hence a kind, to the generic reconciler.
\<close>

text \<open>
  What \<open>SetupWithManager\<close> sets: the kind of \<open>For\<close>, whether it also watches the Kubernetes
  secrets that its objects own, and \<open>MaxConcurrentReconciles\<close> (\<open>0\<close> is unset).
\<close>

record controller_setup =
  cs_For :: kind
  cs_Owns_Secret :: bool
  cs_MaxConcurrentReconciles :: nat

definition IdentityReconciler_SetupWithManager :: controller_setup where
  "IdentityReconciler_SetupWithManager = \<lparr>cs_For = KIdentity, cs_Owns_Secret = False, cs_MaxConcurrentReconciles = 1\<rparr>"

definition IdentityReconciler_Reconcile ::
  "lib \<Rightarrow> 's kube \<Rightarrow> 's SyncClient \<Rightarrow> namespaced_name \<Rightarrow> ('s, ctrl_result \<times> go_error option) go" where
  "IdentityReconciler_Reconcile L kb az req = sync_Reconcile L kb az req KIdentity"

definition KeyvaultReconciler_SetupWithManager :: controller_setup where
  "KeyvaultReconciler_SetupWithManager = \<lparr>cs_For = KKeyvault, cs_Owns_Secret = False, cs_MaxConcurrentReconciles = 1\<rparr>"

definition KeyvaultReconciler_Reconcile ::
  "lib \<Rightarrow> 's kube \<Rightarrow> 's SyncClient \<Rightarrow> namespaced_name \<Rightarrow> ('s, ctrl_result \<times> go_error option) go" where
  "KeyvaultReconciler_Reconcile L kb az req = sync_Reconcile L kb az req KKeyvault"

definition NetworkInterfaceReconciler_SetupWithManager :: controller_setup where
  "NetworkInterfaceReconciler_SetupWithManager = \<lparr>cs_For = KNetworkInterface, cs_Owns_Secret = False, cs_MaxConcurrentReconciles = 1\<rparr>"

definition NetworkInterfaceReconciler_Reconcile ::
  "lib \<Rightarrow> 's kube \<Rightarrow> 's AsyncClient \<Rightarrow> namespaced_name \<Rightarrow> ('s, ctrl_result \<times> go_error option) go" where
  "NetworkInterfaceReconciler_Reconcile L kb az req = async_Reconcile L kb az req KNetworkInterface"

definition PublicIPReconciler_SetupWithManager :: controller_setup where
  "PublicIPReconciler_SetupWithManager = \<lparr>cs_For = KPublicIP, cs_Owns_Secret = False, cs_MaxConcurrentReconciles = 1\<rparr>"

definition PublicIPReconciler_Reconcile ::
  "lib \<Rightarrow> 's kube \<Rightarrow> 's AsyncClient \<Rightarrow> namespaced_name \<Rightarrow> ('s, ctrl_result \<times> go_error option) go" where
  "PublicIPReconciler_Reconcile L kb az req = async_Reconcile L kb az req KPublicIP"

definition RedisReconciler_SetupWithManager :: controller_setup where
  "RedisReconciler_SetupWithManager = \<lparr>cs_For = KRedis, cs_Owns_Secret = True, cs_MaxConcurrentReconciles = 1\<rparr>"

definition RedisReconciler_Reconcile ::
  "lib \<Rightarrow> 's kube \<Rightarrow> 's AsyncClient \<Rightarrow> namespaced_name \<Rightarrow> ('s, ctrl_result \<times> go_error option) go" where
  "RedisReconciler_Reconcile L kb az req = async_Reconcile L kb az req KRedis"

definition RedisSecretReconciler_SetupWithManager :: controller_setup where
  "RedisSecretReconciler_SetupWithManager = \<lparr>cs_For = KRedisKey, cs_Owns_Secret = True, cs_MaxConcurrentReconciles = 1\<rparr>"

definition RedisSecretReconciler_Reconcile ::
  "lib \<Rightarrow> 's kube \<Rightarrow> 's AsyncClient \<Rightarrow> namespaced_name \<Rightarrow> ('s, ctrl_result \<times> go_error option) go" where
  "RedisSecretReconciler_Reconcile L kb az req = async_Reconcile L kb az req KRedis"

definition ResourceGroupReconciler_SetupWithManager :: controller_setup where
  "ResourceGroupReconciler_SetupWithManager = \<lparr>cs_For = KResourceGroup, cs_Owns_Secret = False, cs_MaxConcurrentReconciles = 1\<rparr>"

definition ResourceGroupReconciler_Reconcile ::
  "lib \<Rightarrow> 's kube \<Rightarrow> 's AsyncClient \<Rightarrow> namespaced_name \<Rightarrow> ('s, ctrl_result \<times> go_error option) go" where
  "ResourceGroupReconciler_Reconcile L kb az req = async_Reconcile L kb az req KResourceGroup"

definition ServiceBusNamespaceReconciler_SetupWithManager :: controller_setup where
  "ServiceBusNamespaceReconciler_SetupWithManager = \<lparr>cs_For = KServiceBusNamespace, cs_Owns_Secret = True, cs_MaxConcurrentReconciles = 1\<rparr>"

definition ServiceBusNamespaceReconciler_Reconcile ::
  "lib \<Rightarrow> 's kube \<Rightarrow> 's AsyncClient \<Rightarrow> namespaced_name \<Rightarrow> ('s, ctrl_result \<times> go_error option) go" where
  "ServiceBusNamespaceReconciler_Reconcile L kb az req = async_Reconcile L kb az req KServiceBusNamespace"

definition ServiceBusSecretReconciler_SetupWithManager :: controller_setup where
  "ServiceBusSecretReconciler_SetupWithManager = \<lparr>cs_For = KServiceBusKey, cs_Owns_Secret = True, cs_MaxConcurrentReconciles = 1\<rparr>"

definition ServiceBusSecretReconciler_Reconcile ::
  "lib \<Rightarrow> 's kube \<Rightarrow> 's AsyncClient \<Rightarrow> namespaced_name \<Rightarrow> ('s, ctrl_result \<times> go_error option) go" where
  "ServiceBusSecretReconciler_Reconcile L kb az req = async_Reconcile L kb az req KServiceBusNamespace"

definition SecretReconciler_SetupWithManager :: controller_setup where
  "SecretReconciler_SetupWithManager = \<lparr>cs_For = KSecret, cs_Owns_Secret = True, cs_MaxConcurrentReconciles = 0\<rparr>"

definition SecretReconciler_Reconcile ::
  "lib \<Rightarrow> 's kube \<Rightarrow> 's SyncClient \<Rightarrow> namespaced_name \<Rightarrow> ('s, ctrl_result \<times> go_error option) go" where
  "SecretReconciler_Reconcile L kb az req = sync_Reconcile L kb az req KSecret"

definition SecretBundleReconciler_SetupWithManager :: controller_setup where
  "SecretBundleReconciler_SetupWithManager = \<lparr>cs_For = KSecretBundle, cs_Owns_Secret = True, cs_MaxConcurrentReconciles = 0\<rparr>"

definition SecretBundleReconciler_Reconcile ::
  "lib \<Rightarrow> 's kube \<Rightarrow> 's SyncClient \<Rightarrow> namespaced_name \<Rightarrow> ('s, ctrl_result \<times> go_error option) go" where
  "SecretBundleReconciler_Reconcile L kb az req = sync_Reconcile L kb az req KSecretBundle"

definition SecurityGroupReconciler_SetupWithManager :: controller_setup where
  "SecurityGroupReconciler_SetupWithManager = \<lparr>cs_For = KSecurityGroup, cs_Owns_Secret = False, cs_MaxConcurrentReconciles = 1\<rparr>"

definition SecurityGroupReconciler_Reconcile ::
  "lib \<Rightarrow> 's kube \<Rightarrow> 's AsyncClient \<Rightarrow> namespaced_name \<Rightarrow> ('s, ctrl_result \<times> go_error option) go" where
  "SecurityGroupReconciler_Reconcile L kb az req = async_Reconcile L kb az req KSecurityGroup"

definition SQLFirewallRuleReconciler_SetupWithManager :: controller_setup where
  "SQLFirewallRuleReconciler_SetupWithManager = \<lparr>cs_For = KSQLFirewallRule, cs_Owns_Secret = True, cs_MaxConcurrentReconciles = 15\<rparr>"

definition SQLFirewallRuleReconciler_Reconcile ::
  "lib \<Rightarrow> 's kube \<Rightarrow> 's SyncClient \<Rightarrow> namespaced_name \<Rightarrow> ('s, ctrl_result \<times> go_error option) go" where
  "SQLFirewallRuleReconciler_Reconcile L kb az req = sync_Reconcile L kb az req KSQLFirewallRule"

definition SQLServerReconciler_SetupWithManager :: controller_setup where
  "SQLServerReconciler_SetupWithManager = \<lparr>cs_For = KSQLServer, cs_Owns_Secret = True, cs_MaxConcurrentReconciles = 15\<rparr>"

definition SQLServerReconciler_Reconcile ::
  "lib \<Rightarrow> 's kube \<Rightarrow> 's SyncClient \<Rightarrow> namespaced_name \<Rightarrow> ('s, ctrl_result \<times> go_error option) go" where
  "SQLServerReconciler_Reconcile L kb az req = sync_Reconcile L kb az req KSQLServer"

definition StorageKeyReconciler_SetupWithManager :: controller_setup where
  "StorageKeyReconciler_SetupWithManager = \<lparr>cs_For = KStorageKey, cs_Owns_Secret = True, cs_MaxConcurrentReconciles = 1\<rparr>"

definition StorageKeyReconciler_Reconcile ::
  "lib \<Rightarrow> 's kube \<Rightarrow> 's SyncClient \<Rightarrow> namespaced_name \<Rightarrow> ('s, ctrl_result \<times> go_error option) go" where
  "StorageKeyReconciler_Reconcile L kb az req = sync_Reconcile L kb az req KStorageKey"

definition SubnetReconciler_SetupWithManager :: controller_setup where
  "SubnetReconciler_SetupWithManager = \<lparr>cs_For = KSubnet, cs_Owns_Secret = False, cs_MaxConcurrentReconciles = 1\<rparr>"

definition SubnetReconciler_Reconcile ::
  "lib \<Rightarrow> 's kube \<Rightarrow> 's AsyncClient \<Rightarrow> namespaced_name \<Rightarrow> ('s, ctrl_result \<times> go_error option) go" where
  "SubnetReconciler_Reconcile L kb az req = async_Reconcile L kb az req KSubnet"

definition TLSSecretReconciler_SetupWithManager :: controller_setup where
  "TLSSecretReconciler_SetupWithManager = \<lparr>cs_For = KTLSSecret, cs_Owns_Secret = True, cs_MaxConcurrentReconciles = 0\<rparr>"

definition TLSSecretReconciler_Reconcile ::
  "lib \<Rightarrow> 's kube \<Rightarrow> 's SyncClient \<Rightarrow> namespaced_name \<Rightarrow> ('s, ctrl_result \<times> go_error option) go" where
  "TLSSecretReconciler_Reconcile L kb az req = sync_Reconcile L kb az req KSecret"

text \<open>Its \<open>Reconcile\<close> is \<open>tm_Reconcile\<close>.\<close>

definition TrafficManagerReconciler_SetupWithManager :: controller_setup where
  "TrafficManagerReconciler_SetupWithManager = \<lparr>cs_For = KTrafficManager, cs_Owns_Secret = False, cs_MaxConcurrentReconciles = 1\<rparr>"

definition VirtualNetworkReconciler_SetupWithManager :: controller_setup where
  "VirtualNetworkReconciler_SetupWithManager = \<lparr>cs_For = KVirtualNetwork, cs_Owns_Secret = False, cs_MaxConcurrentReconciles = 1\<rparr>"

definition VirtualNetworkReconciler_Reconcile ::
  "lib \<Rightarrow> 's kube \<Rightarrow> 's AsyncClient \<Rightarrow> namespaced_name \<Rightarrow> ('s, ctrl_result \<times> go_error option) go" where
  "VirtualNetworkReconciler_Reconcile L kb az req = async_Reconcile L kb az req KVirtualNetwork"

definition VMReconciler_SetupWithManager :: controller_setup where
  "VMReconciler_SetupWithManager = \<lparr>cs_For = KVM, cs_Owns_Secret = False, cs_MaxConcurrentReconciles = 1\<rparr>"

definition VMReconciler_Reconcile ::
  "lib \<Rightarrow> 's kube \<Rightarrow> 's AsyncClient \<Rightarrow> namespaced_name \<Rightarrow> ('s, ctrl_result \<times> go_error option) go" where
  "VMReconciler_Reconcile L kb az req = async_Reconcile L kb az req KVM"

end
