(* ===== verification/TrafficManagers.thy ===== *)
theory TrafficManagers
imports Mgmt_Clients Reconcile_Safety
begin

section \<open>Traffic managers (pkg/clients/trafficmanagers, controllers/trafficmanager_controller.go)\<close>

text \<open>
  The spec builder and the client of the traffic manager profiles, which has an interface of its
  own, and the reconciler that is written for this client.
\<close>

subsection \<open>The SDK\<close>

record tm_monitor =
  tmm_Protocol :: string
  tmm_Port :: "int option"
  tmm_Path :: "string option"
  tmm_IntervalInSeconds :: "int option"
  tmm_TimeoutInSeconds :: "int option"
  tmm_ToleratedNumberOfFailures :: "int option"
  tmm_CustomHeaders :: "MonitorConfigCustomHeadersItem list option"
  tmm_ExpectedStatusCodeRanges :: "MonitorConfigExpectedStatusCodeRangesItem list option"
  tmm_ProfileMonitorStatus :: string

record tm_dns =
  tmd_RelativeName :: "string option"
  tmd_Fqdn :: "string option"
  tmd_TTL :: "int option"

record tm_endpoint_properties =
  tmep_Target :: "string option"
  tmep_Weight :: "int option"
  tmep_Priority :: "int option"
  tmep_EndpointLocation :: "string option"
  tmep_EndpointMonitorStatus :: string
  tmep_CustomHeaders :: "MonitorConfigCustomHeadersItem list option"

record tm_endpoint =
  tme_Name :: "string option"
  tme_Type :: "string option"
  tme_Properties :: "tm_endpoint_properties option"

record tm_properties =
  tmp_ProfileStatus :: string
  tmp_TrafficRoutingMethod :: string
  tmp_MonitorConfig :: "tm_monitor option"
  tmp_Endpoints :: "tm_endpoint list option"
  tmp_DNSConfig :: "tm_dns option"

record tm_profile =
  tmpr_Response :: http_response
  tmpr_ID :: "string option"
  tmpr_Name :: "string option"
  tmpr_Location :: "string option"
  tmpr_Properties :: "tm_properties option"

definition zero_tm_profile :: tm_profile where
  "zero_tm_profile = \<lparr>tmpr_Response = None, tmpr_ID = None, tmpr_Name = None, tmpr_Location = None,
     tmpr_Properties = None\<rparr>"

record 'w tm_sdk =
  tm_sdk_Get :: "sdk_client \<Rightarrow> string \<Rightarrow> string \<Rightarrow> ('w, tm_profile \<times> go_error option) go"
  tm_sdk_CreateOrUpdate :: "sdk_client \<Rightarrow> string \<Rightarrow> string \<Rightarrow> tm_profile \<Rightarrow> ('w, go_error option) go"
  tm_sdk_Delete :: "sdk_client \<Rightarrow> string \<Rightarrow> string \<Rightarrow> ('w, go_error option) go"

subsection \<open>The spec builder, which the client does not use\<close>

definition tm_NewSpec :: tm_profile where
  "tm_NewSpec = zero_tm_profile\<lparr>
     tmpr_Properties := Some \<lparr>
       tmp_ProfileStatus = ''Enabled'',
       tmp_TrafficRoutingMethod = ''Weighted'',
       tmp_MonitorConfig = Some \<lparr>tmm_Protocol = ''HTTPS'', tmm_Port = Some 443, tmm_Path = Some ''/healthz'',
         tmm_IntervalInSeconds = Some 10, tmm_TimeoutInSeconds = Some 5, tmm_ToleratedNumberOfFailures = Some 3,
         tmm_CustomHeaders = Some [], tmm_ExpectedStatusCodeRanges = Some [], tmm_ProfileMonitorStatus = ''''\<rparr>,
       tmp_Endpoints = Some [],
       tmp_DNSConfig = Some \<lparr>tmd_RelativeName = None, tmd_Fqdn = None, tmd_TTL = None\<rparr>\<rparr>,
     tmpr_Location := Some ''global''\<rparr>"

definition tm_NewSpecWithRemote :: "tm_profile \<Rightarrow> tm_profile" where
  "tm_NewSpecWithRemote remote = remote"

definition tm_set_Name :: "string option \<Rightarrow> (tm_profile, unit) go" where
  "tm_set_Name name = remedy (\<lambda>s. s\<lparr>tmpr_Name := name\<rparr>)"

text \<open>\<open>s.internal.MonitorConfig.Path\<close> is behind two pointers.\<close>

definition tm_Health :: "string option \<Rightarrow> (tm_profile, unit) go" where
  "tm_Health path = remedy_at (\<lambda>s. Option.bind (tmpr_Properties s) (\<lambda>p. Option.bind (tmp_MonitorConfig p) (\<lambda>m.
     Some (s\<lparr>tmpr_Properties := Some (p\<lparr>tmp_MonitorConfig := Some (m\<lparr>tmm_Path := path\<rparr>)\<rparr>)\<rparr>))))"

definition tm_set_Location :: "string option \<Rightarrow> (tm_profile, unit) go" where
  "tm_set_Location location = remedy (\<lambda>s. s\<lparr>tmpr_Location := location\<rparr>)"

definition tm_Status :: "tm_profile \<Rightarrow> string option" where
  "tm_Status s = (case tmpr_Properties s of None \<Rightarrow> None | Some p \<Rightarrow> Some (tmp_ProfileStatus p))"

fun tm_any :: "('s, bool) go list \<Rightarrow> ('s, bool) go" where
  "tm_any [] = go_ret False"
| "tm_any (f # funcs) = go_bind f (\<lambda>b. if b then go_ret True else tm_any funcs)"

definition tm_Name :: "tm_profile \<Rightarrow> string option" where
  [simp]: "tm_Name s = tmpr_Name s"

definition tm_ID :: "tm_profile \<Rightarrow> string option" where
  [simp]: "tm_ID s = tmpr_ID s"

definition tm_Build :: "tm_profile \<Rightarrow> tm_profile" where
  [simp]: "tm_Build s = s"

definition tm_NeedsUpdate :: "TrafficManager \<Rightarrow> (tm_profile, bool) go" where
  "tm_NeedsUpdate local =
     tm_any [detect (\<lambda>s. tm_Name s = None \<or> Some (tms_Name (Spec local)) \<noteq> tm_Name s),
             detect (\<lambda>s. tm_Status s \<noteq> None \<and> tm_Status s \<noteq> Some (tms_ProfileStatus (Spec local))),
             detect (\<lambda>s. tm_Name s = None \<or> Some (tms_Name (Spec local)) \<noteq> tm_Name s)]"

subsection \<open>The wanted profile\<close>

fun tm_headers :: "MonitorConfigCustomHeadersItem list \<Rightarrow> MonitorConfigCustomHeadersItem list \<Rightarrow> MonitorConfigCustomHeadersItem list" where
  "tm_headers [] acc = acc"
| "tm_headers (header # headers) acc =
     tm_headers headers (acc @ [\<lparr>mch_Name = mch_Name header, mch_Value = mch_Value header\<rparr>])"

fun tm_ranges ::
  "MonitorConfigExpectedStatusCodeRangesItem list \<Rightarrow> MonitorConfigExpectedStatusCodeRangesItem list \<Rightarrow>
   MonitorConfigExpectedStatusCodeRangesItem list" where
  "tm_ranges [] acc = acc"
| "tm_ranges (spread # spreads) acc =
     tm_ranges spreads (acc @ [\<lparr>mcr_Min = mcr_Min spread, mcr_Max = mcr_Max spread\<rparr>])"

definition tm_endpoint_spec :: "EndpointSpec \<Rightarrow> tm_endpoint" where
  "tm_endpoint_spec ep =
     (let p = eps_Properties ep in
      \<lparr>tme_Name = Some (eps_Name ep),
       tme_Type = Some ''Microsoft.Network/trafficManagerProfiles/externalEndpoints'',
       tme_Properties = Some \<lparr>tmep_Target = ep_Target p, tmep_Weight = ep_Weight p,
         tmep_Priority = Some (ep_Priority p), tmep_EndpointLocation = Some (ep_EndpointLocation p),
         tmep_EndpointMonitorStatus = '''',
         tmep_CustomHeaders = (case ep_CustomHeaders p of None \<Rightarrow> None | Some headers \<Rightarrow> Some (tm_headers headers []))\<rparr>\<rparr>)"

text \<open>
  The ranges are read whenever the headers are there: without ranges this dereferences nil.
\<close>

definition tm_wanted :: "TrafficManager \<Rightarrow> ('w, tm_profile) go" where
  "tm_wanted local =
     (let sp = Spec local; monitor = tms_MonitorConfig sp in
      go_bind (go_deref (dns_RelativeName (tms_DNSConfig sp))) (\<lambda>relativeName.
      let dns = \<lparr>tmd_RelativeName = dns_RelativeName (tms_DNSConfig sp),
                 tmd_Fqdn = Some (relativeName @ ''.trafficmanager.net''),
                 tmd_TTL = dns_TTL (tms_DNSConfig sp)\<rparr>;
          path = (if mc_Path monitor \<noteq> None then mc_Path monitor else Some ''/healthz'');
          headers = (case mc_CustomHeaders monitor of None \<Rightarrow> [] | Some hs \<Rightarrow> tm_headers hs [])
      in
      go_bind (case mc_CustomHeaders monitor of
                 None \<Rightarrow> go_ret []
               | Some _ \<Rightarrow> go_bind (go_deref (mc_ExpectedStatusCodeRanges monitor)) (\<lambda>rs. go_ret (tm_ranges rs []))) (\<lambda>ranges.
      go_ret (zero_tm_profile\<lparr>
        tmpr_Properties := Some \<lparr>
          tmp_ProfileStatus = tms_ProfileStatus sp,
          tmp_TrafficRoutingMethod = tms_TrafficRoutingMethod sp,
          tmp_MonitorConfig = Some \<lparr>tmm_Protocol = mc_Protocol monitor, tmm_Port = mc_Port monitor, tmm_Path = path,
            tmm_IntervalInSeconds = mc_IntervalInSeconds monitor, tmm_TimeoutInSeconds = mc_TimeoutInSeconds monitor,
            tmm_ToleratedNumberOfFailures = mc_ToleratedNumberOfFailures monitor,
            tmm_CustomHeaders = Some headers, tmm_ExpectedStatusCodeRanges = Some ranges,
            tmm_ProfileMonitorStatus = ''''\<rparr>,
          tmp_Endpoints = Some (case tms_Endpoints sp of None \<Rightarrow> [] | Some eps \<Rightarrow> map tm_endpoint_spec eps),
          tmp_DNSConfig = Some dns\<rparr>,
        tmpr_Location := Some ''global''\<rparr>))))"

subsection \<open>The client\<close>

definition tm_NewWithFactory :: "config \<Rightarrow> (string \<Rightarrow> sdk_client) \<Rightarrow> mgmt_client" where
  "tm_NewWithFactory configuration factory = new_mgmt_client configuration factory"

definition tm_ForSubscription :: "auth_lib \<Rightarrow> mgmt_client \<Rightarrow> string \<Rightarrow> mgmt_client \<times> go_error option" where
  "tm_ForSubscription A c subID = authorize_for A c subID"

text \<open>The status is written through two pointers of the profile that Azure answered.\<close>

definition tm_SetStatus ::
  "lib \<Rightarrow> 'w tm_sdk \<Rightarrow> mgmt_client \<Rightarrow> TrafficManager \<Rightarrow> ('w, TrafficManager \<times> bool \<times> go_error option) go" where
  "tm_SetStatus L S c local =
     go_bind (tm_sdk_Get S (mc_internal c) (tms_ResourceGroup (Spec local)) (tms_Name (Spec local))) (\<lambda>(remote, err).
       let found = (\<not> IsHTTPStatus L (tmpr_Response remote) StatusNotFound) in
       if err \<noteq> None \<and> \<not> HasHTTPStatus L (tmpr_Response remote) [StatusNotFound, StatusConflict]
       then go_ret (local, found, err)
       else
         let st = (Status local)\<lparr>tmst_ID := tmpr_ID remote\<rparr> in
         (case tmpr_Properties remote of
            None \<Rightarrow> go_ret (local\<lparr>Status := st\<rparr>, found, None)
          | Some p \<Rightarrow>
              go_bind (go_deref (tmp_DNSConfig p)) (\<lambda>dns.
              go_bind (go_deref (tmp_MonitorConfig p)) (\<lambda>monitor.
              go_ret (local\<lparr>Status := st\<lparr>tmst_FQDN := tmd_Fqdn dns,
                        tmst_ProfileMonitorStatus := tmm_ProfileMonitorStatus monitor\<rparr>\<rparr>, found, None)))))"

definition tm_Done :: "TrafficManager \<Rightarrow> bool" where
  "tm_Done local \<longleftrightarrow> tmst_ProfileMonitorStatus (Status local) = ''Online''"

definition tm_Ensure ::
  "lib \<Rightarrow> 'w tm_sdk \<Rightarrow> mgmt_client \<Rightarrow> TrafficManager \<Rightarrow> ('w, TrafficManager \<times> bool \<times> go_error option) go" where
  "tm_Ensure L S c local =
     go_bind (tm_wanted local) (\<lambda>spec.
     go_bind (tm_sdk_CreateOrUpdate S (mc_internal c) (tms_ResourceGroup (Spec local)) (tms_Name (Spec local)) spec) (\<lambda>err.
       if err \<noteq> None then go_ret (local, False, err)
       else
     go_bind (tm_SetStatus L S c local) (\<lambda>(local, _, err).
       if err \<noteq> None then go_ret (local, False, err)
       else go_ret (local, tm_Done local, None))))"

definition tm_Delete :: "'w tm_sdk \<Rightarrow> mgmt_client \<Rightarrow> TrafficManager \<Rightarrow> ('w, go_error option) go" where
  "tm_Delete S c local =
     tm_sdk_Delete S (mc_internal c) (tms_ResourceGroup (Spec local)) (tms_Name (Spec local))"

definition tm_Get :: "'w tm_sdk \<Rightarrow> mgmt_client \<Rightarrow> TrafficManager \<Rightarrow> ('w, tm_profile \<times> go_error option) go" where
  "tm_Get S c local =
     tm_sdk_Get S (mc_internal c) (tms_ResourceGroup (Spec local)) (tms_Name (Spec local))"

definition tm_GetProfileStatus ::
  "'w tm_sdk \<Rightarrow> mgmt_client \<Rightarrow> TrafficManager \<Rightarrow> ('w, string \<times> go_error option) go" where
  "tm_GetProfileStatus S c local =
     go_bind (tm_sdk_Get S (mc_internal c) (tms_ResourceGroup (Spec local)) (tms_Name (Spec local))) (\<lambda>(res, err).
       if err \<noteq> None then go_ret ('''', err)
       else
     go_bind (go_deref (tmpr_Properties res)) (\<lambda>p.
     go_bind (go_deref (tmp_MonitorConfig p)) (\<lambda>monitor.
     go_ret (tmm_ProfileMonitorStatus monitor, None))))"

fun tm_find_endpoint :: "tm_endpoint list \<Rightarrow> string \<Rightarrow> ('w, string \<times> go_error option) go" where
  "tm_find_endpoint [] name = go_ret ('''', Some (ErrorText ''endpoint not found in current tm configuration''))"
| "tm_find_endpoint (ep # eps) name =
     go_bind (go_deref (tme_Name ep)) (\<lambda>n.
       if n = name then go_bind (go_deref (tme_Properties ep)) (\<lambda>p. go_ret (tmep_EndpointMonitorStatus p, None))
       else tm_find_endpoint eps name)"

definition tm_GetEndpointStatus ::
  "'w tm_sdk \<Rightarrow> mgmt_client \<Rightarrow> TrafficManager \<Rightarrow> string \<Rightarrow> ('w, string \<times> go_error option) go" where
  "tm_GetEndpointStatus S c local name =
     go_bind (tm_sdk_Get S (mc_internal c) (tms_ResourceGroup (Spec local)) (tms_Name (Spec local))) (\<lambda>(profile, err).
       if err \<noteq> None then go_ret ('''', err)
       else
     go_bind (go_deref (tmpr_Properties profile)) (\<lambda>p.
     go_bind (go_deref (tmp_Endpoints p)) (\<lambda>eps.
     tm_find_endpoint eps name)))"

definition tm_convert :: "runtime_object \<Rightarrow> go_error + TrafficManager" where
  "tm_convert obj = (case obj of ObjTrafficManager local \<Rightarrow> Inr local | _ \<Rightarrow> Inl (kind_error obj))"

subsection \<open>The reconciler\<close>

text \<open>The operations of the client, over the state of a reconcile.\<close>

record 's TrafficManagersClient =
  tmc_ForSubscription :: "string \<Rightarrow> ('s, go_error option) go"
  tmc_Ensure :: "TrafficManager \<Rightarrow> ('s, TrafficManager \<times> bool \<times> go_error option) go"
  tmc_Delete :: "TrafficManager \<Rightarrow> ('s, go_error option) go"
  tmc_GetProfileStatus :: "TrafficManager \<Rightarrow> ('s, string \<times> go_error option) go"

definition tm_client :: "lib \<Rightarrow> auth_lib \<Rightarrow> 'w tm_sdk \<Rightarrow> (mgmt_client \<times> 'w) TrafficManagersClient" where
  "tm_client L A S = \<lparr>
     tmc_ForSubscription = (\<lambda>subID. on_self (\<lambda>c. tm_ForSubscription A c subID)),
     tmc_Ensure = (\<lambda>local. on_world (\<lambda>c. tm_Ensure L S c local)),
     tmc_Delete = (\<lambda>local. on_world (\<lambda>c. tm_Delete S c local)),
     tmc_GetProfileStatus = (\<lambda>local. on_world (\<lambda>c. tm_GetProfileStatus S c local))\<rparr>"

definition tm_delete_step ::
  "lib \<Rightarrow> 's kube \<Rightarrow> 's TrafficManagersClient \<Rightarrow> TrafficManager \<Rightarrow> ('s, ctrl_result \<times> go_error option) go" where
  "tm_delete_step L kb az local =
     go_bind (tmc_Delete az local) (\<lambda>deleteErr.
     go_bind (kb_StatusUpdate kb (ObjTrafficManager local)) (\<lambda>(local2, updateErr).
       case multierror L [deleteErr, updateErr] of
         Some final \<Rightarrow>
           go_bind (kb_Event kb local2 ''Warning'' ''FailedDelete''
                      (''Failed to delete resource: '' @ error_text L final)) (\<lambda>_.
           go_ret (no_requeue, Some final))
       | None \<Rightarrow>
           go_bind (kb_Event kb local2 ''Normal'' ''Deleted'' ''Successfully deleted'') (\<lambda>_.
           go_bind (kb_Update kb (map_meta (\<lambda>m. RemoveFinalizer m finalizerName) local2)) (\<lambda>(local3, err).
             if err \<noteq> None then go_ret (no_requeue, err) else go_ret (no_requeue, None)))))"

definition tm_ensure_step ::
  "lib \<Rightarrow> 's kube \<Rightarrow> 's TrafficManagersClient \<Rightarrow> TrafficManager \<Rightarrow> ('s, ctrl_result \<times> go_error option) go" where
  "tm_ensure_step L kb az local =
     go_bind (tmc_Ensure az local) (\<lambda>(local1, done, ensureErr).
     go_bind (kb_StatusUpdate kb (ObjTrafficManager local1)) (\<lambda>(local2, updateErr).
       let err = multierror L [ensureErr, updateErr] in
       go_bind
         (case err of
            Some e \<Rightarrow> kb_Event kb local2 ''Warning'' ''FailedReconcile''
                        (''Failed to reconcile resource: '' @ error_text L e)
          | None \<Rightarrow>
              if done then kb_Event kb local2 ''Normal'' ''Reconciled'' ''Successfully reconciled''
              else go_ret ())
         (\<lambda>_. go_ret (\<lparr>Requeue = \<not> done\<rparr>, err))))"

text \<open>
  \<open>r.Get(ctx, req.NamespacedName, &local)\<close> fills a variable of type \<open>TrafficManager\<close>, so what it
  answers is one; any other object would be a panic of the client library.
\<close>

definition tm_Reconcile ::
  "lib \<Rightarrow> 's kube \<Rightarrow> 's TrafficManagersClient \<Rightarrow> namespaced_name \<Rightarrow> ('s, ctrl_result \<times> go_error option) go" where
  "tm_Reconcile L kb az req =
     go_bind (kb_Get kb req KTrafficManager) (\<lambda>(obj, err). case err of
        Some e \<Rightarrow> go_ret (no_requeue, IgnoreNotFound L (Some e))
      | None \<Rightarrow>
     (case obj of
        ObjTrafficManager local \<Rightarrow>
          go_bind (tmc_ForSubscription az (tms_SubscriptionID (Spec local))) (\<lambda>err. case err of
            Some e \<Rightarrow> go_ret (no_requeue, Some e)
          | None \<Rightarrow>
              if om_DeletionTimestamp (ObjectMeta local) = None then
                if \<not> HasFinalizer (ObjectMeta local) finalizerName then
                  let local' = map_meta (\<lambda>m. AddFinalizer m finalizerName) (ObjTrafficManager local) in
                  go_bind (kb_Event kb local' ''Normal'' ''Added'' ''Object finalizer is added'') (\<lambda>_.
                  go_bind (kb_Update kb local') (\<lambda>(local'', err). go_ret (no_requeue, err)))
                else tm_ensure_step L kb az local
              else
                if HasFinalizer (ObjectMeta local) finalizerName then tm_delete_step L kb az local
                else go_ret (no_requeue, None))
      | _ \<Rightarrow> go_panic))"

subsection \<open>Lemmas\<close>

lemma tm_headers_eq [simp]: "tm_headers hs acc = acc @ hs"
  by (induction hs arbitrary: acc) simp_all

lemma tm_ranges_eq [simp]: "tm_ranges rs acc = acc @ rs"
  by (induction rs arbitrary: acc) simp_all

lemma tm_any_eq: "tm_any fs = Any fs"
  by (induction fs) (simp_all cong: if_cong)

text \<open>
  The profile is built unless the DNS name is missing, or there are custom headers and no status
  code ranges; ranges without headers are dropped.
\<close>

definition tm_buildable :: "TrafficManagerSpec \<Rightarrow> bool" where
  "tm_buildable sp \<longleftrightarrow> dns_RelativeName (tms_DNSConfig sp) \<noteq> None \<and>
     (mc_CustomHeaders (tms_MonitorConfig sp) \<noteq> None \<longrightarrow> mc_ExpectedStatusCodeRanges (tms_MonitorConfig sp) \<noteq> None)"

lemma tm_wanted_panics: "\<not> tm_buildable (Spec x) \<Longrightarrow> tm_wanted x w = (Panics, w)"
  by (cases "dns_RelativeName (tms_DNSConfig (Spec x))")
    (auto simp: tm_buildable_def tm_wanted_def Let_def go_simps go_bind_apply)

lemma tm_wanted_returns:
  assumes "tm_buildable (Spec x)"
  shows "\<exists>s p m d. tm_wanted x w = (Returns s, w) \<and> tmpr_Properties s = Some p \<and>
    tmp_MonitorConfig p = Some m \<and> tmp_DNSConfig p = Some d \<and>
    tmm_CustomHeaders m = Some (case mc_CustomHeaders (tms_MonitorConfig (Spec x)) of None \<Rightarrow> [] | Some hs \<Rightarrow> hs) \<and>
    tmm_ExpectedStatusCodeRanges m = Some (case mc_CustomHeaders (tms_MonitorConfig (Spec x)) of None \<Rightarrow> []
      | Some _ \<Rightarrow> the (mc_ExpectedStatusCodeRanges (tms_MonitorConfig (Spec x)))) \<and>
    tmd_Fqdn d = map_option (\<lambda>n. n @ ''.trafficmanager.net'') (dns_RelativeName (tms_DNSConfig (Spec x))) \<and>
    tmp_Endpoints p = Some (case tms_Endpoints (Spec x) of None \<Rightarrow> [] | Some eps \<Rightarrow> map tm_endpoint_spec eps)"
  using assms
  by (cases "mc_CustomHeaders (tms_MonitorConfig (Spec x))")
    (auto simp: tm_buildable_def tm_wanted_def Let_def go_simps go_bind_apply)

lemma tm_wanted_no_effect: "snd (tm_wanted x w) = w"
  by (cases "tm_buildable (Spec x)") (use tm_wanted_returns [of x w] in \<open>auto simp: tm_wanted_panics\<close>)

lemma tm_SetStatus_Returns:
  assumes "tm_SetStatus L S c local w = (Returns (local', found, err), w')"
  shows "local'\<lparr>Status := st\<rparr> = local\<lparr>Status := st\<rparr>" and "Spec local' = Spec local"
    and "ObjectMeta local' = ObjectMeta local"
  using assms
  by (auto simp: tm_SetStatus_def Let_def go_returns split: prod.splits if_splits option.splits)

lemma tm_Ensure_Returns:
  assumes "tm_Ensure L S c local w = (Returns (local', done, err), w')"
  shows "local'\<lparr>Status := st\<rparr> = local\<lparr>Status := st\<rparr>" and "done \<Longrightarrow> err = None"
  using assms
  by (auto simp: tm_Ensure_def go_returns dest: tm_SetStatus_Returns(1) split: prod.splits if_splits)

text \<open>\<open>Ensure\<close> always writes, and is done when the monitor is online.\<close>

lemma tm_Ensure_done:
  assumes "tm_buildable (Spec x)"
    and "\<And>spec. tm_sdk_CreateOrUpdate S (mc_internal c) (tms_ResourceGroup (Spec x)) (tms_Name (Spec x)) spec w =
      (Returns None, w1)"
    and "tm_sdk_Get S (mc_internal c) (tms_ResourceGroup (Spec x)) (tms_Name (Spec x)) w1 = (Returns (remote, None), w2)"
    and "tmpr_Properties remote = Some p" "tmp_DNSConfig p = Some d" "tmp_MonitorConfig p = Some m"
  shows "\<exists>x'. tm_Ensure L S c x w = (Returns (x', tmm_ProfileMonitorStatus m = ''Online'', None), w2) \<and>
    tmst_FQDN (Status x') = tmd_Fqdn d \<and> tmst_ID (Status x') = tmpr_ID remote"
proof -
  obtain s where s: "tm_wanted x w = (Returns s, w)" using tm_wanted_returns [OF assms(1), of w] by blast
  show ?thesis
    using assms(2-6) s by (auto simp: tm_Ensure_def tm_SetStatus_def tm_Done_def go_simps Let_def)
qed

text \<open>The state of an endpoint is that of the first endpoint with the name.\<close>

lemma tm_find_endpoint_eq:
  assumes "\<forall>ep\<in>set eps. tme_Name ep \<noteq> None \<and> tme_Properties ep \<noteq> None"
  shows "tm_find_endpoint eps name =
    (case find (\<lambda>ep. tme_Name ep = Some name) eps of
       None \<Rightarrow> go_ret ('''', Some (ErrorText ''endpoint not found in current tm configuration''))
     | Some ep \<Rightarrow> go_ret (tmep_EndpointMonitorStatus (the (tme_Properties ep)), None))"
  using assms by (induction eps) (auto simp: go_simps)

subsection \<open>The reconciler is an instance of the generic one\<close>

text \<open>
  The client as an asynchronous client whose \<open>Delete\<close> never finds the resource again.
\<close>

definition tm_as_async :: "'s TrafficManagersClient \<Rightarrow> 's AsyncClient" where
  "tm_as_async az = \<lparr>
     async_ForSubscription = (\<lambda>obj. case obj of
         ObjTrafficManager local \<Rightarrow> tmc_ForSubscription az (tms_SubscriptionID (Spec local))
       | _ \<Rightarrow> go_ret (Some (kind_error obj))),
     async_Ensure = (\<lambda>obj. case obj of
         ObjTrafficManager local \<Rightarrow>
           go_bind (tmc_Ensure az local) (\<lambda>(local', done, err). go_ret (ObjTrafficManager local', done, err))
       | _ \<Rightarrow> go_ret (obj, False, Some (kind_error obj))),
     async_Delete = (\<lambda>obj. case obj of
         ObjTrafficManager local \<Rightarrow> go_bind (tmc_Delete az local) (\<lambda>err. go_ret (obj, False, err))
       | _ \<Rightarrow> go_ret (obj, False, Some (kind_error obj)))\<rparr>"

text \<open>What \<open>tm_Reconcile\<close> gets is a traffic manager, and the lookups that only the generic
  reconciler makes do not fail.\<close>

definition kube_serves_tm :: "'s kube \<Rightarrow> bool" where
  "kube_serves_tm kb \<longleftrightarrow>
     kb_GVKForObject kb KTrafficManager = None \<and> (\<forall>obj. kb_Accessor kb obj = None) \<and>
     (\<forall>n s obj s'. kb_Get kb n KTrafficManager s = (Returns (obj, None), s') \<longrightarrow> kind_of obj = KTrafficManager)"

lemma tm_ensure_step_eq:
  "tm_ensure_step L kb az local = async_ensure_step L kb (tm_as_async az) (ObjTrafficManager local)"
  by (simp add: tm_ensure_step_def async_ensure_step_def tm_as_async_def go_bind_assoc go_simps split_def
      Let_def cong: option.case_cong)

lemma tm_delete_step_eq:
  "tm_delete_step L kb az local = async_delete_step L kb (tm_as_async az) (ObjTrafficManager local)"
  by (simp add: tm_delete_step_def async_delete_step_def failed_delete_step_def remove_finalizer_step_def
      tm_as_async_def go_bind_assoc go_simps split_def cong: option.case_cong)

text \<open>
  The reconciler behaves as the generic one on this client, so what is proved of the generic
  reconciler holds of it.
\<close>

lemma tm_Reconcile_eq:
  assumes "kube_serves_tm kb"
  shows "tm_Reconcile L kb az req s = async_Reconcile L kb (tm_as_async az) req KTrafficManager s"
proof (cases "kb_Get kb req KTrafficManager s")
  case (Pair r s1)
  show ?thesis
  proof (cases r)
    case (Returns x)
    then obtain obj err where get: "kb_Get kb req KTrafficManager s = (Returns (obj, err), s1)"
      using Pair by (cases x) auto
    show ?thesis
    proof (cases err)
      case None
      with get assms have "kind_of obj = KTrafficManager"
        unfolding kube_serves_tm_def by blast
      then obtain local where "obj = ObjTrafficManager local" by (cases obj) auto
      with get None assms show ?thesis
        by (simp add: tm_Reconcile_def async_Reconcile_def kube_serves_tm_def go_bind_step
            tm_ensure_step_eq tm_delete_step_eq add_finalizer_step_def Let_def cong: option.case_cong if_cong)
          (simp add: tm_as_async_def)
    qed (use get assms in \<open>simp add: tm_Reconcile_def async_Reconcile_def kube_serves_tm_def go_bind_step\<close>)
  qed (use Pair assms in \<open>simp add: tm_Reconcile_def async_Reconcile_def kube_serves_tm_def go_bind_step_panic\<close>)
qed

lemma tm_client_Ensure_keeps:
  assumes "tmc_Ensure (tm_client L A S) local s = (Returns (local', done, err), s')"
  shows "local'\<lparr>Status := st\<rparr> = local\<lparr>Status := st\<rparr>" and "done \<Longrightarrow> err = None"
  using assms by (auto simp: tm_client_def go_returns dest: tm_Ensure_Returns)

interpretation tm: strict_async_client "tm_as_async (tm_client L A S)" "\<lambda>obj. kind_of obj = KTrafficManager"
  for L :: lib and A :: auth_lib and S :: "'w tm_sdk"
proof unfold_locales
  show "\<exists>err. async_ForSubscription (tm_as_async (tm_client L A S)) obj = go_ret (Some err)"
    if "kind_of obj \<noteq> KTrafficManager" for obj
    using that by (cases obj) (auto simp: tm_as_async_def)
qed (auto simp: tm_as_async_def go_returns split: runtime_object.splits dest: tm_client_Ensure_keeps)

text \<open>
  An object that is deleted loses its finalizer as soon as Azure takes the deletion, without a
  look at whether the profile is gone.
\<close>

lemma tm_delete_step_unfinished:
  assumes "lib_ok L" "tmc_Delete az local s = (Returns None, s1)"
    and "kb_StatusUpdate kb (ObjTrafficManager local) s1 = (Returns (obj, None), s2)"
  shows "tm_delete_step L kb az local s = remove_finalizer_step kb obj s2"
proof -
  from assms(1) have "multierror L [None, None] = None" by simp
  with assms(2,3) show ?thesis
    by (simp add: tm_delete_step_eq async_delete_step_def tm_as_async_def go_simps go_bind_assoc)
qed

text \<open>The builder's default profile, once named, only differs from the object in its state.\<close>

lemma tm_NeedsUpdate_eq:
  "tm_NeedsUpdate x s =
     (Returns (tmpr_Name s \<noteq> Some (tms_Name (Spec x)) \<or>
        tm_Status s \<noteq> None \<and> tm_Status s \<noteq> Some (tms_ProfileStatus (Spec x))), s)"
  by (auto simp: tm_NeedsUpdate_def tm_any_eq go_simps)

end
