(* ===== verification/Retry.thy ===== *)
theory Retry
imports Client_Contracts TrafficManagers Complex_Main
begin

section \<open>Running a client until it is done (cmd/ensure)\<close>

text \<open>
  \<open>EnsureSync\<close>, \<open>DeleteSync\<close>, \<open>EnsureAsync\<close>, \<open>DeleteAsync\<close>, \<open>EnsureTrafficManager\<close> and
  \<open>DeleteTrafficManager\<close> of \<open>cmd/ensure/ensure.go\<close>: they repeat an operation of a client with
  \<open>wait.ExponentialBackoff\<close>.
\<close>

subsection \<open>The backoff\<close>

text \<open>Durations in nanoseconds.\<close>

record Backoff =
  bo_Cap :: int
  bo_Steps :: nat
  bo_Factor :: rat
  bo_Duration :: int
  bo_Jitter :: rat

definition backoff :: Backoff where
  "backoff = \<lparr>bo_Cap = 900 * 10 ^ 9, bo_Steps = 30, bo_Factor = 5 / 4, bo_Duration = 5 * 10 ^ 9, bo_Jitter = 1\<rparr>"

text \<open>
  \<open>wait.ExponentialBackoff\<close> is a parameter.  The function it is given reads and writes the
  client, the world and the object that the closure captures.
\<close>

type_synonym 's exponential_backoff =
  "Backoff \<Rightarrow> ('s \<times> runtime_object, bool \<times> go_error option) go \<Rightarrow> ('s \<times> runtime_object, go_error option) go"

text \<open>
  Its documented behaviour: it checks the condition at most \<open>Steps\<close> times and sleeps between
  two checks; a condition that is true or fails ends it with the error of the condition;
  otherwise it ends with \<open>ErrWaitTimeout\<close>, after the last step or earlier when the cap of the
  duration is reached, in that case with a last sleep.  \<open>sleep\<close> is what others may do to the state
  meanwhile.
\<close>

inductive backs_off ::
  "('t \<Rightarrow> 't \<Rightarrow> bool) \<Rightarrow> ('t, bool \<times> go_error option) go \<Rightarrow> nat \<Rightarrow> 't \<Rightarrow> go_error option outcome \<Rightarrow> 't \<Rightarrow> bool"
  for sleep :: "'t \<Rightarrow> 't \<Rightarrow> bool" and cond :: "('t, bool \<times> go_error option) go" where
  stop: "cond s = (Returns (ok, err), s') \<Longrightarrow> ok \<or> err \<noteq> None \<Longrightarrow> backs_off sleep cond (Suc n) s (Returns err) s'"
| again: "cond s = (Returns (False, None), s1) \<Longrightarrow> sleep s1 s2 \<Longrightarrow> backs_off sleep cond n s2 r s' \<Longrightarrow>
    backs_off sleep cond (Suc n) s r s'"
| timeout: "cond s = (Returns (False, None), s1) \<Longrightarrow> s' = s1 \<or> sleep s1 s' \<Longrightarrow>
    backs_off sleep cond (Suc n) s (Returns (Some WaitTimeout)) s'"
| panic: "cond s = (Panics, s') \<Longrightarrow> backs_off sleep cond (Suc n) s Panics s'"

definition backoff_ok :: "('s \<Rightarrow> 's \<Rightarrow> bool) \<Rightarrow> 's exponential_backoff \<Rightarrow> bool" where
  "backoff_ok sleep EB \<longleftrightarrow>
     (\<forall>b cond t. 0 < bo_Steps b \<longrightarrow>
        (case EB b cond t of (r, t') \<Rightarrow>
           backs_off (\<lambda>t1 t2. sleep (fst t1) (fst t2) \<and> snd t1 = snd t2) cond (bo_Steps b) t r t'))"

text \<open>An instance: it uses all steps.\<close>

fun retry :: "('t, bool \<times> go_error option) go \<Rightarrow> nat \<Rightarrow> ('t, go_error option) go" where
  "retry cond 0 = go_ret (Some WaitTimeout)"
| "retry cond (Suc n) =
     go_bind cond (\<lambda>(ok, err). if ok \<or> err \<noteq> None then go_ret err
       else if n = 0 then go_ret (Some WaitTimeout) else retry cond n)"

definition patient_backoff :: "'s exponential_backoff" where
  "patient_backoff b cond = retry cond (bo_Steps b)"

lemma retry_backs_off:
  "(\<And>t. sleep t t) \<Longrightarrow> case retry cond (Suc n) t of (r, t') \<Rightarrow> backs_off sleep cond (Suc n) t r t'"
proof (induction n arbitrary: t)
  case 0
  show ?case
    by (auto simp: go_bind_apply go_ret_apply split: prod.split outcome.split intro: backs_off.intros)
next
  case (Suc n)
  from Suc.IH [OF Suc.prems]
  have IH: "backs_off sleep cond (Suc n) t1 r t'" if "retry cond (Suc n) t1 = (r, t')" for t1 r t'
    using that by (metis case_prod_conv)
  have "retry cond (Suc (Suc n)) t =
      go_bind cond (\<lambda>(ok, err). if ok \<or> err \<noteq> None then go_ret err else retry cond (Suc n)) t"
    by (subst retry.simps) simp
  then show ?case
    using Suc.prems
    by (auto simp: go_bind_apply [of cond] go_ret_apply simp del: retry.simps
        split: prod.split outcome.split intro: backs_off.intros IH)
qed

lemma patient_backoff_ok:
  assumes "\<And>s. sleep s s"
  shows "backoff_ok sleep patient_backoff"
  unfolding backoff_ok_def patient_backoff_def
proof (intro allI impI)
  fix b cond and t :: "'a \<times> runtime_object"
  assume "0 < bo_Steps b"
  then obtain n where "bo_Steps b = Suc n" by (auto simp: gr0_conv_Suc)
  moreover have "case retry cond (Suc n) t of (r, t') \<Rightarrow>
      backs_off (\<lambda>t1 t2. sleep (fst t1) (fst t2) \<and> snd t1 = snd t2) cond (Suc n) t r t'"
    by (rule retry_backs_off) (simp add: assms)
  ultimately show "case retry cond (bo_Steps b) t of (r, t') \<Rightarrow>
      backs_off (\<lambda>t1 t2. sleep (fst t1) (fst t2) \<and> snd t1 = snd t2) cond (bo_Steps b) t r t'"
    by simp
qed

text \<open>
  How a backoff that returned ended: with a condition that was true, one that failed, or one
  that was false and no patience left (then it may have slept once more).  A property of states
  that conditions and sleeping keep holds at the last check.
\<close>

definition backoff_result :: "bool \<times> go_error option \<Rightarrow> go_error option" where
  "backoff_result x = (if fst x \<or> snd x \<noteq> None then snd x else Some WaitTimeout)"

lemma backs_off_end:
  assumes "backs_off sleep cond n t r t'" and "r = Returns err" and "P t"
    and step: "\<And>t t1 x. P t \<Longrightarrow> cond t = (Returns x, t1) \<Longrightarrow> P t1" "\<And>t1 t2. P t1 \<Longrightarrow> sleep t1 t2 \<Longrightarrow> P t2"
  shows "\<exists>t1 t2 x. P t1 \<and> cond t1 = (Returns x, t2) \<and> err = backoff_result x \<and>
    (t' = t2 \<or> x = (False, None) \<and> sleep t2 t')"
  using assms(1-3)
proof (induction rule: backs_off.induct)
  case (stop s ok err' s' n)
  then show ?case by (intro exI [of _ s] exI [of _ s'] exI [of _ "(ok, err')"]) (auto simp: backoff_result_def)
next
  case (again s s1 s2 n r s')
  then have "P s2" using step by blast
  with again show ?case by blast
next
  case (timeout s s1 s' n)
  then show ?case by (intro exI [of _ s] exI [of _ s1] exI [of _ "(False, None)"]) (auto simp: backoff_result_def)
qed simp

subsection \<open>The loops\<close>

text \<open>An operation on the captured object, which it updates.\<close>

definition on_obj ::
  "(runtime_object \<Rightarrow> ('s, runtime_object \<times> 'a) go) \<Rightarrow> ('s \<times> runtime_object, 'a) go" where
  "on_obj f = (\<lambda>(s, obj).
     case f obj s of
       (Returns (obj', x), s') \<Rightarrow> (Returns x, (s', obj'))
     | (Panics, s') \<Rightarrow> (Panics, (s', obj)))"

text \<open>
  \<open>wait.ExponentialBackoff(backoff(), func)\<close> with an object that is dropped at the end.  The
  type assertion to \<open>metav1.Object\<close> before holds for every object of the model.
\<close>

definition with_backoff ::
  "'s exponential_backoff \<Rightarrow> ('s \<times> runtime_object, bool \<times> go_error option) go \<Rightarrow> runtime_object \<Rightarrow>
   ('s, go_error option) go" where
  "with_backoff EB cond obj = (\<lambda>s. case EB backoff cond (s, obj) of (r, (s', obj')) \<Rightarrow> (r, s'))"

definition subscription_error :: "lib \<Rightarrow> go_error \<Rightarrow> go_error" where
  "subscription_error L err = errors_Wrap L err ''failed to get client for subscription''"

definition EnsureSync ::
  "lib \<Rightarrow> 's exponential_backoff \<Rightarrow> 's SyncClient \<Rightarrow> runtime_object \<Rightarrow> ('s, go_error option) go" where
  "EnsureSync L EB client obj =
     go_bind (sync_ForSubscription client obj) (\<lambda>err. case err of
        Some e \<Rightarrow> go_ret (Some (subscription_error L e))
      | None \<Rightarrow>
          with_backoff EB (go_bind (on_obj (sync_Ensure client)) (\<lambda>err. go_ret (err = None, None))) obj)"

definition DeleteSync ::
  "lib \<Rightarrow> 's exponential_backoff \<Rightarrow> 's SyncClient \<Rightarrow> runtime_object \<Rightarrow> ('s, go_error option) go" where
  "DeleteSync L EB client obj =
     go_bind (sync_ForSubscription client obj) (\<lambda>err. case err of
        Some e \<Rightarrow> go_ret (Some (subscription_error L e))
      | None \<Rightarrow>
          with_backoff EB (go_bind (on_obj (sync_Delete client)) (\<lambda>err. go_ret (err = None, None))) obj)"

definition EnsureAsync ::
  "lib \<Rightarrow> 's exponential_backoff \<Rightarrow> 's AsyncClient \<Rightarrow> runtime_object \<Rightarrow> ('s, go_error option) go" where
  "EnsureAsync L EB client obj =
     go_bind (async_ForSubscription client obj) (\<lambda>err. case err of
        Some e \<Rightarrow> go_ret (Some (subscription_error L e))
      | None \<Rightarrow>
          with_backoff EB (go_bind (on_obj (async_Ensure client)) (\<lambda>(done, err). go_ret (done, None))) obj)"

definition DeleteAsync ::
  "lib \<Rightarrow> 's exponential_backoff \<Rightarrow> 's AsyncClient \<Rightarrow> runtime_object \<Rightarrow> ('s, go_error option) go" where
  "DeleteAsync L EB client obj =
     go_bind (async_ForSubscription client obj) (\<lambda>err. case err of
        Some e \<Rightarrow> go_ret (Some (subscription_error L e))
      | None \<Rightarrow>
          with_backoff EB (go_bind (on_obj (async_Delete client)) (\<lambda>(found, err). go_ret (\<not> found, None))) obj)"

text \<open>The object of the last two is a \<open>TrafficManager\<close>.\<close>

definition on_tm ::
  "(TrafficManager \<Rightarrow> ('s, TrafficManager \<times> 'a) go) \<Rightarrow> ('s \<times> runtime_object, 'a) go" where
  "on_tm f = on_obj (\<lambda>obj. case obj of
      ObjTrafficManager local \<Rightarrow> go_bind (f local) (\<lambda>(local', x). go_ret (ObjTrafficManager local', x))
    | _ \<Rightarrow> go_panic)"

definition type_assertion_error :: go_error where
  "type_assertion_error = ErrorText
     ''failed type assertion after switching on type. check switch statement and function invocation.''"

definition EnsureTrafficManager ::
  "lib \<Rightarrow> 's exponential_backoff \<Rightarrow> 's TrafficManagersClient \<Rightarrow> runtime_object \<Rightarrow> ('s, go_error option) go" where
  "EnsureTrafficManager L EB client obj =
     (case obj of
        ObjTrafficManager local \<Rightarrow>
          go_bind (tmc_ForSubscription client (tms_SubscriptionID (Spec local))) (\<lambda>err. case err of
             Some e \<Rightarrow> go_ret (Some (subscription_error L e))
           | None \<Rightarrow>
               with_backoff EB
                 (go_bind (on_tm (tmc_Ensure client)) (\<lambda>(_, err). case err of
                    Some e \<Rightarrow> go_ret (False, Some (errors_Wrap L e ''failed to reconcile''))
                  | None \<Rightarrow>
                  go_bind (on_tm (\<lambda>local. go_bind (tmc_GetProfileStatus client local) (\<lambda>x. go_ret (local, x)))) (\<lambda>(status, err).
                    case err of
                      Some e \<Rightarrow> go_ret (False, Some (errors_Wrap L e ''failed to get monitor status''))
                    | None \<Rightarrow>
                        if status = ''Online'' \<or> status = ''Disabled'' then go_ret (True, None)
                        else go_ret (False, None))))
                 obj)
      | _ \<Rightarrow> go_ret (Some type_assertion_error))"

definition DeleteTrafficManager ::
  "lib \<Rightarrow> 's exponential_backoff \<Rightarrow> 's TrafficManagersClient \<Rightarrow> runtime_object \<Rightarrow> ('s, go_error option) go" where
  "DeleteTrafficManager L EB client obj =
     (case obj of
        ObjTrafficManager local \<Rightarrow>
          go_bind (tmc_ForSubscription client (tms_SubscriptionID (Spec local))) (\<lambda>err. case err of
             Some e \<Rightarrow> go_ret (Some (subscription_error L e))
           | None \<Rightarrow>
               with_backoff EB
                 (go_bind (on_tm (\<lambda>local. go_bind (tmc_Delete client local) (\<lambda>err. go_ret (local, err)))) (\<lambda>err.
                  go_ret (True, err)))
                 obj)
      | _ \<Rightarrow> go_ret (Some type_assertion_error))"

subsection \<open>What the answers mean\<close>

inductive_cases backs_off_Suc: "backs_off sleep cond (Suc n) s r s'"

lemma on_obj_Returns [go_returns]:
  "on_obj f t = (Returns x, t') \<longleftrightarrow> f (snd t) (fst t) = (Returns (snd t', x), fst t')"
  by (cases t; cases t') (auto simp: on_obj_def split: prod.splits outcome.splits)

lemma backoff_okD:
  assumes "backoff_ok sleep EB" and "EB backoff cond t = (r, t')"
  shows "backs_off (\<lambda>t1 t2. sleep (fst t1) (fst t2) \<and> snd t1 = snd t2) cond (Suc 29) t r t'"
proof -
  have steps: "0 < bo_Steps backoff" "bo_Steps backoff = Suc 29" by (simp_all add: backoff_def)
  from assms(1) [unfolded backoff_ok_def, rule_format, OF steps(1), of cond t] assms(2) show ?thesis
    by (simp add: steps(2) del: One_nat_def)
qed

lemma with_backoff_end:
  assumes "backoff_ok sleep EB" and "with_backoff EB cond obj s = (Returns err, s')" and "P obj"
    and step: "\<And>t t1 x. P (snd t) \<Longrightarrow> cond t = (Returns x, t1) \<Longrightarrow> P (snd t1)"
  shows "\<exists>t1 s2 obj' x. P (snd t1) \<and> cond t1 = (Returns x, (s2, obj')) \<and> err = backoff_result x \<and>
    (s' = s2 \<or> x = (False, None) \<and> sleep s2 s')"
proof -
  obtain obj' where "EB backoff cond (s, obj) = (Returns err, (s', obj'))"
    using assms(2) by (auto simp: with_backoff_def split: prod.splits)
  from backoff_okD [OF assms(1) this]
  have "\<exists>t1 t2 x. P (snd t1) \<and> cond t1 = (Returns x, t2) \<and> err = backoff_result x \<and>
      ((s', obj') = t2 \<or> x = (False, None) \<and> sleep (fst t2) (fst (s', obj')) \<and> snd t2 = snd (s', obj'))"
    by (rule backs_off_end [where P = "\<lambda>t. P (snd t)"]) (simp_all add: assms(3), blast intro: step)
  then show ?thesis by (metis fst_conv prod.collapse)
qed

lemma with_backoff_result:
  assumes "backoff_ok sleep EB" and "with_backoff EB cond obj s = (Returns err, s')"
  shows "\<exists>t1 s2 obj' x. cond t1 = (Returns x, (s2, obj')) \<and> err = backoff_result x \<and>
    (s' = s2 \<or> x = (False, None) \<and> sleep s2 s')"
  using with_backoff_end [OF assms, of "\<lambda>_. True"] by blast

text \<open>A first check that is true ends the loop.\<close>

lemma with_backoff_first:
  assumes "backoff_ok sleep EB" and "cond (s, obj) = (Returns (ok, err), (s', obj'))" "ok \<or> err \<noteq> None"
  shows "with_backoff EB cond obj s = (Returns err, s')"
proof -
  obtain r t' where EB: "EB backoff cond (s, obj) = (r, t')" by (cases "EB backoff cond (s, obj)")
  from backoff_okD [OF assms(1) EB] have "r = Returns err \<and> t' = (s', obj')"
    by (rule backs_off_Suc) (use assms(2,3) in auto)
  with EB show ?thesis by (simp add: with_backoff_def)
qed

lemma EnsureSync_done:
  assumes "backoff_ok sleep EB" and "EnsureSync L EB az obj s = (Returns err, s')"
    and sub: "sync_ForSubscription az obj s = (Returns None, s0)"
  shows "\<exists>s1 s2 obj1 obj2 e. sync_Ensure az obj1 s1 = (Returns (obj2, e), s2) \<and>
    err = (if e = None then None else Some WaitTimeout) \<and> (s' = s2 \<or> e \<noteq> None \<and> sleep s2 s')"
proof -
  have "with_backoff EB (go_bind (on_obj (sync_Ensure az)) (\<lambda>err. go_ret (err = None, None))) obj s0 = (Returns err, s')"
    using assms(2) by (simp add: EnsureSync_def sub go_simps)
  from with_backoff_result [OF assms(1) this] show ?thesis
    by (force simp: go_returns backoff_result_def)
qed

lemma DeleteSync_done:
  assumes "backoff_ok sleep EB" and "DeleteSync L EB az obj s = (Returns err, s')"
    and sub: "sync_ForSubscription az obj s = (Returns None, s0)"
  shows "\<exists>s1 s2 obj1 obj2 e. sync_Delete az obj1 s1 = (Returns (obj2, e), s2) \<and>
    err = (if e = None then None else Some WaitTimeout) \<and> (s' = s2 \<or> e \<noteq> None \<and> sleep s2 s')"
proof -
  have "with_backoff EB (go_bind (on_obj (sync_Delete az)) (\<lambda>err. go_ret (err = None, None))) obj s0 = (Returns err, s')"
    using assms(2) by (simp add: DeleteSync_def sub go_simps)
  from with_backoff_result [OF assms(1) this] show ?thesis
    by (force simp: go_returns backoff_result_def)
qed

text \<open>
  \<open>EnsureAsync\<close> succeeds when an \<open>Ensure\<close> reports that it is done, whatever error it reports;
  \<open>DeleteAsync\<close> when a \<open>Delete\<close> reports that nothing was found, whatever error it reports.
\<close>

lemma EnsureAsync_done:
  assumes "backoff_ok sleep EB" and "EnsureAsync L EB az obj s = (Returns err, s')"
    and sub: "async_ForSubscription az obj s = (Returns None, s0)"
  shows "\<exists>s1 s2 obj1 obj2 done e. async_Ensure az obj1 s1 = (Returns (obj2, done, e), s2) \<and>
    err = (if done then None else Some WaitTimeout) \<and> (s' = s2 \<or> \<not> done \<and> sleep s2 s')"
proof -
  have "with_backoff EB (go_bind (on_obj (async_Ensure az)) (\<lambda>(done, err). go_ret (done, None))) obj s0 = (Returns err, s')"
    using assms(2) by (simp add: EnsureAsync_def sub go_simps)
  from with_backoff_result [OF assms(1) this] obtain t1 s2 obj' x
    where c: "go_bind (on_obj (async_Ensure az)) (\<lambda>(done, err). go_ret (done, None)) t1 = (Returns x, (s2, obj'))"
      and err: "err = backoff_result x" and last: "s' = s2 \<or> x = (False, None) \<and> sleep s2 s'" by blast
  from c obtain dn e where "async_Ensure az (snd t1) (fst t1) = (Returns (obj', dn, e), s2)" "x = (dn, None)"
    by (auto simp: go_returns)
  moreover from this err have "err = (if dn then None else Some WaitTimeout)" "s' = s2 \<or> \<not> dn \<and> sleep s2 s'"
    using last by (auto simp: backoff_result_def)
  ultimately show ?thesis by blast
qed

lemma DeleteAsync_done:
  assumes "backoff_ok sleep EB" and "DeleteAsync L EB az obj s = (Returns err, s')"
    and sub: "async_ForSubscription az obj s = (Returns None, s0)"
  shows "\<exists>s1 s2 obj1 obj2 found e. async_Delete az obj1 s1 = (Returns (obj2, found, e), s2) \<and>
    err = (if \<not> found then None else Some WaitTimeout) \<and> (s' = s2 \<or> found \<and> sleep s2 s')"
proof -
  have "with_backoff EB (go_bind (on_obj (async_Delete az)) (\<lambda>(found, err). go_ret (\<not> found, None))) obj s0 = (Returns err, s')"
    using assms(2) by (simp add: DeleteAsync_def sub go_simps)
  from with_backoff_result [OF assms(1) this] obtain t1 s2 obj' x
    where c: "go_bind (on_obj (async_Delete az)) (\<lambda>(found, err). go_ret (\<not> found, None)) t1 = (Returns x, (s2, obj'))"
      and err: "err = backoff_result x" and last: "s' = s2 \<or> x = (False, None) \<and> sleep s2 s'" by blast
  from c obtain dn e where "async_Delete az (snd t1) (fst t1) = (Returns (obj', dn, e), s2)" "x = (\<not> dn, None)"
    by (auto simp: go_returns)
  moreover from this err have "err = (if \<not> dn then None else Some WaitTimeout)" "s' = s2 \<or> dn \<and> sleep s2 s'"
    using last by (auto simp: backoff_result_def)
  ultimately show ?thesis by blast
qed

lemma DeleteAsync_error_ignored:
  assumes "backoff_ok sleep EB"
    and sub: "async_ForSubscription az obj s = (Returns None, s0)"
    and del: "async_Delete az obj s0 = (Returns (obj', False, err), s')"
  shows "DeleteAsync L EB az obj s = (Returns None, s')"
proof -
  have "go_bind (on_obj (async_Delete az)) (\<lambda>(found, err). go_ret (\<not> found, None)) (s0, obj) =
      (Returns (True, None), (s', obj'))"
    using del by (simp add: go_simps on_obj_def)
  from with_backoff_first [where cond = "go_bind (on_obj (async_Delete az)) (\<lambda>(found, err). go_ret (\<not> found, None))",
      OF assms(1) this] show ?thesis
    by (simp add: DeleteAsync_def sub go_simps)
qed

text \<open>Against a client that keeps its contract, success means an error-free \<open>Ensure\<close> of an
  object that differs from the one of the manifest in its status only.\<close>

context strict_async_client
begin

lemma EnsureAsync_success:
  assumes "backoff_ok sleep EB" and "EnsureAsync L EB az obj s = (Returns None, s')"
  shows "\<exists>s1 obj1 obj2. clear_status obj1 = clear_status obj \<and> async_Ensure az obj1 s1 = (Returns (obj2, True, None), s')"
proof -
  obtain s0 where sub: "async_ForSubscription az obj s = (Returns None, s0)"
    and run: "with_backoff EB (go_bind (on_obj (async_Ensure az)) (\<lambda>(done, err). go_ret (done, None))) obj s0 =
      (Returns None, s')"
    using assms(2) by (auto simp: EnsureAsync_def go_returns split: option.splits)
  from with_backoff_end [OF assms(1) run, of "\<lambda>o'. clear_status o' = clear_status obj"]
  obtain t1 obj2 dn e where keep: "clear_status (snd t1) = clear_status obj"
    and ens: "async_Ensure az (snd t1) (fst t1) = (Returns (obj2, dn, e), s')" and dn: "dn"
    by (fastforce simp: go_returns backoff_result_def dest: ensure_keeps split: if_splits)
  from ens dn have "e = None" by (auto dest: ensure_done)
  with keep ens dn show ?thesis by auto
qed

end

text \<open>A traffic manager is done when its profile is online or disabled.\<close>

lemma EnsureTrafficManager_done:
  assumes "backoff_ok sleep EB" and "EnsureTrafficManager L EB az (ObjTrafficManager x) s = (Returns None, s')"
  shows "\<exists>s1 y status. tmc_GetProfileStatus az y s1 = (Returns (status, None), s') \<and>
    (status = ''Online'' \<or> status = ''Disabled'')"
proof -
  obtain s0 cond where run: "with_backoff EB cond (ObjTrafficManager x) s0 = (Returns None, s')"
    and cond: "cond = go_bind (on_tm (tmc_Ensure az)) (\<lambda>(_, err). case err of
        Some e \<Rightarrow> go_ret (False, Some (errors_Wrap L e ''failed to reconcile''))
      | None \<Rightarrow>
      go_bind (on_tm (\<lambda>local. go_bind (tmc_GetProfileStatus az local) (\<lambda>x. go_ret (local, x)))) (\<lambda>(status, err).
        case err of
          Some e \<Rightarrow> go_ret (False, Some (errors_Wrap L e ''failed to get monitor status''))
        | None \<Rightarrow>
            if status = ''Online'' \<or> status = ''Disabled'' then go_ret (True, None)
            else go_ret (False, None)))"
    using assms(2) by (auto simp: EnsureTrafficManager_def go_returns split: option.splits)
  from with_backoff_result [OF assms(1) run] obtain t1 obj' x'
    where "cond t1 = (Returns x', (s', obj'))" "backoff_result x' = None" by (auto simp: backoff_result_def)
  then show ?thesis
    unfolding cond
    by (fastforce simp: go_returns on_tm_def backoff_result_def split: option.splits if_splits runtime_object.splits)
qed

subsection \<open>How often an operation is called\<close>

text \<open>\<open>calls\<close> counts in the state; each check calls the operation once.\<close>

lemma backs_off_calls:
  assumes "backs_off sleep cond n t r t'"
    and step: "\<And>t. calls (snd (cond t)) \<le> Suc (calls t)" "\<And>t1 t2. sleep t1 t2 \<Longrightarrow> calls t2 \<le> calls t1"
  shows "calls t' \<le> calls t + n"
  using assms(1)
proof (induction rule: backs_off.induct)
  case (stop s ok err s' n)
  then show ?case using step(1) [of s] by simp
next
  case (again s s1 s2 n r s')
  then show ?case using step(1) [of s] step(2) [of s1 s2] by simp
next
  case (timeout s s1 s' n)
  then show ?case using step(1) [of s] step(2) [of s1 s'] by auto
next
  case (panic s s' n)
  then show ?case using step(1) [of s] by simp
qed

lemma calls_on_obj:
  assumes "\<And>obj s. calls (snd (f obj s)) \<le> Suc (calls s)"
  shows "calls (fst (snd (go_bind (on_obj f) (\<lambda>x. go_ret (g x)) t))) \<le> Suc (calls (fst t))"
  using assms [of "snd t" "fst t"]
  by (auto simp: go_bind_def go_ret_def on_obj_def split: prod.split outcome.split)

lemma with_backoff_calls:
  assumes "backoff_ok sleep EB" and "\<And>t. calls (fst (snd (cond t))) \<le> Suc (calls (fst t))"
    and "\<And>s s'. sleep s s' \<Longrightarrow> calls s' \<le> calls s"
  shows "calls (snd (with_backoff EB cond obj s)) \<le> calls s + bo_Steps backoff"
proof -
  obtain r s' obj' where EB: "EB backoff cond (s, obj) = (r, (s', obj'))" by (cases "EB backoff cond (s, obj)") auto
  have "calls (fst (s', obj')) \<le> calls (fst (s, obj)) + Suc 29"
    by (rule backs_off_calls [OF backoff_okD [OF assms(1) EB], of "\<lambda>t. calls (fst t)"]) (use assms(2,3) in auto)
  moreover have "bo_Steps backoff = 30" by (simp add: backoff_def)
  ultimately show ?thesis by (simp add: with_backoff_def EB)
qed

lemma EnsureAsync_calls:
  assumes "backoff_ok sleep EB" and "\<And>obj s. calls (snd (async_Ensure az obj s)) \<le> Suc (calls s)"
    and "\<And>obj s. calls (snd (async_ForSubscription az obj s)) = calls s"
    and "\<And>s s'. sleep s s' \<Longrightarrow> calls s' \<le> calls s"
  shows "calls (snd (EnsureAsync L EB az obj s)) \<le> calls s + bo_Steps backoff"
proof -
  let ?cond = "go_bind (on_obj (async_Ensure az)) (\<lambda>(done, err). go_ret (done, None :: go_error option))"
  have cond: "calls (fst (snd (?cond t))) \<le> Suc (calls (fst t))" for t
    using calls_on_obj [of calls "async_Ensure az" "\<lambda>x. (fst x, None)" t, OF assms(2)] by (simp add: case_prod_unfold)
  obtain r s0 where sub: "async_ForSubscription az obj s = (r, s0)" "calls s0 = calls s"
    using assms(3) [of obj s] by (cases "async_ForSubscription az obj s") simp
  have "calls (snd (with_backoff EB ?cond obj s0)) \<le> calls s + bo_Steps backoff"
    using with_backoff_calls [OF assms(1) cond assms(4), of obj s0] sub(2) by simp
  then show ?thesis
    by (cases r) (auto simp: EnsureAsync_def go_bind_apply [of "async_ForSubscription az obj"] go_ret_apply sub
        split: option.split)
qed

end
