(* ===== verification/Manifests.thy ===== *)
theory Manifests
imports Api_Types
begin

section \<open>Reading manifests (pkg/decoder, EnsureOptions.Read of cmd/ensure)\<close>

text \<open>
  The decoder that splits its input into documents and decodes the ones that are not blank, and
  the loop that reads all objects of a file.
\<close>

subsection \<open>The decoder\<close>

text \<open>
  \<open>yaml.YAMLReader\<close> on an input that ends: the documents it will still answer, and the error
  it answers after them (\<open>io.EOF\<close>, or a failed read).  \<open>decode_doc\<close> below is the universal
  deserializer of apimachinery.
\<close>

record yaml_reader =
  yr_docs :: "string list"
  yr_end :: go_error

type_synonym decode_doc = "string \<Rightarrow> runtime_object \<times> go_error option"

text \<open>
  \<open>len(bytes.TrimSpace(doc)) == 0\<close>: the bytes are the UTF-8 text of white space as \<open>unicode.IsSpace\<close>
  has it, which takes one byte (the ASCII white space), two (U+0085, U+00A0) or three (U+1680,
  U+2000 to U+200A, U+2028, U+2029, U+202F, U+205F, U+3000).
\<close>

definition space1 :: "nat \<Rightarrow> bool" where
  "space1 a \<longleftrightarrow> a \<in> {9, 10, 11, 12, 13, 32}"

definition space2 :: "nat \<Rightarrow> nat \<Rightarrow> bool" where
  "space2 a b \<longleftrightarrow> a = 194 \<and> b \<in> {133, 160}"

definition space3 :: "nat \<Rightarrow> nat \<Rightarrow> nat \<Rightarrow> bool" where
  "space3 a b c \<longleftrightarrow>
     a = 225 \<and> b = 154 \<and> c = 128 \<or>
     a = 226 \<and> b = 128 \<and> (128 \<le> c \<and> c \<le> 138 \<or> c \<in> {168, 169, 175}) \<or>
     a = 226 \<and> b = 129 \<and> c = 159 \<or>
     a = 227 \<and> b = 128 \<and> c = 128"

fun blank_bytes :: "nat list \<Rightarrow> bool" where
  "blank_bytes [] = True"
| "blank_bytes [a] = space1 a"
| "blank_bytes [a, b] = (if space1 a then blank_bytes [b] else space2 a b)"
| "blank_bytes (a # b # c # rest) =
     (if space1 a then blank_bytes (b # c # rest)
      else if space2 a b then blank_bytes (c # rest)
      else space3 a b c \<and> blank_bytes rest)"

definition blank :: "string \<Rightarrow> bool" where
  "blank doc \<longleftrightarrow> blank_bytes (map of_char doc)"

text \<open>The object is \<open>None\<close> where the code answers nil.\<close>

fun Decode_loop ::
  "decode_doc \<Rightarrow> string list \<Rightarrow> go_error \<Rightarrow> (runtime_object option \<times> go_error option) \<times> string list" where
  "Decode_loop dec [] end_err = ((None, Some end_err), [])"
| "Decode_loop dec (doc # docs) end_err =
     (if blank doc then Decode_loop dec docs end_err
      else (case dec doc of (obj, err) \<Rightarrow> ((Some obj, err), docs)))"

definition Decode :: "decode_doc \<Rightarrow> yaml_reader \<Rightarrow> (runtime_object option \<times> go_error option) \<times> yaml_reader" where
  "Decode dec d =
     (case Decode_loop dec (yr_docs d) (yr_end d) of (res, docs) \<Rightarrow> (res, d\<lparr>yr_docs := docs\<rparr>))"

lemma Decode_loop_consumes:
  "Decode_loop dec docs e = ((obj, None), docs') \<Longrightarrow> length docs' < length docs"
  by (induction docs) (fastforce split: if_splits prod.splits)+

lemma Decode_consumes:
  "Decode dec d = ((obj, None), d') \<Longrightarrow> length (yr_docs d') < length (yr_docs d)"
  by (auto simp: Decode_def dest: Decode_loop_consumes split: prod.splits)

text \<open>
  The decoder \<open>Read\<close> creates holds the reader, the deserializer of the scheme and the \<open>Close\<close>
  method of the file below it, which acts on the world.
\<close>

record 'w yaml_decoder =
  yd_reader :: yaml_reader
  yd_decoder :: decode_doc
  yd_close :: "('w, go_error option) go"

definition NewYAMLDecoder ::
  "decode_doc \<Rightarrow> yaml_reader \<times> ('w, go_error option) go \<Rightarrow> 'w yaml_decoder" where
  "NewYAMLDecoder dec r = \<lparr>yd_reader = fst r, yd_decoder = dec, yd_close = snd r\<rparr>"

definition Close_decoder :: "'w yaml_decoder \<Rightarrow> ('w, go_error option) go" where
  "Close_decoder d = yd_close d"

subsection \<open>The loop of Read\<close>

text \<open>
  The test for unregistered kinds comes after the return for any other error and is never
  reached with an error.
\<close>

function read_objects ::
  "decode_doc \<Rightarrow> yaml_reader \<Rightarrow> runtime_object list \<Rightarrow> go_error + runtime_object list" where
  "read_objects dec d objects =
     (case Decode dec d of
        ((obj, err), d') \<Rightarrow>
          (case err of
             Some e \<Rightarrow> if e = EndOfFile then Inr objects else Inl e
           | None \<Rightarrow> read_objects dec d' (objects @ [the obj])))"
  by auto

termination
  by (relation "measure (\<lambda>(dec, d, objects). length (yr_docs d))") (auto dest: Decode_consumes [OF sym])

declare read_objects.simps [simp del]

text \<open>The deferred \<open>Close\<close> runs on every return, and its error is dropped.\<close>

definition read_and_close :: "'w yaml_decoder \<Rightarrow> ('w, go_error + runtime_object list) go" where
  "read_and_close d =
     (let res = read_objects (yd_decoder d) (yd_reader d) []
      in go_bind (Close_decoder d) (\<lambda>_. go_ret res))"

text \<open>
  As a function of the documents: the objects of the documents that are not blank, up to the
  first that does not decode, which discards everything.
\<close>

fun decode_all :: "decode_doc \<Rightarrow> string list \<Rightarrow> go_error + runtime_object list" where
  "decode_all dec [] = Inr []"
| "decode_all dec (doc # docs) =
     (case dec doc of
        (obj, Some e) \<Rightarrow> if e = EndOfFile then Inr [] else Inl e
      | (obj, None) \<Rightarrow> map_sum id ((#) obj) (decode_all dec docs))"

text \<open>One round, on an input that ends in \<open>io.EOF\<close>.\<close>

abbreviation reader_of :: "string list \<Rightarrow> yaml_reader" where
  "reader_of docs \<equiv> \<lparr>yr_docs = docs, yr_end = EndOfFile\<rparr>"

lemma read_objects_step:
  "read_objects dec (reader_of []) objects = Inr objects"
  "read_objects dec (reader_of (doc # docs)) objects =
     (if blank doc then read_objects dec (reader_of docs) objects
      else case dec doc of
             (obj, Some e) \<Rightarrow> if e = EndOfFile then Inr objects else Inl e
           | (obj, None) \<Rightarrow> read_objects dec (reader_of docs) (objects @ [obj]))"
proof -
  show "read_objects dec (reader_of []) objects = Inr objects"
    by (subst read_objects.simps) (simp add: Decode_def)
  have skip: "Decode dec (reader_of (doc # docs)) = Decode dec (reader_of docs)" if "blank doc"
    using that by (simp add: Decode_def)
  have take: "Decode dec (reader_of (doc # docs)) = ((Some (fst (dec doc)), snd (dec doc)), reader_of docs)"
    if "\<not> blank doc"
    using that by (simp add: Decode_def split: prod.split)
  show "read_objects dec (reader_of (doc # docs)) objects =
     (if blank doc then read_objects dec (reader_of docs) objects
      else case dec doc of
             (obj, Some e) \<Rightarrow> if e = EndOfFile then Inr objects else Inl e
           | (obj, None) \<Rightarrow> read_objects dec (reader_of docs) (objects @ [obj]))"
  proof (cases "blank doc")
    case True
    then show ?thesis
      by (subst (1 2) read_objects.simps) (simp only: skip if_True)
  next
    case False
    then show ?thesis
      by (subst read_objects.simps) (simp add: take split: prod.split option.split)
  qed
qed

lemma read_objects_eq:
  "read_objects dec (reader_of docs) objects =
     map_sum id ((@) objects) (decode_all dec (filter (\<lambda>d. \<not> blank d) docs))"
proof (induction docs arbitrary: objects)
  case (Cons doc docs)
  then show ?case
    by (simp add: read_objects_step sum.map_comp comp_def split: prod.split option.split)
qed (simp add: read_objects_step)

end
