(* ===== verification/Nics.thy ===== *)
theory Nics imports Mgmt_Clients Decimals begin

section \<open>Network interfaces (pkg/clients/nics)\<close>

text \<open>
  An asynchronous client that creates an interface and never changes an existing one.
\<close>

record nic_ipconfig =
  nip_Name :: "string option"
  nip_Primary :: "bool option"
  nip_Subnet_ID :: "string option"
  nip_PrivateIPAllocationMethod :: string
  nip_PrivateIPAddress :: "string option"
  nip_PublicIPAddress_ID :: "string option"
  nip_LoadBalancerBackendAddressPools :: "string list option"

record nic_properties =
  nicp_ProvisioningState :: "string option"
  nicp_IPConfigurations :: "nic_ipconfig list option"

record nic_resource =
  nicr_Response :: http_response
  nicr_ID :: "string option"
  nicr_Location :: "string option"
  nicr_Properties :: "nic_properties option"

definition zero_nic :: nic_resource where
  "zero_nic = \<lparr>nicr_Response = None, nicr_ID = None, nicr_Location = None, nicr_Properties = None\<rparr>"

record 'w nic_sdk =
  nic_sdk_Get :: "sdk_client \<Rightarrow> string \<Rightarrow> string \<Rightarrow> string \<Rightarrow> ('w, nic_resource \<times> go_error option) go"
  nic_sdk_CreateOrUpdate :: "sdk_client \<Rightarrow> string \<Rightarrow> string \<Rightarrow> nic_resource \<Rightarrow> ('w, go_error option) go"
  nic_sdk_Delete :: "sdk_client \<Rightarrow> string \<Rightarrow> string \<Rightarrow> ('w, http_response \<times> go_error option) go"

subsection \<open>The wanted interface\<close>

definition nic_pool_ID :: "BackendPoolReference \<Rightarrow> string" where
  "nic_pool_ID lbConfig =
     ''/subscriptions/'' @ bpr_SubscriptionID lbConfig @ ''/resourceGroups/'' @ bpr_ResourceGroup lbConfig @
     ''/providers/Microsoft.LoadBalancers/'' @ bpr_LoadBalancer lbConfig @ ''/backendAddressPools/'' @ bpr_Name lbConfig"

definition buildIPConfig :: "string \<Rightarrow> string \<Rightarrow> string \<Rightarrow> InterfaceIPConfig \<Rightarrow> nic_ipconfig" where
  "buildIPConfig name subnet baseTemplate interfaceConfig =
     (let innerSpec = \<lparr>nip_Name = Some name, nip_Primary = None, nip_Subnet_ID = Some subnet,
            nip_PrivateIPAllocationMethod = ''Dynamic'', nip_PrivateIPAddress = None,
            nip_PublicIPAddress_ID = None, nip_LoadBalancerBackendAddressPools = None\<rparr>;
          innerSpec = (case iic_PublicIP interfaceConfig of
              None \<Rightarrow> innerSpec
            | Some ip \<Rightarrow> innerSpec\<lparr>nip_PublicIPAddress_ID :=
                Some (baseTemplate @ ''/providers/Microsoft.Network/publicIPAddresses/'' @ rr_Name ip)\<rparr>);
          innerSpec = (case iic_PrivateIP interfaceConfig of
              None \<Rightarrow> innerSpec
            | Some ip \<Rightarrow> innerSpec\<lparr>nip_PrivateIPAllocationMethod := ''static'', nip_PrivateIPAddress := Some ip\<rparr>);
          innerSpec = (case iic_LoadBalancers interfaceConfig of
              None \<Rightarrow> innerSpec
            | Some lbs \<Rightarrow> innerSpec\<lparr>nip_LoadBalancerBackendAddressPools := Some (map nic_pool_ID lbs)\<rparr>)
      in innerSpec)"

fun nic_build_all :: "string \<Rightarrow> string \<Rightarrow> nat \<Rightarrow> InterfaceIPConfig list \<Rightarrow> nic_ipconfig list" where
  "nic_build_all subnet baseTemplate index [] = []"
| "nic_build_all subnet baseTemplate index (config # configs) =
     buildIPConfig (''ipConfig'' @ decimal (int index)) subnet baseTemplate config #
     nic_build_all subnet baseTemplate (index + 1) configs"

definition nic_baseTemplate :: "NetworkInterface \<Rightarrow> string" where
  "nic_baseTemplate local =
     ''/subscriptions/'' @ nis_SubscriptionID (Spec local) @ ''/resourceGroups/'' @ nis_ResourceGroup (Spec local)"

definition nic_subnet :: "NetworkInterface \<Rightarrow> string" where
  "nic_subnet local =
     nic_baseTemplate local @ ''/providers/Microsoft.Network/virtualnetworks/'' @ nis_Network (Spec local) @
     ''/subnets/'' @ nis_Subnet (Spec local)"

text \<open>
  The list \<open>ipConfigs\<close> with the default configuration is only put into the spec after it was
  cleared and filled from the object; without \<open>IPConfigurations\<close> the spec has no properties.
\<close>

definition nic_wanted :: "NetworkInterface \<Rightarrow> go_error + nic_resource" where
  "nic_wanted local =
     (let spec = zero_nic\<lparr>nicr_Location := Some (nis_Location (Spec local))\<rparr> in
      case nis_IPConfigurations (Spec local) of
        None \<Rightarrow> Inr spec
      | Some configs \<Rightarrow>
          if length configs < 1 then Inl (ErrorText ''must have at least one IP configuration'')
          else
            let ipConfigs = nic_build_all (nic_subnet local) (nic_baseTemplate local) 0 configs;
                ipConfigs = ipConfigs[0 := (ipConfigs ! 0)\<lparr>nip_Primary := Some True\<rparr>]
            in Inr (spec\<lparr>nicr_Properties := Some \<lparr>nicp_ProvisioningState = None, nicp_IPConfigurations = Some ipConfigs\<rparr>\<rparr>))"

subsection \<open>The client\<close>

definition nic_NewWithFactory :: "config \<Rightarrow> (string \<Rightarrow> sdk_client) \<Rightarrow> mgmt_client" where
  "nic_NewWithFactory configuration factory = new_mgmt_client configuration factory"

definition nic_convert :: "runtime_object \<Rightarrow> go_error + NetworkInterface" where
  "nic_convert obj = (case obj of ObjNetworkInterface local \<Rightarrow> Inr local | _ \<Rightarrow> Inl (kind_error obj))"

definition nic_ForSubscription :: "auth_lib \<Rightarrow> mgmt_client \<Rightarrow> runtime_object \<Rightarrow> mgmt_client \<times> go_error option" where
  "nic_ForSubscription A c obj =
     (case nic_convert obj of
        Inl err \<Rightarrow> (c, Some err)
      | Inr local \<Rightarrow> authorize_for A c (nis_SubscriptionID (Spec local)))"

definition nic_SetStatus :: "NetworkInterface \<Rightarrow> nic_resource \<Rightarrow> NetworkInterface" where
  "nic_SetStatus local remote =
     (let st = (Status local)\<lparr>nist_ID := nicr_ID remote, nist_ProvisioningState := None\<rparr>;
          st = (case nicr_Properties remote of
                  None \<Rightarrow> st | Some p \<Rightarrow> st\<lparr>nist_ProvisioningState := nicp_ProvisioningState p\<rparr>)
      in local\<lparr>Status := st\<rparr>)"

definition nic_Done :: "NetworkInterface \<Rightarrow> bool" where
  "nic_Done local \<longleftrightarrow>
     (if nist_ProvisioningState (Status local) = None \<or> nist_ProvisioningState (Status local) \<noteq> Some ''Succeeded''
      then False else True)"

definition nic_Ensure ::
  "lib \<Rightarrow> 'w nic_sdk \<Rightarrow> mgmt_client \<Rightarrow> runtime_object \<Rightarrow> ('w, runtime_object \<times> bool \<times> go_error option) go" where
  "nic_Ensure L S c obj =
     (case nic_convert obj of
        Inl err \<Rightarrow> go_ret (obj, False, Some err)
      | Inr local \<Rightarrow>
     go_bind (nic_sdk_Get S (mc_internal c) (nis_ResourceGroup (Spec local)) (nis_Name (Spec local)) '''') (\<lambda>(remote, err).
       let found = (\<not> IsHTTPStatus L (nicr_Response remote) StatusNotFound);
           local = nic_SetStatus local remote
       in
       if err \<noteq> None \<and> found then go_ret (ObjNetworkInterface local, False, err)
       else if found then
         (if nic_Done local then go_ret (ObjNetworkInterface local, True, None)
          else go_ret (ObjNetworkInterface local, False, None))
       else
     (case nic_wanted local of
        Inl err \<Rightarrow> go_ret (ObjNetworkInterface local, False, Some err)
      | Inr spec \<Rightarrow>
     go_bind (nic_sdk_CreateOrUpdate S (mc_internal c) (nis_ResourceGroup (Spec local)) (nis_Name (Spec local)) spec) (\<lambda>err.
       if err \<noteq> None then go_ret (ObjNetworkInterface local, False, err)
       else go_ret (ObjNetworkInterface local, False, None)))))"

definition nic_Get ::
  "'w nic_sdk \<Rightarrow> mgmt_client \<Rightarrow> runtime_object \<Rightarrow> ('w, nic_resource \<times> go_error option) go" where
  "nic_Get S c obj =
     (case nic_convert obj of
        Inl err \<Rightarrow> go_ret (zero_nic, Some err)
      | Inr local \<Rightarrow> nic_sdk_Get S (mc_internal c) (nis_ResourceGroup (Spec local)) (nis_Name (Spec local)) '''')"

definition nic_Delete ::
  "lib \<Rightarrow> 'w nic_sdk \<Rightarrow> mgmt_client \<Rightarrow> runtime_object \<Rightarrow> ('w, runtime_object \<times> bool \<times> go_error option) go" where
  "nic_Delete L S c obj =
     (case nic_convert obj of
        Inl err \<Rightarrow> go_ret (obj, False, Some err)
      | Inr local \<Rightarrow>
     go_bind (nic_sdk_Delete S (mc_internal c) (nis_ResourceGroup (Spec local)) (nis_Name (Spec local))) (\<lambda>(resp, err).
       if err \<noteq> None \<and> resp \<noteq> None \<and> resp \<noteq> Some StatusNotFound then go_ret (obj, False, err)
       else
     go_bind (nic_sdk_Get S (mc_internal c) (nis_ResourceGroup (Spec local)) (nis_Name (Spec local)) '''') (\<lambda>(remote, err).
       let found = (\<not> IsHTTPStatus L (nicr_Response remote) StatusNotFound);
           local = nic_SetStatus local remote
       in
       if err \<noteq> None \<and> IsHTTPStatus L (nicr_Response remote) StatusNotFound
       then go_ret (ObjNetworkInterface local, False, None)
       else go_ret (ObjNetworkInterface local, found, err))))"

definition nic_client :: "lib \<Rightarrow> auth_lib \<Rightarrow> 'w nic_sdk \<Rightarrow> (mgmt_client \<times> 'w) AsyncClient" where
  "nic_client L A S = \<lparr>
     async_ForSubscription = (\<lambda>obj. on_self (\<lambda>c. nic_ForSubscription A c obj)),
     async_Ensure = (\<lambda>obj. on_world (\<lambda>c. nic_Ensure L S c obj)),
     async_Delete = (\<lambda>obj. on_world (\<lambda>c. nic_Delete L S c obj))\<rparr>"

subsection \<open>Lemmas\<close>

lemma nic_convert_Inr [simp]: "nic_convert obj = Inr local \<longleftrightarrow> obj = ObjNetworkInterface local"
  by (cases obj) (simp_all add: nic_convert_def)

lemma nic_convert_Inl [simp]: "nic_convert obj = Inl err \<longleftrightarrow> kind_of obj \<noteq> KNetworkInterface \<and> err = kind_error obj"
  by (cases obj) (auto simp: nic_convert_def)

lemma nic_SetStatus_keeps [simp]:
  "(nic_SetStatus local remote)\<lparr>Status := st\<rparr> = local\<lparr>Status := st\<rparr>"
  "Spec (nic_SetStatus local remote) = Spec local" "ObjectMeta (nic_SetStatus local remote) = ObjectMeta local"
  by (simp_all add: nic_SetStatus_def Let_def split: option.split)

lemmas nic_defs = nic_Ensure_def nic_Delete_def Let_def

lemma nic_Ensure_Returns:
  assumes "nic_Ensure L S c obj w = (Returns (obj', done, err), w')"
  shows "clear_status obj' = clear_status obj" and "done \<Longrightarrow> err = None"
  using assms
  by (auto simp: nic_defs go_returns early_return_Returns split: prod.splits if_splits)

lemma nic_Delete_Returns:
  assumes "nic_Delete L S c obj w = (Returns (obj', found, err), w')"
  shows "clear_status obj' = clear_status obj"
  using assms
  by (auto simp: nic_defs go_returns split: sum.splits prod.splits if_splits)

interpretation nic: strict_async_client "nic_client L A S" "\<lambda>obj. kind_of obj = KNetworkInterface"
  for L :: lib and A :: auth_lib and S :: "'w nic_sdk"
proof unfold_locales
  show "\<exists>err. async_ForSubscription (nic_client L A S) obj = go_ret (Some err)"
    if "kind_of obj \<noteq> KNetworkInterface" for obj
    using that
    by (auto simp: nic_client_def on_self_def nic_ForSubscription_def go_ret_def fun_eq_iff split: sum.splits)
qed (auto simp: nic_client_def go_returns dest: nic_Ensure_Returns nic_Delete_Returns)

text \<open>The configurations: one per entry of the object, and exactly the first is primary.\<close>

lemma length_nic_build_all [simp]: "length (nic_build_all subnet base i configs) = length configs"
  by (induction configs arbitrary: i) simp_all

lemma nic_build_all_nth:
  "k < length configs \<Longrightarrow>
   nic_build_all subnet base i configs ! k = buildIPConfig (''ipConfig'' @ decimal (int (i + k))) subnet base (configs ! k)"
  by (induction configs arbitrary: i k) (auto simp: nth_Cons algebra_simps split: nat.splits)

lemma buildIPConfig_fields [simp]:
  "nip_Primary (buildIPConfig name subnet base cfg) = None"
  "nip_Name (buildIPConfig name subnet base cfg) = Some name"
  "nip_Subnet_ID (buildIPConfig name subnet base cfg) = Some subnet"
  by (simp_all add: buildIPConfig_def Let_def split: option.splits)

lemma nic_wanted_configs:
  assumes "nis_IPConfigurations (Spec x) = Some configs" "nic_wanted x = Inr spec"
  shows "\<exists>p ips. nicr_Properties spec = Some p \<and> nicp_IPConfigurations p = Some ips \<and> length ips = length configs \<and>
    (\<forall>k < length ips. nip_Name (ips ! k) = Some (''ipConfig'' @ decimal (int k)) \<and> nip_Subnet_ID (ips ! k) = Some (nic_subnet x) \<and>
       (nip_Primary (ips ! k) = Some True \<longleftrightarrow> k = 0))"
  using assms
  by (auto simp: nic_wanted_def Let_def nth_list_update nic_build_all_nth split: if_splits)

text \<open>The names of the configurations are distinct.\<close>

lemma nic_config_names_distinct:
  assumes "nis_IPConfigurations (Spec x) = Some configs" "nic_wanted x = Inr spec"
    and "nicr_Properties spec = Some p" "nicp_IPConfigurations p = Some ips"
  shows "distinct (map nip_Name ips)"
  using nic_wanted_configs [OF assms(1,2)] assms(3,4)
  by (auto simp: distinct_conv_nth dest: decimal_inj)

text \<open>Without configurations nothing but the location is sent.\<close>

lemma nic_wanted_default:
  "nis_IPConfigurations (Spec x) = None \<Longrightarrow>
   nic_wanted x = Inr (zero_nic\<lparr>nicr_Location := Some (nis_Location (Spec x))\<rparr>)"
  by (simp add: nic_wanted_def)

text \<open>An existing interface is never written.\<close>

lemma nic_Ensure_existing:
  assumes "lib_ok L"
    and "nic_sdk_Get S (mc_internal c) (nis_ResourceGroup (Spec x)) (nis_Name (Spec x)) '''' w = (Returns (remote, None), w1)"
    and "nicr_Response remote \<noteq> Some StatusNotFound"
  shows "nic_Ensure L S c (ObjNetworkInterface x) w =
    (Returns (ObjNetworkInterface (nic_SetStatus x remote), nic_Done (nic_SetStatus x remote), None), w1)"
  using assms by (simp add: nic_Ensure_def nic_convert_def lib_okD Let_def go_bind_apply go_simps)

definition nic_sdk_ok :: "'w nic_sdk \<Rightarrow> (string option \<Rightarrow> string \<times> string \<Rightarrow> 'w \<Rightarrow> bool) \<Rightarrow> bool" where
  "nic_sdk_ok S ex \<longleftrightarrow>
     (\<forall>cl rg name expand. triple (\<lambda>_. True) (nic_sdk_Get S cl rg name expand)
        (\<lambda>(v, err) w. nicr_Response v = Some StatusNotFound \<longrightarrow> \<not> ex (sdk_Subscription cl) (rg, name) w) (\<lambda>_. True))"

definition is_nic :: "string \<Rightarrow> string \<times> string \<Rightarrow> runtime_object \<Rightarrow> bool" where
  "is_nic sub key obj =
     (case obj of ObjNetworkInterface x \<Rightarrow>
        nis_SubscriptionID (Spec x) = sub \<and> (nis_ResourceGroup (Spec x), nis_Name (Spec x)) = key | _ \<Rightarrow> False)"

lemma nic_Delete_gone:
  assumes "lib_ok L" "nic_sdk_ok S ex"
    and "nic_Delete L S c (ObjNetworkInterface x) w = (Returns (obj', False, None), w')"
  shows "\<not> ex (sdk_Subscription (mc_internal c)) (nis_ResourceGroup (Spec x), nis_Name (Spec x)) w'"
proof -
  from assms(1,3) obtain w1 v err where
    get: "nic_sdk_Get S (mc_internal c) (nis_ResourceGroup (Spec x)) (nis_Name (Spec x)) '''' w1 = (Returns (v, err), w')"
    and nf: "nicr_Response v = Some StatusNotFound"
    by (auto simp: nic_defs nic_convert_def go_returns lib_okD(1) split: if_splits prod.splits)
  from assms(2) have "triple (\<lambda>_. True) (nic_sdk_Get S (mc_internal c) (nis_ResourceGroup (Spec x)) (nis_Name (Spec x)) '''')
     (\<lambda>(v, err) w. nicr_Response v = Some StatusNotFound \<longrightarrow>
        \<not> ex (sdk_Subscription (mc_internal c)) (nis_ResourceGroup (Spec x), nis_Name (Spec x)) w) (\<lambda>_. True)"
    unfolding nic_sdk_ok_def by blast
  from tripleD_Returns [OF this _ get] nf show ?thesis by simp
qed

lemma nic_azure_ok:
  assumes L: "lib_ok L" and S: "nic_sdk_ok S ex"
  shows "azure_ok (is_nic sub key) (subscribed_to sub) (nic_client L A S) (\<lambda>_. True) (exists_for ex sub key)"
  by (rule mgmt_azure_ok)
    (auto simp: is_nic_def nic_client_def nic_ForSubscription_def nic_convert_def on_self_def go_returns
      split: runtime_object.splits dest: nic_Delete_gone [OF L S])

end
