(* ===== verification/Disks.thy ===== *)
theory Disks
imports Mgmt_Clients
begin

section \<open>Disks of machines (pkg/clients/disks)\<close>

text \<open>The asynchronous client for the disk of a machine: it only deletes.\<close>

text \<open>Of a disk only the response is read.\<close>

record 'w disks_sdk =
  dk_sdk_Get :: "sdk_client \<Rightarrow> string \<Rightarrow> string \<Rightarrow> ('w, http_response \<times> go_error option) go"
  dk_sdk_Delete :: "sdk_client \<Rightarrow> string \<Rightarrow> string \<Rightarrow> ('w, http_response \<times> go_error option) go"

definition dk_NewWithFactory :: "config \<Rightarrow> (string \<Rightarrow> sdk_client) \<Rightarrow> mgmt_client" where
  "dk_NewWithFactory configuration factory = new_mgmt_client configuration factory"

text \<open>\<open>New\<close> passes the function of the SDK that makes a client for a subscription.\<close>

definition dk_New :: "(string \<Rightarrow> sdk_client) \<Rightarrow> config \<Rightarrow> mgmt_client" where
  [simp]: "dk_New NewDisksClient configuration = dk_NewWithFactory configuration NewDisksClient"

definition dk_convert :: "runtime_object \<Rightarrow> go_error + VM" where
  "dk_convert obj = (case obj of ObjVM local \<Rightarrow> Inr local | _ \<Rightarrow> Inl (kind_error obj))"

definition dk_ForSubscription :: "auth_lib \<Rightarrow> mgmt_client \<Rightarrow> runtime_object \<Rightarrow> mgmt_client \<times> go_error option" where
  "dk_ForSubscription A c obj =
     (case dk_convert obj of
        Inl err \<Rightarrow> (c, Some err)
      | Inr local \<Rightarrow> authorize_for A c (vms_SubscriptionID (Spec local)))"

definition dk_Ensure :: "runtime_object \<Rightarrow> ('w, runtime_object \<times> bool \<times> go_error option) go" where
  "dk_Ensure obj =
     (case dk_convert obj of
        Inl err \<Rightarrow> go_ret (obj, False, Some err)
      | Inr _ \<Rightarrow> go_ret (obj, False, Some (ErrorText ''not implemented'')))"

definition dk_name :: "VM \<Rightarrow> string" where
  "dk_name local =
     vms_SubscriptionID (Spec local) @ ''_'' @ vms_ResourceGroup (Spec local) @ ''_'' @ vms_Name (Spec local) @ ''_osdisk''"

definition dk_Delete ::
  "lib \<Rightarrow> 'w disks_sdk \<Rightarrow> mgmt_client \<Rightarrow> runtime_object \<Rightarrow> ('w, runtime_object \<times> bool \<times> go_error option) go" where
  "dk_Delete L S c obj =
     (case dk_convert obj of
        Inl err \<Rightarrow> go_ret (obj, False, Some err)
      | Inr local \<Rightarrow>
     go_bind (dk_sdk_Delete S (mc_internal c) (vms_ResourceGroup (Spec local)) (dk_name local)) (\<lambda>(resp, err).
       if err \<noteq> None \<and> resp \<noteq> None \<and> resp \<noteq> Some StatusNotFound then go_ret (obj, False, err)
       else
     go_bind (dk_sdk_Get S (mc_internal c) (vms_ResourceGroup (Spec local)) (vms_Name (Spec local))) (\<lambda>(remote, err).
       let found = (\<not> IsHTTPStatus L remote StatusNotFound) in
       if err \<noteq> None \<and> \<not> found then go_ret (obj, False, None)
       else go_ret (obj, found, err))))"

definition dk_client :: "lib \<Rightarrow> auth_lib \<Rightarrow> 'w disks_sdk \<Rightarrow> (mgmt_client \<times> 'w) AsyncClient" where
  "dk_client L A S = \<lparr>
     async_ForSubscription = (\<lambda>obj. on_self (\<lambda>c. dk_ForSubscription A c obj)),
     async_Ensure = (\<lambda>obj. on_world (\<lambda>c. dk_Ensure obj)),
     async_Delete = (\<lambda>obj. on_world (\<lambda>c. dk_Delete L S c obj))\<rparr>"

subsection \<open>Lemmas\<close>

lemma dk_convert_Inr [simp]: "dk_convert obj = Inr local \<longleftrightarrow> obj = ObjVM local"
  by (cases obj) (simp_all add: dk_convert_def)

lemma dk_convert_Inl [simp]: "dk_convert obj = Inl err \<longleftrightarrow> kind_of obj \<noteq> KVM \<and> err = kind_error obj"
  by (cases obj) (auto simp: dk_convert_def)

text \<open>No operation changes the object.\<close>

lemma dk_Ensure_Returns:
  "dk_Ensure obj w = (Returns (obj', done, err), w') \<Longrightarrow> obj' = obj \<and> \<not> done \<and> err \<noteq> None \<and> w' = w"
  by (auto simp: dk_Ensure_def go_returns split: sum.splits)

lemma dk_Delete_Returns:
  "dk_Delete L S c obj w = (Returns (obj', found, err), w') \<Longrightarrow> obj' = obj"
  by (auto simp: dk_Delete_def Let_def go_returns split: sum.splits prod.splits if_splits)

interpretation dk: strict_async_client "dk_client L A S" "\<lambda>obj. kind_of obj = KVM"
  for L :: lib and A :: auth_lib and S :: "'w disks_sdk"
proof unfold_locales
  show "\<exists>err. async_ForSubscription (dk_client L A S) obj = go_ret (Some err)" if "kind_of obj \<noteq> KVM" for obj
    using that
    by (auto simp: dk_client_def on_self_def dk_ForSubscription_def go_ret_def fun_eq_iff split: sum.splits)
qed (auto simp: dk_client_def go_returns dest: dk_Ensure_Returns dk_Delete_Returns)

text \<open>
  \<open>Delete\<close> asks Azure to delete the disk \<open>dk_name\<close> and then looks for a disk with the name of
  the machine: its answer says nothing about the disk it deleted.
\<close>

lemma dk_Delete_eq:
  assumes "lib_ok L"
    and "dk_sdk_Delete S (mc_internal c) (vms_ResourceGroup (Spec x)) (dk_name x) w = (Returns (resp, None), w1)"
    and "dk_sdk_Get S (mc_internal c) (vms_ResourceGroup (Spec x)) (vms_Name (Spec x)) w1 = (Returns (remote, err), w2)"
  shows "dk_Delete L S c (ObjVM x) w =
    (Returns (ObjVM x, remote \<noteq> Some StatusNotFound, if remote = Some StatusNotFound then None else err), w2)"
  using assms by (auto simp: dk_Delete_def dk_convert_def go_simps lib_okD Let_def)

lemma dk_name_differs: "dk_name x \<noteq> vms_Name (Spec x)"
proof
  assume "dk_name x = vms_Name (Spec x)"
  then have "length (dk_name x) = length (vms_Name (Spec x))" by simp
  then show False by (simp add: dk_name_def)
qed

end
