(* ===== verification/Zones.thy ===== *)
theory Zones
imports Mgmt_Clients "HOL-Library.List_Lexorder" "HOL-Library.Char_ord"
begin

section \<open>Availability zones (pkg/clients/zones)\<close>

text \<open>
  The client that looks up in which zones of a location a machine size can be deployed, by
  walking the list of all SKUs of the subscription.
\<close>

subsection \<open>The SDK\<close>

text \<open>\<open>rsr_Info\<close> is the pointer \<open>RestrictionInfo\<close>, whose only field read is \<open>Zones\<close>.\<close>

record sku_restriction =
  rsr_Type :: string
  rsr_Info :: "string list option option"

record sku_location_info =
  sli_Location :: "string option"
  sli_Zones :: "string list option"

record resource_sku =
  rsk_Name :: "string option"
  rsk_LocationInfo :: "sku_location_info list option"
  rsk_Restrictions :: "sku_restriction list option"

text \<open>
  \<open>ListComplete\<close> answers an iterator, which is the list of the SKUs it still has: \<open>NotDone\<close> says
  whether it is empty, \<open>Value\<close> is its head, and \<open>NextWithContext\<close> moves to the tail after an
  effect (it may fetch a page) that can fail.
\<close>

record 'w zones_sdk =
  zn_sdk_ListComplete :: "sdk_client \<Rightarrow> ('w, resource_sku list \<times> go_error option) go"
  zn_sdk_NextWithContext :: "sdk_client \<Rightarrow> ('w, go_error option) go"

subsection \<open>The client\<close>

definition zn_NewWithFactory :: "config \<Rightarrow> (string \<Rightarrow> sdk_client) \<Rightarrow> mgmt_client" where
  "zn_NewWithFactory configuration factory = new_mgmt_client configuration factory"

text \<open>\<open>New\<close> passes the function of the SDK that makes a client for a subscription.\<close>

definition zn_New :: "(string \<Rightarrow> sdk_client) \<Rightarrow> config \<Rightarrow> mgmt_client" where
  [simp]: "zn_New NewResourceSkusClient configuration = zn_NewWithFactory configuration NewResourceSkusClient"

text \<open>Nothing calls \<open>convert\<close>: \<open>Get\<close> takes the machine itself.\<close>

definition zn_convert :: "runtime_object \<Rightarrow> go_error + VM" where
  "zn_convert obj = (case obj of ObjVM local \<Rightarrow> Inr local | _ \<Rightarrow> Inl (kind_error obj))"

definition zn_ForSubscription :: "auth_lib \<Rightarrow> mgmt_client \<Rightarrow> string \<Rightarrow> mgmt_client \<times> go_error option" where
  "zn_ForSubscription A c subID = authorize_for A c subID"

text \<open>
  The map \<open>availableZones\<close> only has the value \<open>true\<close>: it is the set of its keys.  \<open>None\<close> is the
  early return for a location the subscription cannot use.
\<close>

fun zn_restrict :: "sku_restriction list \<Rightarrow> string set \<Rightarrow> ('w, string set option) go" where
  "zn_restrict [] availableZones = go_ret (Some availableZones)"
| "zn_restrict (restriction # restrictions) availableZones =
     (if rsr_Type restriction = ''Location'' then go_ret None
      else
        go_bind (go_deref (rsr_Info restriction)) (\<lambda>info.
        go_bind (go_deref info) (\<lambda>restrictedZones.
        zn_restrict restrictions (fold Set.remove restrictedZones availableZones))))"

text \<open>The rounds over the locations share one map; \<open>sort.Strings\<close> sorts its keys.\<close>

fun zn_locations ::
  "VM \<Rightarrow> resource_sku \<Rightarrow> sku_location_info list \<Rightarrow> string set \<Rightarrow> string list \<Rightarrow> ('w, string list option) go" where
  "zn_locations local resSku [] availableZones zones = go_ret (Some zones)"
| "zn_locations local resSku (locationInfo # infos) availableZones zones =
     go_bind (go_deref (sli_Zones locationInfo)) (\<lambda>here.
     go_bind (go_deref (sli_Location locationInfo)) (\<lambda>location.
       let availableZones = fold insert here availableZones in
       if EqualFold location (vms_Location (Spec local)) then
         go_bind (go_deref (rsk_Restrictions resSku)) (\<lambda>restrictions.
         go_bind (zn_restrict restrictions availableZones) (\<lambda>r.
         (case r of
            None \<Rightarrow> go_ret None
          | Some availableZones \<Rightarrow>
              zn_locations local resSku infos availableZones (sorted_list_of_set availableZones))))
       else zn_locations local resSku infos availableZones zones))"

definition zn_rejected :: "VM \<Rightarrow> go_error" where
  "zn_rejected local =
     ErrorText (''rejecting sku: '' @ vms_SKU (Spec local) @ '' in location: '' @ vms_Location (Spec local) @
       '' due to susbcription restriction'')"

fun zn_iterate ::
  "lib \<Rightarrow> ('w, go_error option) go \<Rightarrow> VM \<Rightarrow> resource_sku list \<Rightarrow> string list \<Rightarrow> ('w, string list \<times> go_error option) go" where
  "zn_iterate L next local [] zones = go_ret (zones, None)"
| "zn_iterate L next local (resSku # res) zones =
     go_bind (go_deref (rsk_Name resSku)) (\<lambda>name.
     go_bind (if EqualFold name (vms_SKU (Spec local)) then
                go_bind (go_deref (rsk_LocationInfo resSku)) (\<lambda>infos. zn_locations local resSku infos {} zones)
              else go_ret (Some zones)) (\<lambda>r.
     (case r of
        None \<Rightarrow> go_ret ([], Some (zn_rejected local))
      | Some zones \<Rightarrow>
          go_bind next (\<lambda>err.
          (case err of
             Some e \<Rightarrow> go_ret (zones, Some (errors_Wrap L e ''could not iterate availability zones''))
           | None \<Rightarrow> zn_iterate L next local res zones)))))"

definition zn_Get ::
  "lib \<Rightarrow> 'w zones_sdk \<Rightarrow> mgmt_client \<Rightarrow> VM \<Rightarrow> ('w, string list \<times> go_error option) go" where
  "zn_Get L S c local =
     go_bind (zn_sdk_ListComplete S (mc_internal c)) (\<lambda>(res, err).
       if err \<noteq> None then go_ret ([], err)
       else zn_iterate L (zn_sdk_NextWithContext S (mc_internal c)) local res [])"

subsection \<open>Lemmas\<close>

lemma fold_remove: "fold Set.remove zs A = A - set zs"
  by (induction zs arbitrary: A) auto

lemma fold_insert: "fold insert zs A = A \<union> set zs"
  by (induction zs arbitrary: A) auto

text \<open>Every answer is a sorted list without duplicates.\<close>

definition zone_list :: "string list \<Rightarrow> bool" where
  "zone_list zones \<longleftrightarrow> sorted zones \<and> distinct zones"

lemma zone_list_sorted_list_of_set [simp]: "zone_list (sorted_list_of_set A)" and zone_list_Nil [simp]: "zone_list []"
  by (simp_all add: zone_list_def)

lemma zn_locations_sorted:
  "zn_locations local resSku infos av zones w = (Returns (Some zones'), w') \<Longrightarrow> zone_list zones \<Longrightarrow> zone_list zones'"
  by (induction local resSku infos av zones arbitrary: w zones' rule: zn_locations.induct)
    (fastforce simp: go_returns Let_def split: if_splits option.splits)+

lemma zn_iterate_sorted:
  "zn_iterate L next local res zones w = (Returns (zones', err), w') \<Longrightarrow> zone_list zones \<Longrightarrow> zone_list zones'"
proof (induction L "next" local res zones arbitrary: w rule: zn_iterate.induct)
  case (1 L "next" local zones)
  then show ?case by (simp add: go_returns)
next
  case (2 L "next" local resSku res zones)
  then show ?case
    by (fastforce simp: go_returns dest: zn_locations_sorted split: if_splits option.splits)
qed

lemma zn_Get_sorted:
  "zn_Get L S c local w = (Returns (zones, err), w') \<Longrightarrow> zone_list zones"
  by (auto simp: zn_Get_def go_returns split: if_splits dest: zn_iterate_sorted)

text \<open>
  What the restrictions of a SKU leave, as a function of the data: \<open>None\<close> if one of them is for
  the whole location.  Restrictions have to be complete for the code not to panic.
\<close>

definition sku_complete :: "sku_restriction list \<Rightarrow> bool" where
  "sku_complete rs \<longleftrightarrow> (\<forall>r\<in>set rs. \<exists>zs. rsr_Info r = Some (Some zs))"

definition restricted_zones :: "sku_restriction list \<Rightarrow> string set" where
  "restricted_zones rs = (\<Union>r\<in>set rs. case rsr_Info r of Some (Some zs) \<Rightarrow> set zs | _ \<Rightarrow> {})"

lemma zn_restrict_eq:
  "sku_complete rs \<Longrightarrow>
   zn_restrict rs A w =
     (Returns (if \<exists>r\<in>set rs. rsr_Type r = ''Location'' then None else Some (A - restricted_zones rs)), w)"
proof (induction rs arbitrary: A)
  case Nil
  then show ?case by (simp add: go_simps restricted_zones_def)
next
  case (Cons r rs)
  then obtain zs where zs: "rsr_Info r = Some (Some zs)" by (auto simp: sku_complete_def)
  have rest: "sku_complete rs" using Cons.prems by (simp add: sku_complete_def)
  have "A - restricted_zones (r # rs) = A - set zs - restricted_zones rs"
    by (auto simp: restricted_zones_def zs)
  with zs Cons.IH [OF rest] show ?case by (simp add: go_simps fold_remove)
qed

text \<open>
  A location that is found is answered with all zones of the locations up to it, less the
  restricted ones: for a SKU with one location these are the zones of that location.
\<close>

lemma zn_locations_foreign:
  assumes "\<forall>i\<in>set before. \<exists>l zs. sli_Location i = Some l \<and> sli_Zones i = Some zs \<and> \<not> EqualFold l (vms_Location (Spec x))"
  shows "zn_locations x sku (before @ rest) A zones w =
    zn_locations x sku rest (A \<union> (\<Union>i\<in>set before. set (the (sli_Zones i)))) zones w"
  using assms
proof (induction before arbitrary: A)
  case (Cons i before)
  then obtain l zs where i: "sli_Location i = Some l" "sli_Zones i = Some zs" "\<not> EqualFold l (vms_Location (Spec x))"
    by auto
  have "A \<union> set zs \<union> (\<Union>i\<in>set before. set (the (sli_Zones i))) =
      A \<union> (\<Union>i\<in>set (i # before). set (the (sli_Zones i)))"
    using i by auto
  with i Cons.IH [of "A \<union> set zs"] Cons.prems show ?case by (simp add: go_simps fold_insert)
qed simp

lemma zn_locations_found:
  assumes "\<forall>i\<in>set before. \<exists>l zs. sli_Location i = Some l \<and> sli_Zones i = Some zs \<and> \<not> EqualFold l (vms_Location (Spec x))"
    and "sli_Location here = Some l" "EqualFold l (vms_Location (Spec x))" "sli_Zones here = Some zs"
    and "rsk_Restrictions sku = Some rs" "sku_complete rs"
  shows "zn_locations x sku (before @ [here]) {} [] w =
    (Returns (if \<exists>r\<in>set rs. rsr_Type r = ''Location'' then None
              else Some (sorted_list_of_set ((\<Union>i\<in>set before. set (the (sli_Zones i))) \<union> set zs - restricted_zones rs))), w)"
  using assms(2-)
  by (simp add: zn_locations_foreign [OF assms(1)] go_simps fold_insert zn_restrict_eq)

text \<open>A size that is not listed has no zones, and that is no error.\<close>

lemma zn_iterate_unlisted:
  assumes "\<forall>s\<in>set res. \<exists>n. rsk_Name s = Some n \<and> \<not> EqualFold n (vms_SKU (Spec x))"
  shows "zn_iterate L (go_ret None) x res zones w = (Returns (zones, None), w)"
  using assms by (induction res) (auto simp: go_simps)

end
