(* ===== verification/Vms.thy ===== *)
theory Vms
imports Disks Zones Random_Strings Loop_Variables
begin

section \<open>Machines (pkg/clients/vms)\<close>

text \<open>
  The spec builder and the asynchronous client of the machines, which uses the clients of the
  disks and of the zones.
\<close>

subsection \<open>The SDK\<close>

record vm_image =
  vmi_Publisher :: "string option"
  vmi_Offer :: "string option"
  vmi_Sku :: "string option"
  vmi_Version :: "string option"

record vm_osdisk =
  vmd_CreateOption :: string
  vmd_DiskSizeGB :: "int option"

record vm_storage =
  vmsp_ImageReference :: "vm_image option"
  vmsp_OsDisk :: "vm_osdisk option"

text \<open>\<open>vmnic_Primary\<close> is behind the properties pointer of the reference.\<close>

record vm_nic =
  vmnic_ID :: "string option"
  vmnic_Primary :: "bool option option"

text \<open>
  The Linux configuration is the value of \<open>DisablePasswordAuthentication\<close> and the list of SSH
  keys.
\<close>

record vm_linux =
  vml_DisablePasswordAuthentication :: "bool option"
  vml_PublicKeys :: "string list option"

record vm_os =
  vmo_ComputerName :: "string option"
  vmo_AdminUsername :: "string option"
  vmo_AdminPassword :: "string option"
  vmo_LinuxConfiguration :: "vm_linux option"

text \<open>The hardware profile has the one field \<open>VMSize\<close>, the network profile the one field
  \<open>NetworkInterfaces\<close>.\<close>

record vm_properties =
  vmp_HardwareProfile :: "string option"
  vmp_StorageProfile :: "vm_storage option"
  vmp_NetworkProfile :: "vm_nic list option option"
  vmp_OsProfile :: "vm_os option"
  vmp_ProvisioningState :: "string option"

record vm_resource =
  vmr_Response :: http_response
  vmr_ID :: "string option"
  vmr_Name :: "string option"
  vmr_Location :: "string option"
  vmr_Zones :: "string list option"
  vmr_Properties :: "vm_properties option"

definition zero_vm_os :: vm_os where
  "zero_vm_os = \<lparr>vmo_ComputerName = None, vmo_AdminUsername = None, vmo_AdminPassword = None,
     vmo_LinuxConfiguration = None\<rparr>"

definition zero_vm_properties :: vm_properties where
  "zero_vm_properties = \<lparr>vmp_HardwareProfile = None, vmp_StorageProfile = None, vmp_NetworkProfile = None,
     vmp_OsProfile = None, vmp_ProvisioningState = None\<rparr>"

definition zero_vm :: vm_resource where
  "zero_vm = \<lparr>vmr_Response = None, vmr_ID = None, vmr_Name = None, vmr_Location = None, vmr_Zones = None,
     vmr_Properties = None\<rparr>"

record 'w vm_sdk =
  vm_sdk_Get :: "sdk_client \<Rightarrow> string \<Rightarrow> string \<Rightarrow> string \<Rightarrow> ('w, vm_resource \<times> go_error option) go"
  vm_sdk_CreateOrUpdate :: "sdk_client \<Rightarrow> string \<Rightarrow> string \<Rightarrow> vm_resource \<Rightarrow> ('w, go_error option) go"
  vm_sdk_Delete :: "sdk_client \<Rightarrow> string \<Rightarrow> string \<Rightarrow> ('w, http_response \<times> go_error option) go"

subsection \<open>The spec builder\<close>

definition vm_NewSpec :: "(nat \<Rightarrow> ('w, nat list \<times> go_error option) go) \<Rightarrow> ('w, vm_resource) go" where
  "vm_NewSpec rand_Read =
     go_bind (GenerateRandomString rand_Read 32) (\<lambda>password.
     go_ret (zero_vm\<lparr>
       vmr_Properties := Some \<lparr>
         vmp_HardwareProfile = Some '''',
         vmp_StorageProfile = Some \<lparr>
           vmsp_ImageReference = Some \<lparr>vmi_Publisher = Some ''Canonical'', vmi_Offer = Some ''UbuntuServer'',
             vmi_Sku = Some ''18.04-LTS'', vmi_Version = Some ''latest''\<rparr>,
           vmsp_OsDisk = Some \<lparr>vmd_CreateOption = ''FromImage'', vmd_DiskSizeGB = Some 100\<rparr>\<rparr>,
         vmp_NetworkProfile = Some (Some []),
         vmp_OsProfile = Some \<lparr>vmo_ComputerName = None, vmo_AdminUsername = Some ''azureuser'',
           vmo_AdminPassword = Some password,
           vmo_LinuxConfiguration = Some \<lparr>vml_DisablePasswordAuthentication = Some False, vml_PublicKeys = Some []\<rparr>\<rparr>,
         vmp_ProvisioningState = None\<rparr>,
       vmr_Zones := Some []\<rparr>))"

definition vm_NewSpecWithRemote :: "vm_resource \<Rightarrow> vm_resource" where
  "vm_NewSpecWithRemote remote = remote"

definition vm_set_Name :: "string \<Rightarrow> (vm_resource, unit) go" where
  "vm_set_Name name = remedy (\<lambda>s. s\<lparr>vmr_Name := Some name\<rparr>)"

definition vm_set_Location :: "string \<Rightarrow> (vm_resource, unit) go" where
  "vm_set_Location location = remedy (\<lambda>s. s\<lparr>vmr_Location := Some location\<rparr>)"

definition vm_set_Zone :: "string \<Rightarrow> (vm_resource, unit) go" where
  "vm_set_Zone zone = remedy (\<lambda>s. s\<lparr>vmr_Zones := Some [zone]\<rparr>)"

text \<open>Reading and writing behind the properties pointer; \<open>None\<close> is a nil dereference.\<close>

definition vm_at :: "(vm_properties \<Rightarrow> 'a) \<Rightarrow> vm_resource \<Rightarrow> 'a option" where
  "vm_at f s = map_option f (vmr_Properties s)"

definition vm_put :: "(vm_properties \<Rightarrow> vm_properties) \<Rightarrow> vm_resource \<Rightarrow> vm_resource option" where
  "vm_put f s = map_option (\<lambda>p. s\<lparr>vmr_Properties := Some (f p)\<rparr>) (vmr_Properties s)"

definition vm_checkProperties :: "(vm_resource, bool) go" where
  "vm_checkProperties = detect (\<lambda>s. vmr_Properties s = None)"

definition vm_initProperties :: "(vm_resource, unit) go" where
  "vm_initProperties = remedy (\<lambda>s. s\<lparr>vmr_Properties := Some zero_vm_properties\<rparr>)"

definition vm_checkHardwareProfile :: "(vm_resource, bool) go" where
  "vm_checkHardwareProfile = detect_at (vm_at (\<lambda>p. vmp_HardwareProfile p = None))"

definition vm_initHardwareProfile :: "(vm_resource, unit) go" where
  "vm_initHardwareProfile = remedy_at (vm_put (\<lambda>p. p\<lparr>vmp_HardwareProfile := Some ''''\<rparr>))"

definition vm_checkNetworkProfile :: "(vm_resource, bool) go" where
  "vm_checkNetworkProfile = detect_at (vm_at (\<lambda>p. vmp_NetworkProfile p = None))"

definition vm_initNetworkProfile :: "(vm_resource, unit) go" where
  "vm_initNetworkProfile = remedy_at (vm_put (\<lambda>p. p\<lparr>vmp_NetworkProfile := Some None\<rparr>))"

definition vm_checkOSProfile :: "(vm_resource, bool) go" where
  "vm_checkOSProfile = detect_at (vm_at (\<lambda>p. vmp_OsProfile p = None))"

definition vm_initOSProfile :: "(vm_resource, unit) go" where
  "vm_initOSProfile = remedy_at (vm_put (\<lambda>p. p\<lparr>vmp_OsProfile := Some zero_vm_os\<rparr>))"

definition vm_set_Hostname :: "string \<Rightarrow> (vm_resource, unit) go" where
  "vm_set_Hostname hostname =
     go_bind (Initialize [vm_checkProperties, vm_checkOSProfile] [vm_initProperties, vm_initOSProfile]) (\<lambda>_.
     remedy_at (\<lambda>s. Option.bind (vmr_Properties s) (\<lambda>p. Option.bind (vmp_OsProfile p) (\<lambda>os.
       Some (s\<lparr>vmr_Properties := Some (p\<lparr>vmp_OsProfile := Some (os\<lparr>vmo_ComputerName := Some hostname\<rparr>)\<rparr>)\<rparr>)))))"

definition vm_set_SKU :: "string \<Rightarrow> (vm_resource, unit) go" where
  "vm_set_SKU sku =
     go_bind (Initialize [vm_checkProperties, vm_checkHardwareProfile] [vm_initProperties, vm_initHardwareProfile]) (\<lambda>_.
     remedy_at (\<lambda>s. Option.bind (vmr_Properties s) (\<lambda>p. Option.bind (vmp_HardwareProfile p) (\<lambda>hw.
       Some (s\<lparr>vmr_Properties := Some (p\<lparr>vmp_HardwareProfile := Some sku\<rparr>)\<rparr>)))))"

text \<open>
  The references to the secondary interfaces keep the address of the loop variable; the one to
  the primary interface keeps that of the argument.
\<close>

definition vm_secondary_nics :: "string list \<Rightarrow> vm_nic list" where
  "vm_secondary_nics secondaryNics =
     range_send (\<lambda>nic st. st(0 := nic)) (\<lambda>_. 0 :: address)
       (\<lambda>st a. \<lparr>vmnic_ID = Some (st a), vmnic_Primary = Some (Some False)\<rparr>) secondaryNics"

definition vm_nics :: "string \<Rightarrow> string list option \<Rightarrow> vm_nic list" where
  "vm_nics primaryNic secondaryNics =
     \<lparr>vmnic_ID = Some primaryNic, vmnic_Primary = Some (Some True)\<rparr> #
     (case secondaryNics of None \<Rightarrow> [] | Some nics \<Rightarrow> vm_secondary_nics nics)"

definition vm_set_NICs :: "string \<Rightarrow> string list option \<Rightarrow> (vm_resource, unit) go" where
  "vm_set_NICs primaryNic secondaryNics =
     go_bind (Initialize [vm_checkProperties, vm_checkNetworkProfile] [vm_initProperties, vm_initNetworkProfile]) (\<lambda>_.
     remedy_at (\<lambda>s. Option.bind (vmr_Properties s) (\<lambda>p. Option.bind (vmp_NetworkProfile p) (\<lambda>nw.
       Some (s\<lparr>vmr_Properties := Some (p\<lparr>vmp_NetworkProfile := Some (Some (vm_nics primaryNic secondaryNics))\<rparr>)\<rparr>)))))"

text \<open>\<open>Name()\<close>, \<open>Location()\<close> and \<open>ID()\<close> are the fields.\<close>

definition vm_Zone :: "vm_resource \<Rightarrow> string option" where
  "vm_Zone s = (case vmr_Zones s of Some (z # _) \<Rightarrow> Some z | _ \<Rightarrow> None)"

definition vm_State :: "vm_resource \<Rightarrow> string option" where
  "vm_State s = (case vmr_Properties s of None \<Rightarrow> None | Some p \<Rightarrow> vmp_ProvisioningState p)"

definition vm_SKU :: "vm_resource \<Rightarrow> string option" where
  "vm_SKU s = (case vmr_Properties s of None \<Rightarrow> None | Some p \<Rightarrow> vmp_HardwareProfile p)"

definition vm_Name :: "vm_resource \<Rightarrow> string option" where
  [simp]: "vm_Name s = vmr_Name s"

definition vm_Location :: "vm_resource \<Rightarrow> string option" where
  [simp]: "vm_Location s = vmr_Location s"

definition vm_ID :: "vm_resource \<Rightarrow> string option" where
  [simp]: "vm_ID s = vmr_ID s"

definition vm_Build :: "vm_resource \<Rightarrow> vm_resource" where
  [simp]: "vm_Build s = s"

definition vm_Set :: "(vm_resource, unit) go list \<Rightarrow> (vm_resource, unit) go" where
  [simp]: "vm_Set opts = set_opts opts"

definition vm_spec_NeedsUpdate :: "VM \<Rightarrow> (vm_resource, bool) go" where
  "vm_spec_NeedsUpdate local =
     Any [detect (\<lambda>s. vm_Name s = None \<or> Some (vms_Name (Spec local)) \<noteq> vm_Name s),
          detect (\<lambda>s. vm_SKU s = None \<or> Some (vms_SKU (Spec local)) \<noteq> vm_SKU s)]"

subsection \<open>The client\<close>

record vm_client =
  vmc_mgmt :: mgmt_client
  vmc_disks :: mgmt_client
  vmc_zones :: mgmt_client

text \<open>\<open>newDisks\<close> and \<open>newZones\<close> are the factories of the SDK that \<open>disks.New\<close> and
  \<open>zones.New\<close> pass on.\<close>

definition vm_NewWithFactory ::
  "(string \<Rightarrow> sdk_client) \<Rightarrow> (string \<Rightarrow> sdk_client) \<Rightarrow> config \<Rightarrow> (string \<Rightarrow> sdk_client) \<Rightarrow> vm_client" where
  "vm_NewWithFactory newDisks newZones configuration factory =
     \<lparr>vmc_mgmt = new_mgmt_client configuration factory,
      vmc_disks = dk_New newDisks configuration,
      vmc_zones = zn_New newZones configuration\<rparr>"

definition vm_convert :: "runtime_object \<Rightarrow> go_error + VM" where
  "vm_convert obj = (case obj of ObjVM local \<Rightarrow> Inr local | _ \<Rightarrow> Inl (kind_error obj))"

definition vm_ForSubscription :: "auth_lib \<Rightarrow> vm_client \<Rightarrow> runtime_object \<Rightarrow> vm_client \<times> go_error option" where
  "vm_ForSubscription A c obj =
     (case vm_convert obj of
        Inl err \<Rightarrow> (c, Some err)
      | Inr local \<Rightarrow>
          (case authorize_for A (vmc_mgmt c) (vms_SubscriptionID (Spec local)) of
             (m, err) \<Rightarrow> (c\<lparr>vmc_mgmt := m\<rparr>, err)))"

definition vm_SetStatus :: "VM \<Rightarrow> vm_resource \<Rightarrow> VM" where
  "vm_SetStatus local remote =
     (let st = (Status local)\<lparr>vmst_ID := vmr_ID remote, vmst_ProvisioningState := None\<rparr>;
          st = (case vmr_Properties remote of
                  None \<Rightarrow> st | Some p \<Rightarrow> st\<lparr>vmst_ProvisioningState := vmp_ProvisioningState p\<rparr>);
          st = st\<lparr>vmst_Zone := None\<rparr>;
          st = (case vmr_Zones remote of
                  Some (z # _) \<Rightarrow> st\<lparr>vmst_Zone := Some z\<rparr> | _ \<Rightarrow> st)
      in local\<lparr>Status := st\<rparr>)"

definition vm_Done :: "VM \<Rightarrow> bool" where
  "vm_Done local \<longleftrightarrow> vmst_ProvisioningState (Status local) = Some ''Succeeded''"

definition vm_InProgress :: "VM \<Rightarrow> bool" where
  "vm_InProgress local \<longleftrightarrow> vmst_ProvisioningState (Status local) \<noteq> None"

text \<open>The client's own comparison, which nothing calls.\<close>

definition vm_NeedsUpdate :: "VM \<Rightarrow> vm_resource \<Rightarrow> ('w, bool) go" where
  "vm_NeedsUpdate local remote =
     go_bind (go_deref (vmr_Properties remote)) (\<lambda>p.
     go_bind (go_deref (vmp_HardwareProfile p)) (\<lambda>size.
       if \<not> EqualFold (vms_SKU (Spec local)) size then go_ret True
       else
     go_bind (go_deref (vmr_Location remote)) (\<lambda>location.
       if \<not> EqualFold location (vms_Location (Spec local)) then go_ret True
       else go_ret False)))"

text \<open>
  \<open>zoneFn\<close>: the option that sets the zone, or the one that does nothing; \<open>intn\<close> is
  \<open>rand.Intn\<close>.
\<close>

definition vm_zoneFn ::
  "lib \<Rightarrow> 'w zones_sdk \<Rightarrow> (nat \<Rightarrow> ('w, nat) go) \<Rightarrow> vm_client \<Rightarrow> VM \<Rightarrow> vm_resource \<Rightarrow>
   ('w, go_error + (vm_resource, unit) go) go" where
  "vm_zoneFn L Z intn c local spec =
     (case vms_Zone (Spec local) of
        Some zone \<Rightarrow> go_ret (Inr (vm_set_Zone zone))
      | None \<Rightarrow>
          if vm_Zone spec = None then
            go_bind (zn_Get L Z (vmc_zones c) local) (\<lambda>(choices, err).
              (case err of
                 Some e \<Rightarrow> go_ret (Inl e)
               | None \<Rightarrow>
                   if 0 < length choices
                   then go_bind (intn (length choices)) (\<lambda>i.
                     if i < length choices then go_ret (Inr (vm_set_Zone (choices ! i))) else go_panic)
                   else go_ret (Inr (go_ret ()))))
          else go_ret (Inr (go_ret ())))"

definition vm_options :: "VM \<Rightarrow> (vm_resource, unit) go \<Rightarrow> (vm_resource, unit) go" where
  "vm_options local zoneFn =
     vm_Set [vm_set_Name (vms_Name (Spec local)), vm_set_Location (vms_Location (Spec local)),
       vm_set_Hostname (vms_Name (Spec local)), vm_set_SKU (vms_SKU (Spec local)),
       vm_set_NICs (vms_PrimaryNIC (Spec local)) (vms_SecondaryNICs (Spec local)), zoneFn]"

definition vm_apply ::
  "lib \<Rightarrow> 'w vm_sdk \<Rightarrow> 'w zones_sdk \<Rightarrow> (nat \<Rightarrow> ('w, nat) go) \<Rightarrow> vm_client \<Rightarrow> VM \<Rightarrow> vm_resource \<Rightarrow>
   ('w, runtime_object \<times> bool \<times> go_error option) go" where
  "vm_apply L S Z intn c local spec =
     go_bind (vm_zoneFn L Z intn c local spec) (\<lambda>r.
     (case r of
        Inl err \<Rightarrow> go_ret (ObjVM local, False, Some err)
      | Inr zoneFn \<Rightarrow>
          with_spec (vm_options local zoneFn) spec (\<lambda>_ spec.
          go_bind (vm_sdk_CreateOrUpdate S (mc_internal (vmc_mgmt c)) (vms_ResourceGroup (Spec local)) (vms_Name (Spec local)) (vm_Build spec))
            (\<lambda>err. go_ret (ObjVM local, False, err)))))"

definition vm_Ensure ::
  "lib \<Rightarrow> 'w vm_sdk \<Rightarrow> 'w zones_sdk \<Rightarrow> (nat \<Rightarrow> ('w, nat) go) \<Rightarrow> (nat \<Rightarrow> ('w, nat list \<times> go_error option) go) \<Rightarrow>
   vm_client \<Rightarrow> runtime_object \<Rightarrow> ('w, runtime_object \<times> bool \<times> go_error option) go" where
  "vm_Ensure L S Z intn rand_Read c obj =
     (case vm_convert obj of
        Inl err \<Rightarrow> go_ret (obj, False, Some err)
      | Inr local \<Rightarrow>
     go_bind (vm_sdk_Get S (mc_internal (vmc_mgmt c)) (vms_ResourceGroup (Spec local)) (vms_Name (Spec local)) ''instanceView'')
     (\<lambda>(remote, err).
       let found = (\<not> HasHTTPStatus L (vmr_Response remote) [StatusNotFound, StatusConflict]);
           local = vm_SetStatus local remote
       in
       if err \<noteq> None \<and> found then go_ret (ObjVM local, False, err)
       else if found then
         (let spec = vm_NewSpecWithRemote remote in
          if vm_Done local then
            with_spec (vm_spec_NeedsUpdate local) spec (\<lambda>needs spec.
              if \<not> needs then go_ret (ObjVM local, True, None)
              else vm_apply L S Z intn c local spec)
          else go_ret (ObjVM local, False, None))
       else go_bind (vm_NewSpec rand_Read) (\<lambda>spec. vm_apply L S Z intn c local spec)))"

definition vm_Get :: "'w vm_sdk \<Rightarrow> vm_client \<Rightarrow> runtime_object \<Rightarrow> ('w, vm_resource \<times> go_error option) go" where
  "vm_Get S c obj =
     (case vm_convert obj of
        Inl err \<Rightarrow> go_ret (zero_vm, Some err)
      | Inr local \<Rightarrow>
          vm_sdk_Get S (mc_internal (vmc_mgmt c)) (vms_ResourceGroup (Spec local)) (vms_Name (Spec local)) ''instanceView'')"

definition vm_Delete ::
  "lib \<Rightarrow> 'w vm_sdk \<Rightarrow> 'w disks_sdk \<Rightarrow> vm_client \<Rightarrow> runtime_object \<Rightarrow>
   ('w, runtime_object \<times> bool \<times> go_error option) go" where
  "vm_Delete L S D c obj =
     (case vm_convert obj of
        Inl err \<Rightarrow> go_ret (obj, False, Some err)
      | Inr local \<Rightarrow>
     go_bind (vm_sdk_Delete S (mc_internal (vmc_mgmt c)) (vms_ResourceGroup (Spec local)) (vms_Name (Spec local))) (\<lambda>(resp, err).
       if err \<noteq> None \<and> resp \<noteq> None \<and> resp \<noteq> Some StatusNotFound then go_ret (obj, False, err)
       else
     go_bind (vm_sdk_Get S (mc_internal (vmc_mgmt c)) (vms_ResourceGroup (Spec local)) (vms_Name (Spec local)) ''instanceView'')
     (\<lambda>(remote, err).
       let found = (\<not> IsHTTPStatus L (vmr_Response remote) StatusNotFound);
           local = vm_SetStatus local remote
       in
       if err \<noteq> None \<and> IsHTTPStatus L (vmr_Response remote) StatusNotFound
       then dk_Delete L D (vmc_disks c) (ObjVM local)
       else go_ret (ObjVM local, found, err))))"

definition vm_async_client ::
  "lib \<Rightarrow> auth_lib \<Rightarrow> 'w vm_sdk \<Rightarrow> 'w disks_sdk \<Rightarrow> 'w zones_sdk \<Rightarrow> (nat \<Rightarrow> ('w, nat) go) \<Rightarrow>
   (nat \<Rightarrow> ('w, nat list \<times> go_error option) go) \<Rightarrow> (vm_client \<times> 'w) AsyncClient" where
  "vm_async_client L A S D Z intn rand_Read = \<lparr>
     async_ForSubscription = (\<lambda>obj. on_self (\<lambda>c. vm_ForSubscription A c obj)),
     async_Ensure = (\<lambda>obj. on_world (\<lambda>c. vm_Ensure L S Z intn rand_Read c obj)),
     async_Delete = (\<lambda>obj. on_world (\<lambda>c. vm_Delete L S D c obj))\<rparr>"

subsection \<open>Lemmas\<close>

lemma vm_convert_Inr [simp]: "vm_convert obj = Inr local \<longleftrightarrow> obj = ObjVM local"
  by (cases obj) (simp_all add: vm_convert_def)

lemma vm_convert_Inl [simp]: "vm_convert obj = Inl err \<longleftrightarrow> kind_of obj \<noteq> KVM \<and> err = kind_error obj"
  by (cases obj) (auto simp: vm_convert_def)

lemma vm_SetStatus_keeps [simp]:
  "(vm_SetStatus local remote)\<lparr>Status := st\<rparr> = local\<lparr>Status := st\<rparr>"
  "Spec (vm_SetStatus local remote) = Spec local" "ObjectMeta (vm_SetStatus local remote) = ObjectMeta local"
  by (simp_all add: vm_SetStatus_def Let_def split: option.split)

lemma vm_apply_Returns:
  "vm_apply L S Z intn c local spec w = (Returns (obj', done, err), w') \<Longrightarrow> obj' = ObjVM local \<and> \<not> done"
  by (auto simp: vm_apply_def go_returns early_return_Returns)

lemma vm_Ensure_Returns:
  assumes "vm_Ensure L S Z intn rand_Read c obj w = (Returns (obj', done, err), w')"
  shows "clear_status obj' = clear_status obj" and "done \<Longrightarrow> err = None"
  using assms
  by (auto simp: vm_Ensure_def Let_def go_returns early_return_Returns
      split: prod.splits if_splits dest: vm_apply_Returns)

lemma vm_Delete_Returns:
  assumes "vm_Delete L S D c obj w = (Returns (obj', found, err), w')"
  shows "clear_status obj' = clear_status obj"
  using assms
  by (auto simp: vm_Delete_def Let_def go_returns early_return_Returns
      split: prod.splits if_splits dest: dk_Delete_Returns)

interpretation vm: strict_async_client "vm_async_client L A S D Z intn rand_Read" "\<lambda>obj. kind_of obj = KVM"
  for L :: lib and A :: auth_lib and S :: "'w vm_sdk" and D Z intn rand_Read
proof unfold_locales
  show "\<exists>err. async_ForSubscription (vm_async_client L A S D Z intn rand_Read) obj = go_ret (Some err)"
    if "kind_of obj \<noteq> KVM" for obj
    using that
    by (auto simp: vm_async_client_def on_self_def vm_ForSubscription_def go_ret_def fun_eq_iff split: sum.splits)
qed (auto simp: vm_async_client_def go_returns dest: vm_Ensure_Returns vm_Delete_Returns)

text \<open>Every secondary interface is sent with the identifier of the last one.\<close>

lemma vm_secondary_nics_eq:
  "vm_secondary_nics nics =
     replicate (length nics) \<lparr>vmnic_ID = Some (last nics), vmnic_Primary = Some (Some False)\<rparr>"
  by (simp add: vm_secondary_nics_def range_send_last map_replicate_const)

lemma vm_nics_faithful_iff:
  "map vmnic_ID (vm_nics primary (Some nics)) = map Some (primary # nics) \<longleftrightarrow> (\<forall>n\<in>set nics. n = last nics)"
  by (auto simp: vm_nics_def vm_secondary_nics_def range_send_last)

lemma vm_nics_one_primary:
  "length (filter (\<lambda>n. vmnic_Primary n = Some (Some True)) (vm_nics primary nics)) = 1"
  by (simp add: vm_nics_def vm_secondary_nics_eq filter_replicate split: option.split)

text \<open>The options, on a spec whose properties may be missing at any level.\<close>

definition vm_with_options :: "VM \<Rightarrow> vm_resource \<Rightarrow> vm_resource" where
  "vm_with_options x s =
     (let p = (case vmr_Properties s of None \<Rightarrow> zero_vm_properties | Some p \<Rightarrow> p);
          os = (case vmp_OsProfile p of None \<Rightarrow> zero_vm_os | Some os \<Rightarrow> os)
      in s\<lparr>vmr_Name := Some (vms_Name (Spec x)), vmr_Location := Some (vms_Location (Spec x)),
           vmr_Properties := Some (p\<lparr>
             vmp_OsProfile := Some (os\<lparr>vmo_ComputerName := Some (vms_Name (Spec x))\<rparr>),
             vmp_HardwareProfile := Some (vms_SKU (Spec x)),
             vmp_NetworkProfile := Some (Some (vm_nics (vms_PrimaryNIC (Spec x)) (vms_SecondaryNICs (Spec x))))\<rparr>)\<rparr>)"

lemmas vm_option_defs = vm_set_Name_def vm_set_Location_def vm_set_Hostname_def vm_set_SKU_def vm_set_NICs_def
  vm_checkProperties_def vm_initProperties_def vm_checkHardwareProfile_def vm_initHardwareProfile_def
  vm_checkNetworkProfile_def vm_initNetworkProfile_def vm_checkOSProfile_def vm_initOSProfile_def vm_at_def vm_put_def

lemma vm_set_Hostname_eq:
  "vm_set_Hostname h s =
     (let p = (case vmr_Properties s of None \<Rightarrow> zero_vm_properties | Some p \<Rightarrow> p);
          os = (case vmp_OsProfile p of None \<Rightarrow> zero_vm_os | Some os \<Rightarrow> os)
      in (Returns (), s\<lparr>vmr_Properties := Some (p\<lparr>vmp_OsProfile := Some (os\<lparr>vmo_ComputerName := Some h\<rparr>)\<rparr>)\<rparr>))"
  by (cases "vmr_Properties s")
    (auto simp: vm_option_defs go_simps go_bind_apply Let_def zero_vm_properties_def split: option.split)

lemma vm_set_SKU_eq:
  "vm_set_SKU sku s =
     (let p = (case vmr_Properties s of None \<Rightarrow> zero_vm_properties | Some p \<Rightarrow> p)
      in (Returns (), s\<lparr>vmr_Properties := Some (p\<lparr>vmp_HardwareProfile := Some sku\<rparr>)\<rparr>))"
  by (cases "vmr_Properties s")
    (auto simp: vm_option_defs go_simps go_bind_apply Let_def zero_vm_properties_def split: option.split)

lemma vm_set_NICs_eq:
  "vm_set_NICs primary nics s =
     (let p = (case vmr_Properties s of None \<Rightarrow> zero_vm_properties | Some p \<Rightarrow> p)
      in (Returns (), s\<lparr>vmr_Properties := Some (p\<lparr>vmp_NetworkProfile := Some (Some (vm_nics primary nics))\<rparr>)\<rparr>))"
  by (cases "vmr_Properties s")
    (auto simp: vm_option_defs go_simps go_bind_apply Let_def zero_vm_properties_def split: option.split)

lemma vm_options_eq:
  "vm_options x zoneFn s = zoneFn (vm_with_options x s)"
  by (simp add: vm_options_def go_bind_apply vm_set_Hostname_eq vm_set_SKU_eq vm_set_NICs_eq Let_def
      vm_set_Name_def vm_set_Location_def remedy_apply vm_with_options_def go_bind_ret_right split: option.split)

text \<open>
  A machine that was created, or rewritten, by the client needs no update: the comparison looks at
  the name and the size only, and both were just set.
\<close>

lemma vm_spec_NeedsUpdate_eq:
  "vm_spec_NeedsUpdate x s =
     (Returns (\<not> (vmr_Name s = Some (vms_Name (Spec x)) \<and> vm_SKU s = Some (vms_SKU (Spec x)))), s)"
  by (auto simp: vm_spec_NeedsUpdate_def go_simps)

lemma vm_with_options_written [simp]:
  "vmr_Name (vm_with_options x s) = Some (vms_Name (Spec x))"
  "vm_SKU (vm_with_options x s) = Some (vms_SKU (Spec x))"
  "vm_SKU (vmr_Zones_update f (vm_with_options x s)) = Some (vms_SKU (Spec x))"
  by (simp_all add: vm_with_options_def vm_SKU_def Let_def)

lemma vm_written_needs_no_update:
  assumes "zoneFn = go_ret () \<or> (\<exists>z. zoneFn = vm_set_Zone z)"
  shows "\<exists>s'. vm_options x zoneFn s = (Returns (), s') \<and> vm_spec_NeedsUpdate x s' = (Returns False, s')"
  using assms
  by (auto simp: vm_options_eq go_ret_apply vm_set_Zone_def remedy_apply vm_spec_NeedsUpdate_eq)

text \<open>
  A new machine gets a random administrator password; no SSH key, user data or disk size of the
  object is sent.
\<close>

lemma vm_NewSpec_returns:
  assumes "rand_ok rand_Read"
  shows "\<exists>password b w' s p os. vm_NewSpec rand_Read w = (Returns s, w') \<and> vmr_Properties s = Some p \<and>
    vmp_OsProfile p = Some os \<and> vmo_AdminPassword os = Some password \<and> length password = 44 \<and>
    base64_decode base64_std True password = Some b \<and> length b = 32 \<and>
    vmo_LinuxConfiguration os = Some \<lparr>vml_DisablePasswordAuthentication = Some False, vml_PublicKeys = Some []\<rparr>"
  using GenerateRandomString_length [OF assms, of 32 w]
  by (auto simp: vm_NewSpec_def go_simps)

lemma vm_with_options_ignores:
  "vm_with_options x s = vm_with_options (x\<lparr>Spec := (Spec x)\<lparr>vms_SSHPublicKey := k, vms_CustomData := d, vms_DiskSize := n\<rparr>\<rparr>) s"
  by (simp add: vm_with_options_def)

text \<open>The zone of a machine: the one of the object, else one the lookup offers, else none.\<close>

lemma vm_zoneFn_chosen:
  assumes "vms_Zone (Spec x) = None" "vm_Zone spec = None"
    and "zn_Get L Z (vmc_zones c) x w = (Returns (choices, None), w1)" "choices \<noteq> []"
    and "intn_ok intn"
  shows "\<exists>z w2. z \<in> set choices \<and> vm_zoneFn L Z intn c x spec w = (Returns (Inr (vm_set_Zone z)), w2)"
proof -
  from assms(4,5) obtain i w2 where "intn (length choices) w1 = (Returns i, w2)" "i < length choices"
    unfolding intn_ok_def by (meson length_greater_0_conv)
  with assms(1-4) show ?thesis
    by (intro exI [of _ "choices ! i"] exI [of _ w2]) (simp add: vm_zoneFn_def go_simps)
qed

text \<open>\<open>ForSubscription\<close> leaves the clients of the disks and of the zones alone: they keep the
  SDK clients without subscription and authorizer they were made with.\<close>

lemma vm_inner_clients_unauthorized:
  assumes "vm_ForSubscription A c obj = (c', err)"
  shows "vmc_disks c' = vmc_disks c" and "vmc_zones c' = vmc_zones c"
  using assms by (auto simp: vm_ForSubscription_def split: sum.splits prod.splits)

lemma vm_New_inner_clients:
  "mc_internal (vmc_disks (vm_NewWithFactory nd nz cfg f)) = zero_sdk_client"
  "mc_internal (vmc_zones (vm_NewWithFactory nd nz cfg f)) = zero_sdk_client"
  by (simp_all add: vm_NewWithFactory_def dk_NewWithFactory_def zn_NewWithFactory_def new_mgmt_client_def)

text \<open>A machine without a zone is only created after the lookup of the zones succeeded.\<close>

lemma vm_Ensure_zone_error:
  assumes "lib_ok L"
    and "vm_sdk_Get S (mc_internal (vmc_mgmt c)) (vms_ResourceGroup (Spec x)) (vms_Name (Spec x)) ''instanceView'' w =
      (Returns (remote, err), w1)" "vmr_Response remote = Some StatusNotFound"
    and "rand_ok rand_Read" "vms_Zone (Spec x) = None"
    and "\<And>w y. Spec y = Spec x \<Longrightarrow> fst (zn_Get L Z (vmc_zones c) y w) = Returns ([], Some e)"
  shows "\<exists>w'. vm_Ensure L S Z intn rand_Read c (ObjVM x) w = (Returns (ObjVM (vm_SetStatus x remote), False, Some e), w')"
proof -
  obtain s b w2 where s: "GenerateRandomString rand_Read 32 w1 = (Returns s, w2)"
    using GenerateRandomString_length [OF assms(4), of 32 w1] by blast
  obtain w3 where z: "zn_Get L Z (vmc_zones c) (vm_SetStatus x remote) w2 = (Returns ([], Some e), w3)"
    using assms(6) [of "vm_SetStatus x remote" w2] by (cases "zn_Get L Z (vmc_zones c) (vm_SetStatus x remote) w2") auto
  show ?thesis
    using assms(1-3,5) s z
    by (auto simp: vm_Ensure_def vm_convert_def go_simps lib_okD Let_def vm_NewSpec_def vm_apply_def
        vm_zoneFn_def vm_Zone_def go_bind_apply)
qed

end
