(* ===== verification/Ensure_Cmd.thy ===== *)
theory Ensure_Cmd
imports Retry Manifests ResourceGroups VirtualNetworks Subnets Identities Keyvaults LoadBalancers Nics
  Redis ServiceBus Storage SqlServers SecretBundles DockerConfigs TLSSecrets Vms
begin

section \<open>The command line tool (cmd/ensure)\<close>

text \<open>
  \<open>Ensure\<close> and \<open>Delete\<close> of \<open>cmd/ensure/ensure.go\<close>, which make a client for the kind of an
  object and run it until it is done; \<open>do\<close>, which runs them for all objects; and the methods
  of \<open>EnsureOptions\<close>.
\<close>

subsection \<open>What the tool is linked with\<close>

text \<open>The operations of the SDKs, of the vault and of the API server, and the SDK functions
  that make a client for a subscription.\<close>

record 'w sdks =
  s_groups :: "'w rg_sdk"
  s_vnets :: "'w vnet_sdk"
  s_subnets :: "'w subnet_sdk"
  s_identities :: "'w identity_sdk"
  s_vaults :: "'w vault_sdk"
  s_balancers :: "'w lb_sdk"
  s_nics :: "'w nic_sdk"
  s_redis :: "'w redis_sdk"
  s_servicebus :: "'w sb_sdk"
  s_storage :: "'w storage_sdk"
  s_sql :: "'w sql_sdk"
  s_firewall :: "'w firewall_sdk"
  s_machines :: "'w vm_sdk"
  s_disks :: "'w disks_sdk"
  s_zones :: "'w zones_sdk"
  s_profiles :: "'w tm_sdk"
  s_secrets :: "'w vault_ops"
  s_kube :: "'w secret_ops"

record factories =
  f_groups :: "string \<Rightarrow> sdk_client"
  f_vnets :: "string \<Rightarrow> sdk_client"
  f_subnets :: "string \<Rightarrow> sdk_client"
  f_identities :: "string \<Rightarrow> sdk_client"
  f_vaults :: "string \<Rightarrow> sdk_client"
  f_balancers :: "string \<Rightarrow> sdk_client"
  f_nics :: "string \<Rightarrow> sdk_client"
  f_redis :: "string \<Rightarrow> sdk_client"
  f_servicebus :: "string \<Rightarrow> sdk_client"
  f_storage :: "string \<Rightarrow> sdk_client"
  f_sql :: "string \<Rightarrow> sdk_client"
  f_firewall :: "string \<Rightarrow> sdk_client"
  f_machines :: "string \<Rightarrow> sdk_client"
  f_disks :: "string \<Rightarrow> sdk_client"
  f_zones :: "string \<Rightarrow> sdk_client"
  f_profiles :: "string \<Rightarrow> sdk_client"

text \<open>
  \<open>New\<close> of the packages: \<open>NewWithFactory\<close> with the factory of the SDK.  The \<open>kubeclient\<close> and the scheme
  some of them take are the operations their client is used with.
\<close>

definition id_New :: "factories \<Rightarrow> config \<Rightarrow> mgmt_client" where
  [simp]: "id_New F configuration = id_NewWithFactory configuration (f_identities F)"

definition kv_New :: "factories \<Rightarrow> config \<Rightarrow> mgmt_client" where
  [simp]: "kv_New F configuration = kv_NewWithFactory configuration (f_vaults F)"

definition lb_New :: "factories \<Rightarrow> config \<Rightarrow> mgmt_client" where
  [simp]: "lb_New F configuration = lb_NewWithFactory configuration (f_balancers F)"

definition nic_New :: "factories \<Rightarrow> config \<Rightarrow> mgmt_client" where
  [simp]: "nic_New F configuration = nic_NewWithFactory configuration (f_nics F)"

definition redis_New :: "factories \<Rightarrow> config \<Rightarrow> mgmt_client" where
  [simp]: "redis_New F configuration = redis_NewWithFactory configuration (f_redis F)"

definition rg_New :: "factories \<Rightarrow> config \<Rightarrow> mgmt_client" where
  [simp]: "rg_New F configuration = rg_NewWithFactory configuration (f_groups F)"

definition sbkey_New :: "factories \<Rightarrow> config \<Rightarrow> mgmt_client" where
  [simp]: "sbkey_New F configuration = sbkey_NewWithFactory configuration (f_servicebus F)"

definition sb_New :: "factories \<Rightarrow> config \<Rightarrow> mgmt_client" where
  [simp]: "sb_New F configuration = sb_NewWithFactory configuration (f_servicebus F)"

definition storagekey_New :: "factories \<Rightarrow> config \<Rightarrow> mgmt_client" where
  [simp]: "storagekey_New F configuration = storagekey_NewWithFactory configuration (f_storage F)"

definition sn_New :: "factories \<Rightarrow> config \<Rightarrow> mgmt_client" where
  [simp]: "sn_New F configuration = sn_NewWithFactory configuration (f_subnets F)"

definition rediskey_New :: "factories \<Rightarrow> config \<Rightarrow> mgmt_client" where
  [simp]: "rediskey_New F configuration = rediskey_NewWithFactory configuration (f_redis F)"

definition vn_New :: "factories \<Rightarrow> config \<Rightarrow> mgmt_client" where
  [simp]: "vn_New F configuration = vn_NewWithFactory configuration (f_vnets F)"

definition tm_New :: "factories \<Rightarrow> config \<Rightarrow> mgmt_client" where
  [simp]: "tm_New F configuration = tm_NewWithFactory configuration (f_profiles F)"

definition sql_New :: "factories \<Rightarrow> config \<Rightarrow> sql_client" where
  [simp]: "sql_New F configuration = sql_NewWithFactory configuration (f_sql F) (f_firewall F)"

definition vm_New :: "factories \<Rightarrow> config \<Rightarrow> vm_client" where
  [simp]: "vm_New F configuration = vm_NewWithFactory (f_disks F) (f_zones F) configuration (f_machines F)"

text \<open>
  \<open>bo_*\<close> are the one function \<open>wait.ExponentialBackoff\<close>, at the types of the state of the
  clients.  \<open>GetKubeclient\<close> makes the client of the API server, whose operations are \<open>s_kube\<close>.
\<close>

record 'w tool =
  t_lib :: lib
  t_auth :: auth_lib
  t_tls :: tls_lib
  t_marshal :: json_marshal
  t_uuid :: "string \<Rightarrow> go_error + string"
  t_intn :: "nat \<Rightarrow> ('w, nat) go"
  t_rand_Read :: "nat \<Rightarrow> ('w, nat list \<times> go_error option) go"
  t_GetConfig :: "('w, go_error option) go"
  t_NewKubeclient :: "('w, go_error option) go"
  t_sdks :: "'w sdks"
  t_factories :: factories
  bo_mgmt :: "(mgmt_client \<times> 'w) exponential_backoff"
  bo_vault :: "(vault_client option \<times> 'w) exponential_backoff"
  bo_sql :: "(sql_client \<times> 'w) exponential_backoff"
  bo_vm :: "(vm_client \<times> 'w) exponential_backoff"

text \<open>The client of the API server; only the errors of \<open>ctrl.GetConfig\<close> and \<open>client.New\<close> matter.\<close>

definition GetKubeclient :: "'w tool \<Rightarrow> ('w, go_error option) go" where
  "GetKubeclient T =
     go_bind (t_GetConfig T) (\<lambda>err.
       if err \<noteq> None then go_ret err else t_NewKubeclient T)"

text \<open>A client that is made for a call and dropped after it.\<close>

definition run_client :: "'c \<Rightarrow> ('c \<times> 'w, 'a) go \<Rightarrow> ('w, 'a) go" where
  "run_client c m = (\<lambda>w. case m (c, w) of (r, (c', w')) \<Rightarrow> (r, w'))"

lemma run_client_Returns [go_returns]:
  "run_client c m w = (Returns x, w') \<longleftrightarrow> (\<exists>c'. m (c, w) = (Returns x, (c', w')))"
  by (auto simp: run_client_def split: prod.splits)

subsection \<open>The clients, as the tool makes them\<close>

definition ensure_mgmt ::
  "'w tool \<Rightarrow> mgmt_client \<Rightarrow> (mgmt_client \<times> 'w) AsyncClient \<Rightarrow> runtime_object \<Rightarrow> ('w, go_error option) go" where
  "ensure_mgmt T c az obj = run_client c (EnsureAsync (t_lib T) (bo_mgmt T) az obj)"

definition ensure_mgmt_sync ::
  "'w tool \<Rightarrow> mgmt_client \<Rightarrow> (mgmt_client \<times> 'w) SyncClient \<Rightarrow> runtime_object \<Rightarrow> ('w, go_error option) go" where
  "ensure_mgmt_sync T c az obj = run_client c (EnsureSync (t_lib T) (bo_mgmt T) az obj)"

definition ensure_vault ::
  "'w tool \<Rightarrow> vault_client option \<Rightarrow> (vault_client option \<times> 'w) SyncClient \<Rightarrow> runtime_object \<Rightarrow> ('w, go_error option) go" where
  "ensure_vault T c az obj = run_client c (EnsureSync (t_lib T) (bo_vault T) az obj)"

definition delete_mgmt ::
  "'w tool \<Rightarrow> mgmt_client \<Rightarrow> (mgmt_client \<times> 'w) AsyncClient \<Rightarrow> runtime_object \<Rightarrow> ('w, go_error option) go" where
  "delete_mgmt T c az obj = run_client c (DeleteAsync (t_lib T) (bo_mgmt T) az obj)"

definition delete_mgmt_sync ::
  "'w tool \<Rightarrow> mgmt_client \<Rightarrow> (mgmt_client \<times> 'w) SyncClient \<Rightarrow> runtime_object \<Rightarrow> ('w, go_error option) go" where
  "delete_mgmt_sync T c az obj = run_client c (DeleteSync (t_lib T) (bo_mgmt T) az obj)"

definition delete_vault ::
  "'w tool \<Rightarrow> vault_client option \<Rightarrow> (vault_client option \<times> 'w) SyncClient \<Rightarrow> runtime_object \<Rightarrow> ('w, go_error option) go" where
  "delete_vault T c az obj = run_client c (DeleteSync (t_lib T) (bo_vault T) az obj)"

subsection \<open>Ensure\<close>

text \<open>
  The switch.  In the cases that declare \<open>client, err :=\<close> the error is a variable of the case,
  so what follows the switch sees no error; \<open>DockerConfig\<close> leaves the switch when the client
  cannot be made, \<open>Secret\<close> goes on.  A nil client is \<open>None\<close>.
\<close>

definition ensure_switch :: "'w tool \<Rightarrow> config \<Rightarrow> runtime_object \<Rightarrow> ('w, go_error option) go" where
  "ensure_switch T configuration obj =
     (let L = t_lib T; A = t_auth T; S = t_sdks T; F = t_factories T; K = s_kube S in
      case obj of
        ObjDeployment _ _ \<Rightarrow> go_ret None
      | ObjDockerConfig _ \<Rightarrow>
          (case docker_New A configuration False of
             (client, Some err) \<Rightarrow> go_ret None
           | (client, None) \<Rightarrow>
               go_bind (ensure_vault T client (docker_client L (t_marshal T) K (s_secrets S)) obj) (\<lambda>err. go_ret None))
      | ObjIdentity _ \<Rightarrow>
          ensure_mgmt_sync T (id_New F configuration) (id_client L A (s_identities S)) obj
      | ObjKeyvault _ \<Rightarrow>
          ensure_mgmt_sync T (kv_New F configuration) (kv_client L A (t_uuid T) (s_vaults S)) obj
      | ObjLoadBalancer _ \<Rightarrow>
          ensure_mgmt T (lb_New F configuration) (lb_client L A (s_balancers S)) obj
      | ObjNetworkInterface _ \<Rightarrow>
          ensure_mgmt T (nic_New F configuration) (nic_client L A (s_nics S)) obj
      | ObjRedis _ \<Rightarrow>
          ensure_mgmt T (redis_New F configuration) (redis_client L A (Some K) (s_redis S)) obj
      | ObjResourceGroup _ \<Rightarrow>
          ensure_mgmt T (rg_New F configuration) (rg_client L A (s_groups S)) obj
      | ObjSecret _ \<Rightarrow>
          (case secrets_New A configuration False of
             (client, err) \<Rightarrow>
               go_bind (ensure_vault T client (secret_client L K (s_secrets S)) obj) (\<lambda>err. go_ret None))
      | ObjSecretBundle _ \<Rightarrow>
          (case bundle_New A configuration False of
             (client, err) \<Rightarrow>
               go_bind (if err = None then ensure_vault T client (bundle_client L (t_tls T) K (s_secrets S)) obj
                        else go_ret err) (\<lambda>err. go_ret None))
      | ObjServiceBusKey _ \<Rightarrow>
          ensure_mgmt_sync T (sbkey_New F configuration) (sbkey_client L A K (s_servicebus S)) obj
      | ObjServiceBusNamespace _ \<Rightarrow>
          ensure_mgmt T (sb_New F configuration) (sb_client L A (Some K) (s_servicebus S)) obj
      | ObjSQLServer _ \<Rightarrow>
          run_client (sql_New F configuration)
            (EnsureSync L (bo_sql T) (sql_client L A K (s_firewall S) (s_sql S)) obj)
      | ObjStorageKey _ \<Rightarrow>
          ensure_mgmt_sync T (storagekey_New F configuration) (storagekey_client L A K (s_storage S)) obj
      | ObjSubnet _ \<Rightarrow>
          ensure_mgmt T (sn_New F configuration) (sn_client L A (s_subnets S)) obj
      | ObjRedisKey _ \<Rightarrow>
          ensure_mgmt_sync T (rediskey_New F configuration) (rediskey_client L A K (s_redis S)) obj
      | ObjTLSSecret _ \<Rightarrow>
          (case tls_New A configuration False of
             (client, err) \<Rightarrow>
               go_bind (if err = None then ensure_vault T client (tls_client L (t_tls T) K (s_secrets S)) obj
                        else go_ret err) (\<lambda>err. go_ret None))
      | ObjTrafficManager _ \<Rightarrow>
          run_client (tm_New F configuration)
            (EnsureTrafficManager L (bo_mgmt T) (tm_client L A (s_profiles S)) obj)
      | ObjVirtualNetwork _ \<Rightarrow>
          ensure_mgmt T (vn_New F configuration) (vn_client L A (s_vnets S)) obj
      | ObjVM _ \<Rightarrow>
          run_client (vm_New F configuration)
            (EnsureAsync L (bo_vm T)
              (vm_async_client L A (s_machines S) (s_disks S) (s_zones S) (t_intn T) (t_rand_Read T)) obj)
      | _ \<Rightarrow> go_ret None)"

definition cmd_Ensure :: "'w tool \<Rightarrow> config \<Rightarrow> runtime_object \<Rightarrow> ('w, go_error option) go" where
  "cmd_Ensure T configuration obj =
     go_bind (GetKubeclient T) (\<lambda>err.
       if err \<noteq> None then go_ret err
       else
     go_bind (ensure_switch T configuration obj) (\<lambda>err.
       if err \<noteq> None then go_ret err else go_ret None))"

subsection \<open>Delete\<close>

definition delete_switch :: "'w tool \<Rightarrow> config \<Rightarrow> runtime_object \<Rightarrow> ('w, go_error option) go" where
  "delete_switch T configuration obj =
     (let L = t_lib T; A = t_auth T; S = t_sdks T; F = t_factories T; K = s_kube S in
      case obj of
        ObjDeployment _ _ \<Rightarrow> go_ret None
      | ObjDockerConfig _ \<Rightarrow>
          (case docker_New A configuration False of
             (client, err) \<Rightarrow>
               go_bind (if err = None then delete_vault T client (docker_client L (t_marshal T) K (s_secrets S)) obj
                        else go_ret err) (\<lambda>err. go_ret None))
      | ObjIdentity _ \<Rightarrow>
          delete_mgmt_sync T (id_New F configuration) (id_client L A (s_identities S)) obj
      | ObjKeyvault _ \<Rightarrow>
          delete_mgmt_sync T (kv_New F configuration) (kv_client L A (t_uuid T) (s_vaults S)) obj
      | ObjLoadBalancer _ \<Rightarrow>
          delete_mgmt T (lb_New F configuration) (lb_client L A (s_balancers S)) obj
      | ObjNetworkInterface _ \<Rightarrow>
          delete_mgmt T (nic_New F configuration) (nic_client L A (s_nics S)) obj
      | ObjRedis _ \<Rightarrow>
          delete_mgmt T (redis_New F configuration) (redis_client L A (Some K) (s_redis S)) obj
      | ObjResourceGroup _ \<Rightarrow>
          delete_mgmt T (rg_New F configuration) (rg_client L A (s_groups S)) obj
      | ObjSecret _ \<Rightarrow>
          (case secrets_New A configuration False of
             (client, err) \<Rightarrow>
               go_bind (if err = None then delete_vault T client (secret_client L K (s_secrets S)) obj
                        else go_ret err) (\<lambda>err. go_ret None))
      | ObjSecretBundle _ \<Rightarrow>
          (case bundle_New A configuration False of
             (client, err) \<Rightarrow>
               go_bind (if err = None then delete_vault T client (bundle_client L (t_tls T) K (s_secrets S)) obj
                        else go_ret err) (\<lambda>err. go_ret None))
      | ObjServiceBusNamespace _ \<Rightarrow>
          delete_mgmt T (sb_New F configuration) (sb_client L A (Some K) (s_servicebus S)) obj
      | ObjSQLServer _ \<Rightarrow>
          run_client (sql_New F configuration)
            (DeleteSync L (bo_sql T) (sql_client L A K (s_firewall S) (s_sql S)) obj)
      | ObjStorageKey _ \<Rightarrow>
          delete_mgmt_sync T (storagekey_New F configuration) (storagekey_client L A K (s_storage S)) obj
      | ObjSubnet _ \<Rightarrow>
          delete_mgmt T (sn_New F configuration) (sn_client L A (s_subnets S)) obj
      | ObjTLSSecret _ \<Rightarrow>
          (case tls_New A configuration False of
             (client, err) \<Rightarrow>
               go_bind (if err = None then delete_vault T client (tls_client L (t_tls T) K (s_secrets S)) obj
                        else go_ret err) (\<lambda>err. go_ret None))
      | ObjTrafficManager _ \<Rightarrow> go_ret None
      | ObjVirtualNetwork _ \<Rightarrow>
          delete_mgmt T (vn_New F configuration) (vn_client L A (s_vnets S)) obj
      | ObjVM _ \<Rightarrow>
          run_client (vm_New F configuration)
            (DeleteAsync L (bo_vm T)
              (vm_async_client L A (s_machines S) (s_disks S) (s_zones S) (t_intn T) (t_rand_Read T)) obj)
      | _ \<Rightarrow> go_ret None)"

definition cmd_Delete :: "'w tool \<Rightarrow> config \<Rightarrow> runtime_object \<Rightarrow> ('w, go_error option) go" where
  "cmd_Delete T configuration obj =
     go_bind (GetKubeclient T) (\<lambda>err.
       if err \<noteq> None then go_ret err
       else
     go_bind (delete_switch T configuration obj) (\<lambda>err.
       if err \<noteq> None then go_ret err else go_ret None))"

subsection \<open>do\<close>

text \<open>
  \<open>pool_Run limit tasks\<close> is \<open>taskpool.NewPool(tasks, limit).Run()\<close>: it answers the field \<open>Err\<close>
  of every task.
\<close>

type_synonym 'w pool_run = "nat \<Rightarrow> ('w, go_error option) go list \<Rightarrow> ('w, go_error option list) go"

definition limit :: nat where
  "limit = 5"

fun count_errors :: "go_error option list \<Rightarrow> nat \<Rightarrow> nat" where
  "count_errors [] numErrors = numErrors"
| "count_errors (err # errs) numErrors =
     (let numErrors = (if err \<noteq> None then numErrors + 1 else numErrors) in
      if 10 \<le> numErrors then numErrors else count_errors errs numErrors)"

definition do_objects ::
  "'w pool_run \<Rightarrow> runtime_object list \<Rightarrow> (runtime_object \<Rightarrow> ('w, go_error option) go) \<Rightarrow> ('w, go_error option) go" where
  "do_objects pool_Run objects applyFunc =
     go_bind (pool_Run limit (map applyFunc objects)) (\<lambda>errs.
       if 0 < count_errors errs 0
       then go_ret (Some (ErrorText ''one or more resources failed to deploy, check log output for further details''))
       else go_ret None)"

subsection \<open>EnsureOptions\<close>

record EnsureOptions =
  eo_File :: string
  eo_Debug :: bool
  eo_App :: string
  eo_Key :: string
  eo_Tenant :: string

text \<open>Files, with the \<open>Close\<close> of an opened one, and the deserializer of the scheme.\<close>

record 'w files =
  fs_Stdin :: "('w, yaml_reader) go"
  fs_Abs :: "string \<Rightarrow> ('w, string \<times> go_error option) go"
  fs_Open :: "string \<Rightarrow> ('w, (yaml_reader \<times> ('w, go_error option) go) \<times> go_error option) go"
  fs_Decode :: decode_doc

definition opts_authorize :: "auth_lib \<Rightarrow> EnsureOptions \<Rightarrow> go_error + config" where
  "opts_authorize A opts = config_New A [App (eo_App opts), Key (eo_Key opts), Tenant (eo_Tenant opts)]"

definition opts_Read :: "'w files \<Rightarrow> EnsureOptions \<Rightarrow> ('w, go_error + runtime_object list) go" where
  "opts_Read F opts =
     (if eo_File opts = '''' then go_ret (Inl (ErrorText ''must provide non-empty filepath''))
      else if eo_File opts = ''-'' then
        go_bind (fs_Stdin F) (\<lambda>stdin. read_and_close (NewYAMLDecoder (fs_Decode F) (stdin, go_ret None)))
      else
        go_bind (fs_Abs F (eo_File opts)) (\<lambda>(path, err). case err of
           Some e \<Rightarrow> go_ret (Inl e)
         | None \<Rightarrow>
        go_bind (fs_Open F path) (\<lambda>(reader, err). case err of
           Some e \<Rightarrow> go_ret (Inl e)
         | None \<Rightarrow> read_and_close (NewYAMLDecoder (fs_Decode F) reader))))"

definition opts_run ::
  "auth_lib \<Rightarrow> 'w files \<Rightarrow> 'w pool_run \<Rightarrow> EnsureOptions \<Rightarrow>
   (config \<Rightarrow> runtime_object \<Rightarrow> ('w, go_error option) go) \<Rightarrow> ('w, go_error option) go" where
  "opts_run A F pool_Run opts apply_config =
     go_bind (opts_Read F opts) (\<lambda>r. case r of
        Inl err \<Rightarrow> go_ret (Some err)
      | Inr objects \<Rightarrow>
          (case opts_authorize A opts of
             Inl err \<Rightarrow> go_ret (Some err)
           | Inr configuration \<Rightarrow> do_objects pool_Run objects (apply_config configuration)))"

definition opts_Ensure :: "'w tool \<Rightarrow> 'w files \<Rightarrow> 'w pool_run \<Rightarrow> EnsureOptions \<Rightarrow> ('w, go_error option) go" where
  "opts_Ensure T F pool_Run opts = opts_run (t_auth T) F pool_Run opts (cmd_Ensure T)"

definition opts_Delete :: "'w tool \<Rightarrow> 'w files \<Rightarrow> 'w pool_run \<Rightarrow> EnsureOptions \<Rightarrow> ('w, go_error option) go" where
  "opts_Delete T F pool_Run opts = opts_run (t_auth T) F pool_Run opts (cmd_Delete T)"

subsection \<open>Lemmas\<close>

lemma count_errors_eq:
  "n < 10 \<Longrightarrow> count_errors errs n = min 10 (n + length (filter (\<lambda>e. e \<noteq> None) errs))"
  by (induction errs arbitrary: n) (auto simp: Let_def)

lemma count_errors_zero: "count_errors errs 0 = 0 \<longleftrightarrow> (\<forall>e\<in>set errs. e = None)"
proof -
  have "count_errors errs 0 = 0 \<longleftrightarrow> filter (\<lambda>e. e \<noteq> None) errs = []"
    by (simp add: count_errors_eq min_def) (metis le_zero_eq list.size(3) zero_neq_numeral)
  then show ?thesis by (simp add: filter_empty_conv)
qed

text \<open>The documented behaviour of the pool: every task has run, and its error is recorded.\<close>

definition pool_ok :: "'w pool_run \<Rightarrow> bool" where
  "pool_ok pool_Run \<longleftrightarrow>
     (\<forall>n tasks w errs w'. pool_Run n tasks w = (Returns errs, w') \<longrightarrow>
        length errs = length tasks \<and> (\<forall>i<length tasks. \<exists>w1 w2. (tasks ! i) w1 = (Returns (errs ! i), w2)))"

text \<open>An instance: one task after the other.\<close>

fun run_all :: "('w, 'a) go list \<Rightarrow> ('w, 'a list) go" where
  "run_all [] = go_ret []"
| "run_all (task # tasks) = go_bind task (\<lambda>err. go_bind (run_all tasks) (\<lambda>errs. go_ret (err # errs)))"

lemma run_all_results:
  "run_all tasks w = (Returns errs, w') \<Longrightarrow>
   length errs = length tasks \<and> (\<forall>i<length tasks. \<exists>w1 w2. (tasks ! i) w1 = (Returns (errs ! i), w2))"
proof (induction tasks arbitrary: w errs)
  case (Cons task tasks)
  then obtain err w1 rest where head: "task w = (Returns err, w1)" and tail: "run_all tasks w1 = (Returns rest, w')"
    and errs: "errs = err # rest"
    by (auto simp: go_returns)
  from Cons.IH [OF tail] head errs show ?case
    by (auto simp: nth_Cons split: nat.split)
qed (simp add: go_returns)

lemma pool_ok_run_all: "pool_ok (\<lambda>n. run_all)"
  using run_all_results unfolding pool_ok_def by blast

lemma do_objects_success:
  assumes "pool_ok pool_Run" and "do_objects pool_Run objects f w = (Returns None, w')" and "obj \<in> set objects"
  shows "\<exists>w1 w2. f obj w1 = (Returns None, w2)"
proof -
  obtain errs where pool: "pool_Run limit (map f objects) w = (Returns errs, w')" and "count_errors errs 0 = 0"
    using assms(2) by (auto simp: do_objects_def go_returns split: if_splits)
  then have none: "e = None" if "e \<in> set errs" for e
    using that by (simp add: count_errors_zero)
  have run: "length errs = length objects" "\<forall>i<length objects. \<exists>w1 w2. f (objects ! i) w1 = (Returns (errs ! i), w2)"
    using assms(1)[unfolded pool_ok_def, rule_format, OF pool] by auto
  from assms(3) obtain i where i: "i < length objects" "objects ! i = obj" by (auto simp: in_set_conv_nth)
  moreover have "errs ! i = None" using i run(1) by (intro none) simp
  ultimately show ?thesis using run(2) by fastforce
qed

lemma do_objects_failure:
  assumes "pool_Run limit (map f objects) w = (Returns errs, w')"
  shows "do_objects pool_Run objects f w =
    (Returns (if \<exists>e\<in>set errs. e \<noteq> None
              then Some (ErrorText ''one or more resources failed to deploy, check log output for further details'')
              else None), w')"
  using assms by (auto simp: do_objects_def go_simps count_errors_zero simp flip: neq0_conv)

text \<open>A run that succeeds has read every document and applied every object without an error.\<close>

lemma opts_run_success:
  assumes "pool_ok pool_Run" and "opts_run A F pool_Run opts f w = (Returns None, w')"
  shows "\<exists>objects configuration w1. opts_Read F opts w = (Returns (Inr objects), w1) \<and>
    opts_authorize A opts = Inr configuration \<and>
    (\<forall>obj\<in>set objects. \<exists>w1 w2. f configuration obj w1 = (Returns None, w2))"
  using assms(2) do_objects_success [OF assms(1)]
  by (fastforce simp: opts_run_def go_returns early_return_Returns)

text \<open>For the kinds that declare their own \<open>err\<close>, the tool never reports a failure.\<close>

lemma cmd_Ensure_vault_kinds:
  assumes "kind_of obj \<in> {KDockerConfig, KSecret, KSecretBundle, KTLSSecret}"
    and "GetKubeclient T w = (Returns None, w1)" "cmd_Ensure T cfg obj w = (Returns err, w')"
  shows "err = None"
  using assms
  by (cases obj) (auto simp: cmd_Ensure_def ensure_switch_def Let_def go_simps go_returns split: prod.splits option.splits)

lemma cmd_Delete_vault_kinds:
  assumes "kind_of obj \<in> {KDockerConfig, KSecret, KSecretBundle, KTLSSecret}"
    and "GetKubeclient T w = (Returns None, w1)" "cmd_Delete T cfg obj w = (Returns err, w')"
  shows "err = None"
  using assms
  by (cases obj) (auto simp: cmd_Delete_def delete_switch_def Let_def go_simps go_returns split: prod.splits option.splits)

text \<open>These kinds are reported as deleted and nothing was done.\<close>

lemma cmd_Delete_ignored_kinds:
  assumes "kind_of obj \<in> {KTrafficManager, KRedisKey, KServiceBusKey, KPublicIP, KSecurityGroup, KStorageAccount,
      KSQLFirewallRule, KVMScaleSet, KDeployment}"
    and "GetKubeclient T w = (Returns None, w1)"
  shows "cmd_Delete T cfg obj w = (Returns None, w1)"
  using assms by (cases obj) (auto simp: cmd_Delete_def delete_switch_def Let_def go_simps)

text \<open>A resource group that the tool reports as ensured was ensured.\<close>

lemma cmd_Ensure_group:
  assumes "backoff_ok sleep (bo_mgmt T)" and "cmd_Ensure T cfg (ObjResourceGroup x) w = (Returns None, w')"
  shows "\<exists>c1 w1 obj1 obj2. clear_status obj1 = clear_status (ObjResourceGroup x) \<and>
    rg_Ensure (t_lib T) (s_groups (t_sdks T)) c1 obj1 w1 = (Returns (obj2, True, None), w')"
proof -
  let ?az = "rg_client (t_lib T) (t_auth T) (s_groups (t_sdks T))"
  obtain w0 c' where run: "EnsureAsync (t_lib T) (bo_mgmt T) ?az (ObjResourceGroup x)
      (rg_NewWithFactory cfg (f_groups (t_factories T)), w0) = (Returns None, (c', w'))"
    using assms(2)
    by (auto simp: cmd_Ensure_def ensure_switch_def ensure_mgmt_def Let_def go_returns split: if_splits)
  from strict_async_client.EnsureAsync_success [OF rg.strict_async_client_axioms assms(1) run]
  show ?thesis by (auto simp: rg_client_def go_returns)
qed

text \<open>
  A named file is read like the reference decoder reads its documents and is closed once, after
  the last read, whether the documents decode or not; an error of \<open>Close\<close> is not reported.
\<close>

lemma opts_Read_closes:
  assumes "eo_File opts \<noteq> ''''" and "eo_File opts \<noteq> ''-''"
    and "fs_Abs F (eo_File opts) w = (Returns (path, None), w1)"
    and "fs_Open F path w1 = (Returns ((reader_of docs, close), None), w2)"
    and "close w2 = (Returns err, w3)"
  shows "opts_Read F opts w =
    (Returns (decode_all (fs_Decode F) (filter (\<lambda>d. \<not> blank d) docs)), w3)"
  using assms
  by (cases "decode_all (fs_Decode F) (filter (\<lambda>d. \<not> blank d) docs)")
    (simp_all add: opts_Read_def go_returns read_and_close_def NewYAMLDecoder_def Close_decoder_def read_objects_eq)

text \<open>A file that does not open is never closed.\<close>

lemma opts_Read_not_opened:
  assumes "eo_File opts \<noteq> ''''" and "eo_File opts \<noteq> ''-''"
    and "fs_Abs F (eo_File opts) w = (Returns (path, None), w1)"
    and "fs_Open F path w1 = (Returns (f, Some e), w2)"
  shows "opts_Read F opts w = (Returns (Inl e), w2)"
  using assms by (simp add: opts_Read_def go_returns)

end
