(* ===== verification/Manager.thy ===== *)
theory Manager
imports Controllers Ensure_Cmd PublicIPs SecurityGroups
begin

section \<open>The manager (main.go)\<close>

text \<open>
  \<open>main\<close>: the configuration, the two clients of the key vault, a reconciler with a client for each
  controller it registers, and the start of the manager.
\<close>

subsection \<open>The global clients\<close>

text \<open>
  \<open>None\<close> is \<open>os.Exit(1)\<close>.  A configuration that cannot be made is logged only; the nil pointer
  is then read by \<open>secrets.New\<close>.  The client of the API server is never nil.
\<close>

definition main_clients :: "auth_lib \<Rightarrow> (config \<times> vault_client option \<times> vault_client option) option outcome" where
  "main_clients A =
     (case config_New A [] of
        Inl err \<Rightarrow> Panics
      | Inr configuration \<Rightarrow>
          (case secrets_New A configuration False of
             (_, Some err) \<Rightarrow> Returns None
           | (secretsclient, None) \<Rightarrow>
          (case tls_New A configuration False of
             (_, Some err) \<Rightarrow> Returns None
           | (tlssecretsclient, None) \<Rightarrow> Returns (Some (configuration, secretsclient, tlssecretsclient)))))"

subsection \<open>The reconcilers\<close>

text \<open>
  The state of a reconciler is its client, made with the configuration, and the world.
\<close>

definition main_ResourceGroup where
  "main_ResourceGroup T kb = ResourceGroupReconciler_Reconcile (t_lib T) kb
     (rg_client (t_lib T) (t_auth T) (s_groups (t_sdks T)))"

definition main_Keyvault where
  "main_Keyvault T kb = KeyvaultReconciler_Reconcile (t_lib T) kb
     (kv_client (t_lib T) (t_auth T) (t_uuid T) (s_vaults (t_sdks T)))"

definition main_Secret where
  "main_Secret T kb = SecretReconciler_Reconcile (t_lib T) kb
     (tls_client (t_lib T) (t_tls T) (s_kube (t_sdks T)) (s_secrets (t_sdks T)))"

definition main_TLSSecret where
  "main_TLSSecret T kb = TLSSecretReconciler_Reconcile (t_lib T) kb
     (tls_client (t_lib T) (t_tls T) (s_kube (t_sdks T)) (s_secrets (t_sdks T)))"

definition main_SecretBundle where
  "main_SecretBundle T kb = SecretBundleReconciler_Reconcile (t_lib T) kb
     (secret_client (t_lib T) (s_kube (t_sdks T)) (s_secrets (t_sdks T)))"

definition main_VirtualNetwork where
  "main_VirtualNetwork T kb = VirtualNetworkReconciler_Reconcile (t_lib T) kb
     (vn_client (t_lib T) (t_auth T) (s_vnets (t_sdks T)))"

definition main_Subnet where
  "main_Subnet T kb = SubnetReconciler_Reconcile (t_lib T) kb
     (sn_client (t_lib T) (t_auth T) (s_subnets (t_sdks T)))"

definition main_SecurityGroup where
  "main_SecurityGroup T S kb = SecurityGroupReconciler_Reconcile (t_lib T) kb (sg_client (t_lib T) (t_auth T) S)"

definition main_PublicIP where
  "main_PublicIP T S kb = PublicIPReconciler_Reconcile (t_lib T) kb (pip_client (t_lib T) (t_auth T) S)"

definition main_NetworkInterface where
  "main_NetworkInterface T kb = NetworkInterfaceReconciler_Reconcile (t_lib T) kb
     (nic_client (t_lib T) (t_auth T) (s_nics (t_sdks T)))"

definition main_TrafficManager where
  "main_TrafficManager T kb = tm_Reconcile (t_lib T) kb
     (tm_client (t_lib T) (t_auth T) (s_profiles (t_sdks T)))"

definition main_Redis where
  "main_Redis T kb = RedisReconciler_Reconcile (t_lib T) kb
     (redis_client (t_lib T) (t_auth T) (Some (s_kube (t_sdks T))) (s_redis (t_sdks T)))"

definition main_ServiceBusNamespace where
  "main_ServiceBusNamespace T kb = ServiceBusNamespaceReconciler_Reconcile (t_lib T) kb
     (sb_client (t_lib T) (t_auth T) (Some (s_kube (t_sdks T))) (s_servicebus (t_sdks T)))"

definition main_VM where
  "main_VM T kb = VMReconciler_Reconcile (t_lib T) kb
     (vm_async_client (t_lib T) (t_auth T) (s_machines (t_sdks T)) (s_disks (t_sdks T)) (s_zones (t_sdks T))
       (t_intn T) (t_rand_Read T))"

definition main_SQLServer where
  "main_SQLServer T kb = SQLServerReconciler_Reconcile (t_lib T) kb
     (sql_client (t_lib T) (t_auth T) (s_kube (t_sdks T)) (s_firewall (t_sdks T)) (s_sql (t_sdks T)))"

definition main_SQLFirewallRule where
  "main_SQLFirewallRule T kb = SQLFirewallRuleReconciler_Reconcile (t_lib T) kb
     (fw_client (t_lib T) (t_auth T) (s_firewall (t_sdks T)))"

subsection \<open>The start of the manager\<close>

text \<open>
  The operations of controller-runtime \<open>main\<close> calls: \<open>ctrl.GetConfigOrDie\<close> and \<open>ctrl.NewManager\<close>,
  \<open>Complete\<close> of a controller builder, and \<open>mgr.Start\<close>; only their errors matter here.
\<close>

record 'w manager_ops =
  mgr_GetConfig :: "('w, go_error option) go"
  mgr_NewManager :: "('w, go_error option) go"
  mgr_Complete :: "controller_setup \<Rightarrow> ('w, go_error option) go"
  mgr_Start :: "('w, go_error option) go"

text \<open>The controllers in the order they are registered.\<close>

definition main_setups :: "controller_setup list" where
  "main_setups =
     [ResourceGroupReconciler_SetupWithManager, KeyvaultReconciler_SetupWithManager,
      SecretReconciler_SetupWithManager, TLSSecretReconciler_SetupWithManager,
      SecretBundleReconciler_SetupWithManager, VirtualNetworkReconciler_SetupWithManager,
      SubnetReconciler_SetupWithManager, SecurityGroupReconciler_SetupWithManager,
      PublicIPReconciler_SetupWithManager, NetworkInterfaceReconciler_SetupWithManager,
      TrafficManagerReconciler_SetupWithManager, RedisReconciler_SetupWithManager,
      ServiceBusNamespaceReconciler_SetupWithManager, VMReconciler_SetupWithManager,
      SQLServerReconciler_SetupWithManager, SQLFirewallRuleReconciler_SetupWithManager]"

fun main_register :: "'w manager_ops \<Rightarrow> controller_setup list \<Rightarrow> ('w, bool) go" where
  "main_register M [] = go_ret True"
| "main_register M (setup # setups) =
     go_bind (mgr_Complete M setup) (\<lambda>err. if err \<noteq> None then go_ret False else main_register M setups)"

text \<open>The result is the exit code of the process.\<close>

definition main_start :: "'w manager_ops \<Rightarrow> ('w, nat) go" where
  [simp]: "main_start M = go_bind (mgr_Start M) (\<lambda>err. go_ret (if err \<noteq> None then 1 else 0))"

definition main_run :: "auth_lib \<Rightarrow> 'w manager_ops \<Rightarrow> ('w, nat) go" where
  "main_run A M =
     go_bind (mgr_GetConfig M) (\<lambda>err. if err \<noteq> None then go_ret 1 else
     go_bind (mgr_NewManager M) (\<lambda>err. if err \<noteq> None then go_ret 1 else
     (case main_clients A of
        Panics \<Rightarrow> go_panic
      | Returns None \<Rightarrow> go_ret 1
      | Returns (Some clients) \<Rightarrow>
     go_bind (main_register M main_setups) (\<lambda>ok. if \<not> ok then go_ret 1 else
     main_start M))))"

subsection \<open>Lemmas\<close>

text \<open>The options that would set the credentials are not given: there are none.\<close>

lemma main_configuration:
  assumes "config_New A [] = Inr cfg"
  shows "GetAuthorizerFromArgs A cfg =
      Inl (ErrorText ''app, tenant, and key must all be provided as options for authenticating with args'')"
    and "GetKeyvaultAuthorizer A cfg =
      Inl (ErrorText ''app, tenant, and key must all be provided as options for authenticating with args'')"
proof -
  from assms have "validateArgs cfg =
      Some (ErrorText ''app, tenant, and key must all be provided as options for authenticating with args'')"
    by (auto simp: config_New_def validateArgs_def split: sum.splits)
  then show "GetAuthorizerFromArgs A cfg =
      Inl (ErrorText ''app, tenant, and key must all be provided as options for authenticating with args'')"
    and "GetKeyvaultAuthorizer A cfg =
      Inl (ErrorText ''app, tenant, and key must all be provided as options for authenticating with args'')"
    by (simp_all add: GetAuthorizerFromArgs_def GetKeyvaultAuthorizer_def GetAuthorizerFromArgsForResource_def)
qed

text \<open>So the manager starts with nil clients of the key vault.\<close>

lemma main_clients_nil:
  assumes "config_New A [] = Inr cfg"
  shows "main_clients A = Returns (Some (cfg, None, None))"
  using main_configuration(2) [OF assms]
  by (simp add: main_clients_def assms secrets_New_def tls_New_def)

text \<open>And its management clients are never authorized.\<close>

lemma main_unauthorized:
  assumes "config_New A [] = Inr cfg" "mc_config c = cfg"
  shows "authorize_for A c sub = (c\<lparr>mc_internal := mc_factory c sub\<rparr>, None)"
  using main_configuration(1) [OF assms(1)] assms(2) by (simp add: authorize_for_silent)

text \<open>A client that refuses the object makes no progress, on a live or a deleted object.\<close>

definition refuses :: "'s SyncClient \<Rightarrow> runtime_object \<Rightarrow> bool" where
  "refuses az obj \<longleftrightarrow>
     (\<forall>s. sync_Ensure az obj s = (Returns (obj, Some (kind_error obj)), s) \<and>
          sync_Delete az obj s = (Returns (obj, Some (kind_error obj)), s))"

lemma multierror_some: "lib_ok L \<Longrightarrow> \<exists>m. multierror L [Some e, err] = Some m"
  using multierror_pair [of L "Some e" err] by (cases "multierror L [Some e, err]") simp_all

lemma sync_steps_refused:
  assumes "lib_ok L" "refuses az obj"
  shows "sync_ensure_step L kb az obj s = (Returns (res, err), s') \<Longrightarrow> err \<noteq> None"
    and "sync_delete_step L kb az obj s = (Returns (res, err), s') \<Longrightarrow> err \<noteq> None"
proof -
  have az: "sync_Ensure az obj s = (Returns (obj, Some (kind_error obj)), s)"
      "sync_Delete az obj s = (Returns (obj, Some (kind_error obj)), s)"
    using assms(2) by (simp_all add: refuses_def)
  show "err \<noteq> None" if "sync_ensure_step L kb az obj s = (Returns (res, err), s')"
    using that multierror_some [OF assms(1), of "kind_error obj"]
    by (fastforce simp: sync_ensure_step_def az(1) go_returns Let_def)
  show "err \<noteq> None" if run: "sync_delete_step L kb az obj s = (Returns (res, err), s')"
  proof -
    obtain obj2 updateErr s1 where "(case multierror L [Some (kind_error obj), updateErr] of
          Some err \<Rightarrow> failed_delete_step L kb obj2 err
        | None \<Rightarrow> remove_finalizer_step kb obj2) s1 = (Returns (res, err), s')"
      using run by (auto simp: sync_delete_step_def az(2) go_returns)
    then show ?thesis
      using multierror_some [OF assms(1), of "kind_error obj" updateErr]
      by (auto simp: failed_delete_step_def go_returns)
  qed
qed

lemma sync_Reconcile_refused:
  assumes "lib_ok L" and "kb_Get kb req k s = (Returns (obj, None), s1)" and "refuses az obj"
    and "HasFinalizer (obj_meta obj) finalizerName"
    and "sync_Reconcile L kb az req k s = (Returns (res, err), s')"
  shows "err \<noteq> None"
  using assms(2,4,5) sync_steps_refused [OF assms(1,3)]
  by (auto simp: sync_Reconcile_def go_bind_step go_returns split: option.splits if_splits)

lemma tls_client_refuses: "kind_of obj \<noteq> KTLSSecret \<Longrightarrow> refuses (tls_client L T K V) obj"
  by (cases obj)
    (simp_all add: refuses_def tls_client_def on_world_def tls_Ensure_def tls_Delete_def tls_convert_def go_ret_def)

lemma secret_client_refuses: "kind_of obj \<noteq> KSecret \<Longrightarrow> refuses (secret_client L K V) obj"
  by (cases obj)
    (simp_all add: refuses_def secret_client_def on_world_def secret_Ensure_def secret_Delete_def secret_convert_def
      go_ret_def)

text \<open>The controllers of the three kinds of the key vault never reconcile one of their objects.\<close>

lemma main_Secret_fails:
  assumes "lib_ok (t_lib T)" and "kb_Get kb req KSecret s = (Returns (obj, None), s1)" and "kind_of obj = KSecret"
    and "HasFinalizer (obj_meta obj) finalizerName" and "main_Secret T kb req s = (Returns (res, err), s')"
  shows "err \<noteq> None"
  using sync_Reconcile_refused [OF assms(1,2) tls_client_refuses assms(4)] assms(3,5)
  by (simp add: main_Secret_def SecretReconciler_Reconcile_def)

lemma main_SecretBundle_fails:
  assumes "lib_ok (t_lib T)" and "kb_Get kb req KSecretBundle s = (Returns (obj, None), s1)" and "kind_of obj = KSecretBundle"
    and "HasFinalizer (obj_meta obj) finalizerName" and "main_SecretBundle T kb req s = (Returns (res, err), s')"
  shows "err \<noteq> None"
  using sync_Reconcile_refused [OF assms(1,2) secret_client_refuses assms(4)] assms(3,5)
  by (simp add: main_SecretBundle_def SecretBundleReconciler_Reconcile_def)

text \<open>The controller of the TLS secrets looks for a \<open>Secret\<close> with the name of the TLS secret, and
  is content when there is none.\<close>

lemma main_TLSSecret_ignores:
  assumes "lib_ok (t_lib T)" and "kb_GVKForObject kb KSecret = None"
    and "kb_Get kb req KSecret s = (Returns (obj, Some e), s1)" "IsNotFound (t_lib T) e"
  shows "main_TLSSecret T kb req s = (Returns (no_requeue, None), s1)"
  using assms
  by (simp add: main_TLSSecret_def TLSSecretReconciler_Reconcile_def sync_Reconcile_def go_simps lib_okD)

text \<open>The controllers whose watched kind is not the kind they fetch.\<close>

lemma watched_kinds:
  "cs_For TLSSecretReconciler_SetupWithManager = KTLSSecret"
  "cs_For RedisSecretReconciler_SetupWithManager = KRedisKey"
  "cs_For ServiceBusSecretReconciler_SetupWithManager = KServiceBusKey"
  by (simp_all add: TLSSecretReconciler_SetupWithManager_def RedisSecretReconciler_SetupWithManager_def
      ServiceBusSecretReconciler_SetupWithManager_def)

text \<open>No kind has two controllers; the other custom resources have none, although there are
  controllers for some of them.\<close>

lemma main_setups_kinds: "distinct (map cs_For main_setups)"
  by code_simp

lemma main_setups_missing:
  "set [KIdentity, KLoadBalancer, KRedisKey, KServiceBusKey, KStorageAccount, KStorageKey, KDockerConfig, KVMScaleSet] \<inter>
     set (map cs_For main_setups) = {}"
  by code_simp

lemma main_register_all:
  "main_register M setups w = (Returns True, w') \<Longrightarrow> setup \<in> set setups \<Longrightarrow>
   \<exists>w1 w2. mgr_Complete M setup w1 = (Returns None, w2)"
  by (induction setups arbitrary: w) (auto simp: go_returns split: if_splits)

text \<open>The process ends with code 0 only after every controller was registered and the manager was
  stopped without an error; without settings of the environment it never gets that far.\<close>

lemma main_run_zero:
  assumes "main_run A M w = (Returns 0, w')"
  shows "(\<exists>cfg. config_New A [] = Inr cfg) \<and> (\<exists>w1. mgr_Start M w1 = (Returns None, w')) \<and>
    (\<forall>setup\<in>set main_setups. \<exists>w1 w2. mgr_Complete M setup w1 = (Returns None, w2))"
proof -
  obtain clients w1 w2 where c: "main_clients A = Returns (Some clients)"
      and r: "main_register M main_setups w1 = (Returns True, w2)" and m: "mgr_Start M w2 = (Returns None, w')"
    using assms by (auto simp: main_run_def go_returns split: if_splits outcome.splits option.splits)
  have "\<exists>cfg. config_New A [] = Inr cfg"
    using c by (auto simp: main_clients_def split: sum.splits)
  with m main_register_all [OF r] show ?thesis by auto
qed

end
