(* ===== verification/Roles.thy ===== *)
theory Roles imports Identities begin

section \<open>Roles (pkg/clients/roles)\<close>

text \<open>
  The spec of the package, which is the one of the managed identities; there is no client, and
  nothing uses it.  \<open>pkg/clients/serviceprincipals\<close> has no code at all.
\<close>

definition roles_NewSpec :: identity_resource where
  "roles_NewSpec = zero_identity"

definition roles_NewSpecWithRemote :: "identity_resource \<Rightarrow> identity_resource" where
  "roles_NewSpecWithRemote remote = remote"

definition roles_Build :: "identity_resource \<Rightarrow> identity_resource" where
  "roles_Build s = s"

definition roles_NeedsUpdate :: "identity_resource \<Rightarrow> VirtualNetwork \<Rightarrow> bool" where
  "roles_NeedsUpdate s local = False"

definition roles_Name :: "identity_resource \<Rightarrow> string option" where
  "roles_Name s = idr_Name s"

definition roles_Location :: "identity_resource \<Rightarrow> string option" where
  "roles_Location s = idr_Location s"

definition roles_ID :: "identity_resource \<Rightarrow> string option" where
  "roles_ID s = idr_ID s"

text \<open>\<open>remediators[idx]\<close> panics when there are fewer remediators than detectors.\<close>

fun roles_initialize :: "('s, bool) go list \<Rightarrow> ('s, unit) go list \<Rightarrow> ('s, unit) go" where
  "roles_initialize [] remediators = go_ret ()"
| "roles_initialize (f # detectors) remediators =
     go_bind f (\<lambda>b.
       if b then (case remediators of
                    [] \<Rightarrow> go_panic
                  | r # rest \<Rightarrow> go_bind r (\<lambda>_. roles_initialize detectors rest))
       else roles_initialize detectors (tl remediators))"

lemma roles_initialize_eq: "roles_initialize detectors remediators = Initialize detectors remediators"
  by (induction detectors arbitrary: remediators) (simp_all cong: if_cong list.case_cong)

end
