(* ===== verification/Commands.thy ===== *)
theory Commands imports Ensure_Cmd begin

section \<open>The commands (cmd/main.go and cmd/ensure)\<close>

text \<open>
  The cobra commands the tool is made of.  Parsing the command line is cobra's: it fills the
  options from the flags, refuses a call without the required ones, and runs the command.  The
  result of a run is the exit code of the process.
\<close>

text \<open>A flag: long name, shorthand, and the field of the options it sets.\<close>

datatype target = DebugFlag | FileFlag | AppFlag | KeyFlag | TenantFlag

record 'w command =
  cob_Use :: string
  cob_Short :: string
  cob_Flags :: "(string \<times> string \<times> target) list"
  cob_Required :: "string list"
  cob_Run :: "EnsureOptions \<Rightarrow> ('w, nat) go"

definition exit_code :: "go_error option \<Rightarrow> nat" where
  "exit_code err = (if err \<noteq> None then 1 else 0)"

definition NewEnsureCommand :: "'w tool \<Rightarrow> 'w files \<Rightarrow> 'w pool_run \<Rightarrow> 'w command" where
  "NewEnsureCommand T F pool_Run = \<lparr>
     cob_Use = ''ensure'',
     cob_Short = ''Ensure reconciles actual resource state to match desired'',
     cob_Flags = [(''debug'', ''d'', DebugFlag), (''file'', ''f'', FileFlag), (''AppId'', '''', AppFlag),
       (''AppKey'', '''', KeyFlag), (''AppTenant'', '''', TenantFlag)],
     cob_Required = [''file'', ''AppId'', ''AppKey'', ''AppTenant''],
     cob_Run = (\<lambda>opts. go_bind (opts_Ensure T F pool_Run opts) (\<lambda>err. go_ret (exit_code err)))\<rparr>"

definition NewDeleteCommand :: "'w tool \<Rightarrow> 'w files \<Rightarrow> 'w pool_run \<Rightarrow> 'w command" where
  "NewDeleteCommand T F pool_Run = \<lparr>
     cob_Use = ''delete'',
     cob_Short = ''Delete enforces deletion of supplied resources.'',
     cob_Flags = [(''debug'', ''d'', DebugFlag), (''file'', ''f'', FileFlag), (''AppId'', '''', AppFlag),
       (''AppKey'', '''', KeyFlag), (''AppTenant'', '''', TenantFlag)],
     cob_Required = [''file'', ''AppId'', ''AppKey'', ''AppTenant''],
     cob_Run = (\<lambda>opts. go_bind (opts_Delete T F pool_Run opts) (\<lambda>err. go_ret (exit_code err)))\<rparr>"

definition NewVersionCommand :: "(string \<Rightarrow> ('w, unit) go) \<Rightarrow> string \<Rightarrow> 'w command" where
  "NewVersionCommand fmt_Print version = \<lparr>
     cob_Use = ''version'', cob_Short = '''', cob_Flags = [], cob_Required = [],
     cob_Run = (\<lambda>opts. go_bind (fmt_Print (''Version: '' @ version @ [CHR 0x0A])) (\<lambda>_. go_ret 0))\<rparr>"

text \<open>The commands below the root, in the order they are added.\<close>

definition NewRootCommand ::
  "'w tool \<Rightarrow> 'w files \<Rightarrow> 'w pool_run \<Rightarrow> (string \<Rightarrow> ('w, unit) go) \<Rightarrow> string \<Rightarrow> 'w command list" where
  "NewRootCommand T F pool_Run fmt_Print version =
     [NewVersionCommand fmt_Print version, NewEnsureCommand T F pool_Run, NewDeleteCommand T F pool_Run]"

text \<open>\<open>cobra_Execute\<close> picks a command and runs it, or answers an error without running one.\<close>

definition cmd_main ::
  "('w command list \<Rightarrow> ('w, go_error + nat) go) \<Rightarrow> 'w tool \<Rightarrow> 'w files \<Rightarrow> 'w pool_run \<Rightarrow>
   (string \<Rightarrow> ('w, unit) go) \<Rightarrow> string \<Rightarrow> ('w, nat) go" where
  "cmd_main cobra_Execute T F pool_Run fmt_Print version =
     go_bind (cobra_Execute (NewRootCommand T F pool_Run fmt_Print version)) (\<lambda>r. case r of
        Inl err \<Rightarrow> go_ret 1
      | Inr code \<Rightarrow> go_ret code)"

subsection \<open>Lemmas\<close>

text \<open>Every required flag is a flag of the command.\<close>

lemma required_flags_exist:
  "set (cob_Required (NewEnsureCommand T F pool_Run)) \<subseteq> set (map fst (cob_Flags (NewEnsureCommand T F pool_Run)))"
  "set (cob_Required (NewDeleteCommand T F pool_Run)) \<subseteq> set (map fst (cob_Flags (NewDeleteCommand T F pool_Run)))"
  by (simp_all add: NewEnsureCommand_def NewDeleteCommand_def)

lemma command_names_distinct:
  "distinct (map cob_Use (NewRootCommand T F pool_Run fmt_Print version))"
  by (simp add: NewRootCommand_def NewEnsureCommand_def NewDeleteCommand_def NewVersionCommand_def)

text \<open>Exit code 0 of \<open>ensure\<close> means that every object of the file was applied without an error.\<close>

lemma ensure_exit_zero:
  assumes "pool_ok pool_Run" and "cob_Run (NewEnsureCommand T F pool_Run) opts w = (Returns 0, w')"
  shows "\<exists>objects configuration w1. opts_Read F opts w = (Returns (Inr objects), w1) \<and>
    opts_authorize (t_auth T) opts = Inr configuration \<and>
    (\<forall>obj\<in>set objects. \<exists>w1 w2. cmd_Ensure T configuration obj w1 = (Returns None, w2))"
proof -
  have "opts_run (t_auth T) F pool_Run opts (cmd_Ensure T) w = (Returns None, w')"
    using assms(2)
    by (auto simp: NewEnsureCommand_def exit_code_def opts_Ensure_def go_returns split: if_splits)
  then show ?thesis by (rule opts_run_success [OF assms(1)])
qed

end
