(* ===== verification/Convergence.thy ===== *)
theory Convergence imports ResourceGroups begin

section \<open>Reconciling until nothing is left to do\<close>

text \<open>
  What the reconciler is for: with an API server and an Azure that serve it, repeated
  reconciles bring a live object to "reconciled" and remove the finalizer of a deleted one.
  \<open>left\<close> counts the calls Azure still needs; each reconcile brings it down by one.
\<close>

subsection \<open>An API server and a client that make progress\<close>

text \<open>
  The API server returns what it stores, accepts updates, keeps the metadata on a status update
  and removes a deleted object with its last finalizer.
\<close>

definition api_server_serves ::
  "'k kube \<Rightarrow> namespaced_name \<Rightarrow> kind \<Rightarrow> ('k \<Rightarrow> runtime_object option) \<Rightarrow> bool" where
  "api_server_serves kb req k stored \<longleftrightarrow>
     kb_GVKForObject kb k = None \<and> (\<forall>obj. kb_Accessor kb obj = None) \<and>
     (\<forall>obj s. stored s = Some obj \<longrightarrow> kb_Get kb req k s = (Returns (obj, None), s)) \<and>
     (\<forall>obj old s. stored s = Some old \<and> obj_meta obj = obj_meta old \<longrightarrow>
        (\<exists>s'. kb_StatusUpdate kb obj s = (Returns (obj, None), s') \<and> stored s' = Some obj)) \<and>
     (\<forall>obj old s. stored s = Some old \<longrightarrow>
        (\<exists>s'. kb_Update kb obj s = (Returns (obj, None), s') \<and>
           stored s' = (if deleting obj \<and> om_Finalizers (obj_meta obj) = [] then None else Some obj))) \<and>
     (\<forall>obj ty reason msg s. \<exists>s'. kb_Event kb obj ty reason msg s = (Returns (), s') \<and> stored s' = stored s)"

lemma api_server_servesD:
  assumes "api_server_serves kb req k stored"
  shows "kb_GVKForObject kb k = None" and "kb_Accessor kb obj = None"
    and "stored s = Some obj \<Longrightarrow> kb_Get kb req k s = (Returns (obj, None), s)"
    and "stored s = Some old \<Longrightarrow> obj_meta obj = obj_meta old \<Longrightarrow>
      \<exists>s'. kb_StatusUpdate kb obj s = (Returns (obj, None), s') \<and> stored s' = Some obj"
    and "stored s = Some old \<Longrightarrow> \<exists>s'. kb_Update kb obj s = (Returns (obj, None), s') \<and>
      stored s' = (if deleting obj \<and> om_Finalizers (obj_meta obj) = [] then None else Some obj)"
    and "\<exists>s'. kb_Event kb obj ty reason msg s = (Returns (), s') \<and> stored s' = stored s"
  using assms unfolding api_server_serves_def by simp_all

text \<open>
  \<open>mine\<close> are the objects the client handles, \<open>ready obj\<close> the states after \<open>ForSubscription\<close>.
\<close>

definition subscribes ::
  "'c AsyncClient \<Rightarrow> (runtime_object \<Rightarrow> bool) \<Rightarrow> (runtime_object \<Rightarrow> 'c \<Rightarrow> bool) \<Rightarrow> ('c \<Rightarrow> nat) \<Rightarrow> bool" where
  "subscribes az mine ready left \<longleftrightarrow>
     (\<forall>obj c. mine obj \<longrightarrow>
        (\<exists>c'. async_ForSubscription az obj c = (Returns None, c') \<and> ready obj c' \<and> left c' = left c))"

definition ensure_progresses ::
  "'c AsyncClient \<Rightarrow> (runtime_object \<Rightarrow> bool) \<Rightarrow> (runtime_object \<Rightarrow> 'c \<Rightarrow> bool) \<Rightarrow> ('c \<Rightarrow> nat) \<Rightarrow> bool" where
  "ensure_progresses az mine ready left \<longleftrightarrow>
     (\<forall>obj c. mine obj \<and> ready obj c \<longrightarrow>
        (\<exists>obj' c'. async_Ensure az obj c = (Returns (obj', left c = 0, None), c') \<and>
           clear_status obj' = clear_status obj \<and> mine obj' \<and> left c' = left c - 1))"

definition delete_progresses ::
  "'c AsyncClient \<Rightarrow> (runtime_object \<Rightarrow> bool) \<Rightarrow> (runtime_object \<Rightarrow> 'c \<Rightarrow> bool) \<Rightarrow> ('c \<Rightarrow> nat) \<Rightarrow> bool" where
  "delete_progresses az mine ready left \<longleftrightarrow>
     (\<forall>obj c. mine obj \<and> ready obj c \<longrightarrow>
        (\<exists>obj' c'. async_Delete az obj c = (Returns (obj', 0 < left c, None), c') \<and>
           clear_status obj' = clear_status obj \<and> mine obj' \<and> left c' = left c - 1))"

subsection \<open>One reconcile\<close>

lemma on_fst_step: "m k = (r, k') \<Longrightarrow> on_fst m (k, c) = (r, (k', c))"
  by (simp add: on_fst_def)

lemma on_snd_step: "m c = (r, c') \<Longrightarrow> on_snd m (k, c) = (r, (k, c'))"
  by (simp add: on_snd_def)

lemmas beside_steps = on_fst_step on_snd_step kube_beside_def async_beside_def go_simps

lemma reconcile_arms:
  assumes serve: "api_server_serves kb req kd stored" and "stored k = Some obj"
    and "async_ForSubscription az obj c = (Returns None, c')"
  shows "async_Reconcile L (kube_beside kb) (async_beside az) req kd (k, c) =
    (if \<not> deleting obj then
       if \<not> has_finalizer obj then add_finalizer_step (kube_beside kb) obj
       else async_ensure_step L (kube_beside kb) (async_beside az) obj
     else if has_finalizer obj then async_delete_step L (kube_beside kb) (async_beside az) obj
     else go_ret (no_requeue, None)) (k, c')"
  using api_server_servesD(1-3) [OF serve] assms(2,3) by (auto simp: async_Reconcile_def beside_steps)

lemma reconcile_reaches_arms:
  assumes serve: "api_server_serves kb req kd stored" and sub: "subscribes az mine ready left"
    and "stored k = Some obj" "mine obj"
  shows "\<exists>c'. ready obj c' \<and> left c' = left c \<and>
    async_Reconcile L (kube_beside kb) (async_beside az) req kd (k, c) =
      (if \<not> deleting obj then
         if \<not> has_finalizer obj then add_finalizer_step (kube_beside kb) obj
         else async_ensure_step L (kube_beside kb) (async_beside az) obj
       else if has_finalizer obj then async_delete_step L (kube_beside kb) (async_beside az) obj
       else go_ret (no_requeue, None)) (k, c')"
proof -
  obtain c' where c': "async_ForSubscription az obj c = (Returns None, c')" "ready obj c'" "left c' = left c"
    using sub assms(4) by (auto simp: subscribes_def)
  from reconcile_arms [OF serve assms(3) c'(1), of L] c'(2,3) show ?thesis by blast
qed

lemma add_finalizer_step_served:
  assumes serve: "api_server_serves kb req kd stored" and "stored k = Some obj" "\<not> deleting obj"
  shows "\<exists>k'. add_finalizer_step (kube_beside kb) obj (k, c) = (Returns (no_requeue, None), (k', c)) \<and>
    stored k' = Some (map_meta (\<lambda>m. AddFinalizer m finalizerName) obj)"
proof -
  let ?obj = "map_meta (\<lambda>m. AddFinalizer m finalizerName) obj"
  obtain k1 where k1: "kb_Event kb ?obj ''Normal'' ''Added'' ''Object finalizer is added'' k = (Returns (), k1)"
      "stored k1 = stored k"
    using api_server_servesD(6) [OF serve] by blast
  then obtain k2 where "kb_Update kb ?obj k1 = (Returns (?obj, None), k2)" "stored k2 = Some ?obj"
    using api_server_servesD(5) [OF serve, of k1 obj ?obj] assms(2,3) by auto
  with k1 show ?thesis by (auto simp: add_finalizer_step_def Let_def beside_steps)
qed

lemma remove_finalizer_step_served:
  assumes serve: "api_server_serves kb req kd stored" and "stored k = Some old"
  shows "\<exists>k'. remove_finalizer_step (kube_beside kb) obj (k, c) = (Returns (no_requeue, None), (k', c)) \<and>
    \<not> stored_finalizer (stored k')"
proof -
  let ?obj = "map_meta (\<lambda>m. RemoveFinalizer m finalizerName) obj"
  obtain k1 where k1: "kb_Event kb obj ''Normal'' ''Deleted'' ''Successfully deleted'' k = (Returns (), k1)"
      "stored k1 = stored k"
    using api_server_servesD(6) [OF serve] by blast
  then obtain k2 where "kb_Update kb ?obj k1 = (Returns (?obj, None), k2)"
      "stored k2 = (if deleting ?obj \<and> om_Finalizers (obj_meta ?obj) = [] then None else Some ?obj)"
    using api_server_servesD(5) [OF serve, of k1 old ?obj] assms(2) by auto
  with k1 show ?thesis by (auto simp: remove_finalizer_step_def beside_steps)
qed

lemma ensure_step_returns:
  assumes L: "lib_ok L" and serve: "api_server_serves kb req kd stored" and "stored k = Some obj"
    and ens: "async_Ensure az obj c = (Returns (obj', fin, None), c')" "clear_status obj' = clear_status obj"
  shows "\<exists>k'. async_ensure_step L (kube_beside kb) (async_beside az) obj (k, c) =
      (Returns (\<lparr>Requeue = \<not> fin\<rparr>, None), (k', c')) \<and> stored k' = Some obj'"
proof -
  obtain k1 where k1: "kb_StatusUpdate kb obj' k = (Returns (obj', None), k1)" "stored k1 = Some obj'"
    using api_server_servesD(4) [OF serve assms(3), of obj'] clear_status_eqD(1) [OF ens(2)] by blast
  obtain k2 where k2: "kb_Event kb obj' ''Normal'' ''Reconciled'' ''Successfully reconciled'' k1 = (Returns (), k2)"
      "stored k2 = Some obj'"
    using api_server_servesD(6) [OF serve] k1(2) by metis
  have none: "multierror L [None, None] = None" using L by simp
  show ?thesis
    using ens k1 k2 by (auto simp: async_ensure_step_def Let_def none beside_steps)
qed

lemma ensure_step_fails:
  assumes L: "lib_ok L" and serve: "api_server_serves kb req kd stored" and "stored k = Some obj"
    and ens: "async_Ensure az obj c = (Returns (obj', fin, Some e), c')" "clear_status obj' = clear_status obj"
  shows "\<exists>r e' k'. async_ensure_step L (kube_beside kb) (async_beside az) obj (k, c) =
      (Returns (r, Some e'), (k', c')) \<and> stored k' = Some obj'"
proof -
  obtain k1 where k1: "kb_StatusUpdate kb obj' k = (Returns (obj', None), k1)" "stored k1 = Some obj'"
    using api_server_servesD(4) [OF serve assms(3), of obj'] clear_status_eqD(1) [OF ens(2)] by blast
  obtain e' where e': "multierror L [Some e, None] = Some e'"
    using multierror_pair [OF L, of "Some e" None] by auto
  obtain k2 where k2: "kb_Event kb obj' ''Warning'' ''FailedReconcile''
      (''Failed to reconcile resource: '' @ error_text L e') k1 = (Returns (), k2)" "stored k2 = Some obj'"
    using api_server_servesD(6) [OF serve] k1(2) by metis
  show ?thesis
    using ens k1 k2 by (auto simp: async_ensure_step_def Let_def e' beside_steps)
qed

lemma ensure_step_served:
  assumes L: "lib_ok L" and serve: "api_server_serves kb req kd stored"
    and prog: "ensure_progresses az mine ready left"
    and "stored k = Some obj" "mine obj" "ready obj c"
  shows "\<exists>obj' k' c'. async_ensure_step L (kube_beside kb) (async_beside az) obj (k, c) =
      (Returns (\<lparr>Requeue = 0 < left c\<rparr>, None), (k', c')) \<and>
    stored k' = Some obj' \<and> clear_status obj' = clear_status obj \<and> mine obj' \<and> left c' = left c - 1"
proof -
  obtain obj' c' where ens: "async_Ensure az obj c = (Returns (obj', left c = 0, None), c')"
      "clear_status obj' = clear_status obj" "mine obj'" "left c' = left c - 1"
    using prog assms(5,6) unfolding ensure_progresses_def by blast
  from ensure_step_returns [OF L serve assms(4) ens(1,2)] ens(2-4) show ?thesis by auto
qed

lemma delete_step_served:
  assumes L: "lib_ok L" and serve: "api_server_serves kb req kd stored"
    and prog: "delete_progresses az mine ready left"
    and "stored k = Some obj" "mine obj" "ready obj c"
  shows "\<exists>r k' c'. async_delete_step L (kube_beside kb) (async_beside az) obj (k, c) = (r, (k', c')) \<and>
    left c' = left c - 1 \<and>
    (if left c = 0 then r = Returns (no_requeue, None) \<and> \<not> stored_finalizer (stored k')
     else \<exists>obj'. stored k' = Some obj' \<and> clear_status obj' = clear_status obj \<and> mine obj')"
proof -
  obtain obj' c' where del: "async_Delete az obj c = (Returns (obj', 0 < left c, None), c')"
      "clear_status obj' = clear_status obj" "mine obj'" "left c' = left c - 1"
    using prog assms(5,6) unfolding delete_progresses_def by blast
  obtain k1 where k1: "kb_StatusUpdate kb obj' k = (Returns (obj', None), k1)" "stored k1 = Some obj'"
    using api_server_servesD(4) [OF serve assms(4), of obj'] clear_status_eqD(1) [OF del(2)] by blast
  obtain k2 where k2: "remove_finalizer_step (kube_beside kb) obj' (k1, c') = (Returns (no_requeue, None), (k2, c'))"
      "\<not> stored_finalizer (stored k2)"
    using remove_finalizer_step_served [OF serve k1(2), of obj' c'] by (elim exE conjE) (rule that)
  have none: "multierror L [None, None] = None" using L by simp
  have "async_delete_step L (kube_beside kb) (async_beside az) obj (k, c) =
      (if left c = 0 then remove_finalizer_step (kube_beside kb) obj'
       else go_ret (no_requeue, Some (ErrorText ''requeuing, deletion unfinished''))) (k1, c')"
    by (simp add: async_delete_step_def none del(1) k1(1) beside_steps)
  then show ?thesis
    using del(2-4) k1(2) k2 by (cases "left c = 0") (simp_all add: go_ret_apply)
qed

subsection \<open>Repeated reconciles\<close>

definition reconciles ::
  "lib \<Rightarrow> 's kube \<Rightarrow> 's AsyncClient \<Rightarrow> namespaced_name \<Rightarrow> kind \<Rightarrow> nat \<Rightarrow> 's \<Rightarrow> 's" where
  "reconciles L kb az req k n = (\<lambda>s. snd (async_Reconcile L kb az req k s)) ^^ n"

lemma reconciles_Suc:
  "reconciles L kb az req k (Suc n) s = reconciles L kb az req k n (snd (async_Reconcile L kb az req k s))"
  by (simp add: reconciles_def funpow_Suc_right del: funpow.simps)

lemma clear_status_meta:
  "clear_status a = clear_status b \<Longrightarrow> deleting a = deleting b \<and> has_finalizer a = has_finalizer b"
  by (drule clear_status_eqD(1)) simp

lemma deletion_completes_from:
  assumes L: "lib_ok L" and serve: "api_server_serves kb req kd stored"
    and sub: "subscribes az mine ready left" and prog: "delete_progresses az mine ready left"
    and "stored k = Some obj" "mine obj" "deleting obj" "has_finalizer obj"
  shows "\<not> stored_finalizer
    (stored (fst (reconciles L (kube_beside kb) (async_beside az) req kd (Suc (left c)) (k, c))))"
  using assms(5-8)
proof (induction "left c" arbitrary: k c obj)
  let ?run = "\<lambda>k c. snd (async_Reconcile L (kube_beside kb) (async_beside az) req kd (k, c))"
  have step: "\<exists>k' c'. ?run k c = (k', c') \<and> left c' = left c - 1 \<and>
      (if left c = 0 then \<not> stored_finalizer (stored k')
       else \<exists>obj'. stored k' = Some obj' \<and> mine obj' \<and> deleting obj' \<and> has_finalizer obj')"
    if obj: "stored k = Some obj" "mine obj" "deleting obj" "has_finalizer obj" for k c obj
  proof -
    obtain c1 where c1: "ready obj c1" "left c1 = left c"
        "async_Reconcile L (kube_beside kb) (async_beside az) req kd (k, c) =
           async_delete_step L (kube_beside kb) (async_beside az) obj (k, c1)"
      using reconcile_reaches_arms [OF serve sub obj(1,2), of c L] obj(3,4) by auto
    from delete_step_served [OF L serve prog obj(1,2) c1(1)] c1(2,3) obj(3,4) show ?thesis
      by (auto dest: clear_status_meta split: if_splits)
  qed
  {
    case 0
    then show ?case using step [OF 0(2-5), of c] by (auto simp: reconciles_Suc) (simp add: reconciles_def)
  next
    case (Suc n)
    obtain k' c' obj' where next': "?run k c = (k', c')" "left c' = n" "stored k' = Some obj'" "mine obj'"
        "deleting obj'" "has_finalizer obj'"
      using step [OF Suc(3-6), of c] Suc(2) by (auto split: if_splits)
    then show ?case
      using Suc(1) [OF next'(2)[symmetric] next'(3-6)] Suc(2) by (subst reconciles_Suc) simp
  }
qed

text \<open>How far a live object is from being reconciled: the finalizer first, then the calls.\<close>

definition work_left :: "('k \<Rightarrow> runtime_object option) \<Rightarrow> ('c \<Rightarrow> nat) \<Rightarrow> 'k \<times> 'c \<Rightarrow> nat" where
  "work_left stored left s = (if stored_finalizer (stored (fst s)) then 0 else 1) + left (snd s)"

definition live :: "('k \<Rightarrow> runtime_object option) \<Rightarrow> (runtime_object \<Rightarrow> bool) \<Rightarrow> 'k \<times> 'c \<Rightarrow> bool" where
  "live stored mine s \<longleftrightarrow> (\<exists>obj. stored (fst s) = Some obj \<and> mine obj \<and> \<not> deleting obj)"

lemma live_reconcile:
  assumes L: "lib_ok L" and serve: "api_server_serves kb req kd stored"
    and sub: "subscribes az mine ready left" and prog: "ensure_progresses az mine ready left"
    and meta: "\<And>f obj. mine obj \<Longrightarrow> mine (map_meta f obj)"
    and "live stored mine s"
  shows "\<exists>res s'. async_Reconcile L (kube_beside kb) (async_beside az) req kd s = (Returns (res, None), s') \<and>
    live stored mine s' \<and> work_left stored left s' = work_left stored left s - 1 \<and>
    (work_left stored left s = 0 \<longrightarrow> res = no_requeue)"
proof -
  obtain k c obj where s: "s = (k, c)" and obj: "stored k = Some obj" "mine obj" "\<not> deleting obj"
    using assms(6) by (cases s) (auto simp: live_def)
  obtain c1 where c1: "ready obj c1" "left c1 = left c"
      "async_Reconcile L (kube_beside kb) (async_beside az) req kd s =
         (if \<not> has_finalizer obj then add_finalizer_step (kube_beside kb) obj
          else async_ensure_step L (kube_beside kb) (async_beside az) obj) (k, c1)"
    using reconcile_reaches_arms [OF serve sub obj(1,2), of c L] obj(3) s by auto
  show ?thesis
  proof (cases "has_finalizer obj")
    case False
    obtain k' where "add_finalizer_step (kube_beside kb) obj (k, c1) = (Returns (no_requeue, None), (k', c1))"
        and "stored k' = Some (map_meta (\<lambda>m. AddFinalizer m finalizerName) obj)"
      using add_finalizer_step_served [OF serve obj(1,3), of c1] by blast
    with False c1 obj s meta show ?thesis
      by (intro exI [of _ no_requeue] exI [of _ "(k', c1)"]) (simp add: live_def work_left_def)
  next
    case True
    obtain obj' k' c' where step: "async_ensure_step L (kube_beside kb) (async_beside az) obj (k, c1) =
        (Returns (\<lparr>Requeue = 0 < left c1\<rparr>, None), (k', c'))" "stored k' = Some obj'"
        "clear_status obj' = clear_status obj" "mine obj'" "left c' = left c1 - 1"
      using ensure_step_served [OF L serve prog obj(1,2) c1(1)] by blast
    with True c1 obj s show ?thesis
      using clear_status_meta [OF step(3)] by (auto simp: live_def work_left_def no_requeue_def)
  qed
qed

lemma reconciles_live:
  assumes "lib_ok L" "api_server_serves kb req kd stored" "subscribes az mine ready left"
    "ensure_progresses az mine ready left" "\<And>f obj. mine obj \<Longrightarrow> mine (map_meta f obj)"
    and "live stored mine s"
  shows "live stored mine (reconciles L (kube_beside kb) (async_beside az) req kd n s) \<and>
    work_left stored left (reconciles L (kube_beside kb) (async_beside az) req kd n s) = work_left stored left s - n"
  using assms(6)
proof (induction n arbitrary: s)
  case 0
  then show ?case by (simp add: reconciles_def)
next
  case (Suc n)
  obtain res s' where "async_Reconcile L (kube_beside kb) (async_beside az) req kd s = (Returns (res, None), s')"
      "live stored mine s'" "work_left stored left s' = work_left stored left s - 1"
    using live_reconcile [OF assms(1-5) Suc.prems] by blast
  with Suc.IH [of s'] show ?case by (simp add: reconciles_Suc)
qed

end
