(* ===== verification/Progress.thy ===== *)
theory Progress
imports Convergence VirtualNetworks Subnets Nics PublicIPs SecurityGroups LoadBalancers Redis ServiceBus
  Identities Keyvaults SqlServers
begin

section \<open>The clients make progress\<close>

text \<open>
  \<open>Convergence\<close> asks a client for progress with every call.  This theory shows that the clients of
  the repository have it for deletions, when Azure does what its documentation says: a deletion is
  accepted and through after a number of polls.  The steps of a client that matter are two locales,
  \<open>polled_client\<close> for the asynchronous clients and \<open>prompt_client\<close> for the synchronous ones.
\<close>

subsection \<open>The contracts of Azure\<close>

text \<open>\<open>autorest.Client.AddToUserAgent\<close> accepts the agent of the configuration.\<close>

definition agent_ok :: "auth_lib \<Rightarrow> bool" where
  "agent_ok A \<longleftrightarrow> (\<forall>client agent. snd (AddToUserAgent A client agent) = None)"

lemma authorize_for_accepted:
  assumes "agent_ok A"
  shows "snd (authorize_for A c sub) = None"
  using assms
  by (simp add: agent_ok_def authorize_for_def AuthorizeClientFromArgs_def AuthorizeClientFromArgsForResource_def Let_def
      split: prod.splits sum.splits) (metis snd_conv)

text \<open>
  A deletion of one resource: the call is accepted or the resource is not found, and a poll
  answers the resource until \<open>left\<close> polls are over, then 404 with an error.
\<close>

definition accepted :: "http_response \<Rightarrow> go_error option \<Rightarrow> bool" where
  "accepted resp err \<longleftrightarrow> err = None \<or> resp = None \<or> resp = Some StatusNotFound"

definition polls_deletion ::
  "('w, http_response \<times> go_error option) go \<Rightarrow> ('w, 'r \<times> go_error option) go \<Rightarrow> ('r \<Rightarrow> http_response) \<Rightarrow>
   ('w \<Rightarrow> nat) \<Rightarrow> bool" where
  "polls_deletion del get response left \<longleftrightarrow>
     (\<forall>w. \<exists>resp err w'. del w = (Returns (resp, err), w') \<and> accepted resp err \<and> left w' = left w) \<and>
     (\<forall>w. \<exists>remote err w'. get w = (Returns (remote, err), w') \<and> left w' = left w - 1 \<and>
        (err = None \<longleftrightarrow> 0 < left w) \<and> (response remote = Some StatusNotFound \<longleftrightarrow> left w = 0))"

lemma polls_deletion_round:
  assumes "polls_deletion del get response left"
  obtains resp derr w1 remote err w2 where "del w = (Returns (resp, derr), w1)" "accepted resp derr"
    "get w1 = (Returns (remote, err), w2)" "left w2 = left w - 1" "err = None \<longleftrightarrow> 0 < left w"
    "response remote = Some StatusNotFound \<longleftrightarrow> left w = 0"
proof -
  obtain resp derr w1 where del: "del w = (Returns (resp, derr), w1)" "accepted resp derr" "left w1 = left w"
    using assms unfolding polls_deletion_def by blast
  obtain remote err w2 where "get w1 = (Returns (remote, err), w2)" "left w2 = left w1 - 1"
      "err = None \<longleftrightarrow> 0 < left w1" "response remote = Some StatusNotFound \<longleftrightarrow> left w1 = 0"
    using assms unfolding polls_deletion_def by blast
  with del show ?thesis by (intro that) simp_all
qed

text \<open>The finalizer of a deleted object is gone one reconcile after the polls Azure needs.\<close>

definition deletion_ends ::
  "lib \<Rightarrow> 'k kube \<Rightarrow> namespaced_name \<Rightarrow> kind \<Rightarrow> ('k \<Rightarrow> runtime_object option) \<Rightarrow> (mgmt_client \<times> 'w) AsyncClient \<Rightarrow>
   (runtime_object \<Rightarrow> bool) \<Rightarrow> ('w \<Rightarrow> nat) \<Rightarrow> bool" where
  "deletion_ends L kb req kd stored az mine left \<longleftrightarrow>
     (\<forall>k c w obj. stored k = Some obj \<and> mine obj \<and> deleting obj \<and> has_finalizer obj \<longrightarrow>
        \<not> stored_finalizer (stored (fst
          (reconciles L (kube_beside kb) (async_beside az) req kd (Suc (left w)) (k, (c, w))))))"

subsection \<open>Deletion\<close>

text \<open>
  A client is bound to the subscription of its objects; what \<open>Delete\<close> does with the answers of Azure.
\<close>

locale bound_client =
  fixes az :: "(mgmt_client \<times> 'w) AsyncClient" and mine :: "runtime_object \<Rightarrow> bool" and A :: auth_lib and sub :: string
  assumes binds: "mine obj \<Longrightarrow> async_ForSubscription az obj = on_self (\<lambda>c. authorize_for A c sub)"
begin

lemma subscribed:
  assumes "agent_ok A" "mine obj"
  shows "async_ForSubscription az obj (c, w) = (Returns None, (fst (authorize_for A c sub), w))"
  using authorize_for_accepted [OF assms(1)] by (simp add: binds [OF assms(2)] on_self_eq)

lemma subscribed_clients: "agent_ok A \<Longrightarrow> subscribes az mine (\<lambda>_ _. True) (\<lambda>s. left (snd s))"
  unfolding subscribes_def using subscribed by auto

end

locale polled_client = bound_client az mine A sub
  for az :: "(mgmt_client \<times> 'w) AsyncClient" and mine :: "runtime_object \<Rightarrow> bool" and A :: auth_lib and sub :: string +
  fixes L :: lib and del :: "sdk_client \<Rightarrow> ('w, http_response \<times> go_error option) go"
    and get :: "sdk_client \<Rightarrow> ('w, 'r \<times> go_error option) go" and response :: "'r \<Rightarrow> http_response"
  assumes deletes: "lib_ok L \<Longrightarrow> mine obj \<Longrightarrow> del (mc_internal c) w = (Returns (resp, derr), w1) \<Longrightarrow> accepted resp derr \<Longrightarrow>
      get (mc_internal c) w1 = (Returns (remote, err), w2) \<Longrightarrow>
      (err = None \<longleftrightarrow> response remote \<noteq> Some StatusNotFound) \<Longrightarrow>
      \<exists>obj'. async_Delete az obj (c, w) = (Returns (obj', response remote \<noteq> Some StatusNotFound, None), (c, w2)) \<and>
        clear_status obj' = clear_status obj \<and> mine obj'"
begin

lemma deletion_progresses:
  assumes "lib_ok L" "\<And>cl. polls_deletion (del cl) (get cl) response left"
  shows "delete_progresses az mine (\<lambda>_ _. True) (\<lambda>s. left (snd s))"
proof -
  have "\<exists>obj' s'. async_Delete az obj (c, w) = (Returns (obj', 0 < left w, None), s') \<and>
      clear_status obj' = clear_status obj \<and> mine obj' \<and> left (snd s') = left w - 1"
    if mine: "mine obj" for obj c w
  proof -
    obtain resp derr w1 remote err w2 where "del (mc_internal c) w = (Returns (resp, derr), w1)" "accepted resp derr"
        "get (mc_internal c) w1 = (Returns (remote, err), w2)" and left: "left w2 = left w - 1" and
        err: "err = None \<longleftrightarrow> 0 < left w" "response remote = Some StatusNotFound \<longleftrightarrow> left w = 0"
      using polls_deletion_round [OF assms(2), where w = w] by metis
    from deletes [OF assms(1) mine this(1-3)] err have
      "\<exists>obj'. async_Delete az obj (c, w) = (Returns (obj', 0 < left w, None), (c, w2)) \<and>
        clear_status obj' = clear_status obj \<and> mine obj'" by simp
    with left show ?thesis by auto
  qed
  then show ?thesis unfolding delete_progresses_def by auto
qed

lemma deletion_ends:
  assumes "lib_ok L" "agent_ok A" "api_server_serves kb req kd stored"
    and "\<And>cl. polls_deletion (del cl) (get cl) response left"
  shows "deletion_ends L kb req kd stored az mine left"
  using deletion_completes_from [OF assms(1,3) subscribed_clients [OF assms(2)] deletion_progresses [OF assms(1,4)]]
  unfolding deletion_ends_def by fastforce

end

text \<open>The objects of the kinds whose theories do not name theirs yet.\<close>

definition is_subnet :: "string \<Rightarrow> string \<times> string \<times> string \<Rightarrow> runtime_object \<Rightarrow> bool" where
  "is_subnet sub key obj =
     (case obj of ObjSubnet x \<Rightarrow> sns_SubscriptionID (Spec x) = sub \<and>
        (sns_ResourceGroup (Spec x), sns_Network (Spec x), sns_Name (Spec x)) = key | _ \<Rightarrow> False)"

definition is_cache :: "string \<Rightarrow> string \<times> string \<Rightarrow> runtime_object \<Rightarrow> bool" where
  "is_cache sub key obj =
     (case obj of ObjRedis x \<Rightarrow>
        rds_SubscriptionID (Spec x) = sub \<and> (rds_ResourceGroup (Spec x), rds_Name (Spec x)) = key | _ \<Rightarrow> False)"

definition is_namespace :: "string \<Rightarrow> string \<times> string \<Rightarrow> runtime_object \<Rightarrow> bool" where
  "is_namespace sub key obj =
     (case obj of ObjServiceBusNamespace x \<Rightarrow>
        sbns_SubscriptionID (Spec x) = sub \<and> (sbns_ResourceGroup (Spec x), sbns_Name (Spec x)) = key | _ \<Rightarrow> False)"

lemmas mine_defs = is_group_def is_vnet_def is_subnet_def is_nic_def is_publicip_def is_security_group_def
  is_load_balancer_def is_cache_def is_namespace_def

text \<open>The objects by their names.\<close>

lemma is_obj_simps [simp]:
  "is_group sub name (ObjResourceGroup g) \<longleftrightarrow> rgs_SubscriptionID (Spec g) = sub \<and> rgs_Name (Spec g) = name"
  "is_vnet sub key (ObjVirtualNetwork v) \<longleftrightarrow>
     vns_SubscriptionID (Spec v) = sub \<and> (vns_ResourceGroup (Spec v), vns_Name (Spec v)) = key"
  "is_subnet sub key3 (ObjSubnet s) \<longleftrightarrow>
     sns_SubscriptionID (Spec s) = sub \<and> (sns_ResourceGroup (Spec s), sns_Network (Spec s), sns_Name (Spec s)) = key3"
  "is_nic sub key (ObjNetworkInterface n) \<longleftrightarrow>
     nis_SubscriptionID (Spec n) = sub \<and> (nis_ResourceGroup (Spec n), nis_Name (Spec n)) = key"
  "is_publicip sub key (ObjPublicIP p) \<longleftrightarrow>
     pis_SubscriptionID (Spec p) = sub \<and> (pis_ResourceGroup (Spec p), pis_Name (Spec p)) = key"
  "is_security_group sub key (ObjSecurityGroup q) \<longleftrightarrow>
     sgs_SubscriptionID (Spec q) = sub \<and> (sgs_ResourceGroup (Spec q), sgs_Name (Spec q)) = key"
  "is_load_balancer sub key (ObjLoadBalancer l) \<longleftrightarrow>
     lbs_SubscriptionID (Spec l) = sub \<and> (lbs_ResourceGroup (Spec l), lbs_Name (Spec l)) = key"
  "is_cache sub key (ObjRedis r) \<longleftrightarrow>
     rds_SubscriptionID (Spec r) = sub \<and> (rds_ResourceGroup (Spec r), rds_Name (Spec r)) = key"
  "is_namespace sub key (ObjServiceBusNamespace b) \<longleftrightarrow>
     sbns_SubscriptionID (Spec b) = sub \<and> (sbns_ResourceGroup (Spec b), sbns_Name (Spec b)) = key"
  by (simp_all add: mine_defs)

lemma is_groupE':
  "is_group sub name obj \<Longrightarrow>
     (\<And>x. obj = ObjResourceGroup x \<Longrightarrow> sub = rgs_SubscriptionID (Spec x) \<Longrightarrow> name = rgs_Name (Spec x) \<Longrightarrow> P) \<Longrightarrow> P"
  by (cases obj) (auto simp: is_group_def)

lemma is_vnetE':
  "is_vnet sub (rgn, name) obj \<Longrightarrow>
     (\<And>x. obj = ObjVirtualNetwork x \<Longrightarrow> sub = vns_SubscriptionID (Spec x) \<Longrightarrow> rgn = vns_ResourceGroup (Spec x) \<Longrightarrow>
        name = vns_Name (Spec x) \<Longrightarrow> P) \<Longrightarrow> P"
  by (cases obj) (auto simp: is_vnet_def)

lemma is_subnetE':
  "is_subnet sub (rgn, network, name) obj \<Longrightarrow>
     (\<And>x. obj = ObjSubnet x \<Longrightarrow> sub = sns_SubscriptionID (Spec x) \<Longrightarrow> rgn = sns_ResourceGroup (Spec x) \<Longrightarrow>
        network = sns_Network (Spec x) \<Longrightarrow> name = sns_Name (Spec x) \<Longrightarrow> P) \<Longrightarrow> P"
  by (cases obj) (auto simp: is_subnet_def)

lemma is_nicE':
  "is_nic sub (rgn, name) obj \<Longrightarrow>
     (\<And>x. obj = ObjNetworkInterface x \<Longrightarrow> sub = nis_SubscriptionID (Spec x) \<Longrightarrow> rgn = nis_ResourceGroup (Spec x) \<Longrightarrow>
        name = nis_Name (Spec x) \<Longrightarrow> P) \<Longrightarrow> P"
  by (cases obj) (auto simp: is_nic_def)

lemma is_publicipE':
  "is_publicip sub (rgn, name) obj \<Longrightarrow>
     (\<And>x. obj = ObjPublicIP x \<Longrightarrow> sub = pis_SubscriptionID (Spec x) \<Longrightarrow> rgn = pis_ResourceGroup (Spec x) \<Longrightarrow>
        name = pis_Name (Spec x) \<Longrightarrow> P) \<Longrightarrow> P"
  by (cases obj) (auto simp: is_publicip_def)

lemma is_security_groupE':
  "is_security_group sub (rgn, name) obj \<Longrightarrow>
     (\<And>x. obj = ObjSecurityGroup x \<Longrightarrow> sub = sgs_SubscriptionID (Spec x) \<Longrightarrow> rgn = sgs_ResourceGroup (Spec x) \<Longrightarrow>
        name = sgs_Name (Spec x) \<Longrightarrow> P) \<Longrightarrow> P"
  by (cases obj) (auto simp: is_security_group_def)

lemma is_load_balancerE':
  "is_load_balancer sub (rgn, name) obj \<Longrightarrow>
     (\<And>x. obj = ObjLoadBalancer x \<Longrightarrow> sub = lbs_SubscriptionID (Spec x) \<Longrightarrow> rgn = lbs_ResourceGroup (Spec x) \<Longrightarrow>
        name = lbs_Name (Spec x) \<Longrightarrow> P) \<Longrightarrow> P"
  by (cases obj) (auto simp: is_load_balancer_def)

lemma is_cacheE':
  "is_cache sub (rgn, name) obj \<Longrightarrow>
     (\<And>x. obj = ObjRedis x \<Longrightarrow> sub = rds_SubscriptionID (Spec x) \<Longrightarrow> rgn = rds_ResourceGroup (Spec x) \<Longrightarrow>
        name = rds_Name (Spec x) \<Longrightarrow> P) \<Longrightarrow> P"
  by (cases obj) (auto simp: is_cache_def)

lemma is_namespaceE':
  "is_namespace sub (rgn, name) obj \<Longrightarrow>
     (\<And>x. obj = ObjServiceBusNamespace x \<Longrightarrow> sub = sbns_SubscriptionID (Spec x) \<Longrightarrow>
        rgn = sbns_ResourceGroup (Spec x) \<Longrightarrow> name = sbns_Name (Spec x) \<Longrightarrow> P) \<Longrightarrow> P"
  by (cases obj) (auto simp: is_namespace_def)

lemmas polled_run = lib_okD(1) go_bind_step go_ret_apply Let_def

lemma rg_Delete_run:
  assumes "rg_Delete S (mc_internal c) (rgs_Name (Spec x)) w = (Returns (resp, derr), w1)" "accepted resp derr"
    and "rg_Get S (mc_internal c) (rgs_Name (Spec x)) w1 = (Returns (remote, err), w2)"
    and "lib_ok L" "err = None \<longleftrightarrow> grp_Response remote \<noteq> Some StatusNotFound"
  shows "rg_DeleteOp L S c (ObjResourceGroup x) w =
    (Returns (ObjResourceGroup (rg_SetStatus x remote), grp_Response remote \<noteq> Some StatusNotFound, None), w2)"
  using assms(2) [unfolded accepted_def] assms(1,3-5)
  by (elim disjE) (simp_all add: rg_DeleteOp_def rg_convert_def polled_run)

interpretation rg_polled: polled_client "rg_client L A S" "is_group sub name" A sub L
    "\<lambda>cl. rg_Delete S cl name" "\<lambda>cl. rg_Get S cl name" grp_Response
  for L :: lib and A :: auth_lib and S :: "'w rg_sdk" and sub name :: string
  by unfold_locales
    (auto elim!: is_groupE' simp: rg_client_def on_world_def rg_ForSubscription_def rg_convert_def rg_Delete_run)

lemma vn_Delete_run:
  assumes "vn_sdk_Delete S (mc_internal c) (vns_ResourceGroup (Spec x)) (vns_Name (Spec x)) w = (Returns (resp, derr), w1)" "accepted resp derr"
    and "vn_sdk_Get S (mc_internal c) (vns_ResourceGroup (Spec x)) (vns_Name (Spec x)) '''' w1 = (Returns (remote, err), w2)"
    and "lib_ok L" "err = None \<longleftrightarrow> vnet_Response remote \<noteq> Some StatusNotFound"
  shows "vn_Delete L S c (ObjVirtualNetwork x) w =
    (Returns (ObjVirtualNetwork (vn_SetStatus x remote), vnet_Response remote \<noteq> Some StatusNotFound, None), w2)"
  using assms(2) [unfolded accepted_def] assms(1,3-5)
  by (elim disjE) (simp_all add: vn_Delete_def vn_convert_def polled_run)

interpretation vn_polled: polled_client "vn_client L A S" "is_vnet sub (rgn, name)" A sub L
    "\<lambda>cl. vn_sdk_Delete S cl rgn name" "\<lambda>cl. vn_sdk_Get S cl rgn name ''''" vnet_Response
  for L :: lib and A :: auth_lib and S :: "'w vnet_sdk" and sub rgn name :: string
  by unfold_locales
    (auto elim!: is_vnetE' simp: vn_client_def on_world_def vn_ForSubscription_def vn_convert_def vn_Delete_run)

lemma sn_Delete_run:
  assumes "sn_sdk_Delete S (mc_internal c) (sns_ResourceGroup (Spec x)) (sns_Network (Spec x)) (sns_Name (Spec x)) w = (Returns (resp, derr), w1)" "accepted resp derr"
    and "sn_sdk_Get S (mc_internal c) (sns_ResourceGroup (Spec x)) (sns_Network (Spec x)) (sns_Name (Spec x)) '''' w1 = (Returns (remote, err), w2)"
    and "lib_ok L" "err = None \<longleftrightarrow> sn_Response remote \<noteq> Some StatusNotFound"
  shows "sn_Delete L S c (ObjSubnet x) w =
    (Returns (ObjSubnet (sn_SetStatus x remote), sn_Response remote \<noteq> Some StatusNotFound, None), w2)"
  using assms(2) [unfolded accepted_def] assms(1,3-5)
  by (elim disjE) (simp_all add: sn_Delete_def sn_convert_def polled_run)

interpretation sn_polled: polled_client "sn_client L A S" "is_subnet sub (rgn, network, name)" A sub L
    "\<lambda>cl. sn_sdk_Delete S cl rgn network name" "\<lambda>cl. sn_sdk_Get S cl rgn network name ''''" sn_Response
  for L :: lib and A :: auth_lib and S :: "'w subnet_sdk" and sub rgn network name :: string
  by unfold_locales
    (auto elim!: is_subnetE' simp: sn_client_def on_world_def sn_ForSubscription_def sn_convert_def sn_Delete_run)

lemma nic_Delete_run:
  assumes "nic_sdk_Delete S (mc_internal c) (nis_ResourceGroup (Spec x)) (nis_Name (Spec x)) w = (Returns (resp, derr), w1)" "accepted resp derr"
    and "nic_sdk_Get S (mc_internal c) (nis_ResourceGroup (Spec x)) (nis_Name (Spec x)) '''' w1 = (Returns (remote, err), w2)"
    and "lib_ok L" "err = None \<longleftrightarrow> nicr_Response remote \<noteq> Some StatusNotFound"
  shows "nic_Delete L S c (ObjNetworkInterface x) w =
    (Returns (ObjNetworkInterface (nic_SetStatus x remote), nicr_Response remote \<noteq> Some StatusNotFound, None), w2)"
  using assms(2) [unfolded accepted_def] assms(1,3-5)
  by (elim disjE) (simp_all add: nic_Delete_def nic_convert_def polled_run)

interpretation nic_polled: polled_client "nic_client L A S" "is_nic sub (rgn, name)" A sub L
    "\<lambda>cl. nic_sdk_Delete S cl rgn name" "\<lambda>cl. nic_sdk_Get S cl rgn name ''''" nicr_Response
  for L :: lib and A :: auth_lib and S :: "'w nic_sdk" and sub rgn name :: string
  by unfold_locales
    (auto elim!: is_nicE' simp: nic_client_def on_world_def nic_ForSubscription_def nic_convert_def nic_Delete_run)

lemma lb_Delete_run:
  assumes "lb_sdk_Delete S (mc_internal c) (lbs_ResourceGroup (Spec x)) (lbs_Name (Spec x)) w = (Returns (resp, derr), w1)" "accepted resp derr"
    and "lb_sdk_Get S (mc_internal c) (lbs_ResourceGroup (Spec x)) (lbs_Name (Spec x)) '''' w1 = (Returns (remote, err), w2)"
    and "lib_ok L" "err = None \<longleftrightarrow> lb_Response remote \<noteq> Some StatusNotFound"
  shows "lb_Delete L S c (ObjLoadBalancer x) w =
    (Returns (ObjLoadBalancer (lb_SetStatus x remote), lb_Response remote \<noteq> Some StatusNotFound, None), w2)"
  using assms(2) [unfolded accepted_def] assms(1,3-5)
  by (elim disjE) (simp_all add: lb_Delete_def lb_convert_def polled_run)

interpretation lb_polled: polled_client "lb_client L A S" "is_load_balancer sub (rgn, name)" A sub L
    "\<lambda>cl. lb_sdk_Delete S cl rgn name" "\<lambda>cl. lb_sdk_Get S cl rgn name ''''" lb_Response
  for L :: lib and A :: auth_lib and S :: "'w lb_sdk" and sub rgn name :: string
  by unfold_locales
    (auto elim!: is_load_balancerE' simp: lb_client_def on_world_def lb_ForSubscription_def lb_convert_def lb_Delete_run)

lemma redis_Delete_run:
  assumes "rd_sdk_Delete S (mc_internal c) (rds_ResourceGroup (Spec x)) (rds_Name (Spec x)) w = (Returns (resp, derr), w1)" "accepted resp derr"
    and "rd_sdk_Get S (mc_internal c) (rds_ResourceGroup (Spec x)) (rds_Name (Spec x)) w1 = (Returns (remote, err), w2)"
    and "lib_ok L" "err = None \<longleftrightarrow> rdr_Response remote \<noteq> Some StatusNotFound"
  shows "redis_Delete L S c (ObjRedis x) w =
    (Returns (ObjRedis (redis_SetStatus x remote), rdr_Response remote \<noteq> Some StatusNotFound, None), w2)"
  using assms(2) [unfolded accepted_def] assms(1,3-5)
  by (elim disjE) (simp_all add: redis_Delete_def redis_convert_def polled_run)

interpretation redis_polled: polled_client "redis_client L A K S" "is_cache sub (rgn, name)" A sub L
    "\<lambda>cl. rd_sdk_Delete S cl rgn name" "\<lambda>cl. rd_sdk_Get S cl rgn name" rdr_Response
  for L :: lib and A :: auth_lib and S :: "'w redis_sdk" and sub rgn name :: string
  by unfold_locales
    (auto elim!: is_cacheE' simp: redis_client_def on_world_def redis_ForSubscription_def redis_convert_def redis_Delete_run)

lemma sb_Delete_run:
  assumes "sb_sdk_Delete S (mc_internal c) (sbns_ResourceGroup (Spec x)) (sbns_Name (Spec x)) w = (Returns (resp, derr), w1)" "accepted resp derr"
    and "sb_sdk_Get S (mc_internal c) (sbns_ResourceGroup (Spec x)) (sbns_Name (Spec x)) w1 = (Returns (remote, err), w2)"
    and "lib_ok L" "err = None \<longleftrightarrow> sbr_Response remote \<noteq> Some StatusNotFound"
  shows "sb_Delete L S c (ObjServiceBusNamespace x) w =
    (Returns (ObjServiceBusNamespace (sb_SetStatus x remote), sbr_Response remote \<noteq> Some StatusNotFound, None), w2)"
  using assms(2) [unfolded accepted_def] assms(1,3-5)
  by (elim disjE) (simp_all add: sb_Delete_def sb_convert_def polled_run)

interpretation sb_polled: polled_client "sb_client L A K S" "is_namespace sub (rgn, name)" A sub L
    "\<lambda>cl. sb_sdk_Delete S cl rgn name" "\<lambda>cl. sb_sdk_Get S cl rgn name" sbr_Response
  for L :: lib and A :: auth_lib and S :: "'w sb_sdk" and sub rgn name :: string
  by unfold_locales
    (auto elim!: is_namespaceE' simp: sb_client_def on_world_def sb_ForSubscription_def sb_convert_def sb_Delete_run)

lemma pip_SetStatus_run:
  assumes "pip_sdk_Get S (mc_internal c) (pis_ResourceGroup (Spec x)) (pis_Name (Spec x)) '''' w = (Returns (remote, err), w')"
    and "lib_ok L" "err = None \<longleftrightarrow> pipr_Response remote \<noteq> Some StatusNotFound"
  shows "\<exists>x'. pip_SetStatus L S c x w = (Returns (x', pipr_Response remote \<noteq> Some StatusNotFound, None), w') \<and>
    clear_status (ObjPublicIP x') = clear_status (ObjPublicIP x) \<and> Spec x' = Spec x"
  using assms by (auto simp: pip_SetStatus_def pip_expand_def polled_run split: option.split)

lemma pip_Delete_run:
  assumes "pip_sdk_Delete S (mc_internal c) (pis_ResourceGroup (Spec x)) (pis_Name (Spec x)) w = (Returns (resp, derr), w1)" "accepted resp derr"
    and get: "pip_sdk_Get S (mc_internal c) (pis_ResourceGroup (Spec x)) (pis_Name (Spec x)) '''' w1 = (Returns (remote, err), w2)"
    and "lib_ok L" "err = None \<longleftrightarrow> pipr_Response remote \<noteq> Some StatusNotFound"
  shows "\<exists>x'. pip_Delete L S c (ObjPublicIP x) w = (Returns (ObjPublicIP x', pipr_Response remote \<noteq> Some StatusNotFound, None), w2) \<and>
    clear_status (ObjPublicIP x') = clear_status (ObjPublicIP x) \<and> Spec x' = Spec x"
proof -
  obtain x' where "pip_SetStatus L S c x w1 = (Returns (x', pipr_Response remote \<noteq> Some StatusNotFound, None), w2)"
      "clear_status (ObjPublicIP x') = clear_status (ObjPublicIP x)" "Spec x' = Spec x"
    using pip_SetStatus_run [OF get assms(4,5)] by (elim exE conjE) (rule that)
  with assms(2) [unfolded accepted_def] assms(1) show ?thesis
    by (elim disjE) (auto simp: pip_Delete_def pip_convert_def polled_run)
qed

interpretation pip_polled: polled_client "pip_client L A S" "is_publicip sub (rgn, name)" A sub L
    "\<lambda>cl. pip_sdk_Delete S cl rgn name" "\<lambda>cl. pip_sdk_Get S cl rgn name ''''" pipr_Response
  for L :: lib and A :: auth_lib and S :: "'w publicip_sdk" and sub rgn name :: string
proof unfold_locales
  fix obj :: runtime_object and c :: mgmt_client and w w1 w2 :: 'w and resp derr remote err
  assume a: "lib_ok L" "is_publicip sub (rgn, name) obj" "pip_sdk_Delete S (mc_internal c) rgn name w = (Returns (resp, derr), w1)"
    "accepted resp derr" "pip_sdk_Get S (mc_internal c) rgn name '''' w1 = (Returns (remote, err), w2)"
    "err = None \<longleftrightarrow> pipr_Response remote \<noteq> Some StatusNotFound"
  then obtain x where x: "obj = ObjPublicIP x" "sub = pis_SubscriptionID (Spec x)" "rgn = pis_ResourceGroup (Spec x)" "name = pis_Name (Spec x)"
    by (elim is_publicipE') (rule that)
  from pip_Delete_run [of S c x w resp derr w1 remote err w2 L] a
  have "\<exists>x'. pip_Delete L S c (ObjPublicIP x) w = (Returns (ObjPublicIP x', pipr_Response remote \<noteq> Some StatusNotFound, None), w2) \<and>
      clear_status (ObjPublicIP x') = clear_status (ObjPublicIP x) \<and> Spec x' = Spec x"
    by (simp only: x simp_thms)
  then obtain x' where "pip_Delete L S c (ObjPublicIP x) w = (Returns (ObjPublicIP x', pipr_Response remote \<noteq> Some StatusNotFound, None), w2)"
      "clear_status (ObjPublicIP x') = clear_status (ObjPublicIP x)" "Spec x' = Spec x"
    by (elim exE conjE) (rule that)
  with x show "\<exists>obj'. async_Delete (pip_client L A S) obj (c, w) = (Returns (obj', pipr_Response remote \<noteq> Some StatusNotFound, None), (c, w2)) \<and>
      clear_status obj' = clear_status obj \<and> is_publicip sub (rgn, name) obj'"
    by (intro exI [of _ "ObjPublicIP x'"]) (simp add: pip_client_def on_world_def)
qed (auto elim!: is_publicipE' simp: pip_client_def pip_ForSubscription_def pip_convert_def)

lemma sg_SetStatus_run:
  assumes "sg_sdk_Get S (mc_internal c) (sgs_ResourceGroup (Spec x)) (sgs_Name (Spec x)) '''' w = (Returns (remote, err), w')"
    and "lib_ok L" "err = None \<longleftrightarrow> sgr_Response remote \<noteq> Some StatusNotFound"
  shows "\<exists>x'. sg_SetStatus L S c x w = (Returns (x', sgr_Response remote \<noteq> Some StatusNotFound, None), w') \<and>
    clear_status (ObjSecurityGroup x') = clear_status (ObjSecurityGroup x) \<and> Spec x' = Spec x"
  using assms by (auto simp: sg_SetStatus_def polled_run split: option.split)

lemma sg_Delete_run:
  assumes "sg_sdk_Delete S (mc_internal c) (sgs_ResourceGroup (Spec x)) (sgs_Name (Spec x)) w = (Returns (resp, derr), w1)" "accepted resp derr"
    and get: "sg_sdk_Get S (mc_internal c) (sgs_ResourceGroup (Spec x)) (sgs_Name (Spec x)) '''' w1 = (Returns (remote, err), w2)"
    and "lib_ok L" "err = None \<longleftrightarrow> sgr_Response remote \<noteq> Some StatusNotFound"
  shows "\<exists>x'. sg_Delete L S c (ObjSecurityGroup x) w = (Returns (ObjSecurityGroup x', sgr_Response remote \<noteq> Some StatusNotFound, None), w2) \<and>
    clear_status (ObjSecurityGroup x') = clear_status (ObjSecurityGroup x) \<and> Spec x' = Spec x"
proof -
  obtain x' where "sg_SetStatus L S c x w1 = (Returns (x', sgr_Response remote \<noteq> Some StatusNotFound, None), w2)"
      "clear_status (ObjSecurityGroup x') = clear_status (ObjSecurityGroup x)" "Spec x' = Spec x"
    using sg_SetStatus_run [OF get assms(4,5)] by (elim exE conjE) (rule that)
  with assms(2) [unfolded accepted_def] assms(1) show ?thesis
    by (elim disjE) (auto simp: sg_Delete_def sg_convert_def polled_run)
qed

interpretation sg_polled: polled_client "sg_client L A S" "is_security_group sub (rgn, name)" A sub L
    "\<lambda>cl. sg_sdk_Delete S cl rgn name" "\<lambda>cl. sg_sdk_Get S cl rgn name ''''" sgr_Response
  for L :: lib and A :: auth_lib and S :: "'w sg_sdk" and sub rgn name :: string
proof unfold_locales
  fix obj :: runtime_object and c :: mgmt_client and w w1 w2 :: 'w and resp derr remote err
  assume a: "lib_ok L" "is_security_group sub (rgn, name) obj" "sg_sdk_Delete S (mc_internal c) rgn name w = (Returns (resp, derr), w1)"
    "accepted resp derr" "sg_sdk_Get S (mc_internal c) rgn name '''' w1 = (Returns (remote, err), w2)"
    "err = None \<longleftrightarrow> sgr_Response remote \<noteq> Some StatusNotFound"
  then obtain x where x: "obj = ObjSecurityGroup x" "sub = sgs_SubscriptionID (Spec x)" "rgn = sgs_ResourceGroup (Spec x)" "name = sgs_Name (Spec x)"
    by (elim is_security_groupE') (rule that)
  from sg_Delete_run [of S c x w resp derr w1 remote err w2 L] a
  have "\<exists>x'. sg_Delete L S c (ObjSecurityGroup x) w = (Returns (ObjSecurityGroup x', sgr_Response remote \<noteq> Some StatusNotFound, None), w2) \<and>
      clear_status (ObjSecurityGroup x') = clear_status (ObjSecurityGroup x) \<and> Spec x' = Spec x"
    by (simp only: x simp_thms)
  then obtain x' where "sg_Delete L S c (ObjSecurityGroup x) w = (Returns (ObjSecurityGroup x', sgr_Response remote \<noteq> Some StatusNotFound, None), w2)"
      "clear_status (ObjSecurityGroup x') = clear_status (ObjSecurityGroup x)" "Spec x' = Spec x"
    by (elim exE conjE) (rule that)
  with x show "\<exists>obj'. async_Delete (sg_client L A S) obj (c, w) = (Returns (obj', sgr_Response remote \<noteq> Some StatusNotFound, None), (c, w2)) \<and>
      clear_status obj' = clear_status obj \<and> is_security_group sub (rgn, name) obj'"
    by (intro exI [of _ "ObjSecurityGroup x'"]) (simp add: sg_client_def on_world_def)
qed (auto elim!: is_security_groupE' simp: sg_client_def sg_ForSubscription_def sg_convert_def)

subsection \<open>Synchronous clients\<close>

text \<open>A synchronous client deletes in one call: once it is accepted the object is released.\<close>

definition accepts_deletion :: "('w, http_response \<times> go_error option) go \<Rightarrow> bool" where
  "accepts_deletion del \<longleftrightarrow>
     (\<forall>w. \<exists>resp err w1. del w = (Returns (resp, err), w1) \<and> (err = None \<or> resp = Some StatusNotFound))"

definition released_at_once ::
  "lib \<Rightarrow> 'k kube \<Rightarrow> namespaced_name \<Rightarrow> kind \<Rightarrow> ('k \<Rightarrow> runtime_object option) \<Rightarrow> (mgmt_client \<times> 'w) SyncClient \<Rightarrow>
   (runtime_object \<Rightarrow> bool) \<Rightarrow> bool" where
  "released_at_once L kb req kd stored az mine \<longleftrightarrow>
     (\<forall>k c w obj. stored k = Some obj \<and> mine obj \<and> deleting obj \<and> has_finalizer obj \<longrightarrow>
        (\<exists>s'. sync_Reconcile L (kube_beside kb) (sync_beside az) req kd (k, (c, w)) = (Returns (no_requeue, None), s') \<and>
           \<not> stored_finalizer (stored (fst s'))))"

locale prompt_client =
  fixes L :: lib and az :: "(mgmt_client \<times> 'w) SyncClient" and mine :: "runtime_object \<Rightarrow> bool"
    and A :: auth_lib and sub :: string
    and del :: "sdk_client \<Rightarrow> ('w, http_response \<times> go_error option) go"
  assumes binds: "mine obj \<Longrightarrow> sync_ForSubscription az obj = on_self (\<lambda>c. authorize_for A c sub)"
    and deletes: "lib_ok L \<Longrightarrow> mine obj \<Longrightarrow> del (mc_internal c) w = (Returns (resp, err), w1) \<Longrightarrow>
      err = None \<or> resp = Some StatusNotFound \<Longrightarrow> sync_Delete az obj (c, w) = (Returns (obj, None), (c, w1))"
begin

lemma delete_step_run:
  assumes L: "lib_ok L" and serve: "api_server_serves kb req kd stored"
    and obj: "stored k = Some obj" "mine obj"
    and del: "del (mc_internal c) w = (Returns (resp, err), w1)" "err = None \<or> resp = Some StatusNotFound"
  shows "\<exists>k'. sync_delete_step L (kube_beside kb) (sync_beside az) obj (k, (c, w)) =
      (Returns (no_requeue, None), (k', (c, w1))) \<and> \<not> stored_finalizer (stored k')"
proof -
  have delete: "sync_Delete az obj (c, w) = (Returns (obj, None), (c, w1))"
    by (rule deletes [OF L obj(2) del])
  obtain k1 where k1: "kb_StatusUpdate kb obj k = (Returns (obj, None), k1)" "stored k1 = Some obj"
    using api_server_servesD(4) [OF serve obj(1) refl] by blast
  obtain k2 where "remove_finalizer_step (kube_beside kb) obj (k1, (c, w1)) = (Returns (no_requeue, None), (k2, (c, w1)))"
      "\<not> stored_finalizer (stored k2)"
    using remove_finalizer_step_served [OF serve k1(2), of obj "(c, w1)"] by (elim exE conjE) (rule that)
  moreover have "multierror L [None, None] = None" using L by simp
  ultimately show ?thesis
    using delete k1(1) by (auto simp: sync_delete_step_def sync_beside_def beside_steps)
qed

lemma released:
  assumes L: "lib_ok L" and agent: "agent_ok A" and serve: "api_server_serves kb req kd stored"
    and del: "\<And>cl. accepts_deletion (del cl)"
  shows "released_at_once L kb req kd stored az mine"
  unfolding released_at_once_def
proof (intro allI impI, elim conjE)
  fix k c w obj assume obj: "stored k = Some obj" "mine obj" "deleting obj" "has_finalizer obj"
  let ?c = "fst (authorize_for A c sub)"
  have sub: "sync_ForSubscription az obj (c, w) = (Returns None, (?c, w))"
    using authorize_for_accepted [OF agent] by (simp add: binds [OF obj(2)] on_self_eq)
  obtain resp err w1 where "del (mc_internal ?c) w = (Returns (resp, err), w1)" "err = None \<or> resp = Some StatusNotFound"
    using del unfolding accepts_deletion_def by blast
  then obtain k' where "sync_delete_step L (kube_beside kb) (sync_beside az) obj (k, (?c, w)) =
      (Returns (no_requeue, None), (k', (?c, w1)))" "\<not> stored_finalizer (stored k')"
    using delete_step_run [OF L serve obj(1,2)] by blast
  then show "\<exists>s'. sync_Reconcile L (kube_beside kb) (sync_beside az) req kd (k, (c, w)) = (Returns (no_requeue, None), s') \<and>
      \<not> stored_finalizer (stored (fst s'))"
    using api_server_servesD(1-3) [OF serve] obj(1,3,4) sub
    by (auto simp: sync_Reconcile_def sync_beside_def beside_steps)
qed

end

definition is_vault :: "string \<Rightarrow> string \<times> string \<Rightarrow> runtime_object \<Rightarrow> bool" where
  "is_vault sub key obj \<longleftrightarrow>
     (\<exists>x. obj = ObjKeyvault x \<and> kvs_SubscriptionID (Spec x) = sub \<and> (kvs_ResourceGroup (Spec x), kvs_Name (Spec x)) = key)"

definition is_firewall_rule :: "string \<Rightarrow> string \<times> string \<times> string \<Rightarrow> runtime_object \<Rightarrow> bool" where
  "is_firewall_rule sub key obj \<longleftrightarrow>
     (\<exists>x. obj = ObjSQLFirewallRule x \<and> fws_SubscriptionID (Spec x) = sub \<and>
        (fws_ResourceGroup (Spec x), fws_Server (Spec x), fws_Name (Spec x)) = key)"

interpretation id_prompt: prompt_client L "id_client L A S" "is_identity sub (rgn, name)" A sub
    "\<lambda>cl. id_sdk_Delete S cl rgn name"
  for L :: lib and A :: auth_lib and S :: "'w identity_sdk" and sub rgn name :: string
  by unfold_locales
    (auto elim!: is_identityE simp: id_client_def on_world_def id_ForSubscription_def id_convert_def id_Delete_def polled_run)

interpretation kv_prompt: prompt_client L "kv_client L A uuid S" "is_vault sub (rgn, name)" A sub
    "\<lambda>cl. kv_sdk_Delete S cl rgn name"
  for L :: lib and A :: auth_lib and uuid and S :: "'w vault_sdk" and sub rgn name :: string
  by unfold_locales
    (auto simp: is_vault_def kv_client_def on_world_def kv_ForSubscription_def kv_convert_def kv_Delete_def polled_run)

interpretation fw_prompt: prompt_client L "fw_client L A S" "is_firewall_rule sub (rgn, server, name)" A sub
    "\<lambda>cl. go_bind (fw_sdk_Delete S cl rgn server name) (\<lambda>err. go_ret (None, err))"
  for L :: lib and A :: auth_lib and S :: "'w firewall_sdk" and sub rgn server name :: string
  by unfold_locales
    (auto simp: is_firewall_rule_def fw_client_def on_world_def fw_ForSubscription_def fw_convert_def fw_Delete_def
      polled_run go_returns)

end
