(* ===== verification/Settling.thy ===== *)
theory Settling imports Progress begin

section \<open>Which resources come to rest\<close>

text \<open>
  \<open>Ensure\<close> reads the resource, waits while Azure provisions it, and writes it when the values differ
  from the wanted ones.  With an Azure that stores what is written this is a small machine over the
  stored values; whether repeated reconciles ever answer that nothing is left to do depends on what
  a write leaves.  The locale \<open>writing_client\<close> is the refinement of that machine by the code, and
  the machine is analysed once.  The locale \<open>waiting_client\<close> is the case of an object that cannot be
  written.
\<close>

subsection \<open>Azure stores what is written\<close>

text \<open>
  \<open>view w\<close> is the values of the resource and the polls until it is provisioned.  A write stores the
  values and starts over with \<open>d\<close> polls.
\<close>

definition stores ::
  "('w, 'r \<times> go_error option) go \<Rightarrow> ('r \<Rightarrow> ('w, go_error option) go) \<Rightarrow> ('r \<Rightarrow> http_response) \<Rightarrow>
   ('r \<Rightarrow> string option) \<Rightarrow> ('r \<Rightarrow> 'v) \<Rightarrow> nat \<Rightarrow> ('w \<Rightarrow> ('v \<times> nat) option) \<Rightarrow> bool" where
  "stores get put response state values d view \<longleftrightarrow>
     (\<forall>w. \<exists>remote err w'. get w = (Returns (remote, err), w') \<and>
        (case view w of
           None \<Rightarrow> response remote = Some StatusNotFound \<and> view w' = None
         | Some (v, n) \<Rightarrow> err = None \<and> response remote \<noteq> Some StatusNotFound \<and> values remote = v \<and>
             state remote \<noteq> None \<and> (state remote = Some ''Succeeded'' \<longleftrightarrow> n = 0) \<and> view w' = Some (v, n - 1))) \<and>
     (\<forall>spec w. \<exists>w'. put spec w = (Returns None, w') \<and> view w' = Some (values spec, d))"

subsection \<open>The machine\<close>

text \<open>
  A step answers whether nothing is left to do.  \<open>written u\<close> are the values a write over the values
  \<open>u\<close> leaves, \<open>good v\<close> the values which need no write.
\<close>

type_synonym 'v polled_state = "('v \<times> nat) option"

definition next_poll ::
  "nat \<Rightarrow> ('v option \<Rightarrow> 'v) \<Rightarrow> ('v \<Rightarrow> bool) \<Rightarrow> 'v polled_state \<Rightarrow> bool \<times> 'v polled_state" where
  "next_poll d written good u = (case u of
       None \<Rightarrow> (False, Some (written None, d))
     | Some (v, n) \<Rightarrow>
         if n = 0 \<and> \<not> good v then (False, Some (written (Some v), d)) else (n = 0, Some (v, n - 1)))"

definition polls :: "nat \<Rightarrow> ('v option \<Rightarrow> 'v) \<Rightarrow> ('v \<Rightarrow> bool) \<Rightarrow> nat \<Rightarrow> 'v polled_state \<Rightarrow> 'v polled_state" where
  "polls d written good n = (\<lambda>u. snd (next_poll d written good u)) ^^ n"

text \<open>One write is enough, or none.\<close>

definition settles :: "('v option \<Rightarrow> 'v) \<Rightarrow> ('v \<Rightarrow> bool) \<Rightarrow> 'v polled_state \<Rightarrow> bool" where
  "settles written good u \<longleftrightarrow> (case u of
       None \<Rightarrow> good (written None)
     | Some (v, _) \<Rightarrow> good v \<or> good (written (Some v)))"

text \<open>The steps until nothing is left to do.\<close>

definition calls_left :: "nat \<Rightarrow> ('v \<Rightarrow> bool) \<Rightarrow> 'v polled_state \<Rightarrow> nat" where
  "calls_left d good u = (case u of
       None \<Rightarrow> Suc d
     | Some (v, n) \<Rightarrow> n + (if good v then 0 else Suc d))"

text \<open>The values it settles with.\<close>

definition settled_values :: "('v option \<Rightarrow> 'v) \<Rightarrow> ('v \<Rightarrow> bool) \<Rightarrow> 'v polled_state \<Rightarrow> 'v" where
  "settled_values written good u = (case u of
       None \<Rightarrow> written None
     | Some (v, _) \<Rightarrow> if good v then v else written (Some v))"

lemma polls_0 [simp]: "polls d written good 0 u = u"
  and polls_Suc: "polls d written good (Suc n) u = polls d written good n (snd (next_poll d written good u))"
  by (simp_all add: polls_def funpow_Suc_right del: funpow.simps)

lemma next_poll_settles:
  assumes "settles written good u"
  shows "fst (next_poll d written good u) \<longleftrightarrow> calls_left d good u = 0"
    and "calls_left d good (snd (next_poll d written good u)) = calls_left d good u - 1"
    and "settles written good (snd (next_poll d written good u))"
    and "settled_values written good (snd (next_poll d written good u)) = settled_values written good u"
  using assms
  by (auto simp: next_poll_def settles_def calls_left_def settled_values_def split: option.splits if_splits)

lemma next_poll_restless:
  assumes "\<not> settles written good u" and "\<And>u. written (Some (written u)) = written u"
  shows "\<not> fst (next_poll d written good u)" and "\<not> settles written good (snd (next_poll d written good u))"
  using assms by (auto simp: next_poll_def settles_def split: option.splits if_splits)

lemma polls_settles:
  assumes "settles written good u"
  shows "calls_left d good (polls d written good n u) = calls_left d good u - n \<and>
    settles written good (polls d written good n u) \<and>
    settled_values written good (polls d written good n u) = settled_values written good u"
  using assms
proof (induction n arbitrary: u)
  case (Suc n)
  from Suc.IH [OF next_poll_settles(3) [OF Suc.prems]] next_poll_settles [OF Suc.prems] show ?case
    by (simp add: polls_Suc)
qed simp

lemma polls_settled:
  assumes "settles written good u" and "calls_left d good u \<le> n"
  shows "polls d written good n u = Some (settled_values written good u, 0)"
    and "fst (next_poll d written good (polls d written good n u))"
proof -
  let ?u = "polls d written good n u"
  have u: "calls_left d good ?u = 0" "settled_values written good ?u = settled_values written good u" "settles written good ?u"
    using polls_settles [OF assms(1), of d n] assms(2) by simp_all
  from u(1,2) show "?u = Some (settled_values written good u, 0)"
    by (auto simp: calls_left_def settled_values_def split: option.splits if_splits)
  from u(1,3) show "fst (next_poll d written good ?u)" by (simp add: next_poll_settles)
qed

text \<open>The machine stops exactly when one write is enough.\<close>

lemma polls_stop_iff:
  assumes idem: "\<And>u. written (Some (written u)) = written u"
  shows "(\<exists>n. fst (next_poll d written good (polls d written good n u))) \<longleftrightarrow> settles written good u"
proof
  assume "\<exists>n. fst (next_poll d written good (polls d written good n u))"
  then obtain n where "fst (next_poll d written good (polls d written good n u))" ..
  then show "settles written good u"
  proof (induction n arbitrary: u)
    case 0
    then show ?case using next_poll_restless(1) [OF _ idem, of good u d] by auto
  next
    case (Suc n)
    then show ?case using next_poll_restless(2) [OF _ idem, of good u d] by (auto simp: polls_Suc)
  qed
qed (use polls_settled(2) in blast)

subsection \<open>The code\<close>

text \<open>
  A live object comes to rest when it has the finalizer and a reconcile answers that nothing is left
  to do; the first reconcile only adds the finalizer.
\<close>

definition at_rest ::
  "lib \<Rightarrow> 'k kube \<Rightarrow> namespaced_name \<Rightarrow> kind \<Rightarrow> ('k \<Rightarrow> runtime_object option) \<Rightarrow> 'c AsyncClient \<Rightarrow> 'k \<times> 'c \<Rightarrow> bool" where
  "at_rest L kb req kd stored az s \<longleftrightarrow> stored_finalizer (stored (fst s)) \<and>
     (\<exists>s'. async_Reconcile L (kube_beside kb) (async_beside az) req kd s = (Returns (no_requeue, None), s'))"

definition comes_to_rest ::
  "lib \<Rightarrow> 'k kube \<Rightarrow> namespaced_name \<Rightarrow> kind \<Rightarrow> ('k \<Rightarrow> runtime_object option) \<Rightarrow> 'c AsyncClient \<Rightarrow> 'k \<times> 'c \<Rightarrow> bool" where
  "comes_to_rest L kb req kd stored az s \<longleftrightarrow>
     (\<exists>n. at_rest L kb req kd stored az (reconciles L (kube_beside kb) (async_beside az) req kd n s))"

lemma comes_to_rest_step:
  assumes "\<not> at_rest L kb req kd stored az s"
    and "snd (async_Reconcile L (kube_beside kb) (async_beside az) req kd s) = s'"
  shows "comes_to_rest L kb req kd stored az s \<longleftrightarrow> comes_to_rest L kb req kd stored az s'"
proof -
  let ?rest = "\<lambda>n s. at_rest L kb req kd stored az (reconciles L (kube_beside kb) (async_beside az) req kd n s)"
  have "\<not> ?rest 0 s" using assms(1) by (simp add: reconciles_def)
  moreover have "?rest (Suc n) s \<longleftrightarrow> ?rest n s'" for n using assms(2) by (simp add: reconciles_Suc)
  ultimately show ?thesis unfolding comes_to_rest_def by (metis not0_implies_Suc)
qed

text \<open>
  The live objects \<open>mine\<close> come to rest exactly when the stored values satisfy \<open>P\<close> at the start.
\<close>

definition rests_when ::
  "lib \<Rightarrow> 'k kube \<Rightarrow> namespaced_name \<Rightarrow> kind \<Rightarrow> ('k \<Rightarrow> runtime_object option) \<Rightarrow> (mgmt_client \<times> 'w) AsyncClient \<Rightarrow>
   (runtime_object \<Rightarrow> bool) \<Rightarrow> ('w \<Rightarrow> 'v polled_state) \<Rightarrow> ('v polled_state \<Rightarrow> bool) \<Rightarrow> bool" where
  "rests_when L kb req kd stored az mine view P \<longleftrightarrow>
     (\<forall>k c w obj. stored k = Some obj \<and> mine obj \<and> \<not> deleting obj \<longrightarrow>
        (comes_to_rest L kb req kd stored az (k, (c, w)) \<longleftrightarrow> P (view w)))"

text \<open>
  From as many reconciles on as Azure needs, plus one for the finalizer, the resource is
  provisioned with the values \<open>target\<close>, and a reconcile answers that nothing is left to do.
\<close>

definition provisions ::
  "lib \<Rightarrow> 'k kube \<Rightarrow> namespaced_name \<Rightarrow> kind \<Rightarrow> ('k \<Rightarrow> runtime_object option) \<Rightarrow> (mgmt_client \<times> 'w) AsyncClient \<Rightarrow>
   (runtime_object \<Rightarrow> bool) \<Rightarrow> nat \<Rightarrow> ('w \<Rightarrow> 'v polled_state) \<Rightarrow> 'v \<Rightarrow> bool" where
  "provisions L kb req kd stored az mine d view target \<longleftrightarrow>
     (\<forall>k c w obj n. stored k = Some obj \<and> mine obj \<and> \<not> deleting obj \<and>
        Suc (calls_left d (\<lambda>v. v = target) (view w)) \<le> n \<longrightarrow>
        (let s = reconciles L (kube_beside kb) (async_beside az) req kd n (k, (c, w)) in
         view (snd (snd s)) = Some (target, 0) \<and> at_rest L kb req kd stored az s))"

text \<open>
  What \<open>Ensure\<close> does with the answers of Azure: it waits for a resource that is being provisioned,
  is done with one that has good values, and writes otherwise.
\<close>

locale writing_client = bound_client az mine A sub
  for az :: "(mgmt_client \<times> 'w) AsyncClient" and mine :: "runtime_object \<Rightarrow> bool" and A :: auth_lib and sub :: string +
  fixes L :: lib and get :: "sdk_client \<Rightarrow> ('w, 'r \<times> go_error option) go"
    and put :: "sdk_client \<Rightarrow> 'r \<Rightarrow> ('w, go_error option) go" and response :: "'r \<Rightarrow> http_response"
    and state :: "'r \<Rightarrow> string option" and "values" :: "'r \<Rightarrow> 'v"
    and written :: "'v option \<Rightarrow> 'v" and good :: "'v \<Rightarrow> bool"
  assumes meta: "mine obj \<Longrightarrow> mine (map_meta f obj)"
    and waits: "lib_ok L \<Longrightarrow> mine obj \<Longrightarrow> get (mc_internal c) w = (Returns (remote, None), w1) \<Longrightarrow>
      response remote \<noteq> Some StatusNotFound \<Longrightarrow> state remote \<noteq> None \<Longrightarrow>
      state remote \<noteq> Some ''Succeeded'' \<or> good (values remote) \<Longrightarrow>
      \<exists>obj'. async_Ensure az obj (c, w) = (Returns (obj', state remote = Some ''Succeeded'', None), (c, w1)) \<and>
        clear_status obj' = clear_status obj \<and> mine obj'"
    and writes: "lib_ok L \<Longrightarrow> mine obj \<Longrightarrow> get (mc_internal c) w = (Returns (remote, err), w1) \<Longrightarrow>
      response remote = Some StatusNotFound \<and> u = None \<or>
      response remote \<noteq> Some StatusNotFound \<and> err = None \<and> state remote = Some ''Succeeded'' \<and>
        \<not> good (values remote) \<and> u = Some (values remote) \<Longrightarrow>
      \<exists>spec. values spec = written u \<and> (\<forall>w2. put (mc_internal c) spec w1 = (Returns None, w2) \<longrightarrow>
        (\<exists>obj'. async_Ensure az obj (c, w) = (Returns (obj', False, None), (c, w2)) \<and>
          clear_status obj' = clear_status obj \<and> mine obj'))"
begin

text \<open>\<open>Ensure\<close> is a step of the machine.\<close>

lemma ensure_polls:
  assumes L: "lib_ok L" and azure: "stores (get (mc_internal c)) (put (mc_internal c)) response state values d view"
    and mine: "mine obj"
  shows "\<exists>obj' w'. async_Ensure az obj (c, w) = (Returns (obj', fst (next_poll d written good (view w)), None), (c, w')) \<and>
    clear_status obj' = clear_status obj \<and> mine obj' \<and> view w' = snd (next_poll d written good (view w))"
proof -
  obtain remote err w1 where got: "get (mc_internal c) w = (Returns (remote, err), w1)" and
      poll: "case view w of None \<Rightarrow> response remote = Some StatusNotFound \<and> view w1 = None
         | Some (v, n) \<Rightarrow> err = None \<and> response remote \<noteq> Some StatusNotFound \<and> values remote = v \<and>
             state remote \<noteq> None \<and> (state remote = Some ''Succeeded'' \<longleftrightarrow> n = 0) \<and> view w1 = Some (v, n - 1)"
    using azure unfolding stores_def by blast
  have fresh: ?thesis if u: "response remote = Some StatusNotFound \<and> u = None \<or>
      response remote \<noteq> Some StatusNotFound \<and> err = None \<and> state remote = Some ''Succeeded'' \<and>
        \<not> good (values remote) \<and> u = Some (values remote)"
    and step: "next_poll d written good (view w) = (False, Some (written u, d))" for u
  proof -
    obtain spec where spec: "values spec = written u" and put: "\<And>w2. put (mc_internal c) spec w1 = (Returns None, w2) \<Longrightarrow>
        \<exists>obj'. async_Ensure az obj (c, w) = (Returns (obj', False, None), (c, w2)) \<and>
          clear_status obj' = clear_status obj \<and> mine obj'"
      using writes [OF L mine got u] by blast
    obtain w2 where w2: "put (mc_internal c) spec w1 = (Returns None, w2)" "view w2 = Some (written u, d)"
      using azure spec unfolding stores_def by metis
    then show ?thesis using put [OF w2(1)] step by auto
  qed
  show ?thesis
  proof (cases "view w")
    case None
    with poll show ?thesis by (intro fresh [of None]) (simp_all add: next_poll_def)
  next
    case (Some vn)
    obtain v n where vn: "vn = (v, n)" by (cases vn)
    with Some poll have r: "err = None" "response remote \<noteq> Some StatusNotFound" "values remote = v" "state remote \<noteq> None"
        and n: "state remote = Some ''Succeeded'' \<longleftrightarrow> n = 0" and view: "view w1 = Some (v, n - 1)" by auto
    show ?thesis
    proof (cases "n = 0 \<and> \<not> good v")
      case True
      with Some vn r n show ?thesis by (intro fresh [of "Some v"]) (simp_all add: next_poll_def)
    next
      case False
      with waits [OF L mine, where remote = remote and w = w and c = c] got r n
      obtain obj' where "async_Ensure az obj (c, w) = (Returns (obj', n = 0, None), (c, w1))"
          "clear_status obj' = clear_status obj" "mine obj'" by auto
      with Some vn view False show ?thesis by (auto simp: next_poll_def)
    qed
  qed
qed

text \<open>So is a reconcile, but for the one that adds the finalizer.\<close>

lemma reconcile_polls:
  assumes L: "lib_ok L" and agent: "agent_ok A" and serve: "api_server_serves kb req kd stored"
    and azure: "\<And>cl. stores (get cl) (put cl) response state values d view"
    and obj: "stored k = Some obj" "mine obj" "\<not> deleting obj"
  obtains k' c' w' obj' where
    "async_Reconcile L (kube_beside kb) (async_beside az) req kd (k, (c, w)) =
       (Returns (\<lparr>Requeue = has_finalizer obj \<and> \<not> fst (next_poll d written good (view w))\<rparr>, None), (k', (c', w')))"
    "stored k' = Some obj'" "mine obj'" "\<not> deleting obj'" "has_finalizer obj'"
    "view w' = (if has_finalizer obj then snd (next_poll d written good (view w)) else view w)"
proof -
  let ?c = "fst (authorize_for A c sub)"
  note sub = subscribed [OF agent obj(2), of c w]
  note arms = reconcile_arms [OF serve obj(1) sub, of L]
  show thesis
  proof (cases "has_finalizer obj")
    case False
    obtain k' where "add_finalizer_step (kube_beside kb) obj (k, (?c, w)) = (Returns (no_requeue, None), (k', (?c, w)))"
        "stored k' = Some (map_meta (\<lambda>m. AddFinalizer m finalizerName) obj)"
      using add_finalizer_step_served [OF serve obj(1,3), of "(?c, w)"] by blast
    with False arms obj show ?thesis
      by (intro that [of k' ?c w "map_meta (\<lambda>m. AddFinalizer m finalizerName) obj"]) (simp_all add: no_requeue_def meta)
  next
    case True
    obtain obj' w' where ens: "async_Ensure az obj (?c, w) =
          (Returns (obj', fst (next_poll d written good (view w)), None), (?c, w'))"
        "clear_status obj' = clear_status obj" "mine obj'" "view w' = snd (next_poll d written good (view w))"
      using ensure_polls [OF L azure obj(2)] by blast
    obtain k' where "async_ensure_step L (kube_beside kb) (async_beside az) obj (k, (?c, w)) =
        (Returns (\<lparr>Requeue = \<not> fst (next_poll d written good (view w))\<rparr>, None), (k', (?c, w')))" "stored k' = Some obj'"
      using ensure_step_returns [OF L serve obj(1) ens(1,2)] by blast
    with True arms obj ens clear_status_meta [OF ens(2)] show ?thesis
      by (intro that [of k' ?c w' obj']) simp_all
  qed
qed

lemma reconciles_polls:
  assumes L: "lib_ok L" and agent: "agent_ok A" and serve: "api_server_serves kb req kd stored"
    and azure: "\<And>cl. stores (get cl) (put cl) response state values d view"
    and "stored k = Some obj" "mine obj" "\<not> deleting obj" "has_finalizer obj"
  shows "\<exists>k' c' w'. reconciles L (kube_beside kb) (async_beside az) req kd n (k, (c, w)) = (k', (c', w')) \<and>
    view w' = polls d written good n (view w) \<and>
    (at_rest L kb req kd stored az (k', (c', w')) \<longleftrightarrow> fst (next_poll d written good (view w')))"
  using assms(5-8)
proof (induction n arbitrary: k c w obj)
  case 0
  obtain k' c' w' where "async_Reconcile L (kube_beside kb) (async_beside az) req kd (k, (c, w)) =
       (Returns (\<lparr>Requeue = has_finalizer obj \<and> \<not> fst (next_poll d written good (view w))\<rparr>, None), (k', (c', w')))"
    by (rule reconcile_polls [OF L agent serve azure 0(1-3)])
  with 0 show ?case by (simp add: reconciles_def at_rest_def no_requeue_def)
next
  case (Suc n)
  obtain k' c' w' obj' where "async_Reconcile L (kube_beside kb) (async_beside az) req kd (k, (c, w)) =
       (Returns (\<lparr>Requeue = has_finalizer obj \<and> \<not> fst (next_poll d written good (view w))\<rparr>, None), (k', (c', w')))"
      "stored k' = Some obj'" "mine obj'" "\<not> deleting obj'" "has_finalizer obj'"
      "view w' = (if has_finalizer obj then snd (next_poll d written good (view w)) else view w)"
    by (rule reconcile_polls [OF L agent serve azure Suc.prems(1-3)])
  with Suc.IH [of k' obj' c' w'] Suc.prems(4) show ?case by (simp add: reconciles_Suc polls_Suc)
qed

text \<open>The reconcile that adds the finalizer, if it is needed.\<close>

lemma first_reconcile:
  assumes L: "lib_ok L" and agent: "agent_ok A" and serve: "api_server_serves kb req kd stored"
    and azure: "\<And>cl. stores (get cl) (put cl) response state values d view"
    and obj: "stored k = Some obj" "mine obj" "\<not> deleting obj" "\<not> has_finalizer obj"
  obtains k' c' w' obj' where "snd (async_Reconcile L (kube_beside kb) (async_beside az) req kd (k, (c, w))) = (k', (c', w'))"
    "stored k' = Some obj'" "mine obj'" "\<not> deleting obj'" "has_finalizer obj'" "view w' = view w"
proof -
  obtain k' c' w' obj' where "async_Reconcile L (kube_beside kb) (async_beside az) req kd (k, (c, w)) =
       (Returns (\<lparr>Requeue = has_finalizer obj \<and> \<not> fst (next_poll d written good (view w))\<rparr>, None), (k', (c', w')))"
      "stored k' = Some obj'" "mine obj'" "\<not> deleting obj'" "has_finalizer obj'"
      "view w' = (if has_finalizer obj then snd (next_poll d written good (view w)) else view w)"
    by (rule reconcile_polls [OF L agent serve azure obj(1-3)])
  with obj(4) show thesis by (intro that [of k' c' w' obj']) simp_all
qed

lemma rests:
  assumes L: "lib_ok L" and agent: "agent_ok A" and serve: "api_server_serves kb req kd stored"
    and azure: "\<And>cl. stores (get cl) (put cl) response state values d view"
    and idem: "\<And>u. written (Some (written u)) = written u"
  shows "rests_when L kb req kd stored az mine view (settles written good)"
proof -
  have fin: "comes_to_rest L kb req kd stored az (k, (c, w)) \<longleftrightarrow> settles written good (view w)"
    if obj: "stored k = Some obj" "mine obj" "\<not> deleting obj" "has_finalizer obj" for k c w obj
  proof -
    have "at_rest L kb req kd stored az (reconciles L (kube_beside kb) (async_beside az) req kd n (k, (c, w))) \<longleftrightarrow>
        fst (next_poll d written good (polls d written good n (view w)))" for n
      using reconciles_polls [OF L agent serve azure obj, of n c w] by auto
    then show ?thesis using polls_stop_iff [OF idem, of d good "view w"] by (simp add: comes_to_rest_def)
  qed
  have "comes_to_rest L kb req kd stored az (k, (c, w)) \<longleftrightarrow> settles written good (view w)"
    if obj: "stored k = Some obj" "mine obj" "\<not> deleting obj" "\<not> has_finalizer obj" for k c w obj
  proof -
    obtain k' c' w' obj' where next': "snd (async_Reconcile L (kube_beside kb) (async_beside az) req kd (k, (c, w))) = (k', (c', w'))"
        and obj': "stored k' = Some obj'" "mine obj'" "\<not> deleting obj'" "has_finalizer obj'" "view w' = view w"
      by (rule first_reconcile [OF L agent serve azure obj])
    have "comes_to_rest L kb req kd stored az (k, (c, w)) \<longleftrightarrow> comes_to_rest L kb req kd stored az (k', (c', w'))"
      by (rule comes_to_rest_step) (use obj next' in \<open>simp_all add: at_rest_def\<close>)
    with fin [OF obj'(1-4), of c' w'] obj'(5) show ?thesis by simp
  qed
  with fin show ?thesis unfolding rests_when_def by metis
qed

lemma settled:
  assumes L: "lib_ok L" and agent: "agent_ok A" and serve: "api_server_serves kb req kd stored"
    and azure: "\<And>cl. stores (get cl) (put cl) response state values d view"
    and obj: "stored k = Some obj" "mine obj" "\<not> deleting obj"
    and u: "settles written good (view w)" and n: "Suc (calls_left d good (view w)) \<le> n"
    and s: "s = reconciles L (kube_beside kb) (async_beside az) req kd n (k, (c, w))"
  shows "view (snd (snd s)) = Some (settled_values written good (view w), 0) \<and> at_rest L kb req kd stored az s"
proof (cases "has_finalizer obj")
  case True
  with reconciles_polls [OF L agent serve azure obj True, of n c w] polls_settled [OF u, of d n] n s show ?thesis by auto
next
  case False
  obtain m where m: "n = Suc m" "calls_left d good (view w) \<le> m" using n by (cases n) auto
  obtain k' c' w' obj' where next': "snd (async_Reconcile L (kube_beside kb) (async_beside az) req kd (k, (c, w))) = (k', (c', w'))"
      and obj': "stored k' = Some obj'" "mine obj'" "\<not> deleting obj'" "has_finalizer obj'" "view w' = view w"
    by (rule first_reconcile [OF L agent serve azure obj False])
  with reconciles_polls [OF L agent serve azure obj'(1-4), of m c' w'] polls_settled [OF u m(2)] s m(1) show ?thesis
    by (auto simp: reconciles_Suc)
qed

text \<open>A client that always writes the same values.\<close>

lemma provisioned:
  assumes "lib_ok L" "agent_ok A" "api_server_serves kb req kd stored"
    and "\<And>cl. stores (get cl) (put cl) response state values d view"
    and "good = (\<lambda>v. v = target)" "\<And>u. written u = target"
  shows "provisions L kb req kd stored az mine d view target"
proof -
  have "settles written good u" "settled_values written good u = target" for u
    using assms(5,6) by (simp_all add: settles_def settled_values_def split: option.split)
  then show ?thesis
    using settled [OF assms(1-4)] assms(5) unfolding provisions_def Let_def by metis
qed

end

subsection \<open>Clients that only wait\<close>

text \<open>
  A client that waits for a resource that is there and fails when it is not: its objects come to
  rest exactly when the resource is there.
\<close>

locale waiting_client = bound_client az mine A sub
  for az :: "(mgmt_client \<times> 'w) AsyncClient" and mine :: "runtime_object \<Rightarrow> bool" and A :: auth_lib and sub :: string +
  fixes L :: lib and get :: "sdk_client \<Rightarrow> ('w, 'r \<times> go_error option) go"
    and response :: "'r \<Rightarrow> http_response" and state :: "'r \<Rightarrow> string option"
  assumes meta: "mine obj \<Longrightarrow> mine (map_meta f obj)"
    and waits: "lib_ok L \<Longrightarrow> mine obj \<Longrightarrow> get (mc_internal c) w = (Returns (remote, None), w1) \<Longrightarrow>
      response remote \<noteq> Some StatusNotFound \<Longrightarrow> state remote \<noteq> None \<Longrightarrow>
      \<exists>obj'. async_Ensure az obj (c, w) = (Returns (obj', state remote = Some ''Succeeded'', None), (c, w1)) \<and>
        clear_status obj' = clear_status obj \<and> mine obj'"
    and fails: "lib_ok L \<Longrightarrow> mine obj \<Longrightarrow> get (mc_internal c) w = (Returns (remote, err), w1) \<Longrightarrow>
      response remote = Some StatusNotFound \<Longrightarrow>
      \<exists>obj' e. async_Ensure az obj (c, w) = (Returns (obj', False, Some e), (c, w1)) \<and>
        clear_status obj' = clear_status obj \<and> mine obj'"
begin

lemma reconcile_waits:
  assumes L: "lib_ok L" and agent: "agent_ok A" and serve: "api_server_serves kb req kd stored"
    and azure: "\<And>cl. stores (get cl) (put cl) response state values d view"
    and obj: "stored k = Some obj" "mine obj" "\<not> deleting obj"
  obtains r err k' c' w' obj' where
    "async_Reconcile L (kube_beside kb) (async_beside az) req kd (k, (c, w)) = (Returns (r, err), (k', (c', w')))"
    "stored k' = Some obj'" "mine obj'" "\<not> deleting obj'" "has_finalizer obj'"
    "if \<not> has_finalizer obj then view w' = view w
     else case view w of None \<Rightarrow> err \<noteq> None \<and> view w' = None
       | Some (v, n) \<Rightarrow> r = \<lparr>Requeue = n \<noteq> 0\<rparr> \<and> err = None \<and> view w' = Some (v, n - 1)"
proof -
  let ?c = "fst (authorize_for A c sub)"
  note sub = subscribed [OF agent obj(2), of c w]
  note arms = reconcile_arms [OF serve obj(1) sub, of L]
  show thesis
  proof (cases "has_finalizer obj")
    case False
    obtain k' where "add_finalizer_step (kube_beside kb) obj (k, (?c, w)) = (Returns (no_requeue, None), (k', (?c, w)))"
        "stored k' = Some (map_meta (\<lambda>m. AddFinalizer m finalizerName) obj)"
      using add_finalizer_step_served [OF serve obj(1,3), of "(?c, w)"] by blast
    with False arms obj show ?thesis
      by (intro that [of no_requeue None k' ?c w "map_meta (\<lambda>m. AddFinalizer m finalizerName) obj"]) (simp_all add: meta)
  next
    case True
    obtain remote err w1 where got: "get (mc_internal ?c) w = (Returns (remote, err), w1)" and
        poll: "case view w of None \<Rightarrow> response remote = Some StatusNotFound \<and> view w1 = None
           | Some (v, n) \<Rightarrow> err = None \<and> response remote \<noteq> Some StatusNotFound \<and> values remote = v \<and>
               state remote \<noteq> None \<and> (state remote = Some ''Succeeded'' \<longleftrightarrow> n = 0) \<and> view w1 = Some (v, n - 1)"
      using azure unfolding stores_def by blast
    show ?thesis
    proof (cases "view w")
      case None
      with poll have absent: "response remote = Some StatusNotFound" "view w1 = None" by simp_all
      obtain obj' e where ens: "async_Ensure az obj (?c, w) = (Returns (obj', False, Some e), (?c, w1))"
          "clear_status obj' = clear_status obj" "mine obj'"
        using fails [OF L obj(2) got absent(1)] by blast
      obtain r e' k' where "async_ensure_step L (kube_beside kb) (async_beside az) obj (k, (?c, w)) =
          (Returns (r, Some e'), (k', (?c, w1)))" "stored k' = Some obj'"
        using ensure_step_fails [OF L serve obj(1) ens(1,2)] by blast
      with True None arms obj ens(3) absent(2) clear_status_meta [OF ens(2)] show ?thesis
        by (intro that [of r "Some e'" k' ?c w1 obj']) simp_all
    next
      case (Some vn)
      obtain v n where vn: "vn = (v, n)" by (cases vn)
      with Some poll have r: "err = None" "response remote \<noteq> Some StatusNotFound" "state remote \<noteq> None"
          and n: "state remote = Some ''Succeeded'' \<longleftrightarrow> n = 0" and view: "view w1 = Some (v, n - 1)" by auto
      obtain obj' where ens: "async_Ensure az obj (?c, w) = (Returns (obj', n = 0, None), (?c, w1))"
          "clear_status obj' = clear_status obj" "mine obj'"
        using waits [OF L obj(2) _ r(2,3), of ?c w w1] got r(1) n by auto
      obtain k' where "async_ensure_step L (kube_beside kb) (async_beside az) obj (k, (?c, w)) =
          (Returns (\<lparr>Requeue = n \<noteq> 0\<rparr>, None), (k', (?c, w1)))" "stored k' = Some obj'"
        using ensure_step_returns [OF L serve obj(1) ens(1,2)] by blast
      with True Some vn arms obj ens(3) view clear_status_meta [OF ens(2)] show ?thesis
        by (intro that [of "\<lparr>Requeue = n \<noteq> 0\<rparr>" None k' ?c w1 obj']) simp_all
    qed
  qed
qed

lemma never_rests:
  assumes L: "lib_ok L" and agent: "agent_ok A" and serve: "api_server_serves kb req kd stored"
    and azure: "\<And>cl. stores (get cl) (put cl) response state values d view"
    and "stored k = Some obj" "mine obj" "\<not> deleting obj" "has_finalizer obj" "view w = None"
  shows "\<not> at_rest L kb req kd stored az (reconciles L (kube_beside kb) (async_beside az) req kd n (k, (c, w)))"
  using assms(5-9)
proof (induction n arbitrary: k c w obj)
  case 0
  show ?case by (rule reconcile_waits [OF L agent serve azure 0(1-3), of c w]) (use 0 in \<open>simp add: reconciles_def at_rest_def\<close>)
next
  case (Suc n)
  show ?case
    by (rule reconcile_waits [OF L agent serve azure Suc.prems(1-3), of c w]) (use Suc in \<open>simp add: reconciles_Suc\<close>)
qed

lemma soon_rests:
  assumes L: "lib_ok L" and agent: "agent_ok A" and serve: "api_server_serves kb req kd stored"
    and azure: "\<And>cl. stores (get cl) (put cl) response state values d view"
    and "stored k = Some obj" "mine obj" "\<not> deleting obj" "has_finalizer obj" "view w = Some (v, n)"
  shows "comes_to_rest L kb req kd stored az (k, (c, w))"
  using assms(5-9)
proof (induction n arbitrary: k c w obj)
  case 0
  have "at_rest L kb req kd stored az (k, (c, w))"
    by (rule reconcile_waits [OF L agent serve azure 0(1-3), of c w]) (use 0 in \<open>simp add: at_rest_def no_requeue_def\<close>)
  then show ?case unfolding comes_to_rest_def by (intro exI [of _ 0]) (simp add: reconciles_def)
next
  case (Suc n)
  obtain r err k' c' w' obj' where s: "async_Reconcile L (kube_beside kb) (async_beside az) req kd (k, (c, w)) =
        (Returns (r, err), (k', (c', w')))" "stored k' = Some obj'" "mine obj'" "\<not> deleting obj'" "has_finalizer obj'"
      "r = \<lparr>Requeue = True\<rparr>" "view w' = Some (v, n)"
    by (rule reconcile_waits [OF L agent serve azure Suc.prems(1-3), of c w]) (use Suc.prems in auto)
  then have "comes_to_rest L kb req kd stored az (k, (c, w)) \<longleftrightarrow> comes_to_rest L kb req kd stored az (k', (c', w'))"
    by (intro comes_to_rest_step) (simp_all add: at_rest_def no_requeue_def)
  with Suc.IH [OF s(2-5,7)] show ?case by simp
qed

lemma rests_when_found:
  assumes L: "lib_ok L" and agent: "agent_ok A" and serve: "api_server_serves kb req kd stored"
    and azure: "\<And>cl. stores (get cl) (put cl) response state values d view"
  shows "rests_when L kb req kd stored az mine view (\<lambda>u. u \<noteq> None)"
proof -
  let ?rests = "comes_to_rest L kb req kd stored az"
  have fin: "?rests (k, (c, w)) \<longleftrightarrow> view w \<noteq> None"
    if "stored k = Some obj" "mine obj" "\<not> deleting obj" "has_finalizer obj" for k c w obj
    using never_rests [OF L agent serve azure that] soon_rests [OF L agent serve azure that]
    by (cases "view w") (auto simp: comes_to_rest_def)
  have "?rests (k, (c, w)) \<longleftrightarrow> view w \<noteq> None"
    if obj: "stored k = Some obj" "mine obj" "\<not> deleting obj" "\<not> has_finalizer obj" for k c w obj
  proof -
    obtain r err k' c' w' obj' where s: "async_Reconcile L (kube_beside kb) (async_beside az) req kd (k, (c, w)) =
          (Returns (r, err), (k', (c', w')))" "stored k' = Some obj'" "mine obj'" "\<not> deleting obj'" "has_finalizer obj'"
        "view w' = view w"
      by (rule reconcile_waits [OF L agent serve azure obj(1-3), of c w]) (use obj(4) in simp)
    then have "?rests (k, (c, w)) \<longleftrightarrow> ?rests (k', (c', w'))"
      using obj by (intro comes_to_rest_step) (simp_all add: at_rest_def)
    with fin [OF s(2-5)] s(6) show ?thesis by simp
  qed
  with fin show ?thesis unfolding rests_when_def by metis
qed

end

subsection \<open>The clients of the repository\<close>

text \<open>Resource groups: the name and the location are written and compared.\<close>

definition grp_state :: "Group \<Rightarrow> string option" where
  "grp_state g = (case grp_Properties g of None \<Rightarrow> None | Some st \<Rightarrow> st)"

definition grp_values :: "Group \<Rightarrow> string option \<times> string option" where
  "grp_values g = (grp_Name g, grp_Location g)"

definition rg_put :: "'w rg_sdk \<Rightarrow> string \<Rightarrow> sdk_client \<Rightarrow> Group \<Rightarrow> ('w, go_error option) go" where
  "rg_put S name cl spec = go_bind (rg_CreateOrUpdate S cl name spec) (\<lambda>(_, err). go_ret err)"

lemma rg_put_Returns:
  "rg_put S name cl spec w = (Returns err, w') \<longleftrightarrow> (\<exists>r. rg_CreateOrUpdate S cl name spec w = (Returns (r, err), w'))"
  by (auto simp: rg_put_def go_returns)

definition is_group_at :: "string \<Rightarrow> string \<Rightarrow> string \<Rightarrow> runtime_object \<Rightarrow> bool" where
  "is_group_at sub name loc obj \<longleftrightarrow>
     (\<exists>x. obj = ObjResourceGroup x \<and> rgs_SubscriptionID (Spec x) = sub \<and> rgs_Name (Spec x) = name \<and>
        rgs_Location (Spec x) = loc)"

lemma rg_Done_state:
  "grp_state remote \<noteq> None \<Longrightarrow> rg_Done (rg_SetStatus x remote) \<longleftrightarrow> grp_state remote = Some ''Succeeded''"
  by (auto simp: grp_state_def rg_Done_def rg_SetStatus_def Let_def split: option.splits)

interpretation rg_writing: writing_client "rg_client L A S" "is_group_at sub name loc" A sub L
    "\<lambda>cl. rg_Get S cl name" "rg_put S name" grp_Response grp_state grp_values
    "\<lambda>_. (Some name, Some loc)" "\<lambda>v. v = (Some name, Some loc)"
  for L :: lib and A :: auth_lib and S :: "'w rg_sdk" and sub name loc :: string
proof unfold_locales
  fix obj :: runtime_object and c :: mgmt_client and w w1 :: 'w and remote err and u :: "(string option \<times> string option) option"
  assume a: "lib_ok L" "is_group_at sub name loc obj" "rg_Get S (mc_internal c) name w = (Returns (remote, err), w1)"
    and cases: "grp_Response remote = Some StatusNotFound \<and> u = None \<or>
      grp_Response remote \<noteq> Some StatusNotFound \<and> err = None \<and> grp_state remote = Some ''Succeeded'' \<and>
        grp_values remote \<noteq> (Some name, Some loc) \<and> u = Some (grp_values remote)"
  then obtain x where x: "obj = ObjResourceGroup x" "rgs_SubscriptionID (Spec x) = sub" "rgs_Name (Spec x) = name"
      "rgs_Location (Spec x) = loc" by (auto simp: is_group_at_def)
  let ?spec = "(if grp_Response remote = Some StatusNotFound then zero_Group else remote)
    \<lparr>grp_Name := Some name, grp_Location := Some loc\<rparr>"
  have "rg_Ensure L S c obj w = (Returns (ObjResourceGroup (rg_SetStatus x remote), False, None), w2)"
    if "rg_put S name (mc_internal c) ?spec w1 = (Returns None, w2)" for w2
    using that cases a(1,3) x
    by (cases "grp_Response remote = Some StatusNotFound")
      (auto simp: rg_put_Returns rg_Ensure_not_found rg_Ensure_found go_bind_step go_ret_apply Let_def rg_Done_state
        grp_values_def)
  then show "\<exists>spec. grp_values spec = (Some name, Some loc) \<and> (\<forall>w2. rg_put S name (mc_internal c) spec w1 = (Returns None, w2) \<longrightarrow>
      (\<exists>obj'. async_Ensure (rg_client L A S) obj (c, w) = (Returns (obj', False, None), (c, w2)) \<and>
         clear_status obj' = clear_status obj \<and> is_group_at sub name loc obj'))"
    using x by (intro exI [of _ ?spec]) (auto simp: grp_values_def rg_client_def on_world_def is_group_at_def)
qed (auto simp: is_group_at_def rg_client_def rg_ForSubscription_def rg_convert_def on_world_def rg_Ensure_found rg_Done_state
    grp_values_def Let_def)

text \<open>Subnets: the name and the prefix are written and compared.\<close>

definition sn_values :: "subnet \<Rightarrow> string option \<times> string option" where
  "sn_values s = (sn_Name s, sn_Address s)"

definition is_subnet_at :: "string \<Rightarrow> string \<times> string \<times> string \<Rightarrow> string \<Rightarrow> runtime_object \<Rightarrow> bool" where
  "is_subnet_at sub key cidr obj \<longleftrightarrow>
     (\<exists>x. obj = ObjSubnet x \<and> sns_SubscriptionID (Spec x) = sub \<and>
        (sns_ResourceGroup (Spec x), sns_Network (Spec x), sns_Name (Spec x)) = key \<and> sns_Subnet (Spec x) = cidr)"

lemma sn_Done_state:
  "sn_State remote \<noteq> None \<Longrightarrow> sn_Done (sn_SetStatus x remote) \<longleftrightarrow> sn_State remote = Some ''Succeeded''"
  by (auto simp: sn_State_def sn_Done_def sn_SetStatus_def Let_def split: option.splits)

lemma sn_apply_writes:
  "\<exists>spec'. sn_values spec' = (Some (sns_Name (Spec x)), Some (sns_Subnet (Spec x))) \<and>
     (\<forall>w w'. sn_sdk_CreateOrUpdate S (mc_internal c) (sns_ResourceGroup (Spec x)) (sns_Network (Spec x)) (sns_Name (Spec x)) spec' w =
        (Returns None, w') \<longrightarrow> sn_apply S c x spec w = (Returns (ObjSubnet x, False, None), w'))"
proof -
  obtain spec' where s: "sn_set_Address (sns_Subnet (Spec x)) (spec\<lparr>sn_Name := Some (sns_Name (Spec x))\<rparr>) = (Returns (), spec')"
      "sn_Address spec' = Some (sns_Subnet (Spec x))" "sn_Name spec' = Some (sns_Name (Spec x))"
    using sn_set_Address_eq [of "sns_Subnet (Spec x)" "spec\<lparr>sn_Name := Some (sns_Name (Spec x))\<rparr>"] by auto
  have "go_bind (sn_set_Name (sns_Name (Spec x))) (\<lambda>_. sn_set_Address (sns_Subnet (Spec x))) spec = (Returns (), spec')"
    using s(1) by (simp add: sn_set_Name_def go_simps)
  with s(2,3) show ?thesis
    by (intro exI [of _ spec'])
      (auto simp: sn_values_def sn_apply_def with_spec_def go_bind_step go_ret_apply)
qed

interpretation sn_writing: writing_client "sn_client L A S" "is_subnet_at sub (rgn, network, name) cidr" A sub L
    "\<lambda>cl. sn_sdk_Get S cl rgn network name ''''" "\<lambda>cl. sn_sdk_CreateOrUpdate S cl rgn network name"
    sn_Response sn_State sn_values "\<lambda>_. (Some name, Some cidr)" "\<lambda>v. v = (Some name, Some cidr)"
  for L :: lib and A :: auth_lib and S :: "'w subnet_sdk" and sub rgn network name cidr :: string
proof unfold_locales
  fix obj :: runtime_object and c :: mgmt_client and w w1 :: 'w and remote err and u :: "(string option \<times> string option) option"
  assume a: "lib_ok L" "is_subnet_at sub (rgn, network, name) cidr obj"
      "sn_sdk_Get S (mc_internal c) rgn network name '''' w = (Returns (remote, err), w1)"
    and cases: "sn_Response remote = Some StatusNotFound \<and> u = None \<or>
      sn_Response remote \<noteq> Some StatusNotFound \<and> err = None \<and> sn_State remote = Some ''Succeeded'' \<and>
        sn_values remote \<noteq> (Some name, Some cidr) \<and> u = Some (sn_values remote)"
  then obtain x where x: "obj = ObjSubnet x" "sns_SubscriptionID (Spec x) = sub" "sns_ResourceGroup (Spec x) = rgn"
      "sns_Network (Spec x) = network" "sns_Name (Spec x) = name" "sns_Subnet (Spec x) = cidr"
    by (auto simp: is_subnet_at_def)
  let ?x = "sn_SetStatus x remote" and ?start = "if sn_Response remote = Some StatusNotFound then sn_NewSpec else remote"
  obtain spec where spec: "sn_values spec = (Some name, Some cidr)"
      and put: "\<And>w w'. sn_sdk_CreateOrUpdate S (mc_internal c) rgn network name spec w = (Returns None, w') \<Longrightarrow>
        sn_apply S c ?x ?start w = (Returns (ObjSubnet ?x, False, None), w')"
    using sn_apply_writes [of ?x S c ?start] x by auto
  have "sn_Ensure L S c obj w = sn_apply S c ?x ?start w1"
    using cases a(1,3) x
    by (cases "sn_Response remote = Some StatusNotFound")
      (auto simp: sn_Ensure_def sn_convert_def go_bind_step lib_okD(1) Let_def sn_Done_state sn_NewSpecWithRemote_def
        with_spec_def sn_NeedsUpdate_eq sn_values_def)
  with put x show "\<exists>spec. sn_values spec = (Some name, Some cidr) \<and>
      (\<forall>w2. sn_sdk_CreateOrUpdate S (mc_internal c) rgn network name spec w1 = (Returns None, w2) \<longrightarrow>
      (\<exists>obj'. async_Ensure (sn_client L A S) obj (c, w) = (Returns (obj', False, None), (c, w2)) \<and>
         clear_status obj' = clear_status obj \<and> is_subnet_at sub (rgn, network, name) cidr obj'))"
    using spec by (intro exI [of _ spec]) (auto simp: sn_client_def on_world_def is_subnet_at_def)
qed (auto simp: is_subnet_at_def sn_client_def sn_ForSubscription_def sn_convert_def on_world_def sn_Ensure_def go_bind_step
    lib_okD(1) Let_def sn_Done_state sn_NewSpecWithRemote_def with_spec_def sn_NeedsUpdate_eq sn_values_def go_ret_apply)

text \<open>
  Virtual networks: the name, the location and the prefixes are compared, and a write keeps the
  prefixes that are there.
\<close>

definition vn_values :: "vnet \<Rightarrow> string option \<times> string option \<times> string list option" where
  "vn_values s = (vnet_Name s, vnet_Location s, vn_Addresses s)"

definition vn_written ::
  "string \<Rightarrow> string \<Rightarrow> string list \<Rightarrow> (string option \<times> string option \<times> string list option) option \<Rightarrow>
   string option \<times> string option \<times> string list option" where
  "vn_written name loc cidrs u =
     (Some name, Some loc, Some (vn_add_all cidrs (case u of Some (_, _, Some xs) \<Rightarrow> xs | _ \<Rightarrow> [])))"

definition is_vnet_at :: "string \<Rightarrow> string \<times> string \<Rightarrow> string \<Rightarrow> string list \<Rightarrow> runtime_object \<Rightarrow> bool" where
  "is_vnet_at sub key loc cidrs obj \<longleftrightarrow>
     (\<exists>x. obj = ObjVirtualNetwork x \<and> vns_SubscriptionID (Spec x) = sub \<and>
        (vns_ResourceGroup (Spec x), vns_Name (Spec x)) = key \<and> vns_Location (Spec x) = loc \<and>
        vns_Addresses (Spec x) = cidrs \<and> cidrs \<noteq> [])"

lemma vn_Done_state:
  "vn_State remote \<noteq> None \<Longrightarrow> vn_Done (vn_SetStatus x remote) \<longleftrightarrow> vn_State remote = Some ''Succeeded''"
  by (auto simp: vn_State_def vn_Done_def vn_SetStatus_def Let_def split: option.splits)

lemma vn_apply_writes:
  "\<exists>spec'. vn_values spec' = (Some (vns_Name (Spec x)), Some (vns_Location (Spec x)),
       Some (vn_add_all (vns_Addresses (Spec x)) (case vn_Addresses spec of None \<Rightarrow> [] | Some xs \<Rightarrow> xs))) \<and>
     (\<forall>w w'. vn_sdk_CreateOrUpdate S (mc_internal c) (vns_ResourceGroup (Spec x)) (vns_Name (Spec x)) spec' w = (Returns None, w') \<longrightarrow>
        vn_apply S c x spec w = (Returns (ObjVirtualNetwork x, False, None), w'))"
proof -
  obtain spec' where "vn_desired x spec = (Returns (), spec')"
    and "vnet_Name spec' = Some (vns_Name (Spec x))" "vnet_Location spec' = Some (vns_Location (Spec x))"
    and "vn_Addresses spec' =
      Some (vn_add_all (vns_Addresses (Spec x)) (case vn_Addresses spec of None \<Rightarrow> [] | Some xs \<Rightarrow> xs))"
    by (rule vn_desired_result)
  then show ?thesis
    by (intro exI [of _ spec'])
      (auto simp: vn_values_def vn_apply_def with_spec_def go_bind_step go_ret_apply)
qed

interpretation vn_writing: writing_client "vn_client L A S" "is_vnet_at sub (rgn, name) loc cidrs" A sub L
    "\<lambda>cl. vn_sdk_Get S cl rgn name ''''" "\<lambda>cl. vn_sdk_CreateOrUpdate S cl rgn name"
    vnet_Response vn_State vn_values "vn_written name loc cidrs" "\<lambda>v. v = (Some name, Some loc, Some cidrs)"
  for L :: lib and A :: auth_lib and S :: "'w vnet_sdk" and sub rgn name loc :: string and cidrs :: "string list"
proof unfold_locales
  fix obj :: runtime_object and c :: mgmt_client and w w1 :: 'w and remote err u
  assume a: "lib_ok L" "is_vnet_at sub (rgn, name) loc cidrs obj"
      "vn_sdk_Get S (mc_internal c) rgn name '''' w = (Returns (remote, err), w1)"
    and cases: "vnet_Response remote = Some StatusNotFound \<and> u = None \<or>
      vnet_Response remote \<noteq> Some StatusNotFound \<and> err = None \<and> vn_State remote = Some ''Succeeded'' \<and>
        vn_values remote \<noteq> (Some name, Some loc, Some cidrs) \<and> u = Some (vn_values remote)"
  then obtain x where x: "obj = ObjVirtualNetwork x" "vns_SubscriptionID (Spec x) = sub" "vns_ResourceGroup (Spec x) = rgn"
      "vns_Name (Spec x) = name" "vns_Location (Spec x) = loc" "vns_Addresses (Spec x) = cidrs" "cidrs \<noteq> []"
    by (auto simp: is_vnet_at_def)
  let ?x = "vn_SetStatus x remote" and ?start = "if vnet_Response remote = Some StatusNotFound then vn_NewSpec else remote"
  have start: "(case vn_Addresses ?start of None \<Rightarrow> [] | Some xs \<Rightarrow> xs) = (case u of Some (_, _, Some xs) \<Rightarrow> xs | _ \<Rightarrow> [])"
    using cases by (auto simp: vn_values_def vn_NewSpec_def zero_vnet_def vn_Addresses_def split: option.splits)
  obtain spec where spec: "vn_values spec = vn_written name loc cidrs u"
      and put: "\<And>w w'. vn_sdk_CreateOrUpdate S (mc_internal c) rgn name spec w = (Returns None, w') \<Longrightarrow>
        vn_apply S c ?x ?start w = (Returns (ObjVirtualNetwork ?x, False, None), w')"
    using vn_apply_writes [of ?x ?start S c] x start by (auto simp: vn_written_def)
  have "vn_Ensure L S c obj w = vn_apply S c ?x ?start w1"
    using cases a(1,3) x
    by (cases "vnet_Response remote = Some StatusNotFound")
      (auto simp: vn_Ensure_def vn_convert_def go_bind_step lib_okD(1) Let_def vn_Done_state vn_NewSpecWithRemote_def
        with_spec_def vn_spec_NeedsUpdate_eq vn_values_def)
  with put x show "\<exists>spec. vn_values spec = vn_written name loc cidrs u \<and>
      (\<forall>w2. vn_sdk_CreateOrUpdate S (mc_internal c) rgn name spec w1 = (Returns None, w2) \<longrightarrow>
      (\<exists>obj'. async_Ensure (vn_client L A S) obj (c, w) = (Returns (obj', False, None), (c, w2)) \<and>
         clear_status obj' = clear_status obj \<and> is_vnet_at sub (rgn, name) loc cidrs obj'))"
    using spec by (intro exI [of _ spec]) (auto simp: vn_client_def on_world_def is_vnet_at_def)
qed (auto simp: is_vnet_at_def vn_client_def vn_ForSubscription_def vn_convert_def on_world_def vn_Ensure_def go_bind_step
    lib_okD(1) Let_def vn_Done_state vn_NewSpecWithRemote_def with_spec_def vn_spec_NeedsUpdate_eq vn_values_def go_ret_apply)

text \<open>
  A network comes to rest when the prefixes Azure had are the first of the wanted ones, in order, and
  the rest of these are distinct and new; a new network has none.
\<close>

definition prefixes_fit :: "string list \<Rightarrow> (string option \<times> string option \<times> string list option) polled_state \<Rightarrow> bool" where
  "prefixes_fit cidrs u \<longleftrightarrow>
     (let xs = (case u of Some ((_, _, Some xs), _) \<Rightarrow> xs | _ \<Rightarrow> []); new = drop (length xs) cidrs
      in xs = take (length xs) cidrs \<and> distinct new \<and> set xs \<inter> set new = {})"

lemma vn_written_idem: "vn_written name loc cidrs (Some (vn_written name loc cidrs u)) = vn_written name loc cidrs u"
  by (simp add: vn_written_def)

lemma prefixes_fit_iff:
  "prefixes_fit cidrs u \<longleftrightarrow> vn_add_all cidrs (case u of Some ((_, _, Some xs), _) \<Rightarrow> xs | _ \<Rightarrow> []) = cidrs"
  unfolding prefixes_fit_def Let_def vn_add_all_fixed_iff [symmetric] by (rule refl)

lemma vn_settles: "settles (vn_written name loc cidrs) (\<lambda>v. v = (Some name, Some loc, Some cidrs)) u \<longleftrightarrow> prefixes_fit cidrs u"
  by (auto simp: prefixes_fit_iff settles_def vn_written_def split: option.splits prod.splits)

text \<open>Interfaces: an existing one is never compared with the object, so every configuration is good.\<close>

definition nic_values :: "nic_resource \<Rightarrow> string option \<times> nic_ipconfig list option" where
  "nic_values r = (nicr_Location r, Option.bind (nicr_Properties r) nicp_IPConfigurations)"

definition nic_state :: "nic_resource \<Rightarrow> string option" where
  "nic_state r = Option.bind (nicr_Properties r) nicp_ProvisioningState"

definition is_nic_at :: "string \<Rightarrow> string \<times> string \<Rightarrow> nic_resource \<Rightarrow> runtime_object \<Rightarrow> bool" where
  "is_nic_at sub key spec obj \<longleftrightarrow>
     (\<exists>x. obj = ObjNetworkInterface x \<and> nis_SubscriptionID (Spec x) = sub \<and>
        (nis_ResourceGroup (Spec x), nis_Name (Spec x)) = key \<and> nic_wanted x = Inr spec)"

lemma nic_Done_state:
  "nic_state remote \<noteq> None \<Longrightarrow> nic_Done (nic_SetStatus x remote) \<longleftrightarrow> nic_state remote = Some ''Succeeded''"
  by (cases "nicr_Properties remote") (auto simp: nic_state_def nic_Done_def nic_SetStatus_def Let_def)

lemma nic_wanted_spec:
  assumes "Spec x = Spec y"
  shows "nic_wanted x = nic_wanted y"
proof -
  have eqs: "nic_baseTemplate x = nic_baseTemplate y" "nic_subnet x = nic_subnet y"
    using assms by (simp_all add: nic_subnet_def nic_baseTemplate_def)
  show ?thesis unfolding nic_wanted_def eqs assms by (rule refl)
qed

lemma nic_wanted_keeps [simp]:
  "nic_wanted (nic_SetStatus x remote) = nic_wanted x" "nic_wanted (x\<lparr>ObjectMeta := m\<rparr>) = nic_wanted x"
  by (rule nic_wanted_spec; simp)+

interpretation nic_writing: writing_client "nic_client L A S" "is_nic_at sub (rgn, name) spec" A sub L
    "\<lambda>cl. nic_sdk_Get S cl rgn name ''''" "\<lambda>cl. nic_sdk_CreateOrUpdate S cl rgn name"
    nicr_Response nic_state nic_values "\<lambda>_. nic_values spec" "\<lambda>_. True"
  for L :: lib and A :: auth_lib and S :: "'w nic_sdk" and sub rgn name :: string and spec :: nic_resource
  by unfold_locales
    (auto simp: is_nic_at_def nic_client_def nic_ForSubscription_def nic_convert_def on_world_def nic_Ensure_def
      go_bind_step lib_okD(1) Let_def nic_Done_state go_ret_apply)

text \<open>
  The other interfaces, with an empty list of configurations, cannot be written: \<open>Ensure\<close> fails when
  they are not there.
\<close>

definition is_nic_empty :: "string \<Rightarrow> string \<times> string \<Rightarrow> runtime_object \<Rightarrow> bool" where
  "is_nic_empty sub key obj \<longleftrightarrow>
     (\<exists>x. obj = ObjNetworkInterface x \<and> nis_SubscriptionID (Spec x) = sub \<and>
        (nis_ResourceGroup (Spec x), nis_Name (Spec x)) = key \<and> nis_IPConfigurations (Spec x) = Some [])"

lemma nic_wanted_empty:
  "(\<exists>err. nic_wanted x = Inl err) \<longleftrightarrow> nis_IPConfigurations (Spec x) = Some []"
  by (auto simp: nic_wanted_def Let_def split: option.split)

interpretation nic_waiting: waiting_client "nic_client L A S" "is_nic_empty sub (rgn, name)" A sub L
    "\<lambda>cl. nic_sdk_Get S cl rgn name ''''" nicr_Response nic_state
  for L :: lib and A :: auth_lib and S :: "'w nic_sdk" and sub rgn name :: string
proof unfold_locales
  fix obj :: runtime_object and c :: mgmt_client and w w1 :: 'w and remote err
  assume a: "lib_ok L" "is_nic_empty sub (rgn, name) obj" "nic_sdk_Get S (mc_internal c) rgn name '''' w = (Returns (remote, err), w1)"
    "nicr_Response remote = Some StatusNotFound"
  then obtain x where x: "obj = ObjNetworkInterface x" "nis_SubscriptionID (Spec x) = sub" "nis_ResourceGroup (Spec x) = rgn"
      "nis_Name (Spec x) = name" "nis_IPConfigurations (Spec x) = Some []" by (auto simp: is_nic_empty_def)
  then obtain e where "nic_wanted x = Inl e" using nic_wanted_empty by blast
  with a x show "\<exists>obj' e. async_Ensure (nic_client L A S) obj (c, w) = (Returns (obj', False, Some e), (c, w1)) \<and>
      clear_status obj' = clear_status obj \<and> is_nic_empty sub (rgn, name) obj'"
    by (auto simp: is_nic_empty_def nic_client_def nic_convert_def on_world_def nic_Ensure_def go_bind_step lib_okD(1)
        Let_def go_ret_apply)
qed (auto simp: is_nic_empty_def nic_client_def nic_ForSubscription_def nic_convert_def on_world_def nic_Ensure_def
    go_bind_step lib_okD(1) Let_def nic_Done_state go_ret_apply)

text \<open>
  Namespaces without a secret to copy the keys into: a write leaves the wanted SKU and location, and
  a namespace in the wanted location needs a write.
\<close>

definition sb_values :: "sb_namespace \<Rightarrow> sb_sku option \<times> string option" where
  "sb_values r = (sbr_Sku r, sbr_Location r)"

definition sb_state :: "sb_namespace \<Rightarrow> string option" where
  "sb_state r = Option.bind (sbr_Properties r) (\<lambda>p. p)"

definition sb_left_alone :: "ServiceBusNamespaceSku \<Rightarrow> string \<Rightarrow> sb_sku option \<times> string option \<Rightarrow> bool" where
  "sb_left_alone want loc v \<longleftrightarrow>
     (case fst v of None \<Rightarrow> True | Some sku \<Rightarrow> \<not> sb_sku_differs want sku) \<and>
     (case snd v of None \<Rightarrow> True | Some l \<Rightarrow> \<not> EqualFold l loc)"

definition sb_written :: "ServiceBusNamespaceSku \<Rightarrow> string \<Rightarrow> sb_sku option \<times> string option" where
  "sb_written want loc = (Some \<lparr>sbk_Name = sbsku_Name want, sbk_Tier = sbsku_Tier want,
     sbk_Capacity = Some (sbsku_Capacity want)\<rparr>, Some loc)"

definition is_namespace_at ::
  "string \<Rightarrow> string \<times> string \<Rightarrow> ServiceBusNamespaceSku \<Rightarrow> string \<Rightarrow> runtime_object \<Rightarrow> bool" where
  "is_namespace_at sub key want loc obj \<longleftrightarrow>
     (\<exists>x. obj = ObjServiceBusNamespace x \<and> sbns_SubscriptionID (Spec x) = sub \<and>
        (sbns_ResourceGroup (Spec x), sbns_Name (Spec x)) = key \<and> sbns_SKU (Spec x) = want \<and>
        sbns_Location (Spec x) = loc \<and> sbns_TargetSecret (Spec x) = None)"

lemma sb_Done_state:
  "sb_state remote \<noteq> None \<Longrightarrow> sb_Done (sb_SetStatus x remote) \<longleftrightarrow> sb_state remote = Some ''Succeeded''"
  by (cases "sbr_Properties remote") (auto simp: sb_state_def sb_Done_def sb_SetStatus_def Let_def)

lemma sb_NeedsUpdate_values:
  "sb_NeedsUpdate x remote \<longleftrightarrow> \<not> sb_left_alone (sbns_SKU (Spec x)) (sbns_Location (Spec x)) (sb_values remote)"
  by (simp add: sb_NeedsUpdate_def sb_left_alone_def sb_values_def split: option.split)

lemma sb_SyncSecrets_none:
  "sbns_TargetSecret (Spec x) = None \<Longrightarrow>
     (case K of None \<Rightarrow> go_ret None | Some K \<Rightarrow> sb_SyncSecrets L K S c x) = go_ret None"
  by (simp add: sb_SyncSecrets_def split: option.split)

interpretation sb_writing: writing_client "sb_client L A K S" "is_namespace_at sub (rgn, name) want loc" A sub L
    "\<lambda>cl. sb_sdk_Get S cl rgn name" "\<lambda>cl. sb_sdk_CreateOrUpdate S cl rgn name"
    sbr_Response sb_state sb_values "\<lambda>_. sb_written want loc" "sb_left_alone want loc"
  for L :: lib and A :: auth_lib and K :: "'w secret_ops option" and S :: "'w sb_sdk"
    and sub rgn name :: string and want :: ServiceBusNamespaceSku and loc :: string
proof unfold_locales
  fix obj :: runtime_object and c :: mgmt_client and w w1 :: 'w and remote err and u :: "(sb_sku option \<times> string option) option"
  assume a: "lib_ok L" "is_namespace_at sub (rgn, name) want loc obj"
      "sb_sdk_Get S (mc_internal c) rgn name w = (Returns (remote, err), w1)"
    and cases: "sbr_Response remote = Some StatusNotFound \<and> u = None \<or>
      sbr_Response remote \<noteq> Some StatusNotFound \<and> err = None \<and> sb_state remote = Some ''Succeeded'' \<and>
        \<not> sb_left_alone want loc (sb_values remote) \<and> u = Some (sb_values remote)"
  then obtain x where x: "obj = ObjServiceBusNamespace x" "sbns_SubscriptionID (Spec x) = sub" "sbns_ResourceGroup (Spec x) = rgn"
      "sbns_Name (Spec x) = name" "sbns_SKU (Spec x) = want" "sbns_Location (Spec x) = loc" "sbns_TargetSecret (Spec x) = None"
    by (auto simp: is_namespace_at_def)
  let ?spec = "zero_sb_namespace\<lparr>sbr_Location := Some loc, sbr_Sku := Some \<lparr>sbk_Name = sbsku_Name want,
    sbk_Tier = sbsku_Tier want, sbk_Capacity = Some (sbsku_Capacity want)\<rparr>\<rparr>"
  have "sb_Ensure L K S c obj w = sb_create S c (sb_SetStatus x remote) w1"
    using cases a(1,3) x
    by (cases "sbr_Response remote = Some StatusNotFound")
      (auto simp: sb_Ensure_def sb_convert_def go_bind_step lib_okD(1) Let_def sb_Done_state sb_SyncSecrets_none
        go_bind_ret sb_NeedsUpdate_values)
  then have "sb_Ensure L K S c obj w = (Returns (ObjServiceBusNamespace (sb_SetStatus x remote), False, None), w2)"
    if "sb_sdk_CreateOrUpdate S (mc_internal c) rgn name ?spec w1 = (Returns None, w2)" for w2
    using that x by (simp add: sb_create_def go_bind_step go_ret_apply)
  with x show "\<exists>spec. sb_values spec = sb_written want loc \<and>
      (\<forall>w2. sb_sdk_CreateOrUpdate S (mc_internal c) rgn name spec w1 = (Returns None, w2) \<longrightarrow>
      (\<exists>obj'. async_Ensure (sb_client L A K S) obj (c, w) = (Returns (obj', False, None), (c, w2)) \<and>
         clear_status obj' = clear_status obj \<and> is_namespace_at sub (rgn, name) want loc obj'))"
    by (intro exI [of _ ?spec])
      (auto simp: sb_values_def sb_written_def sb_client_def on_world_def is_namespace_at_def zero_sb_namespace_def)
qed (auto simp: is_namespace_at_def sb_client_def sb_ForSubscription_def sb_convert_def on_world_def sb_Ensure_def
    go_bind_step lib_okD(1) Let_def sb_Done_state sb_SyncSecrets_none sb_NeedsUpdate_values go_ret_apply)

text \<open>So a namespace comes to rest only when it is left alone, which it is not after any write.\<close>

lemma sb_written_not_left_alone: "\<not> sb_left_alone want loc (sb_written want loc)"
  by (simp add: sb_left_alone_def sb_written_def)

lemma sb_settles:
  "settles (\<lambda>_. sb_written want loc) (sb_left_alone want loc) =
     (\<lambda>u. case u of None \<Rightarrow> False | Some (v, _) \<Rightarrow> sb_left_alone want loc v)"
  by (simp add: settles_def sb_written_not_left_alone fun_eq_iff split: option.split)

text \<open>A client that always writes the same good values settles from everywhere.\<close>

lemma settles_always:
  "settles (\<lambda>_. t) (\<lambda>v. v = t) = (\<lambda>_. True)" "settles f (\<lambda>_. True) = (\<lambda>_. True)"
  by (simp_all add: settles_def fun_eq_iff split: option.split)

end
