(* ===== verification/Shared_Clients.thy ===== *)
theory Shared_Clients imports Progress Manager begin

section \<open>Workers that share a client\<close>

text \<open>
  A controller has one reconciler with one client, and \<open>MaxConcurrentReconciles\<close> workers which
  reconcile different objects at the same time.  \<open>ForSubscription\<close> stores the SDK client of the
  object's subscription in the shared client; \<open>Ensure\<close> and \<open>Delete\<close> use it later.  Here a reconcile
  is cut between the two, and another worker gets the client in between.
\<close>

subsection \<open>The two parts of a reconcile\<close>

text \<open>Up to and with \<open>ForSubscription\<close>: \<open>Inl\<close> when the reconcile ends there.\<close>

definition sync_open ::
  "lib \<Rightarrow> 's kube \<Rightarrow> 's SyncClient \<Rightarrow> namespaced_name \<Rightarrow> kind \<Rightarrow>
   ('s, (ctrl_result \<times> go_error option) + runtime_object) go" where
  "sync_open L kb az req k =
     (case kb_GVKForObject kb k of
        Some err \<Rightarrow> go_ret (Inl (no_requeue, Some err))
      | None \<Rightarrow>
     go_bind (kb_Get kb req k) (\<lambda>(local, err). case err of
        Some e \<Rightarrow> go_ret (Inl (no_requeue, IgnoreNotFound L (Some e)))
      | None \<Rightarrow>
     go_bind (sync_ForSubscription az local) (\<lambda>err. case err of
        Some e \<Rightarrow> go_ret (Inl (no_requeue, Some e))
      | None \<Rightarrow> go_ret (Inr local))))"

definition sync_act ::
  "lib \<Rightarrow> 's kube \<Rightarrow> 's SyncClient \<Rightarrow> runtime_object \<Rightarrow> ('s, ctrl_result \<times> go_error option) go" where
  "sync_act L kb az local =
     (case kb_Accessor kb local of
        Some convertErr \<Rightarrow> go_ret (no_requeue, Some convertErr)
      | None \<Rightarrow>
          if om_DeletionTimestamp (obj_meta local) = None then
            if \<not> HasFinalizer (obj_meta local) finalizerName then add_finalizer_step kb local
            else sync_ensure_step L kb az local
          else
            if HasFinalizer (obj_meta local) finalizerName then sync_delete_step L kb az local
            else go_ret (no_requeue, None))"

lemma sync_Reconcile_parts:
  "sync_Reconcile L kb az req k =
     go_bind (sync_open L kb az req k) (\<lambda>r. case r of Inl res \<Rightarrow> go_ret res | Inr local \<Rightarrow> sync_act L kb az local)"
  by (rule ext)
    (simp add: sync_Reconcile_def sync_open_def sync_act_def go_bind_apply go_ret_apply
      split: option.split prod.split outcome.split)

text \<open>
  The schedule: the first worker opens its object, another one opens its own, the first goes on.
\<close>

definition interrupted ::
  "lib \<Rightarrow> 's kube \<Rightarrow> 's SyncClient \<Rightarrow> kind \<Rightarrow> namespaced_name \<Rightarrow> namespaced_name \<Rightarrow>
   ('s, ctrl_result \<times> go_error option) go" where
  "interrupted L kb az k req other =
     go_bind (sync_open L kb az req k) (\<lambda>r.
     go_bind (sync_open L kb az other k) (\<lambda>_.
     case r of Inl res \<Rightarrow> go_ret res | Inr local \<Rightarrow> sync_act L kb az local))"

subsection \<open>What the second worker does to the first\<close>

text \<open>
  \<open>deletes_own del ex\<close>: a deletion is accepted whether or not the resource is there, and is about
  the subscription of the SDK client only.
\<close>

definition deletes_own :: "(sdk_client \<Rightarrow> ('w, http_response \<times> go_error option) go) \<Rightarrow> (string option \<Rightarrow> 'w \<Rightarrow> bool) \<Rightarrow> bool" where
  "deletes_own del ex \<longleftrightarrow>
     (\<forall>cl w. \<exists>resp w1. del cl w = (Returns (resp, None), w1) \<and>
        (\<forall>sub. ex sub w1 \<longleftrightarrow> ex sub w \<and> sub \<noteq> sdk_Subscription cl))"

context prompt_client
begin

lemma opens:
  assumes "agent_ok A" "kb_GVKForObject kb kd = None" "kb_Get kb req kd k = (Returns (obj, None), k)"
    and "sync_ForSubscription az obj = on_self (\<lambda>c. authorize_for A c sub')"
  shows "sync_open L (kube_beside kb) (sync_beside az) req kd (k, (c, w)) =
    (Returns (Inr obj), (k, (fst (authorize_for A c sub'), w)))"
  using authorize_for_accepted [OF assms(1)] assms(2-4)
  by (simp add: sync_open_def sync_beside_def beside_steps on_self_eq)

lemma interrupted_run:
  assumes L: "lib_ok L" and agent: "agent_ok A" and serve: "api_server_serves kb req kd stored"
    and obj: "stored k = Some obj" "mine obj" "deleting obj" "has_finalizer obj"
    and other: "kb_Get kb other kd k = (Returns (obj', None), k)"
      "sync_ForSubscription az obj' = on_self (\<lambda>c. authorize_for A c sub')"
    and own: "deletes_own del ex"
    and subs: "sdk_Subscription (mc_factory c sub') \<noteq> sdk_Subscription (mc_factory c sub)"
    and there: "ex (sdk_Subscription (mc_factory c sub)) w"
  shows "\<exists>k' c' w'. interrupted L (kube_beside kb) (sync_beside az) kd req other (k, (c, w)) =
      (Returns (no_requeue, None), (k', (c', w'))) \<and>
    \<not> stored_finalizer (stored k') \<and> ex (sdk_Subscription (mc_factory c sub)) w'"
proof -
  let ?c1 = "fst (authorize_for A c sub)" and ?c2 = "fst (authorize_for A (fst (authorize_for A c sub)) sub')"
  have first: "sync_open L (kube_beside kb) (sync_beside az) req kd (k, (c, w)) = (Returns (Inr obj), (k, (?c1, w)))"
    by (rule opens [OF agent api_server_servesD(1) [OF serve] api_server_servesD(3) [OF serve obj(1)] binds [OF obj(2)]])
  have second: "sync_open L (kube_beside kb) (sync_beside az) other kd (k, (?c1, w)) = (Returns (Inr obj'), (k, (?c2, w)))"
    by (rule opens [OF agent api_server_servesD(1) [OF serve] other])
  have bound: "sdk_Subscription (mc_internal ?c2) = sdk_Subscription (mc_factory c sub')"
    using authorize_for_result [of A ?c1 sub' ?c2 "snd (authorize_for A ?c1 sub')"]
      authorize_for_result(1) [of A c sub ?c1 "snd (authorize_for A c sub)"] by simp
  obtain resp w1 where del: "del (mc_internal ?c2) w = (Returns (resp, None), w1)"
      "\<And>s. ex s w1 \<longleftrightarrow> ex s w \<and> s \<noteq> sdk_Subscription (mc_internal ?c2)"
    using own unfolding deletes_own_def by blast
  obtain k' where act: "sync_delete_step L (kube_beside kb) (sync_beside az) obj (k, (?c2, w)) =
      (Returns (no_requeue, None), (k', (?c2, w1)))" "\<not> stored_finalizer (stored k')"
    using delete_step_run [OF L serve obj(1,2) del(1)] by auto
  have "interrupted L (kube_beside kb) (sync_beside az) kd req other (k, (c, w)) =
      (Returns (no_requeue, None), (k', (?c2, w1)))"
    using first second act(1) obj(3,4) api_server_servesD(2) [OF serve]
    by (auto simp: interrupted_def go_bind_step sync_act_def kube_beside_def)
  with act(2) del(2) there subs bound show ?thesis by auto
qed

text \<open>Alone, the same reconcile deletes the resource.\<close>

lemma alone_run:
  assumes L: "lib_ok L" and agent: "agent_ok A" and serve: "api_server_serves kb req kd stored"
    and obj: "stored k = Some obj" "mine obj" "deleting obj" "has_finalizer obj"
    and own: "deletes_own del ex"
  shows "\<exists>k' c' w'. sync_Reconcile L (kube_beside kb) (sync_beside az) req kd (k, (c, w)) =
      (Returns (no_requeue, None), (k', (c', w'))) \<and>
    \<not> stored_finalizer (stored k') \<and> \<not> ex (sdk_Subscription (mc_factory c sub)) w'"
proof -
  let ?c = "fst (authorize_for A c sub)"
  have first: "sync_open L (kube_beside kb) (sync_beside az) req kd (k, (c, w)) = (Returns (Inr obj), (k, (?c, w)))"
    by (rule opens [OF agent api_server_servesD(1) [OF serve] api_server_servesD(3) [OF serve obj(1)] binds [OF obj(2)]])
  have bound: "sdk_Subscription (mc_internal ?c) = sdk_Subscription (mc_factory c sub)"
    using authorize_for_result(3) [of A c sub ?c "snd (authorize_for A c sub)"] by simp
  obtain resp w1 where del: "del (mc_internal ?c) w = (Returns (resp, None), w1)"
      "\<And>s. ex s w1 \<longleftrightarrow> ex s w \<and> s \<noteq> sdk_Subscription (mc_internal ?c)"
    using own unfolding deletes_own_def by blast
  obtain k' where act: "sync_delete_step L (kube_beside kb) (sync_beside az) obj (k, (?c, w)) =
      (Returns (no_requeue, None), (k', (?c, w1)))" "\<not> stored_finalizer (stored k')"
    using delete_step_run [OF L serve obj(1,2) del(1)] by auto
  have "sync_Reconcile L (kube_beside kb) (sync_beside az) req kd (k, (c, w)) = (Returns (no_requeue, None), (k', (?c, w1)))"
    using first act(1) obj(3,4) api_server_servesD(2) [OF serve]
    by (auto simp: sync_Reconcile_parts go_bind_step sync_act_def kube_beside_def)
  with act(2) del(2) bound show ?thesis by auto
qed

end

text \<open>The kinds with more than one worker.\<close>

lemma concurrent_kinds:
  "map cs_For (filter (\<lambda>s. 1 < cs_MaxConcurrentReconciles s) main_setups) = [KSQLServer, KSQLFirewallRule]"
  by code_simp

end
