(* ===== verification/Go_Memory.thy ===== *)
theory Go_Memory imports Prelude begin

section \<open>Go values in memory\<close>

text \<open>
  Elsewhere values are copied whenever they are passed; here a value may hold references, so that
  sharing can be stated.  A struct is its fields; a pointer, a slice and a map refer to cells of
  the memory, a slice to one per element, a map to one for its entries.  The types say which
  fields hold references.
\<close>

subsection \<open>Values, types and memory\<close>

datatype scalar = GoString string | GoInt int | GoBool bool

type_synonym addr = nat

datatype gval =
    Scalar scalar
  | Struct "(string \<times> gval) list"
  | Ptr "addr option"
  | Slice "addr list option"
  | Map "addr option"
  | Entries "(string \<times> gval) list"

datatype gtype =
    TScalar
  | TStruct "(string \<times> gtype) list"
  | TPtr gtype
  | TSlice gtype
  | TMap gtype

record memory =
  next_addr :: addr
  cell :: "addr \<Rightarrow> gval"

definition load :: "addr \<Rightarrow> (memory, gval) go" where
  "load a m = (Returns (cell m a), m)"

definition alloc :: "gval \<Rightarrow> (memory, addr) go" where
  "alloc v m = (Returns (next_addr m), m\<lparr>next_addr := Suc (next_addr m), cell := (cell m)(next_addr m := v)\<rparr>)"

definition poke :: "addr \<Rightarrow> gval \<Rightarrow> memory \<Rightarrow> memory" where
  "poke a v m = m\<lparr>cell := (cell m)(a := v)\<rparr>"

text \<open>A later memory: cells are added, and the ones that were there stay as they are.\<close>

instantiation memory_ext :: (type) preorder
begin

definition less_eq_memory_ext :: "'a memory_scheme \<Rightarrow> 'a memory_scheme \<Rightarrow> bool" where
  memory_le_def: "m \<le> m' \<longleftrightarrow> next_addr m \<le> next_addr m' \<and> (\<forall>a<next_addr m. cell m' a = cell m a)"

definition less_memory_ext :: "'a memory_scheme \<Rightarrow> 'a memory_scheme \<Rightarrow> bool" where
  "m < m' \<longleftrightarrow> m \<le> m' \<and> \<not> m' \<le> (m :: 'a memory_scheme)"

instance
  by standard (auto simp: memory_le_def less_memory_ext_def)

end

subsection \<open>What a value stands for\<close>

text \<open>
  \<open>deep m T v\<close> follows all references of a value of type \<open>T\<close>; \<open>None\<close> for a value of another shape.
  \<open>reach m T v\<close> are the cells it is made of.
\<close>

datatype gdeep =
    DScalar scalar
  | DStruct "(string \<times> gdeep) list"
  | DPtr "gdeep option"
  | DSlice "gdeep list option"
  | DMap "(string \<times> gdeep) list option"

fun all_some :: "'a option list \<Rightarrow> 'a list option" where
  "all_some [] = Some []"
| "all_some (None # xs) = None"
| "all_some (Some x # xs) = map_option ((#) x) (all_some xs)"

fun deep :: "memory \<Rightarrow> gtype \<Rightarrow> gval \<Rightarrow> gdeep option"
  and deep_fields :: "memory \<Rightarrow> (string \<times> gtype) list \<Rightarrow> (string \<times> gval) list \<Rightarrow> (string \<times> gdeep) list option" where
  "deep m TScalar (Scalar x) = Some (DScalar x)"
| "deep m (TStruct ts) (Struct fs) = map_option DStruct (deep_fields m ts fs)"
| "deep m (TPtr T) (Ptr None) = Some (DPtr None)"
| "deep m (TPtr T) (Ptr (Some a)) = map_option (DPtr \<circ> Some) (deep m T (cell m a))"
| "deep m (TSlice T) (Slice None) = Some (DSlice None)"
| "deep m (TSlice T) (Slice (Some as)) = map_option (DSlice \<circ> Some) (all_some (map (\<lambda>a. deep m T (cell m a)) as))"
| "deep m (TMap T) (Map None) = Some (DMap None)"
| "deep m (TMap T) (Map (Some a)) =
     (case cell m a of
        Entries kvs \<Rightarrow> map_option (DMap \<circ> Some \<circ> zip (map fst kvs)) (all_some (map (\<lambda>kv. deep m T (snd kv)) kvs))
      | _ \<Rightarrow> None)"
| "deep m T v = None"
| "deep_fields m [] [] = Some []"
| "deep_fields m ((n, T) # ts) ((k, v) # fs) =
     (if k = n then (case deep m T v of
        None \<Rightarrow> None
      | Some d \<Rightarrow> map_option ((#) (n, d)) (deep_fields m ts fs)) else None)"
| "deep_fields m ts fs = None"

fun reach :: "memory \<Rightarrow> gtype \<Rightarrow> gval \<Rightarrow> addr set"
  and reach_fields :: "memory \<Rightarrow> (string \<times> gtype) list \<Rightarrow> (string \<times> gval) list \<Rightarrow> addr set" where
  "reach m (TStruct ts) (Struct fs) = reach_fields m ts fs"
| "reach m (TPtr T) (Ptr (Some a)) = insert a (reach m T (cell m a))"
| "reach m (TSlice T) (Slice (Some as)) = set as \<union> (\<Union>a\<in>set as. reach m T (cell m a))"
| "reach m (TMap T) (Map (Some a)) =
     insert a (case cell m a of Entries kvs \<Rightarrow> \<Union>kv\<in>set kvs. reach m T (snd kv) | _ \<Rightarrow> {})"
| "reach m T v = {}"
| "reach_fields m ((n, T) # ts) ((k, v) # fs) = reach m T v \<union> reach_fields m ts fs"
| "reach_fields m ts fs = {}"

text \<open>A type without references.\<close>

fun flat :: "gtype \<Rightarrow> bool" where
  "flat TScalar \<longleftrightarrow> True"
| "flat (TStruct ts) \<longleftrightarrow> list_all (\<lambda>nT. flat (snd nT)) ts"
| "flat _ \<longleftrightarrow> False"

text \<open>Only the cells a value is made of matter for it.\<close>

lemma fields_frame:
  assumes "\<And>nT v. nT \<in> set ts \<Longrightarrow> (\<And>a. a \<in> reach m (snd nT) v \<Longrightarrow> cell m' a = cell m a) \<Longrightarrow>
      deep m' (snd nT) v = deep m (snd nT) v \<and> reach m' (snd nT) v = reach m (snd nT) v"
    and "\<And>a. a \<in> reach_fields m ts fs \<Longrightarrow> cell m' a = cell m a"
  shows "deep_fields m' ts fs = deep_fields m ts fs \<and> reach_fields m' ts fs = reach_fields m ts fs"
  using assms
proof (induction ts arbitrary: fs)
  case Nil
  then show ?case by (cases fs) simp_all
next
  case (Cons nT ts)
  show ?case
  proof (cases fs)
    case fs: (Cons kv fs')
    obtain n T k v where nT: "nT = (n, T)" and kv: "kv = (k, v)" by (cases nT, cases kv)
    have "deep m' T v = deep m T v \<and> reach m' T v = reach m T v"
      using Cons.prems(1) [of nT v] Cons.prems(2) fs nT kv by auto
    moreover have "deep_fields m' ts fs' = deep_fields m ts fs' \<and> reach_fields m' ts fs' = reach_fields m ts fs'"
      using Cons.IH [of fs'] Cons.prems fs nT kv by auto
    ultimately show ?thesis using fs nT kv by (simp split: option.split)
  qed (cases nT, simp)
qed

lemma reach_frame:
  "(\<And>a. a \<in> reach m T v \<Longrightarrow> cell m' a = cell m a) \<Longrightarrow> deep m' T v = deep m T v \<and> reach m' T v = reach m T v"
proof (induction T arbitrary: v)
  case TScalar
  then show ?case by (cases v) simp_all
next
  case (TStruct ts)
  have "deep_fields m' ts fs = deep_fields m ts fs \<and> reach_fields m' ts fs = reach_fields m ts fs"
    if "\<And>a. a \<in> reach_fields m ts fs \<Longrightarrow> cell m' a = cell m a" for fs
    using fields_frame [of ts m m' fs] TStruct.IH that by (metis snd_conv surj_pair snds.intros)
  with TStruct.prems show ?case by (cases v) simp_all
next
  case (TPtr T)
  show ?case
  proof (cases v)
    case (Ptr p)
    with TPtr show ?thesis by (cases p) auto
  qed simp_all
next
  case (TSlice T)
  show ?case
  proof (cases v)
    case (Slice p)
    show ?thesis
    proof (cases p)
      case (Some as)
      have "deep m' T (cell m' a) = deep m T (cell m a) \<and> reach m' T (cell m' a) = reach m T (cell m a)"
        if "a \<in> set as" for a
        using TSlice.IH [of "cell m a"] TSlice.prems that Slice Some by auto
      then show ?thesis using Slice Some by (simp cong: map_cong)
    qed (use Slice in simp)
  qed simp_all
next
  case (TMap T)
  show ?case
  proof (cases v)
    case (Map p)
    show ?thesis
    proof (cases p)
      case (Some a)
      have a: "cell m' a = cell m a" using TMap.prems Map Some by simp
      show ?thesis
      proof (cases "cell m a")
        case (Entries kvs)
        have "deep m' T (snd kv) = deep m T (snd kv) \<and> reach m' T (snd kv) = reach m T (snd kv)"
          if "kv \<in> set kvs" for kv
          using TMap.IH [of "snd kv"] TMap.prems that Map Some Entries by auto
        then show ?thesis using Map Some Entries a by (simp cong: map_cong)
      qed (use Map Some a in simp_all)
    qed (use Map in simp)
  qed simp_all
qed

lemma flat_fields: "(\<And>nT v. nT \<in> set ts \<Longrightarrow> reach m (snd nT) v = {}) \<Longrightarrow> reach_fields m ts fs = {}"
proof (induction ts arbitrary: fs)
  case (Cons nT ts)
  then have "reach m (snd nT) v = {}" "reach_fields m ts fs' = {}" for v fs' by simp_all
  then show ?case by (cases fs; cases nT) auto
qed (case_tac fs, simp_all)

lemma flat_reach: "flat T \<Longrightarrow> reach m T v = {}"
proof (induction T arbitrary: v)
  case (TStruct ts)
  have "reach m (snd nT) v = {}" if "nT \<in> set ts" for nT v
    using TStruct that by (cases nT) (auto simp: list_all_iff snds.simps)
  then have "reach_fields m ts fs = {}" for fs by (rule flat_fields)
  then show ?case by (cases v) simp_all
qed simp_all

lemma flat_deep: "flat T \<Longrightarrow> deep m' T v = deep m T v"
  using reach_frame [of m T v m'] flat_reach by blast

subsection \<open>Copying\<close>

text \<open>
  A copier takes the value of \<open>*in\<close> and answers the one of \<open>*out\<close>.  \<open>*out = *in\<close> alone is \<open>go_ret\<close>;
  the other statements of the copy functions replace single fields.
\<close>

type_synonym copier = "gval \<Rightarrow> (memory, gval) go"

text \<open>\<open>new\<close> and a copy of what the pointer refers to; nil stays nil.\<close>

definition copy_new :: "copier \<Rightarrow> copier" where
  "copy_new c v =
     (case v of
        Ptr (Some a) \<Rightarrow>
          go_bind (load a) (\<lambda>x. go_bind (c x) (\<lambda>y. go_bind (alloc y) (\<lambda>b. go_ret (Ptr (Some b)))))
      | Ptr None \<Rightarrow> go_ret (Ptr None)
      | _ \<Rightarrow> go_panic)"

text \<open>The loop over the elements.\<close>

fun copy_elements :: "copier \<Rightarrow> addr list \<Rightarrow> (memory, addr list) go" where
  "copy_elements c [] = go_ret []"
| "copy_elements c (a # as) =
     go_bind (load a) (\<lambda>x. go_bind (c x) (\<lambda>y. go_bind (alloc y) (\<lambda>b.
       go_bind (copy_elements c as) (\<lambda>bs. go_ret (b # bs)))))"

definition copy_slice :: "copier \<Rightarrow> copier" where
  "copy_slice c v =
     (case v of
        Slice (Some as) \<Rightarrow> go_bind (copy_elements c as) (\<lambda>bs. go_ret (Slice (Some bs)))
      | Slice None \<Rightarrow> go_ret (Slice None)
      | _ \<Rightarrow> go_panic)"

fun copy_entries :: "copier \<Rightarrow> (string \<times> gval) list \<Rightarrow> (memory, (string \<times> gval) list) go" where
  "copy_entries c [] = go_ret []"
| "copy_entries c ((k, x) # kvs) =
     go_bind (c x) (\<lambda>y. go_bind (copy_entries c kvs) (\<lambda>kvs'. go_ret ((k, y) # kvs')))"

definition copy_map :: "copier \<Rightarrow> copier" where
  "copy_map c v =
     (case v of
        Map (Some a) \<Rightarrow>
          go_bind (load a) (\<lambda>x. case x of
            Entries kvs \<Rightarrow>
              go_bind (copy_entries c kvs) (\<lambda>kvs'. go_bind (alloc (Entries kvs')) (\<lambda>b. go_ret (Map (Some b))))
          | _ \<Rightarrow> go_panic)
      | Map None \<Rightarrow> go_ret (Map None)
      | _ \<Rightarrow> go_panic)"

text \<open>\<open>*out = *in\<close>, and then the fields that are not just assigned.\<close>

fun copy_fields :: "(string \<times> copier) list \<Rightarrow> (string \<times> gval) list \<Rightarrow> (memory, (string \<times> gval) list) go" where
  "copy_fields cs [] = go_ret []"
| "copy_fields cs ((n, x) # fs) =
     go_bind ((case map_of cs n of None \<Rightarrow> go_ret | Some c \<Rightarrow> c) x) (\<lambda>y.
       go_bind (copy_fields cs fs) (\<lambda>fs'. go_ret ((n, y) # fs')))"

definition copy_struct :: "(string \<times> copier) list \<Rightarrow> copier" where
  "copy_struct cs v =
     (case v of Struct fs \<Rightarrow> go_bind (copy_fields cs fs) (\<lambda>fs'. go_ret (Struct fs')) | _ \<Rightarrow> go_panic)"

text \<open>\<open>DeepCopyObject\<close> answers an interface, which is nil for a nil pointer.\<close>

definition as_object :: "(memory, gval) go \<Rightarrow> (memory, gval option) go" where
  "as_object m = go_bind m (\<lambda>c. go_ret (if c = Ptr None then None else Some c))"

subsection \<open>Correct copiers\<close>

text \<open>
  A copier for \<open>T\<close> answers an equal value that is made of new cells only, and changes no cell there
  was before.
\<close>

definition allocated :: "memory \<Rightarrow> addr set \<Rightarrow> bool" where
  "allocated m A \<longleftrightarrow> A \<subseteq> {..<next_addr m}"

definition fresh :: "memory \<Rightarrow> memory \<Rightarrow> addr set \<Rightarrow> bool" where
  "fresh m m' A \<longleftrightarrow> A \<subseteq> {next_addr m..<next_addr m'}"

definition copy_ok :: "copier \<Rightarrow> gtype \<Rightarrow> bool" where
  "copy_ok c T \<longleftrightarrow>
     (\<forall>m v. deep m T v \<noteq> None \<and> allocated m (reach m T v) \<longrightarrow>
        (\<exists>v' m'. c v m = (Returns v', m') \<and> m \<le> m' \<and> deep m' T v' = deep m T v \<and>
           fresh m m' (reach m' T v')))"

named_theorems copies "copiers that are correct for their type"

lemma le_alloc: "alloc v m = (Returns a, m') \<Longrightarrow> m \<le> m'"
  by (auto simp: memory_le_def alloc_def)

lemma le_same:
  assumes "m \<le> m'" "allocated m (reach m T v)"
  shows "deep m' T v = deep m T v" "reach m' T v = reach m T v"
  using reach_frame [of m T v m'] assms by (auto simp: memory_le_def allocated_def subset_iff)

lemma le_allocated: "m \<le> m' \<Longrightarrow> allocated m A \<Longrightarrow> allocated m' A"
  by (auto simp: memory_le_def allocated_def)

lemma fresh_allocated: "fresh m m' A \<Longrightarrow> allocated m' A"
  by (auto simp: fresh_def allocated_def)

lemma fresh_insert: "fresh m m' (insert a A) \<Longrightarrow> fresh m m' A"
  by (simp add: fresh_def)

lemma fresh_disjoint: "fresh m m' A \<Longrightarrow> allocated m B \<Longrightarrow> B \<inter> A = {}"
  by (fastforce simp: fresh_def allocated_def)

lemma fresh_subset: "fresh m m' A \<Longrightarrow> B \<subseteq> A \<Longrightarrow> fresh m m' B"
  by (auto simp: fresh_def)

lemma fresh_mono: "fresh m1 m2 A \<Longrightarrow> m \<le> m1 \<Longrightarrow> m2 \<le> m' \<Longrightarrow> fresh m m' A"
  by (auto simp: fresh_def memory_le_def)

lemma copy_okD:
  assumes "copy_ok c T" "deep m T v = Some d" "allocated m (reach m T v)"
  obtains v' m' where "c v m = (Returns v', m')" "m \<le> m'" "deep m' T v' = Some d" "fresh m m' (reach m' T v')"
  using assms unfolding copy_ok_def by (metis option.distinct(1))

lemma copy_assign [copies]: "flat T \<Longrightarrow> copy_ok go_ret T"
  by (auto simp: copy_ok_def go_ret_apply flat_reach fresh_def)

text \<open>A new cell for a copied value.\<close>

lemma alloc_copied:
  assumes "m \<le> m1" "deep m1 T y = Some d" "fresh m m1 (reach m1 T y)"
  obtains b m2 where "alloc y m1 = (Returns b, m2)" "cell m2 b = y" "m \<le> m2" "deep m2 T y = Some d"
    "fresh m m2 (insert b (reach m2 T y))" "m1 \<le> m2"
proof -
  obtain b m2 where al: "alloc y m1 = (Returns b, m2)" by (simp add: alloc_def)
  then have ext: "m1 \<le> m2" by (rule le_alloc)
  have same: "deep m2 T y = deep m1 T y" "reach m2 T y = reach m1 T y"
    using le_same [OF ext fresh_allocated [OF assms(3)]] by simp_all
  have "b = next_addr m1" "cell m2 b = y" "next_addr m2 = Suc b" using al by (auto simp: alloc_def)
  moreover from this assms have "fresh m m2 (insert b (reach m2 T y))"
    unfolding same by (auto simp: fresh_def memory_le_def)
  ultimately show ?thesis using that al ext order_trans [OF assms(1) ext] same assms(2) by simp
qed

lemma copy_cell:
  assumes "copy_ok c T" "deep m T (cell m a) = Some d" "allocated m (reach m T (cell m a))"
  obtains y m1 b m2 where "c (cell m a) m = (Returns y, m1)" "alloc y m1 = (Returns b, m2)" "m \<le> m2"
    "deep m2 T (cell m2 b) = Some d" "fresh m m2 (insert b (reach m2 T (cell m2 b)))"
proof -
  obtain y m1 where c: "c (cell m a) m = (Returns y, m1)" "m \<le> m1" "deep m1 T y = Some d"
      "fresh m m1 (reach m1 T y)"
    using copy_okD [OF assms] .
  from alloc_copied [OF c(2-4)] show ?thesis using that c(1) by metis
qed

lemma copy_new_ok [copies]: "copy_ok c T \<Longrightarrow> copy_ok (copy_new c) (TPtr T)"
proof (unfold copy_ok_def, intro allI impI, elim conjE)
  fix m v assume c: "\<forall>m v. deep m T v \<noteq> None \<and> allocated m (reach m T v) \<longrightarrow>
        (\<exists>v' m'. c v m = (Returns v', m') \<and> m \<le> m' \<and> deep m' T v' = deep m T v \<and>
           fresh m m' (reach m' T v'))"
    and v: "deep m (TPtr T) v \<noteq> None" "allocated m (reach m (TPtr T) v)"
  then obtain p where p: "v = Ptr p" by (cases v) simp_all
  show "\<exists>v' m'. copy_new c v m = (Returns v', m') \<and> m \<le> m' \<and> deep m' (TPtr T) v' = deep m (TPtr T) v \<and>
      fresh m m' (reach m' (TPtr T) v')"
  proof (cases p)
    case (Some a)
    then obtain d where d: "deep m T (cell m a) = Some d" "allocated m (reach m T (cell m a))"
      using v p by (auto simp: allocated_def)
    obtain y m1 b m2 where "c (cell m a) m = (Returns y, m1)" "alloc y m1 = (Returns b, m2)" "m \<le> m2"
        "deep m2 T (cell m2 b) = Some d" "fresh m m2 (insert b (reach m2 T (cell m2 b)))"
      using copy_cell [OF _ d] c unfolding copy_ok_def by blast
    then show ?thesis using p Some d
      by (intro exI [of _ "Ptr (Some b)"] exI [of _ m2]) (simp add: copy_new_def load_def go_bind_apply go_ret_apply)
  qed (use p in \<open>simp add: copy_new_def go_ret_apply fresh_def\<close>)
qed

text \<open>Several values, one after the other: the earlier copies stay what they are.\<close>

lemma copied_stays:
  assumes "fresh m m1 (reach m1 T y)" "m \<le> m1" "m1 \<le> m2"
  shows "deep m2 T y = deep m1 T y" "reach m2 T y = reach m1 T y" "fresh m m2 (reach m2 T y)"
  using le_same [OF assms(3) fresh_allocated [OF assms(1)]]
    fresh_mono [OF assms(1) order_refl assms(3)] by simp_all

lemma all_some_Cons: "all_some (x # xs) = (case x of None \<Rightarrow> None | Some y \<Rightarrow> map_option ((#) y) (all_some xs))"
  by (cases x) simp_all

lemma copy_elements_ok:
  assumes "copy_ok c T"
  shows "all_some (map (\<lambda>a. deep m T (cell m a)) as) = Some ds \<Longrightarrow> allocated m (reach m (TSlice T) (Slice (Some as))) \<Longrightarrow>
    \<exists>bs m'. copy_elements c as m = (Returns bs, m') \<and> m \<le> m' \<and>
      all_some (map (\<lambda>b. deep m' T (cell m' b)) bs) = Some ds \<and> fresh m m' (reach m' (TSlice T) (Slice (Some bs)))"
proof (induction as arbitrary: m ds)
  case Nil
  then show ?case by (simp add: go_ret_apply fresh_def)
next
  case (Cons a as)
  then obtain d ds' where d: "deep m T (cell m a) = Some d" and ds': "all_some (map (\<lambda>a. deep m T (cell m a)) as) = Some ds'"
      and ds: "ds = d # ds'" by (auto simp: all_some_Cons split: option.splits)
  have alloc: "allocated m (reach m T (cell m a))" "\<And>b. b \<in> set as \<Longrightarrow> allocated m (insert b (reach m T (cell m b)))"
    using Cons.prems(2) by (auto simp: allocated_def)
  obtain y m1 b m2 where c: "c (cell m a) m = (Returns y, m1)" "alloc y m1 = (Returns b, m2)" "m \<le> m2"
      "deep m2 T (cell m2 b) = Some d" "fresh m m2 (insert b (reach m2 T (cell m2 b)))"
    using copy_cell [OF assms d alloc(1)] .
  have same: "cell m2 x = cell m x" "deep m2 T (cell m2 x) = deep m T (cell m x)" "reach m2 T (cell m2 x) = reach m T (cell m x)"
    if "x \<in> set as" for x
    using c(3) alloc(2) [OF that] le_same [OF c(3), of T "cell m x"]
    by (auto simp: memory_le_def allocated_def)
  have "all_some (map (\<lambda>a. deep m2 T (cell m2 a)) as) = Some ds'" using ds' same by (simp cong: map_cong)
  moreover have "allocated m2 (reach m2 (TSlice T) (Slice (Some as)))"
    using le_allocated [OF c(3), of "reach m (TSlice T) (Slice (Some as))"] Cons.prems(2) same
    by (auto simp: allocated_def)
  ultimately obtain bs m3 where e: "copy_elements c as m2 = (Returns bs, m3)" "m2 \<le> m3"
      "all_some (map (\<lambda>b. deep m3 T (cell m3 b)) bs) = Some ds'" "fresh m2 m3 (reach m3 (TSlice T) (Slice (Some bs)))"
    using Cons.IH by blast
  have "cell m3 b = cell m2 b" using e(2) c(5) by (auto simp: memory_le_def fresh_def)
  moreover have "deep m3 T (cell m2 b) = Some d" "reach m3 T (cell m2 b) = reach m2 T (cell m2 b)"
    using le_same [OF e(2) fresh_allocated [OF fresh_insert [OF c(5)]]] c(4) by simp_all
  moreover have "fresh m m3 (insert b (reach m2 T (cell m2 b)))" by (rule fresh_mono [OF c(5) order_refl e(2)])
  moreover have "fresh m m3 (reach m3 (TSlice T) (Slice (Some bs)))" by (rule fresh_mono [OF e(4) c(3) order_refl])
  ultimately show ?case
    using c(1,2) e(1,3) ds order_trans [OF c(3) e(2)]
    by (intro exI [of _ "b # bs"] exI [of _ m3]) (auto simp: load_def go_bind_apply go_ret_apply fresh_def)
qed

lemma copy_slice_ok [copies]:
  assumes "copy_ok c T"
  shows "copy_ok (copy_slice c) (TSlice T)"
  unfolding copy_ok_def
proof (intro allI impI, elim conjE)
  fix m v assume v: "deep m (TSlice T) v \<noteq> None" "allocated m (reach m (TSlice T) v)"
  then obtain p where p: "v = Slice p" by (cases v) simp_all
  show "\<exists>v' m'. copy_slice c v m = (Returns v', m') \<and> m \<le> m' \<and> deep m' (TSlice T) v' = deep m (TSlice T) v \<and>
      fresh m m' (reach m' (TSlice T) v')"
  proof (cases p)
    case (Some as)
    then obtain ds where "all_some (map (\<lambda>a. deep m T (cell m a)) as) = Some ds" using v(1) p by auto
    moreover from copy_elements_ok [OF assms this] v(2) p Some obtain bs m' where
      "copy_elements c as m = (Returns bs, m')" "m \<le> m'" "all_some (map (\<lambda>b. deep m' T (cell m' b)) bs) = Some ds"
      "fresh m m' (reach m' (TSlice T) (Slice (Some bs)))" by blast
    ultimately show ?thesis using p Some
      by (intro exI [of _ "Slice (Some bs)"] exI [of _ m']) (simp add: copy_slice_def go_bind_apply go_ret_apply)
  qed (use p in \<open>simp add: copy_slice_def go_ret_apply fresh_def\<close>)
qed

lemma copy_entries_ok:
  assumes "copy_ok c T"
  shows "all_some (map (\<lambda>kv. deep m T (snd kv)) kvs) = Some ds \<Longrightarrow> allocated m (\<Union>kv\<in>set kvs. reach m T (snd kv)) \<Longrightarrow>
    \<exists>kvs' m'. copy_entries c kvs m = (Returns kvs', m') \<and> m \<le> m' \<and> map fst kvs' = map fst kvs \<and>
      all_some (map (\<lambda>kv. deep m' T (snd kv)) kvs') = Some ds \<and> fresh m m' (\<Union>kv\<in>set kvs'. reach m' T (snd kv))"
proof (induction kvs arbitrary: m ds)
  case Nil
  then show ?case by (simp add: go_ret_apply fresh_def)
next
  case (Cons kv kvs)
  obtain k x where kv: "kv = (k, x)" by (cases kv)
  with Cons.prems obtain d ds' where d: "deep m T x = Some d" "allocated m (reach m T x)"
      and ds': "all_some (map (\<lambda>kv. deep m T (snd kv)) kvs) = Some ds'" and ds: "ds = d # ds'"
    by (auto simp: all_some_Cons allocated_def split: option.splits)
  obtain y m1 where c: "c x m = (Returns y, m1)" "m \<le> m1" "deep m1 T y = Some d" "fresh m m1 (reach m1 T y)"
    using copy_okD [OF assms d] .
  have alloc: "allocated m (reach m T (snd kv))" if "kv \<in> set kvs" for kv
    using Cons.prems(2) that by (auto simp: allocated_def)
  note same = le_same [OF c(2) alloc]
  have "all_some (map (\<lambda>kv. deep m1 T (snd kv)) kvs) = Some ds'" using ds' same(1) by (simp cong: map_cong)
  moreover have "allocated m1 (\<Union>kv\<in>set kvs. reach m1 T (snd kv))"
    using le_allocated [OF c(2) alloc] same(2) by (auto simp: allocated_def)
  ultimately obtain kvs' m2 where e: "copy_entries c kvs m1 = (Returns kvs', m2)" "m1 \<le> m2" "map fst kvs' = map fst kvs"
      "all_some (map (\<lambda>kv. deep m2 T (snd kv)) kvs') = Some ds'" "fresh m1 m2 (\<Union>kv\<in>set kvs'. reach m2 T (snd kv))"
    using Cons.IH by blast
  have "fresh m m2 (\<Union>kv\<in>set kvs'. reach m2 T (snd kv))" by (rule fresh_mono [OF e(5) c(2) order_refl])
  with copied_stays [OF c(4,2) e(2)] show ?case
    using c(1,3) e(1,3,4) ds kv order_trans [OF c(2) e(2)]
    by (intro exI [of _ "(k, y) # kvs'"] exI [of _ m2]) (auto simp: go_bind_apply go_ret_apply fresh_def)
qed

lemma copy_map_ok [copies]:
  assumes "copy_ok c T"
  shows "copy_ok (copy_map c) (TMap T)"
  unfolding copy_ok_def
proof (intro allI impI, elim conjE)
  fix m v assume v: "deep m (TMap T) v \<noteq> None" "allocated m (reach m (TMap T) v)"
  then obtain p where p: "v = Map p" by (cases v) simp_all
  show "\<exists>v' m'. copy_map c v m = (Returns v', m') \<and> m \<le> m' \<and> deep m' (TMap T) v' = deep m (TMap T) v \<and>
      fresh m m' (reach m' (TMap T) v')"
  proof (cases p)
    case (Some a)
    then obtain kvs ds where kvs: "cell m a = Entries kvs" "all_some (map (\<lambda>kv. deep m T (snd kv)) kvs) = Some ds"
      using v(1) p by (auto split: gval.splits)
    moreover have "allocated m (\<Union>kv\<in>set kvs. reach m T (snd kv))" using v(2) p Some kvs by (simp add: allocated_def)
    ultimately obtain kvs' m1 where e: "copy_entries c kvs m = (Returns kvs', m1)" "m \<le> m1" "map fst kvs' = map fst kvs"
        "all_some (map (\<lambda>kv. deep m1 T (snd kv)) kvs') = Some ds" "fresh m m1 (\<Union>kv\<in>set kvs'. reach m1 T (snd kv))"
      using copy_entries_ok [OF assms] by blast
    obtain b m2 where al: "alloc (Entries kvs') m1 = (Returns b, m2)" by (simp add: alloc_def)
    have ext: "m1 \<le> m2" using al by (rule le_alloc)
    have same: "deep m2 T (snd kv) = deep m1 T (snd kv)" "reach m2 T (snd kv) = reach m1 T (snd kv)" if "kv \<in> set kvs'" for kv
      using le_same [OF ext fresh_allocated [OF fresh_subset [OF e(5)]], of T "snd kv"] that by auto
    have b: "b = next_addr m1" "cell m2 b = Entries kvs'" "next_addr m2 = Suc b" using al by (auto simp: alloc_def)
    moreover have "fresh m m2 (insert b (\<Union>kv\<in>set kvs'. reach m2 T (snd kv)))"
      using e(2,5) b(1,3) same by (auto simp: fresh_def memory_le_def)
    moreover have "all_some (map (\<lambda>kv. deep m2 T (snd kv)) kvs') = Some ds" using e(4) same by (simp cong: map_cong)
    ultimately show ?thesis using p Some kvs e(1,3) al order_trans [OF e(2) ext]
      by (intro exI [of _ "Map (Some b)"] exI [of _ m2]) (simp add: copy_map_def load_def go_bind_apply go_ret_apply)
  qed (use p in \<open>simp add: copy_map_def go_ret_apply fresh_def\<close>)
qed

text \<open>A struct: each field that holds references has a correct copier.\<close>

definition field_ok :: "(string \<times> copier) list \<Rightarrow> string \<times> gtype \<Rightarrow> bool" where
  "field_ok cs nT \<longleftrightarrow> copy_ok (case map_of cs (fst nT) of None \<Rightarrow> go_ret | Some c \<Rightarrow> c) (snd nT)"

lemma copy_fields_ok:
  assumes "list_all (field_ok cs) ts"
  shows "deep_fields m ts fs = Some ds \<Longrightarrow> allocated m (reach_fields m ts fs) \<Longrightarrow>
    \<exists>fs' m'. copy_fields cs fs m = (Returns fs', m') \<and> m \<le> m' \<and> deep_fields m' ts fs' = Some ds \<and>
      fresh m m' (reach_fields m' ts fs')"
  using assms
proof (induction ts arbitrary: m fs ds)
  case Nil
  then show ?case by (cases fs) (simp_all add: go_ret_apply fresh_def)
next
  case (Cons nT ts)
  obtain n T where nT: "nT = (n, T)" by (cases nT)
  with Cons.prems(1) obtain x fs0 d ds' where fs: "fs = (n, x) # fs0" and d: "deep m T x = Some d"
      and ds': "deep_fields m ts fs0 = Some ds'" and ds: "ds = (n, d) # ds'"
    by (cases fs) (auto split: if_splits option.splits)
  define c where "c = (case map_of cs n of None \<Rightarrow> go_ret | Some c \<Rightarrow> c)"
  have ok: "copy_ok c T" using Cons.prems(3) nT by (simp add: field_ok_def c_def)
  have alloc: "allocated m (reach m T x)" "allocated m (reach_fields m ts fs0)"
    using Cons.prems(2) fs nT by (auto simp: allocated_def)
  obtain y m1 where e: "c x m = (Returns y, m1)" "m \<le> m1" "deep m1 T y = Some d" "fresh m m1 (reach m1 T y)"
    using copy_okD [OF ok d alloc(1)] .
  have same: "deep_fields m1 ts fs0 = deep_fields m ts fs0" "reach_fields m1 ts fs0 = reach_fields m ts fs0"
    using le_same [OF e(2), of "TStruct ts" "Struct fs0"] alloc(2) ds' by auto
  from Cons.IH [of m1 fs0 ds'] ds' same le_allocated [OF e(2) alloc(2)] Cons.prems(3)
  obtain fs' m2 where f: "copy_fields cs fs0 m1 = (Returns fs', m2)" "m1 \<le> m2" "deep_fields m2 ts fs' = Some ds'"
      "fresh m1 m2 (reach_fields m2 ts fs')" by auto
  have "fresh m m2 (reach_fields m2 ts fs')" by (rule fresh_mono [OF f(4) e(2) order_refl])
  with copied_stays [OF e(4,2) f(2)] show ?case
    using e(1,3) f(1,3) ds fs nT order_trans [OF e(2) f(2)]
    by (intro exI [of _ "(n, y) # fs'"] exI [of _ m2])
      (auto simp: go_bind_apply go_ret_apply c_def [symmetric] fresh_def)
qed

lemma copy_struct_ok [copies]:
  assumes "list_all (field_ok cs) ts"
  shows "copy_ok (copy_struct cs) (TStruct ts)"
  unfolding copy_ok_def
proof (intro allI impI, elim conjE)
  fix m v assume v: "deep m (TStruct ts) v \<noteq> None" "allocated m (reach m (TStruct ts) v)"
  then obtain fs ds where fs: "v = Struct fs" "deep_fields m ts fs = Some ds" by (cases v) auto
  with copy_fields_ok [OF assms fs(2)] v(2) obtain fs' m' where
    "copy_fields cs fs m = (Returns fs', m')" "m \<le> m'" "deep_fields m' ts fs' = Some ds"
    "fresh m m' (reach_fields m' ts fs')" by auto
  with fs show "\<exists>v' m'. copy_struct cs v m = (Returns v', m') \<and> m \<le> m' \<and>
      deep m' (TStruct ts) v' = deep m (TStruct ts) v \<and> fresh m m' (reach m' (TStruct ts) v')"
    by (intro exI [of _ "Struct fs'"] exI [of _ m']) (simp add: copy_struct_def go_bind_apply go_ret_apply)
qed

subsection \<open>Independence\<close>

text \<open>
  What the user of a deep copy relies on: a write through one of the two pointers is never seen
  through the other.
\<close>

definition independent :: "copier \<Rightarrow> gtype \<Rightarrow> bool" where
  "independent c T \<longleftrightarrow>
     (\<forall>m p. deep m (TPtr T) p \<noteq> None \<and> allocated m (reach m (TPtr T) p) \<longrightarrow>
        (\<exists>p' m'. c p m = (Returns p', m') \<and>
           deep m' (TPtr T) p' = deep m (TPtr T) p \<and> deep m' (TPtr T) p = deep m (TPtr T) p \<and>
           (\<forall>a\<in>reach m' (TPtr T) p'. \<forall>x. deep (poke a x m') (TPtr T) p = deep m (TPtr T) p) \<and>
           (\<forall>a\<in>reach m' (TPtr T) p. \<forall>x. deep (poke a x m') (TPtr T) p' = deep m (TPtr T) p)))"

lemma poke_unseen: "a \<notin> reach m T v \<Longrightarrow> deep (poke a x m) T v = deep m T v"
  by (rule conjunct1 [OF reach_frame]) (auto simp: poke_def)

lemma copy_ok_independent: "copy_ok c (TPtr T) \<Longrightarrow> independent c T"
  unfolding independent_def
proof (intro allI impI, elim conjE)
  fix m p assume c: "copy_ok c (TPtr T)" and p: "deep m (TPtr T) p \<noteq> None" "allocated m (reach m (TPtr T) p)"
  then obtain p' m' where r: "c p m = (Returns p', m')" and ext: "m \<le> m'"
      and d: "deep m' (TPtr T) p' = deep m (TPtr T) p" and f: "fresh m m' (reach m' (TPtr T) p')"
    unfolding copy_ok_def by blast
  note same = le_same [OF ext p(2)]
  have "reach m' (TPtr T) p \<inter> reach m' (TPtr T) p' = {}"
    using fresh_disjoint [OF f p(2)] by (simp add: same(2))
  then have "\<forall>a\<in>reach m' (TPtr T) p'. \<forall>x. deep (poke a x m') (TPtr T) p = deep m' (TPtr T) p"
      "\<forall>a\<in>reach m' (TPtr T) p. \<forall>x. deep (poke a x m') (TPtr T) p' = deep m' (TPtr T) p'"
    by (blast intro: poke_unseen)+
  then show "\<exists>p' m'. c p m = (Returns p', m') \<and>
           deep m' (TPtr T) p' = deep m (TPtr T) p \<and> deep m' (TPtr T) p = deep m (TPtr T) p \<and>
           (\<forall>a\<in>reach m' (TPtr T) p'. \<forall>x. deep (poke a x m') (TPtr T) p = deep m (TPtr T) p) \<and>
           (\<forall>a\<in>reach m' (TPtr T) p. \<forall>x. deep (poke a x m') (TPtr T) p' = deep m (TPtr T) p)"
    using r d same(1) by (intro exI [of _ p'] exI [of _ m']) simp
qed

text \<open>The same for \<open>DeepCopyObject\<close>: the interface is nil for a nil pointer only.\<close>

definition object_independent :: "(gval \<Rightarrow> (memory, gval option) go) \<Rightarrow> gtype \<Rightarrow> bool" where
  "object_independent f T \<longleftrightarrow>
     (\<forall>m p. deep m (TPtr T) p \<noteq> None \<and> allocated m (reach m (TPtr T) p) \<longrightarrow>
        (\<exists>obj m'. f p m = (Returns obj, m') \<and> (obj = None \<longleftrightarrow> p = Ptr None) \<and>
           (\<forall>p'. obj = Some p' \<longrightarrow> deep m' (TPtr T) p' = deep m (TPtr T) p \<and>
              (\<forall>a\<in>reach m' (TPtr T) p'. \<forall>x. deep (poke a x m') (TPtr T) p = deep m (TPtr T) p) \<and>
              (\<forall>a\<in>reach m' (TPtr T) p. \<forall>x. deep (poke a x m') (TPtr T) p' = deep m (TPtr T) p))))"

lemma deep_nil: "deep m (TPtr T) p = Some (DPtr None) \<longleftrightarrow> p = Ptr None"
  by (cases "(m, TPtr T, p)" rule: deep.cases) auto

lemma as_object_independent:
  assumes "independent c T"
  shows "object_independent (\<lambda>p. as_object (c p)) T"
  unfolding object_independent_def
proof (intro allI impI)
  fix m p assume p: "deep m (TPtr T) p \<noteq> None \<and> allocated m (reach m (TPtr T) p)"
  then obtain p' m' where c: "c p m = (Returns p', m')" and d: "deep m' (TPtr T) p' = deep m (TPtr T) p"
      and w: "\<forall>a\<in>reach m' (TPtr T) p'. \<forall>x. deep (poke a x m') (TPtr T) p = deep m (TPtr T) p"
        "\<forall>a\<in>reach m' (TPtr T) p. \<forall>x. deep (poke a x m') (TPtr T) p' = deep m (TPtr T) p"
    using assms unfolding independent_def by blast
  have "p' = Ptr None \<longleftrightarrow> p = Ptr None" using d deep_nil by metis
  then show "\<exists>obj m'. as_object (c p) m = (Returns obj, m') \<and> (obj = None \<longleftrightarrow> p = Ptr None) \<and>
           (\<forall>p'. obj = Some p' \<longrightarrow> deep m' (TPtr T) p' = deep m (TPtr T) p \<and>
              (\<forall>a\<in>reach m' (TPtr T) p'. \<forall>x. deep (poke a x m') (TPtr T) p = deep m (TPtr T) p) \<and>
              (\<forall>a\<in>reach m' (TPtr T) p. \<forall>x. deep (poke a x m') (TPtr T) p' = deep m (TPtr T) p))"
    using c d w by (intro exI [of _ "if p' = Ptr None then None else Some p'"] exI [of _ m'])
      (auto simp: as_object_def go_bind_apply go_ret_apply)
qed

end
