(* ===== verification/Deep_Copies.thy ===== *)
theory Deep_Copies imports Go_Memory begin

section \<open>Deep copies of the API objects (zz_generated.deepcopy.go)\<close>

text \<open>
  Every object the API server's cache hands out is copied with \<open>DeepCopyObject\<close> before a
  controller changes it in place.  The functions are generated from the structs once and kept in
  the repository; whether they still fit the structs is what is shown here.  For each type there is
  its layout (from the \<open>*_types.go\<close> files), and its functions as combinations of the statements the
  generator uses; a field that is not listed is copied by \<open>*out = *in\<close> only.

  \<open>TypeMeta\<close>, \<open>ObjectMeta\<close> and \<open>ListMeta\<close> are from apimachinery: the first is two strings, the
  other two are parameters with their own copiers.
\<close>

record k8s_meta =
  object_meta_type :: gtype
  object_meta_copy :: copier
  list_meta_type :: gtype
  list_meta_copy :: copier

definition k8s_meta_ok :: "k8s_meta \<Rightarrow> bool" where
  "k8s_meta_ok M \<longleftrightarrow>
     copy_ok (object_meta_copy M) (object_meta_type M) \<and> copy_ok (list_meta_copy M) (list_meta_type M)"

definition TypeMeta_type :: gtype where
  "TypeMeta_type = TStruct [(''Kind'', TScalar), (''APIVersion'', TScalar)]"

subsection \<open>The parts of the objects\<close>

definition AzureRef_type :: gtype where
  "AzureRef_type = TStruct [(''Name'', TScalar), (''ResourceGroup'', TScalar), (''SubscriptionID'', TScalar)]"

definition AzureRef_DeepCopyInto :: copier where
  "AzureRef_DeepCopyInto = copy_struct []"

definition AzureRef_DeepCopy :: copier where
  "AzureRef_DeepCopy = copy_new AzureRef_DeepCopyInto"

definition BackendPoolReference_type :: gtype where
  "BackendPoolReference_type = TStruct [(''Name'', TScalar), (''LoadBalancer'', TScalar),
     (''ResourceGroup'', TScalar), (''SubscriptionID'', TScalar)]"

definition BackendPoolReference_DeepCopyInto :: copier where
  "BackendPoolReference_DeepCopyInto = copy_struct []"

definition BackendPoolReference_DeepCopy :: copier where
  "BackendPoolReference_DeepCopy = copy_new BackendPoolReference_DeepCopyInto"

definition DNSConfig_type :: gtype where
  "DNSConfig_type = TStruct [(''RelativeName'', TPtr TScalar), (''TTL'', TPtr TScalar)]"

definition DNSConfig_DeepCopyInto :: copier where
  "DNSConfig_DeepCopyInto = copy_struct [(''RelativeName'', copy_new go_ret), (''TTL'', copy_new go_ret)]"

definition DNSConfig_DeepCopy :: copier where
  "DNSConfig_DeepCopy = copy_new DNSConfig_DeepCopyInto"

definition DockerConfigSpec_type :: gtype where
  "DockerConfigSpec_type = TStruct [(''Username'', TScalar), (''Password'', TScalar), (''Vault'', TScalar),
     (''Email'', TScalar), (''Server'', TScalar)]"

definition DockerConfigSpec_DeepCopyInto :: copier where
  "DockerConfigSpec_DeepCopyInto = copy_struct []"

definition DockerConfigSpec_DeepCopy :: copier where
  "DockerConfigSpec_DeepCopy = copy_new DockerConfigSpec_DeepCopyInto"

definition DockerConfigStatus_type :: gtype where
  "DockerConfigStatus_type = TStruct []"

definition DockerConfigStatus_DeepCopyInto :: copier where
  "DockerConfigStatus_DeepCopyInto = copy_struct []"

definition DockerConfigStatus_DeepCopy :: copier where
  "DockerConfigStatus_DeepCopy = copy_new DockerConfigStatus_DeepCopyInto"

definition MonitorConfigCustomHeadersItem_type :: gtype where
  "MonitorConfigCustomHeadersItem_type = TStruct [(''Name'', TPtr TScalar), (''Value'', TPtr TScalar)]"

definition MonitorConfigCustomHeadersItem_DeepCopyInto :: copier where
  "MonitorConfigCustomHeadersItem_DeepCopyInto = copy_struct [(''Name'', copy_new go_ret),
     (''Value'', copy_new go_ret)]"

definition MonitorConfigCustomHeadersItem_DeepCopy :: copier where
  "MonitorConfigCustomHeadersItem_DeepCopy = copy_new MonitorConfigCustomHeadersItem_DeepCopyInto"

definition EndpointProperties_type :: gtype where
  "EndpointProperties_type = TStruct [(''Target'', TPtr TScalar), (''Weight'', TPtr TScalar),
     (''Priority'', TScalar), (''EndpointLocation'', TScalar),
     (''CustomHeaders'', TPtr (TSlice MonitorConfigCustomHeadersItem_type))]"

definition EndpointProperties_DeepCopyInto :: copier where
  "EndpointProperties_DeepCopyInto = copy_struct [(''Target'', copy_new go_ret), (''Weight'', copy_new go_ret),
     (''CustomHeaders'', copy_new (copy_slice MonitorConfigCustomHeadersItem_DeepCopyInto))]"

definition EndpointProperties_DeepCopy :: copier where
  "EndpointProperties_DeepCopy = copy_new EndpointProperties_DeepCopyInto"

definition EndpointSpec_type :: gtype where
  "EndpointSpec_type = TStruct [(''Name'', TScalar), (''Properties'', EndpointProperties_type)]"

definition EndpointSpec_DeepCopyInto :: copier where
  "EndpointSpec_DeepCopyInto = copy_struct [(''Properties'', EndpointProperties_DeepCopyInto)]"

definition EndpointSpec_DeepCopy :: copier where
  "EndpointSpec_DeepCopy = copy_new EndpointSpec_DeepCopyInto"

definition EndpointStatus_type :: gtype where
  "EndpointStatus_type = TStruct [(''MonitorStatus'', TScalar)]"

definition EndpointStatus_DeepCopyInto :: copier where
  "EndpointStatus_DeepCopyInto = copy_struct []"

definition EndpointStatus_DeepCopy :: copier where
  "EndpointStatus_DeepCopy = copy_new EndpointStatus_DeepCopyInto"

definition FrontendIPConfigurationSpec_type :: gtype where
  "FrontendIPConfigurationSpec_type = TStruct [(''Name'', TScalar), (''Subnet'', TScalar),
     (''PublicIP'', TScalar)]"

definition FrontendIPConfigurationSpec_DeepCopyInto :: copier where
  "FrontendIPConfigurationSpec_DeepCopyInto = copy_struct []"

definition FrontendIPConfigurationSpec_DeepCopy :: copier where
  "FrontendIPConfigurationSpec_DeepCopy = copy_new FrontendIPConfigurationSpec_DeepCopyInto"

definition IdentitySpec_type :: gtype where
  "IdentitySpec_type = TStruct [(''Name'', TScalar), (''Location'', TScalar), (''ResourceGroup'', TScalar),
     (''SubscriptionID'', TScalar)]"

definition IdentitySpec_DeepCopyInto :: copier where
  "IdentitySpec_DeepCopyInto = copy_struct []"

definition IdentitySpec_DeepCopy :: copier where
  "IdentitySpec_DeepCopy = copy_new IdentitySpec_DeepCopyInto"

definition IdentityStatus_type :: gtype where
  "IdentityStatus_type = TStruct [(''ProvisioningState'', TPtr TScalar), (''ID'', TPtr TScalar),
     (''ObservedGeneration'', TScalar)]"

definition IdentityStatus_DeepCopyInto :: copier where
  "IdentityStatus_DeepCopyInto = copy_struct [(''ProvisioningState'', copy_new go_ret),
     (''ID'', copy_new go_ret)]"

definition IdentityStatus_DeepCopy :: copier where
  "IdentityStatus_DeepCopy = copy_new IdentityStatus_DeepCopyInto"

definition ResourceReference_type :: gtype where
  "ResourceReference_type = TStruct [(''Name'', TScalar), (''ResourceGroup'', TScalar),
     (''SubscriptionID'', TScalar)]"

definition ResourceReference_DeepCopyInto :: copier where
  "ResourceReference_DeepCopyInto = copy_struct []"

definition ResourceReference_DeepCopy :: copier where
  "ResourceReference_DeepCopy = copy_new ResourceReference_DeepCopyInto"

definition InterfaceIPConfig_type :: gtype where
  "InterfaceIPConfig_type = TStruct [(''PublicIP'', TPtr ResourceReference_type), (''PrivateIP'', TPtr TScalar),
     (''LoadBalancers'', TPtr (TSlice BackendPoolReference_type))]"

definition InterfaceIPConfig_DeepCopyInto :: copier where
  "InterfaceIPConfig_DeepCopyInto = copy_struct [(''PublicIP'', copy_new go_ret),
     (''PrivateIP'', copy_new go_ret), (''LoadBalancers'', copy_new (copy_slice go_ret))]"

definition InterfaceIPConfig_DeepCopy :: copier where
  "InterfaceIPConfig_DeepCopy = copy_new InterfaceIPConfig_DeepCopyInto"

definition KeyvaultSpec_type :: gtype where
  "KeyvaultSpec_type = TStruct [(''Name'', TScalar), (''Location'', TScalar), (''ResourceGroup'', TScalar),
     (''SubscriptionID'', TScalar), (''TenantID'', TScalar)]"

definition KeyvaultSpec_DeepCopyInto :: copier where
  "KeyvaultSpec_DeepCopyInto = copy_struct []"

definition KeyvaultSpec_DeepCopy :: copier where
  "KeyvaultSpec_DeepCopy = copy_new KeyvaultSpec_DeepCopyInto"

definition KeyvaultStatus_type :: gtype where
  "KeyvaultStatus_type = TStruct [(''ID'', TPtr TScalar)]"

definition KeyvaultStatus_DeepCopyInto :: copier where
  "KeyvaultStatus_DeepCopyInto = copy_struct [(''ID'', copy_new go_ret)]"

definition KeyvaultStatus_DeepCopy :: copier where
  "KeyvaultStatus_DeepCopy = copy_new KeyvaultStatus_DeepCopyInto"

definition RuleSpec_type :: gtype where
  "RuleSpec_type = TStruct [(''Name'', TScalar), (''Frontend'', TScalar), (''BackendPool'', TScalar),
     (''Probe'', TScalar), (''Protocol'', TScalar), (''FrontendPort'', TScalar), (''BackendPort'', TScalar)]"

definition RuleSpec_DeepCopyInto :: copier where
  "RuleSpec_DeepCopyInto = copy_struct []"

definition RuleSpec_DeepCopy :: copier where
  "RuleSpec_DeepCopy = copy_new RuleSpec_DeepCopyInto"

definition LoadBalancerSpec_type :: gtype where
  "LoadBalancerSpec_type = TStruct [(''Name'', TScalar), (''Location'', TScalar), (''ResourceGroup'', TScalar),
     (''SubscriptionID'', TScalar), (''SKU'', TPtr TScalar), (''Frontends'', TSlice TScalar),
     (''BackendPools'', TSlice TScalar), (''Rules'', TPtr (TSlice RuleSpec_type)),
     (''Probes'', TPtr (TSlice TScalar))]"

definition LoadBalancerSpec_DeepCopyInto :: copier where
  "LoadBalancerSpec_DeepCopyInto = copy_struct [(''SKU'', copy_new go_ret), (''Frontends'', copy_slice go_ret),
     (''BackendPools'', copy_slice go_ret), (''Rules'', copy_new (copy_slice go_ret)),
     (''Probes'', copy_new (copy_slice go_ret))]"

definition LoadBalancerSpec_DeepCopy :: copier where
  "LoadBalancerSpec_DeepCopy = copy_new LoadBalancerSpec_DeepCopyInto"

definition LoadBalancerStatus_type :: gtype where
  "LoadBalancerStatus_type = TStruct [(''ProvisioningState'', TPtr TScalar), (''ID'', TPtr TScalar),
     (''ObservedGeneration'', TScalar)]"

definition LoadBalancerStatus_DeepCopyInto :: copier where
  "LoadBalancerStatus_DeepCopyInto = copy_struct [(''ProvisioningState'', copy_new go_ret),
     (''ID'', copy_new go_ret)]"

definition LoadBalancerStatus_DeepCopy :: copier where
  "LoadBalancerStatus_DeepCopy = copy_new LoadBalancerStatus_DeepCopyInto"

definition MonitorConfigExpectedStatusCodeRangesItem_type :: gtype where
  "MonitorConfigExpectedStatusCodeRangesItem_type = TStruct [(''Min'', TPtr TScalar), (''Max'', TPtr TScalar)]"

definition MonitorConfigExpectedStatusCodeRangesItem_DeepCopyInto :: copier where
  "MonitorConfigExpectedStatusCodeRangesItem_DeepCopyInto = copy_struct [(''Min'', copy_new go_ret),
     (''Max'', copy_new go_ret)]"

definition MonitorConfigExpectedStatusCodeRangesItem_DeepCopy :: copier where
  "MonitorConfigExpectedStatusCodeRangesItem_DeepCopy = copy_new MonitorConfigExpectedStatusCodeRangesItem_DeepCopyInto"

definition MonitorConfig_type :: gtype where
  "MonitorConfig_type = TStruct [(''Protocol'', TScalar), (''Port'', TPtr TScalar), (''Path'', TPtr TScalar),
     (''IntervalInSeconds'', TPtr TScalar), (''TimeoutInSeconds'', TPtr TScalar),
     (''ToleratedNumberOfFailures'', TPtr TScalar),
     (''CustomHeaders'', TPtr (TSlice MonitorConfigCustomHeadersItem_type)),
     (''ExpectedStatusCodeRanges'', TPtr (TSlice MonitorConfigExpectedStatusCodeRangesItem_type))]"

definition MonitorConfig_DeepCopyInto :: copier where
  "MonitorConfig_DeepCopyInto = copy_struct [(''Port'', copy_new go_ret), (''Path'', copy_new go_ret),
     (''IntervalInSeconds'', copy_new go_ret), (''TimeoutInSeconds'', copy_new go_ret),
     (''ToleratedNumberOfFailures'', copy_new go_ret),
     (''CustomHeaders'', copy_new (copy_slice MonitorConfigCustomHeadersItem_DeepCopyInto)),
     (''ExpectedStatusCodeRanges'', copy_new (copy_slice MonitorConfigExpectedStatusCodeRangesItem_DeepCopyInto))]"

definition MonitorConfig_DeepCopy :: copier where
  "MonitorConfig_DeepCopy = copy_new MonitorConfig_DeepCopyInto"

definition NetworkInterfaceSpec_type :: gtype where
  "NetworkInterfaceSpec_type = TStruct [(''Name'', TScalar), (''Location'', TScalar),
     (''ResourceGroup'', TScalar), (''SubscriptionID'', TScalar), (''Network'', TScalar), (''Subnet'', TScalar),
     (''IPConfigurations'', TPtr (TSlice InterfaceIPConfig_type))]"

definition NetworkInterfaceSpec_DeepCopyInto :: copier where
  "NetworkInterfaceSpec_DeepCopyInto = copy_struct [(''IPConfigurations'', copy_new (copy_slice InterfaceIPConfig_DeepCopyInto))]"

definition NetworkInterfaceSpec_DeepCopy :: copier where
  "NetworkInterfaceSpec_DeepCopy = copy_new NetworkInterfaceSpec_DeepCopyInto"

definition NetworkInterfaceStatus_type :: gtype where
  "NetworkInterfaceStatus_type = TStruct [(''ProvisioningState'', TPtr TScalar), (''ID'', TPtr TScalar),
     (''ObservedGeneration'', TPtr TScalar)]"

definition NetworkInterfaceStatus_DeepCopyInto :: copier where
  "NetworkInterfaceStatus_DeepCopyInto = copy_struct [(''ProvisioningState'', copy_new go_ret),
     (''ID'', copy_new go_ret), (''ObservedGeneration'', copy_new go_ret)]"

definition NetworkInterfaceStatus_DeepCopy :: copier where
  "NetworkInterfaceStatus_DeepCopy = copy_new NetworkInterfaceStatus_DeepCopyInto"

definition PublicIPSpec_type :: gtype where
  "PublicIPSpec_type = TStruct [(''Name'', TScalar), (''Location'', TScalar), (''ResourceGroup'', TScalar),
     (''SubscriptionID'', TScalar), (''SKU'', TPtr TScalar)]"

definition PublicIPSpec_DeepCopyInto :: copier where
  "PublicIPSpec_DeepCopyInto = copy_struct [(''SKU'', copy_new go_ret)]"

definition PublicIPSpec_DeepCopy :: copier where
  "PublicIPSpec_DeepCopy = copy_new PublicIPSpec_DeepCopyInto"

definition PublicIPStatus_type :: gtype where
  "PublicIPStatus_type = TStruct [(''ProvisioningState'', TPtr TScalar), (''ID'', TPtr TScalar),
     (''ObservedGeneration'', TScalar)]"

definition PublicIPStatus_DeepCopyInto :: copier where
  "PublicIPStatus_DeepCopyInto = copy_struct [(''ProvisioningState'', copy_new go_ret),
     (''ID'', copy_new go_ret)]"

definition PublicIPStatus_DeepCopy :: copier where
  "PublicIPStatus_DeepCopy = copy_new PublicIPStatus_DeepCopyInto"

definition RedisSku_type :: gtype where
  "RedisSku_type = TStruct [(''Name'', TScalar), (''Family'', TScalar), (''Capacity'', TScalar)]"

definition RedisSku_DeepCopyInto :: copier where
  "RedisSku_DeepCopyInto = copy_struct []"

definition RedisSku_DeepCopy :: copier where
  "RedisSku_DeepCopy = copy_new RedisSku_DeepCopyInto"

definition RedisSpec_type :: gtype where
  "RedisSpec_type = TStruct [(''Name'', TScalar), (''Location'', TScalar), (''ResourceGroup'', TScalar),
     (''SubscriptionID'', TScalar), (''SKU'', RedisSku_type), (''EnableNonSslPort'', TScalar),
     (''TargetSecret'', TPtr TScalar), (''PrimaryKey'', TPtr TScalar), (''SecondaryKey'', TPtr TScalar)]"

definition RedisSpec_DeepCopyInto :: copier where
  "RedisSpec_DeepCopyInto = copy_struct [(''SKU'', go_ret), (''TargetSecret'', copy_new go_ret),
     (''PrimaryKey'', copy_new go_ret), (''SecondaryKey'', copy_new go_ret)]"

definition RedisSpec_DeepCopy :: copier where
  "RedisSpec_DeepCopy = copy_new RedisSpec_DeepCopyInto"

definition RedisStatus_type :: gtype where
  "RedisStatus_type = TStruct [(''ProvisioningState'', TScalar), (''ID'', TPtr TScalar),
     (''ObservedGeneration'', TScalar)]"

definition RedisStatus_DeepCopyInto :: copier where
  "RedisStatus_DeepCopyInto = copy_struct [(''ID'', copy_new go_ret)]"

definition RedisStatus_DeepCopy :: copier where
  "RedisStatus_DeepCopy = copy_new RedisStatus_DeepCopyInto"

definition RedisKeySpec_type :: gtype where
  "RedisKeySpec_type = TStruct [(''Name'', TScalar), (''ResourceGroup'', TScalar),
     (''SubscriptionID'', TScalar), (''TargetSecret'', TScalar), (''PrimaryKey'', TPtr TScalar),
     (''SecondaryKey'', TPtr TScalar)]"

definition RedisKeySpec_DeepCopyInto :: copier where
  "RedisKeySpec_DeepCopyInto = copy_struct [(''PrimaryKey'', copy_new go_ret),
     (''SecondaryKey'', copy_new go_ret)]"

definition RedisKeySpec_DeepCopy :: copier where
  "RedisKeySpec_DeepCopy = copy_new RedisKeySpec_DeepCopyInto"

definition RedisKeyStatus_type :: gtype where
  "RedisKeyStatus_type = TStruct [(''ProvisioningState'', TPtr TScalar)]"

definition RedisKeyStatus_DeepCopyInto :: copier where
  "RedisKeyStatus_DeepCopyInto = copy_struct [(''ProvisioningState'', copy_new go_ret)]"

definition RedisKeyStatus_DeepCopy :: copier where
  "RedisKeyStatus_DeepCopy = copy_new RedisKeyStatus_DeepCopyInto"

definition ResourceGroupSpec_type :: gtype where
  "ResourceGroupSpec_type = TStruct [(''Name'', TScalar), (''Location'', TScalar), (''SubscriptionID'', TScalar)]"

definition ResourceGroupSpec_DeepCopyInto :: copier where
  "ResourceGroupSpec_DeepCopyInto = copy_struct []"

definition ResourceGroupSpec_DeepCopy :: copier where
  "ResourceGroupSpec_DeepCopy = copy_new ResourceGroupSpec_DeepCopyInto"

definition ResourceGroupStatus_type :: gtype where
  "ResourceGroupStatus_type = TStruct [(''ProvisioningState'', TPtr TScalar), (''ID'', TPtr TScalar),
     (''ObservedGeneration'', TScalar)]"

definition ResourceGroupStatus_DeepCopyInto :: copier where
  "ResourceGroupStatus_DeepCopyInto = copy_struct [(''ProvisioningState'', copy_new go_ret),
     (''ID'', copy_new go_ret)]"

definition ResourceGroupStatus_DeepCopy :: copier where
  "ResourceGroupStatus_DeepCopy = copy_new ResourceGroupStatus_DeepCopyInto"

definition SQLFirewallRuleSpec_type :: gtype where
  "SQLFirewallRuleSpec_type = TStruct [(''Name'', TScalar), (''Server'', TScalar), (''ResourceGroup'', TScalar),
     (''SubscriptionID'', TScalar), (''Start'', TScalar), (''End'', TScalar)]"

definition SQLFirewallRuleSpec_DeepCopyInto :: copier where
  "SQLFirewallRuleSpec_DeepCopyInto = copy_struct []"

definition SQLFirewallRuleSpec_DeepCopy :: copier where
  "SQLFirewallRuleSpec_DeepCopy = copy_new SQLFirewallRuleSpec_DeepCopyInto"

definition SQLFirewallRuleStatus_type :: gtype where
  "SQLFirewallRuleStatus_type = TStruct [(''State'', TPtr TScalar), (''ID'', TPtr TScalar)]"

definition SQLFirewallRuleStatus_DeepCopyInto :: copier where
  "SQLFirewallRuleStatus_DeepCopyInto = copy_struct [(''State'', copy_new go_ret), (''ID'', copy_new go_ret)]"

definition SQLFirewallRuleStatus_DeepCopy :: copier where
  "SQLFirewallRuleStatus_DeepCopy = copy_new SQLFirewallRuleStatus_DeepCopyInto"

definition SQLServerSpec_type :: gtype where
  "SQLServerSpec_type = TStruct [(''Name'', TScalar), (''Location'', TScalar), (''ResourceGroup'', TScalar),
     (''SubscriptionID'', TScalar), (''AllowAzureServiceAccess'', TPtr TScalar)]"

definition SQLServerSpec_DeepCopyInto :: copier where
  "SQLServerSpec_DeepCopyInto = copy_struct [(''AllowAzureServiceAccess'', copy_new go_ret)]"

definition SQLServerSpec_DeepCopy :: copier where
  "SQLServerSpec_DeepCopy = copy_new SQLServerSpec_DeepCopyInto"

definition SQLServerStatus_type :: gtype where
  "SQLServerStatus_type = TStruct [(''State'', TPtr TScalar), (''ID'', TPtr TScalar)]"

definition SQLServerStatus_DeepCopyInto :: copier where
  "SQLServerStatus_DeepCopyInto = copy_struct [(''State'', copy_new go_ret), (''ID'', copy_new go_ret)]"

definition SQLServerStatus_DeepCopy :: copier where
  "SQLServerStatus_DeepCopy = copy_new SQLServerStatus_DeepCopyInto"

definition SecretIdentifier_type :: gtype where
  "SecretIdentifier_type = TStruct [(''Name'', TScalar), (''Vault'', TScalar), (''Kind'', TPtr TScalar),
     (''Reverse'', TScalar)]"

definition SecretIdentifier_DeepCopyInto :: copier where
  "SecretIdentifier_DeepCopyInto = copy_struct [(''Kind'', copy_new go_ret)]"

definition SecretIdentifier_DeepCopy :: copier where
  "SecretIdentifier_DeepCopy = copy_new SecretIdentifier_DeepCopyInto"

definition SecretSpec_type :: gtype where
  "SecretSpec_type = TStruct [(''SecretIdentifier'', SecretIdentifier_type), (''FriendlyName'', TPtr TScalar),
     (''Location'', TPtr TScalar), (''ResourceGroup'', TPtr TScalar), (''SubscriptionID'', TPtr TScalar)]"

definition SecretSpec_DeepCopyInto :: copier where
  "SecretSpec_DeepCopyInto = copy_struct [(''SecretIdentifier'', SecretIdentifier_DeepCopyInto),
     (''FriendlyName'', copy_new go_ret), (''Location'', copy_new go_ret), (''ResourceGroup'', copy_new go_ret),
     (''SubscriptionID'', copy_new go_ret)]"

definition SecretSpec_DeepCopy :: copier where
  "SecretSpec_DeepCopy = copy_new SecretSpec_DeepCopyInto"

definition SecretStatus_type :: gtype where
  "SecretStatus_type = TStruct [(''State'', TPtr TScalar)]"

definition SecretStatus_DeepCopyInto :: copier where
  "SecretStatus_DeepCopyInto = copy_struct [(''State'', copy_new go_ret)]"

definition SecretStatus_DeepCopy :: copier where
  "SecretStatus_DeepCopy = copy_new SecretStatus_DeepCopyInto"

definition SecretBundleSpec_type :: gtype where
  "SecretBundleSpec_type = TStruct [(''Name'', TScalar), (''Secrets'', TMap SecretIdentifier_type)]"

definition SecretBundleSpec_DeepCopyInto :: copier where
  "SecretBundleSpec_DeepCopyInto = copy_struct [(''Secrets'', copy_map SecretIdentifier_DeepCopyInto)]"

definition SecretBundleSpec_DeepCopy :: copier where
  "SecretBundleSpec_DeepCopy = copy_new SecretBundleSpec_DeepCopyInto"

definition SecretBundleStatus_type :: gtype where
  "SecretBundleStatus_type = TStruct [(''Secrets'', TMap TScalar), (''State'', TPtr TScalar)]"

definition SecretBundleStatus_DeepCopyInto :: copier where
  "SecretBundleStatus_DeepCopyInto = copy_struct [(''Secrets'', copy_map go_ret), (''State'', copy_new go_ret)]"

definition SecretBundleStatus_DeepCopy :: copier where
  "SecretBundleStatus_DeepCopy = copy_new SecretBundleStatus_DeepCopyInto"

definition SecurityRule_type :: gtype where
  "SecurityRule_type = TStruct [(''Name'', TScalar), (''Protocol'', TScalar),
     (''SourcePortRange'', TPtr TScalar), (''DestinationPortRange'', TPtr TScalar),
     (''SourceAddressPrefix'', TPtr TScalar), (''DestinationAddressPrefix'', TPtr TScalar),
     (''Access'', TScalar), (''Priority'', TPtr TScalar), (''Direction'', TScalar)]"

definition SecurityRule_DeepCopyInto :: copier where
  "SecurityRule_DeepCopyInto = copy_struct [(''SourcePortRange'', copy_new go_ret),
     (''DestinationPortRange'', copy_new go_ret), (''SourceAddressPrefix'', copy_new go_ret),
     (''DestinationAddressPrefix'', copy_new go_ret), (''Priority'', copy_new go_ret)]"

definition SecurityRule_DeepCopy :: copier where
  "SecurityRule_DeepCopy = copy_new SecurityRule_DeepCopyInto"

definition SecurityGroupSpec_type :: gtype where
  "SecurityGroupSpec_type = TStruct [(''Name'', TScalar), (''Location'', TScalar), (''ResourceGroup'', TScalar),
     (''SubscriptionID'', TScalar), (''Rules'', TSlice SecurityRule_type)]"

definition SecurityGroupSpec_DeepCopyInto :: copier where
  "SecurityGroupSpec_DeepCopyInto = copy_struct [(''Rules'', copy_slice SecurityRule_DeepCopyInto)]"

definition SecurityGroupSpec_DeepCopy :: copier where
  "SecurityGroupSpec_DeepCopy = copy_new SecurityGroupSpec_DeepCopyInto"

definition SecurityGroupStatus_type :: gtype where
  "SecurityGroupStatus_type = TStruct [(''ProvisioningState'', TPtr TScalar), (''ID'', TPtr TScalar),
     (''ObservedGeneration'', TScalar)]"

definition SecurityGroupStatus_DeepCopyInto :: copier where
  "SecurityGroupStatus_DeepCopyInto = copy_struct [(''ProvisioningState'', copy_new go_ret),
     (''ID'', copy_new go_ret)]"

definition SecurityGroupStatus_DeepCopy :: copier where
  "SecurityGroupStatus_DeepCopy = copy_new SecurityGroupStatus_DeepCopyInto"

definition ServiceBusKeySpec_type :: gtype where
  "ServiceBusKeySpec_type = TStruct [(''Name'', TScalar), (''ResourceGroup'', TScalar),
     (''SubscriptionID'', TScalar), (''TargetSecret'', TScalar), (''PrimaryKey'', TPtr TScalar),
     (''SecondaryKey'', TPtr TScalar), (''PrimaryConnectionString'', TPtr TScalar),
     (''SecondaryConnectionString'', TPtr TScalar)]"

definition ServiceBusKeySpec_DeepCopyInto :: copier where
  "ServiceBusKeySpec_DeepCopyInto = copy_struct [(''PrimaryKey'', copy_new go_ret),
     (''SecondaryKey'', copy_new go_ret), (''PrimaryConnectionString'', copy_new go_ret),
     (''SecondaryConnectionString'', copy_new go_ret)]"

definition ServiceBusKeySpec_DeepCopy :: copier where
  "ServiceBusKeySpec_DeepCopy = copy_new ServiceBusKeySpec_DeepCopyInto"

definition ServiceBusKeyStatus_type :: gtype where
  "ServiceBusKeyStatus_type = TStruct [(''ProvisioningState'', TPtr TScalar)]"

definition ServiceBusKeyStatus_DeepCopyInto :: copier where
  "ServiceBusKeyStatus_DeepCopyInto = copy_struct [(''ProvisioningState'', copy_new go_ret)]"

definition ServiceBusKeyStatus_DeepCopy :: copier where
  "ServiceBusKeyStatus_DeepCopy = copy_new ServiceBusKeyStatus_DeepCopyInto"

definition ServiceBusNamespaceSku_type :: gtype where
  "ServiceBusNamespaceSku_type = TStruct [(''Name'', TScalar), (''Tier'', TScalar), (''Capacity'', TScalar)]"

definition ServiceBusNamespaceSku_DeepCopyInto :: copier where
  "ServiceBusNamespaceSku_DeepCopyInto = copy_struct []"

definition ServiceBusNamespaceSku_DeepCopy :: copier where
  "ServiceBusNamespaceSku_DeepCopy = copy_new ServiceBusNamespaceSku_DeepCopyInto"

definition ServiceBusNamespaceSpec_type :: gtype where
  "ServiceBusNamespaceSpec_type = TStruct [(''Name'', TScalar), (''Location'', TScalar),
     (''ResourceGroup'', TScalar), (''SubscriptionID'', TScalar), (''SKU'', ServiceBusNamespaceSku_type),
     (''TargetSecret'', TPtr TScalar), (''PrimaryKey'', TPtr TScalar), (''SecondaryKey'', TPtr TScalar),
     (''PrimaryConnectionString'', TPtr TScalar), (''SecondaryConnectionString'', TPtr TScalar)]"

definition ServiceBusNamespaceSpec_DeepCopyInto :: copier where
  "ServiceBusNamespaceSpec_DeepCopyInto = copy_struct [(''SKU'', go_ret), (''TargetSecret'', copy_new go_ret),
     (''PrimaryKey'', copy_new go_ret), (''SecondaryKey'', copy_new go_ret),
     (''PrimaryConnectionString'', copy_new go_ret), (''SecondaryConnectionString'', copy_new go_ret)]"

definition ServiceBusNamespaceSpec_DeepCopy :: copier where
  "ServiceBusNamespaceSpec_DeepCopy = copy_new ServiceBusNamespaceSpec_DeepCopyInto"

definition ServiceBusNamespaceStatus_type :: gtype where
  "ServiceBusNamespaceStatus_type = TStruct [(''ProvisioningState'', TPtr TScalar), (''ID'', TPtr TScalar),
     (''ObservedGeneration'', TScalar)]"

definition ServiceBusNamespaceStatus_DeepCopyInto :: copier where
  "ServiceBusNamespaceStatus_DeepCopyInto = copy_struct [(''ProvisioningState'', copy_new go_ret),
     (''ID'', copy_new go_ret)]"

definition ServiceBusNamespaceStatus_DeepCopy :: copier where
  "ServiceBusNamespaceStatus_DeepCopy = copy_new ServiceBusNamespaceStatus_DeepCopyInto"

definition StorageAccountSpec_type :: gtype where
  "StorageAccountSpec_type = TStruct [(''Name'', TScalar), (''Location'', TScalar),
     (''ResourceGroup'', TScalar), (''SubscriptionID'', TScalar), (''TargetSecret'', TPtr TScalar),
     (''PrimaryKey'', TPtr TScalar)]"

definition StorageAccountSpec_DeepCopyInto :: copier where
  "StorageAccountSpec_DeepCopyInto = copy_struct [(''TargetSecret'', copy_new go_ret),
     (''PrimaryKey'', copy_new go_ret)]"

definition StorageAccountSpec_DeepCopy :: copier where
  "StorageAccountSpec_DeepCopy = copy_new StorageAccountSpec_DeepCopyInto"

definition StorageAccountStatus_type :: gtype where
  "StorageAccountStatus_type = TStruct [(''ProvisioningState'', TPtr TScalar), (''ID'', TPtr TScalar)]"

definition StorageAccountStatus_DeepCopyInto :: copier where
  "StorageAccountStatus_DeepCopyInto = copy_struct [(''ProvisioningState'', copy_new go_ret),
     (''ID'', copy_new go_ret)]"

definition StorageAccountStatus_DeepCopy :: copier where
  "StorageAccountStatus_DeepCopy = copy_new StorageAccountStatus_DeepCopyInto"

definition StorageKeySpec_type :: gtype where
  "StorageKeySpec_type = TStruct [(''Name'', TScalar), (''ResourceGroup'', TScalar),
     (''SubscriptionID'', TScalar), (''TargetSecret'', TPtr TScalar), (''PrimaryKey'', TPtr TScalar),
     (''PrimaryConnectionString'', TPtr TScalar)]"

definition StorageKeySpec_DeepCopyInto :: copier where
  "StorageKeySpec_DeepCopyInto = copy_struct [(''TargetSecret'', copy_new go_ret),
     (''PrimaryKey'', copy_new go_ret), (''PrimaryConnectionString'', copy_new go_ret)]"

definition StorageKeySpec_DeepCopy :: copier where
  "StorageKeySpec_DeepCopy = copy_new StorageKeySpec_DeepCopyInto"

definition StorageKeyStatus_type :: gtype where
  "StorageKeyStatus_type = TStruct [(''ProvisioningState'', TPtr TScalar), (''ID'', TPtr TScalar)]"

definition StorageKeyStatus_DeepCopyInto :: copier where
  "StorageKeyStatus_DeepCopyInto = copy_struct [(''ProvisioningState'', copy_new go_ret),
     (''ID'', copy_new go_ret)]"

definition StorageKeyStatus_DeepCopy :: copier where
  "StorageKeyStatus_DeepCopy = copy_new StorageKeyStatus_DeepCopyInto"

definition SubnetSpec_type :: gtype where
  "SubnetSpec_type = TStruct [(''Name'', TScalar), (''ResourceGroup'', TScalar), (''SubscriptionID'', TScalar),
     (''Network'', TScalar), (''Subnet'', TScalar)]"

definition SubnetSpec_DeepCopyInto :: copier where
  "SubnetSpec_DeepCopyInto = copy_struct []"

definition SubnetSpec_DeepCopy :: copier where
  "SubnetSpec_DeepCopy = copy_new SubnetSpec_DeepCopyInto"

definition SubnetStatus_type :: gtype where
  "SubnetStatus_type = TStruct [(''ProvisioningState'', TPtr TScalar), (''ID'', TPtr TScalar),
     (''ObservedGeneration'', TScalar)]"

definition SubnetStatus_DeepCopyInto :: copier where
  "SubnetStatus_DeepCopyInto = copy_struct [(''ProvisioningState'', copy_new go_ret), (''ID'', copy_new go_ret)]"

definition SubnetStatus_DeepCopy :: copier where
  "SubnetStatus_DeepCopy = copy_new SubnetStatus_DeepCopyInto"

definition TLSSecretSpec_type :: gtype where
  "TLSSecretSpec_type = TStruct [(''Name'', TScalar), (''Vault'', TScalar), (''Reverse'', TScalar)]"

definition TLSSecretSpec_DeepCopyInto :: copier where
  "TLSSecretSpec_DeepCopyInto = copy_struct []"

definition TLSSecretSpec_DeepCopy :: copier where
  "TLSSecretSpec_DeepCopy = copy_new TLSSecretSpec_DeepCopyInto"

definition TLSSecretStatus_type :: gtype where
  "TLSSecretStatus_type = TStruct [(''State'', TPtr TScalar)]"

definition TLSSecretStatus_DeepCopyInto :: copier where
  "TLSSecretStatus_DeepCopyInto = copy_struct [(''State'', copy_new go_ret)]"

definition TLSSecretStatus_DeepCopy :: copier where
  "TLSSecretStatus_DeepCopy = copy_new TLSSecretStatus_DeepCopyInto"

definition TrafficManagerSpec_type :: gtype where
  "TrafficManagerSpec_type = TStruct [(''Name'', TScalar), (''SubscriptionID'', TScalar),
     (''ResourceGroup'', TScalar), (''ProfileStatus'', TScalar), (''TrafficRoutingMethod'', TScalar),
     (''Endpoints'', TPtr (TSlice EndpointSpec_type)), (''DNSConfig'', DNSConfig_type),
     (''MonitorConfig'', MonitorConfig_type)]"

definition TrafficManagerSpec_DeepCopyInto :: copier where
  "TrafficManagerSpec_DeepCopyInto = copy_struct [(''Endpoints'', copy_new (copy_slice EndpointSpec_DeepCopyInto)),
     (''DNSConfig'', DNSConfig_DeepCopyInto), (''MonitorConfig'', MonitorConfig_DeepCopyInto)]"

definition TrafficManagerSpec_DeepCopy :: copier where
  "TrafficManagerSpec_DeepCopy = copy_new TrafficManagerSpec_DeepCopyInto"

definition TrafficManagerStatus_type :: gtype where
  "TrafficManagerStatus_type = TStruct [(''ID'', TPtr TScalar), (''FQDN'', TPtr TScalar),
     (''ProfileStatus'', TScalar), (''ProfileMonitorStatus'', TScalar),
     (''EndpointStatus'', TPtr (TSlice EndpointStatus_type))]"

definition TrafficManagerStatus_DeepCopyInto :: copier where
  "TrafficManagerStatus_DeepCopyInto = copy_struct [(''ID'', copy_new go_ret), (''FQDN'', copy_new go_ret),
     (''EndpointStatus'', copy_new (copy_slice go_ret))]"

definition TrafficManagerStatus_DeepCopy :: copier where
  "TrafficManagerStatus_DeepCopy = copy_new TrafficManagerStatus_DeepCopyInto"

definition VMSpec_type :: gtype where
  "VMSpec_type = TStruct [(''Name'', TScalar), (''Location'', TScalar), (''Zone'', TPtr TScalar),
     (''ResourceGroup'', TScalar), (''SubscriptionID'', TScalar), (''SKU'', TScalar),
     (''CustomData'', TPtr TScalar), (''SSHPublicKey'', TScalar), (''PrimaryNIC'', TScalar),
     (''SecondaryNICs'', TPtr (TSlice TScalar)), (''DiskSize'', TScalar)]"

definition VMSpec_DeepCopyInto :: copier where
  "VMSpec_DeepCopyInto = copy_struct [(''Zone'', copy_new go_ret), (''CustomData'', copy_new go_ret),
     (''SecondaryNICs'', copy_new (copy_slice go_ret))]"

definition VMSpec_DeepCopy :: copier where
  "VMSpec_DeepCopy = copy_new VMSpec_DeepCopyInto"

definition VMStatus_type :: gtype where
  "VMStatus_type = TStruct [(''ProvisioningState'', TPtr TScalar), (''ID'', TPtr TScalar),
     (''Zone'', TPtr TScalar)]"

definition VMStatus_DeepCopyInto :: copier where
  "VMStatus_DeepCopyInto = copy_struct [(''ProvisioningState'', copy_new go_ret), (''ID'', copy_new go_ret),
     (''Zone'', copy_new go_ret)]"

definition VMStatus_DeepCopy :: copier where
  "VMStatus_DeepCopy = copy_new VMStatus_DeepCopyInto"

definition VMScaleSetSpec_type :: gtype where
  "VMScaleSetSpec_type = TStruct [(''Name'', TScalar), (''Location'', TScalar), (''SubscriptionID'', TScalar)]"

definition VMScaleSetSpec_DeepCopyInto :: copier where
  "VMScaleSetSpec_DeepCopyInto = copy_struct []"

definition VMScaleSetSpec_DeepCopy :: copier where
  "VMScaleSetSpec_DeepCopy = copy_new VMScaleSetSpec_DeepCopyInto"

definition VMScaleSetStatus_type :: gtype where
  "VMScaleSetStatus_type = TStruct [(''ProvisioningState'', TPtr TScalar), (''ID'', TPtr TScalar)]"

definition VMScaleSetStatus_DeepCopyInto :: copier where
  "VMScaleSetStatus_DeepCopyInto = copy_struct [(''ProvisioningState'', copy_new go_ret),
     (''ID'', copy_new go_ret)]"

definition VMScaleSetStatus_DeepCopy :: copier where
  "VMScaleSetStatus_DeepCopy = copy_new VMScaleSetStatus_DeepCopyInto"

definition VirtualNetworkSpec_type :: gtype where
  "VirtualNetworkSpec_type = TStruct [(''Name'', TScalar), (''Location'', TScalar),
     (''ResourceGroup'', TScalar), (''SubscriptionID'', TScalar), (''Addresses'', TSlice TScalar)]"

definition VirtualNetworkSpec_DeepCopyInto :: copier where
  "VirtualNetworkSpec_DeepCopyInto = copy_struct [(''Addresses'', copy_slice go_ret)]"

definition VirtualNetworkSpec_DeepCopy :: copier where
  "VirtualNetworkSpec_DeepCopy = copy_new VirtualNetworkSpec_DeepCopyInto"

definition VirtualNetworkStatus_type :: gtype where
  "VirtualNetworkStatus_type = TStruct [(''ProvisioningState'', TPtr TScalar), (''ID'', TPtr TScalar),
     (''ObservedGeneration'', TScalar)]"

definition VirtualNetworkStatus_DeepCopyInto :: copier where
  "VirtualNetworkStatus_DeepCopyInto = copy_struct [(''ProvisioningState'', copy_new go_ret),
     (''ID'', copy_new go_ret)]"

definition VirtualNetworkStatus_DeepCopy :: copier where
  "VirtualNetworkStatus_DeepCopy = copy_new VirtualNetworkStatus_DeepCopyInto"

subsection \<open>The kinds\<close>

definition DockerConfig_type :: "k8s_meta \<Rightarrow> gtype" where
  "DockerConfig_type M = TStruct [(''TypeMeta'', TypeMeta_type), (''ObjectMeta'', object_meta_type M),
     (''Spec'', DockerConfigSpec_type), (''Status'', DockerConfigStatus_type)]"

definition DockerConfig_DeepCopyInto :: "k8s_meta \<Rightarrow> copier" where
  "DockerConfig_DeepCopyInto M = copy_struct [(''TypeMeta'', go_ret), (''ObjectMeta'', object_meta_copy M),
     (''Spec'', go_ret), (''Status'', go_ret)]"

definition DockerConfig_DeepCopy :: "k8s_meta \<Rightarrow> copier" where
  "DockerConfig_DeepCopy M = copy_new (DockerConfig_DeepCopyInto M)"

definition DockerConfig_DeepCopyObject :: "k8s_meta \<Rightarrow> gval \<Rightarrow> (memory, gval option) go" where
  "DockerConfig_DeepCopyObject M = (\<lambda>p. as_object (DockerConfig_DeepCopy M p))"

definition Identity_type :: "k8s_meta \<Rightarrow> gtype" where
  "Identity_type M = TStruct [(''TypeMeta'', TypeMeta_type), (''ObjectMeta'', object_meta_type M),
     (''Spec'', IdentitySpec_type), (''Status'', IdentityStatus_type)]"

definition Identity_DeepCopyInto :: "k8s_meta \<Rightarrow> copier" where
  "Identity_DeepCopyInto M = copy_struct [(''TypeMeta'', go_ret), (''ObjectMeta'', object_meta_copy M),
     (''Spec'', go_ret), (''Status'', IdentityStatus_DeepCopyInto)]"

definition Identity_DeepCopy :: "k8s_meta \<Rightarrow> copier" where
  "Identity_DeepCopy M = copy_new (Identity_DeepCopyInto M)"

definition Identity_DeepCopyObject :: "k8s_meta \<Rightarrow> gval \<Rightarrow> (memory, gval option) go" where
  "Identity_DeepCopyObject M = (\<lambda>p. as_object (Identity_DeepCopy M p))"

definition Keyvault_type :: "k8s_meta \<Rightarrow> gtype" where
  "Keyvault_type M = TStruct [(''TypeMeta'', TypeMeta_type), (''ObjectMeta'', object_meta_type M),
     (''Spec'', KeyvaultSpec_type), (''Status'', KeyvaultStatus_type)]"

definition Keyvault_DeepCopyInto :: "k8s_meta \<Rightarrow> copier" where
  "Keyvault_DeepCopyInto M = copy_struct [(''TypeMeta'', go_ret), (''ObjectMeta'', object_meta_copy M),
     (''Spec'', go_ret), (''Status'', KeyvaultStatus_DeepCopyInto)]"

definition Keyvault_DeepCopy :: "k8s_meta \<Rightarrow> copier" where
  "Keyvault_DeepCopy M = copy_new (Keyvault_DeepCopyInto M)"

definition Keyvault_DeepCopyObject :: "k8s_meta \<Rightarrow> gval \<Rightarrow> (memory, gval option) go" where
  "Keyvault_DeepCopyObject M = (\<lambda>p. as_object (Keyvault_DeepCopy M p))"

definition LoadBalancer_type :: "k8s_meta \<Rightarrow> gtype" where
  "LoadBalancer_type M = TStruct [(''TypeMeta'', TypeMeta_type), (''ObjectMeta'', object_meta_type M),
     (''Spec'', LoadBalancerSpec_type), (''Status'', LoadBalancerStatus_type)]"

definition LoadBalancer_DeepCopyInto :: "k8s_meta \<Rightarrow> copier" where
  "LoadBalancer_DeepCopyInto M = copy_struct [(''TypeMeta'', go_ret), (''ObjectMeta'', object_meta_copy M),
     (''Spec'', LoadBalancerSpec_DeepCopyInto), (''Status'', LoadBalancerStatus_DeepCopyInto)]"

definition LoadBalancer_DeepCopy :: "k8s_meta \<Rightarrow> copier" where
  "LoadBalancer_DeepCopy M = copy_new (LoadBalancer_DeepCopyInto M)"

definition LoadBalancer_DeepCopyObject :: "k8s_meta \<Rightarrow> gval \<Rightarrow> (memory, gval option) go" where
  "LoadBalancer_DeepCopyObject M = (\<lambda>p. as_object (LoadBalancer_DeepCopy M p))"

definition NetworkInterface_type :: "k8s_meta \<Rightarrow> gtype" where
  "NetworkInterface_type M = TStruct [(''TypeMeta'', TypeMeta_type), (''ObjectMeta'', object_meta_type M),
     (''Spec'', NetworkInterfaceSpec_type), (''Status'', NetworkInterfaceStatus_type)]"

definition NetworkInterface_DeepCopyInto :: "k8s_meta \<Rightarrow> copier" where
  "NetworkInterface_DeepCopyInto M = copy_struct [(''TypeMeta'', go_ret), (''ObjectMeta'', object_meta_copy M),
     (''Spec'', NetworkInterfaceSpec_DeepCopyInto), (''Status'', NetworkInterfaceStatus_DeepCopyInto)]"

definition NetworkInterface_DeepCopy :: "k8s_meta \<Rightarrow> copier" where
  "NetworkInterface_DeepCopy M = copy_new (NetworkInterface_DeepCopyInto M)"

definition NetworkInterface_DeepCopyObject :: "k8s_meta \<Rightarrow> gval \<Rightarrow> (memory, gval option) go" where
  "NetworkInterface_DeepCopyObject M = (\<lambda>p. as_object (NetworkInterface_DeepCopy M p))"

definition PublicIP_type :: "k8s_meta \<Rightarrow> gtype" where
  "PublicIP_type M = TStruct [(''TypeMeta'', TypeMeta_type), (''ObjectMeta'', object_meta_type M),
     (''Spec'', PublicIPSpec_type), (''Status'', PublicIPStatus_type)]"

definition PublicIP_DeepCopyInto :: "k8s_meta \<Rightarrow> copier" where
  "PublicIP_DeepCopyInto M = copy_struct [(''TypeMeta'', go_ret), (''ObjectMeta'', object_meta_copy M),
     (''Spec'', PublicIPSpec_DeepCopyInto), (''Status'', PublicIPStatus_DeepCopyInto)]"

definition PublicIP_DeepCopy :: "k8s_meta \<Rightarrow> copier" where
  "PublicIP_DeepCopy M = copy_new (PublicIP_DeepCopyInto M)"

definition PublicIP_DeepCopyObject :: "k8s_meta \<Rightarrow> gval \<Rightarrow> (memory, gval option) go" where
  "PublicIP_DeepCopyObject M = (\<lambda>p. as_object (PublicIP_DeepCopy M p))"

definition Redis_type :: "k8s_meta \<Rightarrow> gtype" where
  "Redis_type M = TStruct [(''TypeMeta'', TypeMeta_type), (''ObjectMeta'', object_meta_type M),
     (''Spec'', RedisSpec_type), (''Status'', RedisStatus_type)]"

definition Redis_DeepCopyInto :: "k8s_meta \<Rightarrow> copier" where
  "Redis_DeepCopyInto M = copy_struct [(''TypeMeta'', go_ret), (''ObjectMeta'', object_meta_copy M),
     (''Spec'', RedisSpec_DeepCopyInto), (''Status'', RedisStatus_DeepCopyInto)]"

definition Redis_DeepCopy :: "k8s_meta \<Rightarrow> copier" where
  "Redis_DeepCopy M = copy_new (Redis_DeepCopyInto M)"

definition Redis_DeepCopyObject :: "k8s_meta \<Rightarrow> gval \<Rightarrow> (memory, gval option) go" where
  "Redis_DeepCopyObject M = (\<lambda>p. as_object (Redis_DeepCopy M p))"

definition RedisKey_type :: "k8s_meta \<Rightarrow> gtype" where
  "RedisKey_type M = TStruct [(''TypeMeta'', TypeMeta_type), (''ObjectMeta'', object_meta_type M),
     (''Spec'', RedisKeySpec_type), (''Status'', RedisKeyStatus_type)]"

definition RedisKey_DeepCopyInto :: "k8s_meta \<Rightarrow> copier" where
  "RedisKey_DeepCopyInto M = copy_struct [(''TypeMeta'', go_ret), (''ObjectMeta'', object_meta_copy M),
     (''Spec'', RedisKeySpec_DeepCopyInto), (''Status'', RedisKeyStatus_DeepCopyInto)]"

definition RedisKey_DeepCopy :: "k8s_meta \<Rightarrow> copier" where
  "RedisKey_DeepCopy M = copy_new (RedisKey_DeepCopyInto M)"

definition RedisKey_DeepCopyObject :: "k8s_meta \<Rightarrow> gval \<Rightarrow> (memory, gval option) go" where
  "RedisKey_DeepCopyObject M = (\<lambda>p. as_object (RedisKey_DeepCopy M p))"

definition ResourceGroup_type :: "k8s_meta \<Rightarrow> gtype" where
  "ResourceGroup_type M = TStruct [(''TypeMeta'', TypeMeta_type), (''ObjectMeta'', object_meta_type M),
     (''Spec'', ResourceGroupSpec_type), (''Status'', ResourceGroupStatus_type)]"

definition ResourceGroup_DeepCopyInto :: "k8s_meta \<Rightarrow> copier" where
  "ResourceGroup_DeepCopyInto M = copy_struct [(''TypeMeta'', go_ret), (''ObjectMeta'', object_meta_copy M),
     (''Spec'', go_ret), (''Status'', ResourceGroupStatus_DeepCopyInto)]"

definition ResourceGroup_DeepCopy :: "k8s_meta \<Rightarrow> copier" where
  "ResourceGroup_DeepCopy M = copy_new (ResourceGroup_DeepCopyInto M)"

definition ResourceGroup_DeepCopyObject :: "k8s_meta \<Rightarrow> gval \<Rightarrow> (memory, gval option) go" where
  "ResourceGroup_DeepCopyObject M = (\<lambda>p. as_object (ResourceGroup_DeepCopy M p))"

definition SQLFirewallRule_type :: "k8s_meta \<Rightarrow> gtype" where
  "SQLFirewallRule_type M = TStruct [(''TypeMeta'', TypeMeta_type), (''ObjectMeta'', object_meta_type M),
     (''Spec'', SQLFirewallRuleSpec_type), (''Status'', SQLFirewallRuleStatus_type)]"

definition SQLFirewallRule_DeepCopyInto :: "k8s_meta \<Rightarrow> copier" where
  "SQLFirewallRule_DeepCopyInto M = copy_struct [(''TypeMeta'', go_ret), (''ObjectMeta'', object_meta_copy M),
     (''Spec'', go_ret), (''Status'', SQLFirewallRuleStatus_DeepCopyInto)]"

definition SQLFirewallRule_DeepCopy :: "k8s_meta \<Rightarrow> copier" where
  "SQLFirewallRule_DeepCopy M = copy_new (SQLFirewallRule_DeepCopyInto M)"

definition SQLFirewallRule_DeepCopyObject :: "k8s_meta \<Rightarrow> gval \<Rightarrow> (memory, gval option) go" where
  "SQLFirewallRule_DeepCopyObject M = (\<lambda>p. as_object (SQLFirewallRule_DeepCopy M p))"

definition SQLServer_type :: "k8s_meta \<Rightarrow> gtype" where
  "SQLServer_type M = TStruct [(''TypeMeta'', TypeMeta_type), (''ObjectMeta'', object_meta_type M),
     (''Spec'', SQLServerSpec_type), (''Status'', SQLServerStatus_type)]"

definition SQLServer_DeepCopyInto :: "k8s_meta \<Rightarrow> copier" where
  "SQLServer_DeepCopyInto M = copy_struct [(''TypeMeta'', go_ret), (''ObjectMeta'', object_meta_copy M),
     (''Spec'', SQLServerSpec_DeepCopyInto), (''Status'', SQLServerStatus_DeepCopyInto)]"

definition SQLServer_DeepCopy :: "k8s_meta \<Rightarrow> copier" where
  "SQLServer_DeepCopy M = copy_new (SQLServer_DeepCopyInto M)"

definition SQLServer_DeepCopyObject :: "k8s_meta \<Rightarrow> gval \<Rightarrow> (memory, gval option) go" where
  "SQLServer_DeepCopyObject M = (\<lambda>p. as_object (SQLServer_DeepCopy M p))"

definition Secret_type :: "k8s_meta \<Rightarrow> gtype" where
  "Secret_type M = TStruct [(''TypeMeta'', TypeMeta_type), (''ObjectMeta'', object_meta_type M),
     (''Spec'', SecretSpec_type), (''Status'', SecretStatus_type)]"

definition Secret_DeepCopyInto :: "k8s_meta \<Rightarrow> copier" where
  "Secret_DeepCopyInto M = copy_struct [(''TypeMeta'', go_ret), (''ObjectMeta'', object_meta_copy M),
     (''Spec'', SecretSpec_DeepCopyInto), (''Status'', SecretStatus_DeepCopyInto)]"

definition Secret_DeepCopy :: "k8s_meta \<Rightarrow> copier" where
  "Secret_DeepCopy M = copy_new (Secret_DeepCopyInto M)"

definition Secret_DeepCopyObject :: "k8s_meta \<Rightarrow> gval \<Rightarrow> (memory, gval option) go" where
  "Secret_DeepCopyObject M = (\<lambda>p. as_object (Secret_DeepCopy M p))"

definition SecretBundle_type :: "k8s_meta \<Rightarrow> gtype" where
  "SecretBundle_type M = TStruct [(''TypeMeta'', TypeMeta_type), (''ObjectMeta'', object_meta_type M),
     (''Spec'', SecretBundleSpec_type), (''Status'', SecretBundleStatus_type)]"

definition SecretBundle_DeepCopyInto :: "k8s_meta \<Rightarrow> copier" where
  "SecretBundle_DeepCopyInto M = copy_struct [(''TypeMeta'', go_ret), (''ObjectMeta'', object_meta_copy M),
     (''Spec'', SecretBundleSpec_DeepCopyInto), (''Status'', SecretBundleStatus_DeepCopyInto)]"

definition SecretBundle_DeepCopy :: "k8s_meta \<Rightarrow> copier" where
  "SecretBundle_DeepCopy M = copy_new (SecretBundle_DeepCopyInto M)"

definition SecretBundle_DeepCopyObject :: "k8s_meta \<Rightarrow> gval \<Rightarrow> (memory, gval option) go" where
  "SecretBundle_DeepCopyObject M = (\<lambda>p. as_object (SecretBundle_DeepCopy M p))"

definition SecurityGroup_type :: "k8s_meta \<Rightarrow> gtype" where
  "SecurityGroup_type M = TStruct [(''TypeMeta'', TypeMeta_type), (''ObjectMeta'', object_meta_type M),
     (''Spec'', SecurityGroupSpec_type), (''Status'', SecurityGroupStatus_type)]"

definition SecurityGroup_DeepCopyInto :: "k8s_meta \<Rightarrow> copier" where
  "SecurityGroup_DeepCopyInto M = copy_struct [(''TypeMeta'', go_ret), (''ObjectMeta'', object_meta_copy M),
     (''Spec'', SecurityGroupSpec_DeepCopyInto), (''Status'', SecurityGroupStatus_DeepCopyInto)]"

definition SecurityGroup_DeepCopy :: "k8s_meta \<Rightarrow> copier" where
  "SecurityGroup_DeepCopy M = copy_new (SecurityGroup_DeepCopyInto M)"

definition SecurityGroup_DeepCopyObject :: "k8s_meta \<Rightarrow> gval \<Rightarrow> (memory, gval option) go" where
  "SecurityGroup_DeepCopyObject M = (\<lambda>p. as_object (SecurityGroup_DeepCopy M p))"

definition ServiceBusKey_type :: "k8s_meta \<Rightarrow> gtype" where
  "ServiceBusKey_type M = TStruct [(''TypeMeta'', TypeMeta_type), (''ObjectMeta'', object_meta_type M),
     (''Spec'', ServiceBusKeySpec_type), (''Status'', ServiceBusKeyStatus_type)]"

definition ServiceBusKey_DeepCopyInto :: "k8s_meta \<Rightarrow> copier" where
  "ServiceBusKey_DeepCopyInto M = copy_struct [(''TypeMeta'', go_ret), (''ObjectMeta'', object_meta_copy M),
     (''Spec'', ServiceBusKeySpec_DeepCopyInto), (''Status'', ServiceBusKeyStatus_DeepCopyInto)]"

definition ServiceBusKey_DeepCopy :: "k8s_meta \<Rightarrow> copier" where
  "ServiceBusKey_DeepCopy M = copy_new (ServiceBusKey_DeepCopyInto M)"

definition ServiceBusKey_DeepCopyObject :: "k8s_meta \<Rightarrow> gval \<Rightarrow> (memory, gval option) go" where
  "ServiceBusKey_DeepCopyObject M = (\<lambda>p. as_object (ServiceBusKey_DeepCopy M p))"

definition ServiceBusNamespace_type :: "k8s_meta \<Rightarrow> gtype" where
  "ServiceBusNamespace_type M = TStruct [(''TypeMeta'', TypeMeta_type), (''ObjectMeta'', object_meta_type M),
     (''Spec'', ServiceBusNamespaceSpec_type), (''Status'', ServiceBusNamespaceStatus_type)]"

definition ServiceBusNamespace_DeepCopyInto :: "k8s_meta \<Rightarrow> copier" where
  "ServiceBusNamespace_DeepCopyInto M = copy_struct [(''TypeMeta'', go_ret),
     (''ObjectMeta'', object_meta_copy M), (''Spec'', ServiceBusNamespaceSpec_DeepCopyInto),
     (''Status'', ServiceBusNamespaceStatus_DeepCopyInto)]"

definition ServiceBusNamespace_DeepCopy :: "k8s_meta \<Rightarrow> copier" where
  "ServiceBusNamespace_DeepCopy M = copy_new (ServiceBusNamespace_DeepCopyInto M)"

definition ServiceBusNamespace_DeepCopyObject :: "k8s_meta \<Rightarrow> gval \<Rightarrow> (memory, gval option) go" where
  "ServiceBusNamespace_DeepCopyObject M = (\<lambda>p. as_object (ServiceBusNamespace_DeepCopy M p))"

definition StorageAccount_type :: "k8s_meta \<Rightarrow> gtype" where
  "StorageAccount_type M = TStruct [(''TypeMeta'', TypeMeta_type), (''ObjectMeta'', object_meta_type M),
     (''Spec'', StorageAccountSpec_type), (''Status'', StorageAccountStatus_type)]"

definition StorageAccount_DeepCopyInto :: "k8s_meta \<Rightarrow> copier" where
  "StorageAccount_DeepCopyInto M = copy_struct [(''TypeMeta'', go_ret), (''ObjectMeta'', object_meta_copy M),
     (''Spec'', StorageAccountSpec_DeepCopyInto), (''Status'', StorageAccountStatus_DeepCopyInto)]"

definition StorageAccount_DeepCopy :: "k8s_meta \<Rightarrow> copier" where
  "StorageAccount_DeepCopy M = copy_new (StorageAccount_DeepCopyInto M)"

definition StorageAccount_DeepCopyObject :: "k8s_meta \<Rightarrow> gval \<Rightarrow> (memory, gval option) go" where
  "StorageAccount_DeepCopyObject M = (\<lambda>p. as_object (StorageAccount_DeepCopy M p))"

definition StorageKey_type :: "k8s_meta \<Rightarrow> gtype" where
  "StorageKey_type M = TStruct [(''TypeMeta'', TypeMeta_type), (''ObjectMeta'', object_meta_type M),
     (''Spec'', StorageKeySpec_type), (''Status'', StorageKeyStatus_type)]"

definition StorageKey_DeepCopyInto :: "k8s_meta \<Rightarrow> copier" where
  "StorageKey_DeepCopyInto M = copy_struct [(''TypeMeta'', go_ret), (''ObjectMeta'', object_meta_copy M),
     (''Spec'', StorageKeySpec_DeepCopyInto), (''Status'', StorageKeyStatus_DeepCopyInto)]"

definition StorageKey_DeepCopy :: "k8s_meta \<Rightarrow> copier" where
  "StorageKey_DeepCopy M = copy_new (StorageKey_DeepCopyInto M)"

definition StorageKey_DeepCopyObject :: "k8s_meta \<Rightarrow> gval \<Rightarrow> (memory, gval option) go" where
  "StorageKey_DeepCopyObject M = (\<lambda>p. as_object (StorageKey_DeepCopy M p))"

definition Subnet_type :: "k8s_meta \<Rightarrow> gtype" where
  "Subnet_type M = TStruct [(''TypeMeta'', TypeMeta_type), (''ObjectMeta'', object_meta_type M),
     (''Spec'', SubnetSpec_type), (''Status'', SubnetStatus_type)]"

definition Subnet_DeepCopyInto :: "k8s_meta \<Rightarrow> copier" where
  "Subnet_DeepCopyInto M = copy_struct [(''TypeMeta'', go_ret), (''ObjectMeta'', object_meta_copy M),
     (''Spec'', go_ret), (''Status'', SubnetStatus_DeepCopyInto)]"

definition Subnet_DeepCopy :: "k8s_meta \<Rightarrow> copier" where
  "Subnet_DeepCopy M = copy_new (Subnet_DeepCopyInto M)"

definition Subnet_DeepCopyObject :: "k8s_meta \<Rightarrow> gval \<Rightarrow> (memory, gval option) go" where
  "Subnet_DeepCopyObject M = (\<lambda>p. as_object (Subnet_DeepCopy M p))"

definition TLSSecret_type :: "k8s_meta \<Rightarrow> gtype" where
  "TLSSecret_type M = TStruct [(''TypeMeta'', TypeMeta_type), (''ObjectMeta'', object_meta_type M),
     (''Spec'', TLSSecretSpec_type), (''Status'', TLSSecretStatus_type)]"

definition TLSSecret_DeepCopyInto :: "k8s_meta \<Rightarrow> copier" where
  "TLSSecret_DeepCopyInto M = copy_struct [(''TypeMeta'', go_ret), (''ObjectMeta'', object_meta_copy M),
     (''Spec'', go_ret), (''Status'', TLSSecretStatus_DeepCopyInto)]"

definition TLSSecret_DeepCopy :: "k8s_meta \<Rightarrow> copier" where
  "TLSSecret_DeepCopy M = copy_new (TLSSecret_DeepCopyInto M)"

definition TLSSecret_DeepCopyObject :: "k8s_meta \<Rightarrow> gval \<Rightarrow> (memory, gval option) go" where
  "TLSSecret_DeepCopyObject M = (\<lambda>p. as_object (TLSSecret_DeepCopy M p))"

definition TrafficManager_type :: "k8s_meta \<Rightarrow> gtype" where
  "TrafficManager_type M = TStruct [(''TypeMeta'', TypeMeta_type), (''ObjectMeta'', object_meta_type M),
     (''Spec'', TrafficManagerSpec_type), (''Status'', TrafficManagerStatus_type)]"

definition TrafficManager_DeepCopyInto :: "k8s_meta \<Rightarrow> copier" where
  "TrafficManager_DeepCopyInto M = copy_struct [(''TypeMeta'', go_ret), (''ObjectMeta'', object_meta_copy M),
     (''Spec'', TrafficManagerSpec_DeepCopyInto), (''Status'', TrafficManagerStatus_DeepCopyInto)]"

definition TrafficManager_DeepCopy :: "k8s_meta \<Rightarrow> copier" where
  "TrafficManager_DeepCopy M = copy_new (TrafficManager_DeepCopyInto M)"

definition TrafficManager_DeepCopyObject :: "k8s_meta \<Rightarrow> gval \<Rightarrow> (memory, gval option) go" where
  "TrafficManager_DeepCopyObject M = (\<lambda>p. as_object (TrafficManager_DeepCopy M p))"

definition VM_type :: "k8s_meta \<Rightarrow> gtype" where
  "VM_type M = TStruct [(''TypeMeta'', TypeMeta_type), (''ObjectMeta'', object_meta_type M),
     (''Spec'', VMSpec_type), (''Status'', VMStatus_type)]"

definition VM_DeepCopyInto :: "k8s_meta \<Rightarrow> copier" where
  "VM_DeepCopyInto M = copy_struct [(''TypeMeta'', go_ret), (''ObjectMeta'', object_meta_copy M),
     (''Spec'', VMSpec_DeepCopyInto), (''Status'', VMStatus_DeepCopyInto)]"

definition VM_DeepCopy :: "k8s_meta \<Rightarrow> copier" where
  "VM_DeepCopy M = copy_new (VM_DeepCopyInto M)"

definition VM_DeepCopyObject :: "k8s_meta \<Rightarrow> gval \<Rightarrow> (memory, gval option) go" where
  "VM_DeepCopyObject M = (\<lambda>p. as_object (VM_DeepCopy M p))"

definition VMScaleSet_type :: "k8s_meta \<Rightarrow> gtype" where
  "VMScaleSet_type M = TStruct [(''TypeMeta'', TypeMeta_type), (''ObjectMeta'', object_meta_type M),
     (''Spec'', VMScaleSetSpec_type), (''Status'', VMScaleSetStatus_type)]"

definition VMScaleSet_DeepCopyInto :: "k8s_meta \<Rightarrow> copier" where
  "VMScaleSet_DeepCopyInto M = copy_struct [(''TypeMeta'', go_ret), (''ObjectMeta'', object_meta_copy M),
     (''Spec'', go_ret), (''Status'', VMScaleSetStatus_DeepCopyInto)]"

definition VMScaleSet_DeepCopy :: "k8s_meta \<Rightarrow> copier" where
  "VMScaleSet_DeepCopy M = copy_new (VMScaleSet_DeepCopyInto M)"

definition VMScaleSet_DeepCopyObject :: "k8s_meta \<Rightarrow> gval \<Rightarrow> (memory, gval option) go" where
  "VMScaleSet_DeepCopyObject M = (\<lambda>p. as_object (VMScaleSet_DeepCopy M p))"

definition VirtualNetwork_type :: "k8s_meta \<Rightarrow> gtype" where
  "VirtualNetwork_type M = TStruct [(''TypeMeta'', TypeMeta_type), (''ObjectMeta'', object_meta_type M),
     (''Spec'', VirtualNetworkSpec_type), (''Status'', VirtualNetworkStatus_type)]"

definition VirtualNetwork_DeepCopyInto :: "k8s_meta \<Rightarrow> copier" where
  "VirtualNetwork_DeepCopyInto M = copy_struct [(''TypeMeta'', go_ret), (''ObjectMeta'', object_meta_copy M),
     (''Spec'', VirtualNetworkSpec_DeepCopyInto), (''Status'', VirtualNetworkStatus_DeepCopyInto)]"

definition VirtualNetwork_DeepCopy :: "k8s_meta \<Rightarrow> copier" where
  "VirtualNetwork_DeepCopy M = copy_new (VirtualNetwork_DeepCopyInto M)"

definition VirtualNetwork_DeepCopyObject :: "k8s_meta \<Rightarrow> gval \<Rightarrow> (memory, gval option) go" where
  "VirtualNetwork_DeepCopyObject M = (\<lambda>p. as_object (VirtualNetwork_DeepCopy M p))"

subsection \<open>The lists of the kinds\<close>

definition DockerConfigList_type :: "k8s_meta \<Rightarrow> gtype" where
  "DockerConfigList_type M = TStruct [(''TypeMeta'', TypeMeta_type), (''ListMeta'', list_meta_type M),
     (''Items'', TSlice (DockerConfig_type M))]"

definition DockerConfigList_DeepCopyInto :: "k8s_meta \<Rightarrow> copier" where
  "DockerConfigList_DeepCopyInto M = copy_struct [(''TypeMeta'', go_ret), (''ListMeta'', list_meta_copy M),
     (''Items'', copy_slice (DockerConfig_DeepCopyInto M))]"

definition DockerConfigList_DeepCopy :: "k8s_meta \<Rightarrow> copier" where
  "DockerConfigList_DeepCopy M = copy_new (DockerConfigList_DeepCopyInto M)"

definition DockerConfigList_DeepCopyObject :: "k8s_meta \<Rightarrow> gval \<Rightarrow> (memory, gval option) go" where
  "DockerConfigList_DeepCopyObject M = (\<lambda>p. as_object (DockerConfigList_DeepCopy M p))"

definition IdentityList_type :: "k8s_meta \<Rightarrow> gtype" where
  "IdentityList_type M = TStruct [(''TypeMeta'', TypeMeta_type), (''ListMeta'', list_meta_type M),
     (''Items'', TSlice (Identity_type M))]"

definition IdentityList_DeepCopyInto :: "k8s_meta \<Rightarrow> copier" where
  "IdentityList_DeepCopyInto M = copy_struct [(''TypeMeta'', go_ret), (''ListMeta'', list_meta_copy M),
     (''Items'', copy_slice (Identity_DeepCopyInto M))]"

definition IdentityList_DeepCopy :: "k8s_meta \<Rightarrow> copier" where
  "IdentityList_DeepCopy M = copy_new (IdentityList_DeepCopyInto M)"

definition IdentityList_DeepCopyObject :: "k8s_meta \<Rightarrow> gval \<Rightarrow> (memory, gval option) go" where
  "IdentityList_DeepCopyObject M = (\<lambda>p. as_object (IdentityList_DeepCopy M p))"

definition KeyvaultList_type :: "k8s_meta \<Rightarrow> gtype" where
  "KeyvaultList_type M = TStruct [(''TypeMeta'', TypeMeta_type), (''ListMeta'', list_meta_type M),
     (''Items'', TSlice (Keyvault_type M))]"

definition KeyvaultList_DeepCopyInto :: "k8s_meta \<Rightarrow> copier" where
  "KeyvaultList_DeepCopyInto M = copy_struct [(''TypeMeta'', go_ret), (''ListMeta'', list_meta_copy M),
     (''Items'', copy_slice (Keyvault_DeepCopyInto M))]"

definition KeyvaultList_DeepCopy :: "k8s_meta \<Rightarrow> copier" where
  "KeyvaultList_DeepCopy M = copy_new (KeyvaultList_DeepCopyInto M)"

definition KeyvaultList_DeepCopyObject :: "k8s_meta \<Rightarrow> gval \<Rightarrow> (memory, gval option) go" where
  "KeyvaultList_DeepCopyObject M = (\<lambda>p. as_object (KeyvaultList_DeepCopy M p))"

definition LoadBalancerList_type :: "k8s_meta \<Rightarrow> gtype" where
  "LoadBalancerList_type M = TStruct [(''TypeMeta'', TypeMeta_type), (''ListMeta'', list_meta_type M),
     (''Items'', TSlice (LoadBalancer_type M))]"

definition LoadBalancerList_DeepCopyInto :: "k8s_meta \<Rightarrow> copier" where
  "LoadBalancerList_DeepCopyInto M = copy_struct [(''TypeMeta'', go_ret), (''ListMeta'', list_meta_copy M),
     (''Items'', copy_slice (LoadBalancer_DeepCopyInto M))]"

definition LoadBalancerList_DeepCopy :: "k8s_meta \<Rightarrow> copier" where
  "LoadBalancerList_DeepCopy M = copy_new (LoadBalancerList_DeepCopyInto M)"

definition LoadBalancerList_DeepCopyObject :: "k8s_meta \<Rightarrow> gval \<Rightarrow> (memory, gval option) go" where
  "LoadBalancerList_DeepCopyObject M = (\<lambda>p. as_object (LoadBalancerList_DeepCopy M p))"

definition NetworkInterfaceList_type :: "k8s_meta \<Rightarrow> gtype" where
  "NetworkInterfaceList_type M = TStruct [(''TypeMeta'', TypeMeta_type), (''ListMeta'', list_meta_type M),
     (''Items'', TSlice (NetworkInterface_type M))]"

definition NetworkInterfaceList_DeepCopyInto :: "k8s_meta \<Rightarrow> copier" where
  "NetworkInterfaceList_DeepCopyInto M = copy_struct [(''TypeMeta'', go_ret), (''ListMeta'', list_meta_copy M),
     (''Items'', copy_slice (NetworkInterface_DeepCopyInto M))]"

definition NetworkInterfaceList_DeepCopy :: "k8s_meta \<Rightarrow> copier" where
  "NetworkInterfaceList_DeepCopy M = copy_new (NetworkInterfaceList_DeepCopyInto M)"

definition NetworkInterfaceList_DeepCopyObject :: "k8s_meta \<Rightarrow> gval \<Rightarrow> (memory, gval option) go" where
  "NetworkInterfaceList_DeepCopyObject M = (\<lambda>p. as_object (NetworkInterfaceList_DeepCopy M p))"

definition PublicIPList_type :: "k8s_meta \<Rightarrow> gtype" where
  "PublicIPList_type M = TStruct [(''TypeMeta'', TypeMeta_type), (''ListMeta'', list_meta_type M),
     (''Items'', TSlice (PublicIP_type M))]"

definition PublicIPList_DeepCopyInto :: "k8s_meta \<Rightarrow> copier" where
  "PublicIPList_DeepCopyInto M = copy_struct [(''TypeMeta'', go_ret), (''ListMeta'', list_meta_copy M),
     (''Items'', copy_slice (PublicIP_DeepCopyInto M))]"

definition PublicIPList_DeepCopy :: "k8s_meta \<Rightarrow> copier" where
  "PublicIPList_DeepCopy M = copy_new (PublicIPList_DeepCopyInto M)"

definition PublicIPList_DeepCopyObject :: "k8s_meta \<Rightarrow> gval \<Rightarrow> (memory, gval option) go" where
  "PublicIPList_DeepCopyObject M = (\<lambda>p. as_object (PublicIPList_DeepCopy M p))"

definition RedisKeyList_type :: "k8s_meta \<Rightarrow> gtype" where
  "RedisKeyList_type M = TStruct [(''TypeMeta'', TypeMeta_type), (''ListMeta'', list_meta_type M),
     (''Items'', TSlice (RedisKey_type M))]"

definition RedisKeyList_DeepCopyInto :: "k8s_meta \<Rightarrow> copier" where
  "RedisKeyList_DeepCopyInto M = copy_struct [(''TypeMeta'', go_ret), (''ListMeta'', list_meta_copy M),
     (''Items'', copy_slice (RedisKey_DeepCopyInto M))]"

definition RedisKeyList_DeepCopy :: "k8s_meta \<Rightarrow> copier" where
  "RedisKeyList_DeepCopy M = copy_new (RedisKeyList_DeepCopyInto M)"

definition RedisKeyList_DeepCopyObject :: "k8s_meta \<Rightarrow> gval \<Rightarrow> (memory, gval option) go" where
  "RedisKeyList_DeepCopyObject M = (\<lambda>p. as_object (RedisKeyList_DeepCopy M p))"

definition RedisList_type :: "k8s_meta \<Rightarrow> gtype" where
  "RedisList_type M = TStruct [(''TypeMeta'', TypeMeta_type), (''ListMeta'', list_meta_type M),
     (''Items'', TSlice (Redis_type M))]"

definition RedisList_DeepCopyInto :: "k8s_meta \<Rightarrow> copier" where
  "RedisList_DeepCopyInto M = copy_struct [(''TypeMeta'', go_ret), (''ListMeta'', list_meta_copy M),
     (''Items'', copy_slice (Redis_DeepCopyInto M))]"

definition RedisList_DeepCopy :: "k8s_meta \<Rightarrow> copier" where
  "RedisList_DeepCopy M = copy_new (RedisList_DeepCopyInto M)"

definition RedisList_DeepCopyObject :: "k8s_meta \<Rightarrow> gval \<Rightarrow> (memory, gval option) go" where
  "RedisList_DeepCopyObject M = (\<lambda>p. as_object (RedisList_DeepCopy M p))"

definition ResourceGroupList_type :: "k8s_meta \<Rightarrow> gtype" where
  "ResourceGroupList_type M = TStruct [(''TypeMeta'', TypeMeta_type), (''ListMeta'', list_meta_type M),
     (''Items'', TSlice (ResourceGroup_type M))]"

definition ResourceGroupList_DeepCopyInto :: "k8s_meta \<Rightarrow> copier" where
  "ResourceGroupList_DeepCopyInto M = copy_struct [(''TypeMeta'', go_ret), (''ListMeta'', list_meta_copy M),
     (''Items'', copy_slice (ResourceGroup_DeepCopyInto M))]"

definition ResourceGroupList_DeepCopy :: "k8s_meta \<Rightarrow> copier" where
  "ResourceGroupList_DeepCopy M = copy_new (ResourceGroupList_DeepCopyInto M)"

definition ResourceGroupList_DeepCopyObject :: "k8s_meta \<Rightarrow> gval \<Rightarrow> (memory, gval option) go" where
  "ResourceGroupList_DeepCopyObject M = (\<lambda>p. as_object (ResourceGroupList_DeepCopy M p))"

definition SQLFirewallRuleList_type :: "k8s_meta \<Rightarrow> gtype" where
  "SQLFirewallRuleList_type M = TStruct [(''TypeMeta'', TypeMeta_type), (''ListMeta'', list_meta_type M),
     (''Items'', TSlice (SQLFirewallRule_type M))]"

definition SQLFirewallRuleList_DeepCopyInto :: "k8s_meta \<Rightarrow> copier" where
  "SQLFirewallRuleList_DeepCopyInto M = copy_struct [(''TypeMeta'', go_ret), (''ListMeta'', list_meta_copy M),
     (''Items'', copy_slice (SQLFirewallRule_DeepCopyInto M))]"

definition SQLFirewallRuleList_DeepCopy :: "k8s_meta \<Rightarrow> copier" where
  "SQLFirewallRuleList_DeepCopy M = copy_new (SQLFirewallRuleList_DeepCopyInto M)"

definition SQLFirewallRuleList_DeepCopyObject :: "k8s_meta \<Rightarrow> gval \<Rightarrow> (memory, gval option) go" where
  "SQLFirewallRuleList_DeepCopyObject M = (\<lambda>p. as_object (SQLFirewallRuleList_DeepCopy M p))"

definition SQLServerList_type :: "k8s_meta \<Rightarrow> gtype" where
  "SQLServerList_type M = TStruct [(''TypeMeta'', TypeMeta_type), (''ListMeta'', list_meta_type M),
     (''Items'', TSlice (SQLServer_type M))]"

definition SQLServerList_DeepCopyInto :: "k8s_meta \<Rightarrow> copier" where
  "SQLServerList_DeepCopyInto M = copy_struct [(''TypeMeta'', go_ret), (''ListMeta'', list_meta_copy M),
     (''Items'', copy_slice (SQLServer_DeepCopyInto M))]"

definition SQLServerList_DeepCopy :: "k8s_meta \<Rightarrow> copier" where
  "SQLServerList_DeepCopy M = copy_new (SQLServerList_DeepCopyInto M)"

definition SQLServerList_DeepCopyObject :: "k8s_meta \<Rightarrow> gval \<Rightarrow> (memory, gval option) go" where
  "SQLServerList_DeepCopyObject M = (\<lambda>p. as_object (SQLServerList_DeepCopy M p))"

definition SecretBundleList_type :: "k8s_meta \<Rightarrow> gtype" where
  "SecretBundleList_type M = TStruct [(''TypeMeta'', TypeMeta_type), (''ListMeta'', list_meta_type M),
     (''Items'', TSlice (SecretBundle_type M))]"

definition SecretBundleList_DeepCopyInto :: "k8s_meta \<Rightarrow> copier" where
  "SecretBundleList_DeepCopyInto M = copy_struct [(''TypeMeta'', go_ret), (''ListMeta'', list_meta_copy M),
     (''Items'', copy_slice (SecretBundle_DeepCopyInto M))]"

definition SecretBundleList_DeepCopy :: "k8s_meta \<Rightarrow> copier" where
  "SecretBundleList_DeepCopy M = copy_new (SecretBundleList_DeepCopyInto M)"

definition SecretBundleList_DeepCopyObject :: "k8s_meta \<Rightarrow> gval \<Rightarrow> (memory, gval option) go" where
  "SecretBundleList_DeepCopyObject M = (\<lambda>p. as_object (SecretBundleList_DeepCopy M p))"

definition SecretList_type :: "k8s_meta \<Rightarrow> gtype" where
  "SecretList_type M = TStruct [(''TypeMeta'', TypeMeta_type), (''ListMeta'', list_meta_type M),
     (''Items'', TSlice (Secret_type M))]"

definition SecretList_DeepCopyInto :: "k8s_meta \<Rightarrow> copier" where
  "SecretList_DeepCopyInto M = copy_struct [(''TypeMeta'', go_ret), (''ListMeta'', list_meta_copy M),
     (''Items'', copy_slice (Secret_DeepCopyInto M))]"

definition SecretList_DeepCopy :: "k8s_meta \<Rightarrow> copier" where
  "SecretList_DeepCopy M = copy_new (SecretList_DeepCopyInto M)"

definition SecretList_DeepCopyObject :: "k8s_meta \<Rightarrow> gval \<Rightarrow> (memory, gval option) go" where
  "SecretList_DeepCopyObject M = (\<lambda>p. as_object (SecretList_DeepCopy M p))"

definition SecurityGroupList_type :: "k8s_meta \<Rightarrow> gtype" where
  "SecurityGroupList_type M = TStruct [(''TypeMeta'', TypeMeta_type), (''ListMeta'', list_meta_type M),
     (''Items'', TSlice (SecurityGroup_type M))]"

definition SecurityGroupList_DeepCopyInto :: "k8s_meta \<Rightarrow> copier" where
  "SecurityGroupList_DeepCopyInto M = copy_struct [(''TypeMeta'', go_ret), (''ListMeta'', list_meta_copy M),
     (''Items'', copy_slice (SecurityGroup_DeepCopyInto M))]"

definition SecurityGroupList_DeepCopy :: "k8s_meta \<Rightarrow> copier" where
  "SecurityGroupList_DeepCopy M = copy_new (SecurityGroupList_DeepCopyInto M)"

definition SecurityGroupList_DeepCopyObject :: "k8s_meta \<Rightarrow> gval \<Rightarrow> (memory, gval option) go" where
  "SecurityGroupList_DeepCopyObject M = (\<lambda>p. as_object (SecurityGroupList_DeepCopy M p))"

definition ServiceBusKeyList_type :: "k8s_meta \<Rightarrow> gtype" where
  "ServiceBusKeyList_type M = TStruct [(''TypeMeta'', TypeMeta_type), (''ListMeta'', list_meta_type M),
     (''Items'', TSlice (ServiceBusKey_type M))]"

definition ServiceBusKeyList_DeepCopyInto :: "k8s_meta \<Rightarrow> copier" where
  "ServiceBusKeyList_DeepCopyInto M = copy_struct [(''TypeMeta'', go_ret), (''ListMeta'', list_meta_copy M),
     (''Items'', copy_slice (ServiceBusKey_DeepCopyInto M))]"

definition ServiceBusKeyList_DeepCopy :: "k8s_meta \<Rightarrow> copier" where
  "ServiceBusKeyList_DeepCopy M = copy_new (ServiceBusKeyList_DeepCopyInto M)"

definition ServiceBusKeyList_DeepCopyObject :: "k8s_meta \<Rightarrow> gval \<Rightarrow> (memory, gval option) go" where
  "ServiceBusKeyList_DeepCopyObject M = (\<lambda>p. as_object (ServiceBusKeyList_DeepCopy M p))"

definition ServiceBusNamespaceList_type :: "k8s_meta \<Rightarrow> gtype" where
  "ServiceBusNamespaceList_type M = TStruct [(''TypeMeta'', TypeMeta_type), (''ListMeta'', list_meta_type M),
     (''Items'', TSlice (ServiceBusNamespace_type M))]"

definition ServiceBusNamespaceList_DeepCopyInto :: "k8s_meta \<Rightarrow> copier" where
  "ServiceBusNamespaceList_DeepCopyInto M = copy_struct [(''TypeMeta'', go_ret),
     (''ListMeta'', list_meta_copy M), (''Items'', copy_slice (ServiceBusNamespace_DeepCopyInto M))]"

definition ServiceBusNamespaceList_DeepCopy :: "k8s_meta \<Rightarrow> copier" where
  "ServiceBusNamespaceList_DeepCopy M = copy_new (ServiceBusNamespaceList_DeepCopyInto M)"

definition ServiceBusNamespaceList_DeepCopyObject :: "k8s_meta \<Rightarrow> gval \<Rightarrow> (memory, gval option) go" where
  "ServiceBusNamespaceList_DeepCopyObject M = (\<lambda>p. as_object (ServiceBusNamespaceList_DeepCopy M p))"

definition StorageAccountList_type :: "k8s_meta \<Rightarrow> gtype" where
  "StorageAccountList_type M = TStruct [(''TypeMeta'', TypeMeta_type), (''ListMeta'', list_meta_type M),
     (''Items'', TSlice (StorageAccount_type M))]"

definition StorageAccountList_DeepCopyInto :: "k8s_meta \<Rightarrow> copier" where
  "StorageAccountList_DeepCopyInto M = copy_struct [(''TypeMeta'', go_ret), (''ListMeta'', list_meta_copy M),
     (''Items'', copy_slice (StorageAccount_DeepCopyInto M))]"

definition StorageAccountList_DeepCopy :: "k8s_meta \<Rightarrow> copier" where
  "StorageAccountList_DeepCopy M = copy_new (StorageAccountList_DeepCopyInto M)"

definition StorageAccountList_DeepCopyObject :: "k8s_meta \<Rightarrow> gval \<Rightarrow> (memory, gval option) go" where
  "StorageAccountList_DeepCopyObject M = (\<lambda>p. as_object (StorageAccountList_DeepCopy M p))"

definition StorageKeyList_type :: "k8s_meta \<Rightarrow> gtype" where
  "StorageKeyList_type M = TStruct [(''TypeMeta'', TypeMeta_type), (''ListMeta'', list_meta_type M),
     (''Items'', TSlice (StorageKey_type M))]"

definition StorageKeyList_DeepCopyInto :: "k8s_meta \<Rightarrow> copier" where
  "StorageKeyList_DeepCopyInto M = copy_struct [(''TypeMeta'', go_ret), (''ListMeta'', list_meta_copy M),
     (''Items'', copy_slice (StorageKey_DeepCopyInto M))]"

definition StorageKeyList_DeepCopy :: "k8s_meta \<Rightarrow> copier" where
  "StorageKeyList_DeepCopy M = copy_new (StorageKeyList_DeepCopyInto M)"

definition StorageKeyList_DeepCopyObject :: "k8s_meta \<Rightarrow> gval \<Rightarrow> (memory, gval option) go" where
  "StorageKeyList_DeepCopyObject M = (\<lambda>p. as_object (StorageKeyList_DeepCopy M p))"

definition SubnetList_type :: "k8s_meta \<Rightarrow> gtype" where
  "SubnetList_type M = TStruct [(''TypeMeta'', TypeMeta_type), (''ListMeta'', list_meta_type M),
     (''Items'', TSlice (Subnet_type M))]"

definition SubnetList_DeepCopyInto :: "k8s_meta \<Rightarrow> copier" where
  "SubnetList_DeepCopyInto M = copy_struct [(''TypeMeta'', go_ret), (''ListMeta'', list_meta_copy M),
     (''Items'', copy_slice (Subnet_DeepCopyInto M))]"

definition SubnetList_DeepCopy :: "k8s_meta \<Rightarrow> copier" where
  "SubnetList_DeepCopy M = copy_new (SubnetList_DeepCopyInto M)"

definition SubnetList_DeepCopyObject :: "k8s_meta \<Rightarrow> gval \<Rightarrow> (memory, gval option) go" where
  "SubnetList_DeepCopyObject M = (\<lambda>p. as_object (SubnetList_DeepCopy M p))"

definition TLSSecretList_type :: "k8s_meta \<Rightarrow> gtype" where
  "TLSSecretList_type M = TStruct [(''TypeMeta'', TypeMeta_type), (''ListMeta'', list_meta_type M),
     (''Items'', TSlice (TLSSecret_type M))]"

definition TLSSecretList_DeepCopyInto :: "k8s_meta \<Rightarrow> copier" where
  "TLSSecretList_DeepCopyInto M = copy_struct [(''TypeMeta'', go_ret), (''ListMeta'', list_meta_copy M),
     (''Items'', copy_slice (TLSSecret_DeepCopyInto M))]"

definition TLSSecretList_DeepCopy :: "k8s_meta \<Rightarrow> copier" where
  "TLSSecretList_DeepCopy M = copy_new (TLSSecretList_DeepCopyInto M)"

definition TLSSecretList_DeepCopyObject :: "k8s_meta \<Rightarrow> gval \<Rightarrow> (memory, gval option) go" where
  "TLSSecretList_DeepCopyObject M = (\<lambda>p. as_object (TLSSecretList_DeepCopy M p))"

definition TrafficManagerList_type :: "k8s_meta \<Rightarrow> gtype" where
  "TrafficManagerList_type M = TStruct [(''TypeMeta'', TypeMeta_type), (''ListMeta'', list_meta_type M),
     (''Items'', TSlice (TrafficManager_type M))]"

definition TrafficManagerList_DeepCopyInto :: "k8s_meta \<Rightarrow> copier" where
  "TrafficManagerList_DeepCopyInto M = copy_struct [(''TypeMeta'', go_ret), (''ListMeta'', list_meta_copy M),
     (''Items'', copy_slice (TrafficManager_DeepCopyInto M))]"

definition TrafficManagerList_DeepCopy :: "k8s_meta \<Rightarrow> copier" where
  "TrafficManagerList_DeepCopy M = copy_new (TrafficManagerList_DeepCopyInto M)"

definition TrafficManagerList_DeepCopyObject :: "k8s_meta \<Rightarrow> gval \<Rightarrow> (memory, gval option) go" where
  "TrafficManagerList_DeepCopyObject M = (\<lambda>p. as_object (TrafficManagerList_DeepCopy M p))"

definition VMList_type :: "k8s_meta \<Rightarrow> gtype" where
  "VMList_type M = TStruct [(''TypeMeta'', TypeMeta_type), (''ListMeta'', list_meta_type M),
     (''Items'', TSlice (VM_type M))]"

definition VMList_DeepCopyInto :: "k8s_meta \<Rightarrow> copier" where
  "VMList_DeepCopyInto M = copy_struct [(''TypeMeta'', go_ret), (''ListMeta'', list_meta_copy M),
     (''Items'', copy_slice (VM_DeepCopyInto M))]"

definition VMList_DeepCopy :: "k8s_meta \<Rightarrow> copier" where
  "VMList_DeepCopy M = copy_new (VMList_DeepCopyInto M)"

definition VMList_DeepCopyObject :: "k8s_meta \<Rightarrow> gval \<Rightarrow> (memory, gval option) go" where
  "VMList_DeepCopyObject M = (\<lambda>p. as_object (VMList_DeepCopy M p))"

definition VMScaleSetList_type :: "k8s_meta \<Rightarrow> gtype" where
  "VMScaleSetList_type M = TStruct [(''TypeMeta'', TypeMeta_type), (''ListMeta'', list_meta_type M),
     (''Items'', TSlice (VMScaleSet_type M))]"

definition VMScaleSetList_DeepCopyInto :: "k8s_meta \<Rightarrow> copier" where
  "VMScaleSetList_DeepCopyInto M = copy_struct [(''TypeMeta'', go_ret), (''ListMeta'', list_meta_copy M),
     (''Items'', copy_slice (VMScaleSet_DeepCopyInto M))]"

definition VMScaleSetList_DeepCopy :: "k8s_meta \<Rightarrow> copier" where
  "VMScaleSetList_DeepCopy M = copy_new (VMScaleSetList_DeepCopyInto M)"

definition VMScaleSetList_DeepCopyObject :: "k8s_meta \<Rightarrow> gval \<Rightarrow> (memory, gval option) go" where
  "VMScaleSetList_DeepCopyObject M = (\<lambda>p. as_object (VMScaleSetList_DeepCopy M p))"

definition VirtualNetworkList_type :: "k8s_meta \<Rightarrow> gtype" where
  "VirtualNetworkList_type M = TStruct [(''TypeMeta'', TypeMeta_type), (''ListMeta'', list_meta_type M),
     (''Items'', TSlice (VirtualNetwork_type M))]"

definition VirtualNetworkList_DeepCopyInto :: "k8s_meta \<Rightarrow> copier" where
  "VirtualNetworkList_DeepCopyInto M = copy_struct [(''TypeMeta'', go_ret), (''ListMeta'', list_meta_copy M),
     (''Items'', copy_slice (VirtualNetwork_DeepCopyInto M))]"

definition VirtualNetworkList_DeepCopy :: "k8s_meta \<Rightarrow> copier" where
  "VirtualNetworkList_DeepCopy M = copy_new (VirtualNetworkList_DeepCopyInto M)"

definition VirtualNetworkList_DeepCopyObject :: "k8s_meta \<Rightarrow> gval \<Rightarrow> (memory, gval option) go" where
  "VirtualNetworkList_DeepCopyObject M = (\<lambda>p. as_object (VirtualNetworkList_DeepCopy M p))"

subsection \<open>The copiers fit the types\<close>

lemma TypeMeta_flat [simp]: "flat TypeMeta_type"
  by (simp add: TypeMeta_type_def)

lemma k8s_meta_copies [copies]:
  "k8s_meta_ok M \<Longrightarrow> copy_ok (object_meta_copy M) (object_meta_type M)"
  "k8s_meta_ok M \<Longrightarrow> copy_ok (list_meta_copy M) (list_meta_type M)"
  by (simp_all add: k8s_meta_ok_def)

text \<open>The types that are copied by an assignment.\<close>

lemma flat_types [simp]:
  "flat AzureRef_type"
  "flat BackendPoolReference_type"
  "flat DockerConfigSpec_type"
  "flat DockerConfigStatus_type"
  "flat EndpointStatus_type"
  "flat FrontendIPConfigurationSpec_type"
  "flat IdentitySpec_type"
  "flat ResourceReference_type"
  "flat KeyvaultSpec_type"
  "flat RuleSpec_type"
  "flat RedisSku_type"
  "flat ResourceGroupSpec_type"
  "flat SQLFirewallRuleSpec_type"
  "flat ServiceBusNamespaceSku_type"
  "flat SubnetSpec_type"
  "flat TLSSecretSpec_type"
  "flat VMScaleSetSpec_type"
  by (simp_all add: AzureRef_type_def BackendPoolReference_type_def DockerConfigSpec_type_def
    DockerConfigStatus_type_def EndpointStatus_type_def FrontendIPConfigurationSpec_type_def
    IdentitySpec_type_def ResourceReference_type_def KeyvaultSpec_type_def RuleSpec_type_def
    RedisSku_type_def ResourceGroupSpec_type_def SQLFirewallRuleSpec_type_def
    ServiceBusNamespaceSku_type_def SubnetSpec_type_def TLSSecretSpec_type_def VMScaleSetSpec_type_def)

text \<open>From the parts without parts of their own to the lists; a level rests on the ones below.\<close>

lemmas parts0_defs = AzureRef_DeepCopyInto_def AzureRef_type_def
  BackendPoolReference_DeepCopyInto_def BackendPoolReference_type_def
  DNSConfig_DeepCopyInto_def DNSConfig_type_def
  DockerConfigSpec_DeepCopyInto_def DockerConfigSpec_type_def
  DockerConfigStatus_DeepCopyInto_def DockerConfigStatus_type_def
  MonitorConfigCustomHeadersItem_DeepCopyInto_def MonitorConfigCustomHeadersItem_type_def
  EndpointStatus_DeepCopyInto_def EndpointStatus_type_def
  FrontendIPConfigurationSpec_DeepCopyInto_def FrontendIPConfigurationSpec_type_def
  IdentitySpec_DeepCopyInto_def IdentitySpec_type_def
  IdentityStatus_DeepCopyInto_def IdentityStatus_type_def
  ResourceReference_DeepCopyInto_def ResourceReference_type_def
  KeyvaultSpec_DeepCopyInto_def KeyvaultSpec_type_def
  KeyvaultStatus_DeepCopyInto_def KeyvaultStatus_type_def RuleSpec_DeepCopyInto_def RuleSpec_type_def
  LoadBalancerStatus_DeepCopyInto_def LoadBalancerStatus_type_def
  MonitorConfigExpectedStatusCodeRangesItem_DeepCopyInto_def MonitorConfigExpectedStatusCodeRangesItem_type_def
  NetworkInterfaceStatus_DeepCopyInto_def NetworkInterfaceStatus_type_def
  PublicIPSpec_DeepCopyInto_def PublicIPSpec_type_def
  PublicIPStatus_DeepCopyInto_def PublicIPStatus_type_def RedisSku_DeepCopyInto_def RedisSku_type_def
  RedisStatus_DeepCopyInto_def RedisStatus_type_def RedisKeySpec_DeepCopyInto_def RedisKeySpec_type_def
  RedisKeyStatus_DeepCopyInto_def RedisKeyStatus_type_def
  ResourceGroupSpec_DeepCopyInto_def ResourceGroupSpec_type_def
  ResourceGroupStatus_DeepCopyInto_def ResourceGroupStatus_type_def
  SQLFirewallRuleSpec_DeepCopyInto_def SQLFirewallRuleSpec_type_def
  SQLFirewallRuleStatus_DeepCopyInto_def SQLFirewallRuleStatus_type_def
  SQLServerSpec_DeepCopyInto_def SQLServerSpec_type_def
  SQLServerStatus_DeepCopyInto_def SQLServerStatus_type_def
  SecretIdentifier_DeepCopyInto_def SecretIdentifier_type_def
  SecretStatus_DeepCopyInto_def SecretStatus_type_def
  SecretBundleStatus_DeepCopyInto_def SecretBundleStatus_type_def
  SecurityRule_DeepCopyInto_def SecurityRule_type_def
  SecurityGroupStatus_DeepCopyInto_def SecurityGroupStatus_type_def
  ServiceBusKeySpec_DeepCopyInto_def ServiceBusKeySpec_type_def
  ServiceBusKeyStatus_DeepCopyInto_def ServiceBusKeyStatus_type_def
  ServiceBusNamespaceSku_DeepCopyInto_def ServiceBusNamespaceSku_type_def
  ServiceBusNamespaceStatus_DeepCopyInto_def ServiceBusNamespaceStatus_type_def
  StorageAccountSpec_DeepCopyInto_def StorageAccountSpec_type_def
  StorageAccountStatus_DeepCopyInto_def StorageAccountStatus_type_def
  StorageKeySpec_DeepCopyInto_def StorageKeySpec_type_def
  StorageKeyStatus_DeepCopyInto_def StorageKeyStatus_type_def
  SubnetSpec_DeepCopyInto_def SubnetSpec_type_def SubnetStatus_DeepCopyInto_def SubnetStatus_type_def
  TLSSecretSpec_DeepCopyInto_def TLSSecretSpec_type_def
  TLSSecretStatus_DeepCopyInto_def TLSSecretStatus_type_def VMSpec_DeepCopyInto_def VMSpec_type_def
  VMStatus_DeepCopyInto_def VMStatus_type_def VMScaleSetSpec_DeepCopyInto_def VMScaleSetSpec_type_def
  VMScaleSetStatus_DeepCopyInto_def VMScaleSetStatus_type_def
  VirtualNetworkSpec_DeepCopyInto_def VirtualNetworkSpec_type_def
  VirtualNetworkStatus_DeepCopyInto_def VirtualNetworkStatus_type_def

lemma parts0_copies [copies]:
  "copy_ok AzureRef_DeepCopyInto AzureRef_type"
  "copy_ok BackendPoolReference_DeepCopyInto BackendPoolReference_type"
  "copy_ok DNSConfig_DeepCopyInto DNSConfig_type"
  "copy_ok DockerConfigSpec_DeepCopyInto DockerConfigSpec_type"
  "copy_ok DockerConfigStatus_DeepCopyInto DockerConfigStatus_type"
  "copy_ok MonitorConfigCustomHeadersItem_DeepCopyInto MonitorConfigCustomHeadersItem_type"
  "copy_ok EndpointStatus_DeepCopyInto EndpointStatus_type"
  "copy_ok FrontendIPConfigurationSpec_DeepCopyInto FrontendIPConfigurationSpec_type"
  "copy_ok IdentitySpec_DeepCopyInto IdentitySpec_type"
  "copy_ok IdentityStatus_DeepCopyInto IdentityStatus_type"
  "copy_ok ResourceReference_DeepCopyInto ResourceReference_type"
  "copy_ok KeyvaultSpec_DeepCopyInto KeyvaultSpec_type"
  "copy_ok KeyvaultStatus_DeepCopyInto KeyvaultStatus_type"
  "copy_ok RuleSpec_DeepCopyInto RuleSpec_type"
  "copy_ok LoadBalancerStatus_DeepCopyInto LoadBalancerStatus_type"
  "copy_ok MonitorConfigExpectedStatusCodeRangesItem_DeepCopyInto MonitorConfigExpectedStatusCodeRangesItem_type"
  "copy_ok NetworkInterfaceStatus_DeepCopyInto NetworkInterfaceStatus_type"
  "copy_ok PublicIPSpec_DeepCopyInto PublicIPSpec_type"
  "copy_ok PublicIPStatus_DeepCopyInto PublicIPStatus_type"
  "copy_ok RedisSku_DeepCopyInto RedisSku_type"
  "copy_ok RedisStatus_DeepCopyInto RedisStatus_type"
  "copy_ok RedisKeySpec_DeepCopyInto RedisKeySpec_type"
  "copy_ok RedisKeyStatus_DeepCopyInto RedisKeyStatus_type"
  "copy_ok ResourceGroupSpec_DeepCopyInto ResourceGroupSpec_type"
  "copy_ok ResourceGroupStatus_DeepCopyInto ResourceGroupStatus_type"
  "copy_ok SQLFirewallRuleSpec_DeepCopyInto SQLFirewallRuleSpec_type"
  "copy_ok SQLFirewallRuleStatus_DeepCopyInto SQLFirewallRuleStatus_type"
  "copy_ok SQLServerSpec_DeepCopyInto SQLServerSpec_type"
  "copy_ok SQLServerStatus_DeepCopyInto SQLServerStatus_type"
  "copy_ok SecretIdentifier_DeepCopyInto SecretIdentifier_type"
  "copy_ok SecretStatus_DeepCopyInto SecretStatus_type"
  "copy_ok SecretBundleStatus_DeepCopyInto SecretBundleStatus_type"
  "copy_ok SecurityRule_DeepCopyInto SecurityRule_type"
  "copy_ok SecurityGroupStatus_DeepCopyInto SecurityGroupStatus_type"
  "copy_ok ServiceBusKeySpec_DeepCopyInto ServiceBusKeySpec_type"
  "copy_ok ServiceBusKeyStatus_DeepCopyInto ServiceBusKeyStatus_type"
  "copy_ok ServiceBusNamespaceSku_DeepCopyInto ServiceBusNamespaceSku_type"
  "copy_ok ServiceBusNamespaceStatus_DeepCopyInto ServiceBusNamespaceStatus_type"
  "copy_ok StorageAccountSpec_DeepCopyInto StorageAccountSpec_type"
  "copy_ok StorageAccountStatus_DeepCopyInto StorageAccountStatus_type"
  "copy_ok StorageKeySpec_DeepCopyInto StorageKeySpec_type"
  "copy_ok StorageKeyStatus_DeepCopyInto StorageKeyStatus_type"
  "copy_ok SubnetSpec_DeepCopyInto SubnetSpec_type"
  "copy_ok SubnetStatus_DeepCopyInto SubnetStatus_type"
  "copy_ok TLSSecretSpec_DeepCopyInto TLSSecretSpec_type"
  "copy_ok TLSSecretStatus_DeepCopyInto TLSSecretStatus_type"
  "copy_ok VMSpec_DeepCopyInto VMSpec_type"
  "copy_ok VMStatus_DeepCopyInto VMStatus_type"
  "copy_ok VMScaleSetSpec_DeepCopyInto VMScaleSetSpec_type"
  "copy_ok VMScaleSetStatus_DeepCopyInto VMScaleSetStatus_type"
  "copy_ok VirtualNetworkSpec_DeepCopyInto VirtualNetworkSpec_type"
  "copy_ok VirtualNetworkStatus_DeepCopyInto VirtualNetworkStatus_type"
  by (simp_all add: parts0_defs copies field_ok_def)

lemmas parts1_defs = EndpointProperties_DeepCopyInto_def EndpointProperties_type_def
  InterfaceIPConfig_DeepCopyInto_def InterfaceIPConfig_type_def
  LoadBalancerSpec_DeepCopyInto_def LoadBalancerSpec_type_def
  MonitorConfig_DeepCopyInto_def MonitorConfig_type_def RedisSpec_DeepCopyInto_def RedisSpec_type_def
  SecretSpec_DeepCopyInto_def SecretSpec_type_def
  SecretBundleSpec_DeepCopyInto_def SecretBundleSpec_type_def
  SecurityGroupSpec_DeepCopyInto_def SecurityGroupSpec_type_def
  ServiceBusNamespaceSpec_DeepCopyInto_def ServiceBusNamespaceSpec_type_def
  TrafficManagerStatus_DeepCopyInto_def TrafficManagerStatus_type_def

lemma parts1_copies [copies]:
  "copy_ok EndpointProperties_DeepCopyInto EndpointProperties_type"
  "copy_ok InterfaceIPConfig_DeepCopyInto InterfaceIPConfig_type"
  "copy_ok LoadBalancerSpec_DeepCopyInto LoadBalancerSpec_type"
  "copy_ok MonitorConfig_DeepCopyInto MonitorConfig_type"
  "copy_ok RedisSpec_DeepCopyInto RedisSpec_type"
  "copy_ok SecretSpec_DeepCopyInto SecretSpec_type"
  "copy_ok SecretBundleSpec_DeepCopyInto SecretBundleSpec_type"
  "copy_ok SecurityGroupSpec_DeepCopyInto SecurityGroupSpec_type"
  "copy_ok ServiceBusNamespaceSpec_DeepCopyInto ServiceBusNamespaceSpec_type"
  "copy_ok TrafficManagerStatus_DeepCopyInto TrafficManagerStatus_type"
  by (simp_all add: parts1_defs copies field_ok_def)

lemmas parts2_defs = EndpointSpec_DeepCopyInto_def EndpointSpec_type_def
  NetworkInterfaceSpec_DeepCopyInto_def NetworkInterfaceSpec_type_def

lemma parts2_copies [copies]:
  "copy_ok EndpointSpec_DeepCopyInto EndpointSpec_type"
  "copy_ok NetworkInterfaceSpec_DeepCopyInto NetworkInterfaceSpec_type"
  by (simp_all add: parts2_defs copies field_ok_def)

lemmas parts3_defs = TrafficManagerSpec_DeepCopyInto_def TrafficManagerSpec_type_def

lemma parts3_copies [copies]:
  "copy_ok TrafficManagerSpec_DeepCopyInto TrafficManagerSpec_type"
  by (simp_all add: parts3_defs copies field_ok_def)

lemmas kinds_defs = DockerConfig_DeepCopyInto_def DockerConfig_type_def
  Identity_DeepCopyInto_def Identity_type_def Keyvault_DeepCopyInto_def Keyvault_type_def
  LoadBalancer_DeepCopyInto_def LoadBalancer_type_def
  NetworkInterface_DeepCopyInto_def NetworkInterface_type_def
  PublicIP_DeepCopyInto_def PublicIP_type_def Redis_DeepCopyInto_def Redis_type_def
  RedisKey_DeepCopyInto_def RedisKey_type_def ResourceGroup_DeepCopyInto_def ResourceGroup_type_def
  SQLFirewallRule_DeepCopyInto_def SQLFirewallRule_type_def
  SQLServer_DeepCopyInto_def SQLServer_type_def Secret_DeepCopyInto_def Secret_type_def
  SecretBundle_DeepCopyInto_def SecretBundle_type_def
  SecurityGroup_DeepCopyInto_def SecurityGroup_type_def
  ServiceBusKey_DeepCopyInto_def ServiceBusKey_type_def
  ServiceBusNamespace_DeepCopyInto_def ServiceBusNamespace_type_def
  StorageAccount_DeepCopyInto_def StorageAccount_type_def
  StorageKey_DeepCopyInto_def StorageKey_type_def Subnet_DeepCopyInto_def Subnet_type_def
  TLSSecret_DeepCopyInto_def TLSSecret_type_def TrafficManager_DeepCopyInto_def TrafficManager_type_def
  VM_DeepCopyInto_def VM_type_def VMScaleSet_DeepCopyInto_def VMScaleSet_type_def
  VirtualNetwork_DeepCopyInto_def VirtualNetwork_type_def

lemma kinds_copies [copies]:
  "k8s_meta_ok M \<Longrightarrow> copy_ok (DockerConfig_DeepCopyInto M) (DockerConfig_type M)"
  "k8s_meta_ok M \<Longrightarrow> copy_ok (Identity_DeepCopyInto M) (Identity_type M)"
  "k8s_meta_ok M \<Longrightarrow> copy_ok (Keyvault_DeepCopyInto M) (Keyvault_type M)"
  "k8s_meta_ok M \<Longrightarrow> copy_ok (LoadBalancer_DeepCopyInto M) (LoadBalancer_type M)"
  "k8s_meta_ok M \<Longrightarrow> copy_ok (NetworkInterface_DeepCopyInto M) (NetworkInterface_type M)"
  "k8s_meta_ok M \<Longrightarrow> copy_ok (PublicIP_DeepCopyInto M) (PublicIP_type M)"
  "k8s_meta_ok M \<Longrightarrow> copy_ok (Redis_DeepCopyInto M) (Redis_type M)"
  "k8s_meta_ok M \<Longrightarrow> copy_ok (RedisKey_DeepCopyInto M) (RedisKey_type M)"
  "k8s_meta_ok M \<Longrightarrow> copy_ok (ResourceGroup_DeepCopyInto M) (ResourceGroup_type M)"
  "k8s_meta_ok M \<Longrightarrow> copy_ok (SQLFirewallRule_DeepCopyInto M) (SQLFirewallRule_type M)"
  "k8s_meta_ok M \<Longrightarrow> copy_ok (SQLServer_DeepCopyInto M) (SQLServer_type M)"
  "k8s_meta_ok M \<Longrightarrow> copy_ok (Secret_DeepCopyInto M) (Secret_type M)"
  "k8s_meta_ok M \<Longrightarrow> copy_ok (SecretBundle_DeepCopyInto M) (SecretBundle_type M)"
  "k8s_meta_ok M \<Longrightarrow> copy_ok (SecurityGroup_DeepCopyInto M) (SecurityGroup_type M)"
  "k8s_meta_ok M \<Longrightarrow> copy_ok (ServiceBusKey_DeepCopyInto M) (ServiceBusKey_type M)"
  "k8s_meta_ok M \<Longrightarrow> copy_ok (ServiceBusNamespace_DeepCopyInto M) (ServiceBusNamespace_type M)"
  "k8s_meta_ok M \<Longrightarrow> copy_ok (StorageAccount_DeepCopyInto M) (StorageAccount_type M)"
  "k8s_meta_ok M \<Longrightarrow> copy_ok (StorageKey_DeepCopyInto M) (StorageKey_type M)"
  "k8s_meta_ok M \<Longrightarrow> copy_ok (Subnet_DeepCopyInto M) (Subnet_type M)"
  "k8s_meta_ok M \<Longrightarrow> copy_ok (TLSSecret_DeepCopyInto M) (TLSSecret_type M)"
  "k8s_meta_ok M \<Longrightarrow> copy_ok (TrafficManager_DeepCopyInto M) (TrafficManager_type M)"
  "k8s_meta_ok M \<Longrightarrow> copy_ok (VM_DeepCopyInto M) (VM_type M)"
  "k8s_meta_ok M \<Longrightarrow> copy_ok (VMScaleSet_DeepCopyInto M) (VMScaleSet_type M)"
  "k8s_meta_ok M \<Longrightarrow> copy_ok (VirtualNetwork_DeepCopyInto M) (VirtualNetwork_type M)"
  by (simp_all add: kinds_defs copies field_ok_def)

lemmas lists_defs = DockerConfigList_DeepCopyInto_def DockerConfigList_type_def
  IdentityList_DeepCopyInto_def IdentityList_type_def
  KeyvaultList_DeepCopyInto_def KeyvaultList_type_def
  LoadBalancerList_DeepCopyInto_def LoadBalancerList_type_def
  NetworkInterfaceList_DeepCopyInto_def NetworkInterfaceList_type_def
  PublicIPList_DeepCopyInto_def PublicIPList_type_def
  RedisKeyList_DeepCopyInto_def RedisKeyList_type_def RedisList_DeepCopyInto_def RedisList_type_def
  ResourceGroupList_DeepCopyInto_def ResourceGroupList_type_def
  SQLFirewallRuleList_DeepCopyInto_def SQLFirewallRuleList_type_def
  SQLServerList_DeepCopyInto_def SQLServerList_type_def
  SecretBundleList_DeepCopyInto_def SecretBundleList_type_def
  SecretList_DeepCopyInto_def SecretList_type_def
  SecurityGroupList_DeepCopyInto_def SecurityGroupList_type_def
  ServiceBusKeyList_DeepCopyInto_def ServiceBusKeyList_type_def
  ServiceBusNamespaceList_DeepCopyInto_def ServiceBusNamespaceList_type_def
  StorageAccountList_DeepCopyInto_def StorageAccountList_type_def
  StorageKeyList_DeepCopyInto_def StorageKeyList_type_def
  SubnetList_DeepCopyInto_def SubnetList_type_def TLSSecretList_DeepCopyInto_def TLSSecretList_type_def
  TrafficManagerList_DeepCopyInto_def TrafficManagerList_type_def
  VMList_DeepCopyInto_def VMList_type_def VMScaleSetList_DeepCopyInto_def VMScaleSetList_type_def
  VirtualNetworkList_DeepCopyInto_def VirtualNetworkList_type_def

lemma lists_copies [copies]:
  "k8s_meta_ok M \<Longrightarrow> copy_ok (DockerConfigList_DeepCopyInto M) (DockerConfigList_type M)"
  "k8s_meta_ok M \<Longrightarrow> copy_ok (IdentityList_DeepCopyInto M) (IdentityList_type M)"
  "k8s_meta_ok M \<Longrightarrow> copy_ok (KeyvaultList_DeepCopyInto M) (KeyvaultList_type M)"
  "k8s_meta_ok M \<Longrightarrow> copy_ok (LoadBalancerList_DeepCopyInto M) (LoadBalancerList_type M)"
  "k8s_meta_ok M \<Longrightarrow> copy_ok (NetworkInterfaceList_DeepCopyInto M) (NetworkInterfaceList_type M)"
  "k8s_meta_ok M \<Longrightarrow> copy_ok (PublicIPList_DeepCopyInto M) (PublicIPList_type M)"
  "k8s_meta_ok M \<Longrightarrow> copy_ok (RedisKeyList_DeepCopyInto M) (RedisKeyList_type M)"
  "k8s_meta_ok M \<Longrightarrow> copy_ok (RedisList_DeepCopyInto M) (RedisList_type M)"
  "k8s_meta_ok M \<Longrightarrow> copy_ok (ResourceGroupList_DeepCopyInto M) (ResourceGroupList_type M)"
  "k8s_meta_ok M \<Longrightarrow> copy_ok (SQLFirewallRuleList_DeepCopyInto M) (SQLFirewallRuleList_type M)"
  "k8s_meta_ok M \<Longrightarrow> copy_ok (SQLServerList_DeepCopyInto M) (SQLServerList_type M)"
  "k8s_meta_ok M \<Longrightarrow> copy_ok (SecretBundleList_DeepCopyInto M) (SecretBundleList_type M)"
  "k8s_meta_ok M \<Longrightarrow> copy_ok (SecretList_DeepCopyInto M) (SecretList_type M)"
  "k8s_meta_ok M \<Longrightarrow> copy_ok (SecurityGroupList_DeepCopyInto M) (SecurityGroupList_type M)"
  "k8s_meta_ok M \<Longrightarrow> copy_ok (ServiceBusKeyList_DeepCopyInto M) (ServiceBusKeyList_type M)"
  "k8s_meta_ok M \<Longrightarrow> copy_ok (ServiceBusNamespaceList_DeepCopyInto M) (ServiceBusNamespaceList_type M)"
  "k8s_meta_ok M \<Longrightarrow> copy_ok (StorageAccountList_DeepCopyInto M) (StorageAccountList_type M)"
  "k8s_meta_ok M \<Longrightarrow> copy_ok (StorageKeyList_DeepCopyInto M) (StorageKeyList_type M)"
  "k8s_meta_ok M \<Longrightarrow> copy_ok (SubnetList_DeepCopyInto M) (SubnetList_type M)"
  "k8s_meta_ok M \<Longrightarrow> copy_ok (TLSSecretList_DeepCopyInto M) (TLSSecretList_type M)"
  "k8s_meta_ok M \<Longrightarrow> copy_ok (TrafficManagerList_DeepCopyInto M) (TrafficManagerList_type M)"
  "k8s_meta_ok M \<Longrightarrow> copy_ok (VMList_DeepCopyInto M) (VMList_type M)"
  "k8s_meta_ok M \<Longrightarrow> copy_ok (VMScaleSetList_DeepCopyInto M) (VMScaleSetList_type M)"
  "k8s_meta_ok M \<Longrightarrow> copy_ok (VirtualNetworkList_DeepCopyInto M) (VirtualNetworkList_type M)"
  by (simp_all add: lists_defs copies field_ok_def)

text \<open>All of them, each with its type.\<close>

definition deep_copies :: "k8s_meta \<Rightarrow> (string \<times> copier \<times> gtype) list" where
  "deep_copies M = [
     (''DockerConfig'', DockerConfig_DeepCopy M, DockerConfig_type M),
     (''Identity'', Identity_DeepCopy M, Identity_type M),
     (''Keyvault'', Keyvault_DeepCopy M, Keyvault_type M),
     (''LoadBalancer'', LoadBalancer_DeepCopy M, LoadBalancer_type M),
     (''NetworkInterface'', NetworkInterface_DeepCopy M, NetworkInterface_type M),
     (''PublicIP'', PublicIP_DeepCopy M, PublicIP_type M),
     (''Redis'', Redis_DeepCopy M, Redis_type M),
     (''RedisKey'', RedisKey_DeepCopy M, RedisKey_type M),
     (''ResourceGroup'', ResourceGroup_DeepCopy M, ResourceGroup_type M),
     (''SQLFirewallRule'', SQLFirewallRule_DeepCopy M, SQLFirewallRule_type M),
     (''SQLServer'', SQLServer_DeepCopy M, SQLServer_type M),
     (''Secret'', Secret_DeepCopy M, Secret_type M),
     (''SecretBundle'', SecretBundle_DeepCopy M, SecretBundle_type M),
     (''SecurityGroup'', SecurityGroup_DeepCopy M, SecurityGroup_type M),
     (''ServiceBusKey'', ServiceBusKey_DeepCopy M, ServiceBusKey_type M),
     (''ServiceBusNamespace'', ServiceBusNamespace_DeepCopy M, ServiceBusNamespace_type M),
     (''StorageAccount'', StorageAccount_DeepCopy M, StorageAccount_type M),
     (''StorageKey'', StorageKey_DeepCopy M, StorageKey_type M),
     (''Subnet'', Subnet_DeepCopy M, Subnet_type M),
     (''TLSSecret'', TLSSecret_DeepCopy M, TLSSecret_type M),
     (''TrafficManager'', TrafficManager_DeepCopy M, TrafficManager_type M),
     (''VM'', VM_DeepCopy M, VM_type M),
     (''VMScaleSet'', VMScaleSet_DeepCopy M, VMScaleSet_type M),
     (''VirtualNetwork'', VirtualNetwork_DeepCopy M, VirtualNetwork_type M),
     (''DockerConfigList'', DockerConfigList_DeepCopy M, DockerConfigList_type M),
     (''IdentityList'', IdentityList_DeepCopy M, IdentityList_type M),
     (''KeyvaultList'', KeyvaultList_DeepCopy M, KeyvaultList_type M),
     (''LoadBalancerList'', LoadBalancerList_DeepCopy M, LoadBalancerList_type M),
     (''NetworkInterfaceList'', NetworkInterfaceList_DeepCopy M, NetworkInterfaceList_type M),
     (''PublicIPList'', PublicIPList_DeepCopy M, PublicIPList_type M),
     (''RedisKeyList'', RedisKeyList_DeepCopy M, RedisKeyList_type M),
     (''RedisList'', RedisList_DeepCopy M, RedisList_type M),
     (''ResourceGroupList'', ResourceGroupList_DeepCopy M, ResourceGroupList_type M),
     (''SQLFirewallRuleList'', SQLFirewallRuleList_DeepCopy M, SQLFirewallRuleList_type M),
     (''SQLServerList'', SQLServerList_DeepCopy M, SQLServerList_type M),
     (''SecretBundleList'', SecretBundleList_DeepCopy M, SecretBundleList_type M),
     (''SecretList'', SecretList_DeepCopy M, SecretList_type M),
     (''SecurityGroupList'', SecurityGroupList_DeepCopy M, SecurityGroupList_type M),
     (''ServiceBusKeyList'', ServiceBusKeyList_DeepCopy M, ServiceBusKeyList_type M),
     (''ServiceBusNamespaceList'', ServiceBusNamespaceList_DeepCopy M, ServiceBusNamespaceList_type M),
     (''StorageAccountList'', StorageAccountList_DeepCopy M, StorageAccountList_type M),
     (''StorageKeyList'', StorageKeyList_DeepCopy M, StorageKeyList_type M),
     (''SubnetList'', SubnetList_DeepCopy M, SubnetList_type M),
     (''TLSSecretList'', TLSSecretList_DeepCopy M, TLSSecretList_type M),
     (''TrafficManagerList'', TrafficManagerList_DeepCopy M, TrafficManagerList_type M),
     (''VMList'', VMList_DeepCopy M, VMList_type M),
     (''VMScaleSetList'', VMScaleSetList_DeepCopy M, VMScaleSetList_type M),
     (''VirtualNetworkList'', VirtualNetworkList_DeepCopy M, VirtualNetworkList_type M),
     (''AzureRef'', AzureRef_DeepCopy, AzureRef_type),
     (''BackendPoolReference'', BackendPoolReference_DeepCopy, BackendPoolReference_type),
     (''DNSConfig'', DNSConfig_DeepCopy, DNSConfig_type),
     (''DockerConfigSpec'', DockerConfigSpec_DeepCopy, DockerConfigSpec_type),
     (''DockerConfigStatus'', DockerConfigStatus_DeepCopy, DockerConfigStatus_type),
     (''MonitorConfigCustomHeadersItem'', MonitorConfigCustomHeadersItem_DeepCopy, MonitorConfigCustomHeadersItem_type),
     (''EndpointProperties'', EndpointProperties_DeepCopy, EndpointProperties_type),
     (''EndpointSpec'', EndpointSpec_DeepCopy, EndpointSpec_type),
     (''EndpointStatus'', EndpointStatus_DeepCopy, EndpointStatus_type),
     (''FrontendIPConfigurationSpec'', FrontendIPConfigurationSpec_DeepCopy, FrontendIPConfigurationSpec_type),
     (''IdentitySpec'', IdentitySpec_DeepCopy, IdentitySpec_type),
     (''IdentityStatus'', IdentityStatus_DeepCopy, IdentityStatus_type),
     (''ResourceReference'', ResourceReference_DeepCopy, ResourceReference_type),
     (''InterfaceIPConfig'', InterfaceIPConfig_DeepCopy, InterfaceIPConfig_type),
     (''KeyvaultSpec'', KeyvaultSpec_DeepCopy, KeyvaultSpec_type),
     (''KeyvaultStatus'', KeyvaultStatus_DeepCopy, KeyvaultStatus_type),
     (''RuleSpec'', RuleSpec_DeepCopy, RuleSpec_type),
     (''LoadBalancerSpec'', LoadBalancerSpec_DeepCopy, LoadBalancerSpec_type),
     (''LoadBalancerStatus'', LoadBalancerStatus_DeepCopy, LoadBalancerStatus_type),
     (''MonitorConfigExpectedStatusCodeRangesItem'', MonitorConfigExpectedStatusCodeRangesItem_DeepCopy, MonitorConfigExpectedStatusCodeRangesItem_type),
     (''MonitorConfig'', MonitorConfig_DeepCopy, MonitorConfig_type),
     (''NetworkInterfaceSpec'', NetworkInterfaceSpec_DeepCopy, NetworkInterfaceSpec_type),
     (''NetworkInterfaceStatus'', NetworkInterfaceStatus_DeepCopy, NetworkInterfaceStatus_type),
     (''PublicIPSpec'', PublicIPSpec_DeepCopy, PublicIPSpec_type),
     (''PublicIPStatus'', PublicIPStatus_DeepCopy, PublicIPStatus_type),
     (''RedisSku'', RedisSku_DeepCopy, RedisSku_type),
     (''RedisSpec'', RedisSpec_DeepCopy, RedisSpec_type),
     (''RedisStatus'', RedisStatus_DeepCopy, RedisStatus_type),
     (''RedisKeySpec'', RedisKeySpec_DeepCopy, RedisKeySpec_type),
     (''RedisKeyStatus'', RedisKeyStatus_DeepCopy, RedisKeyStatus_type),
     (''ResourceGroupSpec'', ResourceGroupSpec_DeepCopy, ResourceGroupSpec_type),
     (''ResourceGroupStatus'', ResourceGroupStatus_DeepCopy, ResourceGroupStatus_type),
     (''SQLFirewallRuleSpec'', SQLFirewallRuleSpec_DeepCopy, SQLFirewallRuleSpec_type),
     (''SQLFirewallRuleStatus'', SQLFirewallRuleStatus_DeepCopy, SQLFirewallRuleStatus_type),
     (''SQLServerSpec'', SQLServerSpec_DeepCopy, SQLServerSpec_type),
     (''SQLServerStatus'', SQLServerStatus_DeepCopy, SQLServerStatus_type),
     (''SecretIdentifier'', SecretIdentifier_DeepCopy, SecretIdentifier_type),
     (''SecretSpec'', SecretSpec_DeepCopy, SecretSpec_type),
     (''SecretStatus'', SecretStatus_DeepCopy, SecretStatus_type),
     (''SecretBundleSpec'', SecretBundleSpec_DeepCopy, SecretBundleSpec_type),
     (''SecretBundleStatus'', SecretBundleStatus_DeepCopy, SecretBundleStatus_type),
     (''SecurityRule'', SecurityRule_DeepCopy, SecurityRule_type),
     (''SecurityGroupSpec'', SecurityGroupSpec_DeepCopy, SecurityGroupSpec_type),
     (''SecurityGroupStatus'', SecurityGroupStatus_DeepCopy, SecurityGroupStatus_type),
     (''ServiceBusKeySpec'', ServiceBusKeySpec_DeepCopy, ServiceBusKeySpec_type),
     (''ServiceBusKeyStatus'', ServiceBusKeyStatus_DeepCopy, ServiceBusKeyStatus_type),
     (''ServiceBusNamespaceSku'', ServiceBusNamespaceSku_DeepCopy, ServiceBusNamespaceSku_type),
     (''ServiceBusNamespaceSpec'', ServiceBusNamespaceSpec_DeepCopy, ServiceBusNamespaceSpec_type),
     (''ServiceBusNamespaceStatus'', ServiceBusNamespaceStatus_DeepCopy, ServiceBusNamespaceStatus_type),
     (''StorageAccountSpec'', StorageAccountSpec_DeepCopy, StorageAccountSpec_type),
     (''StorageAccountStatus'', StorageAccountStatus_DeepCopy, StorageAccountStatus_type),
     (''StorageKeySpec'', StorageKeySpec_DeepCopy, StorageKeySpec_type),
     (''StorageKeyStatus'', StorageKeyStatus_DeepCopy, StorageKeyStatus_type),
     (''SubnetSpec'', SubnetSpec_DeepCopy, SubnetSpec_type),
     (''SubnetStatus'', SubnetStatus_DeepCopy, SubnetStatus_type),
     (''TLSSecretSpec'', TLSSecretSpec_DeepCopy, TLSSecretSpec_type),
     (''TLSSecretStatus'', TLSSecretStatus_DeepCopy, TLSSecretStatus_type),
     (''TrafficManagerSpec'', TrafficManagerSpec_DeepCopy, TrafficManagerSpec_type),
     (''TrafficManagerStatus'', TrafficManagerStatus_DeepCopy, TrafficManagerStatus_type),
     (''VMSpec'', VMSpec_DeepCopy, VMSpec_type),
     (''VMStatus'', VMStatus_DeepCopy, VMStatus_type),
     (''VMScaleSetSpec'', VMScaleSetSpec_DeepCopy, VMScaleSetSpec_type),
     (''VMScaleSetStatus'', VMScaleSetStatus_DeepCopy, VMScaleSetStatus_type),
     (''VirtualNetworkSpec'', VirtualNetworkSpec_DeepCopy, VirtualNetworkSpec_type),
     (''VirtualNetworkStatus'', VirtualNetworkStatus_DeepCopy, VirtualNetworkStatus_type)]"

lemmas deep_copy_defs =
  DockerConfig_DeepCopy_def Identity_DeepCopy_def Keyvault_DeepCopy_def LoadBalancer_DeepCopy_def
  NetworkInterface_DeepCopy_def PublicIP_DeepCopy_def Redis_DeepCopy_def RedisKey_DeepCopy_def
  ResourceGroup_DeepCopy_def SQLFirewallRule_DeepCopy_def SQLServer_DeepCopy_def Secret_DeepCopy_def
  SecretBundle_DeepCopy_def SecurityGroup_DeepCopy_def ServiceBusKey_DeepCopy_def
  ServiceBusNamespace_DeepCopy_def StorageAccount_DeepCopy_def StorageKey_DeepCopy_def Subnet_DeepCopy_def
  TLSSecret_DeepCopy_def TrafficManager_DeepCopy_def VM_DeepCopy_def VMScaleSet_DeepCopy_def
  VirtualNetwork_DeepCopy_def DockerConfigList_DeepCopy_def IdentityList_DeepCopy_def
  KeyvaultList_DeepCopy_def LoadBalancerList_DeepCopy_def NetworkInterfaceList_DeepCopy_def
  PublicIPList_DeepCopy_def RedisKeyList_DeepCopy_def RedisList_DeepCopy_def
  ResourceGroupList_DeepCopy_def SQLFirewallRuleList_DeepCopy_def SQLServerList_DeepCopy_def
  SecretBundleList_DeepCopy_def SecretList_DeepCopy_def SecurityGroupList_DeepCopy_def
  ServiceBusKeyList_DeepCopy_def ServiceBusNamespaceList_DeepCopy_def StorageAccountList_DeepCopy_def
  StorageKeyList_DeepCopy_def SubnetList_DeepCopy_def TLSSecretList_DeepCopy_def
  TrafficManagerList_DeepCopy_def VMList_DeepCopy_def VMScaleSetList_DeepCopy_def
  VirtualNetworkList_DeepCopy_def AzureRef_DeepCopy_def BackendPoolReference_DeepCopy_def
  DNSConfig_DeepCopy_def DockerConfigSpec_DeepCopy_def DockerConfigStatus_DeepCopy_def
  MonitorConfigCustomHeadersItem_DeepCopy_def EndpointProperties_DeepCopy_def EndpointSpec_DeepCopy_def
  EndpointStatus_DeepCopy_def FrontendIPConfigurationSpec_DeepCopy_def IdentitySpec_DeepCopy_def
  IdentityStatus_DeepCopy_def ResourceReference_DeepCopy_def InterfaceIPConfig_DeepCopy_def
  KeyvaultSpec_DeepCopy_def KeyvaultStatus_DeepCopy_def RuleSpec_DeepCopy_def
  LoadBalancerSpec_DeepCopy_def LoadBalancerStatus_DeepCopy_def
  MonitorConfigExpectedStatusCodeRangesItem_DeepCopy_def MonitorConfig_DeepCopy_def
  NetworkInterfaceSpec_DeepCopy_def NetworkInterfaceStatus_DeepCopy_def PublicIPSpec_DeepCopy_def
  PublicIPStatus_DeepCopy_def RedisSku_DeepCopy_def RedisSpec_DeepCopy_def RedisStatus_DeepCopy_def
  RedisKeySpec_DeepCopy_def RedisKeyStatus_DeepCopy_def ResourceGroupSpec_DeepCopy_def
  ResourceGroupStatus_DeepCopy_def SQLFirewallRuleSpec_DeepCopy_def SQLFirewallRuleStatus_DeepCopy_def
  SQLServerSpec_DeepCopy_def SQLServerStatus_DeepCopy_def SecretIdentifier_DeepCopy_def
  SecretSpec_DeepCopy_def SecretStatus_DeepCopy_def SecretBundleSpec_DeepCopy_def
  SecretBundleStatus_DeepCopy_def SecurityRule_DeepCopy_def SecurityGroupSpec_DeepCopy_def
  SecurityGroupStatus_DeepCopy_def ServiceBusKeySpec_DeepCopy_def ServiceBusKeyStatus_DeepCopy_def
  ServiceBusNamespaceSku_DeepCopy_def ServiceBusNamespaceSpec_DeepCopy_def
  ServiceBusNamespaceStatus_DeepCopy_def StorageAccountSpec_DeepCopy_def StorageAccountStatus_DeepCopy_def
  StorageKeySpec_DeepCopy_def StorageKeyStatus_DeepCopy_def SubnetSpec_DeepCopy_def
  SubnetStatus_DeepCopy_def TLSSecretSpec_DeepCopy_def TLSSecretStatus_DeepCopy_def
  TrafficManagerSpec_DeepCopy_def TrafficManagerStatus_DeepCopy_def VMSpec_DeepCopy_def
  VMStatus_DeepCopy_def VMScaleSetSpec_DeepCopy_def VMScaleSetStatus_DeepCopy_def
  VirtualNetworkSpec_DeepCopy_def VirtualNetworkStatus_DeepCopy_def

lemma deep_copies_ok:
  assumes "k8s_meta_ok M"
  shows "list_all (\<lambda>(n, c, T). copy_ok c (TPtr T)) (deep_copies M)"
  using assms by (simp add: deep_copies_def deep_copy_defs copies)

lemma deep_copies_all_independent:
  "k8s_meta_ok M \<Longrightarrow> list_all (\<lambda>(n, c, T). independent c T) (deep_copies M)"
  using deep_copies_ok [of M] by (auto simp: list_all_iff intro: copy_ok_independent)

text \<open>The objects of the scheme.\<close>

definition deep_objects :: "k8s_meta \<Rightarrow> (string \<times> (gval \<Rightarrow> (memory, gval option) go) \<times> gtype) list" where
  "deep_objects M = [
     (''DockerConfig'', DockerConfig_DeepCopyObject M, DockerConfig_type M),
     (''Identity'', Identity_DeepCopyObject M, Identity_type M),
     (''Keyvault'', Keyvault_DeepCopyObject M, Keyvault_type M),
     (''LoadBalancer'', LoadBalancer_DeepCopyObject M, LoadBalancer_type M),
     (''NetworkInterface'', NetworkInterface_DeepCopyObject M, NetworkInterface_type M),
     (''PublicIP'', PublicIP_DeepCopyObject M, PublicIP_type M),
     (''Redis'', Redis_DeepCopyObject M, Redis_type M),
     (''RedisKey'', RedisKey_DeepCopyObject M, RedisKey_type M),
     (''ResourceGroup'', ResourceGroup_DeepCopyObject M, ResourceGroup_type M),
     (''SQLFirewallRule'', SQLFirewallRule_DeepCopyObject M, SQLFirewallRule_type M),
     (''SQLServer'', SQLServer_DeepCopyObject M, SQLServer_type M),
     (''Secret'', Secret_DeepCopyObject M, Secret_type M),
     (''SecretBundle'', SecretBundle_DeepCopyObject M, SecretBundle_type M),
     (''SecurityGroup'', SecurityGroup_DeepCopyObject M, SecurityGroup_type M),
     (''ServiceBusKey'', ServiceBusKey_DeepCopyObject M, ServiceBusKey_type M),
     (''ServiceBusNamespace'', ServiceBusNamespace_DeepCopyObject M, ServiceBusNamespace_type M),
     (''StorageAccount'', StorageAccount_DeepCopyObject M, StorageAccount_type M),
     (''StorageKey'', StorageKey_DeepCopyObject M, StorageKey_type M),
     (''Subnet'', Subnet_DeepCopyObject M, Subnet_type M),
     (''TLSSecret'', TLSSecret_DeepCopyObject M, TLSSecret_type M),
     (''TrafficManager'', TrafficManager_DeepCopyObject M, TrafficManager_type M),
     (''VM'', VM_DeepCopyObject M, VM_type M),
     (''VMScaleSet'', VMScaleSet_DeepCopyObject M, VMScaleSet_type M),
     (''VirtualNetwork'', VirtualNetwork_DeepCopyObject M, VirtualNetwork_type M),
     (''DockerConfigList'', DockerConfigList_DeepCopyObject M, DockerConfigList_type M),
     (''IdentityList'', IdentityList_DeepCopyObject M, IdentityList_type M),
     (''KeyvaultList'', KeyvaultList_DeepCopyObject M, KeyvaultList_type M),
     (''LoadBalancerList'', LoadBalancerList_DeepCopyObject M, LoadBalancerList_type M),
     (''NetworkInterfaceList'', NetworkInterfaceList_DeepCopyObject M, NetworkInterfaceList_type M),
     (''PublicIPList'', PublicIPList_DeepCopyObject M, PublicIPList_type M),
     (''RedisKeyList'', RedisKeyList_DeepCopyObject M, RedisKeyList_type M),
     (''RedisList'', RedisList_DeepCopyObject M, RedisList_type M),
     (''ResourceGroupList'', ResourceGroupList_DeepCopyObject M, ResourceGroupList_type M),
     (''SQLFirewallRuleList'', SQLFirewallRuleList_DeepCopyObject M, SQLFirewallRuleList_type M),
     (''SQLServerList'', SQLServerList_DeepCopyObject M, SQLServerList_type M),
     (''SecretBundleList'', SecretBundleList_DeepCopyObject M, SecretBundleList_type M),
     (''SecretList'', SecretList_DeepCopyObject M, SecretList_type M),
     (''SecurityGroupList'', SecurityGroupList_DeepCopyObject M, SecurityGroupList_type M),
     (''ServiceBusKeyList'', ServiceBusKeyList_DeepCopyObject M, ServiceBusKeyList_type M),
     (''ServiceBusNamespaceList'', ServiceBusNamespaceList_DeepCopyObject M, ServiceBusNamespaceList_type M),
     (''StorageAccountList'', StorageAccountList_DeepCopyObject M, StorageAccountList_type M),
     (''StorageKeyList'', StorageKeyList_DeepCopyObject M, StorageKeyList_type M),
     (''SubnetList'', SubnetList_DeepCopyObject M, SubnetList_type M),
     (''TLSSecretList'', TLSSecretList_DeepCopyObject M, TLSSecretList_type M),
     (''TrafficManagerList'', TrafficManagerList_DeepCopyObject M, TrafficManagerList_type M),
     (''VMList'', VMList_DeepCopyObject M, VMList_type M),
     (''VMScaleSetList'', VMScaleSetList_DeepCopyObject M, VMScaleSetList_type M),
     (''VirtualNetworkList'', VirtualNetworkList_DeepCopyObject M, VirtualNetworkList_type M)]"

lemmas deep_object_defs =
  DockerConfig_DeepCopyObject_def Identity_DeepCopyObject_def Keyvault_DeepCopyObject_def
  LoadBalancer_DeepCopyObject_def NetworkInterface_DeepCopyObject_def PublicIP_DeepCopyObject_def
  Redis_DeepCopyObject_def RedisKey_DeepCopyObject_def ResourceGroup_DeepCopyObject_def
  SQLFirewallRule_DeepCopyObject_def SQLServer_DeepCopyObject_def Secret_DeepCopyObject_def
  SecretBundle_DeepCopyObject_def SecurityGroup_DeepCopyObject_def ServiceBusKey_DeepCopyObject_def
  ServiceBusNamespace_DeepCopyObject_def StorageAccount_DeepCopyObject_def StorageKey_DeepCopyObject_def
  Subnet_DeepCopyObject_def TLSSecret_DeepCopyObject_def TrafficManager_DeepCopyObject_def
  VM_DeepCopyObject_def VMScaleSet_DeepCopyObject_def VirtualNetwork_DeepCopyObject_def
  DockerConfigList_DeepCopyObject_def IdentityList_DeepCopyObject_def KeyvaultList_DeepCopyObject_def
  LoadBalancerList_DeepCopyObject_def NetworkInterfaceList_DeepCopyObject_def
  PublicIPList_DeepCopyObject_def RedisKeyList_DeepCopyObject_def RedisList_DeepCopyObject_def
  ResourceGroupList_DeepCopyObject_def SQLFirewallRuleList_DeepCopyObject_def
  SQLServerList_DeepCopyObject_def SecretBundleList_DeepCopyObject_def SecretList_DeepCopyObject_def
  SecurityGroupList_DeepCopyObject_def ServiceBusKeyList_DeepCopyObject_def
  ServiceBusNamespaceList_DeepCopyObject_def StorageAccountList_DeepCopyObject_def
  StorageKeyList_DeepCopyObject_def SubnetList_DeepCopyObject_def TLSSecretList_DeepCopyObject_def
  TrafficManagerList_DeepCopyObject_def VMList_DeepCopyObject_def VMScaleSetList_DeepCopyObject_def
  VirtualNetworkList_DeepCopyObject_def

lemma deep_objects_all_independent:
  "k8s_meta_ok M \<Longrightarrow> list_all (\<lambda>(n, f, T). object_independent f T) (deep_objects M)"
  by (simp add: deep_objects_def deep_object_defs deep_copy_defs copies as_object_independent
      copy_ok_independent)

end
