(* ===== verification/Scheme.thy ===== *)
theory Scheme imports Deep_Copies Controllers begin

section \<open>The scheme (the init functions of api/v1alpha1, main.go and cmd/ensure)\<close>

text \<open>
  Each file of \<open>api/v1alpha1\<close> registers its kind and its list with \<open>SchemeBuilder\<close>; the programs add
  them to their scheme next to the types of client-go.  A scheme is the names of the Go types it
  knows, in the order they were added; \<open>Register\<close> is controller-runtime's.
\<close>

type_synonym scheme_builder = "string list"

definition Register :: "string list \<Rightarrow> scheme_builder \<Rightarrow> scheme_builder" where
  "Register objs b = b @ objs"

definition DockerConfig_init :: "scheme_builder \<Rightarrow> scheme_builder" where
  "DockerConfig_init = Register [''DockerConfig'', ''DockerConfigList'']"

definition Identity_init :: "scheme_builder \<Rightarrow> scheme_builder" where
  "Identity_init = Register [''Identity'', ''IdentityList'']"

definition Keyvault_init :: "scheme_builder \<Rightarrow> scheme_builder" where
  "Keyvault_init = Register [''Keyvault'', ''KeyvaultList'']"

definition LoadBalancer_init :: "scheme_builder \<Rightarrow> scheme_builder" where
  "LoadBalancer_init = Register [''LoadBalancer'', ''LoadBalancerList'']"

definition NetworkInterface_init :: "scheme_builder \<Rightarrow> scheme_builder" where
  "NetworkInterface_init = Register [''NetworkInterface'', ''NetworkInterfaceList'']"

definition PublicIP_init :: "scheme_builder \<Rightarrow> scheme_builder" where
  "PublicIP_init = Register [''PublicIP'', ''PublicIPList'']"

definition Redis_init :: "scheme_builder \<Rightarrow> scheme_builder" where
  "Redis_init = Register [''Redis'', ''RedisList'']"

definition RedisKey_init :: "scheme_builder \<Rightarrow> scheme_builder" where
  "RedisKey_init = Register [''RedisKey'', ''RedisKeyList'']"

definition ResourceGroup_init :: "scheme_builder \<Rightarrow> scheme_builder" where
  "ResourceGroup_init = Register [''ResourceGroup'', ''ResourceGroupList'']"

definition Secret_init :: "scheme_builder \<Rightarrow> scheme_builder" where
  "Secret_init = Register [''Secret'', ''SecretList'']"

definition SecretBundle_init :: "scheme_builder \<Rightarrow> scheme_builder" where
  "SecretBundle_init = Register [''SecretBundle'', ''SecretBundleList'']"

definition SecurityGroup_init :: "scheme_builder \<Rightarrow> scheme_builder" where
  "SecurityGroup_init = Register [''SecurityGroup'', ''SecurityGroupList'']"

definition ServiceBusNamespace_init :: "scheme_builder \<Rightarrow> scheme_builder" where
  "ServiceBusNamespace_init = Register [''ServiceBusNamespace'', ''ServiceBusNamespaceList'']"

definition ServiceBusKey_init :: "scheme_builder \<Rightarrow> scheme_builder" where
  "ServiceBusKey_init = Register [''ServiceBusKey'', ''ServiceBusKeyList'']"

definition SQLFirewallRule_init :: "scheme_builder \<Rightarrow> scheme_builder" where
  "SQLFirewallRule_init = Register [''SQLFirewallRule'', ''SQLFirewallRuleList'']"

definition SQLServer_init :: "scheme_builder \<Rightarrow> scheme_builder" where
  "SQLServer_init = Register [''SQLServer'', ''SQLServerList'']"

definition StorageAccount_init :: "scheme_builder \<Rightarrow> scheme_builder" where
  "StorageAccount_init = Register [''StorageAccount'', ''StorageAccountList'']"

definition StorageKey_init :: "scheme_builder \<Rightarrow> scheme_builder" where
  "StorageKey_init = Register [''StorageKey'', ''StorageKeyList'']"

definition Subnet_init :: "scheme_builder \<Rightarrow> scheme_builder" where
  "Subnet_init = Register [''Subnet'', ''SubnetList'']"

definition TLSSecret_init :: "scheme_builder \<Rightarrow> scheme_builder" where
  "TLSSecret_init = Register [''TLSSecret'', ''TLSSecretList'']"

definition TrafficManager_init :: "scheme_builder \<Rightarrow> scheme_builder" where
  "TrafficManager_init = Register [''TrafficManager'', ''TrafficManagerList'']"

definition VirtualNetwork_init :: "scheme_builder \<Rightarrow> scheme_builder" where
  "VirtualNetwork_init = Register [''VirtualNetwork'', ''VirtualNetworkList'']"

definition VM_init :: "scheme_builder \<Rightarrow> scheme_builder" where
  "VM_init = Register [''VM'', ''VMList'']"

definition VMScaleSet_init :: "scheme_builder \<Rightarrow> scheme_builder" where
  "VMScaleSet_init = Register [''VMScaleSet'', ''VMScaleSetList'']"

text \<open>The functions run in the order of the files.\<close>

definition SchemeBuilder :: scheme_builder where
  "SchemeBuilder = fold (\<lambda>init b. init b) [DockerConfig_init, Identity_init, Keyvault_init, LoadBalancer_init, NetworkInterface_init,
     PublicIP_init, Redis_init, RedisKey_init, ResourceGroup_init, Secret_init, SecretBundle_init,
     SecurityGroup_init, ServiceBusNamespace_init, ServiceBusKey_init, SQLFirewallRule_init,
     SQLServer_init, StorageAccount_init, StorageKey_init, Subnet_init, TLSSecret_init,
     TrafficManager_init, VirtualNetwork_init, VM_init, VMScaleSet_init] []"

definition AddToScheme :: "string list \<Rightarrow> string list" where
  "AddToScheme s = s @ SchemeBuilder"

definition main_init :: "string list \<Rightarrow> string list" where
  "main_init client_go = AddToScheme client_go"

definition ensure_init :: "string list \<Rightarrow> string list \<Rightarrow> string list" where
  "ensure_init client_go extensions = AddToScheme client_go @ extensions"

text \<open>No type is registered twice, and the registered types are the ones with a \<open>DeepCopyObject\<close>.\<close>

lemma SchemeBuilder_distinct: "distinct SchemeBuilder" "length SchemeBuilder = 48"
  by code_simp+

lemma SchemeBuilder_copied: "set SchemeBuilder = set (map fst (deep_objects M))"
  by (auto simp: SchemeBuilder_def Register_def deep_objects_def
    DockerConfig_init_def Identity_init_def Keyvault_init_def LoadBalancer_init_def
    NetworkInterface_init_def PublicIP_init_def Redis_init_def RedisKey_init_def ResourceGroup_init_def
    Secret_init_def SecretBundle_init_def SecurityGroup_init_def ServiceBusNamespace_init_def
    ServiceBusKey_init_def SQLFirewallRule_init_def SQLServer_init_def StorageAccount_init_def
    StorageKey_init_def Subnet_init_def TLSSecret_init_def TrafficManager_init_def
    VirtualNetwork_init_def VM_init_def VMScaleSet_init_def)

end
