(* ===== verification/Http_Logging.thy ===== *)
theory Http_Logging imports Prelude begin

section \<open>Logging decorators (pkg/clients/resourcegroups)\<close>

text \<open>
  \<open>LogRequest\<close> and \<open>LogResponse\<close> wrap a preparer or a responder of go-autorest and print what passes
  through it.  Requests and responses are only passed on: they are values of the type variables
  \<open>'q\<close> and \<open>'p\<close> behind a pointer.
\<close>

text \<open>
  \<open>fmt.Println\<close>, and \<open>DumpRequestOut\<close> and \<open>DumpResponse\<close> of \<open>net/http/httputil\<close> with a body, on a
  request or response that is not nil: the dump reads the body, so it is an effect.
\<close>

record ('w, 'q, 'p) dump_ops =
  dmp_Println :: "string \<Rightarrow> ('w, unit) go"
  dmp_RequestOut :: "'q \<Rightarrow> ('w, string \<times> go_error option) go"
  dmp_Response :: "'p \<Rightarrow> ('w, string \<times> go_error option) go"

definition print_error :: "lib \<Rightarrow> ('w, 'q, 'p) dump_ops \<Rightarrow> go_error option \<Rightarrow> ('w, unit) go" where
  "print_error L D err = (case err of Some e \<Rightarrow> dmp_Println D (error_text L e) | None \<Rightarrow> go_ret ())"

text \<open>A dump starts with the fields of what it dumps, so it panics on a nil pointer.\<close>

definition LogRequest ::
  "lib \<Rightarrow> ('w, 'q, 'p) dump_ops \<Rightarrow> ('q option \<Rightarrow> ('w, 'q option \<times> go_error option) go) \<Rightarrow>
   'q option \<Rightarrow> ('w, 'q option \<times> go_error option) go" where
  "LogRequest L D Prepare r =
     go_bind (Prepare r) (\<lambda>(r, err).
     go_bind (print_error L D err) (\<lambda>_.
     go_bind (go_deref r) (\<lambda>request.
     go_bind (dmp_RequestOut D request) (\<lambda>(dump, _).
     go_bind (dmp_Println D dump) (\<lambda>_. go_ret (r, err))))))"

definition LogResponse ::
  "lib \<Rightarrow> ('w, 'q, 'p) dump_ops \<Rightarrow> ('p option \<Rightarrow> ('w, go_error option) go) \<Rightarrow>
   'p option \<Rightarrow> ('w, go_error option) go" where
  "LogResponse L D Respond r =
     go_bind (Respond r) (\<lambda>err.
     go_bind (print_error L D err) (\<lambda>_.
     go_bind (go_deref r) (\<lambda>response.
     go_bind (dmp_Response D response) (\<lambda>(dump, _).
     go_bind (dmp_Println D dump) (\<lambda>_. go_ret err)))))"

subsection \<open>Lemmas\<close>

text \<open>A decorator that returns answers what the wrapped function answered, with its error.\<close>

lemma LogRequest_answers:
  "LogRequest L D Prepare r w = (Returns x, w') \<Longrightarrow> \<exists>w1. Prepare r w = (Returns x, w1)"
  by (auto simp: LogRequest_def go_returns)

lemma LogResponse_answers:
  "LogResponse L D Respond r w = (Returns err, w') \<Longrightarrow> \<exists>w1. Respond r w = (Returns err, w1)"
  by (auto simp: LogResponse_def go_returns)

text \<open>The print of the error does not end the decorator: a preparer that fails with a nil request,
  or a responder that is given none, makes it panic.\<close>

lemma LogRequest_nil:
  assumes "Prepare r w = (Returns (None, Some e), w1)" "dmp_Println D (error_text L e) w1 = (Returns (), w2)"
  shows "LogRequest L D Prepare r w = (Panics, w2)"
  using assms by (simp add: LogRequest_def print_error_def go_simps)

lemma LogResponse_nil:
  assumes "Respond None w = (Returns (Some e), w1)" "dmp_Println D (error_text L e) w1 = (Returns (), w2)"
  shows "LogResponse L D Respond None w = (Panics, w2)"
  using assms by (simp add: LogResponse_def print_error_def go_simps)

text \<open>Stacked on the same preparer, two decorators still answer what it answers.\<close>

lemma LogRequest_twice:
  "LogRequest L D (LogRequest L D' Prepare) r w = (Returns x, w') \<Longrightarrow> \<exists>w1. Prepare r w = (Returns x, w1)"
  by (blast dest: LogRequest_answers)

end
