(* ===== verification/Client_Effects.thy ===== *)
theory Client_Effects imports Manager begin

section \<open>What a client may change\<close>

text \<open>
  \<open>Ensure\<close> and \<open>Delete\<close> of a client change the world through the calls of the SDK only, and these
  calls are about one resource: the one the object names.  The section states this as a frame
  rule, one per client: a predicate on the world which the calls about that resource keep, whatever
  they answer and whether they panic, is kept by the operations.
\<close>

named_theorems stays "what keeps a predicate, one rule per construct"

lemma keeps_ret [stays]: "keeps A (go_ret x)"
  by (rule keepsI) (simp add: go_ret_def)

lemma keeps_panic [stays]: "keeps A go_panic"
  by (rule keepsI) (simp add: go_panic_def)

lemma keeps_deref [stays]: "keeps A (go_deref p)"
  by (cases p) (simp_all add: go_deref_def stays)

lemma keeps_bind [stays]: "keeps A m \<Longrightarrow> (\<And>x. keeps A (k x)) \<Longrightarrow> keeps A (go_bind m k)"
  unfolding keeps_def by (rule triple_bind)

lemma keeps_if [stays]: "(b \<Longrightarrow> keeps A m) \<Longrightarrow> (\<not> b \<Longrightarrow> keeps A n) \<Longrightarrow> keeps A (if b then m else n)"
  by simp

lemma keeps_case_option [stays]:
  "keeps A m \<Longrightarrow> (\<And>y. x = Some y \<Longrightarrow> keeps A (f y)) \<Longrightarrow> keeps A (case x of None \<Rightarrow> m | Some y \<Rightarrow> f y)"
  by (cases x) simp_all

lemma keeps_case_sum [stays]:
  "(\<And>y. x = Inl y \<Longrightarrow> keeps A (f y)) \<Longrightarrow> (\<And>z. x = Inr z \<Longrightarrow> keeps A (g z)) \<Longrightarrow>
   keeps A (case x of Inl y \<Rightarrow> f y | Inr z \<Rightarrow> g z)"
  by (cases x) simp_all

lemma keeps_case_prod [stays]: "(\<And>a b. keeps A (f a b)) \<Longrightarrow> keeps A (case x of (a, b) \<Rightarrow> f a b)"
  by (cases x) simp

lemma keeps_with_spec [stays]: "(\<And>x t. keeps A (k x t)) \<Longrightarrow> keeps A (with_spec m spec k)"
  by (auto simp: with_spec_def stays split: prod.split outcome.split)

lemma keeps_on_world [stays]: "(\<And>c. keeps A (m c)) \<Longrightarrow> keeps (\<lambda>s. A (snd s)) (on_world m)"
  by (rule keepsI) (auto simp: on_world_def split_def dest: keepsD)

lemma keeps_on_self [stays]: "keeps (\<lambda>s. A (snd s)) (on_self f)"
  by (rule keepsI) (simp add: on_self_eq)

subsection \<open>The calls of a service about one resource\<close>

definition rg_calls :: "'w rg_sdk \<Rightarrow> sdk_client \<Rightarrow> string \<Rightarrow> ('w \<Rightarrow> bool) \<Rightarrow> bool" where
  "rg_calls S cl n A \<longleftrightarrow>
     keeps A (rg_Get S cl n) \<and> (\<forall>g. keeps A (rg_CreateOrUpdate S cl n g)) \<and> keeps A (rg_Delete S cl n)"

definition kv_calls :: "'w vault_sdk \<Rightarrow> sdk_client \<Rightarrow> string \<Rightarrow> string \<Rightarrow> ('w \<Rightarrow> bool) \<Rightarrow> bool" where
  "kv_calls S cl rg n A \<longleftrightarrow>
     keeps A (kv_sdk_Get S cl rg n) \<and> (\<forall>p. keeps A (kv_sdk_CreateOrUpdate S cl rg n p)) \<and> keeps A (kv_sdk_Delete S cl rg n)"

definition vn_calls :: "'w vnet_sdk \<Rightarrow> sdk_client \<Rightarrow> string \<Rightarrow> string \<Rightarrow> ('w \<Rightarrow> bool) \<Rightarrow> bool" where
  "vn_calls S cl rg n A \<longleftrightarrow>
     (\<forall>e. keeps A (vn_sdk_Get S cl rg n e)) \<and> (\<forall>v. keeps A (vn_sdk_CreateOrUpdate S cl rg n v)) \<and>
     keeps A (vn_sdk_Delete S cl rg n)"

definition sn_calls :: "'w subnet_sdk \<Rightarrow> sdk_client \<Rightarrow> string \<Rightarrow> string \<Rightarrow> string \<Rightarrow> ('w \<Rightarrow> bool) \<Rightarrow> bool" where
  "sn_calls S cl rg vnet n A \<longleftrightarrow>
     (\<forall>e. keeps A (sn_sdk_Get S cl rg vnet n e)) \<and> (\<forall>v. keeps A (sn_sdk_CreateOrUpdate S cl rg vnet n v)) \<and>
     keeps A (sn_sdk_Delete S cl rg vnet n)"

definition sg_calls :: "'w sg_sdk \<Rightarrow> sdk_client \<Rightarrow> string \<Rightarrow> string \<Rightarrow> ('w \<Rightarrow> bool) \<Rightarrow> bool" where
  "sg_calls S cl rg n A \<longleftrightarrow>
     (\<forall>e. keeps A (sg_sdk_Get S cl rg n e)) \<and> (\<forall>v. keeps A (sg_sdk_CreateOrUpdate S cl rg n v)) \<and>
     keeps A (sg_sdk_Delete S cl rg n)"

definition pip_calls :: "'w publicip_sdk \<Rightarrow> sdk_client \<Rightarrow> string \<Rightarrow> string \<Rightarrow> ('w \<Rightarrow> bool) \<Rightarrow> bool" where
  "pip_calls S cl rg n A \<longleftrightarrow>
     (\<forall>e. keeps A (pip_sdk_Get S cl rg n e)) \<and> (\<forall>v. keeps A (pip_sdk_CreateOrUpdate S cl rg n v)) \<and>
     keeps A (pip_sdk_Delete S cl rg n)"

definition nic_calls :: "'w nic_sdk \<Rightarrow> sdk_client \<Rightarrow> string \<Rightarrow> string \<Rightarrow> ('w \<Rightarrow> bool) \<Rightarrow> bool" where
  "nic_calls S cl rg n A \<longleftrightarrow>
     (\<forall>e. keeps A (nic_sdk_Get S cl rg n e)) \<and> (\<forall>v. keeps A (nic_sdk_CreateOrUpdate S cl rg n v)) \<and>
     keeps A (nic_sdk_Delete S cl rg n)"

definition tm_calls :: "'w tm_sdk \<Rightarrow> sdk_client \<Rightarrow> string \<Rightarrow> string \<Rightarrow> ('w \<Rightarrow> bool) \<Rightarrow> bool" where
  "tm_calls S cl rg n A \<longleftrightarrow>
     keeps A (tm_sdk_Get S cl rg n) \<and> (\<forall>v. keeps A (tm_sdk_CreateOrUpdate S cl rg n v)) \<and> keeps A (tm_sdk_Delete S cl rg n)"

definition redis_calls :: "'w redis_sdk \<Rightarrow> sdk_client \<Rightarrow> string \<Rightarrow> string \<Rightarrow> ('w \<Rightarrow> bool) \<Rightarrow> bool" where
  "redis_calls S cl rg n A \<longleftrightarrow>
     keeps A (rd_sdk_Get S cl rg n) \<and> (\<forall>p. keeps A (rd_sdk_Create S cl rg n p)) \<and>
     keeps A (rd_sdk_ListKeys S cl rg n) \<and> keeps A (rd_sdk_Delete S cl rg n)"

definition sb_calls :: "'w sb_sdk \<Rightarrow> sdk_client \<Rightarrow> string \<Rightarrow> string \<Rightarrow> ('w \<Rightarrow> bool) \<Rightarrow> bool" where
  "sb_calls S cl rg n A \<longleftrightarrow>
     keeps A (sb_sdk_Get S cl rg n) \<and> (\<forall>v. keeps A (sb_sdk_CreateOrUpdate S cl rg n v)) \<and>
     (\<forall>rule. keeps A (sb_sdk_ListKeys S cl rg n rule)) \<and> keeps A (sb_sdk_Delete S cl rg n)"

definition vm_calls :: "'w vm_sdk \<Rightarrow> sdk_client \<Rightarrow> string \<Rightarrow> string \<Rightarrow> ('w \<Rightarrow> bool) \<Rightarrow> bool" where
  "vm_calls S cl rg n A \<longleftrightarrow>
     (\<forall>e. keeps A (vm_sdk_Get S cl rg n e)) \<and> (\<forall>v. keeps A (vm_sdk_CreateOrUpdate S cl rg n v)) \<and>
     keeps A (vm_sdk_Delete S cl rg n)"

definition dk_calls :: "'w disks_sdk \<Rightarrow> sdk_client \<Rightarrow> string \<Rightarrow> string \<Rightarrow> ('w \<Rightarrow> bool) \<Rightarrow> bool" where
  "dk_calls S cl rg n A \<longleftrightarrow> keeps A (dk_sdk_Get S cl rg n) \<and> keeps A (dk_sdk_Delete S cl rg n)"

definition zn_calls :: "'w zones_sdk \<Rightarrow> sdk_client \<Rightarrow> ('w \<Rightarrow> bool) \<Rightarrow> bool" where
  "zn_calls S cl A \<longleftrightarrow> keeps A (zn_sdk_ListComplete S cl) \<and> keeps A (zn_sdk_NextWithContext S cl)"

definition sql_calls :: "'w sql_sdk \<Rightarrow> sdk_client \<Rightarrow> string \<Rightarrow> string \<Rightarrow> ('w \<Rightarrow> bool) \<Rightarrow> bool" where
  "sql_calls S cl rg n A \<longleftrightarrow>
     keeps A (sql_sdk_Get S cl rg n) \<and> (\<forall>p. keeps A (sql_sdk_Update S cl rg n p)) \<and>
     (\<forall>v. keeps A (sql_sdk_CreateOrUpdate S cl rg n v)) \<and> keeps A (sql_sdk_Delete S cl rg n) \<and>
     (\<forall>f. keeps A (sql_sdk_Wait S f cl)) \<and> (\<forall>k. keeps A (sql_rand_Read S k))"

definition fw_calls :: "'w firewall_sdk \<Rightarrow> sdk_client \<Rightarrow> string \<Rightarrow> string \<Rightarrow> string \<Rightarrow> ('w \<Rightarrow> bool) \<Rightarrow> bool" where
  "fw_calls S cl rg server n A \<longleftrightarrow>
     keeps A (fw_sdk_Get S cl rg server n) \<and> (\<forall>v. keeps A (fw_sdk_CreateOrUpdate S cl rg server n v)) \<and>
     keeps A (fw_sdk_Delete S cl rg server n)"

text \<open>The operations on the Kubernetes secret of a name, and the reads of a vault.\<close>

definition so_calls :: "'w secret_ops \<Rightarrow> ('w \<Rightarrow> bool) \<Rightarrow> bool" where
  "so_calls K A \<longleftrightarrow>
     (\<forall>n s. keeps A (so_Get K n s)) \<and> (\<forall>s. keeps A (so_Create K s)) \<and>
     (\<forall>s m. keeps A (so_CreateOrUpdate K s m)) \<and> (\<forall>s. keeps A (so_Delete K s))"

definition vs_calls :: "'w vault_ops \<Rightarrow> ('w \<Rightarrow> bool) \<Rightarrow> bool" where
  "vs_calls V A \<longleftrightarrow>
     (\<forall>c url n v. keeps A (vs_GetSecret V c url n v)) \<and> (\<forall>c url n v. keeps A (vs_GetCertificate V c url n v))"

lemmas calls_defs = rg_calls_def kv_calls_def vn_calls_def sn_calls_def sg_calls_def pip_calls_def nic_calls_def
  tm_calls_def redis_calls_def sb_calls_def vm_calls_def dk_calls_def zn_calls_def sql_calls_def fw_calls_def
  so_calls_def vs_calls_def

subsection \<open>The frame rules\<close>

lemma rg_stays:
  assumes "\<And>x. obj = ObjResourceGroup x \<Longrightarrow> rg_calls S (mc_internal c) (rgs_Name (Spec x)) A"
  shows "keeps A (rg_Ensure L S c obj)" and "keeps A (rg_DeleteOp L S c obj)"
  using assms unfolding rg_defs calls_defs by (intro stays; simp)+

lemma kv_stays:
  assumes "\<And>x. obj = ObjKeyvault x \<Longrightarrow> kv_calls S (mc_internal c) (kvs_ResourceGroup (Spec x)) (kvs_Name (Spec x)) A"
  shows "keeps A (kv_Ensure U S c obj)" and "keeps A (kv_Delete L S c obj)"
  using assms unfolding kv_defs calls_defs by (intro stays; simp)+

lemma vn_stays:
  assumes "\<And>x. obj = ObjVirtualNetwork x \<Longrightarrow> vn_calls S (mc_internal c) (vns_ResourceGroup (Spec x)) (vns_Name (Spec x)) A"
  shows "keeps A (vn_Ensure L S c obj)" and "keeps A (vn_Delete L S c obj)"
  using assms unfolding vn_defs calls_defs by (intro stays; simp)+

lemma sn_stays:
  assumes "\<And>x. obj = ObjSubnet x \<Longrightarrow>
      sn_calls S (mc_internal c) (sns_ResourceGroup (Spec x)) (sns_Network (Spec x)) (sns_Name (Spec x)) A"
  shows "keeps A (sn_Ensure L S c obj)" and "keeps A (sn_Delete L S c obj)"
  using assms unfolding sn_defs calls_defs by (intro stays; simp)+

lemma sg_stays:
  assumes "\<And>x. obj = ObjSecurityGroup x \<Longrightarrow> sg_calls S (mc_internal c) (sgs_ResourceGroup (Spec x)) (sgs_Name (Spec x)) A"
  shows "keeps A (sg_Ensure L S c obj)" and "keeps A (sg_Delete L S c obj)"
  using assms unfolding sg_defs sg_SetStatus_def calls_defs by (intro stays; simp)+

lemma pip_stays:
  assumes "\<And>x. obj = ObjPublicIP x \<Longrightarrow> pip_calls S (mc_internal c) (pis_ResourceGroup (Spec x)) (pis_Name (Spec x)) A"
  shows "keeps A (pip_Ensure L S c obj)" and "keeps A (pip_Delete L S c obj)"
  using assms unfolding pip_defs pip_SetStatus_def calls_defs by (intro stays; simp)+

lemma nic_stays:
  assumes "\<And>x. obj = ObjNetworkInterface x \<Longrightarrow>
      nic_calls S (mc_internal c) (nis_ResourceGroup (Spec x)) (nis_Name (Spec x)) A"
  shows "keeps A (nic_Ensure L S c obj)" and "keeps A (nic_Delete L S c obj)"
  using assms unfolding nic_defs calls_defs by (intro stays; simp)+

lemma tm_wanted_stays: "keeps A (tm_wanted x)"
  by (rule keepsI) (simp add: tm_wanted_no_effect)

lemma tm_stays:
  assumes "tm_calls S (mc_internal c) (tms_ResourceGroup (Spec x)) (tms_Name (Spec x)) A"
  shows "keeps A (tm_Ensure L S c x)" and "keeps A (tm_Delete S c x)"
  using assms unfolding tm_Ensure_def tm_Delete_def tm_SetStatus_def Let_def calls_defs
  by ((intro stays tm_wanted_stays)?; simp)+

text \<open>Redis and Service Bus also write the Kubernetes secret with their keys.\<close>

lemma redis_stays:
  assumes "\<And>x. obj = ObjRedis x \<Longrightarrow> redis_calls S (mc_internal c) (rds_ResourceGroup (Spec x)) (rds_Name (Spec x)) A"
    and "\<And>K. kubeclient = Some K \<Longrightarrow> so_calls K A"
  shows "keeps A (redis_Ensure L kubeclient S c obj)" and "keeps A (redis_Delete L S c obj)"
  using assms
  unfolding redis_defs redis_SyncSecrets_def redis_NeedsUpdate_def redis_sku_differs_def calls_defs
  by (intro stays; simp)+

lemma sb_stays:
  assumes "\<And>x. obj = ObjServiceBusNamespace x \<Longrightarrow>
      sb_calls S (mc_internal c) (sbns_ResourceGroup (Spec x)) (sbns_Name (Spec x)) A"
    and "\<And>K. kubeclient = Some K \<Longrightarrow> so_calls K A"
  shows "keeps A (sb_Ensure L kubeclient S c obj)" and "keeps A (sb_Delete L S c obj)"
  using assms unfolding sb_defs sb_SyncSecrets_def calls_defs by (intro stays; simp)+

text \<open>A machine: also the disk with the name derived from it, the list of the SKUs, and randomness.\<close>

lemma zn_restrict_stays [stays]: "keeps A (zn_restrict rs zones)"
  by (induction rs zones rule: zn_restrict.induct) (auto intro!: stays)

lemma zn_locations_stays [stays]: "keeps A (zn_locations x sku infos available zones)"
  by (induction x sku infos available zones rule: zn_locations.induct) (auto intro!: stays simp: Let_def)

lemma zn_iterate_stays: "keeps A next \<Longrightarrow> keeps A (zn_iterate L next x skus zones)"
  by (induction skus arbitrary: zones) (auto intro!: stays)

lemma vm_apply_stays:
  assumes "vm_calls S (mc_internal (vmc_mgmt c)) (vms_ResourceGroup (Spec x)) (vms_Name (Spec x)) A"
    and "zn_calls Z (mc_internal (vmc_zones c)) A" and "\<And>k. keeps A (intn k)"
  shows "keeps A (vm_apply L S Z intn c x spec)"
  using assms unfolding vm_apply_def vm_zoneFn_def zn_Get_def calls_defs
  by (intro stays zn_iterate_stays; simp)

lemma vm_stays:
  assumes "\<And>x. obj = ObjVM x \<Longrightarrow> vm_calls S (mc_internal (vmc_mgmt c)) (vms_ResourceGroup (Spec x)) (vms_Name (Spec x)) A"
    and "\<And>x. obj = ObjVM x \<Longrightarrow> keeps A (dk_sdk_Delete D (mc_internal (vmc_disks c)) (vms_ResourceGroup (Spec x)) (dk_name x)) \<and>
      keeps A (dk_sdk_Get D (mc_internal (vmc_disks c)) (vms_ResourceGroup (Spec x)) (vms_Name (Spec x)))"
    and "zn_calls Z (mc_internal (vmc_zones c)) A" and "\<And>k. keeps A (intn k)" and "\<And>k. keeps A (rand_Read k)"
  shows "keeps A (vm_Ensure L S Z intn rand_Read c obj)" and "keeps A (vm_Delete L S D c obj)"
proof -
  have get: "keeps A (vm_sdk_Get S (mc_internal (vmc_mgmt c)) (vms_ResourceGroup (Spec x)) (vms_Name (Spec x)) e)"
    and del: "keeps A (vm_sdk_Delete S (mc_internal (vmc_mgmt c)) (vms_ResourceGroup (Spec x)) (vms_Name (Spec x)))"
    if "obj = ObjVM x" for x e
    using assms(1) [OF that] by (simp_all add: vm_calls_def)
  show "keeps A (vm_Ensure L S Z intn rand_Read c obj)"
    unfolding vm_Ensure_def vm_NewSpec_def GenerateRandomString_def Let_def
    by (intro stays vm_apply_stays get assms(3-5); use assms(1) in simp)
  have name: "dk_name (vm_SetStatus x remote) = dk_name x" for x remote
    by (simp add: dk_name_def)
  show "keeps A (vm_Delete L S D c obj)"
    unfolding vm_Delete_def dk_Delete_def dk_convert_def Let_def
    by (intro stays get del; use assms(2) in \<open>auto simp: name\<close>)
qed

lemma fw_stays:
  assumes "\<And>x. obj = ObjSQLFirewallRule x \<Longrightarrow>
      fw_calls S (mc_internal c) (fws_ResourceGroup (Spec x)) (fws_Server (Spec x)) (fws_Name (Spec x)) A"
  shows "keeps A (fw_Ensure L S c obj)" and "keeps A (fw_Delete S c obj)"
  using assms unfolding fw_Ensure_def fw_Delete_def Let_def calls_defs by (intro stays; simp)+

text \<open>The clients of the key vault only write Kubernetes secrets.\<close>

lemma secret_stays:
  assumes "so_calls K A" "vs_calls V A"
  shows "keeps A (secret_Ensure K V c obj)" and "keeps A (secret_Delete L K c obj)"
  using assms unfolding secret_Ensure_def secret_Delete_def calls_defs by (intro stays; simp)+

lemma tls_stays:
  assumes "so_calls K A" "vs_calls V A"
  shows "keeps A (tls_Ensure L T K V c obj)" and "keeps A (tls_Delete L K c obj)"
  using assms unfolding tls_Ensure_def tls_Delete_def calls_defs by (intro stays; simp)+

text \<open>A SQL server also writes the secret with its password and the firewall rule of its name.\<close>

definition sql_at :: "mgmt_client \<Rightarrow> ('w \<Rightarrow> bool) \<Rightarrow> sql_client \<times> 'w \<Rightarrow> bool" where
  "sql_at m A s \<longleftrightarrow> sqc_mgmt (fst s) = m \<and> A (snd s)"

lemma keeps_on_firewalls:
  assumes "keeps (\<lambda>s. A (snd s)) f"
  shows "keeps (sql_at m A) (on_firewalls f)"
proof (rule keepsI)
  show "sql_at m A (snd (on_firewalls f s))" if "sql_at m A s" for s
    using keepsD [OF assms, of "(sqc_firewalls (fst s), snd s)"] that
    by (auto simp: on_firewalls_def split_def sql_at_def)
qed

lemma keeps_on_world_sql: "(\<And>c. sqc_mgmt c = m \<Longrightarrow> keeps A (f c)) \<Longrightarrow> keeps (sql_at m A) (on_world f)"
  by (rule keepsI) (auto simp: on_world_def split_def sql_at_def dest: keepsD)

lemma sql_rule_simps [simp]:
  "fws_ResourceGroup (Spec (sql_rule x)) = sqls_ResourceGroup (Spec x)"
  "fws_Server (Spec (sql_rule x)) = sqls_Name (Spec x)"
  "fws_Name (Spec (sql_rule x)) = ''AllowAzureAccess''"
  "fws_SubscriptionID (Spec (sql_rule x)) = sqls_SubscriptionID (Spec x)"
  by (simp_all add: sql_rule_def)

text \<open>The controller reference is a field of the metadata.\<close>

definition own_rule_ok :: "'w sql_sdk \<Rightarrow> bool" where
  "own_rule_ok S \<longleftrightarrow> (\<forall>m r. Spec (fst (sql_own_rule S m r)) = Spec r)"

lemma sql_ensureRule_stays:
  assumes "\<And>cl. fw_calls F cl (sqls_ResourceGroup (Spec x)) (sqls_Name (Spec x)) ''AllowAzureAccess'' A"
    and "own_rule_ok S"
  shows "keeps (sql_at m A) (sql_ensureRule (fw_client L Au F) S x)"
proof -
  have fw: "keeps A (fw_Ensure L F c (ObjSQLFirewallRule r))" "keeps A (fw_Delete F c (ObjSQLFirewallRule r))"
    if "Spec r = Spec (sql_rule x)" for r c
    using assms(1) that by (auto intro!: fw_stays)
  obtain r err where own: "(if om_UID (ObjectMeta x) \<noteq> [] then sql_own_rule S (ObjectMeta x) (sql_rule x)
      else (sql_rule x, None)) = (r, err)"
    by (rule prod.exhaust)
  then have "Spec r = Spec (sql_rule x)"
    using assms(2) unfolding own_rule_ok_def by (metis fst_conv)
  then show ?thesis
    unfolding sql_ensureRule_def fw_client_def SyncClient.simps Let_def own prod.case
    by (intro stays keeps_on_firewalls keeps_on_self fw refl)
qed

lemma sql_ensureSecret_stays:
  assumes "so_calls K A" and "\<And>k. keeps A (sql_rand_Read S k)"
  shows "keeps A (sql_ensureSecret L K S x)"
  using assms unfolding sql_ensureSecret_def GenerateRandomString_def Let_def so_calls_def
  by (intro stays; simp)

lemma sql_stays:
  assumes "\<And>x. obj = ObjSQLServer x \<Longrightarrow> sql_calls S (mc_internal m) (sqls_ResourceGroup (Spec x)) (sqls_Name (Spec x)) A"
    and "\<And>x cl. obj = ObjSQLServer x \<Longrightarrow>
      fw_calls F cl (sqls_ResourceGroup (Spec x)) (sqls_Name (Spec x)) ''AllowAzureAccess'' A"
    and "own_rule_ok S" "so_calls K A"
  shows "keeps (sql_at m A) (sql_Ensure L K (fw_client L Au F) S obj)"
    and "sqc_mgmt c = m \<Longrightarrow> keeps A (sql_Delete L K S c obj)"
proof -
  have rule: "keeps (sql_at m A) (sql_ensureRule (fw_client L Au F) S y)"
    if "obj = ObjSQLServer x" "Spec y = Spec x" for x y
    by (rule sql_ensureRule_stays) (use assms(2,3) that in auto)
  have secret: "keeps A (sql_ensureSecret L K S y)" if "obj = ObjSQLServer x" for x y
    by (rule sql_ensureSecret_stays) (use assms(1,4) that in \<open>auto simp: sql_calls_def\<close>)
  show "keeps (sql_at m A) (sql_Ensure L K (fw_client L Au F) S obj)"
    unfolding sql_Ensure_def sql_apply_def Let_def
    by (intro stays keeps_on_world_sql secret rule; use assms(1) in \<open>auto simp: sql_calls_def\<close>)
  show "keeps A (sql_Delete L K S c obj)" if "sqc_mgmt c = m"
    unfolding sql_Delete_def
    by (intro stays; use assms(1,4) that in \<open>auto simp: sql_calls_def so_calls_def\<close>)
qed

end
