(* ===== verification/Bystanders.thy ===== *)
theory Bystanders imports Finalizer_Protocol begin

section \<open>Reconciles of other objects\<close>

text \<open>
  The manager reconciles many objects of many kinds.  Here a predicate \<open>P\<close> on the state belongs to
  one of them, and another one is reconciled: \<open>P\<close> is kept when the calls of the client keep it and
  when the API server changes an object only in an update of that object.
\<close>

subsection \<open>Objects and their keys\<close>

definition key_of :: "runtime_object \<Rightarrow> namespaced_name" where
  "key_of obj = (om_Namespace (obj_meta obj), om_Name (obj_meta obj))"

definition object_at :: "kind \<Rightarrow> namespaced_name \<Rightarrow> runtime_object \<Rightarrow> bool" where
  "object_at k n obj \<longleftrightarrow> kind_of obj = k \<and> key_of obj = n"

lemma object_at_stable:
  "clear_status obj' = clear_status obj \<Longrightarrow> object_at k n obj' \<longleftrightarrow> object_at k n obj"
  "object_at k n (map_meta (\<lambda>m. RemoveFinalizer m f) obj) \<longleftrightarrow> object_at k n obj"
  by (auto simp: object_at_def key_of_def dest: clear_status_eqD)

subsection \<open>The contracts\<close>

text \<open>
  \<open>other\<close> are the objects \<open>P\<close> is not about.  An update that writes the object with the finalizer
  keeps \<open>P\<close> in any case; a status update answers with an object of the same key.
\<close>

definition kube_leaves :: "(runtime_object \<Rightarrow> bool) \<Rightarrow> 's kube \<Rightarrow> ('s \<Rightarrow> bool) \<Rightarrow> bool" where
  "kube_leaves other kb P \<longleftrightarrow>
     (\<forall>n k. keeps P (kb_Get kb n k)) \<and>
     (\<forall>obj. has_finalizer obj \<or> other obj \<longrightarrow> keeps P (kb_Update kb obj)) \<and>
     (\<forall>obj. keeps P (kb_StatusUpdate kb obj)) \<and>
     (\<forall>obj ty reason msg. keeps P (kb_Event kb obj ty reason msg))"

definition status_keys :: "'s kube \<Rightarrow> bool" where
  "status_keys kb \<longleftrightarrow>
     (\<forall>obj s obj' err s'. kb_StatusUpdate kb obj s = (Returns (obj', err), s') \<longrightarrow>
        kind_of obj' = kind_of obj \<and> key_of obj' = key_of obj)"

text \<open>The client, on the objects of a request: \<open>ready\<close> is what \<open>ForSubscription\<close> establishes.\<close>

definition async_leaves ::
  "(runtime_object \<Rightarrow> bool) \<Rightarrow> (runtime_object \<Rightarrow> 's \<Rightarrow> bool) \<Rightarrow> 's AsyncClient \<Rightarrow> ('s \<Rightarrow> bool) \<Rightarrow> bool" where
  "async_leaves mine ready az P \<longleftrightarrow>
     (\<forall>obj. mine obj \<longrightarrow>
        triple P (async_ForSubscription az obj) (\<lambda>err s. P s \<and> (err = None \<longrightarrow> ready obj s)) P \<and>
        triple (\<lambda>s. P s \<and> ready obj s) (async_Ensure az obj) (\<lambda>_. P) P \<and>
        triple (\<lambda>s. P s \<and> ready obj s) (async_Delete az obj)
          (\<lambda>(obj', found, err) s. clear_status obj' = clear_status obj \<and> P s) P)"

definition sync_leaves ::
  "(runtime_object \<Rightarrow> bool) \<Rightarrow> (runtime_object \<Rightarrow> 's \<Rightarrow> bool) \<Rightarrow> 's SyncClient \<Rightarrow> ('s \<Rightarrow> bool) \<Rightarrow> bool" where
  "sync_leaves mine ready az P \<longleftrightarrow>
     (\<forall>obj. mine obj \<longrightarrow>
        triple P (sync_ForSubscription az obj) (\<lambda>err s. P s \<and> (err = None \<longrightarrow> ready obj s)) P \<and>
        triple (\<lambda>s. P s \<and> ready obj s) (sync_Ensure az obj) (\<lambda>_. P) P \<and>
        triple (\<lambda>s. P s \<and> ready obj s) (sync_Delete az obj)
          (\<lambda>(obj', err) s. clear_status obj' = clear_status obj \<and> P s) P)"

lemma async_leavesD:
  assumes "async_leaves mine ready az P" and "mine obj"
  shows "triple P (async_ForSubscription az obj) (\<lambda>err s. P s \<and> (err = None \<longrightarrow> ready obj s)) P"
    and "triple (\<lambda>s. P s \<and> ready obj s) (async_Ensure az obj) (\<lambda>_. P) P"
    and "triple (\<lambda>s. P s \<and> ready obj s) (async_Delete az obj)
          (\<lambda>(obj', found, err) s. clear_status obj' = clear_status obj \<and> P s) P"
  using assms unfolding async_leaves_def by blast+

lemma sync_leavesD:
  assumes "sync_leaves mine ready az P" and "mine obj"
  shows "triple P (sync_ForSubscription az obj) (\<lambda>err s. P s \<and> (err = None \<longrightarrow> ready obj s)) P"
    and "triple (\<lambda>s. P s \<and> ready obj s) (sync_Ensure az obj) (\<lambda>_. P) P"
    and "triple (\<lambda>s. P s \<and> ready obj s) (sync_Delete az obj)
          (\<lambda>(obj', err) s. clear_status obj' = clear_status obj \<and> P s) P"
  using assms unfolding sync_leaves_def by blast+

text \<open>What the request fetches: an object of its key that the contracts cover.\<close>

definition fetches :: "'s kube \<Rightarrow> namespaced_name \<Rightarrow> kind \<Rightarrow> (runtime_object \<Rightarrow> bool) \<Rightarrow> bool" where
  "fetches kb req k Q \<longleftrightarrow> (\<forall>s obj s'. kb_Get kb req k s = (Returns (obj, None), s') \<longrightarrow> Q obj)"

subsection \<open>The arms\<close>

lemma kube_leavesD:
  assumes "kube_leaves other kb P"
  shows "triple P (kb_Get kb n k) (\<lambda>_. P) P"
    and "has_finalizer obj \<or> other obj \<Longrightarrow> triple P (kb_Update kb obj) (\<lambda>_. P) P"
    and "triple P (kb_StatusUpdate kb obj) (\<lambda>_. P) P"
    and "triple P (kb_Event kb obj ty reason msg) (\<lambda>_. P) P"
  using assms unfolding kube_leaves_def keeps_def by blast+

lemma triple_result_fact:
  assumes "triple P m Q X" and "\<And>s x s'. m s = (Returns x, s') \<Longrightarrow> F x"
  shows "triple P m (\<lambda>x s. F x \<and> Q x s) X"
  by (rule tripleI) (blast dest: tripleD_Returns [OF assms(1)] tripleD_Panics [OF assms(1)] assms(2))+

lemma Get_leaves:
  assumes "kube_leaves other kb P" "fetches kb req k Q"
  shows "triple P (kb_Get kb req k) (\<lambda>(obj, err) s. (err = None \<longrightarrow> Q obj) \<and> P s) P"
proof -
  have "snd x = None \<longrightarrow> Q (fst x)" if "kb_Get kb req k s = (Returns x, s')" for s x s'
    using assms(2) that unfolding fetches_def by (cases x) auto
  then show ?thesis
    using triple_result_fact [OF kube_leavesD(1) [OF assms(1)], of req k "\<lambda>x. snd x = None \<longrightarrow> Q (fst x)"]
    by (simp add: split_def)
qed

lemma StatusUpdate_leaves:
  assumes "kube_leaves other kb P" "status_keys kb" "\<not> object_at k n obj"
  shows "triple P (kb_StatusUpdate kb obj) (\<lambda>(obj', err) s. \<not> object_at k n obj' \<and> P s) P"
proof -
  have "\<not> object_at k n (fst x)" if "kb_StatusUpdate kb obj s = (Returns x, s')" for s x s'
    using assms(2,3) that unfolding status_keys_def object_at_def by (cases x) (metis fst_conv)
  then show ?thesis
    using triple_result_fact [OF kube_leavesD(3) [OF assms(1)], of obj "\<lambda>x. \<not> object_at k n (fst x)"]
    by (simp add: split_def)
qed

lemma remove_finalizer_step_leaves:
  assumes "kube_leaves (\<lambda>obj. \<not> object_at k n obj) kb P" and "\<not> object_at k n obj"
  shows "triple P (remove_finalizer_step kb obj) (\<lambda>_. P) P"
  unfolding remove_finalizer_step_def
  by (auto intro!: triple_bind [OF kube_leavesD(4) [OF assms(1)]] triple_bind [OF kube_leavesD(2) [OF assms(1)]]
      triple_case_prod triple_ret simp: object_at_stable assms(2))

lemma failed_delete_step_leaves:
  assumes "kube_leaves other kb P"
  shows "triple P (failed_delete_step L kb obj err) (\<lambda>_. P) P"
  unfolding failed_delete_step_def
  by (auto intro!: triple_bind [OF kube_leavesD(4) [OF assms]] triple_ret)

lemma add_finalizer_step_leaves:
  assumes "kube_leaves other kb P"
  shows "triple P (add_finalizer_step kb obj) (\<lambda>_. P) P"
  unfolding add_finalizer_step_def Let_def
  by (auto intro!: triple_bind [OF kube_leavesD(4) [OF assms]] triple_bind [OF kube_leavesD(2) [OF assms]]
      triple_case_prod triple_ret)

lemma async_ensure_step_leaves:
  assumes kb: "kube_leaves other kb P" and az: "async_leaves mine ready az P" and "mine obj"
  shows "triple (\<lambda>s. P s \<and> ready obj s) (async_ensure_step L kb az obj) (\<lambda>_. P) P"
  unfolding async_ensure_step_def Let_def
  by (auto intro!: triple_bind [OF async_leavesD(2) [OF az assms(3)]] triple_bind [OF kube_leavesD(3) [OF kb]]
      triple_bind [OF kube_leavesD(4) [OF kb]] triple_case_prod triple_case_option triple_if triple_ret
      simp: go_bind_choice go_bind_ret)

lemma sync_ensure_step_leaves:
  assumes kb: "kube_leaves other kb P" and az: "sync_leaves mine ready az P" and "mine obj"
  shows "triple (\<lambda>s. P s \<and> ready obj s) (sync_ensure_step L kb az obj) (\<lambda>_. P) P"
  unfolding sync_ensure_step_def Let_def
  by (auto intro!: triple_bind [OF sync_leavesD(2) [OF az assms(3)]] triple_bind [OF kube_leavesD(3) [OF kb]]
      triple_bind [OF kube_leavesD(4) [OF kb]] triple_case_prod triple_case_option triple_if triple_ret
      simp: go_bind_choice go_bind_ret)

lemma async_delete_step_leaves:
  assumes kb: "kube_leaves (\<lambda>obj. \<not> object_at k n obj) kb P" "status_keys kb"
    and az: "async_leaves mine ready az P" and "mine obj" "\<not> object_at k n obj"
  shows "triple (\<lambda>s. P s \<and> ready obj s) (async_delete_step L kb az obj) (\<lambda>_. P) P"
  unfolding async_delete_step_def
proof (rule triple_bind [OF async_leavesD(3) [OF az assms(4)]], clarify)
  fix obj1 found deleteErr
  show "triple (\<lambda>s. clear_status obj1 = clear_status obj \<and> P s)
      (go_bind (kb_StatusUpdate kb obj1) (\<lambda>(local2, updateErr).
       case multierror L [deleteErr, updateErr] of
         Some err \<Rightarrow> failed_delete_step L kb local2 err
       | None \<Rightarrow> 
           if \<not> found then remove_finalizer_step kb local2
           else go_ret (no_requeue, Some (ErrorText ''requeuing, deletion unfinished''))))
      (\<lambda>_. P) P"
    using assms(5) object_at_stable(1) [of obj1 obj k n]
    by (intro triple_fact triple_bind [OF StatusUpdate_leaves [OF kb]])
      (auto intro!: triple_fact triple_case_option triple_if triple_ret failed_delete_step_leaves [OF kb(1)]
        remove_finalizer_step_leaves [OF kb(1)])
qed

lemma sync_delete_step_leaves:
  assumes kb: "kube_leaves (\<lambda>obj. \<not> object_at k n obj) kb P" "status_keys kb"
    and az: "sync_leaves mine ready az P" and "mine obj" "\<not> object_at k n obj"
  shows "triple (\<lambda>s. P s \<and> ready obj s) (sync_delete_step L kb az obj) (\<lambda>_. P) P"
  unfolding sync_delete_step_def
proof (rule triple_bind [OF sync_leavesD(3) [OF az assms(4)]], clarify)
  fix obj1 deleteErr
  show "triple (\<lambda>s. clear_status obj1 = clear_status obj \<and> P s)
      (go_bind (kb_StatusUpdate kb obj1) (\<lambda>(local2, updateErr).
       case multierror L [deleteErr, updateErr] of
         Some err \<Rightarrow> failed_delete_step L kb local2 err
       | None \<Rightarrow> remove_finalizer_step kb local2))
      (\<lambda>_. P) P"
    using assms(5) object_at_stable(1) [of obj1 obj k n]
    by (intro triple_fact triple_bind [OF StatusUpdate_leaves [OF kb]])
      (auto intro!: triple_fact triple_case_option triple_if triple_ret failed_delete_step_leaves [OF kb(1)]
        remove_finalizer_step_leaves [OF kb(1)])
qed

subsection \<open>Whole reconciles\<close>

lemma async_Reconcile_leaves:
  assumes kb: "kube_leaves (\<lambda>obj. \<not> object_at k n obj) kb P" "status_keys kb"
    and az: "async_leaves mine ready az P"
    and get: "fetches kb req k' (\<lambda>obj. mine obj \<and> \<not> object_at k n obj)"
  shows "keeps P (async_Reconcile L kb az req k')"
  unfolding keeps_def async_Reconcile_def
  by (auto intro!: triple_bind [OF Get_leaves [OF kb(1) get]] triple_fact triple_bind [OF async_leavesD(1) [OF az]]
      triple_case_prod triple_case_option triple_if triple_ret
      triple_pre [OF add_finalizer_step_leaves [OF kb(1)]] triple_pre [OF async_ensure_step_leaves [OF kb(1) az]]
      triple_pre [OF async_delete_step_leaves [OF kb az]])

lemma sync_Reconcile_leaves:
  assumes kb: "kube_leaves (\<lambda>obj. \<not> object_at k n obj) kb P" "status_keys kb"
    and az: "sync_leaves mine ready az P"
    and get: "fetches kb req k' (\<lambda>obj. mine obj \<and> \<not> object_at k n obj)"
  shows "keeps P (sync_Reconcile L kb az req k')"
  unfolding keeps_def sync_Reconcile_def
  by (auto intro!: triple_bind [OF Get_leaves [OF kb(1) get]] triple_fact triple_bind [OF sync_leavesD(1) [OF az]]
      triple_case_prod triple_case_option triple_if triple_ret
      triple_pre [OF add_finalizer_step_leaves [OF kb(1)]] triple_pre [OF sync_ensure_step_leaves [OF kb(1) az]]
      triple_pre [OF sync_delete_step_leaves [OF kb az]])

end
