(* ===== verification/Manager_System.thy ===== *)
theory Manager_System imports Client_Effects Bystanders begin

section \<open>The running manager\<close>

text \<open>
  All controllers of \<open>main.go\<close> in one system: the memory of the process (one client per controller)
  beside a world that holds the API server, Azure and everything else.  A reconcile of any
  controller for any request is a step; the process may be restarted at any time, with new clients.
\<close>

subsection \<open>The process\<close>

text \<open>\<open>secretsclient\<close> and \<open>tlssecretsclient\<close> are global; two controllers share the second.\<close>

record 'w manager =
  mg_world :: 'w
  mg_groups :: mgmt_client
  mg_vaults :: mgmt_client
  mg_tls :: "vault_client option"
  mg_secrets :: "vault_client option"
  mg_vnets :: mgmt_client
  mg_subnets :: mgmt_client
  mg_security :: mgmt_client
  mg_addresses :: mgmt_client
  mg_nics :: mgmt_client
  mg_profiles :: mgmt_client
  mg_redis :: mgmt_client
  mg_servicebus :: mgmt_client
  mg_vms :: vm_client
  mg_servers :: sql_client
  mg_firewalls :: mgmt_client

text \<open>The services that only the manager uses, with their factories.\<close>

record 'w network_sdks =
  n_security :: "'w sg_sdk"
  n_addresses :: "'w publicip_sdk"
  nf_security :: "string \<Rightarrow> sdk_client"
  nf_addresses :: "string \<Rightarrow> sdk_client"

text \<open>The clients \<open>main\<close> makes for the controllers.\<close>

definition main_manager ::
  "'w tool \<Rightarrow> 'w network_sdks \<Rightarrow> config \<times> vault_client option \<times> vault_client option \<Rightarrow> 'w \<Rightarrow> 'w manager" where
  "main_manager T N clients w =
     (case clients of (configuration, secretsclient, tlssecretsclient) \<Rightarrow> \<lparr>
        mg_world = w,
        mg_groups = rg_New (t_factories T) configuration,
        mg_vaults = kv_New (t_factories T) configuration,
        mg_tls = tlssecretsclient,
        mg_secrets = secretsclient,
        mg_vnets = vn_New (t_factories T) configuration,
        mg_subnets = sn_New (t_factories T) configuration,
        mg_security = sg_New (nf_security N) configuration,
        mg_addresses = pip_New (nf_addresses N) configuration,
        mg_nics = nic_New (t_factories T) configuration,
        mg_profiles = tm_New (t_factories T) configuration,
        mg_redis = redis_New (t_factories T) configuration,
        mg_servicebus = sb_New (t_factories T) configuration,
        mg_vms = vm_New (t_factories T) configuration,
        mg_servers = sql_New (t_factories T) configuration,
        mg_firewalls = fw_New (f_firewall (t_factories T)) configuration\<rparr>)"

text \<open>A reconcile runs on the client of its controller and the world; the API server is in the world.\<close>

definition kube_on_world :: "'w kube \<Rightarrow> ('c \<times> 'w) kube" where
  "kube_on_world kb = \<lparr>
     kb_GVKForObject = kb_GVKForObject kb,
     kb_Accessor = kb_Accessor kb,
     kb_Get = (\<lambda>n k. on_world (\<lambda>_. kb_Get kb n k)),
     kb_Update = (\<lambda>obj. on_world (\<lambda>_. kb_Update kb obj)),
     kb_StatusUpdate = (\<lambda>obj. on_world (\<lambda>_. kb_StatusUpdate kb obj)),
     kb_Delete = (\<lambda>obj. on_world (\<lambda>_. kb_Delete kb obj)),
     kb_Event = (\<lambda>obj ty reason msg. on_world (\<lambda>_. kb_Event kb obj ty reason msg))\<rparr>"

definition on_part ::
  "('w manager \<Rightarrow> 'c) \<Rightarrow> ('c \<Rightarrow> 'w manager \<Rightarrow> 'w manager) \<Rightarrow> ('c \<times> 'w, 'a) go \<Rightarrow> ('w manager, 'a) go" where
  "on_part getc setc m = (\<lambda>s. case m (getc s, mg_world s) of
     (r, (c, w)) \<Rightarrow> (r, setc c (s\<lparr>mg_world := w\<rparr>)))"

text \<open>The controllers by the kind they watch (\<open>main_setups\<close>); the other kinds have none.\<close>

definition manager_Reconcile ::
  "'w tool \<Rightarrow> 'w network_sdks \<Rightarrow> 'w kube \<Rightarrow> kind \<Rightarrow> namespaced_name \<Rightarrow> ('w manager, ctrl_result \<times> go_error option) go" where
  "manager_Reconcile T N kb k req =
     (case k of
        KResourceGroup \<Rightarrow> on_part mg_groups (\<lambda>c s. s\<lparr>mg_groups := c\<rparr>) (main_ResourceGroup T (kube_on_world kb) req)
      | KKeyvault \<Rightarrow> on_part mg_vaults (\<lambda>c s. s\<lparr>mg_vaults := c\<rparr>) (main_Keyvault T (kube_on_world kb) req)
      | KSecret \<Rightarrow> on_part mg_tls (\<lambda>c s. s\<lparr>mg_tls := c\<rparr>) (main_Secret T (kube_on_world kb) req)
      | KTLSSecret \<Rightarrow> on_part mg_tls (\<lambda>c s. s\<lparr>mg_tls := c\<rparr>) (main_TLSSecret T (kube_on_world kb) req)
      | KSecretBundle \<Rightarrow> on_part mg_secrets (\<lambda>c s. s\<lparr>mg_secrets := c\<rparr>) (main_SecretBundle T (kube_on_world kb) req)
      | KVirtualNetwork \<Rightarrow> on_part mg_vnets (\<lambda>c s. s\<lparr>mg_vnets := c\<rparr>) (main_VirtualNetwork T (kube_on_world kb) req)
      | KSubnet \<Rightarrow> on_part mg_subnets (\<lambda>c s. s\<lparr>mg_subnets := c\<rparr>) (main_Subnet T (kube_on_world kb) req)
      | KSecurityGroup \<Rightarrow>
          on_part mg_security (\<lambda>c s. s\<lparr>mg_security := c\<rparr>) (main_SecurityGroup T (n_security N) (kube_on_world kb) req)
      | KPublicIP \<Rightarrow>
          on_part mg_addresses (\<lambda>c s. s\<lparr>mg_addresses := c\<rparr>) (main_PublicIP T (n_addresses N) (kube_on_world kb) req)
      | KNetworkInterface \<Rightarrow> on_part mg_nics (\<lambda>c s. s\<lparr>mg_nics := c\<rparr>) (main_NetworkInterface T (kube_on_world kb) req)
      | KTrafficManager \<Rightarrow> on_part mg_profiles (\<lambda>c s. s\<lparr>mg_profiles := c\<rparr>) (main_TrafficManager T (kube_on_world kb) req)
      | KRedis \<Rightarrow> on_part mg_redis (\<lambda>c s. s\<lparr>mg_redis := c\<rparr>) (main_Redis T (kube_on_world kb) req)
      | KServiceBusNamespace \<Rightarrow>
          on_part mg_servicebus (\<lambda>c s. s\<lparr>mg_servicebus := c\<rparr>) (main_ServiceBusNamespace T (kube_on_world kb) req)
      | KVM \<Rightarrow> on_part mg_vms (\<lambda>c s. s\<lparr>mg_vms := c\<rparr>) (main_VM T (kube_on_world kb) req)
      | KSQLServer \<Rightarrow> on_part mg_servers (\<lambda>c s. s\<lparr>mg_servers := c\<rparr>) (main_SQLServer T (kube_on_world kb) req)
      | KSQLFirewallRule \<Rightarrow>
          on_part mg_firewalls (\<lambda>c s. s\<lparr>mg_firewalls := c\<rparr>) (main_SQLFirewallRule T (kube_on_world kb) req)
      | _ \<Rightarrow> go_ret (no_requeue, None))"

subsection \<open>The system\<close>

text \<open>
  A reconcile that panics ends the process: the clients it leaves are then replaced by a restart,
  which can happen at any other time too.  The environment (users, Azure, other programs) changes
  the world.
\<close>

inductive manager_reaches ::
  "'w tool \<Rightarrow> 'w network_sdks \<Rightarrow> 'w kube \<Rightarrow> config \<times> vault_client option \<times> vault_client option \<Rightarrow>
   ('w \<Rightarrow> 'w \<Rightarrow> bool) \<Rightarrow> 'w \<Rightarrow> 'w manager \<Rightarrow> bool"
  for T N kb clients env w where
  start: "manager_reaches T N kb clients env w (main_manager T N clients w)"
| reconcile: "manager_reaches T N kb clients env w s \<Longrightarrow>
    manager_reaches T N kb clients env w (snd (manager_Reconcile T N kb k req s))"
| restart: "manager_reaches T N kb clients env w s \<Longrightarrow>
    manager_reaches T N kb clients env w (main_manager T N clients (mg_world s))"
| environment: "manager_reaches T N kb clients env w s \<Longrightarrow> env (mg_world s) w' \<Longrightarrow>
    manager_reaches T N kb clients env w (s\<lparr>mg_world := w'\<rparr>)"

subsection \<open>Lifting\<close>

lemma keeps_on_world_at:
  assumes "\<And>c. Q c \<Longrightarrow> keeps A (m c)"
  shows "keeps (\<lambda>s. Q (fst s) \<and> A (snd s)) (on_world m)"
  using assms by (intro keepsI) (auto simp: on_world_def split_def dest: keepsD)

lemma kube_leaves_on_world:
  assumes "kube_leaves other kb A"
  shows "kube_leaves other (kube_on_world kb) (\<lambda>s. Q (fst s) \<and> A (snd s))"
  using assms by (auto simp: kube_leaves_def kube_on_world_def intro!: keeps_on_world_at)

lemma status_keys_on_world: "status_keys kb \<Longrightarrow> status_keys (kube_on_world kb)"
  by (fastforce simp: status_keys_def kube_on_world_def on_world_Returns)

lemma fetches_on_world: "fetches kb req k Q \<Longrightarrow> fetches (kube_on_world kb) req k Q"
  by (fastforce simp: fetches_def kube_on_world_def on_world_Returns)

lemma keeps_on_part:
  assumes "keeps (\<lambda>s. Q (fst s) \<and> A (snd s)) m" and "\<And>c s. mg_world (setc c s) = mg_world s"
    and "\<And>c s. getc (setc c s) = c"
  shows "keeps (\<lambda>s. Q (getc s) \<and> A (mg_world s)) (on_part getc setc m)"
proof (rule keepsI)
  fix s assume "Q (getc s) \<and> A (mg_world s)"
  then show "Q (getc (snd (on_part getc setc m s))) \<and> A (mg_world (snd (on_part getc setc m s)))"
    using keepsD [OF assms(1), of "(getc s, mg_world s)"] assms(2,3) by (simp add: on_part_def split_def)
qed

lemma on_part_other:
  assumes "\<And>c s. other (setc c s) = other s" and "\<And>s w. other (s\<lparr>mg_world := w\<rparr>) = other s"
  shows "other (snd (on_part getc setc m s)) = other s"
  by (simp add: on_part_def split_def assms)

subsection \<open>Clients that leave a predicate on the world\<close>

text \<open>For a client whose calls all keep the predicate, whatever the object.\<close>

lemma async_leaves_all:
  assumes "async_client az handles"
    and "\<And>obj. keeps P (async_ForSubscription az obj)" "\<And>obj. keeps P (async_Ensure az obj)"
    and "\<And>obj. keeps P (async_Delete az obj)"
  shows "async_leaves (\<lambda>_. True) (\<lambda>_ _. True) az P"
proof -
  have "triple P (async_Delete az obj) (\<lambda>(obj', found, err) s. clear_status obj' = clear_status obj \<and> P s) P" for obj
    using triple_result_fact [OF assms(4) [unfolded keeps_def], of obj "\<lambda>x. clear_status (fst x) = clear_status obj"]
      async_client.delete_keeps [OF assms(1)]
    by (fastforce simp: split_def)
  with assms(2,3) show ?thesis by (simp add: async_leaves_def keeps_def)
qed

lemma sync_leaves_all:
  assumes "sync_client az"
    and "\<And>obj. keeps P (sync_ForSubscription az obj)" "\<And>obj. keeps P (sync_Ensure az obj)"
    and "\<And>obj. keeps P (sync_Delete az obj)"
  shows "sync_leaves (\<lambda>_. True) (\<lambda>_ _. True) az P"
proof -
  have "triple P (sync_Delete az obj) (\<lambda>(obj', err) s. clear_status obj' = clear_status obj \<and> P s) P" for obj
    using triple_result_fact [OF assms(4) [unfolded keeps_def], of obj "\<lambda>x. clear_status (fst x) = clear_status obj"]
      sync_client.delete_keeps [OF assms(1)]
    by (fastforce simp: split_def)
  with assms(2,3) show ?thesis by (simp add: sync_leaves_def keeps_def)
qed

text \<open>
  \<open>sdks_keep T N A\<close>: no call of a service other than that of the resource groups, of the key vault,
  of the Kubernetes secrets and of the random numbers changes \<open>A\<close>.
\<close>

definition sdks_keep :: "'w tool \<Rightarrow> 'w network_sdks \<Rightarrow> ('w \<Rightarrow> bool) \<Rightarrow> bool" where
  "sdks_keep T N A \<longleftrightarrow>
     (\<forall>cl rg n. kv_calls (s_vaults (t_sdks T)) cl rg n A \<and> vn_calls (s_vnets (t_sdks T)) cl rg n A \<and>
        sg_calls (n_security N) cl rg n A \<and> pip_calls (n_addresses N) cl rg n A \<and>
        nic_calls (s_nics (t_sdks T)) cl rg n A \<and> tm_calls (s_profiles (t_sdks T)) cl rg n A \<and>
        redis_calls (s_redis (t_sdks T)) cl rg n A \<and> sb_calls (s_servicebus (t_sdks T)) cl rg n A \<and>
        vm_calls (s_machines (t_sdks T)) cl rg n A \<and> dk_calls (s_disks (t_sdks T)) cl rg n A \<and>
        sql_calls (s_sql (t_sdks T)) cl rg n A) \<and>
     (\<forall>cl rg vnet n. sn_calls (s_subnets (t_sdks T)) cl rg vnet n A) \<and>
     (\<forall>cl rg server n. fw_calls (s_firewall (t_sdks T)) cl rg server n A) \<and>
     (\<forall>cl. zn_calls (s_zones (t_sdks T)) cl A) \<and>
     so_calls (s_kube (t_sdks T)) A \<and> vs_calls (s_secrets (t_sdks T)) A \<and>
     own_rule_ok (s_sql (t_sdks T)) \<and> (\<forall>n. keeps A (t_intn T n)) \<and> (\<forall>n. keeps A (t_rand_Read T n))"

lemma sdks_keepD:
  assumes "sdks_keep T N A"
  shows "kv_calls (s_vaults (t_sdks T)) cl rg n A" "vn_calls (s_vnets (t_sdks T)) cl rg n A"
    "sg_calls (n_security N) cl rg n A" "pip_calls (n_addresses N) cl rg n A" "nic_calls (s_nics (t_sdks T)) cl rg n A"
    "tm_calls (s_profiles (t_sdks T)) cl rg n A" "redis_calls (s_redis (t_sdks T)) cl rg n A"
    "sb_calls (s_servicebus (t_sdks T)) cl rg n A" "vm_calls (s_machines (t_sdks T)) cl rg n A"
    "dk_calls (s_disks (t_sdks T)) cl rg n A" "sql_calls (s_sql (t_sdks T)) cl rg n A"
    "sn_calls (s_subnets (t_sdks T)) cl rg vnet n A" "fw_calls (s_firewall (t_sdks T)) cl rg server n A"
    "zn_calls (s_zones (t_sdks T)) cl A" "so_calls (s_kube (t_sdks T)) A" "vs_calls (s_secrets (t_sdks T)) A"
    "own_rule_ok (s_sql (t_sdks T))" "keeps A (t_intn T i)" "keeps A (t_rand_Read T i)"
  using assms unfolding sdks_keep_def by blast+

abbreviation async_keeps :: "('c \<times> 'w) AsyncClient \<Rightarrow> ('w \<Rightarrow> bool) \<Rightarrow> bool" where
  "async_keeps az A \<equiv> async_leaves (\<lambda>_. True) (\<lambda>_ _. True) az (\<lambda>s. A (snd s))"

abbreviation sync_keeps :: "('c \<times> 'w) SyncClient \<Rightarrow> ('w \<Rightarrow> bool) \<Rightarrow> bool" where
  "sync_keeps az A \<equiv> sync_leaves (\<lambda>_. True) (\<lambda>_ _. True) az (\<lambda>s. A (snd s))"

lemma kv_leaves: "sdks_keep T N A \<Longrightarrow> sync_keeps (kv_client L Au U (s_vaults (t_sdks T))) A"
  by (rule sync_leaves_all [OF kv.sync_client_axioms]) (auto simp: kv_client_def intro!: stays kv_stays dest: sdks_keepD)

lemma tls_leaves: "sdks_keep T N A \<Longrightarrow> sync_keeps (tls_client L Tl (s_kube (t_sdks T)) (s_secrets (t_sdks T))) A"
  by (rule sync_leaves_all [OF tls.sync_client_axioms]) (auto simp: tls_client_def intro!: stays tls_stays dest: sdks_keepD)

lemma secret_leaves: "sdks_keep T N A \<Longrightarrow> sync_keeps (secret_client L (s_kube (t_sdks T)) (s_secrets (t_sdks T))) A"
  by (rule sync_leaves_all [OF secret.sync_client_axioms]) (auto simp: secret_client_def intro!: stays secret_stays dest: sdks_keepD)

lemma vn_leaves: "sdks_keep T N A \<Longrightarrow> async_keeps (vn_client L Au (s_vnets (t_sdks T))) A"
  by (rule async_leaves_all [OF vn.async_client_axioms]) (auto simp: vn_client_def intro!: stays vn_stays dest: sdks_keepD)

lemma sn_leaves: "sdks_keep T N A \<Longrightarrow> async_keeps (sn_client L Au (s_subnets (t_sdks T))) A"
  by (rule async_leaves_all [OF sn.async_client_axioms]) (auto simp: sn_client_def intro!: stays sn_stays dest: sdks_keepD)

lemma sg_leaves: "sdks_keep T N A \<Longrightarrow> async_keeps (sg_client L Au (n_security N)) A"
  by (rule async_leaves_all [OF sg.async_client_axioms]) (auto simp: sg_client_def intro!: stays sg_stays dest: sdks_keepD)

lemma pip_leaves: "sdks_keep T N A \<Longrightarrow> async_keeps (pip_client L Au (n_addresses N)) A"
  by (rule async_leaves_all [OF pip.async_client_axioms]) (auto simp: pip_client_def intro!: stays pip_stays dest: sdks_keepD)

lemma nic_leaves: "sdks_keep T N A \<Longrightarrow> async_keeps (nic_client L Au (s_nics (t_sdks T))) A"
  by (rule async_leaves_all [OF nic.async_client_axioms]) (auto simp: nic_client_def intro!: stays nic_stays dest: sdks_keepD)

lemma redis_leaves: "sdks_keep T N A \<Longrightarrow> async_keeps (redis_client L Au (Some (s_kube (t_sdks T))) (s_redis (t_sdks T))) A"
  by (rule async_leaves_all [OF redis.async_client_axioms]) (auto simp: redis_client_def intro!: stays redis_stays dest: sdks_keepD)

lemma sb_leaves: "sdks_keep T N A \<Longrightarrow> async_keeps (sb_client L Au (Some (s_kube (t_sdks T))) (s_servicebus (t_sdks T))) A"
  by (rule async_leaves_all [OF sb.async_client_axioms]) (auto simp: sb_client_def intro!: stays sb_stays dest: sdks_keepD)

lemma fw_leaves: "sdks_keep T N A \<Longrightarrow> sync_keeps (fw_client L Au (s_firewall (t_sdks T))) A"
  by (rule sync_leaves_all [OF fw.sync_client_axioms]) (auto simp: fw_client_def intro!: stays fw_stays dest: sdks_keepD)

lemma vm_leaves:
  assumes "sdks_keep T N A"
  shows "async_keeps (vm_async_client L Au (s_machines (t_sdks T)) (s_disks (t_sdks T)) (s_zones (t_sdks T))
     (t_intn T) (t_rand_Read T)) A"
proof (rule async_leaves_all [OF vm.async_client_axioms])
  note keep = sdks_keepD [OF assms] sdks_keepD(10) [OF assms, unfolded dk_calls_def]
  fix obj
  show "keeps (\<lambda>s. A (snd s)) (async_ForSubscription (vm_async_client L Au (s_machines (t_sdks T)) (s_disks (t_sdks T))
      (s_zones (t_sdks T)) (t_intn T) (t_rand_Read T)) obj)"
    by (simp add: vm_async_client_def keeps_on_self)
  have "keeps A (vm_Ensure L (s_machines (t_sdks T)) (s_zones (t_sdks T)) (t_intn T) (t_rand_Read T) c obj)"
    "keeps A (vm_Delete L (s_machines (t_sdks T)) (s_disks (t_sdks T)) c obj)" for c
    using keep by (intro vm_stays [where D = "s_disks (t_sdks T)" and Z = "s_zones (t_sdks T)"
        and intn = "t_intn T" and rand_Read = "t_rand_Read T"]; simp)+
  then show "keeps (\<lambda>s. A (snd s)) (async_Ensure (vm_async_client L Au (s_machines (t_sdks T)) (s_disks (t_sdks T))
      (s_zones (t_sdks T)) (t_intn T) (t_rand_Read T)) obj)"
    and "keeps (\<lambda>s. A (snd s)) (async_Delete (vm_async_client L Au (s_machines (t_sdks T)) (s_disks (t_sdks T))
      (s_zones (t_sdks T)) (t_intn T) (t_rand_Read T)) obj)"
    by (simp_all add: vm_async_client_def keeps_on_world)
qed

lemma sql_keeps_any:
  assumes "\<And>m. keeps (sql_at m A) f"
  shows "keeps (\<lambda>s. A (snd s)) f"
proof (rule keepsI)
  show "A (snd (snd (f s)))" if "A (snd s)" for s
    using keepsD [OF assms, of "sqc_mgmt (fst s)" s] that by (simp add: sql_at_def)
qed

lemma sql_leaves:
  assumes "sdks_keep T N A"
  shows "sync_keeps (sql_client L Au (s_kube (t_sdks T)) (s_firewall (t_sdks T)) (s_sql (t_sdks T))) A"
proof (rule sync_leaves_all [OF sql.sync_client_axioms])
  note keep = sdks_keepD [OF assms]
  fix obj
  have "keeps (\<lambda>s. A (snd s)) (sql_Ensure L (s_kube (t_sdks T)) (fw_client L Au (s_firewall (t_sdks T))) (s_sql (t_sdks T)) obj)"
    by (intro sql_keeps_any sql_stays(1) keep)
  moreover have "keeps A (sql_Delete L (s_kube (t_sdks T)) (s_sql (t_sdks T)) c obj)" for c
    by (rule sql_stays(2) [OF _ keep(13) keep(17) keep(15) refl]) (rule keep)
  ultimately show
    "keeps (\<lambda>s. A (snd s)) (sync_ForSubscription (sql_client L Au (s_kube (t_sdks T)) (s_firewall (t_sdks T)) (s_sql (t_sdks T))) obj)"
    "keeps (\<lambda>s. A (snd s)) (sync_Ensure (sql_client L Au (s_kube (t_sdks T)) (s_firewall (t_sdks T)) (s_sql (t_sdks T))) obj)"
    "keeps (\<lambda>s. A (snd s)) (sync_Delete (sql_client L Au (s_kube (t_sdks T)) (s_firewall (t_sdks T)) (s_sql (t_sdks T))) obj)"
    by (simp_all add: sql_client_def keeps_on_self keeps_on_world)
qed

text \<open>The controller of the traffic managers has a \<open>Reconcile\<close> of its own.\<close>

lemma tm_leaves:
  assumes "sdks_keep T N A"
  shows "async_keeps (tm_as_async (tm_client L Au (s_profiles (t_sdks T)))) A"
proof (rule async_leaves_all [OF tm.async_client_axioms])
  note keep = tm_stays [OF sdks_keepD(6) [OF assms]]
  fix obj
  show "keeps (\<lambda>s. A (snd s)) (async_ForSubscription (tm_as_async (tm_client L Au (s_profiles (t_sdks T)))) obj)"
    "keeps (\<lambda>s. A (snd s)) (async_Ensure (tm_as_async (tm_client L Au (s_profiles (t_sdks T)))) obj)"
    "keeps (\<lambda>s. A (snd s)) (async_Delete (tm_as_async (tm_client L Au (s_profiles (t_sdks T)))) obj)"
    by (cases obj; simp add: tm_as_async_def tm_client_def keeps_ret keeps_on_self; intro stays keep)+
qed

lemma keeps_case_tm:
  "(\<And>x. obj = ObjTrafficManager x \<Longrightarrow> triple P (f x) Q P) \<Longrightarrow>
   triple P (case obj of ObjTrafficManager x \<Rightarrow> f x | _ \<Rightarrow> go_panic) Q P"
  by (cases obj) (auto intro!: triple_panic)

lemma tm_Reconcile_leaves:
  assumes kb: "kube_leaves (\<lambda>obj. \<not> object_at k n obj) kb P" "status_keys kb"
    and az: "async_leaves (\<lambda>_. True) (\<lambda>_ _. True) (tm_as_async az) P"
    and get: "fetches kb req KTrafficManager (\<lambda>obj. True \<and> \<not> object_at k n obj)"
  shows "keeps P (tm_Reconcile L kb az req)"
proof -
  have sub: "triple P (tmc_ForSubscription az (tms_SubscriptionID (Spec x))) (\<lambda>_. P) P" for x :: TrafficManager
    using async_leavesD(1) [OF az, of "ObjTrafficManager x"] by (simp add: tm_as_async_def)
  note arms = async_ensure_step_leaves [OF kb(1) az TrueI] async_delete_step_leaves [OF kb az TrueI]
  show ?thesis
    unfolding keeps_def tm_Reconcile_def tm_ensure_step_eq tm_delete_step_eq
    by (rule triple_bind [OF Get_leaves [OF kb(1) get]])
      (auto intro!: triple_fact keeps_case_tm triple_bind [OF sub] triple_case_option triple_if triple_ret triple_let
        triple_bind [OF kube_leavesD(4) [OF kb(1)]] triple_bind [OF kube_leavesD(2) [OF kb(1)]] arms [simplified]
        triple_case_prod simp: HasFinalizer_iff)
qed

subsection \<open>The other controllers\<close>

text \<open>
  The API server: a request is answered with the object of that kind and key, with the finalizer
  only when it is stored with it; it changes an object in updates of that object only, and a stored
  finalizer goes only with an update without it.
\<close>

definition api_objects_ok :: "'w kube \<Rightarrow> (kind \<Rightarrow> namespaced_name \<Rightarrow> 'w \<Rightarrow> bool) \<Rightarrow> bool" where
  "api_objects_ok kb fin \<longleftrightarrow>
     status_keys kb \<and>
     (\<forall>n k. fetches kb n k (object_at k n)) \<and>
     (\<forall>n k. triple (\<lambda>_. True) (kb_Get kb n k) (\<lambda>(obj, err) w. err = None \<longrightarrow> has_finalizer obj \<longrightarrow> fin k n w) (\<lambda>_. True)) \<and>
     (\<forall>n k. kube_leaves (\<lambda>obj. \<not> object_at k n obj) kb (fin k n))"

lemma api_objects_okD:
  assumes "api_objects_ok kb fin"
  shows "status_keys kb" and "fetches kb n k (object_at k n)"
    and "triple (\<lambda>_. True) (kb_Get kb n k) (\<lambda>(obj, err) w. err = None \<longrightarrow> has_finalizer obj \<longrightarrow> fin k n w) (\<lambda>_. True)"
    and "kube_leaves (\<lambda>obj. \<not> object_at k n obj) kb (fin k n)"
  using assms unfolding api_objects_ok_def by blast+

lemma fetches_mono: "fetches kb req k Q \<Longrightarrow> (\<And>obj. Q obj \<Longrightarrow> R obj) \<Longrightarrow> fetches kb req k R"
  unfolding fetches_def by blast

lemma fetches_kind:
  assumes "api_objects_ok kb fin" "k' \<noteq> k"
  shows "fetches (kube_on_world kb) req k' (\<lambda>obj. True \<and> \<not> object_at k n obj)"
  by (rule fetches_mono [OF fetches_on_world [OF api_objects_okD(2) [OF assms(1)]]])
    (use assms(2) in \<open>simp add: object_at_def\<close>)

lemma keeps_part_world:
  assumes "keeps (\<lambda>s. A (snd s)) m" and "\<And>c s. mg_world (setc c s) = mg_world s"
  shows "keeps (\<lambda>s. A (mg_world s)) (on_part getc setc m)"
proof (rule keepsI)
  show "A (mg_world (snd (on_part getc setc m s)))" if "A (mg_world s)" for s
    using keepsD [OF assms(1), of "(getc s, mg_world s)"] that assms(2) by (simp add: on_part_def split_def)
qed

lemma kube_leaves_world:
  "kube_leaves other kb A \<Longrightarrow> kube_leaves other (kube_on_world kb) (\<lambda>s. A (snd s))"
  using kube_leaves_on_world [of other kb A "\<lambda>_. True"] by simp

lemma async_part:
  assumes "api_objects_ok kb fin" "kube_leaves (\<lambda>obj. \<not> object_at k n obj) kb A" "k' \<noteq> k" "async_keeps az A"
    and "\<And>c s. mg_world (setc c s) = mg_world s"
  shows "keeps (\<lambda>s. A (mg_world s)) (on_part getc setc (async_Reconcile L (kube_on_world kb) az req k'))"
  using assms(1)
  by (intro keeps_part_world async_Reconcile_leaves [OF kube_leaves_world [OF assms(2)] status_keys_on_world assms(4)
        fetches_kind [OF assms(1,3)]] assms(5)) (simp add: api_objects_ok_def)

lemma sync_part:
  assumes "api_objects_ok kb fin" "kube_leaves (\<lambda>obj. \<not> object_at k n obj) kb A" "k' \<noteq> k" "sync_keeps az A"
    and "\<And>c s. mg_world (setc c s) = mg_world s"
  shows "keeps (\<lambda>s. A (mg_world s)) (on_part getc setc (sync_Reconcile L (kube_on_world kb) az req k'))"
  using assms(1)
  by (intro keeps_part_world sync_Reconcile_leaves [OF kube_leaves_world [OF assms(2)] status_keys_on_world assms(4)
        fetches_kind [OF assms(1,3)]] assms(5)) (simp add: api_objects_ok_def)

lemma tm_part:
  assumes "api_objects_ok kb fin" "kube_leaves (\<lambda>obj. \<not> object_at k n obj) kb A" "KTrafficManager \<noteq> k"
    and "async_keeps (tm_as_async az) A" and "\<And>c s. mg_world (setc c s) = mg_world s"
  shows "keeps (\<lambda>s. A (mg_world s)) (on_part getc setc (tm_Reconcile L (kube_on_world kb) az req))"
  using assms(1)
  by (intro keeps_part_world tm_Reconcile_leaves [OF kube_leaves_world [OF assms(2)] status_keys_on_world assms(4)
        fetches_kind [OF assms(1,3)]] assms(5)) (simp add: api_objects_ok_def)

lemmas main_reconcilers =
  main_Keyvault_def main_Secret_def main_TLSSecret_def main_SecretBundle_def main_VirtualNetwork_def main_Subnet_def
  main_SecurityGroup_def main_PublicIP_def main_NetworkInterface_def main_TrafficManager_def main_Redis_def
  main_ServiceBusNamespace_def main_VM_def main_SQLServer_def main_SQLFirewallRule_def
  KeyvaultReconciler_Reconcile_def SecretReconciler_Reconcile_def TLSSecretReconciler_Reconcile_def
  SecretBundleReconciler_Reconcile_def VirtualNetworkReconciler_Reconcile_def SubnetReconciler_Reconcile_def
  SecurityGroupReconciler_Reconcile_def PublicIPReconciler_Reconcile_def NetworkInterfaceReconciler_Reconcile_def
  RedisReconciler_Reconcile_def ServiceBusNamespaceReconciler_Reconcile_def VMReconciler_Reconcile_def
  SQLServerReconciler_Reconcile_def SQLFirewallRuleReconciler_Reconcile_def

lemma manager_Reconcile_keeps:
  assumes "api_objects_ok kb fin" "kube_leaves (\<lambda>obj. \<not> object_at KResourceGroup n obj) kb A" "sdks_keep T N A"
    and "k \<noteq> KResourceGroup"
  shows "keeps (\<lambda>s. A (mg_world s)) (manager_Reconcile T N kb k req)"
proof -
  note leave = kv_leaves [OF assms(3)] tls_leaves [OF assms(3)] secret_leaves [OF assms(3)] vn_leaves [OF assms(3)]
    sn_leaves [OF assms(3)] sg_leaves [OF assms(3)] pip_leaves [OF assms(3)] nic_leaves [OF assms(3)]
    tm_leaves [OF assms(3)] redis_leaves [OF assms(3)] sb_leaves [OF assms(3)] vm_leaves [OF assms(3)]
    sql_leaves [OF assms(3)] fw_leaves [OF assms(3)]
  show ?thesis
  using assms(4) unfolding manager_Reconcile_def
  by (cases k; simp only: kind.case main_reconcilers simp_thms;
      intro async_part [OF assms(1,2)] sync_part [OF assms(1,2)] tm_part [OF assms(1,2)] keeps_ret
        leave; simp)
qed

lemma manager_Reconcile_groups:
  "k \<noteq> KResourceGroup \<Longrightarrow> mg_groups (snd (manager_Reconcile T N kb k req s)) = mg_groups s"
  unfolding manager_Reconcile_def
  by (cases k) (simp_all add: on_part_def split_def go_ret_def)

subsection \<open>The controller of the resource groups\<close>

text \<open>
  \<open>group_in f obj\<close>: the subscription (as the SDK clients made by \<open>f\<close> see it) and the name of the
  group that an object declares.
\<close>

definition group_in :: "(string \<Rightarrow> sdk_client) \<Rightarrow> runtime_object \<Rightarrow> (string option \<times> string) option" where
  "group_in f obj = (case obj of
     ObjResourceGroup x \<Rightarrow> Some (sdk_Subscription (f (rgs_SubscriptionID (Spec x))), rgs_Name (Spec x))
   | _ \<Rightarrow> None)"

text \<open>The calls about other groups do not create this one.\<close>

definition groups_separate :: "'w rg_sdk \<Rightarrow> (string option \<Rightarrow> string \<Rightarrow> 'w \<Rightarrow> bool) \<Rightarrow> string option \<times> string \<Rightarrow> bool" where
  "groups_separate S ex g \<longleftrightarrow>
     (\<forall>cl n. (sdk_Subscription cl, n) \<noteq> g \<longrightarrow> rg_calls S cl n (\<lambda>w. \<not> ex (fst g) (snd g) w))"

definition bound_in :: "(string \<Rightarrow> sdk_client) \<Rightarrow> runtime_object \<Rightarrow> mgmt_client \<Rightarrow> bool" where
  "bound_in f obj c \<longleftrightarrow> mc_factory c = f \<and>
     (\<forall>x. obj = ObjResourceGroup x \<longrightarrow>
        sdk_Subscription (mc_internal c) = sdk_Subscription (f (rgs_SubscriptionID (Spec x))))"

lemma rg_ForSubscription_binds:
  assumes "mc_factory c = f"
  shows "mc_factory (fst (rg_ForSubscription A c obj)) = f"
    and "snd (rg_ForSubscription A c obj) = None \<Longrightarrow> bound_in f obj (fst (rg_ForSubscription A c obj))"
  using assms authorize_for_keeps [of A c] authorize_for_subscription [of A c]
  by (cases obj; simp add: rg_ForSubscription_def rg_convert_def bound_in_def)+

lemma rg_ForSubscription_triple:
  "triple (\<lambda>s. mc_factory (fst s) = f \<and> A (snd s)) (on_self (\<lambda>c. rg_ForSubscription Au c obj))
     (\<lambda>err s. (mc_factory (fst s) = f \<and> A (snd s)) \<and> (err = None \<longrightarrow> bound_in f obj (fst s)))
     (\<lambda>s. mc_factory (fst s) = f \<and> A (snd s))"
  using rg_ForSubscription_binds [of _ f Au obj] by (auto simp: triple_def on_self_eq)

text \<open>The objects of other groups.\<close>

lemma rg_client_leaves:
  assumes calls: "\<And>obj c x. mine obj \<Longrightarrow> bound_in f obj c \<Longrightarrow> obj = ObjResourceGroup x \<Longrightarrow>
      rg_calls S (mc_internal c) (rgs_Name (Spec x)) A"
  shows "async_leaves mine (\<lambda>obj s. bound_in f obj (fst s)) (rg_client L Au S) (\<lambda>s. mc_factory (fst s) = f \<and> A (snd s))"
proof -
  have run: "triple (\<lambda>s. (mc_factory (fst s) = f \<and> A (snd s)) \<and> bound_in f obj (fst s)) (on_world m)
      (\<lambda>_ s. mc_factory (fst s) = f \<and> A (snd s)) (\<lambda>s. mc_factory (fst s) = f \<and> A (snd s))"
    if "\<And>c. bound_in f obj c \<Longrightarrow> keeps A (m c)" for obj m
    using keeps_on_world_at [of "bound_in f obj" A m] that
    by (auto simp: keeps_def bound_in_def elim!: triple_conseq)
  have stay: "keeps A (rg_Ensure L S c obj)" "keeps A (rg_DeleteOp L S c obj)" if "mine obj" "bound_in f obj c" for obj c
    using calls [OF that] by (auto intro: rg_stays)
  have del: "triple (\<lambda>s. (mc_factory (fst s) = f \<and> A (snd s)) \<and> bound_in f obj (fst s)) (async_Delete (rg_client L Au S) obj)
      (\<lambda>(obj', found, err) s. clear_status obj' = clear_status obj \<and> mc_factory (fst s) = f \<and> A (snd s))
      (\<lambda>s. mc_factory (fst s) = f \<and> A (snd s))" if "mine obj" for obj
    using triple_result_fact [OF run, of obj "\<lambda>c. rg_DeleteOp L S c obj" "\<lambda>x. clear_status (fst x) = clear_status obj"]
      stay(2) [OF that] rg.delete_keeps [of L Au S obj]
    by (fastforce simp: split_def rg_client_def)
  have ens: "triple (\<lambda>s. (mc_factory (fst s) = f \<and> A (snd s)) \<and> bound_in f obj (fst s)) (async_Ensure (rg_client L Au S) obj)
      (\<lambda>_ s. mc_factory (fst s) = f \<and> A (snd s)) (\<lambda>s. mc_factory (fst s) = f \<and> A (snd s))" if "mine obj" for obj
    unfolding rg_client_def AsyncClient.simps by (rule run [OF stay(1) [OF that]])
  have sub: "triple (\<lambda>s. mc_factory (fst s) = f \<and> A (snd s)) (async_ForSubscription (rg_client L Au S) obj)
      (\<lambda>err s. (mc_factory (fst s) = f \<and> A (snd s)) \<and> (err = None \<longrightarrow> bound_in f obj (fst s)))
      (\<lambda>s. mc_factory (fst s) = f \<and> A (snd s))" for obj
    unfolding rg_client_def AsyncClient.simps by (rule rg_ForSubscription_triple)
  show ?thesis
    unfolding async_leaves_def by (intro allI impI conjI sub ens del)
qed

text \<open>The object itself: the general result on the finalizer protocol.\<close>

text \<open>A request of one key only sees the objects of that key.\<close>

definition kube_at :: "'s kube \<Rightarrow> namespaced_name \<Rightarrow> kind \<Rightarrow> 's kube" where
  "kube_at kb n k = kb\<lparr>kb_Get := (\<lambda>n' k'. if n' = n \<and> k' = k then kb_Get kb n k
     else go_ret (ObjOther [] \<lparr>om_Name = [], om_Namespace = [], om_UID = [], om_Finalizers = [], om_DeletionTimestamp = None\<rparr>,
       Some (ApiError 404)))\<rparr>"

lemma kube_at_simps:
  "kb_GVKForObject (kube_at kb n k) = kb_GVKForObject kb" "kb_Accessor (kube_at kb n k) = kb_Accessor kb"
  "kb_Get (kube_at kb n k) n k = kb_Get kb n k" "kb_Update (kube_at kb n k) = kb_Update kb"
  "kb_StatusUpdate (kube_at kb n k) = kb_StatusUpdate kb" "kb_Event (kube_at kb n k) = kb_Event kb"
  by (simp_all add: kube_at_def)

lemma kube_at_Reconcile:
  "async_Reconcile L (kube_on_world (kube_at kb n k)) az n k = async_Reconcile L (kube_on_world kb) az n k"
  unfolding async_Reconcile_def step_defs kube_on_world_def kube.simps kube_at_simps by (rule refl)

lemma kube_at_ok:
  assumes api: "api_objects_ok kb fin" and mine: "fetches kb n k mine"
  shows "api_server_ok mine (kube_at kb n k) (fin k n) (\<lambda>_. False)"
proof -
  have "snd x = None \<longrightarrow> mine (fst x)" if "kb_Get kb n k w = (Returns x, w')" for x w w'
    using mine that unfolding fetches_def by (cases x) auto
  from triple_result_fact [OF api_objects_okD(3) [OF api] this]
  have "triple (\<lambda>_. True) (kb_Get kb n k)
      (\<lambda>(obj, err) w. err = None \<longrightarrow> mine obj \<and> (has_finalizer obj \<longrightarrow> fin k n w)) (\<lambda>_. True)"
    by (rule triple_conseq) auto
  then show ?thesis
    using api_objects_okD(4) [OF api, of k n]
    by (auto simp: api_server_ok_def kube_at_def kube_leaves_def intro!: keeps_ret triple_ret intro: keepsI)
qed

lemma keeps_on_world_each:
  assumes "\<And>c. keeps (\<lambda>w. P (c, w)) (m c)"
  shows "keeps P (on_world m)"
proof (rule keepsI)
  show "P (snd (on_world m s))" if "P s" for s
    using keepsD [OF assms, of "fst s" "snd s"] that by (simp add: on_world_def split_def)
qed

lemma api_server_ok_on_world:
  fixes kb :: "'w kube" and res :: "'c \<times> 'w \<Rightarrow> bool"
  assumes "api_server_ok mine kb fin (\<lambda>_. False)" and "\<And>c. kube_leaves (\<lambda>_. True) kb (\<lambda>w. \<not> res (c, w))"
  shows "api_server_ok mine (kube_on_world kb) (\<lambda>s. fin (snd s)) res"
proof -
  have "triple (\<lambda>_. True) (on_world (\<lambda>_ :: 'c. kb_Get kb n k))
      (\<lambda>(obj, err) s. err = None \<longrightarrow> mine obj \<and> (has_finalizer obj \<longrightarrow> fin (snd s))) (\<lambda>_. True)" for n k
    using api_server_okD(3) [OF assms(1), of n k]
    by (auto simp: triple_def on_world_def split: prod.splits outcome.splits)
  then show ?thesis
    using api_server_okD(1,4,6,8) [OF assms(1)] assms(2)
    by (auto simp: api_server_ok_def kube_on_world_def kube_leaves_def intro!: keeps_on_world keeps_on_world_each)
qed

lemma azure_ok_stable:
  assumes "azure_ok mine ready az (\<lambda>_. True) res"
    and "\<And>obj. keeps fin (async_ForSubscription az obj)" "\<And>obj. keeps fin (async_Ensure az obj)"
    "\<And>obj. keeps fin (async_Delete az obj)"
  shows "azure_ok mine ready az fin res"
  using assms unfolding azure_ok_def by blast

text \<open>The invariant, on the client of the groups and the world.\<close>

definition group_kept ::
  "(string \<Rightarrow> sdk_client) \<Rightarrow> ('w \<Rightarrow> bool) \<Rightarrow> ('w \<Rightarrow> bool) \<Rightarrow> mgmt_client \<times> 'w \<Rightarrow> bool" where
  "group_kept f fin res s \<longleftrightarrow> mc_factory (fst s) = f \<and> (res (snd s) \<longrightarrow> fin (snd s))"

lemma group_reconcile_factory:
  assumes "api_objects_ok kb fin"
  shows "keeps (\<lambda>s. mc_factory (fst s) = f) (async_Reconcile L (kube_on_world kb) (rg_client L Au S) req KResourceGroup)"
proof -
  have "rg_calls S cl n (\<lambda>_. True)" for cl n
    by (simp add: rg_calls_def keepsI)
  then have az: "async_leaves (\<lambda>_. True) (\<lambda>obj s. bound_in f obj (fst s)) (rg_client L Au S) (\<lambda>s. mc_factory (fst s) = f \<and> True)"
    by (intro rg_client_leaves)
  have kb: "kube_leaves (\<lambda>obj. \<not> object_at KVM req obj) kb (\<lambda>_. True)"
    by (simp add: kube_leaves_def keepsI)
  show ?thesis
    using async_Reconcile_leaves [OF kube_leaves_on_world [OF kb] status_keys_on_world [OF api_objects_okD(1) [OF assms]] az
        fetches_kind [OF assms]]
    by simp
qed

lemma group_reconcile_own:
  assumes L: "lib_ok L" and api: "api_objects_ok kb fin" and S: "rg_sdk_ok S ex"
    and kube: "\<And>sub. kube_leaves (\<lambda>_. True) kb (\<lambda>w. \<not> ex sub name w)"
    and mine: "fetches kb req KResourceGroup (is_group sub name)"
    and calls: "\<And>cl n. rg_calls S cl n (fin KResourceGroup req)"
  shows "keeps (group_kept f (fin KResourceGroup req) (ex (sdk_Subscription (f sub)) name))
    (async_Reconcile L (kube_on_world kb) (rg_client L Au S) req KResourceGroup)"
proof (rule keepsI)
  let ?fin = "\<lambda>s :: mgmt_client \<times> 'a. fin KResourceGroup req (snd s)" and ?res = "exists_for ex sub name"
  let ?run = "async_Reconcile L (kube_on_world kb) (rg_client L Au S) req KResourceGroup"
  fix s assume s: "group_kept f (fin KResourceGroup req) (ex (sdk_Subscription (f sub)) name) s"
  have az: "azure_ok (is_group sub name) (subscribed_to sub) (rg_client L Au S) ?fin ?res"
    by (rule azure_ok_stable [OF rg_azure_ok [OF L S]])
      (auto simp: rg_client_def intro!: keeps_on_self keeps_on_world rg_stays calls)
  have "api_server_ok (is_group sub name) (kube_on_world (kube_at kb req KResourceGroup)) ?fin ?res"
    using kube by (intro api_server_ok_on_world kube_at_ok api mine)
      (auto simp: kube_leaves_def kube_at_def exists_for_def intro!: keeps_ret)
  from keepsD [OF async_Reconcile_no_orphan [OF L this az, folded keeps_def], of s req KResourceGroup] s
  have "no_orphan ?fin ?res (snd (?run s))"
    by (simp add: kube_at_Reconcile no_orphan_def exists_for_def group_kept_def)
  moreover have "mc_factory (fst (snd (?run s))) = f"
    using keepsD [OF group_reconcile_factory [OF api]] s by (simp add: group_kept_def)
  ultimately show "group_kept f (fin KResourceGroup req) (ex (sdk_Subscription (f sub)) name) (snd (?run s))"
    by (simp add: group_kept_def no_orphan_def exists_for_def)
qed

lemma group_reconcile_keeps:
  assumes api: "api_objects_ok kb fin" and kb: "kube_leaves (\<lambda>obj. \<not> object_at KResourceGroup req obj) kb A"
    and other: "req' \<noteq> req" "fetches kb req' KResourceGroup (\<lambda>obj. group_in f obj \<noteq> Some g)"
    and calls: "\<And>cl n. (sdk_Subscription cl, n) \<noteq> g \<Longrightarrow> rg_calls S cl n A"
  shows "keeps (\<lambda>s. mc_factory (fst s) = f \<and> A (snd s))
    (async_Reconcile L (kube_on_world kb) (rg_client L Au S) req' KResourceGroup)"
proof -
  have az: "async_leaves (\<lambda>obj. group_in f obj \<noteq> Some g) (\<lambda>obj s. bound_in f obj (fst s)) (rg_client L Au S)
      (\<lambda>s. mc_factory (fst s) = f \<and> A (snd s))"
    by (rule rg_client_leaves, rule calls) (auto simp: group_in_def bound_in_def)
  have "fetches kb req' KResourceGroup (\<lambda>obj. group_in f obj \<noteq> Some g \<and> \<not> object_at KResourceGroup req obj)"
    using api_objects_okD(2) [OF api, of req' KResourceGroup] other unfolding fetches_def object_at_def by blast
  then show ?thesis
    by (rule async_Reconcile_leaves [OF kube_leaves_on_world [OF kb] status_keys_on_world [OF api_objects_okD(1) [OF api]] az
        fetches_on_world])
qed

lemma keeps_group_kept:
  assumes "keeps (\<lambda>s. mc_factory (fst s) = f \<and> fin (snd s)) m" "keeps (\<lambda>s. mc_factory (fst s) = f \<and> \<not> res (snd s)) m"
  shows "keeps (group_kept f fin res) m"
  using keeps_disj [OF assms] by (rule back_subst [of "\<lambda>P. keeps P m"]) (auto simp: group_kept_def)

subsection \<open>The system keeps the groups\<close>

text \<open>
  What the theorem is about: the group \<open>(sub, name)\<close>, which the object \<open>req\<close> declares, no other
  object does, and nobody else creates.
\<close>

definition group_declared ::
  "'w tool \<Rightarrow> 'w network_sdks \<Rightarrow> 'w kube \<Rightarrow> (kind \<Rightarrow> namespaced_name \<Rightarrow> 'w \<Rightarrow> bool) \<Rightarrow>
   (string option \<Rightarrow> string \<Rightarrow> 'w \<Rightarrow> bool) \<Rightarrow> namespaced_name \<Rightarrow> string \<Rightarrow> string \<Rightarrow> bool" where
  "group_declared T N kb fin ex req sub name \<longleftrightarrow>
     (let f = f_groups (t_factories T); g = (sdk_Subscription (f sub), name) in
      fetches kb req KResourceGroup (is_group sub name) \<and>
      (\<forall>req'. req' \<noteq> req \<longrightarrow> fetches kb req' KResourceGroup (\<lambda>obj. group_in f obj \<noteq> Some g)) \<and>
      groups_separate (s_groups (t_sdks T)) ex g \<and>
      (\<forall>sub'. kube_leaves (\<lambda>_. True) kb (\<lambda>w. \<not> ex sub' name w)) \<and>
      sdks_keep T N (\<lambda>w. \<not> ex (fst g) name w))"

text \<open>Azure does not touch the objects of the API server.\<close>

definition azure_apart :: "'w tool \<Rightarrow> 'w network_sdks \<Rightarrow> (kind \<Rightarrow> namespaced_name \<Rightarrow> 'w \<Rightarrow> bool) \<Rightarrow> bool" where
  "azure_apart T N fin \<longleftrightarrow>
     (\<forall>k n. sdks_keep T N (fin k n) \<and> (\<forall>cl m. rg_calls (s_groups (t_sdks T)) cl m (fin k n)))"

lemma kube_leaves_mono: "kube_leaves (\<lambda>_. True) kb A \<Longrightarrow> kube_leaves other kb A"
  by (simp add: kube_leaves_def)

lemma manager_step_group:
  assumes L: "lib_ok (t_lib T)" and api: "api_objects_ok kb fin" and S: "rg_sdk_ok (s_groups (t_sdks T)) ex"
    and apart: "azure_apart T N fin" and decl: "group_declared T N kb fin ex req sub name"
  shows "keeps (\<lambda>s. group_kept (f_groups (t_factories T)) (fin KResourceGroup req)
      (ex (sdk_Subscription (f_groups (t_factories T) sub)) name) (mg_groups s, mg_world s))
    (manager_Reconcile T N kb k req')"
    (is "keeps ?I _")
proof -
  let ?f = "f_groups (t_factories T)" and ?fin = "fin KResourceGroup req"
  let ?res = "ex (sdk_Subscription (?f sub)) name"
  note d = decl [unfolded group_declared_def Let_def]
  show ?thesis
  proof (cases "k = KResourceGroup")
    case True
    have "keeps (group_kept ?f ?fin ?res) (main_ResourceGroup T (kube_on_world kb) req')"
    proof (cases "req' = req")
      case True
      show ?thesis
        unfolding main_ResourceGroup_def ResourceGroupReconciler_Reconcile_def True
        by (rule group_reconcile_own [OF L api S]) (use d apart [unfolded azure_apart_def] in blast)+
    next
      case False
      then have other: "fetches kb req' KResourceGroup (\<lambda>obj. group_in ?f obj \<noteq> Some (sdk_Subscription (?f sub), name))"
        using d by blast
      show ?thesis
        unfolding main_ResourceGroup_def ResourceGroupReconciler_Reconcile_def
      proof (rule keeps_group_kept)
        show "keeps (\<lambda>s. mc_factory (fst s) = ?f \<and> ?fin (snd s)) (async_Reconcile (t_lib T) (kube_on_world kb)
            (rg_client (t_lib T) (t_auth T) (s_groups (t_sdks T))) req' KResourceGroup)"
          by (rule group_reconcile_keeps [OF api api_objects_okD(4) [OF api] False other])
            (use apart [unfolded azure_apart_def] in blast)
        show "keeps (\<lambda>s. mc_factory (fst s) = ?f \<and> \<not> ?res (snd s)) (async_Reconcile (t_lib T) (kube_on_world kb)
            (rg_client (t_lib T) (t_auth T) (s_groups (t_sdks T))) req' KResourceGroup)"
          by (rule group_reconcile_keeps [OF api kube_leaves_mono False other])
            (use d in \<open>auto simp: groups_separate_def\<close>)
      qed
    qed
    with True show ?thesis
      by (auto simp: manager_Reconcile_def on_part_def split_def intro!: keepsI dest: keepsD)
  next
    case False
    have "keeps (\<lambda>s. ?fin (mg_world s)) (manager_Reconcile T N kb k req')"
      by (rule manager_Reconcile_keeps [OF api api_objects_okD(4) [OF api] _ False]) (use apart [unfolded azure_apart_def] in blast)
    moreover have "keeps (\<lambda>s. \<not> ?res (mg_world s)) (manager_Reconcile T N kb k req')"
      by (rule manager_Reconcile_keeps [OF api _ _ False, where n = req]) (use d in \<open>auto intro: kube_leaves_mono\<close>)
    ultimately show ?thesis
      by (intro keepsI) (auto simp: group_kept_def manager_Reconcile_groups [OF False] dest: keepsD)
  qed
qed

theorem manager_system_group:
  assumes "lib_ok (t_lib T)" "api_objects_ok kb fin" "rg_sdk_ok (s_groups (t_sdks T)) ex" "azure_apart T N fin"
    and "group_declared T N kb fin ex req sub name"
    and env: "\<And>w w'. env w w' \<Longrightarrow> (fin KResourceGroup req w \<longrightarrow> fin KResourceGroup req w') \<and>
      (ex (sdk_Subscription (f_groups (t_factories T) sub)) name w' \<longrightarrow> ex (sdk_Subscription (f_groups (t_factories T) sub)) name w)"
    and "manager_reaches T N kb clients env w s"
    and "ex (sdk_Subscription (f_groups (t_factories T) sub)) name w \<longrightarrow> fin KResourceGroup req w"
  shows "group_kept (f_groups (t_factories T)) (fin KResourceGroup req)
      (ex (sdk_Subscription (f_groups (t_factories T) sub)) name) (mg_groups s, mg_world s)"
  using assms(7)
proof induction
  case start
  then show ?case
    using assms(8) by (simp add: group_kept_def main_manager_def rg_NewWithFactory_def new_mgmt_client_def split_def)
next
  case (reconcile s k req')
  then show ?case using keepsD [OF manager_step_group [OF assms(1-5)], of s] by blast
next
  case (restart s)
  then show ?case
    by (simp add: group_kept_def main_manager_def rg_NewWithFactory_def new_mgmt_client_def split_def)
next
  case (environment s w')
  then show ?case using env by (auto simp: group_kept_def)
qed

end
