(* ===== verification/Demo.thy ===== *)
theory Demo imports Shared_Clients Settling Deep_Copies begin

section \<open>Concrete instances\<close>

text \<open>
  Small instances of the parameters (SDKs, API server, environment of the tool) and objects, for
  the witnesses: each contract the properties assume is satisfied by one of them.
\<close>

definition demo_meta :: "string list \<Rightarrow> nat option \<Rightarrow> object_meta" where
  "demo_meta finalizers deletion = \<lparr>om_Name = ''obj'', om_Namespace = ''ns'', om_UID = ''1'',
     om_Finalizers = finalizers, om_DeletionTimestamp = deletion\<rparr>"

subsection \<open>A resource group that takes its time\<close>

text \<open>The world is the number of polls until a creation or a deletion is through.\<close>

definition polled_group :: "string \<Rightarrow> Group" where
  "polled_group state = \<lparr>grp_Response = Some 200, grp_ID = Some ''id'', grp_Name = Some ''rg'',
     grp_Location = Some ''westus2'', grp_Properties = Some (Some state)\<rparr>"

definition creating_sdk :: "nat rg_sdk" where
  "creating_sdk = \<lparr>
     rg_Get = (\<lambda>cl n w. (Returns (polled_group (if w = 0 then ''Succeeded'' else ''Creating''), None), w - 1)),
     rg_CreateOrUpdate = (\<lambda>cl n g w. (Returns (g, None), w)),
     rg_Delete = (\<lambda>cl n w. (Returns (Some 202, None), w))\<rparr>"

definition deleting_sdk :: "nat rg_sdk" where
  "deleting_sdk = \<lparr>
     rg_Get = (\<lambda>cl n w. (if w = 0 then (Returns (zero_Group\<lparr>grp_Response := Some 404\<rparr>, Some (SdkError 404)), w)
        else (Returns (polled_group ''Deleting'', None), w - 1))),
     rg_CreateOrUpdate = (\<lambda>cl n g w. (Returns (g, None), w)),
     rg_Delete = (\<lambda>cl n w. (Returns (Some 202, None), w))\<rparr>"

fun polled :: "runtime_object \<Rightarrow> bool" where
  "polled (ObjResourceGroup x) = (rgs_Name (Spec x) = ''rg'' \<and> rgs_Location (Spec x) = ''westus2'')"
| "polled _ = False"

fun_cases polledE: "polled obj"

lemma polled_map_meta: "polled obj \<Longrightarrow> polled (map_meta f obj)"
  by (erule polledE) simp

lemma one_object_kube_serves: "api_server_serves (one_object_kube (\<lambda>_. True)) req k (\<lambda>s. s)"
  unfolding api_server_serves_def one_object_kube_def by simp

lemma polled_subscribes:
  "subscribes (rg_client std_lib demo_auth S) polled (\<lambda>_ c. True) snd"
  unfolding subscribes_def
  by (auto elim!: polledE simp: rg_client_def on_self_eq rg_ForSubscription_def rg_convert_def authorize_for_def
      AuthorizeClientFromArgs_def AuthorizeClientFromArgsForResource_def Let_def demo_auth_def
      split: prod.splits sum.splits)

lemma creating_progresses:
  "ensure_progresses (rg_client std_lib demo_auth creating_sdk) polled (\<lambda>_ c. True) snd"
  unfolding ensure_progresses_def
  by (auto elim!: polledE simp: rg_client_def on_world_def creating_sdk_def polled_group_def rg_Ensure_found
      StatusNotFound_def rg_Done_def rg_SetStatus_def)

lemma deleting_progresses:
  "delete_progresses (rg_client std_lib demo_auth deleting_sdk) polled (\<lambda>_ c. True) snd"
  unfolding delete_progresses_def
  by (auto elim!: polledE simp: rg_client_def on_world_def deleting_sdk_def polled_group_def rg_DeleteOp_def
      rg_convert_def StatusNotFound_def StatusConflict_def rg_SetStatus_def go_bind_apply go_ret_apply Let_def
      zero_Group_def)

subsection \<open>An identity, a network and a traffic manager\<close>

definition demo_identity :: "string list \<Rightarrow> nat option \<Rightarrow> Identity" where
  "demo_identity finalizers deletion = \<lparr>TypeMeta = ''Identity'', ObjectMeta = demo_meta finalizers deletion,
     Spec = \<lparr>ids_Name = ''i'', ids_Location = ''westus2'', ids_ResourceGroup = ''rg'', ids_SubscriptionID = ''sub''\<rparr>,
     Status = zero_IdentityStatus\<rparr>"

text \<open>The world: whether the identity exists.\<close>

definition one_identity_sdk :: "bool identity_sdk" where
  "one_identity_sdk = \<lparr>
     id_sdk_Get = (\<lambda>cl rg n w. (Returns (zero_identity\<lparr>idr_Response := Some (if w then 200 else 404)\<rparr>,
        if w then None else Some (SdkError 404)), w)),
     id_sdk_CreateOrUpdate = (\<lambda>cl rg n spec w. (Returns (spec, None), True)),
     id_sdk_Delete = (\<lambda>cl rg n w. (Returns (Some 200, None), False))\<rparr>"

lemma one_identity_sdk_ok: "id_sdk_ok one_identity_sdk (\<lambda>sub key w. w)"
  unfolding id_sdk_ok_def one_identity_sdk_def by (auto intro!: tripleI)

definition demo_vnet :: "string list \<Rightarrow> string list \<Rightarrow> nat option \<Rightarrow> VirtualNetwork" where
  "demo_vnet prefixes finalizers deletion = \<lparr>TypeMeta = ''VirtualNetwork'', ObjectMeta = demo_meta finalizers deletion,
     Spec = \<lparr>vns_Name = ''v'', vns_Location = ''westus2'', vns_ResourceGroup = ''rg'', vns_SubscriptionID = ''sub'',
       vns_Addresses = prefixes\<rparr>,
     Status = zero_VirtualNetworkStatus\<rparr>"

definition demo_tm :: "string list \<Rightarrow> nat option \<Rightarrow> TrafficManager" where
  "demo_tm finalizers deletion = \<lparr>TypeMeta = ''TrafficManager'', ObjectMeta = demo_meta finalizers deletion,
     Spec = \<lparr>tms_Name = ''t'', tms_SubscriptionID = ''sub'', tms_ResourceGroup = ''rg'', tms_ProfileStatus = ''Enabled'',
       tms_TrafficRoutingMethod = ''Priority'', tms_Endpoints = None,
       tms_DNSConfig = \<lparr>dns_RelativeName = Some ''t'', dns_TTL = Some 30\<rparr>,
       tms_MonitorConfig = \<lparr>mc_Protocol = ''HTTP'', mc_Port = Some 80, mc_Path = Some ''/'',
         mc_IntervalInSeconds = Some 30, mc_TimeoutInSeconds = Some 10, mc_ToleratedNumberOfFailures = Some 3,
         mc_CustomHeaders = None, mc_ExpectedStatusCodeRanges = None\<rparr>\<rparr>,
     Status = zero_TrafficManagerStatus\<rparr>"

text \<open>A profile whose deletion is accepted and takes forever.\<close>

definition stuck_tm_sdk :: "bool tm_sdk" where
  "stuck_tm_sdk = \<lparr>
     tm_sdk_Get = (\<lambda>cl rg n w. (Returns (zero_tm_profile\<lparr>tmpr_Response := Some 200\<rparr>, None), w)),
     tm_sdk_CreateOrUpdate = (\<lambda>cl rg n spec w. (Returns None, True)),
     tm_sdk_Delete = (\<lambda>cl rg n w. (Returns None, w))\<rparr>"

definition tm_kube :: "(runtime_object option \<times> mgmt_client \<times> 'w) kube" where
  "tm_kube = kube_beside (one_object_kube (\<lambda>obj. kind_of obj = KTrafficManager))"

lemma tm_kube_serves: "kube_serves_tm tm_kube"
  unfolding kube_serves_tm_def tm_kube_def kube_beside_def one_object_kube_def on_fst_def
  by (auto split: option.splits prod.splits if_splits)

text \<open>The client of the traffic managers on its half of a state that the API server shares.\<close>

definition tm_beside :: "'c TrafficManagersClient \<Rightarrow> ('k \<times> 'c) TrafficManagersClient" where
  "tm_beside az = \<lparr>
     tmc_ForSubscription = (\<lambda>sub. on_snd (tmc_ForSubscription az sub)),
     tmc_Ensure = (\<lambda>local. on_snd (tmc_Ensure az local)),
     tmc_Delete = (\<lambda>local. on_snd (tmc_Delete az local)),
     tmc_GetProfileStatus = (\<lambda>local. on_snd (tmc_GetProfileStatus az local))\<rparr>"

subsection \<open>The command line tool\<close>

definition demo_factories :: factories where
  "demo_factories = \<lparr>f_groups = demo_factory, f_vnets = demo_factory, f_subnets = demo_factory,
     f_identities = demo_factory, f_vaults = demo_factory, f_balancers = demo_factory, f_nics = demo_factory,
     f_redis = demo_factory, f_servicebus = demo_factory, f_storage = demo_factory, f_sql = demo_factory,
     f_firewall = demo_factory, f_machines = demo_factory, f_disks = demo_factory, f_zones = demo_factory,
     f_profiles = demo_factory\<rparr>"

text \<open>The SDKs and the rendering of secrets are left open: the witnesses hold for all of them.\<close>

definition demo_tool :: "'w sdks \<Rightarrow> tls_lib \<Rightarrow> json_marshal \<Rightarrow> 'w tool" where
  "demo_tool S tls marshal = \<lparr>t_lib = std_lib, t_auth = demo_auth, t_tls = tls, t_marshal = marshal,
     t_uuid = Inr, t_intn = (\<lambda>n. go_ret 0), t_rand_Read = (\<lambda>n. go_ret (replicate n 0, None)),
     t_GetConfig = go_ret None, t_NewKubeclient = go_ret None, t_sdks = S, t_factories = demo_factories,
     bo_mgmt = patient_backoff, bo_vault = patient_backoff, bo_sql = patient_backoff, bo_vm = patient_backoff\<rparr>"

lemma demo_tool_simps [simp]:
  "t_lib (demo_tool S tls marshal) = std_lib" "t_auth (demo_tool S tls marshal) = demo_auth"
  "GetKubeclient (demo_tool S tls marshal) = go_ret None" "t_sdks (demo_tool S tls marshal) = S"
  "t_factories (demo_tool S tls marshal) = demo_factories" "bo_mgmt (demo_tool S tls marshal) = patient_backoff"
  by (simp_all add: demo_tool_def GetKubeclient_def go_bind_def go_ret_def)

definition demo_secret :: "string list \<Rightarrow> Secret" where
  "demo_secret finalizers = \<lparr>TypeMeta = ''Secret'', ObjectMeta = demo_meta finalizers None,
     Spec = \<lparr>secs_SecretIdentifier = \<lparr>si_Name = ''s'', si_Vault = ''v'', si_Kind = None, si_Reverse = False\<rparr>,
       secs_FriendlyName = None, secs_Location = None, secs_ResourceGroup = None, secs_SubscriptionID = None\<rparr>,
     Status = zero_SecretStatus\<rparr>"

text \<open>Two documents and a blank one.\<close>

definition demo_files :: "'w files" where
  "demo_files = \<lparr>fs_Stdin = go_ret \<lparr>yr_docs = [''a'', '' '', ''b''], yr_end = EndOfFile\<rparr>,
     fs_Abs = (\<lambda>p. go_ret (p, None)), fs_Open = (\<lambda>p. go_ret ((\<lparr>yr_docs = [], yr_end = EndOfFile\<rparr>, go_ret None), None)),
     fs_Decode = (\<lambda>doc. (ObjOther doc (demo_meta [] None), None))\<rparr>"

text \<open>A key vault that refuses every read.\<close>

definition locked_vault :: "'w vault_ops" where
  "locked_vault = \<lparr>vs_GetSecret = (\<lambda>c url n v. go_ret (None, Some (SdkError 403))),
     vs_GetCertificate = (\<lambda>c url n v. go_ret (None, Some (SdkError 403))), vs_DNSSuffix = ''vault.azure.net''\<rparr>"

text \<open>An API server that is the world of the client.\<close>

definition kube_in_world :: "'k kube \<Rightarrow> ('c \<times> 'k) kube" where
  "kube_in_world kb = \<lparr>
     kb_GVKForObject = kb_GVKForObject kb,
     kb_Accessor = kb_Accessor kb,
     kb_Get = (\<lambda>n k. on_snd (kb_Get kb n k)),
     kb_Update = (\<lambda>obj. on_snd (kb_Update kb obj)),
     kb_StatusUpdate = (\<lambda>obj. on_snd (kb_StatusUpdate kb obj)),
     kb_Delete = (\<lambda>obj. on_snd (kb_Delete kb obj)),
     kb_Event = (\<lambda>obj ty reason msg. on_snd (kb_Event kb obj ty reason msg))\<rparr>"

definition demo_options :: EnsureOptions where
  "demo_options = \<lparr>eo_File = ''-'', eo_Debug = False, eo_App = ''app'', eo_Key = ''key'', eo_Tenant = ''tenant''\<rparr>"

subsection \<open>Secrets, caches and servers\<close>

definition open_vault :: "string \<Rightarrow> 'w vault_ops" where
  "open_vault v = \<lparr>vs_GetSecret = (\<lambda>c url n ver. go_ret (Some v, None)),
     vs_GetCertificate = (\<lambda>c url n ver. go_ret (Some v, None)), vs_DNSSuffix = ''vault.azure.net''\<rparr>"

definition demo_redis :: Redis where
  "demo_redis = \<lparr>TypeMeta = ''Redis'', ObjectMeta = demo_meta [finalizerName] None,
     Spec = \<lparr>rds_Name = ''c'', rds_Location = ''westus2'', rds_ResourceGroup = ''rg'', rds_SubscriptionID = ''sub'',
       rds_SKU = \<lparr>rsku_Name = ''Basic'', rsku_Family = ''C'', rsku_Capacity = 1\<rparr>, rds_EnableNonSslPort = False,
       rds_TargetSecret = None, rds_PrimaryKey = None, rds_SecondaryKey = None\<rparr>,
     Status = zero_RedisStatus\<rparr>"

definition demo_rediskey :: RedisKey where
  "demo_rediskey = \<lparr>TypeMeta = ''RedisKey'', ObjectMeta = demo_meta [finalizerName] None,
     Spec = \<lparr>rks_Name = ''c'', rks_ResourceGroup = ''rg'', rks_SubscriptionID = ''sub'', rks_TargetSecret = ''keys'',
       rks_PrimaryKey = Some ''primary'', rks_SecondaryKey = None\<rparr>,
     Status = zero_RedisKeyStatus\<rparr>"

text \<open>A cache that is as wanted; the world does not matter.\<close>

definition ready_redis :: redis_resource where
  "ready_redis = \<lparr>rdr_Response = Some 200, rdr_ID = Some ''id'', rdr_Location = Some ''West US 2'',
     rdr_Properties = Some \<lparr>rdp_ProvisioningState = ''Succeeded'',
       rdp_Sku = Some \<lparr>rdsku_Name = ''Basic'', rdsku_Family = ''C'', rdsku_Capacity = Some 1\<rparr>,
       rdp_EnableNonSslPort = Some False\<rparr>\<rparr>"

definition ready_redis_sdk :: "string \<Rightarrow> 'w redis_sdk" where
  "ready_redis_sdk location = \<lparr>
     rd_sdk_Get = (\<lambda>cl rg n. go_ret (ready_redis\<lparr>rdr_Location := Some location\<rparr>, None)),
     rd_sdk_Create = (\<lambda>cl rg n params. go_ret None),
     rd_sdk_ListKeys = (\<lambda>cl rg n. go_ret (\<lparr>rdk_PrimaryKey = Some ''k1'', rdk_SecondaryKey = Some ''k2''\<rparr>, None)),
     rd_sdk_Delete = (\<lambda>cl rg n. go_ret (Some 202, None))\<rparr>"

definition writing_redis_sdk :: "redis_params list redis_sdk" where
  "writing_redis_sdk = (ready_redis_sdk ''westus2'')\<lparr>
     rd_sdk_Create := \<lambda>cl rg n params ws. (Returns None, params # ws)\<rparr>"

definition demo_sql :: SQLServer where
  "demo_sql = \<lparr>TypeMeta = ''SQLServer'', ObjectMeta = demo_meta [finalizerName] None,
     Spec = \<lparr>sqls_Name = ''srv'', sqls_Location = ''westus2'', sqls_ResourceGroup = ''rg'', sqls_SubscriptionID = ''sub'',
       sqls_AllowAzureServiceAccess = Some True\<rparr>,
     Status = zero_SQLServerStatus\<rparr>"

text \<open>The server is missing and its creation is refused.\<close>

definition refusing_sql_sdk :: "'w sql_sdk" where
  "refusing_sql_sdk = \<lparr>
     sql_sdk_Get = (\<lambda>cl rg n. go_ret (sql_NewSpec\<lparr>sqlr_Response := Some 404\<rparr>, Some (SdkError 404))),
     sql_sdk_Update = (\<lambda>cl rg n p. go_ret (SqlFuture 0, Some (SdkError 409))),
     sql_sdk_CreateOrUpdate = (\<lambda>cl rg n spec. go_ret (SqlFuture 0, Some (SdkError 409))),
     sql_sdk_Delete = (\<lambda>cl rg n. go_ret (SqlFuture 0, Some (SdkError 409))),
     sql_sdk_Wait = (\<lambda>f cl. go_ret None),
     sql_rand_Read = (\<lambda>n. go_ret (replicate n 0, None)),
     sql_own_rule = (\<lambda>m r. (r, None))\<rparr>"

definition demo_nic :: NetworkInterface where
  "demo_nic = \<lparr>TypeMeta = ''NetworkInterface'', ObjectMeta = demo_meta [finalizerName] None,
     Spec = \<lparr>nis_Name = ''n'', nis_Location = ''westus2'', nis_ResourceGroup = ''rg'', nis_SubscriptionID = ''sub'',
       nis_Network = ''v'', nis_Subnet = ''s'',
       nis_IPConfigurations = Some (replicate 3 \<lparr>iic_PublicIP = None, iic_PrivateIP = None, iic_LoadBalancers = None\<rparr>)\<rparr>,
     Status = zero_NetworkInterfaceStatus\<rparr>"

subsection \<open>Deletions that take their time\<close>

text \<open>The world is the number of polls until the resource is gone.\<close>

definition polled_delete :: "(nat, http_response \<times> go_error option) go" where
  "polled_delete w = (Returns (Some 202, None), w)"

definition polled_answer :: "'r \<Rightarrow> 'r \<Rightarrow> (nat, 'r \<times> go_error option) go" where
  "polled_answer there gone w =
     (if w = 0 then (Returns (gone, Some (SdkError 404)), 0) else (Returns (there, None), w - 1))"

lemma agent_ok_demo: "agent_ok demo_auth"
  by (simp add: agent_ok_def demo_auth_def)

lemma polled_answer_ok:
  assumes "response there \<noteq> Some StatusNotFound" "response gone = Some StatusNotFound"
  shows "polls_deletion polled_delete (polled_answer there gone) response (\<lambda>w. w)"
  using assms by (simp add: polls_deletion_def polled_delete_def polled_answer_def accepted_def)

text \<open>Any SDK with these two calls.\<close>

definition polled_group_sdk :: "nat rg_sdk \<Rightarrow> nat rg_sdk" where
  "polled_group_sdk S = S\<lparr>rg_Delete := \<lambda>cl n. polled_delete,
     rg_Get := \<lambda>cl n. polled_answer (zero_Group\<lparr>grp_Response := Some 200\<rparr>) (zero_Group\<lparr>grp_Response := Some 404\<rparr>)\<rparr>"

definition polled_vnet_sdk :: "nat vnet_sdk \<Rightarrow> nat vnet_sdk" where
  "polled_vnet_sdk S = S\<lparr>vn_sdk_Delete := \<lambda>cl rg n. polled_delete,
     vn_sdk_Get := \<lambda>cl rg n expand. polled_answer (zero_vnet\<lparr>vnet_Response := Some 200\<rparr>) (zero_vnet\<lparr>vnet_Response := Some 404\<rparr>)\<rparr>"

definition polled_subnet_sdk :: "nat subnet_sdk \<Rightarrow> nat subnet_sdk" where
  "polled_subnet_sdk S = S\<lparr>sn_sdk_Delete := \<lambda>cl rg network n. polled_delete,
     sn_sdk_Get := \<lambda>cl rg network n expand. polled_answer (zero_subnet\<lparr>sn_Response := Some 200\<rparr>) (zero_subnet\<lparr>sn_Response := Some 404\<rparr>)\<rparr>"

definition polled_nic_sdk :: "nat nic_sdk \<Rightarrow> nat nic_sdk" where
  "polled_nic_sdk S = S\<lparr>nic_sdk_Delete := \<lambda>cl rg n. polled_delete,
     nic_sdk_Get := \<lambda>cl rg n expand. polled_answer (zero_nic\<lparr>nicr_Response := Some 200\<rparr>) (zero_nic\<lparr>nicr_Response := Some 404\<rparr>)\<rparr>"

definition polled_publicip_sdk :: "nat publicip_sdk \<Rightarrow> nat publicip_sdk" where
  "polled_publicip_sdk S = S\<lparr>pip_sdk_Delete := \<lambda>cl rg n. polled_delete,
     pip_sdk_Get := \<lambda>cl rg n expand. polled_answer (zero_publicip\<lparr>pipr_Response := Some 200\<rparr>) (zero_publicip\<lparr>pipr_Response := Some 404\<rparr>)\<rparr>"

definition polled_sg_sdk :: "nat sg_sdk \<Rightarrow> nat sg_sdk" where
  "polled_sg_sdk S = S\<lparr>sg_sdk_Delete := \<lambda>cl rg n. polled_delete,
     sg_sdk_Get := \<lambda>cl rg n expand. polled_answer (zero_security_group\<lparr>sgr_Response := Some 200\<rparr>) (zero_security_group\<lparr>sgr_Response := Some 404\<rparr>)\<rparr>"

definition polled_lb_sdk :: "nat lb_sdk \<Rightarrow> nat lb_sdk" where
  "polled_lb_sdk S = S\<lparr>lb_sdk_Delete := \<lambda>cl rg n. polled_delete,
     lb_sdk_Get := \<lambda>cl rg n expand. polled_answer (zero_load_balancer\<lparr>lb_Response := Some 200\<rparr>) (zero_load_balancer\<lparr>lb_Response := Some 404\<rparr>)\<rparr>"

definition polled_redis_sdk :: "nat redis_sdk \<Rightarrow> nat redis_sdk" where
  "polled_redis_sdk S = S\<lparr>rd_sdk_Delete := \<lambda>cl rg n. polled_delete,
     rd_sdk_Get := \<lambda>cl rg n. polled_answer (ready_redis\<lparr>rdr_Response := Some 200\<rparr>) (ready_redis\<lparr>rdr_Response := Some 404\<rparr>)\<rparr>"

definition polled_sb_sdk :: "nat sb_sdk \<Rightarrow> nat sb_sdk" where
  "polled_sb_sdk S = S\<lparr>sb_sdk_Delete := \<lambda>cl rg n. polled_delete,
     sb_sdk_Get := \<lambda>cl rg n. polled_answer (zero_sb_namespace\<lparr>sbr_Response := Some 200\<rparr>) (zero_sb_namespace\<lparr>sbr_Response := Some 404\<rparr>)\<rparr>"

lemmas polled_sdk_defs = polled_group_sdk_def polled_vnet_sdk_def polled_subnet_sdk_def polled_nic_sdk_def polled_publicip_sdk_def
  polled_sg_sdk_def polled_lb_sdk_def polled_redis_sdk_def polled_sb_sdk_def

lemma polled_sdks_ok:
  "polls_deletion (rg_Delete (polled_group_sdk S1) cl n) (rg_Get (polled_group_sdk S1) cl n) grp_Response (\<lambda>w. w)"
  "polls_deletion (vn_sdk_Delete (polled_vnet_sdk S2) cl rg n) (vn_sdk_Get (polled_vnet_sdk S2) cl rg n '''') vnet_Response (\<lambda>w. w)"
  "polls_deletion (sn_sdk_Delete (polled_subnet_sdk S3) cl rg network n) (sn_sdk_Get (polled_subnet_sdk S3) cl rg network n '''') sn_Response (\<lambda>w. w)"
  "polls_deletion (nic_sdk_Delete (polled_nic_sdk S4) cl rg n) (nic_sdk_Get (polled_nic_sdk S4) cl rg n '''') nicr_Response (\<lambda>w. w)"
  "polls_deletion (pip_sdk_Delete (polled_publicip_sdk S5) cl rg n) (pip_sdk_Get (polled_publicip_sdk S5) cl rg n '''') pipr_Response (\<lambda>w. w)"
  "polls_deletion (sg_sdk_Delete (polled_sg_sdk S6) cl rg n) (sg_sdk_Get (polled_sg_sdk S6) cl rg n '''') sgr_Response (\<lambda>w. w)"
  "polls_deletion (lb_sdk_Delete (polled_lb_sdk S7) cl rg n) (lb_sdk_Get (polled_lb_sdk S7) cl rg n '''') lb_Response (\<lambda>w. w)"
  "polls_deletion (rd_sdk_Delete (polled_redis_sdk S8) cl rg n) (rd_sdk_Get (polled_redis_sdk S8) cl rg n) rdr_Response (\<lambda>w. w)"
  "polls_deletion (sb_sdk_Delete (polled_sb_sdk S9) cl rg n) (sb_sdk_Get (polled_sb_sdk S9) cl rg n) sbr_Response (\<lambda>w. w)"
  by (simp_all add: polled_sdk_defs polled_answer_ok StatusNotFound_def)

text \<open>A resource that is provisioned after two polls.\<close>

definition stored_group :: "string option \<times> string option \<Rightarrow> nat \<Rightarrow> Group" where
  "stored_group v n = zero_Group\<lparr>grp_Response := Some 200, grp_Name := fst v, grp_Location := snd v,
     grp_Properties := Some (Some (if n = 0 then ''Succeeded'' else ''Creating''))\<rparr>"

definition storing_group_sdk :: "((string option \<times> string option) \<times> nat) option rg_sdk" where
  "storing_group_sdk = \<lparr>
     rg_Get = (\<lambda>cl n w. case w of
         None \<Rightarrow> (Returns (zero_Group\<lparr>grp_Response := Some 404\<rparr>, Some (SdkError 404)), None)
       | Some (v, n) \<Rightarrow> (Returns (stored_group v n, None), Some (v, n - 1))),
     rg_CreateOrUpdate = (\<lambda>cl n g w. (Returns (g, None), Some (grp_values g, 2))),
     rg_Delete = (\<lambda>cl n w. (Returns (Some 202, None), None))\<rparr>"

definition stored_subnet :: "string option \<times> string option \<Rightarrow> nat \<Rightarrow> subnet" where
  "stored_subnet v n = zero_subnet\<lparr>sn_Response := Some 200, sn_Name := fst v,
     sn_Properties := Some \<lparr>snp_AddressPrefix = snd v,
       snp_ProvisioningState = Some (if n = 0 then ''Succeeded'' else ''Updating'')\<rparr>\<rparr>"

definition storing_subnet_sdk :: "((string option \<times> string option) \<times> nat) option subnet_sdk" where
  "storing_subnet_sdk = \<lparr>
     sn_sdk_Get = (\<lambda>cl rg network n expand w. case w of
         None \<Rightarrow> (Returns (zero_subnet\<lparr>sn_Response := Some 404\<rparr>, Some (SdkError 404)), None)
       | Some (v, n) \<Rightarrow> (Returns (stored_subnet v n, None), Some (v, n - 1))),
     sn_sdk_CreateOrUpdate = (\<lambda>cl rg network n spec w. (Returns None, Some (sn_values spec, 2))),
     sn_sdk_Delete = (\<lambda>cl rg network n w. (Returns (Some 202, None), None))\<rparr>"

lemma storing_sdks_ok:
  "stores (rg_Get storing_group_sdk cl name) (rg_put storing_group_sdk name cl) grp_Response grp_state grp_values 2 (\<lambda>w. w)"
  "stores (sn_sdk_Get storing_subnet_sdk cl rgn network name expand) (sn_sdk_CreateOrUpdate storing_subnet_sdk cl rgn network name)
     sn_Response sn_State sn_values 2 (\<lambda>w. w)"
  by (auto simp: stores_def storing_group_sdk_def storing_subnet_sdk_def stored_group_def stored_subnet_def rg_put_def
      go_bind_apply go_ret_apply grp_values_def grp_state_def sn_values_def sn_State_def sn_Address_def StatusNotFound_def
      split: option.split)

text \<open>The other services: a world in which one resource is stored with the values of the last write.\<close>

definition storing_get :: "'r \<Rightarrow> ('v \<Rightarrow> string \<Rightarrow> 'r) \<Rightarrow> ('v polled_state, 'r \<times> go_error option) go" where
  "storing_get missing resource w = (case w of
       None \<Rightarrow> (Returns (missing, Some (SdkError 404)), None)
     | Some (v, n) \<Rightarrow> (Returns (resource v (if n = 0 then ''Succeeded'' else ''Updating''), None), Some (v, n - 1)))"

definition storing_put :: "('r \<Rightarrow> 'v) \<Rightarrow> 'r \<Rightarrow> ('v polled_state, go_error option) go" where
  "storing_put values spec w = (Returns None, Some (values spec, 2))"

lemma storing_ok:
  assumes "response missing = Some 404" "\<And>v st. response (resource v st) = Some 200"
    and "\<And>v st. state (resource v st) = Some st" "\<And>v st. values (resource v st) = v"
  shows "stores (storing_get missing resource) (storing_put values) response state values 2 (\<lambda>w. w)"
  using assms by (auto simp: stores_def storing_get_def storing_put_def StatusNotFound_def split: option.split)

definition storing_vnet_sdk ::
  "(string option \<times> string option \<times> string list option) polled_state vnet_sdk \<Rightarrow>
   (string option \<times> string option \<times> string list option) polled_state vnet_sdk" where
  "storing_vnet_sdk S = S\<lparr>
     vn_sdk_Get := \<lambda>cl rg n expand. storing_get (zero_vnet\<lparr>vnet_Response := Some 404\<rparr>)
       (\<lambda>(n, l, ps) st. zero_vnet\<lparr>vnet_Response := Some 200, vnet_Name := n, vnet_Location := l,
          vnet_Properties := Some (zero_vnet_properties\<lparr>vnp_AddressSpace := Some ps, vnp_ProvisioningState := Some st\<rparr>)\<rparr>),
     vn_sdk_CreateOrUpdate := \<lambda>cl rg n. storing_put vn_values\<rparr>"

definition storing_nic_sdk ::
  "(string option \<times> nic_ipconfig list option) polled_state nic_sdk \<Rightarrow>
   (string option \<times> nic_ipconfig list option) polled_state nic_sdk" where
  "storing_nic_sdk S = S\<lparr>
     nic_sdk_Get := \<lambda>cl rg n expand. storing_get (zero_nic\<lparr>nicr_Response := Some 404\<rparr>)
       (\<lambda>(l, cs) st. zero_nic\<lparr>nicr_Response := Some 200, nicr_Location := l,
          nicr_Properties := Some \<lparr>nicp_ProvisioningState = Some st, nicp_IPConfigurations = cs\<rparr>\<rparr>),
     nic_sdk_CreateOrUpdate := \<lambda>cl rg n. storing_put nic_values\<rparr>"

definition storing_sb_sdk ::
  "(sb_sku option \<times> string option) polled_state sb_sdk \<Rightarrow> (sb_sku option \<times> string option) polled_state sb_sdk" where
  "storing_sb_sdk S = S\<lparr>
     sb_sdk_Get := \<lambda>cl rg n. storing_get (zero_sb_namespace\<lparr>sbr_Response := Some 404\<rparr>)
       (\<lambda>(sku, l) st. zero_sb_namespace\<lparr>sbr_Response := Some 200, sbr_Sku := sku, sbr_Location := l,
          sbr_Properties := Some (Some st)\<rparr>),
     sb_sdk_CreateOrUpdate := \<lambda>cl rg n. storing_put sb_values\<rparr>"

lemma more_storing_sdks_ok:
  "stores (vn_sdk_Get (storing_vnet_sdk S1) cl rgn name expand) (vn_sdk_CreateOrUpdate (storing_vnet_sdk S1) cl rgn name)
     vnet_Response vn_State vn_values 2 (\<lambda>w. w)"
  "stores (nic_sdk_Get (storing_nic_sdk S2) cl rgn name expand) (nic_sdk_CreateOrUpdate (storing_nic_sdk S2) cl rgn name)
     nicr_Response nic_state nic_values 2 (\<lambda>w. w)"
  "stores (sb_sdk_Get (storing_sb_sdk S3) cl rgn name) (sb_sdk_CreateOrUpdate (storing_sb_sdk S3) cl rgn name)
     sbr_Response sb_state sb_values 2 (\<lambda>w. w)"
  unfolding storing_vnet_sdk_def storing_nic_sdk_def storing_sb_sdk_def
  by (auto intro!: storing_ok simp: vn_State_def vn_values_def vn_Addresses_def nic_state_def nic_values_def sb_state_def
      sb_values_def split: prod.splits)

subsection \<open>One resource of each kind\<close>

text \<open>The world says whether it exists.\<close>

definition status_of :: "bool \<Rightarrow> http_response" where
  "status_of w = Some (if w then 200 else 404)"

definition one_vnet_sdk :: "bool vnet_sdk" where
  "one_vnet_sdk = \<lparr>
     vn_sdk_Get = (\<lambda>cl rg n expand w. (Returns (zero_vnet\<lparr>vnet_Response := status_of w\<rparr>, None), w)),
     vn_sdk_CreateOrUpdate = (\<lambda>cl rg n spec w. (Returns None, True)),
     vn_sdk_Delete = (\<lambda>cl rg n w. (Returns (Some 202, None), False))\<rparr>"

definition one_nic_sdk :: "bool nic_sdk" where
  "one_nic_sdk = \<lparr>
     nic_sdk_Get = (\<lambda>cl rg n expand w. (Returns (zero_nic\<lparr>nicr_Response := status_of w\<rparr>, None), w)),
     nic_sdk_CreateOrUpdate = (\<lambda>cl rg n spec w. (Returns None, True)),
     nic_sdk_Delete = (\<lambda>cl rg n w. (Returns (Some 202, None), False))\<rparr>"

definition one_publicip_sdk :: "bool publicip_sdk" where
  "one_publicip_sdk = \<lparr>
     pip_sdk_Get = (\<lambda>cl rg n expand w. (Returns (zero_publicip\<lparr>pipr_Response := status_of w\<rparr>, None), w)),
     pip_sdk_CreateOrUpdate = (\<lambda>cl rg n spec w. (Returns (Some 201, None), True)),
     pip_sdk_Delete = (\<lambda>cl rg n w. (Returns (Some 202, None), False))\<rparr>"

definition one_sg_sdk :: "bool sg_sdk" where
  "one_sg_sdk = \<lparr>
     sg_sdk_Get = (\<lambda>cl rg n expand w. (Returns (zero_security_group\<lparr>sgr_Response := status_of w\<rparr>, None), w)),
     sg_sdk_CreateOrUpdate = (\<lambda>cl rg n spec w. (Returns (Some 201, None), True)),
     sg_sdk_Delete = (\<lambda>cl rg n w. (Returns (Some 202, None), False))\<rparr>"

definition one_lb_sdk :: "bool lb_sdk" where
  "one_lb_sdk = \<lparr>
     lb_sdk_Get = (\<lambda>cl rg n expand w. (Returns (zero_load_balancer\<lparr>lb_Response := status_of w\<rparr>, None), w)),
     lb_sdk_CreateOrUpdate = (\<lambda>cl rg n spec w. (Returns None, True)),
     lb_sdk_Delete = (\<lambda>cl rg n w. (Returns (Some 202, None), False)),
     lb_cmp_Equal = (=)\<rparr>"

lemma one_resource_sdks_ok:
  "vn_sdk_ok one_vnet_sdk (\<lambda>sub key w. w)" "nic_sdk_ok one_nic_sdk (\<lambda>sub key w. w)"
  "pip_sdk_ok one_publicip_sdk (\<lambda>sub key w. w)" "sg_sdk_ok one_sg_sdk (\<lambda>sub key w. w)"
  "lb_sdk_ok one_lb_sdk (\<lambda>sub key w. w)"
  unfolding vn_sdk_ok_def nic_sdk_ok_def pip_sdk_ok_def sg_sdk_ok_def lb_sdk_ok_def
    one_vnet_sdk_def one_nic_sdk_def one_publicip_sdk_def one_sg_sdk_def one_lb_sdk_def
  by (auto intro!: tripleI simp: status_of_def StatusNotFound_def split: if_splits)

subsection \<open>An object in memory\<close>

text \<open>A resource group with a finalizer and a state behind pointers; its metadata are cut down to two fields.\<close>

definition demo_k8s :: k8s_meta where
  "demo_k8s = \<lparr>
     object_meta_type = TStruct [(''Name'', TScalar), (''Finalizers'', TSlice TScalar)],
     object_meta_copy = copy_struct [(''Finalizers'', copy_slice go_ret)],
     list_meta_type = TStruct [(''Continue'', TScalar)],
     list_meta_copy = copy_struct []\<rparr>"

lemma k8s_meta_ok_demo: "k8s_meta_ok demo_k8s"
  by (simp add: k8s_meta_ok_def demo_k8s_def copies field_ok_def)

definition demo_group_value :: gval where
  "demo_group_value = Struct [
     (''TypeMeta'', Struct [(''Kind'', Scalar (GoString ''ResourceGroup'')), (''APIVersion'', Scalar (GoString ''v1alpha1''))]),
     (''ObjectMeta'', Struct [(''Name'', Scalar (GoString ''rg'')), (''Finalizers'', Slice (Some [2]))]),
     (''Spec'', Struct [(''Name'', Scalar (GoString ''rg'')), (''Location'', Scalar (GoString ''westus2'')),
       (''SubscriptionID'', Scalar (GoString ''sub''))]),
     (''Status'', Struct [(''ProvisioningState'', Ptr (Some 3)), (''ID'', Ptr None),
       (''ObservedGeneration'', Scalar (GoInt 1))])]"

definition demo_memory :: memory where
  "demo_memory = \<lparr>next_addr = 4, cell = (\<lambda>a. if a = 1 then demo_group_value
     else if a = 2 then Scalar (GoString ''finalizer'') else Scalar (GoString ''Succeeded''))\<rparr>"

lemma demo_memory_group:
  "deep demo_memory (TPtr (ResourceGroup_type demo_k8s)) (Ptr (Some 1)) \<noteq> None"
  "reach demo_memory (TPtr (ResourceGroup_type demo_k8s)) (Ptr (Some 1)) = {1, 2, 3}"
  by (auto simp: demo_memory_def demo_group_value_def ResourceGroup_type_def demo_k8s_def TypeMeta_type_def
      ResourceGroupSpec_type_def ResourceGroupStatus_type_def)

subsection \<open>Two firewall rules\<close>

text \<open>The world is the subscriptions with a rule of that name; the server knows a second object.\<close>

definition demo_rule :: "string \<Rightarrow> SQLFirewallRule" where
  "demo_rule sub = \<lparr>TypeMeta = ''SQLFirewallRule'', ObjectMeta = demo_meta [finalizerName] (Some 5),
     Spec = \<lparr>fws_Name = ''r'', fws_Server = ''s'', fws_ResourceGroup = ''rg'', fws_SubscriptionID = sub,
       fws_Start = ''10.0.0.1'', fws_End = ''10.0.0.2''\<rparr>, Status = zero_SQLFirewallRuleStatus\<rparr>"

definition rules_sdk :: "string option set firewall_sdk" where
  "rules_sdk = \<lparr>
     fw_sdk_Get = (\<lambda>cl rg server n w. (Returns (fw_NewSpec, None), w)),
     fw_sdk_CreateOrUpdate = (\<lambda>cl rg server n rule w. (Returns None, insert (sdk_Subscription cl) w)),
     fw_sdk_Delete = (\<lambda>cl rg server n w. (Returns None, w - {sdk_Subscription cl}))\<rparr>"

definition two_objects_kube :: "namespaced_name \<Rightarrow> runtime_object \<Rightarrow> runtime_object option kube" where
  "two_objects_kube other obj = (one_object_kube (\<lambda>_. True))\<lparr>
     kb_Get := \<lambda>req k. if req = other then go_ret (obj, None) else kb_Get (one_object_kube (\<lambda>_. True)) req k\<rparr>"

lemma rules_ok:
  "deletes_own (\<lambda>cl. go_bind (fw_sdk_Delete rules_sdk cl rg server name) (\<lambda>err. go_ret (None, err))) (\<in>)"
  by (auto simp: deletes_own_def rules_sdk_def go_bind_apply go_ret_apply)

lemma two_objects_kube_serves: "req \<noteq> other \<Longrightarrow> api_server_serves (two_objects_kube other obj) req k (\<lambda>s. s)"
  unfolding api_server_serves_def two_objects_kube_def one_object_kube_def by simp

text \<open>Synchronous services which accept every deletion.\<close>

definition accepting_identity_sdk :: "'w identity_sdk \<Rightarrow> 'w identity_sdk" where
  "accepting_identity_sdk S = S\<lparr>id_sdk_Delete := \<lambda>cl rg n. go_ret (Some 200, None)\<rparr>"

definition accepting_vault_sdk :: "'w vault_sdk \<Rightarrow> 'w vault_sdk" where
  "accepting_vault_sdk S = S\<lparr>kv_sdk_Delete := \<lambda>cl rg n. go_ret (Some 200, None)\<rparr>"

lemma accepting_sdks_ok:
  "accepts_deletion (id_sdk_Delete (accepting_identity_sdk T1) cl rg n)"
  "accepts_deletion (kv_sdk_Delete (accepting_vault_sdk T2) cl rg n)"
  "accepts_deletion (go_bind (fw_sdk_Delete rules_sdk cl rg server n) (\<lambda>err. go_ret (None, err)))"
  by (simp_all add: accepts_deletion_def accepting_identity_sdk_def accepting_vault_sdk_def rules_sdk_def go_ret_apply
      go_bind_apply)

end
