(* ===== verification/Demo_Manager.thy ===== *)
theory Demo_Manager imports Manager_System Demo begin

section \<open>A small cloud for the manager\<close>

text \<open>
  An API server with many objects and an Azure with groups and networks, in one world.  The API
  server has admitted an object only under the keys of a table, with the specs the table allows.
\<close>

record cloud =
  cl_objects :: "runtime_object list"
  cl_groups :: "(string option \<times> string) list"
  cl_networks :: "(string option \<times> string \<times> string) list"

definition same_key :: "runtime_object \<Rightarrow> runtime_object \<Rightarrow> bool" where
  "same_key obj old \<longleftrightarrow> object_at (kind_of obj) (key_of obj) old"

definition no_object :: runtime_object where
  "no_object = ObjOther [] \<lparr>om_Name = [], om_Namespace = [], om_UID = [], om_Finalizers = [], om_DeletionTimestamp = None\<rparr>"

definition cloud_kube :: "(namespaced_name \<Rightarrow> runtime_object \<Rightarrow> bool) \<Rightarrow> cloud kube" where
  "cloud_kube admitted = \<lparr>
     kb_GVKForObject = (\<lambda>k. None),
     kb_Accessor = (\<lambda>obj. None),
     kb_Get = (\<lambda>n k w. (case find (\<lambda>obj. object_at k n obj \<and> admitted n obj) (cl_objects w) of
         Some obj \<Rightarrow> (Returns (obj, None), w)
       | None \<Rightarrow> (Returns (no_object, Some (ApiError 404)), w))),
     kb_Update = (\<lambda>obj w.
         if \<not> list_ex (same_key obj) (cl_objects w) then (Returns (obj, Some (ApiError 404)), w)
         else if deleting obj \<and> om_Finalizers (obj_meta obj) = []
         then (Returns (obj, None), w\<lparr>cl_objects := filter (\<lambda>old. \<not> same_key obj old) (cl_objects w)\<rparr>)
         else (Returns (obj, None), w\<lparr>cl_objects := map (\<lambda>old. if same_key obj old then obj else old) (cl_objects w)\<rparr>)),
     kb_StatusUpdate = (\<lambda>obj w.
         (Returns (obj, None), w\<lparr>cl_objects := map (\<lambda>old. if same_key obj old \<and> obj_meta obj = obj_meta old then obj
            else old) (cl_objects w)\<rparr>)),
     kb_Delete = (\<lambda>obj w. (Returns None, w)),
     kb_Event = (\<lambda>obj ty reason msg w. (Returns (), w))\<rparr>"

definition cloud_finalizer :: "kind \<Rightarrow> namespaced_name \<Rightarrow> cloud \<Rightarrow> bool" where
  "cloud_finalizer k n w \<longleftrightarrow> list_ex (\<lambda>obj. object_at k n obj \<and> has_finalizer obj) (cl_objects w)"

definition cloud_group :: "string option \<Rightarrow> string \<Rightarrow> cloud \<Rightarrow> bool" where
  "cloud_group sub name w \<longleftrightarrow> (sub, name) \<in> set (cl_groups w)"

definition cloud_groups_sdk :: "cloud rg_sdk" where
  "cloud_groups_sdk = \<lparr>
     rg_Get = (\<lambda>cl n w. if cloud_group (sdk_Subscription cl) n w then (Returns (zero_Group\<lparr>grp_Response := Some 200\<rparr>, None), w)
        else (Returns (zero_Group\<lparr>grp_Response := Some 404\<rparr>, Some (SdkError 404)), w)),
     rg_CreateOrUpdate = (\<lambda>cl n g w. (Returns (g, None), w\<lparr>cl_groups := (sdk_Subscription cl, n) # cl_groups w\<rparr>)),
     rg_Delete = (\<lambda>cl n w. (Returns (Some 202, None),
        w\<lparr>cl_groups := filter (\<lambda>g. g \<noteq> (sdk_Subscription cl, n)) (cl_groups w)\<rparr>))\<rparr>"

definition cloud_networks_sdk :: "cloud vnet_sdk" where
  "cloud_networks_sdk = \<lparr>
     vn_sdk_Get = (\<lambda>cl rg n e w. (Returns (zero_vnet\<lparr>vnet_Response := Some 404\<rparr>, Some (SdkError 404)), w)),
     vn_sdk_CreateOrUpdate = (\<lambda>cl rg n v w. (Returns None, w\<lparr>cl_networks := (sdk_Subscription cl, rg, n) # cl_networks w\<rparr>)),
     vn_sdk_Delete = (\<lambda>cl rg n w. (Returns (Some 202, None), w))\<rparr>"

text \<open>The services that no object of the example uses do not answer at all.\<close>

definition cloud_sdks :: "cloud sdks" where
  "cloud_sdks = \<lparr>
     s_groups = cloud_groups_sdk, s_vnets = cloud_networks_sdk,
     s_subnets = \<lparr>sn_sdk_Get = (\<lambda>_ _ _ _ _. go_panic), sn_sdk_CreateOrUpdate = (\<lambda>_ _ _ _ _. go_panic),
       sn_sdk_Delete = (\<lambda>_ _ _ _. go_panic)\<rparr>,
     s_identities = \<lparr>id_sdk_Get = (\<lambda>_ _ _. go_panic), id_sdk_CreateOrUpdate = (\<lambda>_ _ _ _. go_panic), id_sdk_Delete = (\<lambda>_ _ _. go_panic)\<rparr>,
     s_vaults = \<lparr>kv_sdk_Get = (\<lambda>_ _ _. go_panic), kv_sdk_CreateOrUpdate = (\<lambda>_ _ _ _. go_panic), kv_sdk_Delete = (\<lambda>_ _ _. go_panic)\<rparr>,
     s_balancers = \<lparr>lb_sdk_Get = (\<lambda>_ _ _ _. go_panic), lb_sdk_CreateOrUpdate = (\<lambda>_ _ _ _. go_panic),
       lb_sdk_Delete = (\<lambda>_ _ _. go_panic), lb_cmp_Equal = (=)\<rparr>,
     s_nics = \<lparr>nic_sdk_Get = (\<lambda>_ _ _ _. go_panic), nic_sdk_CreateOrUpdate = (\<lambda>_ _ _ _. go_panic), nic_sdk_Delete = (\<lambda>_ _ _. go_panic)\<rparr>,
     s_redis = \<lparr>rd_sdk_Get = (\<lambda>_ _ _. go_panic), rd_sdk_Create = (\<lambda>_ _ _ _. go_panic), rd_sdk_ListKeys = (\<lambda>_ _ _. go_panic),
       rd_sdk_Delete = (\<lambda>_ _ _. go_panic)\<rparr>,
     s_servicebus = \<lparr>sb_sdk_Get = (\<lambda>_ _ _. go_panic), sb_sdk_CreateOrUpdate = (\<lambda>_ _ _ _. go_panic),
       sb_sdk_ListKeys = (\<lambda>_ _ _ _. go_panic), sb_sdk_Delete = (\<lambda>_ _ _. go_panic)\<rparr>,
     s_storage = \<lparr>st_sdk_GetProperties = (\<lambda>_ _ _. go_panic), st_sdk_Create = (\<lambda>_ _ _ _. go_panic),
       st_sdk_Update = (\<lambda>_ _ _ _. go_panic), st_sdk_ListKeys = (\<lambda>_ _ _. go_panic), st_sdk_Delete = (\<lambda>_ _ _. go_panic)\<rparr>,
     s_sql = \<lparr>sql_sdk_Get = (\<lambda>_ _ _. go_panic), sql_sdk_Update = (\<lambda>_ _ _ _. go_panic),
       sql_sdk_CreateOrUpdate = (\<lambda>_ _ _ _. go_panic), sql_sdk_Delete = (\<lambda>_ _ _. go_panic), sql_sdk_Wait = (\<lambda>_ _. go_panic),
       sql_rand_Read = (\<lambda>_. go_panic), sql_own_rule = (\<lambda>m r. (r, None))\<rparr>,
     s_firewall = \<lparr>fw_sdk_Get = (\<lambda>_ _ _ _. go_panic), fw_sdk_CreateOrUpdate = (\<lambda>_ _ _ _ _. go_panic), fw_sdk_Delete = (\<lambda>_ _ _ _. go_panic)\<rparr>,
     s_machines = \<lparr>vm_sdk_Get = (\<lambda>_ _ _ _. go_panic), vm_sdk_CreateOrUpdate = (\<lambda>_ _ _ _. go_panic), vm_sdk_Delete = (\<lambda>_ _ _. go_panic)\<rparr>,
     s_disks = \<lparr>dk_sdk_Get = (\<lambda>_ _ _. go_panic), dk_sdk_Delete = (\<lambda>_ _ _. go_panic)\<rparr>,
     s_zones = \<lparr>zn_sdk_ListComplete = (\<lambda>_. go_panic), zn_sdk_NextWithContext = (\<lambda>_. go_panic)\<rparr>,
     s_profiles = \<lparr>tm_sdk_Get = (\<lambda>_ _ _. go_panic), tm_sdk_CreateOrUpdate = (\<lambda>_ _ _ _. go_panic), tm_sdk_Delete = (\<lambda>_ _ _. go_panic)\<rparr>,
     s_secrets = \<lparr>vs_GetSecret = (\<lambda>_ _ _ _. go_panic), vs_GetCertificate = (\<lambda>_ _ _ _. go_panic), vs_DNSSuffix = ''vault.azure.net''\<rparr>,
     s_kube = \<lparr>so_Get = (\<lambda>_ _. go_panic), so_Create = (\<lambda>_. go_panic), so_CreateOrUpdate = (\<lambda>_ _. go_panic),
       so_Delete = (\<lambda>_. go_panic), so_SetControllerReference = (\<lambda>_. go_ret None)\<rparr>\<rparr>"

definition cloud_network_sdks :: "cloud network_sdks" where
  "cloud_network_sdks = \<lparr>
     n_security = \<lparr>sg_sdk_Get = (\<lambda>_ _ _ _. go_panic), sg_sdk_CreateOrUpdate = (\<lambda>_ _ _ _. go_panic), sg_sdk_Delete = (\<lambda>_ _ _. go_panic)\<rparr>,
     n_addresses = \<lparr>pip_sdk_Get = (\<lambda>_ _ _ _. go_panic), pip_sdk_CreateOrUpdate = (\<lambda>_ _ _ _. go_panic), pip_sdk_Delete = (\<lambda>_ _ _. go_panic)\<rparr>,
     nf_security = demo_factory, nf_addresses = demo_factory\<rparr>"

subsection \<open>It keeps the contracts\<close>

lemma same_key_iff: "same_key obj old \<longleftrightarrow> kind_of old = kind_of obj \<and> key_of old = key_of obj"
  by (simp add: same_key_def object_at_def)

lemma cloud_finalizer_iff: "cloud_finalizer k n w \<longleftrightarrow> (\<exists>obj\<in>set (cl_objects w). object_at k n obj \<and> has_finalizer obj)"
  by (simp add: cloud_finalizer_def list_ex_iff)

lemma cloud_finalizer_map:
  assumes "\<And>old. object_at k n old \<Longrightarrow> has_finalizer old \<Longrightarrow> object_at k n (f old) \<and> has_finalizer (f old)"
    and "cloud_finalizer k n w"
  shows "cloud_finalizer k n (w\<lparr>cl_objects := map f (cl_objects w)\<rparr>)"
proof -
  from assms(2) obtain old where old: "old \<in> set (cl_objects w)" "object_at k n old" "has_finalizer old"
    unfolding cloud_finalizer_iff by blast
  with assms(1) have "object_at k n (f old)" "has_finalizer (f old)" by blast+
  with old(1) show ?thesis
    unfolding cloud_finalizer_iff by (intro bexI [of _ "f old"]) simp_all
qed

lemma cloud_finalizer_replace:
  assumes "has_finalizer obj \<or> \<not> object_at k n obj" "cloud_finalizer k n w"
  shows "cloud_finalizer k n (w\<lparr>cl_objects := map (\<lambda>old. if same_key obj old then obj else old) (cl_objects w)\<rparr>)"
proof (rule cloud_finalizer_map [OF _ assms(2)])
  fix old assume old: "object_at k n old" "has_finalizer old"
  show "object_at k n (if same_key obj old then obj else old) \<and> has_finalizer (if same_key obj old then obj else old)"
  proof (cases "same_key obj old")
    case True
    with old(1) have "object_at k n obj" unfolding same_key_iff object_at_def by metis
    with True assms(1) show ?thesis by simp
  next
    case False
    with old show ?thesis by simp
  qed
qed

lemma cloud_finalizer_status:
  "cloud_finalizer k n w \<Longrightarrow> cloud_finalizer k n (w\<lparr>cl_objects := map (\<lambda>old. if same_key obj old \<and> obj_meta obj = obj_meta old then obj
     else old) (cl_objects w)\<rparr>)"
  by (rule cloud_finalizer_map) (auto simp: same_key_iff object_at_def)

lemma cloud_finalizer_remove:
  assumes "\<not> object_at k n obj" "cloud_finalizer k n w"
  shows "cloud_finalizer k n (w\<lparr>cl_objects := filter (\<lambda>old. \<not> same_key obj old) (cl_objects w)\<rparr>)"
proof -
  from assms(2) obtain old where old: "old \<in> set (cl_objects w)" "object_at k n old" "has_finalizer old"
    by (auto simp: cloud_finalizer_iff)
  with assms(1) have "\<not> same_key obj old" unfolding same_key_iff object_at_def by metis
  with old show ?thesis
    unfolding cloud_finalizer_iff by (intro bexI [of _ old]) simp_all
qed

lemma cloud_Update_keeps:
  assumes "has_finalizer obj \<or> \<not> object_at k n obj"
  shows "keeps (cloud_finalizer k n) (kb_Update (cloud_kube admitted) obj)"
proof (rule keepsI)
  fix w assume w: "cloud_finalizer k n w"
  consider "\<not> list_ex (same_key obj) (cl_objects w)"
    | "list_ex (same_key obj) (cl_objects w)" "deleting obj \<and> om_Finalizers (obj_meta obj) = []"
    | "list_ex (same_key obj) (cl_objects w)" "\<not> (deleting obj \<and> om_Finalizers (obj_meta obj) = [])"
    by blast
  then show "cloud_finalizer k n (snd (kb_Update (cloud_kube admitted) obj w))"
  proof cases
    case 1
    with w show ?thesis by (simp add: cloud_kube_def)
  next
    case 2
    then have "\<not> has_finalizer obj" by simp
    with assms have "\<not> object_at k n obj" by simp
    from 2 cloud_finalizer_remove [OF this w] show ?thesis by (simp add: cloud_kube_def)
  next
    case 3
    from 3(1) have "kb_Update (cloud_kube admitted) obj w =
        (Returns (obj, None), w\<lparr>cl_objects := map (\<lambda>old. if same_key obj old then obj else old) (cl_objects w)\<rparr>)"
      unfolding cloud_kube_def kube.simps using 3(2) by (simp only: if_True if_False not_True_eq_False)
    with cloud_finalizer_replace [OF assms w] show ?thesis by simp
  qed
qed

lemma cloud_kube_ok: "api_objects_ok (cloud_kube admitted) cloud_finalizer"
  unfolding api_objects_ok_def
proof (intro conjI allI)
  show "status_keys (cloud_kube admitted)"
    by (simp add: status_keys_def cloud_kube_def)
  show "fetches (cloud_kube admitted) n k (object_at k n)" for n k
    by (auto simp: fetches_def cloud_kube_def find_Some_iff split: option.splits)
  show "triple (\<lambda>_. True) (kb_Get (cloud_kube admitted) n k)
      (\<lambda>(obj, err) w. err = None \<longrightarrow> has_finalizer obj \<longrightarrow> cloud_finalizer k n w) (\<lambda>_. True)" for n k
    by (rule tripleI) (auto simp: cloud_kube_def cloud_finalizer_iff find_Some_iff split: option.splits)
  have "keeps (cloud_finalizer k n) (kb_Update (cloud_kube admitted) obj)"
    if "has_finalizer obj \<or> \<not> object_at k n obj" for k n obj
    by (rule cloud_Update_keeps [OF that])
  moreover have "keeps (cloud_finalizer k n) (kb_StatusUpdate (cloud_kube admitted) obj)" for k n obj
    by (rule keepsI) (simp add: cloud_kube_def cloud_finalizer_status)
  moreover have "keeps (cloud_finalizer k n) (kb_Get (cloud_kube admitted) n' k')"
    "keeps (cloud_finalizer k n) (kb_Event (cloud_kube admitted) obj ty reason msg)" for k n n' k' obj ty reason msg
    by (rule keepsI, simp add: cloud_kube_def split: option.split)+
  ultimately show "kube_leaves (\<lambda>obj. \<not> object_at k n obj) (cloud_kube admitted) (cloud_finalizer k n)" for k n
    by (simp add: kube_leaves_def)
qed

lemma cloud_kube_groups: "kube_leaves other (cloud_kube admitted) (\<lambda>w. \<not> cloud_group sub name w)"
  unfolding kube_leaves_def
  by (auto simp: cloud_kube_def cloud_group_def intro!: keepsI split: option.splits if_splits)

abbreviation cloud_tool :: "tls_lib \<Rightarrow> json_marshal \<Rightarrow> cloud tool" where
  "cloud_tool \<equiv> demo_tool cloud_sdks"

lemma cloud_sdks_keep:
  assumes "\<And>w x. A (w\<lparr>cl_networks := x\<rparr>) = A w"
  shows "sdks_keep (cloud_tool tls marshal) cloud_network_sdks A"
  unfolding sdks_keep_def calls_defs demo_tool_def cloud_sdks_def cloud_network_sdks_def own_rule_ok_def
    cloud_networks_sdk_def
  by (auto intro!: keeps_panic keeps_ret keepsI simp: assms)

lemma cloud_apart: "azure_apart (cloud_tool tls marshal) cloud_network_sdks cloud_finalizer"
  unfolding azure_apart_def
  by (intro allI conjI cloud_sdks_keep)
    (auto simp: cloud_finalizer_def rg_calls_def demo_tool_def cloud_sdks_def cloud_groups_sdk_def intro!: keepsI)

lemma cloud_groups_ok: "rg_sdk_ok cloud_groups_sdk cloud_group"
  unfolding rg_sdk_ok_def cloud_groups_sdk_def
  by (auto intro!: tripleI simp: StatusNotFound_def split: if_splits)

lemma cloud_groups_separate: "groups_separate cloud_groups_sdk cloud_group g"
  unfolding groups_separate_def rg_calls_def cloud_groups_sdk_def
  by (auto simp: cloud_group_def intro!: keepsI split: if_splits)

definition admit_group :: "namespaced_name \<Rightarrow> string \<Rightarrow> string \<Rightarrow> namespaced_name \<Rightarrow> runtime_object \<Rightarrow> bool" where
  "admit_group req sub name n obj \<longleftrightarrow>
     (if n = req then is_group sub name obj \<or> kind_of obj \<noteq> KResourceGroup
      else group_in demo_factory obj \<noteq> Some (Some sub, name))"

lemma cloud_declared:
  "group_declared (cloud_tool tls marshal) cloud_network_sdks (cloud_kube (admit_group req sub name)) cloud_finalizer
     cloud_group req sub name"
  unfolding group_declared_def Let_def
  by (intro conjI allI impI cloud_kube_groups cloud_sdks_keep)
    (auto simp: fetches_def cloud_kube_def find_Some_iff admit_group_def object_at_def cloud_group_def demo_tool_def
      demo_factories_def demo_factory_def cloud_sdks_def cloud_groups_separate split: option.splits)

lemma cloud_tool_parts:
  "t_lib (cloud_tool tls marshal) = std_lib" "s_groups (t_sdks (cloud_tool tls marshal)) = cloud_groups_sdk"
  "sdk_Subscription (f_groups (t_factories (cloud_tool tls marshal)) sub) = Some sub"
  by (simp_all add: cloud_sdks_def demo_factories_def demo_factory_def)

subsection \<open>Two groups of one name\<close>

definition cloud_group_object :: "string \<Rightarrow> string \<Rightarrow> runtime_object" where
  "cloud_group_object n sub = ObjResourceGroup \<lparr>
     TypeMeta = ''ResourceGroup'',
     ObjectMeta = (demo_meta [finalizerName] None)\<lparr>om_Name := n\<rparr>,
     Spec = \<lparr>rgs_Name = ''rg'', rgs_Location = ''westus2'', rgs_SubscriptionID = sub\<rparr>,
     Status = zero_ResourceGroupStatus\<rparr>"

definition two_groups :: cloud where
  "two_groups = \<lparr>cl_objects = [cloud_group_object ''a'' ''sub1'', cloud_group_object ''b'' ''sub2'',
     ObjVirtualNetwork (demo_vnet [''10.0.0.0/8''] [finalizerName] None)], cl_groups = [], cl_networks = []\<rparr>"

definition mark_deleted :: "kind \<Rightarrow> namespaced_name \<Rightarrow> cloud \<Rightarrow> cloud" where
  "mark_deleted k n w = w\<lparr>cl_objects := map (\<lambda>obj. if object_at k n obj
     then map_meta (\<lambda>m. m\<lparr>om_DeletionTimestamp := Some 5\<rparr>) obj else obj) (cl_objects w)\<rparr>"

lemma mark_deleted_stable:
  "cloud_finalizer k n w \<Longrightarrow> cloud_finalizer k n (mark_deleted k' n' w)"
  "cloud_group sub name (mark_deleted k' n' w) = cloud_group sub name w"
  unfolding mark_deleted_def
  by (rule cloud_finalizer_map, auto simp: object_at_def key_of_def cloud_group_def)

text \<open>The manager of the example, with all its clients, and one reconcile of it.\<close>

definition cloud_manager :: "tls_lib \<Rightarrow> json_marshal \<Rightarrow> cloud \<Rightarrow> cloud manager" where
  "cloud_manager tls marshal = main_manager (cloud_tool tls marshal) cloud_network_sdks (demo_config, None, None)"

definition cloud_Reconcile :: "tls_lib \<Rightarrow> json_marshal \<Rightarrow> kind \<Rightarrow> string \<Rightarrow> cloud manager \<Rightarrow> cloud manager" where
  "cloud_Reconcile tls marshal k n s = snd (manager_Reconcile (cloud_tool tls marshal) cloud_network_sdks
     (cloud_kube (admit_group (''ns'', ''b'') ''sub2'' ''rg'')) k (''ns'', n) s)"

text \<open>All three objects are reconciled; then the first is deleted, and reconciled again.\<close>

definition three_reconciled :: "tls_lib \<Rightarrow> json_marshal \<Rightarrow> cloud manager" where
  "three_reconciled tls marshal =
     (let run = cloud_Reconcile tls marshal in
      run KVirtualNetwork ''obj'' (run KResourceGroup ''b'' (run KResourceGroup ''a'' (cloud_manager tls marshal two_groups))))"

definition first_deleted :: "tls_lib \<Rightarrow> json_marshal \<Rightarrow> cloud manager" where
  "first_deleted tls marshal =
     (let s = three_reconciled tls marshal in
      cloud_Reconcile tls marshal KResourceGroup ''a'' (s\<lparr>mg_world := mark_deleted KResourceGroup (''ns'', ''a'') (mg_world s)\<rparr>))"

lemma three_reconciled_world:
  "(cl_networks (mg_world (three_reconciled tls marshal)), cl_groups (mg_world (three_reconciled tls marshal))) =
     ([(Some ''sub'', ''rg'', ''v'')], [(Some ''sub2'', ''rg''), (Some ''sub1'', ''rg'')])"
  by code_simp

lemma first_deleted_world:
  "(cl_groups (mg_world (first_deleted tls marshal)), map key_of (cl_objects (mg_world (first_deleted tls marshal)))) =
     ([(Some ''sub2'', ''rg'')], [(''ns'', ''b''), (''ns'', ''obj'')])"
  by code_simp

end
