(* ===== verification/Spec2Isabelle.thy ===== *)
theory Spec2Isabelle imports ResourceGroups VirtualNetworks Subnets Identities Keyvaults PublicIPs
  SecurityGroups LoadBalancers Redis ServiceBus Storage SqlServers SecretBundles DockerConfigs Manager Roles Commands Settling
  Shared_Clients Scheme Http_Logging Manager_System Demo Demo_Manager begin

text \<open>
  Verification library of incendiary-iguana, a Kubernetes operator that keeps Azure resources as
  custom resources say, together with a command line tool that does the same from a file.

  The program.  \<open>main.go\<close> starts a manager with one controller per kind; a controller of
  \<open>controllers/*_controller.go\<close> hands each request to \<open>AsyncReconciler.Reconcile\<close> or
  \<open>SyncReconciler.Reconcile\<close>, which fetches the object from the API server, adds a finalizer, calls
  \<open>Ensure\<close> or \<open>Delete\<close> of the client of its kind, writes the status back and removes the finalizer
  when the Azure resource is gone.  A client of \<open>pkg/clients/*\<close> binds itself to the subscription of
  the object (\<open>ForSubscription\<close>), reads the resource, decides whether it must be written with its
  spec builder, and writes or deletes it through the Azure SDK.  \<open>cmd/ensure\<close> reads a manifest and
  runs the same clients in a loop with backoff.

  How it is modelled.  A Go function with effects is a value of type \<open>('w, 'a) go\<close> (theory
  \<open>Prelude\<close>): a state transformer which returns or panics.  The state is what the function can
  change: the world (Azure, Kubernetes, random numbers) and the fields of its receiver.  Nil
  pointers are \<open>None\<close>, and following one panics.  A Go \<open>error\<close> is \<open>go_error option\<close>.  Arguments that a
  function changes through a pointer are returned with its results.  Where a loop takes the
  address of its variable the stored pointers are modelled with an explicit store.

  The theories, in the order of their imports:
  \<^item> \<open>Prelude\<close>: errors, computations, their evaluation (\<open>go_simps\<close>), inversion (\<open>go_returns\<close>) and
    triples (\<open>triples\<close>); the record \<open>lib\<close> of third-party pure functions with \<open>lib_ok\<close>;
  \<^item> \<open>Api_Types\<close>: the structs of \<open>api/v1alpha1/*_types.go\<close>, one record each, and \<open>runtime_object\<close>,
    the sum of the kinds;
  \<^item> \<open>Go_Memory\<close>, \<open>Deep_Copies\<close>: values with references in a memory, and the generated functions of
    \<open>api/v1alpha1/zz_generated.deepcopy.go\<close> for all types, as combinators over the layouts of the
    structs; \<open>copy_ok\<close> is closed under the combinators (collection \<open>copies\<close>);
  \<^item> \<open>Scheme\<close>: the registration of the kinds;
  \<^item> \<open>Helpers\<close>: \<open>controllers/helpers.go\<close>, and the record \<open>kube\<close>, the API server;
  \<^item> \<open>Reconcilers\<close>: \<open>controllers/async_controller.go\<close> and \<open>sync_controller.go\<close>;
  \<^item> \<open>Reconcile_Safety\<close>: traces of reconciles and the conditions on them;
  \<^item> \<open>Finalizer_Protocol\<close>: the abstract client (\<open>azure_ok\<close>, \<open>sync_azure_ok\<close>) and API server
    (\<open>api_server_ok\<close>), the invariant \<open>no_orphan\<close>, and the system of reconciles and other steps
    (\<open>system_reaches\<close>);
  \<^item> \<open>Client_Contracts\<close>: the locales \<open>async_client\<close>, \<open>strict_async_client\<close> and \<open>sync_client\<close>, what the
    reconcilers rely on; each client of the repository is interpreted in its own theory;
  \<^item> \<open>Config\<close>, \<open>Clientutil\<close>, \<open>Mgmt_Clients\<close>: \<open>pkg/config/config.go\<close>,
    \<open>pkg/clients/clientutil/clientutil.go\<close>, and what the clients of the resource manager share;
    \<open>mgmt_azure_ok\<close> reduces the abstract client to one fact about \<open>Delete\<close>;
  \<^item> \<open>ResourceGroups\<close>, \<open>VirtualNetworks\<close>, \<open>Subnets\<close>, \<open>Identities\<close>, \<open>Keyvaults\<close>, \<open>PublicIPs\<close>,
    \<open>SecurityGroups\<close>, \<open>LoadBalancers\<close>, \<open>Nics\<close>, \<open>Zones\<close>, \<open>Disks\<close>, \<open>Vms\<close>, \<open>Redis\<close>, \<open>ServiceBus\<close>,
    \<open>Storage\<close>, \<open>SqlServers\<close>, \<open>TrafficManagers\<close>: the packages of \<open>pkg/clients\<close> of these names (the
    key packages with their services), each with its spec builder, its operations, an
    interpretation of the locales, and the behaviour on every branch;
  \<^item> \<open>Kube_Secrets\<close>, \<open>Key_Copies\<close>, \<open>Secrets\<close>, \<open>TLSSecrets\<close>, \<open>SecretBundles\<close>, \<open>DockerConfigs\<close>: the
    operations on Kubernetes secrets (\<open>secret_ops\<close> with \<open>secret_ops_ok\<close>) and the clients that copy
    keys and secrets into them;
  \<^item> \<open>Encodings\<close>, \<open>Random_Strings\<close>, \<open>Decimals\<close>, \<open>Loop_Variables\<close>: base64 and hexadecimal texts,
    random strings, \<open>strconv.Itoa\<close>, and the pointers to loop variables;
  \<^item> \<open>Manifests\<close>, \<open>Retry\<close>, \<open>Ensure_Cmd\<close>: \<open>pkg/decoder\<close> and \<open>cmd/ensure/ensure.go\<close>;
  \<^item> \<open>Http_Logging\<close>: the logging decorators of \<open>pkg/clients/resourcegroups\<close>;
  \<^item> \<open>Commands\<close>, \<open>Roles\<close>: the commands of \<open>cmd/ensure\<close> and \<open>cmd/main.go\<close>; \<open>pkg/clients/roles\<close>;
  \<^item> \<open>Controllers\<close>, \<open>Manager\<close>: the controllers, the clients \<open>main.go\<close> gives them, and its start;
  \<^item> \<open>Convergence\<close>: repeated reconciles, with an API server and a client that make progress;
  \<^item> \<open>Progress\<close>: deletions make progress when Azure does; the locales \<open>bound_client\<close>, \<open>polled_client\<close> and
    \<open>prompt_client\<close> with their interpretations;
  \<^item> \<open>Settling\<close>: with an Azure that stores what is written, \<open>Ensure\<close> is a step of a small machine
    (\<open>next_poll\<close>), which stops exactly when one write is enough (\<open>polls_stop_iff\<close>); the locale
    \<open>writing_client\<close> is the simulation, with interpretations for five clients, and \<open>waiting_client\<close> is
    the case of an object that cannot be written;
  \<^item> \<open>Shared_Clients\<close>: two workers of one controller, cut between \<open>ForSubscription\<close> and \<open>Delete\<close>;
  \<^item> \<open>Client_Effects\<close>: frame rules (collection \<open>stays\<close>): each operation of a client of the manager keeps
    every predicate that the SDK calls about its own resource, and those on Kubernetes secrets, keep;
  \<^item> \<open>Bystanders\<close>: a reconcile of one object leaves the other objects of the API server alone;
  \<^item> \<open>Manager_System\<close>: the running manager (\<open>manager_reaches\<close>), the clients of all its controllers
    beside one world, where reconciles of all kinds and requests, restarts and other programs take turns;
  \<^item> \<open>Demo\<close>, \<open>Demo_Manager\<close>: instances of all parameters, for the witnesses.

  What is a parameter. The Azure SDK (one record of operations per service, which take the SDK
  client object they are called on), client-go and controller-runtime (\<open>kube\<close>,
  \<open>secret_ops\<close>), apimachinery's metadata (\<open>k8s_meta\<close>), go-autorest
  (\<open>auth_lib\<close>), go-multierror, go-cmp and pkg/errors (\<open>lib\<close>), PKCS12,
  x509 and PEM (\<open>tls_lib\<close>), \<open>json.Marshal\<close>,
  \<open>wait.ExponentialBackoff\<close>, the worker pool of the tool, and random numbers. Their
  documented behaviour is stated where a theorem needs it (\<open>lib_ok\<close>,
  \<open>api_server_ok\<close>, \<open>..._sdk_ok\<close>, \<open>secret_ops_ok\<close>,
  \<open>backoff_ok\<close>, \<open>pool_ok\<close>, \<open>rand_ok\<close>,
  \<open>intn_ok\<close>, \<open>k8s_meta_ok\<close>), and \<open>Demo\<close> and the theories of
  the components have an instance of each.

  What is shown.  C1 to C14 are about the reconcilers: safety for every API server and client, no
  orphaned resources while others take steps in between, liveness of deletion and creation (C7 and
  C8 with the clients of the repository, C10 and C11 for any client that makes progress) and which
  resources come to rest at all (C9), the equivalence of the third reconciler with the generic one,
  and what a reconcile writes.  C3 is about the whole manager: with all its controllers and their
  clients at work on many objects, in several subscriptions, no resource group is orphaned.
  C15 to C17 are about the tool: the bound on the calls of its loop,
  and what a success means.  C18 to C32 are about the clients and the API types: what is stored and
  written, which writes settle, the independence of deep copies (C25), and the round trips of the
  encodings.  C33 to C40 show how errors go wrong, among them two workers that share a client (C35):
  each is a theorem about the code as it is.

  Bounds.  \<open>go\<close> computations are total; the loops of the source are structural recursions.  The
  loop of the tool is bounded by the steps of its backoff (30), C15.  The recursion that reverses
  a certificate chain ends because its indices meet.  Port numbers are truncated to \<open>int32\<close> where
  the source does so; other integers of the source are never computed with.

  Not modelled.  Contexts and cancellation; concurrent reconciles of one object (the manager runs
  one at a time per object), and interleavings of workers other than the one of \<open>Shared_Clients\<close>: a
  reconcile is one step of \<open>manager_reaches\<close>, and a user who changes the subscription or name in the
  spec of a live object is excluded by its contract (\<open>group_declared\<close>); the
  log output and dumps of the other functions; the parsing of
  flags and command lines (flag and cobra are parameters); the package \<open>serviceprincipals\<close>, which
  has no code; the metadata of objects beyond name, namespace, UID, finalizers and
  deletion timestamp.
\<close>

section \<open>Properties\<close>

text \<open>
  C1. Safety of the asynchronous reconciler (\<open>AsyncReconciler.Reconcile\<close>), for every API server
  and every Azure client, also for a run that ends in a panic: the object is only ever written
  without its finalizer after a \<open>Delete\<close> that answered \<open>(false, nil)\<close>; \<open>Ensure\<close> only runs on a live
  object that already carries the finalizer, \<open>Delete\<close> only on an object that is being deleted;
  the status subresource only receives what \<open>Ensure\<close> or \<open>Delete\<close> left; there is at most one
  object update and one Azure operation.  The trace is recorded beside a run of the real
  reconciler (second and third conjunct).
\<close>

theorem async_reconcile_safe:
  assumes "lib_ok L"
  shows "safe_trace (snd (snd (async_Reconcile L (traced_kube kb) (traced_async az) req k (s, [])))) \<and>
     fst (async_Reconcile L (traced_kube kb) (traced_async az) req k (s, [])) =
       fst (async_Reconcile L kb az req k s) \<and>
     fst (snd (async_Reconcile L (traced_kube kb) (traced_async az) req k (s, []))) =
       snd (async_Reconcile L kb az req k s)"
  using triple_result [OF async_Reconcile_triple [OF assms], of "(s, [])"]
    erases_async_Reconcile [of L kb az req k]
  by (simp add: erases_def)

theorem async_reconcile_safe_witness:
  "let t = snd (snd (async_Reconcile std_lib (traced_kube demo_kube) (traced_async demo_async)
             (''ns'', ''rg'') KResourceGroup (demo_state [finalizerName] (Some 5) (Some zero_Group), [])))
   in safe_trace t \<and>
      map rcall_name (rev t) = [''Get'', ''Delete'', ''Delete returned'', ''Status().Update'',
        ''Event Deleted'', ''Update'']"
proof -
  have "map rcall_name (rev (snd (snd (async_Reconcile std_lib (traced_kube demo_kube) (traced_async demo_async)
             (''ns'', ''rg'') KResourceGroup (demo_state [finalizerName] (Some 5) (Some zero_Group), []))))) =
      [''Get'', ''Delete'', ''Delete returned'', ''Status().Update'', ''Event Deleted'', ''Update'']"
    by code_simp
  then show ?thesis
    using async_reconcile_safe [OF lib_ok_std_lib, of demo_kube demo_async "(''ns'', ''rg'')" KResourceGroup
        "demo_state [finalizerName] (Some 5) (Some zero_Group)"]
    by (simp add: Let_def)
qed

text \<open>
  C2. No resource group is orphaned: while users, Azure and the reconciler (which may fail or
  panic at any point) take turns, an existing Azure resource group of the object's name in its
  subscription always has an object with the finalizer in the API server.  The API server, the
  SDK and the environment are constrained by their contracts only.
\<close>

theorem resource_groups_never_orphaned:
  assumes "lib_ok L" and "api_server_ok (is_group sub name) kb fin (\<lambda>_. False)" and "rg_sdk_ok S ex"
    and "\<And>s s'. env s s' \<Longrightarrow>
      (fin (fst s) \<longrightarrow> fin (fst s')) \<and> (exists_for ex sub name (snd s') \<longrightarrow> exists_for ex sub name (snd s))"
    and "system_reaches L (kube_beside kb) (async_beside (rg_client L A S)) env s s'"
    and "exists_for ex sub name (snd s) \<longrightarrow> fin (fst s)"
  shows "exists_for ex sub name (snd s') \<longrightarrow> fin (fst s')"
  using system_no_orphan [OF assms(5,1) api_server_ok_beside [OF assms(2)]
      azure_ok_beside [OF rg_azure_ok [OF assms(1,3)]] assms(4)] assms(6)
  by (simp add: no_orphan_def)

theorem resource_groups_never_orphaned_witness:
  "let s0 = demo_state [finalizerName] None None;
       s1 = snd (async_Reconcile std_lib demo_kube demo_async (''ns'', ''rg'') KResourceGroup s0);
       s2 = (map_option (map_meta (\<lambda>m. m\<lparr>om_DeletionTimestamp := Some 5\<rparr>)) (fst s1), snd s1);
       s3 = snd (async_Reconcile std_lib demo_kube demo_async (''ns'', ''rg'') KResourceGroup s2)
   in snd (snd s1) \<noteq> None \<and> snd (snd s3) = None \<and> fst s3 = None \<and>
      (snd (snd s2) \<noteq> None \<longrightarrow> stored_finalizer (fst s2))"
proof -
  define run where "run = (\<lambda>s. snd (async_Reconcile std_lib demo_kube demo_async (''ns'', ''rg'') KResourceGroup s))"
  define del :: "_ \<Rightarrow> runtime_object option \<times> mgmt_client \<times> Group option"
    where "del = (\<lambda>s. (map_option (map_meta (\<lambda>m. m\<lparr>om_DeletionTimestamp := Some 5\<rparr>)) (fst s), snd s))"
  let ?s0 = "demo_state [finalizerName] None None"
  have "snd (snd (run ?s0)) \<noteq> None" "snd (snd (run (del (run ?s0)))) = None" "fst (run (del (run ?s0))) = None"
    unfolding run_def del_def by code_simp+
  moreover have "system_reaches std_lib demo_kube demo_async user_deletes ?s0 (del (run ?s0))"
    unfolding run_def del_def
    by (rule system_reaches.environment [OF system_reaches.reconcile [OF system_reaches.start]])
      (simp add: user_deletes_def)
  then have "snd (snd (del (run ?s0))) \<noteq> None \<longrightarrow> stored_finalizer (fst (del (run ?s0)))"
    using resource_groups_never_orphaned [OF lib_ok_std_lib one_object_kube_ok [of "is_group ''sub'' ''rg''"]
        one_group_sdk_ok, where env = user_deletes and s = ?s0 and s' = "del (run ?s0)" and A = demo_auth,
        OF user_deletes_stable]
    by (auto simp: demo_kube_def demo_async_def exists_for_def demo_state_def)
  ultimately show ?thesis by (simp add: Let_def run_def del_def)
qed

text \<open>
  C3. The running manager orphans no resource group.  All controllers of \<open>main.go\<close> reconcile
  requests in any order, each with the client \<open>main\<close> makes for it; the process may be restarted, and
  users and Azure may act in between.  While an Azure group exists, the one object that declares it
  is in the API server with the finalizer, whatever the objects of other keys, kinds and
  subscriptions are.
\<close>

theorem manager_never_orphans_groups:
  assumes "lib_ok (t_lib T)" "api_objects_ok kb fin" "rg_sdk_ok (s_groups (t_sdks T)) ex" "azure_apart T N fin"
    and "group_declared T N kb fin ex req sub name"
    and "\<And>w w'. env w w' \<Longrightarrow> (fin KResourceGroup req w \<longrightarrow> fin KResourceGroup req w') \<and>
      (ex (sdk_Subscription (f_groups (t_factories T) sub)) name w' \<longrightarrow> ex (sdk_Subscription (f_groups (t_factories T) sub)) name w)"
    and "manager_reaches T N kb clients env w s"
    and "ex (sdk_Subscription (f_groups (t_factories T) sub)) name w \<longrightarrow> fin KResourceGroup req w"
  shows "ex (sdk_Subscription (f_groups (t_factories T) sub)) name (mg_world s) \<longrightarrow> fin KResourceGroup req (mg_world s)"
  using manager_system_group [OF assms] by (simp add: group_kept_def)

theorem manager_never_orphans_groups_witness:
  "\<forall>tls marshal.
     cl_networks (mg_world (three_reconciled tls marshal)) = [(Some ''sub'', ''rg'', ''v'')] \<and>
     cl_groups (mg_world (three_reconciled tls marshal)) = [(Some ''sub2'', ''rg''), (Some ''sub1'', ''rg'')] \<and>
     cl_groups (mg_world (first_deleted tls marshal)) = [(Some ''sub2'', ''rg'')] \<and>
     map key_of (cl_objects (mg_world (first_deleted tls marshal))) = [(''ns'', ''b''), (''ns'', ''obj'')] \<and>
     cloud_finalizer KResourceGroup (''ns'', ''b'') (mg_world (first_deleted tls marshal))"
    (is "\<forall>tls marshal. ?P tls marshal")
proof (intro allI)
  fix tls marshal
  let ?T = "cloud_tool tls marshal" and ?kb = "cloud_kube (admit_group (''ns'', ''b'') ''sub2'' ''rg'')"
    and ?env = "\<lambda>w w'. \<exists>k n. w' = mark_deleted k n w"
  let ?reach = "manager_reaches ?T cloud_network_sdks ?kb (demo_config, None, None) ?env two_groups"
  have step: "?reach (cloud_Reconcile tls marshal k n s)" if "?reach s" for k n s
    unfolding cloud_Reconcile_def by (rule manager_reaches.reconcile [OF that])
  have "?reach (three_reconciled tls marshal)"
    unfolding three_reconciled_def Let_def by (intro step) (simp add: cloud_manager_def manager_reaches.start)
  then have "?reach (first_deleted tls marshal)"
    unfolding first_deleted_def Let_def by (intro step manager_reaches.environment) auto
  then have "cloud_group (Some ''sub2'') ''rg'' (mg_world (first_deleted tls marshal)) \<longrightarrow>
      cloud_finalizer KResourceGroup (''ns'', ''b'') (mg_world (first_deleted tls marshal))"
    using manager_never_orphans_groups [where T = ?T and kb = ?kb and fin = cloud_finalizer and ex = cloud_group
        and env = ?env and w = two_groups and sub = "''sub2''" and name = "''rg''" and req = "(''ns'', ''b'')",
        unfolded cloud_tool_parts, OF lib_ok_std_lib cloud_kube_ok cloud_groups_ok cloud_apart cloud_declared]
      mark_deleted_stable by (fastforce simp: cloud_group_def two_groups_def)
  with three_reconciled_world [of tls marshal] first_deleted_world [of tls marshal] show "?P tls marshal"
    by (simp add: cloud_group_def)
qed

text \<open>
  C4. Safety of the synchronous reconciler (\<open>SyncReconciler.Reconcile\<close>), in the sense of the
  asynchronous one: for every API server and every client, the finalizer is removed only after a
  \<open>Delete\<close> without an error, \<open>Ensure\<close> and \<open>Delete\<close> run on the right objects only, and the status
  subresource receives what they left, whether the run returns or panics.
\<close>

theorem sync_reconcile_safe:
  assumes "lib_ok L"
  shows "safe_trace (snd (snd (sync_Reconcile L (traced_kube kb) (traced_sync az) req k (s, [])))) \<and>
     fst (sync_Reconcile L (traced_kube kb) (traced_sync az) req k (s, [])) =
       fst (sync_Reconcile L kb az req k s) \<and>
     fst (snd (sync_Reconcile L (traced_kube kb) (traced_sync az) req k (s, []))) =
       snd (sync_Reconcile L kb az req k s)"
  using triple_result [OF sync_Reconcile_triple [OF assms], of "(s, [])"]
    erases_sync_Reconcile [of L kb az req k]
  by (simp add: erases_def)

theorem sync_reconcile_safe_witness:
  "let t = snd (snd (sync_Reconcile std_lib
             (traced_kube (kube_beside (one_object_kube (\<lambda>_. True))))
             (traced_sync (sync_beside (id_client std_lib demo_auth one_identity_sdk)))
             (''ns'', ''obj'') KIdentity
             ((Some (ObjIdentity (demo_identity [finalizerName] (Some 5))), demo_client, True), [])))
   in safe_trace t \<and>
      map rcall_name (rev t) = [''Get'', ''Delete'', ''Delete returned'', ''Status().Update'',
        ''Event Deleted'', ''Update'']"
proof -
  have "map rcall_name (rev (snd (snd (sync_Reconcile std_lib
             (traced_kube (kube_beside (one_object_kube (\<lambda>_. True))))
             (traced_sync (sync_beside (id_client std_lib demo_auth one_identity_sdk)))
             (''ns'', ''obj'') KIdentity
             ((Some (ObjIdentity (demo_identity [finalizerName] (Some 5))), demo_client, True), []))))) =
      [''Get'', ''Delete'', ''Delete returned'', ''Status().Update'', ''Event Deleted'', ''Update'']"
    by code_simp
  then show ?thesis
    using sync_reconcile_safe [OF lib_ok_std_lib, of "kube_beside (one_object_kube (\<lambda>_. True))"
        "sync_beside (id_client std_lib demo_auth one_identity_sdk)" "(''ns'', ''obj'')" KIdentity
        "(Some (ObjIdentity (demo_identity [finalizerName] (Some 5))), demo_client, True)"]
    by (simp add: Let_def)
qed

text \<open>
  C5. Refinement: the clients of the virtual networks, interfaces, public addresses, security groups
  and load balancers implement the abstract client the finalizer protocol is proved for
  (\<open>azure_ok\<close>): bound to the subscription of the object, a \<open>Delete\<close> that answers \<open>(false, nil)\<close>
  leaves no resource of the object's group and name in that subscription.
\<close>

theorem network_clients_refine:
  assumes "lib_ok L"
    and "vn_sdk_ok S1 ex1" "nic_sdk_ok S2 ex2" "pip_sdk_ok S3 ex3" "sg_sdk_ok S4 ex4" "lb_sdk_ok S5 ex5"
  shows "azure_ok (is_vnet sub key) (subscribed_to sub) (vn_client L A S1) (\<lambda>_. True) (exists_for ex1 sub key) \<and>
    azure_ok (is_nic sub key) (subscribed_to sub) (nic_client L A S2) (\<lambda>_. True) (exists_for ex2 sub key) \<and>
    azure_ok (is_publicip sub key) (subscribed_to sub) (pip_client L A S3) (\<lambda>_. True) (exists_for ex3 sub key) \<and>
    azure_ok (is_security_group sub key) (subscribed_to sub) (sg_client L A S4) (\<lambda>_. True) (exists_for ex4 sub key) \<and>
    azure_ok (is_load_balancer sub key) (subscribed_to sub) (lb_client L A S5) (\<lambda>_. True) (exists_for ex5 sub key)"
  using vn_azure_ok [OF assms(1,2)] nic_azure_ok [OF assms(1,3)] pip_azure_ok [OF assms(1,4)]
    sg_azure_ok [OF assms(1,5)] lb_azure_ok [OF assms(1,6)] by simp

theorem network_clients_refine_witness:
  "let run = (\<lambda>s. snd (async_Reconcile std_lib (kube_beside (one_object_kube (is_vnet ''sub'' (''rg'', ''v''))))
         (async_beside (vn_client std_lib demo_auth one_vnet_sdk)) (''ns'', ''obj'') KVirtualNetwork s));
       s1 = run (Some (ObjVirtualNetwork (demo_vnet [''10.0.0.0/8''] [finalizerName] None)), demo_client, False)
   in snd (snd s1) \<and> stored_finalizer (fst s1)"
proof -
  let ?kube = "one_object_kube (is_vnet ''sub'' (''rg'', ''v''))"
  let ?s0 = "(Some (ObjVirtualNetwork (demo_vnet [''10.0.0.0/8''] [finalizerName] None)), demo_client, False)"
  define r where "r = async_Reconcile std_lib (kube_beside ?kube)
    (async_beside (vn_client std_lib demo_auth one_vnet_sdk)) (''ns'', ''obj'') KVirtualNetwork ?s0"
  have ok: "azure_ok (is_vnet ''sub'' (''rg'', ''v'')) (subscribed_to ''sub'') (vn_client std_lib demo_auth one_vnet_sdk)
      (\<lambda>_. True) (exists_for (\<lambda>sub key w. w) ''sub'' (''rg'', ''v''))"
    using network_clients_refine [OF lib_ok_std_lib one_resource_sdks_ok] by blast
  have "no_orphan (\<lambda>s. stored_finalizer (fst s)) (\<lambda>s. exists_for (\<lambda>sub key w. w) ''sub'' (''rg'', ''v'') (snd s)) (snd r)"
    unfolding r_def
    using triple_result [OF async_Reconcile_no_orphan [OF lib_ok_std_lib
        api_server_ok_beside [OF one_object_kube_ok] azure_ok_beside [OF ok]], of ?s0]
    by (simp add: no_orphan_def exists_for_def)
  moreover have "snd (snd (snd r))" unfolding r_def by code_simp
  ultimately show ?thesis by (simp add: Let_def r_def no_orphan_def exists_for_def)
qed

text \<open>
  C6. Refinement: reconciling an identity with its client keeps the abstract promise of the
  finalizer.  Whatever the reconcile does, and also when it panics, an identity of the object's
  group and name that exists in the object's subscription still has an object with the
  finalizer.
\<close>

theorem identities_never_orphaned:
  assumes "lib_ok L" and "api_server_ok (is_identity sub key) kb fin (\<lambda>_. False)" and "id_sdk_ok S ex"
    and "exists_for ex sub key (snd s) \<longrightarrow> fin (fst s)"
    and "s' = snd (sync_Reconcile L (kube_beside kb) (sync_beside (id_client L A S)) req k s)"
  shows "exists_for ex sub key (snd s') \<longrightarrow> fin (fst s')"
  using triple_result [OF sync_Reconcile_no_orphan [OF assms(1) api_server_ok_beside [OF assms(2)]
      sync_azure_ok_beside [OF id_azure_ok [OF assms(1,3), where A = A]], of req k], of s] assms(4,5)
  by (simp add: no_orphan_def)

theorem identities_never_orphaned_witness:
  "let run = (\<lambda>s. snd (sync_Reconcile std_lib (kube_beside (one_object_kube (is_identity ''sub'' (''rg'', ''i''))))
         (sync_beside (id_client std_lib demo_auth one_identity_sdk)) (''ns'', ''obj'') KIdentity s));
       s1 = run (Some (ObjIdentity (demo_identity [finalizerName] None)), demo_client, False);
       s2 = run (Some (ObjIdentity (demo_identity [finalizerName] (Some 5))), demo_client, True)
   in snd (snd s1) \<and> stored_finalizer (fst s1) \<and> \<not> snd (snd s2) \<and> fst s2 = None"
proof -
  define run where "run = (\<lambda>s. snd (sync_Reconcile std_lib (kube_beside (one_object_kube (is_identity ''sub'' (''rg'', ''i''))))
         (sync_beside (id_client std_lib demo_auth one_identity_sdk)) (''ns'', ''obj'') KIdentity s))"
  let ?s1 = "run (Some (ObjIdentity (demo_identity [finalizerName] None)), demo_client, False)"
  let ?s2 = "run (Some (ObjIdentity (demo_identity [finalizerName] (Some 5))), demo_client, True)"
  have "snd (snd ?s1)" "\<not> snd (snd ?s2)" "fst ?s2 = None"
    unfolding run_def by code_simp+
  moreover have "stored_finalizer (fst ?s1)"
    using identities_never_orphaned [OF lib_ok_std_lib one_object_kube_ok [of "is_identity ''sub'' (''rg'', ''i'')"]
        one_identity_sdk_ok, where A = demo_auth and req = "(''ns'', ''obj'')" and k = KIdentity
        and s = "(Some (ObjIdentity (demo_identity [finalizerName] None)), demo_client, False)" and s' = ?s1]
      calculation(1)
    by (simp add: run_def exists_for_def)
  ultimately show ?thesis by (simp add: Let_def run_def)
qed

text \<open>
  C7. Liveness of deletion for the clients of the repository.  When Azure accepts the deletion of
  the resource and needs \<open>left\<close> more polls, the finalizer of a deleted resource group, network,
  subnet, interface, public address, security group, load balancer, cache or namespace is gone
  after one reconcile more than that, whatever state the client starts in.  The finalizer of an
  identity, a key vault or a firewall rule is gone after one reconcile.
\<close>

theorem azure_deletions_complete:
  assumes "lib_ok L" "agent_ok A" "api_server_serves kb req kd stored"
    and "\<And>cl. polls_deletion (rg_Delete S1 cl name) (rg_Get S1 cl name) grp_Response left1"
    and "\<And>cl. polls_deletion (vn_sdk_Delete S2 cl rgn name) (vn_sdk_Get S2 cl rgn name '''') vnet_Response left2"
    and "\<And>cl. polls_deletion (sn_sdk_Delete S3 cl rgn net name) (sn_sdk_Get S3 cl rgn net name '''') sn_Response left3"
    and "\<And>cl. polls_deletion (nic_sdk_Delete S4 cl rgn name) (nic_sdk_Get S4 cl rgn name '''') nicr_Response left4"
    and "\<And>cl. polls_deletion (pip_sdk_Delete S5 cl rgn name) (pip_sdk_Get S5 cl rgn name '''') pipr_Response left5"
    and "\<And>cl. polls_deletion (sg_sdk_Delete S6 cl rgn name) (sg_sdk_Get S6 cl rgn name '''') sgr_Response left6"
    and "\<And>cl. polls_deletion (lb_sdk_Delete S7 cl rgn name) (lb_sdk_Get S7 cl rgn name '''') lb_Response left7"
    and "\<And>cl. polls_deletion (rd_sdk_Delete S8 cl rgn name) (rd_sdk_Get S8 cl rgn name) rdr_Response left8"
    and "\<And>cl. polls_deletion (sb_sdk_Delete S9 cl rgn name) (sb_sdk_Get S9 cl rgn name) sbr_Response left9"
    and "\<And>cl. accepts_deletion (id_sdk_Delete T1 cl rgn name)" "\<And>cl. accepts_deletion (kv_sdk_Delete T2 cl rgn name)"
    and "\<And>cl. accepts_deletion (go_bind (fw_sdk_Delete T3 cl rgn server name) (\<lambda>err. go_ret (None, err)))"
  shows "deletion_ends L kb req kd stored (rg_client L A S1) (is_group sub name) left1 \<and>
    deletion_ends L kb req kd stored (vn_client L A S2) (is_vnet sub (rgn, name)) left2 \<and>
    deletion_ends L kb req kd stored (sn_client L A S3) (is_subnet sub (rgn, net, name)) left3 \<and>
    deletion_ends L kb req kd stored (nic_client L A S4) (is_nic sub (rgn, name)) left4 \<and>
    deletion_ends L kb req kd stored (pip_client L A S5) (is_publicip sub (rgn, name)) left5 \<and>
    deletion_ends L kb req kd stored (sg_client L A S6) (is_security_group sub (rgn, name)) left6 \<and>
    deletion_ends L kb req kd stored (lb_client L A S7) (is_load_balancer sub (rgn, name)) left7 \<and>
    deletion_ends L kb req kd stored (redis_client L A K8 S8) (is_cache sub (rgn, name)) left8 \<and>
    deletion_ends L kb req kd stored (sb_client L A K9 S9) (is_namespace sub (rgn, name)) left9 \<and>
    released_at_once L kb req kd stored (id_client L A T1) (is_identity sub (rgn, name)) \<and>
    released_at_once L kb req kd stored (kv_client L A uuid T2) (is_vault sub (rgn, name)) \<and>
    released_at_once L kb req kd stored (fw_client L A T3) (is_firewall_rule sub (rgn, server, name))"
  by (intro conjI rg_polled.deletion_ends vn_polled.deletion_ends sn_polled.deletion_ends nic_polled.deletion_ends
      pip_polled.deletion_ends sg_polled.deletion_ends lb_polled.deletion_ends redis_polled.deletion_ends
      sb_polled.deletion_ends id_prompt.released kv_prompt.released fw_prompt.released assms)

theorem azure_deletions_complete_witness:
  "\<forall>S. \<forall>c :: mgmt_client.
     let run = (\<lambda>n. reconciles std_lib (kube_beside (one_object_kube (\<lambda>_. True)))
            (async_beside (vn_client std_lib demo_auth (polled_vnet_sdk S))) (''ns'', ''obj'') KVirtualNetwork n
            (Some (ObjVirtualNetwork (demo_vnet [''10.0.0.0/8''] [finalizerName] (Some 5))), c, 2))
     in \<not> stored_finalizer (fst (run 3))"
proof (intro allI, unfold Let_def)
  fix S2 and c :: mgmt_client
  obtain S1 :: "nat rg_sdk" and S3 :: "nat subnet_sdk" and S4 :: "nat nic_sdk" and S5 :: "nat publicip_sdk"
    and S6 :: "nat sg_sdk" and S7 :: "nat lb_sdk" and S8 :: "nat redis_sdk" and S9 :: "nat sb_sdk"
    and T1 :: "nat identity_sdk" and T2 :: "nat vault_sdk" where True
    by blast
  note sdks = polled_sdks_ok(1) [of S1] polled_sdks_ok(2) [of S2] polled_sdks_ok(3) [of S3] polled_sdks_ok(4) [of S4]
    polled_sdks_ok(5) [of S5] polled_sdks_ok(6) [of S6] polled_sdks_ok(7) [of S7] polled_sdks_ok(8) [of S8]
    polled_sdks_ok(9) [of S9] accepting_sdks_ok(1) [of T1] accepting_sdks_ok(2) [of T2] accepting_sdks_ok(3)
  have "deletion_ends std_lib (one_object_kube (\<lambda>_. True)) (''ns'', ''obj'') KVirtualNetwork (\<lambda>s. s)
      (vn_client std_lib demo_auth (polled_vnet_sdk S2)) (is_vnet ''sub'' (''rg'', ''v'')) (\<lambda>w. w)"
    using azure_deletions_complete [OF lib_ok_std_lib agent_ok_demo one_object_kube_serves sdks] by blast
  then show "\<not> stored_finalizer (fst (reconciles std_lib (kube_beside (one_object_kube (\<lambda>_. True)))
            (async_beside (vn_client std_lib demo_auth (polled_vnet_sdk S2))) (''ns'', ''obj'') KVirtualNetwork 3
            (Some (ObjVirtualNetwork (demo_vnet [''10.0.0.0/8''] [finalizerName] (Some 5))), c, 2)))"
    unfolding deletion_ends_def
    by (auto simp: demo_vnet_def demo_meta_def is_vnet_def numeral_3_eq_3 numeral_2_eq_2)
qed

text \<open>
  C8. Liveness of creation for resource groups and subnets.  When Azure stores what is written and
  provisions it within \<open>d\<close> polls, then from one reconcile more than the remaining calls on the
  resource has the name and the location (the prefix) of the object, is provisioned, and every
  reconcile answers that there is nothing left to do; a resource with other values is corrected.
\<close>

theorem resources_provisioned:
  assumes "lib_ok L" "agent_ok A" "api_server_serves kb req kd stored"
    and "\<And>cl. stores (rg_Get S1 cl name) (rg_put S1 name cl) grp_Response grp_state grp_values d view1"
    and "\<And>cl. stores (sn_sdk_Get S2 cl rgn net name '''') (sn_sdk_CreateOrUpdate S2 cl rgn net name)
      sn_Response sn_State sn_values d view2"
  shows "provisions L kb req kd stored (rg_client L A S1) (is_group_at sub name loc) d view1 (Some name, Some loc) \<and>
    provisions L kb req kd stored (sn_client L A S2) (is_subnet_at sub (rgn, net, name) cidr) d view2 (Some name, Some cidr)"
  by (intro conjI rg_writing.provisioned sn_writing.provisioned assms refl)

theorem resources_provisioned_witness:
  "let run = (\<lambda>n. reconciles std_lib (kube_beside (one_object_kube (\<lambda>_. True)))
            (async_beside (rg_client std_lib demo_auth storing_group_sdk)) (''ns'', ''rg'') KResourceGroup n
            (Some (demo_group [] None), demo_client, Some ((Some ''rg'', Some ''old''), 1)))
   in snd (snd (run 4)) = Some ((Some ''rg'', Some ''westus2''), 1) \<and>
      snd (snd (run 5)) = Some ((Some ''rg'', Some ''westus2''), 0)"
proof -
  define run where "run = (\<lambda>n. reconciles std_lib (kube_beside (one_object_kube (\<lambda>_. True)))
            (async_beside (rg_client std_lib demo_auth storing_group_sdk)) (''ns'', ''rg'') KResourceGroup n
            (Some (demo_group [] None), demo_client, Some ((Some ''rg'', Some ''old''), 1)))"
  have "provisions std_lib (one_object_kube (\<lambda>_. True)) (''ns'', ''rg'') KResourceGroup (\<lambda>s. s)
      (rg_client std_lib demo_auth storing_group_sdk) (is_group_at ''sub'' ''rg'' ''westus2'') 2 (\<lambda>w. w)
      (Some ''rg'', Some ''westus2'')"
    using resources_provisioned [OF lib_ok_std_lib agent_ok_demo one_object_kube_serves storing_sdks_ok] by blast
  then have "snd (snd (run 5)) = Some ((Some ''rg'', Some ''westus2''), 0)"
    unfolding provisions_def run_def Let_def
    by (auto simp: is_group_at_def demo_group_def demo_meta_def calls_left_def)
  moreover have "snd (snd (run 4)) = Some ((Some ''rg'', Some ''westus2''), 1)"
    unfolding run_def by code_simp
  ultimately show ?thesis by (simp add: run_def)
qed

text \<open>
  C9. Which live resources ever come to rest, so that a reconcile answers that nothing is left to do,
  when Azure stores what is written.  A group and a subnet always do.  An interface does whenever
  its configuration can be built; one with an empty list of configurations, for which \<open>Ensure\<close>
  fails to create it, does exactly when Azure has it at the start.  A network (with at least one
  wanted prefix) does exactly when the prefixes Azure has at the start are the first of the wanted
  ones, in order, and the other wanted ones are distinct and not among them, since prefixes are
  only added, each once.  A namespace (with no secret to fill) does exactly when Azure has it at
  the start with no SKU or one that \<open>NeedsUpdate\<close> does not tell from the wanted one, and with no
  location or one that is not the wanted one.  Every other one is tried again and again.
\<close>

theorem resources_come_to_rest:
  assumes "lib_ok L" "agent_ok A" "api_server_serves kb req kd stored"
    and "\<And>cl. stores (rg_Get S1 cl name) (rg_put S1 name cl) grp_Response grp_state grp_values d view1"
    and "\<And>cl. stores (sn_sdk_Get S2 cl rgn net name '''') (sn_sdk_CreateOrUpdate S2 cl rgn net name)
      sn_Response sn_State sn_values d view2"
    and "\<And>cl. stores (nic_sdk_Get S3 cl rgn name '''') (nic_sdk_CreateOrUpdate S3 cl rgn name)
      nicr_Response nic_state nic_values d view3"
    and "\<And>cl. stores (vn_sdk_Get S4 cl rgn name '''') (vn_sdk_CreateOrUpdate S4 cl rgn name)
      vnet_Response vn_State vn_values d view4"
    and "\<And>cl. stores (sb_sdk_Get S5 cl rgn name) (sb_sdk_CreateOrUpdate S5 cl rgn name)
      sbr_Response sb_state sb_values d view5"
  shows "rests_when L kb req kd stored (rg_client L A S1) (is_group_at sub name loc) view1 (\<lambda>_. True) \<and>
    rests_when L kb req kd stored (sn_client L A S2) (is_subnet_at sub (rgn, net, name) cidr) view2 (\<lambda>_. True) \<and>
    rests_when L kb req kd stored (nic_client L A S3) (is_nic_at sub (rgn, name) spec) view3 (\<lambda>_. True) \<and>
    rests_when L kb req kd stored (nic_client L A S3) (is_nic_empty sub (rgn, name)) view3 (\<lambda>u. u \<noteq> None) \<and>
    rests_when L kb req kd stored (vn_client L A S4) (is_vnet_at sub (rgn, name) loc cidrs) view4 (prefixes_fit cidrs) \<and>
    rests_when L kb req kd stored (sb_client L A K S5) (is_namespace_at sub (rgn, name) want loc) view5
      (\<lambda>u. case u of None \<Rightarrow> False | Some (v, _) \<Rightarrow> sb_left_alone want loc v)"
  using rg_writing.rests [OF assms(1-4) refl, where sub = sub and loc = loc]
    sn_writing.rests [OF assms(1-3,5) refl, where sub = sub and cidr = cidr]
    nic_writing.rests [OF assms(1-3,6) refl, where sub = sub and spec = spec]
    nic_waiting.rests_when_found [OF assms(1-3,6), where sub = sub]
    vn_writing.rests [OF assms(1-3,7) vn_written_idem, where sub = sub and loc = loc and cidrs = cidrs]
    sb_writing.rests [OF assms(1-3,8) refl, where sub = sub and want = want and loc = loc and K = K]
  by (simp add: settles_always ext [OF vn_settles] sb_settles)

theorem resources_come_to_rest_witness:
  "\<forall>S. let rests = (\<lambda>xs. comes_to_rest std_lib (one_object_kube (\<lambda>_. True)) (''ns'', ''obj'') KVirtualNetwork (\<lambda>s. s)
            (vn_client std_lib demo_auth (storing_vnet_sdk S))
            (Some (ObjVirtualNetwork (demo_vnet [''10.0.0.0/8'', ''172.16.0.0/12''] [] None)),
              (demo_client, Some ((Some ''v'', None, Some xs), 1))))
       in rests [''10.0.0.0/8''] \<and> \<not> rests [''172.16.0.0/12''] \<and> \<not> rests [''192.168.0.0/16'']"
proof
  fix S
  have "rests_when std_lib (one_object_kube (\<lambda>_. True)) (''ns'', ''obj'') KVirtualNetwork (\<lambda>s. s)
      (vn_client std_lib demo_auth (storing_vnet_sdk S)) (is_vnet_at ''sub'' (''rg'', ''v'') ''westus2'' [''10.0.0.0/8'', ''172.16.0.0/12''])
      (\<lambda>w. w) (prefixes_fit [''10.0.0.0/8'', ''172.16.0.0/12''])"
    using resources_come_to_rest [OF lib_ok_std_lib agent_ok_demo one_object_kube_serves storing_sdks_ok
      more_storing_sdks_ok(2,1,3), where cidrs = "[''10.0.0.0/8'', ''172.16.0.0/12'']"] by simp
  then show "let rests = (\<lambda>xs. comes_to_rest std_lib (one_object_kube (\<lambda>_. True)) (''ns'', ''obj'') KVirtualNetwork (\<lambda>s. s)
            (vn_client std_lib demo_auth (storing_vnet_sdk S))
            (Some (ObjVirtualNetwork (demo_vnet [''10.0.0.0/8'', ''172.16.0.0/12''] [] None)),
              (demo_client, Some ((Some ''v'', None, Some xs), 1))))
       in rests [''10.0.0.0/8''] \<and> \<not> rests [''172.16.0.0/12''] \<and> \<not> rests [''192.168.0.0/16'']"
    unfolding rests_when_def Let_def
    by (auto simp: demo_vnet_def demo_meta_def is_vnet_at_def prefixes_fit_def Let_def)
qed

text \<open>
  C10. Liveness of deletion.  The API server serves the object and Azure needs \<open>left\<close> more polls:
  after one reconcile more than that the finalizer of a deleted object is gone.
\<close>

theorem deletion_completes:
  assumes "lib_ok L" "api_server_serves kb req kd stored"
    and "subscribes az mine ready left" "delete_progresses az mine ready left"
    and "stored k = Some obj" "mine obj" "deleting obj" "has_finalizer obj"
  shows "\<not> stored_finalizer
    (stored (fst (reconciles L (kube_beside kb) (async_beside az) req kd (Suc (left c)) (k, c))))"
  by (rule deletion_completes_from [OF assms])

theorem deletion_completes_witness:
  "let run = (\<lambda>n. reconciles std_lib (kube_beside (one_object_kube (\<lambda>_. True)))
         (async_beside (rg_client std_lib demo_auth deleting_sdk)) (''ns'', ''rg'') KResourceGroup n
         (Some (demo_group [finalizerName] (Some 5)), demo_client, 2))
   in stored_finalizer (fst (run 2)) \<and> \<not> stored_finalizer (fst (run 3))"
proof -
  have "stored_finalizer (fst (reconciles std_lib (kube_beside (one_object_kube (\<lambda>_. True)))
         (async_beside (rg_client std_lib demo_auth deleting_sdk)) (''ns'', ''rg'') KResourceGroup 2
         (Some (demo_group [finalizerName] (Some 5)), demo_client, 2)))"
    by code_simp
  moreover have "\<not> stored_finalizer (fst (reconciles std_lib (kube_beside (one_object_kube (\<lambda>_. True)))
         (async_beside (rg_client std_lib demo_auth deleting_sdk)) (''ns'', ''rg'') KResourceGroup 3
         (Some (demo_group [finalizerName] (Some 5)), demo_client, 2)))"
    using deletion_completes [OF lib_ok_std_lib one_object_kube_serves polled_subscribes deleting_progresses,
        where k = "Some (demo_group [finalizerName] (Some 5))" and obj = "demo_group [finalizerName] (Some 5)"
        and c = "(demo_client, 2)" and req = "(''ns'', ''rg'')" and kd = KResourceGroup]
    by (simp add: demo_group_def numeral_eq_Suc)
  ultimately show ?thesis by (simp add: Let_def)
qed

text \<open>
  C11. Liveness of creation.  A live object, with the finalizer or without, is reconciled without
  error and without a requeue from the moment on where the calls Azure needs have been made (one
  more reconcile adds the finalizer).
\<close>

theorem creation_completes:
  assumes "lib_ok L" "api_server_serves kb req kd stored"
    and "subscribes az mine ready left" "ensure_progresses az mine ready left"
    and "\<And>f obj. mine obj \<Longrightarrow> mine (map_meta f obj)"
    and "live stored mine s" and "work_left stored left s \<le> n"
  shows "fst (async_Reconcile L (kube_beside kb) (async_beside az) req kd
      (reconciles L (kube_beside kb) (async_beside az) req kd n s)) = Returns (no_requeue, None)"
proof -
  let ?s = "reconciles L (kube_beside kb) (async_beside az) req kd n s"
  have "live stored mine ?s" "work_left stored left ?s = 0"
    using reconciles_live [OF assms(1-6), of n] assms(7) by simp_all
  with live_reconcile [OF assms(1-5), of ?s] show ?thesis by auto
qed

theorem creation_completes_witness:
  "let run = (\<lambda>n. fst (async_Reconcile std_lib (kube_beside (one_object_kube (\<lambda>_. True)))
         (async_beside (rg_client std_lib demo_auth creating_sdk)) (''ns'', ''rg'') KResourceGroup
         (reconciles std_lib (kube_beside (one_object_kube (\<lambda>_. True)))
           (async_beside (rg_client std_lib demo_auth creating_sdk)) (''ns'', ''rg'') KResourceGroup n
           (Some (demo_group [] None), demo_client, 2))))
   in run 1 = Returns (\<lparr>Requeue = True\<rparr>, None) \<and> run 3 = Returns (no_requeue, None) \<and> run 7 = Returns (no_requeue, None)"
proof -
  define run where "run = (\<lambda>n. fst (async_Reconcile std_lib (kube_beside (one_object_kube (\<lambda>_. True)))
         (async_beside (rg_client std_lib demo_auth creating_sdk)) (''ns'', ''rg'') KResourceGroup
         (reconciles std_lib (kube_beside (one_object_kube (\<lambda>_. True)))
           (async_beside (rg_client std_lib demo_auth creating_sdk)) (''ns'', ''rg'') KResourceGroup n
           (Some (demo_group [] None), demo_client, 2))))"
  have "run 1 = Returns (\<lparr>Requeue = True\<rparr>, None)" unfolding run_def by code_simp
  moreover have "run n = Returns (no_requeue, None)" if "3 \<le> n" for n
    unfolding run_def
    by (rule creation_completes [OF lib_ok_std_lib one_object_kube_serves polled_subscribes creating_progresses
          polled_map_meta])
      (use that in \<open>simp_all add: live_def work_left_def demo_group_def\<close>)
  ultimately show ?thesis by (simp add: Let_def run_def)
qed

text \<open>
  C12. The traffic manager controller has a \<open>Reconcile\<close> of its own; when the API server serves
  traffic managers it is the generic asynchronous reconciler on a client whose \<open>Delete\<close> never
  finds the profile again.
\<close>

theorem tm_reconcile_equivalent:
  assumes "kube_serves_tm kb"
  shows "tm_Reconcile L kb az req s = async_Reconcile L kb (tm_as_async az) req KTrafficManager s"
  by (rule tm_Reconcile_eq [OF assms])

theorem tm_reconcile_equivalent_witness:
  "let az = tm_beside (tm_client std_lib demo_auth stuck_tm_sdk);
       s = (Some (ObjTrafficManager (demo_tm [finalizerName] (Some 5))), demo_client, True);
       r = async_Reconcile std_lib tm_kube (tm_as_async az) (''ns'', ''obj'') KTrafficManager s
   in tm_Reconcile std_lib tm_kube az (''ns'', ''obj'') s = r \<and> fst r = Returns (no_requeue, None) \<and>
      fst (snd r) = None \<and> snd (snd (snd r))"
proof -
  define r where "r = async_Reconcile std_lib tm_kube (tm_as_async (tm_beside (tm_client std_lib demo_auth stuck_tm_sdk)))
    (''ns'', ''obj'') KTrafficManager (Some (ObjTrafficManager (demo_tm [finalizerName] (Some 5))), demo_client, True)"
  have "fst r = Returns (no_requeue, None)" "fst (snd r) = None" "snd (snd (snd r))"
    unfolding r_def by code_simp+
  then show ?thesis
    using tm_reconcile_equivalent [OF tm_kube_serves, of std_lib] by (simp add: Let_def r_def)
qed

text \<open>
  C13. A reconcile that answers neither an error nor a requeue has nothing left to do, for every API
  server and every client: for a live object with the finalizer \<open>Ensure\<close> reported that the
  resource is as wanted, for a deleted one \<open>Delete\<close> answered \<open>(false, nil)\<close> and the object was
  written without the finalizer.
\<close>

theorem reconcile_settles:
  assumes "lib_ok L"
    and "async_Reconcile L (traced_kube kb) (traced_async az) req k (s, []) = (Returns (no_requeue, None), s')"
  shows "settled (snd s')"
  using tripleD_Returns [OF async_Reconcile_settled [OF assms(1)] _ assms(2)] by simp

theorem reconcile_settles_witness:
  "\<exists>s'. async_Reconcile std_lib (traced_kube demo_kube) (traced_async demo_async)
             (''ns'', ''rg'') KResourceGroup (demo_state [finalizerName] (Some 5) (Some zero_Group), []) =
         (Returns (no_requeue, None), s') \<and> settled (snd s')"
proof -
  let ?r = "async_Reconcile std_lib (traced_kube demo_kube) (traced_async demo_async)
             (''ns'', ''rg'') KResourceGroup (demo_state [finalizerName] (Some 5) (Some zero_Group), [])"
  have "fst ?r = Returns (no_requeue, None)" by code_simp
  then have run: "?r = (Returns (no_requeue, None), snd ?r)" by (simp add: prod_eq_iff)
  show ?thesis by (rule exI, rule conjI [OF run reconcile_settles [OF lib_ok_std_lib run]])
qed

text \<open>
  C14. The clients write nothing but the status of their objects: in every reconcile of every kind,
  each object sent to the status subresource is the fetched one up to its status, also in a run
  that fails or panics.
\<close>

theorem clients_status_only:
  "async_status_only L kb1 (rg_client L A S1) \<and> async_status_only L kb2 (vn_client L A S2) \<and>
   async_status_only L kb3 (sn_client L A S3) \<and> async_status_only L kb4 (nic_client L A S4) \<and>
   async_status_only L kb5 (pip_client L A S5) \<and> async_status_only L kb6 (sg_client L A S6) \<and>
   async_status_only L kb7 (lb_client L A S7) \<and> async_status_only L kb8 (redis_client L A K8 S8) \<and>
   async_status_only L kb9 (sb_client L A K9 S9) \<and>
   async_status_only L kb10 (vm_async_client L A S10 D Z intn rand_Read) \<and>
   async_status_only L kb11 (tm_as_async (tm_client L A S11)) \<and>
   sync_status_only L kb12 (id_client L A S12) \<and> sync_status_only L kb13 (kv_client L A U S13) \<and>
   sync_status_only L kb14 (fw_client L A S14) \<and> sync_status_only L kb15 (sql_client L A K15 F S15) \<and>
   sync_status_only L kb16 (rediskey_client L A K16 S16) \<and> sync_status_only L kb17 (sbkey_client L A K17 S17) \<and>
   sync_status_only L kb18 (storagekey_client L A K18 S18) \<and> sync_status_only L kb19 (secret_client L K19 V19) \<and>
   sync_status_only L kb20 (tls_client L T K20 V20) \<and> sync_status_only L kb21 (bundle_client L T K21 V21) \<and>
   sync_status_only L kb22 (docker_client L marshal K22 V22)"
  by (intro conjI rg.runs_status_only vn.runs_status_only sn.runs_status_only nic.runs_status_only pip.runs_status_only
      sg.runs_status_only lb.runs_status_only redis.runs_status_only sb.runs_status_only vm.runs_status_only
      tm.runs_status_only id.runs_status_only kv.runs_status_only fw.runs_status_only sql.runs_status_only
      rediskey.runs_status_only sbkey.runs_status_only storagekey.runs_status_only secret.runs_status_only
      tls.runs_status_only secretbundle.runs_status_only docker.runs_status_only)

text \<open>
  C15. Termination of the tool's loop (\<open>EnsureAsync\<close>): for every client, the operation is called at
  most \<open>bo_Steps backoff\<close> times, which is 30, whatever the answers.  \<open>calls\<close> is any count in the
  state that a call raises by one at most and that nobody raises in between.
\<close>

theorem ensure_attempts_bounded:
  assumes "backoff_ok sleep EB" and "\<And>obj s. calls (snd (async_Ensure az obj s)) \<le> Suc (calls s)"
    and "\<And>obj s. calls (snd (async_ForSubscription az obj s)) = calls s"
    and "\<And>s s'. sleep s s' \<Longrightarrow> calls s' \<le> calls s"
  shows "calls (snd (EnsureAsync L EB az obj s)) \<le> calls s + bo_Steps backoff"
  by (rule EnsureAsync_calls [where az = az, OF assms])

theorem ensure_attempts_bounded_witness:
  "let az = \<lparr>async_ForSubscription = (\<lambda>obj. go_ret None),
             async_Ensure = (\<lambda>obj n. (Returns (obj, False, None), Suc n)),
             async_Delete = (\<lambda>obj n. (Returns (obj, True, None), n))\<rparr>
   in fst (EnsureAsync std_lib patient_backoff az (demo_group [] None) 0) = Returns (Some WaitTimeout) \<and>
      snd (EnsureAsync std_lib patient_backoff az (demo_group [] None) (7 :: nat)) \<le> 37"
proof -
  define az :: "nat AsyncClient" where "az = \<lparr>async_ForSubscription = (\<lambda>obj. go_ret None),
             async_Ensure = (\<lambda>obj n. (Returns (obj, False, None), Suc n)),
             async_Delete = (\<lambda>obj n. (Returns (obj, True, None), n))\<rparr>"
  have "fst (EnsureAsync std_lib patient_backoff az (demo_group [] None) 0) = Returns (Some WaitTimeout)"
    unfolding az_def by code_simp
  moreover have "snd (EnsureAsync std_lib patient_backoff az (demo_group [] None) 7) \<le> 7 + bo_Steps backoff"
    by (rule ensure_attempts_bounded [where calls = "\<lambda>n. n", OF patient_backoff_ok [of "(=)"]])
      (simp_all add: az_def go_ret_apply)
  ultimately show ?thesis by (simp add: Let_def az_def backoff_def)
qed



text \<open>
  C17. When the tool reports a resource group as ensured, the last call it made was an \<open>Ensure\<close> of
  that group, on an object with the same metadata and spec, and it answered \<open>(true, nil)\<close>.
\<close>

theorem tool_ensures_groups:
  assumes "backoff_ok sleep (bo_mgmt T)" and "cmd_Ensure T cfg (ObjResourceGroup x) w = (Returns None, w')"
  shows "\<exists>c1 w1 obj1 obj2. clear_status obj1 = clear_status (ObjResourceGroup x) \<and>
    rg_Ensure (t_lib T) (s_groups (t_sdks T)) c1 obj1 w1 = (Returns (obj2, True, None), w')"
  by (rule cmd_Ensure_group [OF assms])

theorem tool_ensures_groups_witness:
  "\<forall>S tls marshal. \<exists>c1 w1 obj1 obj2. clear_status obj1 = clear_status (demo_group [] None) \<and>
     rg_Ensure std_lib creating_sdk c1 obj1 w1 = (Returns (obj2, True, None), 0)"
proof (intro allI)
  fix S :: "nat sdks" and tls marshal
  obtain x where x: "demo_group [] None = ObjResourceGroup x" by (simp add: demo_group_def)
  let ?T = "demo_tool (S\<lparr>s_groups := creating_sdk\<rparr>) tls marshal"
  have "run_client (rg_NewWithFactory demo_config demo_factory)
      (EnsureAsync std_lib patient_backoff (rg_client std_lib demo_auth creating_sdk) (demo_group [] None)) 3 = (Returns None, 0)"
    by code_simp
  then have "cmd_Ensure ?T demo_config (ObjResourceGroup x) 3 = (Returns None, 0)"
    by (simp add: cmd_Ensure_def ensure_switch_def ensure_mgmt_def demo_factories_def go_simps Let_def x)
  from tool_ensures_groups [OF _ this, of "(=)"]
  show "\<exists>c1 w1 obj1 obj2. clear_status obj1 = clear_status (demo_group [] None) \<and>
     rg_Ensure std_lib creating_sdk c1 obj1 w1 = (Returns (obj2, True, None), 0)"
    by (simp add: patient_backoff_ok x)
qed

text \<open>
  C18. A \<open>Secret\<close> that is ensured without an error holds the value of the key vault under its key,
  next to what the Kubernetes secret held before; no other secret is touched, and the object is
  marked as succeeded.
\<close>

theorem vault_secret_stored:
  assumes "secret_ops_ok L K st"
    and "vs_GetSecret V c (vault_url V (secret_Vault x)) (secret_Name x) '''' w = (Returns (Some v, None), w1)"
    and "secret_Ensure K V (Some c) (ObjSecret x) w = (Returns (obj', None), w')"
  shows "\<exists>s. st w' = (st w1)((om_Namespace (ObjectMeta x), om_Name (ObjectMeta x)) \<mapsto> s) \<and>
       ks_Data s = Some ((case st w1 (om_Namespace (ObjectMeta x), om_Name (ObjectMeta x)) of
          None \<Rightarrow> Map.empty | Some old \<Rightarrow> secret_data old)(secret_data_key x \<mapsto> v)) \<and>
       obj' = ObjSecret (x\<lparr>Status := (Status x)\<lparr>secst_State := Some ''Succeeded''\<rparr>\<rparr>)"
proof -
  obtain s where s: "st w' (om_Namespace (ObjectMeta x), om_Name (ObjectMeta x)) = Some s"
      "ks_Data s = Some ((case st w1 (om_Namespace (ObjectMeta x), om_Name (ObjectMeta x)) of
          None \<Rightarrow> Map.empty | Some old \<Rightarrow> secret_data old)(secret_data_key x \<mapsto> v))"
    using secret_Ensure_stores(1) [OF assms] by blast
  moreover have "st w' = (st w1)((om_Namespace (ObjectMeta x), om_Name (ObjectMeta x)) \<mapsto> s)"
    using secret_Ensure_stores(2) [OF assms] s(1) by (auto simp: fun_eq_iff)
  ultimately show ?thesis using secret_Ensure_stores(3) [OF assms] by blast
qed

theorem vault_secret_stored_witness:
  "\<exists>s. snd (secret_Ensure map_secret_ops (open_vault ''pw'') (Some \<lparr>vc_Authorizer = None\<rparr>) (ObjSecret (demo_secret [])) Map.empty) =
      [(''ns'', ''obj'') \<mapsto> s] \<and> ks_Data s = Some [''s'' \<mapsto> ''pw'']"
proof -
  let ?run = "secret_Ensure map_secret_ops (open_vault ''pw'') (Some \<lparr>vc_Authorizer = None\<rparr>) (ObjSecret (demo_secret [])) Map.empty"
  have "case fst ?run of Returns (obj, err) \<Rightarrow> err = None | Panics \<Rightarrow> False" by code_simp
  then obtain obj' where "fst ?run = Returns (obj', None)" by (auto split: outcome.splits)
  then have run: "?run = (Returns (obj', None), snd ?run)" by (simp add: prod_eq_iff)
  have get: "vs_GetSecret (open_vault ''pw'') \<lparr>vc_Authorizer = None\<rparr>
      (vault_url (open_vault ''pw'') (secret_Vault (demo_secret []))) (secret_Name (demo_secret [])) '''' Map.empty =
      (Returns (Some ''pw'', None), Map.empty)"
    by (simp add: open_vault_def go_ret_apply)
  show ?thesis
    using vault_secret_stored [OF map_secret_ops_ok get run]
    by (auto simp: demo_secret_def demo_meta_def secret_data_key_def)
qed

text \<open>
  C19. The keys of a cache that are asked for end up in the target secret of the \<open>RedisKey\<close>, each
  under the name the object gives it and next to what was there; an ensure without an error
  means that Azure had every key that was asked for.
\<close>

theorem redis_keys_stored:
  assumes "lib_ok L" "secret_ops_ok L K st"
    and "rks_PrimaryKey (Spec x) \<noteq> None \<or> rks_SecondaryKey (Spec x) \<noteq> None"
    and "rd_sdk_ListKeys S (mc_internal c) (rks_ResourceGroup (Spec x)) (rks_Name (Spec x)) w = (Returns (keys, None), w1)"
    and "rediskey_Ensure L K S c (ObjRedisKey x) w = (Returns (obj', None), w')"
  shows "\<exists>s. st w' (om_Namespace (ObjectMeta x), rks_TargetSecret (Spec x)) = Some s \<and>
     ks_Data s = Some (upd_all
       (wanted_entries [(rks_PrimaryKey (Spec x), rdk_PrimaryKey keys), (rks_SecondaryKey (Spec x), rdk_SecondaryKey keys)])
       (case st w1 (om_Namespace (ObjectMeta x), rks_TargetSecret (Spec x)) of
          None \<Rightarrow> Map.empty | Some old \<Rightarrow> secret_data old)) \<and>
     (rks_PrimaryKey (Spec x) \<noteq> None \<longrightarrow> rdk_PrimaryKey keys \<noteq> None) \<and>
     (rks_SecondaryKey (Spec x) \<noteq> None \<longrightarrow> rdk_SecondaryKey keys \<noteq> None)"
  by (rule rediskey_Ensure_stores [OF assms])

theorem redis_keys_stored_witness:
  "\<exists>s. snd (rediskey_Ensure std_lib map_secret_ops (ready_redis_sdk ''westus2'') demo_client (ObjRedisKey demo_rediskey) Map.empty)
      (''ns'', ''keys'') = Some s \<and> ks_Data s = Some [''primary'' \<mapsto> ''k1'']"
proof -
  let ?S = "ready_redis_sdk ''westus2'' :: (namespaced_name \<rightharpoonup> k8s_secret) redis_sdk"
  let ?run = "rediskey_Ensure std_lib map_secret_ops ?S demo_client (ObjRedisKey demo_rediskey) Map.empty"
  have "case fst ?run of Returns (obj, err) \<Rightarrow> err = None | Panics \<Rightarrow> False" by code_simp
  then obtain obj' where "fst ?run = Returns (obj', None)" by (auto split: outcome.splits)
  then have run: "?run = (Returns (obj', None), snd ?run)" by (simp add: prod_eq_iff)
  have list: "rd_sdk_ListKeys ?S (mc_internal demo_client) (rks_ResourceGroup (Spec demo_rediskey))
      (rks_Name (Spec demo_rediskey)) Map.empty =
      (Returns (\<lparr>rdk_PrimaryKey = Some ''k1'', rdk_SecondaryKey = Some ''k2''\<rparr>, None), Map.empty)"
    by (simp add: ready_redis_sdk_def go_ret_apply)
  show ?thesis
    using redis_keys_stored [OF lib_ok_std_lib map_secret_ops_ok _ list run]
    by (auto simp: demo_rediskey_def demo_meta_def)
qed

text \<open>
  C20. A machine spec that has just gone through the options of \<open>Ensure\<close>, with a chosen zone, needs no
  update, whatever it was before: no option panics, and \<open>NeedsUpdate\<close> answers \<open>false\<close>.
\<close>

theorem machine_written_settles:
  "fst (go_bind (vm_options x (vm_set_Zone z)) (\<lambda>_. vm_spec_NeedsUpdate x) s) = Returns False"
proof -
  obtain s' where "vm_options x (vm_set_Zone z) s = (Returns (), s')" "vm_spec_NeedsUpdate x s' = (Returns False, s')"
    using vm_written_needs_no_update [of "vm_set_Zone z" x s] by blast
  then show ?thesis by (simp add: go_bind_step)
qed

text \<open>
  C21. The operations of the machine client return the object they were given up to its status, and
  \<open>Ensure\<close> never answers \<open>(true, err)\<close>; for every SDK, every source of randomness and every
  object, also one of another kind.
\<close>

theorem machine_operations_typed:
  "(case fst (vm_Ensure L S Z intn rand_Read c obj w) of
      Returns (obj', done, err) \<Rightarrow> clear_status obj' = clear_status obj \<and> \<not> (done \<and> err \<noteq> None)
    | Panics \<Rightarrow> True) \<and>
   (case fst (vm_Delete L S D c obj w) of
      Returns (obj', found, err) \<Rightarrow> clear_status obj' = clear_status obj
    | Panics \<Rightarrow> True)"
  by (cases "vm_Ensure L S Z intn rand_Read c obj w"; cases "vm_Delete L S D c obj w")
    (auto split: outcome.split dest: vm_Ensure_Returns vm_Delete_Returns)

text \<open>
  C22. The interface that is sent has one configuration per configuration of the spec, in order:
  the \<open>k\<close>-th is named \<open>ipConfig<k>\<close>, lies in the subnet of the interface, and the first is the
  primary one.
\<close>

theorem interface_configurations:
  assumes "nis_IPConfigurations (Spec x) = Some configs" "nic_wanted x = Inr spec"
  shows "\<exists>p ips. nicr_Properties spec = Some p \<and> nicp_IPConfigurations p = Some ips \<and> length ips = length configs \<and>
    (\<forall>k < length ips. nip_Name (ips ! k) = Some (''ipConfig'' @ decimal (int k)) \<and> nip_Subnet_ID (ips ! k) = Some (nic_subnet x) \<and>
       (nip_Primary (ips ! k) = Some True \<longleftrightarrow> k = 0))"
  by (rule nic_wanted_configs [OF assms])

theorem interface_configurations_witness:
  "\<exists>spec p ips. nic_wanted demo_nic = Inr spec \<and> nicr_Properties spec = Some p \<and> nicp_IPConfigurations p = Some ips \<and>
     length ips = 3 \<and> nip_Primary (ips ! 0) = Some True \<and> nip_Primary (ips ! 2) \<noteq> Some True"
proof -
  obtain spec where spec: "nic_wanted demo_nic = Inr spec"
    by (cases "nic_wanted demo_nic") (simp_all add: nic_wanted_def demo_nic_def Let_def)
  have configs: "nis_IPConfigurations (Spec demo_nic) =
      Some (replicate 3 \<lparr>iic_PublicIP = None, iic_PrivateIP = None, iic_LoadBalancers = None\<rparr>)"
    by (simp add: demo_nic_def)
  from interface_configurations [OF configs spec] obtain p ips where "nicr_Properties spec = Some p"
      "nicp_IPConfigurations p = Some ips" "length ips = 3" "\<forall>k<3. nip_Primary (ips ! k) = Some True \<longleftrightarrow> k = 0"
    by auto
  with spec show ?thesis by auto
qed

text \<open>
  C23. The rules of a security group are sent with their own names only when all have the name of the
  last one: every rule holds the address of the \<open>Name\<close> field of the loop variable, which the
  loop leaves at the last rule.
\<close>

theorem security_rule_names:
  "map snr_Name (sg_rules rules) = map sr_Name rules \<longleftrightarrow> set (map sr_Name rules) \<subseteq> {sr_Name (last rules)}"
  by (auto simp: sg_names_wanted_iff)

text \<open>
  C24. The load balancing rules that \<open>Ensure\<close> writes read back (as \<open>NeedsUpdate\<close> reads them) as the
  wanted ones exactly when the rules agree with the last one in the fields whose address is
  taken in the loop.
\<close>

theorem balancer_rules_read_back:
  "(lb_rule_specs (lb_rules rules) :: ('w, RuleSpec list) go) = go_ret rules \<longleftrightarrow>
     set (map (\<lambda>r. (rule_Name r, rule_Frontend r, rule_BackendPool r, rule_Probe r)) rules) \<subseteq>
       {(\<lambda>r. (rule_Name r, rule_Frontend r, rule_BackendPool r, rule_Probe r)) (last rules)}"
proof -
  have "(lb_rule_specs (lb_rules rules) :: ('w, RuleSpec list) go) = go_ret rules \<longleftrightarrow> lb_collapsed rules = rules"
    by (auto simp: lb_rules_read_back go_ret_def fun_eq_iff)
  then show ?thesis by (auto simp: lb_collapsed_wanted_iff)
qed

text \<open>
  C25. The generated deep copies fit the structs of the API: \<open>DeepCopy\<close> of every type and
  \<open>DeepCopyObject\<close> of every kind and list answer an equal value, and a write into a cell of the one
  is never seen through the other; the copies of the embedded metadata are apimachinery's.
  The types with a \<open>DeepCopyObject\<close> are exactly the registered ones.
\<close>

theorem deep_copies_independent:
  assumes "k8s_meta_ok M"
  shows "list_all (\<lambda>(n, c, T). independent c T) (deep_copies M) \<and>
    list_all (\<lambda>(n, f, T). object_independent f T) (deep_objects M) \<and>
    set (map fst (deep_objects M)) = set SchemeBuilder"
  by (intro conjI deep_copies_all_independent deep_objects_all_independent assms SchemeBuilder_copied [symmetric])

theorem deep_copies_independent_witness:
  "let T = TPtr (ResourceGroup_type demo_k8s); p = Ptr (Some 1) in
     \<exists>p' m'. ResourceGroup_DeepCopyObject demo_k8s p demo_memory = (Returns (Some p'), m') \<and>
       deep m' T p' = deep demo_memory T p \<and>
       (\<forall>a\<in>reach m' T p'. \<forall>x. deep (poke a x m') T p = deep demo_memory T p)"
proof -
  have "object_independent (ResourceGroup_DeepCopyObject demo_k8s) (ResourceGroup_type demo_k8s)"
    using conjunct1 [OF conjunct2 [OF deep_copies_independent [OF k8s_meta_ok_demo]]] by (simp add: deep_objects_def)
  moreover have "allocated demo_memory (reach demo_memory (TPtr (ResourceGroup_type demo_k8s)) (Ptr (Some 1)))"
    by (simp only: demo_memory_group) (simp add: allocated_def demo_memory_def)
  ultimately show ?thesis
    using demo_memory_group(1) unfolding object_independent_def Let_def by fastforce
qed

text \<open>
  C26. The port of a probe is the wanted one converted to \<open>int32\<close>: the low 32 bits, read as two's
  complement.  So it is the number in the range of \<open>int32\<close> that agrees with the wanted port modulo
  2^32, and it is the wanted port exactly when that fits.  The names of the probes of two ports
  differ when the ports do.
\<close>

theorem probe_ports_in_range:
  "(\<exists>n. lbp_Port (lb_probe_of p) = Some n \<and> n = sint (word_of_int p :: 32 word) \<and>
     - (2 ^ 31) \<le> n \<and> n < 2 ^ 31 \<and> n mod 2 ^ 32 = p mod 2 ^ 32 \<and>
     (n = p \<longleftrightarrow> - (2 ^ 31) \<le> p \<and> p < 2 ^ 31)) \<and>
   (lbp_Name (lb_probe_of p) = lbp_Name (lb_probe_of q) \<longleftrightarrow> p = q)"
proof -
  have "lbp_Port (lb_probe_of p) = Some (int32_of p)" by (simp add: lb_probe_of_def)
  moreover have "int32_of p = p \<longleftrightarrow> - (2 ^ 31) \<le> p \<and> p < 2 ^ 31"
    using int32_of_range [of p] int32_of_id [of p] by auto
  ultimately show ?thesis
    using int32_of_range [of p] int32_of_word [of p] int32_of_mod [of p] lb_probe_names_distinct [of p q] by blast
qed

text \<open>
  C27. The \<open>auth\<close> field of a docker configuration decodes to \<open>username:password\<close>.
\<close>

theorem docker_auth_roundtrip:
  "map_option string_of (base64_decode base64_std True (encodeDockerConfigFieldAuth username password)) =
     Some (username @ '':'' @ password)"
  by (rule docker_auth_decodes)

text \<open>
  C28. Reading a manifest skips the blank documents and is otherwise the reference decoder on the
  documents in order: it stops at the first error and answers all objects when there is none.
\<close>

theorem manifests_read:
  "read_objects dec (reader_of docs) [] = decode_all dec (filter (\<lambda>d. \<not> blank d) docs)"
  by (cases "decode_all dec (filter (\<lambda>d. \<not> blank d) docs)") (simp_all add: read_objects_eq)

text \<open>
  C29. Adding and removing the finalizer gives back the metadata exactly when they did not have it:
  the other finalizers keep their order, and nothing else changes.
\<close>

theorem finalizer_roundtrip:
  "RemoveFinalizer (AddFinalizer m f) f = m \<longleftrightarrow> \<not> HasFinalizer m f"
proof
  assume "RemoveFinalizer (AddFinalizer m f) f = m"
  then have "set (om_Finalizers m) = set (om_Finalizers (RemoveFinalizer (AddFinalizer m f) f))" by simp
  also have "\<dots> = set (om_Finalizers m) - {f}" by simp
  finally show "\<not> HasFinalizer m f" by auto
qed (rule RemoveFinalizer_AddFinalizer)

text \<open>
  C30. The loop that swaps certificates from both ends of the chain is list reversal, for every
  length.
\<close>

theorem certificates_reversed: "reverse_certs s = rev s"
  by (rule reverse_certs_rev)

text \<open>
  C31. The zones that a machine can be placed in: whatever the SKU list of the subscription holds
  and wherever the walk over it stops, the answer is a sorted list without duplicates.
\<close>

theorem zones_ordered:
  "case fst (zn_Get L S c local w) of
     Returns (zones, err) \<Rightarrow> sorted zones \<and> distinct zones
   | Panics \<Rightarrow> True"
  by (cases "zn_Get L S c local w") (auto simp: zone_list_def split: outcome.split dest: zn_Get_sorted)

text \<open>
  C32. \<open>GenerateRandomString(n)\<close> reads \<open>n\<close> random bytes and answers the padded base64 text of just
  these bytes, also when the read failed: it decodes to them.  It has \<open>4 * ceil(n / 3)\<close>
  characters, which is more than \<open>n\<close> unless \<open>n\<close> is 0, where the comment has \<open>n\<close>.
\<close>

theorem random_string_length:
  assumes "rand_ok rand_Read"
  shows "\<exists>b err w' s. rand_Read n w = (Returns (b, err), w') \<and> length b = n \<and>
    GenerateRandomString rand_Read n w = (Returns s, w') \<and> base64_decode base64_std True s = Some b \<and>
    length s = 4 * ((n + 2) div 3) \<and> (n < length s \<longleftrightarrow> 0 < n)"
proof -
  from assms obtain b err w' where "rand_Read n w = (Returns (b, err), w')" "length b = n" "\<forall>x\<in>set b. x < 256"
    unfolding rand_ok_def by blast
  with GenerateRandomString_encodes [where rand_Read = rand_Read, OF this] show ?thesis by blast
qed

theorem random_string_length_witness:
  "\<exists>s. GenerateRandomString (\<lambda>n. go_ret (replicate n 255, None)) 16 (0 :: nat) = (Returns s, 0) \<and> length s = 24 \<and>
     base64_decode base64_std True s = Some (replicate 16 255)"
proof -
  have "rand_ok (\<lambda>n. go_ret (replicate n 255, None) :: (nat, nat list \<times> go_error option) go)"
    by (simp add: rand_ok_def go_ret_apply)
  from random_string_length [OF this, of 16 0] show ?thesis
    by (auto simp: go_ret_apply)
qed

text \<open>
  C33. \<open>main\<close> makes its configuration without credentials: it starts, with nil pointers for both
  clients of the key vault.
\<close>

theorem manager_clients_nil:
  assumes "config_New A [] = Inr cfg"
  shows "main_clients A = Returns (Some (cfg, None, None))"
  by (rule main_clients_nil [OF assms])

theorem manager_clients_nil_witness:
  "\<exists>cfg. main_clients demo_auth = Returns (Some (cfg, None, None)) \<and> cfg_key cfg = ''''"
proof -
  have run: "config_New demo_auth [] = Inr (case config_New demo_auth [] of Inr cfg \<Rightarrow> cfg | Inl _ \<Rightarrow> demo_config)"
    and key: "cfg_key (case config_New demo_auth [] of Inr cfg \<Rightarrow> cfg | Inl _ \<Rightarrow> demo_config) = ''''"
    by code_simp+
  show ?thesis by (rule exI, rule conjI [OF manager_clients_nil [OF run] key])
qed

text \<open>
  C34. The manager gives the client of the TLS secrets to the controller of the secrets: every
  reconcile of a secret that has the finalizer fails.
\<close>

theorem manager_fails_secrets:
  assumes "lib_ok (t_lib T)" and "kb_Get kb req KSecret s = (Returns (obj, None), s1)" and "kind_of obj = KSecret"
    and "HasFinalizer (obj_meta obj) finalizerName" and "main_Secret T kb req s = (Returns (res, err), s')"
  shows "err \<noteq> None"
  by (rule main_Secret_fails [OF assms])

theorem manager_fails_secrets_witness:
  "\<forall>S tls marshal. \<exists>res err s'.
     main_Secret (demo_tool S tls marshal) (kube_in_world (one_object_kube (\<lambda>_. True))) (''ns'', ''obj'')
       (None, Some (ObjSecret (demo_secret [finalizerName]))) = (Returns (res, err), s') \<and> err \<noteq> None"
proof (intro allI)
  fix S :: "runtime_object option sdks" and tls marshal
  let ?kb = "kube_in_world (one_object_kube (\<lambda>_. True)) :: (vault_client option \<times> runtime_object option) kube"
  let ?s = "(None, Some (ObjSecret (demo_secret [finalizerName]))) :: vault_client option \<times> runtime_object option"
  have "\<exists>res err s'. main_Secret (demo_tool S tls marshal) ?kb (''ns'', ''obj'') ?s = (Returns (res, err), s')"
    by (simp add: main_Secret_def SecretReconciler_Reconcile_def sync_Reconcile_def sync_ensure_step_def
        kube_in_world_def one_object_kube_def on_snd_def on_fst_def tls_client_def tls_Ensure_def tls_convert_def
        on_world_def on_self_eq tls_ForSubscription_def demo_secret_def demo_meta_def go_simps Let_def)
  then obtain res err s' where run: "main_Secret (demo_tool S tls marshal) ?kb (''ns'', ''obj'') ?s = (Returns (res, err), s')"
    by blast
  have "err \<noteq> None"
    by (rule manager_fails_secrets [OF _ _ _ _ run, of "ObjSecret (demo_secret [finalizerName])" ?s])
      (simp_all add: kube_in_world_def one_object_kube_def on_snd_def demo_secret_def demo_meta_def)
  with run show "\<exists>res err s'. main_Secret (demo_tool S tls marshal) ?kb (''ns'', ''obj'') ?s = (Returns (res, err), s') \<and> err \<noteq> None"
    by blast
qed

text \<open>
  C35. The firewall rules have fifteen workers and one client.  A deletion that runs alone deletes the
  rule and then drops the finalizer.  If between its \<open>ForSubscription\<close> and its \<open>Delete\<close> a second
  worker opens a rule of another subscription, the deletion goes to that subscription: it is
  reported as a success and the finalizer is dropped, while the rule stays.
\<close>

theorem workers_share_clients:
  assumes "lib_ok L" "agent_ok A" "api_server_serves kb req KSQLFirewallRule stored"
    and obj: "stored k = Some (ObjSQLFirewallRule x)" "deleting (ObjSQLFirewallRule x)" "has_finalizer (ObjSQLFirewallRule x)"
    and other: "kb_Get kb other KSQLFirewallRule k = (Returns (ObjSQLFirewallRule y, None), k)"
    and own: "deletes_own (\<lambda>cl. go_bind (fw_sdk_Delete S cl (fws_ResourceGroup (Spec x)) (fws_Server (Spec x)) (fws_Name (Spec x)))
      (\<lambda>err. go_ret (None, err))) ex"
    and subs: "sdk_Subscription (mc_factory c (fws_SubscriptionID (Spec y))) \<noteq>
      sdk_Subscription (mc_factory c (fws_SubscriptionID (Spec x)))"
    and there: "ex (sdk_Subscription (mc_factory c (fws_SubscriptionID (Spec x)))) w"
  shows "cs_MaxConcurrentReconciles SQLFirewallRuleReconciler_SetupWithManager = 15 \<and>
    (\<exists>k' c' w'. SQLFirewallRuleReconciler_Reconcile L (kube_beside kb) (sync_beside (fw_client L A S)) req (k, (c, w)) =
        (Returns (no_requeue, None), (k', (c', w'))) \<and>
      \<not> stored_finalizer (stored k') \<and> \<not> ex (sdk_Subscription (mc_factory c (fws_SubscriptionID (Spec x)))) w') \<and>
    (\<exists>k' c' w'. interrupted L (kube_beside kb) (sync_beside (fw_client L A S)) KSQLFirewallRule req other (k, (c, w)) =
        (Returns (no_requeue, None), (k', (c', w'))) \<and>
      \<not> stored_finalizer (stored k') \<and> ex (sdk_Subscription (mc_factory c (fws_SubscriptionID (Spec x)))) w')"
proof -
  have mine: "is_firewall_rule (fws_SubscriptionID (Spec x))
      (fws_ResourceGroup (Spec x), fws_Server (Spec x), fws_Name (Spec x)) (ObjSQLFirewallRule x)"
    and binds: "sync_ForSubscription (fw_client L A S) (ObjSQLFirewallRule y) =
      on_self (\<lambda>c. authorize_for A c (fws_SubscriptionID (Spec y)))"
    by (simp_all add: is_firewall_rule_def fw_client_def fw_ForSubscription_def fw_convert_def)
  have "cs_MaxConcurrentReconciles SQLFirewallRuleReconciler_SetupWithManager = 15"
    by (simp add: SQLFirewallRuleReconciler_SetupWithManager_def)
  with fw_prompt.alone_run [OF assms(1-3) obj(1) mine obj(2,3) own, of c w]
    fw_prompt.interrupted_run [OF assms(1-3) obj(1) mine obj(2,3) other binds own subs there]
  show ?thesis unfolding SQLFirewallRuleReconciler_Reconcile_def by blast
qed

theorem workers_share_clients_witness:
  "let kb = kube_beside (two_objects_kube (''ns'', ''other'') (ObjSQLFirewallRule (demo_rule ''sub2'')));
       az = sync_beside (fw_client std_lib demo_auth rules_sdk);
       s = (Some (ObjSQLFirewallRule (demo_rule ''sub1'')), (demo_client, {Some ''sub1'', Some ''sub2''}))
   in \<exists>k' c' w'. interrupted std_lib kb az KSQLFirewallRule (''ns'', ''obj'') (''ns'', ''other'') s =
        (Returns (no_requeue, None), (k', (c', w'))) \<and> \<not> stored_finalizer k' \<and> Some ''sub1'' \<in> w'"
proof -
  let ?kb = "two_objects_kube (''ns'', ''other'') (ObjSQLFirewallRule (demo_rule ''sub2''))"
  have "kb_Get ?kb (''ns'', ''other'') KSQLFirewallRule (Some (ObjSQLFirewallRule (demo_rule ''sub1''))) =
      (Returns (ObjSQLFirewallRule (demo_rule ''sub2''), None), Some (ObjSQLFirewallRule (demo_rule ''sub1'')))"
    by (simp add: two_objects_kube_def go_ret_apply)
  note run = workers_share_clients [OF lib_ok_std_lib agent_ok_demo two_objects_kube_serves _ _ _ this, where ex = "(\<in>)"
      and S = rules_sdk and x = "demo_rule ''sub1''" and c = demo_client and w = "{Some ''sub1'', Some ''sub2''}"
      and req = "(''ns'', ''obj'')"]
  show ?thesis unfolding Let_def
    using run rules_ok
    by (simp add: demo_rule_def demo_meta_def demo_client_def rg_NewWithFactory_def new_mgmt_client_def demo_factory_def)
qed

text \<open>
  C36. A client whose credentials are incomplete is bound to its subscription without an authorizer,
  and \<open>ForSubscription\<close> reports no error (the \<open>err\<close> of \<open>AuthorizeClientFromArgs\<close> is shadowed).
\<close>

theorem unauthorized_silently:
  assumes "GetAuthorizerFromArgs A (mc_config c) = Inl err"
  shows "authorize_for A c sub = (c\<lparr>mc_internal := mc_factory c sub\<rparr>, None)"
  by (rule authorize_for_silent [OF assms])

theorem unauthorized_silently_witness:
  "ac_Authorizer (sdk_Client (mc_internal (fst (authorize_for demo_auth
      (rg_NewWithFactory (demo_config\<lparr>cfg_key := ''''\<rparr>) demo_factory) ''sub'')))) = None \<and>
   snd (authorize_for demo_auth (rg_NewWithFactory (demo_config\<lparr>cfg_key := ''''\<rparr>) demo_factory) ''sub'') = None"
proof -
  have "GetAuthorizerFromArgs demo_auth (mc_config (rg_NewWithFactory (demo_config\<lparr>cfg_key := ''''\<rparr>) demo_factory)) =
      Inl (ErrorText ''app, tenant, and key must all be provided as options for authenticating with args'')"
    by code_simp
  from unauthorized_silently [OF this] show ?thesis
    by (simp add: rg_NewWithFactory_def new_mgmt_client_def demo_factory_def zero_sdk_client_def)
qed

text \<open>
  C37. For the kinds that live in a key vault the tool declares a second \<open>err\<close> in the case of the
  switch: once there is a client of the API server, \<open>Ensure\<close> never reports a failure.
\<close>

theorem tool_hides_failures:
  assumes "kind_of obj \<in> {KDockerConfig, KSecret, KSecretBundle, KTLSSecret}"
    and "GetKubeclient T w = (Returns None, w1)" "cmd_Ensure T cfg obj w = (Returns err, w')"
  shows "err = None"
  by (rule cmd_Ensure_vault_kinds [OF assms])

theorem tool_hides_failures_witness:
  "\<forall>S tls marshal. \<exists>w'.
     fst (run_client (Some \<lparr>vc_Authorizer = Some (Authorizer 5)\<rparr>) (EnsureSync std_lib patient_backoff
            (secret_client std_lib (s_kube S) locked_vault) (ObjSecret (demo_secret []))) (0 :: nat)) =
       Returns (Some WaitTimeout) \<and>
     cmd_Ensure (demo_tool (S\<lparr>s_secrets := locked_vault\<rparr>) tls marshal) demo_config (ObjSecret (demo_secret [])) 0 =
       (Returns None, w')"
proof (intro allI)
  fix S :: "nat sdks" and tls marshal
  let ?T = "demo_tool (S\<lparr>s_secrets := locked_vault\<rparr>) tls marshal"
  let ?run = "run_client (Some \<lparr>vc_Authorizer = Some (Authorizer 5)\<rparr>) (EnsureSync std_lib patient_backoff
            (secret_client std_lib (s_kube S) locked_vault) (ObjSecret (demo_secret []))) (0 :: nat)"
  have run: "fst ?run = Returns (Some WaitTimeout)" by code_simp
  have new: "secrets_New demo_auth demo_config False = (Some \<lparr>vc_Authorizer = Some (Authorizer 5)\<rparr>, None)"
    by code_simp
  have vault: "bo_vault ?T = patient_backoff" by (simp add: demo_tool_def)
  obtain err w' where "cmd_Ensure ?T demo_config (ObjSecret (demo_secret [])) 0 = (Returns err, w')"
    using run
    by (cases ?run) (simp add: cmd_Ensure_def ensure_switch_def ensure_vault_def new vault Let_def go_simps)
  moreover from tool_hides_failures [OF _ _ this] have "err = None" by (simp add: go_ret_apply)
  ultimately show "\<exists>w'. fst ?run = Returns (Some WaitTimeout) \<and>
      cmd_Ensure ?T demo_config (ObjSecret (demo_secret [])) 0 = (Returns None, w')"
    using run by blast
qed

text \<open>
  C38. Kinds the \<open>Delete\<close> command has no case for, and those whose case is empty, are reported as
  deleted although nothing was done: the world is as \<open>GetKubeclient\<close> left it.
\<close>

theorem tool_ignores_deletes:
  assumes "kind_of obj \<in> {KTrafficManager, KRedisKey, KServiceBusKey, KPublicIP, KSecurityGroup, KStorageAccount,
      KSQLFirewallRule, KVMScaleSet, KDeployment}"
    and "GetKubeclient T w = (Returns None, w1)"
  shows "cmd_Delete T cfg obj w = (Returns None, w1)"
  by (rule cmd_Delete_ignored_kinds [OF assms])

theorem tool_ignores_deletes_witness:
  "\<forall>S tls marshal w. cmd_Delete (demo_tool S tls marshal) demo_config (ObjTrafficManager (demo_tm [finalizerName] None)) w =
     (Returns None, w)"
  by (intro allI tool_ignores_deletes) (simp_all add: go_ret_apply)

text \<open>
  C39. When Azure refuses to create a SQL server, \<open>Ensure\<close> of the server reports success: the error
  of \<open>CreateOrUpdate\<close> is dropped (\<open>return nil\<close>).
\<close>

theorem sql_refusal_lost:
  assumes "lib_ok L"
    and "sql_sdk_Get S (mc_internal (sqc_mgmt c)) (sqls_ResourceGroup (Spec x)) (sqls_Name (Spec x)) w = (Returns (remote, err), w1)"
    and "sqlr_Response remote = Some StatusNotFound"
    and "sql_ensureSecret L K S (sql_SetStatus x remote) w1 = (Returns (Some secret, None), w2)"
    and "sql_sdk_CreateOrUpdate S (mc_internal (sqc_mgmt c)) (sqls_ResourceGroup (Spec x)) (sqls_Name (Spec x))
      (sql_wanted x secret sql_NewSpec) w2 = (Returns (future, Some refused), w3)"
  shows "sql_Ensure L K fw S (ObjSQLServer x) (c, w) = (Returns (ObjSQLServer (sql_SetStatus x remote), None), (c, w3))"
  by (rule sql_Ensure_create_error [OF assms])

theorem sql_refusal_lost_witness:
  "\<forall>fw. \<exists>obj. sql_Ensure std_lib map_secret_ops fw refusing_sql_sdk (ObjSQLServer demo_sql)
      (\<lparr>sqc_mgmt = demo_client, sqc_firewalls = demo_client\<rparr>, [(''ns'', ''srv'') \<mapsto> new_secret ''srv'' ''ns'']) =
    (Returns (obj, None), (\<lparr>sqc_mgmt = demo_client, sqc_firewalls = demo_client\<rparr>, [(''ns'', ''srv'') \<mapsto> new_secret ''srv'' ''ns'']))"
proof (intro allI)
  fix fw :: "(mgmt_client \<times> (namespaced_name \<rightharpoonup> k8s_secret)) SyncClient"
  let ?w = "[(''ns'', ''srv'') \<mapsto> new_secret ''srv'' ''ns'']"
  let ?c = "\<lparr>sqc_mgmt = demo_client, sqc_firewalls = demo_client\<rparr>"
  let ?remote = "sql_NewSpec\<lparr>sqlr_Response := Some 404\<rparr>"
  have secret: "sql_ensureSecret std_lib map_secret_ops refusing_sql_sdk (sql_SetStatus demo_sql ?remote) ?w =
      (Returns (Some (new_secret ''srv'' ''ns''), None), ?w)"
    by (rule sql_ensureSecret_existing [OF lib_ok_std_lib])
      (simp add: map_secret_ops_def demo_sql_def demo_meta_def)
  have "sql_Ensure std_lib map_secret_ops fw refusing_sql_sdk (ObjSQLServer demo_sql) (?c, ?w) =
      (Returns (ObjSQLServer (sql_SetStatus demo_sql ?remote), None), (?c, ?w))"
    by (rule sql_refusal_lost [OF lib_ok_std_lib _ _ secret])
      (simp_all add: refusing_sql_sdk_def go_ret_apply StatusNotFound_def)
  then show "\<exists>obj. sql_Ensure std_lib map_secret_ops fw refusing_sql_sdk (ObjSQLServer demo_sql) (?c, ?w) =
      (Returns (obj, None), (?c, ?w))" by blast
qed

text \<open>
  C40. \<open>NeedsUpdate\<close> compares the location of a cache the wrong way round: it asks for an update when
  the names or families of the SKUs differ, when the non-SSL port differs, or when the location is
  the wanted one.  So a cache in its own location is never reported as done, and each \<open>Ensure\<close> of
  one that is provisioned writes it again, as the spec has it, once its keys are copied.  All this
  for a cache whose SKU, if it has one, has a capacity: one without makes \<open>NeedsUpdate\<close> panic.
\<close>

theorem redis_never_done:
  assumes "lib_ok L"
    and "rd_sdk_Get S (mc_internal c) (rds_ResourceGroup (Spec x)) (rds_Name (Spec x)) w = (Returns (remote, None), w1)"
    and "rdr_Properties remote = Some p" "\<And>sku. rdp_Sku p = Some sku \<Longrightarrow> rdsku_Capacity sku \<noteq> None"
  shows "redis_NeedsUpdate x remote w1 = (Returns
      ((\<exists>sku. rdp_Sku p = Some sku \<and> \<not> (EqualFold (rsku_Name (rds_SKU (Spec x))) (rdsku_Name sku) \<and>
          EqualFold (rsku_Family (rds_SKU (Spec x))) (rdsku_Family sku))) \<or>
       (\<exists>b. rdp_EnableNonSslPort p = Some b \<and> b \<noteq> rds_EnableNonSslPort (Spec x)) \<or>
       (\<exists>l. rdr_Location remote = Some l \<and> EqualFold l (rds_Location (Spec x)))), w1) \<and>
    (\<forall>l. rdr_Location remote = Some l \<and> EqualFold l (rds_Location (Spec x)) \<longrightarrow>
      (\<forall>obj' finished err w'. redis_Ensure L K S c (ObjRedis x) w = (Returns (obj', finished, err), w') \<longrightarrow> \<not> finished) \<and>
      (\<forall>w2. rdr_Response remote \<noteq> Some StatusNotFound \<and> rdp_ProvisioningState p = ''Succeeded'' \<and>
          (case K of None \<Rightarrow> go_ret None | Some K' \<Rightarrow> redis_SyncSecrets L K' S c x) w1 = (Returns None, w2) \<longrightarrow>
        redis_Ensure L K S c (ObjRedis x) w =
          go_bind (rd_sdk_Create S (mc_internal c) (rds_ResourceGroup (Spec x)) (rds_Name (Spec x))
              \<lparr>rdcp_Location = rds_Location (Spec x), rdcp_EnableNonSslPort = rds_EnableNonSslPort (Spec x),
               rdcp_Sku = \<lparr>rdsku_Name = rsku_Name (rds_SKU (Spec x)), rdsku_Family = rsku_Family (rds_SKU (Spec x)),
                 rdsku_Capacity = Some (rsku_Capacity (rds_SKU (Spec x)))\<rparr>\<rparr>)
            (\<lambda>err. go_ret (ObjRedis (redis_SetStatus x remote), False, err)) w2))"
proof (intro conjI allI impI)
  show "redis_NeedsUpdate x remote w1 = (Returns
      ((\<exists>sku. rdp_Sku p = Some sku \<and> \<not> (EqualFold (rsku_Name (rds_SKU (Spec x))) (rdsku_Name sku) \<and>
          EqualFold (rsku_Family (rds_SKU (Spec x))) (rdsku_Family sku))) \<or>
       (\<exists>b. rdp_EnableNonSslPort p = Some b \<and> b \<noteq> rds_EnableNonSslPort (Spec x)) \<or>
       (\<exists>l. rdr_Location remote = Some l \<and> EqualFold l (rds_Location (Spec x)))), w1)"
    by (subst redis_NeedsUpdate_eq [OF assms(3,4)], assumption, rule go_ret_apply)
qed (erule conjE, (rule redis_Ensure_never_done [OF assms]; assumption),
  (elim conjE, rule redis_Ensure_writes_again [OF assms(1,2) _ _ assms(3,4)]; assumption))

theorem redis_never_done_witness:
  "\<forall>ws. \<exists>obj'. redis_Ensure std_lib None writing_redis_sdk demo_client (ObjRedis demo_redis) ws =
     (Returns (obj', False, None),
      \<lparr>rdcp_Location = ''westus2'', rdcp_EnableNonSslPort = False,
       rdcp_Sku = \<lparr>rdsku_Name = ''Basic'', rdsku_Family = ''C'', rdsku_Capacity = Some 1\<rparr>\<rparr> # ws)"
proof
  fix ws
  let ?p = "\<lparr>rdp_ProvisioningState = ''Succeeded'',
    rdp_Sku = Some \<lparr>rdsku_Name = ''Basic'', rdsku_Family = ''C'', rdsku_Capacity = Some 1\<rparr>, rdp_EnableNonSslPort = Some False\<rparr>"
  have get: "rd_sdk_Get writing_redis_sdk (mc_internal demo_client) (rds_ResourceGroup (Spec demo_redis))
      (rds_Name (Spec demo_redis)) ws = (Returns (ready_redis\<lparr>rdr_Location := Some ''westus2''\<rparr>, None), ws)"
    by (simp add: writing_redis_sdk_def ready_redis_sdk_def go_ret_apply)
  show "\<exists>obj'. redis_Ensure std_lib None writing_redis_sdk demo_client (ObjRedis demo_redis) ws =
     (Returns (obj', False, None),
      \<lparr>rdcp_Location = ''westus2'', rdcp_EnableNonSslPort = False,
       rdcp_Sku = \<lparr>rdsku_Name = ''Basic'', rdsku_Family = ''C'', rdsku_Capacity = Some 1\<rparr>\<rparr> # ws)"
    using redis_never_done [OF lib_ok_std_lib get, of ?p None]
    by (simp add: ready_redis_def demo_redis_def EqualFold_def StatusNotFound_def go_ret_apply go_bind_apply writing_redis_sdk_def)
qed

end
